(* ===== verification/Radar_Prelude.thy ===== *)
theory Radar_Prelude
  imports Complex_Main "HOL-Library.List_Lexorder" "HOL-Library.Char_ord"
    "HOL-Library.Product_Lexorder"
begin

text \<open>
  The ground the component theories stand on: the Python values and exceptions the program
  works with, the string and number operations of Python it calls, and the generic lemmas
  (first-occurrence deduplication, bounded selection, keyed tables, sums as results) that
  the components share.

  A Python \<^verbatim>\<open>str\<close> is a \<^typ>\<open>string\<close> whose characters are the code points 0 to 255
  (Latin-1); \<^verbatim>\<open>bytes\<close> is a list of naturals below 256; \<^verbatim>\<open>int\<close> is \<^typ>\<open>int\<close>; a JSON
  document that \<^verbatim>\<open>json.loads\<close> returned is a value of type \<open>json\<close> below (numbers with a
  fraction do not occur in the JSON-RPC payloads the program reads and are left out).
  A call that may raise returns \<open>exn + 'a\<close>: \<open>Inl\<close> is the class of the exception raised.
\<close>

section \<open>Hints\<close>

named_theorems result_simps \<open>evaluation of the result type\<close>

section \<open>Exceptions and results\<close>

datatype exn =
    ValueError | TypeError | KeyError | AttributeError | IndexError
  | RuntimeError | RpcError | ReadOnlyViolation | HttpError
  | HistorySourceError string | ConfigurationError | IntegrityError

type_synonym 'a res = "exn + 'a"

text \<open>The \<^verbatim>\<open>except\<close> clauses name a class and catch its subclasses
  (\<^verbatim>\<open>rpc.py\<close>, \<^verbatim>\<open>http.py\<close> and \<^verbatim>\<open>history.py\<close> derive theirs from \<^verbatim>\<open>RuntimeError\<close>).\<close>

fun is_rpc_error :: "exn \<Rightarrow> bool" where
  "is_rpc_error RpcError = True"
| "is_rpc_error ReadOnlyViolation = True"
| "is_rpc_error _ = False"

fun is_runtime_error :: "exn \<Rightarrow> bool" where
  "is_runtime_error RuntimeError = True"
| "is_runtime_error RpcError = True"
| "is_runtime_error ReadOnlyViolation = True"
| "is_runtime_error HttpError = True"
| "is_runtime_error (HistorySourceError _) = True"
| "is_runtime_error _ = False"

text \<open>\<^verbatim>\<open>ConfigurationError\<close> derives from \<^verbatim>\<open>ValueError\<close> in \<^verbatim>\<open>config.py\<close>.\<close>

fun is_value_error :: "exn \<Rightarrow> bool" where
  "is_value_error ValueError = True"
| "is_value_error ConfigurationError = True"
| "is_value_error _ = False"

definition and_then :: "'e + 'a \<Rightarrow> ('a \<Rightarrow> 'e + 'b) \<Rightarrow> 'e + 'b" where
  "and_then r f = (case r of Inl e \<Rightarrow> Inl e | Inr x \<Rightarrow> f x)"

lemma and_then_simps [simp, result_simps]:
  "and_then (Inl e) f = Inl e"
  "and_then (Inr x) f = f x"
  by (simp_all add: and_then_def)

lemma and_then_eq_Inr: "and_then r f = Inr y \<longleftrightarrow> (\<exists>x. r = Inr x \<and> f x = Inr y)"
  by (cases r) simp_all

lemma and_then_eq_Inl:
  "and_then r f = Inl e \<longleftrightarrow> r = Inl e \<or> (\<exists>x. r = Inr x \<and> f x = Inl e)"
  by (cases r) simp_all

text \<open>A loop body that may raise, run over a list, collecting the results.\<close>

fun traverse :: "('a \<Rightarrow> 'e + 'b) \<Rightarrow> 'a list \<Rightarrow> 'e + 'b list" where
  "traverse f [] = Inr []"
| "traverse f (x # xs) = and_then (f x) (\<lambda>y. and_then (traverse f xs) (\<lambda>ys. Inr (y # ys)))"

lemma traverse_length: "traverse f xs = Inr ys \<Longrightarrow> length ys = length xs"
  by (induction xs arbitrary: ys) (auto simp: and_then_eq_Inr)

lemma traverse_member: "traverse f xs = Inr ys \<Longrightarrow> x \<in> set xs \<Longrightarrow> f x = Inr y \<Longrightarrow> y \<in> set ys"
  by (induction xs arbitrary: ys) (auto simp: and_then_eq_Inr)

lemma traverse_Inr_map: "(\<And>x. x \<in> set xs \<Longrightarrow> f x = Inr (g x)) \<Longrightarrow> traverse f xs = Inr (map g xs)"
  by (induction xs) simp_all

section \<open>JSON values\<close>

datatype json =
    JNull
  | JBool bool
  | JInt int
  | JStr string
  | JList "json list"
  | JObj "(string \<times> json) list"

type_synonym dict = "(string \<times> json) list"

text \<open>\<^verbatim>\<open>d.get(k)\<close>: \<^verbatim>\<open>None\<close> is \<^const>\<open>JNull\<close>.\<close>

definition dget :: "dict \<Rightarrow> string \<Rightarrow> json" where
  "dget d k = (case map_of d k of None \<Rightarrow> JNull | Some v \<Rightarrow> v)"

definition has_key :: "dict \<Rightarrow> string \<Rightarrow> bool" where
  "has_key d k = (map_of d k \<noteq> None)"

fun truthy :: "json \<Rightarrow> bool" where
  "truthy JNull = False"
| "truthy (JBool b) = b"
| "truthy (JInt i) = (i \<noteq> 0)"
| "truthy (JStr s) = (s \<noteq> [])"
| "truthy (JList xs) = (xs \<noteq> [])"
| "truthy (JObj d) = (d \<noteq> [])"

text \<open>Python's \<^verbatim>\<open>a or b\<close>.\<close>

definition py_or :: "json \<Rightarrow> json \<Rightarrow> json" where
  "py_or a b = (if truthy a then a else b)"

fun is_dict :: "json \<Rightarrow> bool" where
  "is_dict (JObj d) = True"
| "is_dict _ = False"

fun dict_of :: "json \<Rightarrow> dict option" where
  "dict_of (JObj d) = Some d"
| "dict_of _ = None"

fun list_of :: "json \<Rightarrow> json list option" where
  "list_of (JList xs) = Some xs"
| "list_of _ = None"

text \<open>\<^verbatim>\<open>[item for item in xs if isinstance(item, dict)]\<close>\<close>

fun only_dicts :: "json list \<Rightarrow> dict list" where
  "only_dicts [] = []"
| "only_dicts (JObj d # xs) = d # only_dicts xs"
| "only_dicts (_ # xs) = only_dicts xs"

lemma length_only_dicts: "length (only_dicts xs) \<le> length xs"
  by (induction xs rule: only_dicts.induct) auto

section \<open>Strings\<close>

definition code_pt :: "char \<Rightarrow> nat" where
  "code_pt c = of_char c"

definition lower_char :: "char \<Rightarrow> char" where
  "lower_char c = (let n = code_pt c in
     if (65 \<le> n \<and> n \<le> 90) \<or> (192 \<le> n \<and> n \<le> 222 \<and> n \<noteq> 215) then char_of (n + 32) else c)"

definition lower :: "string \<Rightarrow> string" where
  "lower s = map lower_char s"

text \<open>\<^verbatim>\<open>str.upper\<close>; the two Latin-1 letters whose upper case lies beyond code point 255
  (U+00B5 and U+00FF) are left as they are.\<close>

definition upper_char :: "char \<Rightarrow> string" where
  "upper_char c = (let n = code_pt c in
     if n = 223 then ''SS''
     else if (97 \<le> n \<and> n \<le> 122) \<or> (224 \<le> n \<and> n \<le> 254 \<and> n \<noteq> 247) then [char_of (n - 32)]
     else [c])"

definition upper :: "string \<Rightarrow> string" where
  "upper s = concat (map upper_char s)"

definition is_space :: "char \<Rightarrow> bool" where
  "is_space c = (let n = code_pt c in
     (9 \<le> n \<and> n \<le> 13) \<or> (28 \<le> n \<and> n \<le> 32) \<or> n = 133 \<or> n = 160)"

definition strip :: "string \<Rightarrow> string" where
  "strip s = rev (dropWhile is_space (rev (dropWhile is_space s)))"

text \<open>\<^verbatim>\<open>s.split()\<close> and \<^verbatim>\<open>" ".join(s.split())\<close>: runs of white space become one blank.\<close>

fun words_acc :: "string \<Rightarrow> string \<Rightarrow> string list" where
  "words_acc w [] = (if w = [] then [] else [rev w])"
| "words_acc w (c # cs) =
     (if is_space c then (if w = [] then words_acc [] cs else rev w # words_acc [] cs)
      else words_acc (c # w) cs)"

definition split_words :: "string \<Rightarrow> string list" where
  "split_words s = words_acc [] s"

fun join :: "string \<Rightarrow> string list \<Rightarrow> string" where
  "join sep [] = []"
| "join sep [s] = s"
| "join sep (s # t # ts) = s @ sep @ join sep (t # ts)"

definition squeeze :: "string \<Rightarrow> string" where
  "squeeze s = join '' '' (split_words s)"

definition startswith :: "string \<Rightarrow> string \<Rightarrow> bool" where
  "startswith p s = (take (length p) s = p)"

definition removeprefix :: "string \<Rightarrow> string \<Rightarrow> string" where
  "removeprefix p s = (if startswith p s then drop (length p) s else s)"

text \<open>\<^verbatim>\<open>s[-n:]\<close> for a positive \<open>n\<close>.\<close>

definition last_n :: "nat \<Rightarrow> 'a list \<Rightarrow> 'a list" where
  "last_n n xs = drop (length xs - n) xs"

lemma length_lower [simp]: "length (lower s) = length s"
  by (simp add: lower_def)

section \<open>Numbers in text\<close>

fun nat_digits :: "nat \<Rightarrow> nat \<Rightarrow> nat list" where
  "nat_digits b n = (if b < 2 \<or> n < b then [n] else nat_digits b (n div b) @ [n mod b])"

declare nat_digits.simps [simp del]

definition digit_char :: "nat \<Rightarrow> char" where
  "digit_char d = (if d < 10 then char_of (48 + d) else char_of (87 + d))"

definition nat_str :: "nat \<Rightarrow> string" where
  "nat_str n = map digit_char (nat_digits 10 n)"

text \<open>\<^verbatim>\<open>str(i)\<close> and \<^verbatim>\<open>hex(i)\<close>\<close>

definition int_str :: "int \<Rightarrow> string" where
  "int_str i = (if i < 0 then ''-'' @ nat_str (nat (- i)) else nat_str (nat i))"

definition hex_digits :: "nat \<Rightarrow> string" where
  "hex_digits n = map digit_char (nat_digits 16 n)"

definition int_to_hex :: "int \<Rightarrow> string" where
  "int_to_hex i = (if i < 0 then ''-0x'' @ hex_digits (nat (- i)) else ''0x'' @ hex_digits (nat i))"

definition digit_of :: "nat \<Rightarrow> char \<Rightarrow> nat option" where
  "digit_of b c = (let n = code_pt c;
       v = (if 48 \<le> n \<and> n \<le> 57 then n - 48
            else if 97 \<le> n \<and> n \<le> 122 then n - 87
            else if 65 \<le> n \<and> n \<le> 90 then n - 55 else 99)
     in if v < b then Some v else None)"

text \<open>The digits of \<^verbatim>\<open>int(s, base)\<close>: single underscores may separate digits.\<close>

fun parse_tail :: "nat \<Rightarrow> nat \<Rightarrow> string \<Rightarrow> nat option" where
  "parse_tail b acc [] = Some acc"
| "parse_tail b acc (c # cs) =
     (if c = CHR ''_'' then
        (case cs of [] \<Rightarrow> None
         | d # ds \<Rightarrow> (case digit_of b d of None \<Rightarrow> None | Some v \<Rightarrow> parse_tail b (acc * b + v) ds))
      else (case digit_of b c of None \<Rightarrow> None | Some v \<Rightarrow> parse_tail b (acc * b + v) cs))"

definition parse_digits :: "nat \<Rightarrow> string \<Rightarrow> nat option" where
  "parse_digits b s = (case s of [] \<Rightarrow> None
     | c # cs \<Rightarrow> (case digit_of b c of None \<Rightarrow> None | Some v \<Rightarrow> parse_tail b v cs))"

definition split_sign :: "string \<Rightarrow> bool \<times> string" where
  "split_sign s = (case s of [] \<Rightarrow> (False, [])
     | c # cs \<Rightarrow> (if c = CHR ''-'' then (True, cs) else if c = CHR ''+'' then (False, cs) else (False, s)))"

definition with_sign :: "bool \<Rightarrow> nat option \<Rightarrow> int res" where
  "with_sign neg r = (case r of None \<Rightarrow> Inl ValueError
     | Some n \<Rightarrow> Inr (if neg then - int n else int n))"

definition drop_underscore :: "string \<Rightarrow> string" where
  "drop_underscore s = (if startswith ''_'' s then drop 1 s else s)"

text \<open>\<^verbatim>\<open>int(s, 16)\<close>, \<^verbatim>\<open>int(s)\<close> and \<^verbatim>\<open>int(s, 0)\<close>\<close>

definition py_int16 :: "string \<Rightarrow> int res" where
  "py_int16 s = (let (neg, d) = split_sign (strip s) in
     with_sign neg (if startswith ''0x'' d \<or> startswith ''0X'' d
                 then parse_digits 16 (drop_underscore (drop 2 d)) else parse_digits 16 d))"

definition py_int10 :: "string \<Rightarrow> int res" where
  "py_int10 s = (let (neg, d) = split_sign (strip s) in with_sign neg (parse_digits 10 d))"

definition py_int0 :: "string \<Rightarrow> int res" where
  "py_int0 s = (let (neg, d) = split_sign (strip s); p = lower (take 2 d) in
     with_sign neg
       (if p = ''0x'' then parse_digits 16 (drop_underscore (drop 2 d))
        else if p = ''0o'' then parse_digits 8 (drop_underscore (drop 2 d))
        else if p = ''0b'' then parse_digits 2 (drop_underscore (drop 2 d))
        else case parse_digits 10 d of None \<Rightarrow> None
          | Some n \<Rightarrow> if startswith ''0'' d \<and> n \<noteq> 0 then None else Some n))"

section \<open>Bytes\<close>

type_synonym bytes = "nat list"

definition fromhex_space :: "char \<Rightarrow> bool" where
  "fromhex_space c = (let n = code_pt c in (9 \<le> n \<and> n \<le> 13) \<or> n = 32)"

text \<open>\<^verbatim>\<open>bytes.fromhex\<close>: pairs of hexadecimal digits, ASCII white space between pairs skipped.\<close>

fun fromhex :: "string \<Rightarrow> bytes option" where
  "fromhex [] = Some []"
| "fromhex [c] = (if fromhex_space c then Some [] else None)"
| "fromhex (c # d # cs) =
     (if fromhex_space c then fromhex (d # cs)
      else case digit_of 16 c of None \<Rightarrow> None
      | Some h \<Rightarrow> (case digit_of 16 d of None \<Rightarrow> None
         | Some l \<Rightarrow> map_option (\<lambda>bs. (16 * h + l) # bs) (fromhex cs)))"

definition byte_hex :: "nat \<Rightarrow> string" where
  "byte_hex n = [digit_char (n div 16), digit_char (n mod 16)]"

text \<open>\<^verbatim>\<open>raw.hex()\<close> and \<^verbatim>\<open>int.from_bytes(raw, "big")\<close>\<close>

definition hex_of :: "bytes \<Rightarrow> string" where
  "hex_of bs = concat (map byte_hex bs)"

definition from_be :: "bytes \<Rightarrow> nat" where
  "from_be bs = foldl (\<lambda>acc x. acc * 256 + x) 0 bs"

definition from_le :: "bytes \<Rightarrow> nat" where
  "from_le bs = from_be (rev bs)"

definition wf_bytes :: "bytes \<Rightarrow> bool" where
  "wf_bytes bs = (\<forall>x \<in> set bs. x < 256)"

definition is_hex :: "char \<Rightarrow> bool" where
  "is_hex c = (digit_of 16 c \<noteq> None)"

text \<open>\<^verbatim>\<open>re.fullmatch(r"^0x[0-9a-fA-F]{n}$", s)\<close>\<close>

definition is_hex_string :: "nat \<Rightarrow> string \<Rightarrow> bool" where
  "is_hex_string n s = (length s = n + 2 \<and> startswith ''0x'' s \<and> list_all is_hex (drop 2 s))"

definition is_address :: "string \<Rightarrow> bool" where
  "is_address s = is_hex_string 40 s"

definition ZERO_ADDRESS :: string where
  "ZERO_ADDRESS = ''0x'' @ replicate 40 (CHR ''0'')"

section \<open>\<open>str\<close> and \<open>repr\<close>\<close>

definition hex2 :: "nat \<Rightarrow> string" where
  "hex2 n = [digit_char (n div 16), digit_char (n mod 16)]"

definition repr_char :: "char \<Rightarrow> char \<Rightarrow> string" where
  "repr_char q c = (let n = code_pt c in
     if c = q \<or> n = 92 then [char_of (92::nat), c]
     else if n = 9 then [char_of (92::nat), CHR ''t'']
     else if n = 10 then [char_of (92::nat), CHR ''n'']
     else if n = 13 then [char_of (92::nat), CHR ''r'']
     else if n < 32 \<or> (127 \<le> n \<and> n \<le> 160) \<or> n = 173
       then char_of (92::nat) # CHR ''x'' # hex2 n
     else [c])"

text \<open>Single quotes, unless the text has one and no double quote.\<close>

definition repr_str :: "string \<Rightarrow> string" where
  "repr_str s = (let sq = char_of (39::nat); dq = char_of (34::nat);
       q = (if sq \<in> set s \<and> dq \<notin> set s then dq else sq)
     in q # concat (map (repr_char q) s) @ [q])"

fun py_repr :: "json \<Rightarrow> string" where
  "py_repr JNull = ''None''"
| "py_repr (JBool b) = (if b then ''True'' else ''False'')"
| "py_repr (JInt i) = int_str i"
| "py_repr (JStr s) = repr_str s"
| "py_repr (JList xs) = ''['' @ join '', '' (map py_repr xs) @ '']''"
| "py_repr (JObj d) =
     ''{'' @ join '', '' (map (\<lambda>kv. repr_str (fst kv) @ '': '' @ py_repr (snd kv)) d) @ ''}''"

fun py_str :: "json \<Rightarrow> string" where
  "py_str (JStr s) = s"
| "py_str j = py_repr j"

text \<open>\<^verbatim>\<open>str(x or default)\<close>, the program's way to read an optional field as text.\<close>

definition str_or :: "json \<Rightarrow> string \<Rightarrow> string" where
  "str_or j dflt = py_str (py_or j (JStr dflt))"

text \<open>\<^verbatim>\<open>x or None\<close> for a string.\<close>

definition none_if_empty :: "string \<Rightarrow> string option" where
  "none_if_empty s = (if s = [] then None else Some s)"

lemma none_if_empty_simps [simp]:
  "none_if_empty [] = None" "s \<noteq> [] \<Longrightarrow> none_if_empty s = Some s"
  by (simp_all add: none_if_empty_def)

lemma none_if_empty_Some: "none_if_empty s = Some t \<longleftrightarrow> s = t \<and> s \<noteq> []"
  by (auto simp: none_if_empty_def)

section \<open>First occurrences: \<open>dict.fromkeys\<close>\<close>

fun nub_by :: "('a \<Rightarrow> 'k) \<Rightarrow> 'k list \<Rightarrow> 'a list \<Rightarrow> 'a list" where
  "nub_by key seen [] = []"
| "nub_by key seen (x # xs) =
     (if key x \<in> set seen then nub_by key seen xs else x # nub_by key (key x # seen) xs)"

text \<open>\<^verbatim>\<open>tuple(dict.fromkeys(xs))\<close>\<close>

definition fromkeys :: "'a list \<Rightarrow> 'a list" where
  "fromkeys xs = nub_by (\<lambda>x. x) [] xs"

lemma set_nub_by_subset: "set (nub_by key seen xs) \<subseteq> set xs"
  by (induction key seen xs rule: nub_by.induct) auto

lemma keys_nub_by: "key ` set (nub_by key seen xs) = key ` set xs - set seen"
  by (induction key seen xs rule: nub_by.induct) (auto simp: insert_Diff_if)

lemma distinct_nub_by:
  "distinct (map key (nub_by key seen xs)) \<and> key ` set (nub_by key seen xs) \<inter> set seen = {}"
  by (induction key seen xs rule: nub_by.induct) (auto simp: keys_nub_by)

lemma distinct_nub_by_keys: "distinct (map key (nub_by key seen xs))"
  using distinct_nub_by [of key seen xs] by blast

lemma length_nub_by: "length (nub_by key seen xs) \<le> length xs"
  by (induction key seen xs rule: nub_by.induct) auto

lemma sorted_wrt_nub_by: "sorted_wrt P xs \<Longrightarrow> sorted_wrt P (nub_by key seen xs)"
proof (induction key seen xs rule: nub_by.induct)
  case (2 key seen x xs)
  then show ?case using set_nub_by_subset [of key "key x # seen" xs] by auto
qed simp

lemma nub_by_id: "distinct (map key xs) \<Longrightarrow> key ` set xs \<inter> set seen = {} \<Longrightarrow> nub_by key seen xs = xs"
  by (induction key seen xs rule: nub_by.induct) auto

lemma set_fromkeys [simp]: "set (fromkeys xs) = set xs"
  using keys_nub_by [of "\<lambda>x. x" "[]" xs] by (simp add: fromkeys_def)

lemma distinct_fromkeys [simp]: "distinct (fromkeys xs)"
  using distinct_nub_by_keys [of "\<lambda>x. x" "[]" xs] by (simp add: fromkeys_def)

section \<open>Sorting with a key\<close>

lemma set_take_subset_set: "set (take n xs) \<subseteq> set xs"
  by (rule set_take_subset)

lemma sorted_sort_map: "sorted (map f (sort_key f xs))"
  by simp

section \<open>Lists used as tables with a key\<close>

text \<open>A table of the store is the list of its rows in \<^verbatim>\<open>rowid\<close> order. \<open>lookup_row\<close> is
  \<^verbatim>\<open>SELECT ... WHERE key = ?\<close>, \<open>update_row\<close> is \<^verbatim>\<open>UPDATE ... WHERE key = ?\<close>.\<close>

definition lookup_row :: "('r \<Rightarrow> 'k) \<Rightarrow> 'r list \<Rightarrow> 'k \<Rightarrow> 'r option" where
  "lookup_row key rows k = find (\<lambda>r. key r = k) rows"

definition update_row :: "('r \<Rightarrow> 'k) \<Rightarrow> ('r \<Rightarrow> 'r) \<Rightarrow> 'k \<Rightarrow> 'r list \<Rightarrow> 'r list" where
  "update_row key f k rows = map (\<lambda>r. if key r = k then f r else r) rows"

text \<open>\<^verbatim>\<open>INSERT ... ON CONFLICT(key) DO UPDATE\<close>: \<open>merge old new\<close> is the row after a conflict.\<close>

definition upsert_row :: "('r \<Rightarrow> 'k) \<Rightarrow> ('r \<Rightarrow> 'r \<Rightarrow> 'r) \<Rightarrow> 'r \<Rightarrow> 'r list \<Rightarrow> 'r list" where
  "upsert_row key merge new rows =
     (if key new \<in> key ` set rows then update_row key (\<lambda>old. merge old new) (key new) rows
      else rows @ [new])"

text \<open>\<^verbatim>\<open>INSERT OR IGNORE\<close>: the row and whether it was inserted (\<^verbatim>\<open>rowcount == 1\<close>).\<close>

definition insert_or_ignore :: "('r \<Rightarrow> 'k) \<Rightarrow> 'r \<Rightarrow> 'r list \<Rightarrow> 'r list \<times> bool" where
  "insert_or_ignore key new rows =
     (if key new \<in> key ` set rows then (rows, False) else (rows @ [new], True))"

definition keys_distinct :: "('r \<Rightarrow> 'k) \<Rightarrow> 'r list \<Rightarrow> bool" where
  "keys_distinct key rows = distinct (map key rows)"

lemma lookup_row_Nil [simp]: "lookup_row key [] k = None"
  by (simp add: lookup_row_def)

lemma lookup_row_Cons [simp]:
  "lookup_row key (r # rows) k = (if key r = k then Some r else lookup_row key rows k)"
  by (simp add: lookup_row_def)

lemma lookup_row_append:
  "lookup_row key (xs @ ys) k = (case lookup_row key xs k of None \<Rightarrow> lookup_row key ys k | Some r \<Rightarrow> Some r)"
  by (induction xs) auto

lemma lookup_row_None: "lookup_row key rows k = None \<longleftrightarrow> k \<notin> key ` set rows"
  by (induction rows) auto

lemma lookup_row_Some: "lookup_row key rows k = Some r \<Longrightarrow> r \<in> set rows \<and> key r = k"
  by (induction rows) (auto split: if_splits)

lemma lookup_row_in:
  "keys_distinct key rows \<Longrightarrow> r \<in> set rows \<Longrightarrow> lookup_row key rows (key r) = Some r"
  by (induction rows) (auto simp: keys_distinct_def rev_image_eqI)

lemma lookup_update_row:
  assumes "\<And>r. key r = k \<Longrightarrow> key (f r) = k"
  shows "lookup_row key (update_row key f k rows) k' =
     (if k' = k then map_option f (lookup_row key rows k) else lookup_row key rows k')"
  using assms by (induction rows) (auto simp: update_row_def)

lemma keys_update_row:
  assumes "\<And>r. key r = k \<Longrightarrow> key (f r) = k"
  shows "map key (update_row key f k rows) = map key rows"
  using assms by (auto simp: update_row_def)

lemma length_update_row [simp]: "length (update_row key f k rows) = length rows"
  by (simp add: update_row_def)

lemma lookup_upsert_row:
  assumes "\<And>old. key old = key new \<Longrightarrow> key (merge old new) = key new"
  shows "lookup_row key (upsert_row key merge new rows) k =
     (if k = key new
      then Some (case lookup_row key rows k of None \<Rightarrow> new | Some old \<Rightarrow> merge old new)
      else lookup_row key rows k)"
proof (cases "key new \<in> key ` set rows")
  case True
  then obtain old where "lookup_row key rows (key new) = Some old"
    by (metis lookup_row_None not_None_eq)
  with True assms show ?thesis by (simp add: upsert_row_def lookup_update_row)
next
  case False
  then have "lookup_row key rows (key new) = None" by (simp add: lookup_row_None)
  with False show ?thesis by (auto simp: upsert_row_def lookup_row_append split: option.split)
qed

lemma keys_upsert_row:
  assumes "\<And>old. key old = key new \<Longrightarrow> key (merge old new) = key new"
  shows "keys_distinct key rows \<Longrightarrow> keys_distinct key (upsert_row key merge new rows)"
  using assms by (auto simp: upsert_row_def keys_distinct_def keys_update_row)

lemma insert_or_ignore_keys: "keys_distinct key rows \<Longrightarrow> keys_distinct key (fst (insert_or_ignore key new rows))"
  by (auto simp: insert_or_ignore_def keys_distinct_def)

lemma insert_or_ignore_iff: "snd (insert_or_ignore key new rows) \<longleftrightarrow> key new \<notin> key ` set rows"
  by (simp add: insert_or_ignore_def)

lemma insert_or_ignore_lookup:
  "lookup_row key (fst (insert_or_ignore key new rows)) k =
     (case lookup_row key rows k of Some r \<Rightarrow> Some r | None \<Rightarrow> if k = key new then Some new else None)"
proof (cases "key new \<in> key ` set rows")
  case True
  then have "lookup_row key rows (key new) \<noteq> None" by (simp add: lookup_row_None)
  with True show ?thesis by (auto simp: insert_or_ignore_def split: option.split)
next
  case False
  then show ?thesis by (auto simp: insert_or_ignore_def lookup_row_append split: option.split)
qed

lemma insert_or_ignore_new:
  "lookup_row key rows (key r) = None \<Longrightarrow> insert_or_ignore key r rows = (rows @ [r], True)"
  by (simp add: insert_or_ignore_def lookup_row_None)

lemma insert_or_ignore_old:
  "lookup_row key rows (key r) \<noteq> None \<Longrightarrow> insert_or_ignore key r rows = (rows, False)"
  by (simp add: insert_or_ignore_def lookup_row_None)

lemma lookup_row_snoc:
  "lookup_row key rows (key r) = None \<Longrightarrow> lookup_row key (rows @ [r]) = (lookup_row key rows)(key r \<mapsto> r)"
  by (auto simp: fun_eq_iff lookup_row_append split: option.split)

lemma insert_or_ignore_again:
  "insert_or_ignore key new (fst (insert_or_ignore key new rows)) =
     (fst (insert_or_ignore key new rows), False)"
  by (auto simp: insert_or_ignore_def)

section \<open>Hexadecimal text\<close>

lemma digit_of_digit_char: "d < 16 \<Longrightarrow> digit_of 16 (digit_char d) = Some d"
  by (auto simp: digit_of_def digit_char_def code_pt_def Let_def of_char_of)

lemma fromhex_space_digit_char: "d < 16 \<Longrightarrow> \<not> fromhex_space (digit_char d)"
  by (auto simp: fromhex_space_def digit_char_def code_pt_def Let_def of_char_of)

lemma fromhex_byte: "n < 256 \<Longrightarrow> fromhex (byte_hex n @ s) = map_option ((#) n) (fromhex s)"
  by (simp add: byte_hex_def digit_of_digit_char fromhex_space_digit_char)

text \<open>\<^verbatim>\<open>bytes.fromhex(raw.hex()) == raw\<close>\<close>

lemma fromhex_hex_of: "wf_bytes bs \<Longrightarrow> fromhex (hex_of bs) = Some bs"
  by (induction bs) (simp_all add: wf_bytes_def hex_of_def fromhex_byte)

lemma length_hex_of [simp]: "length (hex_of bs) = 2 * length bs"
  by (induction bs) (simp_all add: hex_of_def byte_hex_def)

lemma from_be_snoc: "from_be (bs @ [b]) = from_be bs * 256 + b"
  by (simp add: from_be_def)

lemma from_be_bound: "wf_bytes bs \<Longrightarrow> from_be bs < 256 ^ length bs"
proof (induction bs rule: rev_induct)
  case Nil
  then show ?case by (simp add: from_be_def)
next
  case (snoc b bs)
  then have b: "b < 256" and IH: "from_be bs < 256 ^ length bs"
    by (simp_all add: wf_bytes_def)
  from b have "from_be (bs @ [b]) < Suc (from_be bs) * 256"
    by (simp add: from_be_snoc)
  also have "\<dots> \<le> 256 ^ length bs * 256"
    using IH by (intro mult_le_mono1) simp
  finally show ?case by simp
qed

lemma fromhex_wf: "fromhex s = Some bs \<Longrightarrow> wf_bytes bs"
proof (induction s arbitrary: bs rule: fromhex.induct)
  case (3 c d cs)
  have d16: "v < 16" if "digit_of 16 e = Some v" for e v
    using that by (auto simp: digit_of_def Let_def split: if_splits)
  from 3 d16 show ?case
    by (auto simp: wf_bytes_def split: if_splits option.splits dest!: d16)
qed (auto simp: wf_bytes_def split: if_splits)

section \<open>Numbers written in base sixteen and read back\<close>

lemma nat_digits_bound: "2 \<le> b \<Longrightarrow> d \<in> set (nat_digits b n) \<Longrightarrow> d < b"
proof (induction b n rule: nat_digits.induct)
  case (1 b n)
  then show ?case by (subst (asm) (2) nat_digits.simps) (auto split: if_splits)
qed

lemma nat_digits_value: "2 \<le> b \<Longrightarrow> foldl (\<lambda>a d. a * b + d) 0 (nat_digits b n) = n"
proof (induction b n rule: nat_digits.induct)
  case (1 b n)
  then show ?case by (subst nat_digits.simps) simp
qed

lemma nat_digits_nonempty [simp]: "nat_digits b n \<noteq> []"
  by (subst nat_digits.simps) simp

lemma length_nat_digits: "2 \<le> b \<Longrightarrow> n < b ^ k \<Longrightarrow> 0 < k \<Longrightarrow> length (nat_digits b n) \<le> k"
proof (induction b n arbitrary: k rule: nat_digits.induct)
  case (1 b n)
  show ?case
  proof (cases "n < b")
    case True
    with 1 show ?thesis by (subst nat_digits.simps) simp
  next
    case False
    with 1 have k: "k \<noteq> 1" by (cases "k = 1") auto
    with 1 obtain j where j: "k = Suc j" "0 < j" by (cases k) auto
    with 1 have "n div b < b ^ j" by (simp add: less_mult_imp_div_less mult.commute)
    with 1 False j have "length (nat_digits b (n div b)) \<le> j" by simp
    with False 1 j show ?thesis by (subst nat_digits.simps) simp
  qed
qed

lemma digit_char_not:
  "d < 16 \<Longrightarrow> digit_char d \<noteq> CHR ''_''" "d < 16 \<Longrightarrow> digit_char d \<noteq> CHR ''-''"
  "d < 16 \<Longrightarrow> digit_char d \<noteq> CHR ''+''" "d < 16 \<Longrightarrow> digit_char d \<noteq> CHR ''x''"
  "d < 16 \<Longrightarrow> digit_char d \<noteq> CHR ''X''" "d < 16 \<Longrightarrow> \<not> is_space (digit_char d)"
proof -
  have all: "\<forall>d \<in> set [0..<16]. digit_char d \<notin> {CHR ''_'', CHR ''-'', CHR ''+'', CHR ''x'', CHR ''X''}
      \<and> \<not> is_space (digit_char d)" by code_simp
  show "d < 16 \<Longrightarrow> digit_char d \<noteq> CHR ''_''" "d < 16 \<Longrightarrow> digit_char d \<noteq> CHR ''-''"
    "d < 16 \<Longrightarrow> digit_char d \<noteq> CHR ''+''" "d < 16 \<Longrightarrow> digit_char d \<noteq> CHR ''x''"
    "d < 16 \<Longrightarrow> digit_char d \<noteq> CHR ''X''" "d < 16 \<Longrightarrow> \<not> is_space (digit_char d)"
    using all by auto
qed

lemma parse_tail_digits:
  "(\<forall>d \<in> set ds. d < 16) \<Longrightarrow> parse_tail 16 acc (map digit_char ds) = Some (foldl (\<lambda>a d. a * 16 + d) acc ds)"
  by (induction ds arbitrary: acc) (simp_all add: digit_char_not digit_of_digit_char)

lemma strip_id: "s \<noteq> [] \<Longrightarrow> (\<forall>c \<in> set s. \<not> is_space c) \<Longrightarrow> strip s = s"
proof -
  assume s: "\<forall>c \<in> set s. \<not> is_space c"
  have drop: "dropWhile is_space t = t" if "\<forall>c \<in> set t. \<not> is_space c" for t
    using that by (cases t) auto
  from s show "strip s = s" by (simp add: strip_def drop)
qed

lemma py_int16_digits:
  assumes "ds \<noteq> []" "\<forall>d \<in> set ds. d < 16"
  shows "py_int16 (map digit_char ds) = Inr (int (foldl (\<lambda>a d. a * 16 + d) 0 ds))"
proof -
  obtain e es where ds: "ds = e # es" using assms(1) by (cases ds) auto
  have sp: "strip (map digit_char ds) = map digit_char ds"
    using assms by (intro strip_id) (auto simp: digit_char_not)
  have px: "\<not> startswith ''0x'' (map digit_char ds) \<and> \<not> startswith ''0X'' (map digit_char ds)"
    using assms ds by (cases es) (auto simp: startswith_def digit_char_not)
  have pd: "parse_digits 16 (map digit_char ds) = Some (foldl (\<lambda>a d. a * 16 + d) 0 ds)"
    using assms(2) by (simp add: ds parse_digits_def digit_of_digit_char parse_tail_digits)
  have sg: "split_sign (map digit_char ds) = (False, map digit_char ds)"
    using assms(2) by (simp add: ds split_sign_def digit_char_not)
  show ?thesis by (simp add: py_int16_def sp sg px pd with_sign_def)
qed

text \<open>\<^verbatim>\<open>int(hex(n), 16) == n\<close>\<close>

lemma py_int16_hex:
  assumes "0 \<le> i"
  shows "py_int16 (int_to_hex i) = Inr i"
proof -
  have b: "\<forall>d \<in> set (nat_digits 16 (nat i)). d < 16" by (auto dest: nat_digits_bound [rotated])
  have s0: "\<not> is_space (CHR ''0'')" "\<not> is_space (CHR ''x'')" by code_simp+
  obtain e es where ds: "nat_digits 16 (nat i) = e # es" by (cases "nat_digits 16 (nat i)") auto
  have e: "e < 16" "\<forall>d \<in> set es. d < 16" using b ds by auto
  let ?s = "''0x'' @ map digit_char (nat_digits 16 (nat i))"
  have "strip ?s = ?s" using b s0 by (intro strip_id) (auto simp: digit_char_not)
  moreover have "parse_digits 16 (map digit_char (nat_digits 16 (nat i))) = Some (nat i)"
    using e nat_digits_value [of 16 "nat i"] by (simp add: ds parse_digits_def digit_of_digit_char parse_tail_digits)
  moreover have "\<not> startswith ''_'' (map digit_char (nat_digits 16 (nat i)))"
    using e by (simp add: ds startswith_def digit_char_not)
  moreover have "int_to_hex i = ?s" using assms by (simp add: int_to_hex_def hex_digits_def)
  ultimately show ?thesis
    using assms by (simp add: py_int16_def split_sign_def startswith_def drop_underscore_def with_sign_def)
qed

section \<open>Hexadecimal text of bytes, digit by digit\<close>

definition nibbles :: "bytes \<Rightarrow> nat list" where
  "nibbles raw = concat (map (\<lambda>n. [n div 16, n mod 16]) raw)"

lemma hex_of_nibbles: "hex_of raw = map digit_char (nibbles raw)"
  by (induction raw) (simp_all add: hex_of_def byte_hex_def nibbles_def)

lemma nibbles_bound: "wf_bytes raw \<Longrightarrow> \<forall>d \<in> set (nibbles raw). d < 16"
  by (auto simp: wf_bytes_def nibbles_def)

lemma nibbles_value: "foldl (\<lambda>a d. a * 16 + d) acc (nibbles raw) = foldl (\<lambda>a x. a * 256 + x) acc raw"
proof (induction raw arbitrary: acc)
  case (Cons x raw)
  have eq: "(acc * 16 + x div 16) * 16 + x mod 16 = acc * 256 + x"
    using div_mult_mod_eq [of x 16] by (simp add: algebra_simps)
  have "nibbles (x # raw) = [x div 16, x mod 16] @ nibbles raw" by (simp add: nibbles_def)
  then show ?case by (simp only: foldl_append foldl_Cons foldl_Nil eq Cons.IH)
qed (simp add: nibbles_def)

lemma py_int16_hex_of:
  assumes "wf_bytes raw" "raw \<noteq> []"
  shows "py_int16 (hex_of raw) = Inr (int (from_be raw))"
proof -
  have "nibbles raw \<noteq> []" using assms(2) by (cases raw) (simp_all add: nibbles_def)
  from py_int16_digits [OF this nibbles_bound [OF assms(1)]] show ?thesis
    by (simp add: hex_of_nibbles nibbles_value from_be_def)
qed

lemma lower_digit_char: "d < 16 \<Longrightarrow> lower_char (digit_char d) = digit_char d"
  by (auto simp: lower_char_def digit_char_def code_pt_def Let_def of_char_of)

lemma lower_hex_of: "wf_bytes raw \<Longrightarrow> lower (hex_of raw) = hex_of raw"
  using nibbles_bound by (auto simp: hex_of_nibbles lower_def lower_digit_char)

lemma drop_hex_of: "drop (2 * k) (hex_of raw) = hex_of (drop k raw)"
proof (induction raw arbitrary: k)
  case (Cons x raw)
  then show ?case by (cases k) (simp_all add: hex_of_def byte_hex_def)
qed (simp add: hex_of_def)

lemma is_hex_digit_char: "d < 16 \<Longrightarrow> is_hex (digit_char d)"
  by (simp add: is_hex_def digit_of_digit_char)

lemma hex_of_is_hex: "wf_bytes raw \<Longrightarrow> list_all is_hex (hex_of raw)"
  using nibbles_bound by (auto simp: hex_of_nibbles list_all_iff is_hex_digit_char)

lemma is_address_hex_of: "wf_bytes b \<Longrightarrow> length b = 20 \<Longrightarrow> is_address (''0x'' @ hex_of b)"
  by (simp add: is_address_def is_hex_string_def startswith_def hex_of_is_hex)

lemma lower_append: "lower (s @ t) = lower s @ lower t"
  by (simp add: lower_def)

lemma lower_0x: "lower ''0x'' = ''0x''"
  by code_simp

lemma lower_0x_hex_of: "wf_bytes b \<Longrightarrow> lower (''0x'' @ hex_of b) = ''0x'' @ hex_of b"
  by (simp only: lower_append lower_0x lower_hex_of)

section \<open>Evaluation of characters\<close>

text \<open>Code equations by the bits of a character, which evaluate without the unary numbers of
  the definitions.\<close>

definition letter_bits :: "bool \<Rightarrow> bool \<Rightarrow> bool \<Rightarrow> bool \<Rightarrow> bool \<Rightarrow> bool" where
  "letter_bits b0 b1 b2 b3 b4 \<longleftrightarrow> (b0 \<or> b1 \<or> b2 \<or> b3 \<or> b4) \<and> \<not> (b4 \<and> b3 \<and> (b2 \<or> b1 \<and> b0))"

definition capital_bits :: "bool \<Rightarrow> bool \<Rightarrow> bool \<Rightarrow> bool \<Rightarrow> bool \<Rightarrow> bool \<Rightarrow> bool \<Rightarrow> bool \<Rightarrow> bool" where
  "capital_bits b0 b1 b2 b3 b4 b5 b6 b7 \<longleftrightarrow> b6 \<and> \<not> b5 \<and>
     (if b7 then \<not> (b4 \<and> b2 \<and> b1 \<and> b0) else letter_bits b0 b1 b2 b3 b4)"

lemma lower_char_code [code]:
  "lower_char (Char b0 b1 b2 b3 b4 b5 b6 b7) =
     (if capital_bits b0 b1 b2 b3 b4 b5 b6 b7
      then Char b0 b1 b2 b3 b4 True b6 b7 else Char b0 b1 b2 b3 b4 b5 b6 b7)"
proof -
  have "of_char (lower_char (Char b0 b1 b2 b3 b4 b5 b6 b7)) =
     (of_char (if capital_bits b0 b1 b2 b3 b4 b5 b6 b7
      then Char b0 b1 b2 b3 b4 True b6 b7 else Char b0 b1 b2 b3 b4 b5 b6 b7) :: nat)"
    by (cases b0; cases b1; cases b2; cases b3; cases b4; cases b5; cases b6; cases b7)
      (simp_all add: lower_char_def code_pt_def capital_bits_def letter_bits_def)
  then show ?thesis by (simp only: of_char_eq_iff)
qed

definition bit_nat :: "bool \<Rightarrow> nat \<Rightarrow> nat" where
  "bit_nat b n = (if b then n else 0)"

lemma digit_of_code [code]:
  "digit_of b (Char b0 b1 b2 b3 b4 b5 b6 b7) =
     (let low = bit_nat b0 1 + bit_nat b1 2 + bit_nat b2 4 + bit_nat b3 8;
          v = (if \<not> b7 \<and> \<not> b6 \<and> b5 \<and> b4 \<and> \<not> (b3 \<and> (b2 \<or> b1)) then low
               else if \<not> b7 \<and> b6 \<and> letter_bits b0 b1 b2 b3 b4 then low + bit_nat b4 16 + 9
               else 99)
      in if v < b then Some v else None)"
  by (cases b0; cases b1; cases b2; cases b3; cases b4; cases b5; cases b6; cases b7)
    (simp_all add: digit_of_def code_pt_def letter_bits_def bit_nat_def)

end
