(* ===== verification/Models.thy ===== *)
theory Models
  imports Radar_Prelude
begin

text \<open>
  \<^verbatim>\<open>src/white_radar/models.py\<close>: the severities and incident states, the configuration
  records, the normalized event and its JSON form, and the incident record. SHA-256 is an
  argument (\<open>sha256\<close>, text to hexadecimal digest); a confidence, a Python float, is the
  rational number its literal denotes. Field names carry a prefix per record, since the
  selectors of HOL records share one name space.
\<close>

section \<open>Severity and incident status\<close>

datatype severity = INFORMATIONAL | LOW | MEDIUM | HIGH | CRITICAL

fun severity_value :: "severity \<Rightarrow> string" where
  "severity_value INFORMATIONAL = ''informational''"
| "severity_value LOW = ''low''"
| "severity_value MEDIUM = ''medium''"
| "severity_value HIGH = ''high''"
| "severity_value CRITICAL = ''critical''"

text \<open>\<^verbatim>\<open>Severity(text)\<close>: the member with this value, \<^verbatim>\<open>ValueError\<close> when there is none.\<close>

definition parse_severity :: "string \<Rightarrow> severity res" where
  "parse_severity s =
     (if s = ''informational'' then Inr INFORMATIONAL
      else if s = ''low'' then Inr LOW
      else if s = ''medium'' then Inr MEDIUM
      else if s = ''high'' then Inr HIGH
      else if s = ''critical'' then Inr CRITICAL
      else Inl ValueError)"

datatype incident_status = NEW | ACKNOWLEDGED | INVESTIGATING | MONITORING | RESOLVED | FALSE_POSITIVE

fun status_value :: "incident_status \<Rightarrow> string" where
  "status_value NEW = ''new''"
| "status_value ACKNOWLEDGED = ''acknowledged''"
| "status_value INVESTIGATING = ''investigating''"
| "status_value MONITORING = ''monitoring''"
| "status_value RESOLVED = ''resolved''"
| "status_value FALSE_POSITIVE = ''false_positive''"

definition parse_status :: "string \<Rightarrow> incident_status res" where
  "parse_status s =
     (if s = ''new'' then Inr NEW
      else if s = ''acknowledged'' then Inr ACKNOWLEDGED
      else if s = ''investigating'' then Inr INVESTIGATING
      else if s = ''monitoring'' then Inr MONITORING
      else if s = ''resolved'' then Inr RESOLVED
      else if s = ''false_positive'' then Inr FALSE_POSITIVE
      else Inl ValueError)"

lemma parse_severity_value [simp]: "parse_severity (severity_value s) = Inr s"
  by (cases s) (simp_all add: parse_severity_def)

lemma parse_status_value [simp]: "parse_status (status_value s) = Inr s"
  by (cases s) (simp_all add: parse_status_def)

lemma status_value_inject [simp]: "status_value s = status_value t \<longleftrightarrow> s = t"
  by (metis parse_status_value sum.inject(2))

definition severity_for_score :: "int \<Rightarrow> severity" where
  "severity_for_score score =
     (if score \<ge> 85 then CRITICAL
      else if score \<ge> 70 then HIGH
      else if score \<ge> 50 then MEDIUM
      else if score \<ge> 30 then LOW
      else INFORMATIONAL)"

text \<open>The severities are ordered by urgency.\<close>

fun severity_rank :: "severity \<Rightarrow> nat" where
  "severity_rank INFORMATIONAL = 0"
| "severity_rank LOW = 1"
| "severity_rank MEDIUM = 2"
| "severity_rank HIGH = 3"
| "severity_rank CRITICAL = 4"

instantiation severity :: linorder
begin

definition less_eq_severity :: "severity \<Rightarrow> severity \<Rightarrow> bool" where
  "less_eq_severity a b \<longleftrightarrow> severity_rank a \<le> severity_rank b"

definition less_severity :: "severity \<Rightarrow> severity \<Rightarrow> bool" where
  "less_severity a b \<longleftrightarrow> severity_rank a < severity_rank b"

instance
proof
  fix x y :: severity
  show "x \<le> y \<Longrightarrow> y \<le> x \<Longrightarrow> x = y"
    by (cases x; cases y) (simp_all add: less_eq_severity_def)
qed (auto simp: less_eq_severity_def less_severity_def)

end

lemma severity_for_score_mono: "a \<le> b \<Longrightarrow> severity_for_score a \<le> severity_for_score b"
  by (auto simp: severity_for_score_def less_eq_severity_def)

text \<open>\<^verbatim>\<open>stable_event_id(*parts)\<close>, the parts already turned into text.\<close>

definition stable_event_id :: "(string \<Rightarrow> string) \<Rightarrow> string list \<Rightarrow> string" where
  "stable_event_id sha256 parts = take 24 (sha256 (join ''|'' (map lower parts)))"

section \<open>Configuration records\<close>

record chain_config =
  cc_name :: string
  cc_display_name :: string
  cc_chain_id :: int
  cc_enabled :: bool
  cc_is_testnet :: bool
  cc_rpc_http_env :: string
  cc_rpc_ws_env :: string
  cc_explorer_url :: string
  cc_confirmations :: int
  cc_initial_lookback_blocks :: int
  cc_max_blocks_per_cycle :: int
  cc_monitor_global_upgrades :: bool
  cc_pending_subscription :: string
  cc_trace_internal_creations :: bool
  cc_rpc_http_fallback_envs :: "string list"
  cc_rpc_ws_fallback_envs :: "string list"

record contract_watch =
  cw_chain_id :: int
  cw_address :: string
  cw_protocol :: string
  cw_role :: string
  cw_bounty_url :: string
  cw_contact_uri :: string
  cw_critical_selectors :: "string list"

record deployer_watch =
  dw_chain_id :: int
  dw_address :: string
  dw_label :: string

record contract_metadata =
  cm_verified :: bool
  cm_verification_source :: "string option"
  cm_contract_name :: "string option"
  cm_is_proxy :: bool
  cm_implementation :: "string option"
  cm_admin :: "string option"
  cm_beacon :: "string option"

text \<open>Truth of a \<^verbatim>\<open>str | None\<close> and its text in an f-string.\<close>

definition truthy_opt :: "string option \<Rightarrow> bool" where
  "truthy_opt s = (case s of None \<Rightarrow> False | Some t \<Rightarrow> t \<noteq> [])"

definition opt_fmt :: "string option \<Rightarrow> string" where
  "opt_fmt s = (case s of None \<Rightarrow> ''None'' | Some t \<Rightarrow> t)"

definition opt_json :: "string option \<Rightarrow> json" where
  "opt_json s = (case s of None \<Rightarrow> JNull | Some t \<Rightarrow> JStr t)"

definition opt_int_json :: "int option \<Rightarrow> json" where
  "opt_int_json s = (case s of None \<Rightarrow> JNull | Some t \<Rightarrow> JInt t)"

lemma truthy_opt_simps [simp]:
  "\<not> truthy_opt None" "truthy_opt (Some t) \<longleftrightarrow> t \<noteq> []"
  by (simp_all add: truthy_opt_def)

section \<open>The normalized event\<close>

record radar_event =
  ev_event_id :: string
  ev_observed_at :: string
  ev_event_type :: string
  ev_title :: string
  ev_summary :: string
  ev_chain :: string
  ev_chain_id :: int
  ev_score :: int
  ev_severity :: severity
  ev_confidence :: rat
  ev_reasons :: "string list"
  ev_recommended_action :: string
  ev_subject_address :: "string option"
  ev_deployer_address :: "string option"
  ev_tx_hash :: "string option"
  ev_block_number :: "int option"
  ev_evidence :: dict
  ev_metadata :: dict

text \<open>The values of the dictionary: JSON values and one float.\<close>

datatype field = FJson json | FFloat rat

definition event_to_dict :: "radar_event \<Rightarrow> (string \<times> field) list" where
  "event_to_dict e =
     [(''event_id'', FJson (JStr (ev_event_id e))),
      (''observed_at'', FJson (JStr (ev_observed_at e))),
      (''event_type'', FJson (JStr (ev_event_type e))),
      (''title'', FJson (JStr (ev_title e))),
      (''summary'', FJson (JStr (ev_summary e))),
      (''chain'', FJson (JStr (ev_chain e))),
      (''chain_id'', FJson (JInt (ev_chain_id e))),
      (''score'', FJson (JInt (ev_score e))),
      (''severity'', FJson (JStr (severity_value (ev_severity e)))),
      (''confidence'', FFloat (ev_confidence e)),
      (''reasons'', FJson (JList (map JStr (ev_reasons e)))),
      (''recommended_action'', FJson (JStr (ev_recommended_action e))),
      (''subject_address'', FJson (opt_json (ev_subject_address e))),
      (''deployer_address'', FJson (opt_json (ev_deployer_address e))),
      (''tx_hash'', FJson (opt_json (ev_tx_hash e))),
      (''block_number'', FJson (opt_int_json (ev_block_number e))),
      (''evidence'', FJson (JObj (ev_evidence e))),
      (''metadata'', FJson (JObj (ev_metadata e)))]"

text \<open>\<^verbatim>\<open>value["k"]\<close>, \<^verbatim>\<open>str(value["k"])\<close>, \<^verbatim>\<open>int(value["k"])\<close>, \<^verbatim>\<open>float(value["k"])\<close>
  (of a JSON integer or of the float itself).\<close>

definition field_at :: "(string \<times> field) list \<Rightarrow> string \<Rightarrow> field res" where
  "field_at d k = (case map_of d k of None \<Rightarrow> Inl KeyError | Some v \<Rightarrow> Inr v)"

definition str_item :: "(string \<times> field) list \<Rightarrow> string \<Rightarrow> string res" where
  "str_item d k = and_then (field_at d k) (\<lambda>v. case v of FJson j \<Rightarrow> Inr (py_str j) | FFloat _ \<Rightarrow> Inl TypeError)"

fun py_int :: "json \<Rightarrow> int res" where
  "py_int (JInt i) = Inr i"
| "py_int (JBool b) = Inr (if b then 1 else 0)"
| "py_int (JStr s) = py_int10 s"
| "py_int _ = Inl TypeError"

definition int_item :: "(string \<times> field) list \<Rightarrow> string \<Rightarrow> int res" where
  "int_item d k = and_then (field_at d k)
     (\<lambda>v. case v of FJson j \<Rightarrow> py_int j
        | FFloat r \<Rightarrow> Inr (if r < 0 then - floor (- r) else floor r))"

definition float_item :: "(string \<times> field) list \<Rightarrow> string \<Rightarrow> rat res" where
  "float_item d k = and_then (field_at d k)
     (\<lambda>v. case v of FFloat r \<Rightarrow> Inr r
        | FJson (JInt i) \<Rightarrow> Inr (of_int i) | FJson _ \<Rightarrow> Inl TypeError)"

definition get_field :: "(string \<times> field) list \<Rightarrow> string \<Rightarrow> json" where
  "get_field d k = (case map_of d k of Some (FJson j) \<Rightarrow> j | _ \<Rightarrow> JNull)"

text \<open>The optional fields as the event holds them (text, a number, or nothing).\<close>

fun opt_text :: "json \<Rightarrow> string option" where
  "opt_text (JStr s) = Some s"
| "opt_text _ = None"

fun opt_number :: "json \<Rightarrow> int option" where
  "opt_number (JInt i) = Some i"
| "opt_number _ = None"

fun obj_items :: "json \<Rightarrow> dict" where
  "obj_items (JObj d) = d"
| "obj_items _ = []"

fun list_items :: "json \<Rightarrow> json list" where
  "list_items (JList xs) = xs"
| "list_items _ = []"

lemma opt_text_json [simp]: "opt_text (opt_json s) = s"
  by (cases s) (simp_all add: opt_json_def)

lemma opt_number_json [simp]: "opt_number (opt_int_json i) = i"
  by (cases i) (simp_all add: opt_int_json_def)

definition event_from_dict :: "(string \<times> field) list \<Rightarrow> radar_event res" where
  "event_from_dict d =
     and_then (str_item d ''event_id'') (\<lambda>eid.
     and_then (str_item d ''observed_at'') (\<lambda>obs.
     and_then (str_item d ''event_type'') (\<lambda>ty.
     and_then (str_item d ''title'') (\<lambda>ti.
     and_then (str_item d ''summary'') (\<lambda>su.
     and_then (str_item d ''chain'') (\<lambda>ch.
     and_then (int_item d ''chain_id'') (\<lambda>cid.
     and_then (int_item d ''score'') (\<lambda>sc.
     and_then (str_item d ''severity'') (\<lambda>sv.
     and_then (parse_severity sv) (\<lambda>sev.
     and_then (float_item d ''confidence'') (\<lambda>co.
     and_then (str_item d ''recommended_action'') (\<lambda>ra.
     Inr \<lparr> ev_event_id = eid, ev_observed_at = obs, ev_event_type = ty, ev_title = ti,
           ev_summary = su, ev_chain = ch, ev_chain_id = cid, ev_score = sc,
           ev_severity = sev, ev_confidence = co,
           ev_reasons = map py_str (list_items (get_field d ''reasons'')),
           ev_recommended_action = ra,
           ev_subject_address = opt_text (get_field d ''subject_address''),
           ev_deployer_address = opt_text (get_field d ''deployer_address''),
           ev_tx_hash = opt_text (get_field d ''tx_hash''),
           ev_block_number = opt_number (get_field d ''block_number''),
           ev_evidence = obj_items (get_field d ''evidence''),
           ev_metadata = obj_items (get_field d ''metadata'') \<rparr>))))))))))))"

lemma map_py_str_JStr [simp]: "map (py_str \<circ> JStr) xs = xs" "map py_str (map JStr xs) = xs"
  by (induction xs) simp_all

lemma event_roundtrip_aux: "event_from_dict (event_to_dict e) = Inr e"
  by (cases e) (simp add: event_from_dict_def event_to_dict_def str_item_def int_item_def
      float_item_def field_at_def get_field_def)

section \<open>The incident record\<close>

record incident_record =
  in_incident_id :: string
  in_event_id :: string
  in_status :: incident_status
  in_severity :: severity
  in_protocol :: "string option"
  in_owner :: "string option"
  in_created_at :: string
  in_updated_at :: string
  in_due_at :: string
  in_acknowledged_at :: "string option"
  in_closed_at :: "string option"
  in_disposition :: "string option"

text \<open>Writing an event as its JSON dictionary and reading it back yields the same event,
  for every event: the outbox and the reports see exactly what the scanner recorded.\<close>

theorem event_roundtrip: "event_from_dict (event_to_dict e) = Inr e"
  by (rule event_roundtrip_aux)

end
