(* ===== verification/Scoring.thy ===== *)
theory Scoring
  imports Models
begin

text \<open>
  \<^verbatim>\<open>src/white_radar/scoring.py\<close>: the four explainable priority scores. Each definition is
  one function of the file: the points, the confidence (as an exact rational), the reasons in
  the order they are appended, and the recommended action. The lemmas give the range of every
  score and what forces a severity.
\<close>

record score_result =
  sr_score :: int
  sr_confidence :: rat
  sr_reasons :: "string list"
  sr_recommended_action :: string

section \<open>Deployments\<close>

text \<open>An \<^verbatim>\<open>if\<close> of the source that adds points, confidence or a reason.\<close>

definition points_if :: "bool \<Rightarrow> int \<Rightarrow> int" where
  "points_if b n = (if b then n else 0)"

definition bonus_if :: "bool \<Rightarrow> rat \<Rightarrow> rat" where
  "bonus_if b r = (if b then r else 0)"

definition reason_if :: "bool \<Rightarrow> string \<Rightarrow> string list" where
  "reason_if b s = (if b then [s] else [])"

definition deployment_points ::
  "chain_config \<Rightarrow> contract_metadata \<Rightarrow> int \<Rightarrow> int \<Rightarrow> string option \<Rightarrow> int \<Rightarrow> int \<Rightarrow> int" where
  "deployment_points chain metadata bytecode_size cluster_size label exact similar =
     10 + points_if (\<not> cc_is_testnet chain) 10
        + points_if (cm_verified metadata) 15
        + points_if (truthy_opt (cm_contract_name metadata)) 5
        + points_if (cm_is_proxy metadata) 15
        + points_if (bytecode_size \<ge> 10000) 5
        + points_if (cluster_size \<ge> 2) 10
        + points_if (cluster_size \<ge> 5) 10
        + (if exact \<noteq> 0 then 10 else if similar \<noteq> 0 then 5 else 0)
        + points_if (truthy_opt label) 35"

definition deployment_reasons ::
  "chain_config \<Rightarrow> contract_metadata \<Rightarrow> int \<Rightarrow> int \<Rightarrow> string option \<Rightarrow> int \<Rightarrow> int \<Rightarrow> string list" where
  "deployment_reasons chain metadata bytecode_size cluster_size label exact similar =
            [''Top-level contract creation was confirmed in a finalized scan range.'']
            @ reason_if (\<not> cc_is_testnet chain) ''Deployment occurred on a production network.''
            @ (if cm_verified metadata
               then [''Source metadata is verified via '' @ opt_fmt (cm_verification_source metadata) @ ''.'']
               else [''Source metadata is not verified yet; identity is lower confidence.''])
            @ reason_if (truthy_opt (cm_contract_name metadata))
                (''Explorer metadata identifies '' @ opt_fmt (cm_contract_name metadata) @ ''.'')
            @ reason_if (cm_is_proxy metadata)
                ''EIP-1967 proxy state was detected and linked to its control plane.''
            @ reason_if (bytecode_size \<ge> 10000)
                ''Runtime bytecode is large enough to warrant structured review.''
            @ reason_if (cluster_size \<ge> 2)
                (''The deployer created '' @ int_str cluster_size
                 @ '' related contracts in the last 24 hours.'')
            @ reason_if (cluster_size \<ge> 5) ''Deployment activity forms a high-volume release cluster.''
            @ (if exact \<noteq> 0 then
                 [''Normalized runtime bytecode exactly matches '' @ int_str exact
                  @ '' known contract(s).'']
               else if similar \<noteq> 0 then
                 [''Runtime bytecode is structurally similar to '' @ int_str similar
                  @ '' known contract(s).'']
               else [])
            @ reason_if (truthy_opt label)
                (''The deployer is in the protocol inventory: '' @ opt_fmt label @ ''.'')"

definition deployment_action :: "contract_metadata \<Rightarrow> int \<Rightarrow> string option \<Rightarrow> severity \<Rightarrow> string" where
  "deployment_action metadata cluster_size label severity =
            (if truthy_opt label \<or> severity_value severity \<in> {''high'', ''critical''} then
               ''Correlate the transaction, linked contracts, release artifacts, and change window. ''
               @ ''Route unexpected findings through the configured incident contact.''
             else if cm_is_proxy metadata \<or> cluster_size \<ge> 2 then
               ''Correlate the deployment cluster with release artifacts, proxy state, verified ''
               @ ''metadata, and the monitored protocol inventory.''
             else ''No immediate action. Retain as evidence and wait for additional identity signals.'')"

definition score_deployment ::
  "chain_config \<Rightarrow> contract_metadata \<Rightarrow> int \<Rightarrow> int \<Rightarrow> string option \<Rightarrow> int \<Rightarrow> int \<Rightarrow> score_result" where
  "score_deployment chain metadata bytecode_size cluster_size label exact similar =
     (let score = min 100 (deployment_points chain metadata bytecode_size cluster_size label exact similar)
      in \<lparr> sr_score = score,
           sr_confidence = min (98/100) (55/100 + bonus_if (cm_verified metadata) (15/100)
             + bonus_if (cm_is_proxy metadata) (1/10) + bonus_if (truthy_opt label) (15/100)),
           sr_reasons = deployment_reasons chain metadata bytecode_size cluster_size label exact similar,
           sr_recommended_action =
             deployment_action metadata cluster_size label (severity_for_score score) \<rparr>)"

section \<open>Proxy upgrades\<close>

definition score_upgrade :: "string option \<Rightarrow> bool \<Rightarrow> score_result" where
  "score_upgrade watched_protocol global_scan =
     (let base = ''A standard proxy control-plane event was emitted on-chain.'' in
      if truthy_opt watched_protocol then
        \<lparr> sr_score = 85, sr_confidence = 9/10,
          sr_reasons = [base,
            ''The proxy belongs to the protocol inventory: '' @ opt_fmt watched_protocol @ ''.''],
          sr_recommended_action =
            ''Immediately verify the implementation, release commit, storage-layout checks, ''
            @ ''and the protocol's approved incident procedure.'' \<rparr>
      else
        \<lparr> sr_score = (if global_scan then 45 else 55), sr_confidence = 9/10,
          sr_reasons = [base,
            ''The proxy is not associated with a configured protocol inventory entry.''],
          sr_recommended_action =
            ''Retain the signal and enrich the proxy control plane before prioritization.'' \<rparr>)"

section \<open>Pending transactions\<close>

definition pending_points :: "bool \<Rightarrow> int \<Rightarrow> bool \<Rightarrow> int" where
  "pending_points critical_selector native_value_wei routine_selector =
     (let s0 = (if routine_selector then 0 else 10);
          s1 = (if critical_selector then max s0 75 else s0)
      in if native_value_wei > 0 then s1 + 5 else s1)"

definition pending_reasons :: "string \<Rightarrow> bool \<Rightarrow> int \<Rightarrow> bool \<Rightarrow> string list" where
  "pending_reasons protocol critical_selector native_value_wei routine_selector =
            [''A pending transaction targets protocol inventory entry '' @ protocol @ ''.'']
            @ reason_if routine_selector
                (''The selector is a routine token operation and is retained only as aggregated ''
                 @ ''telemetry.'')
            @ reason_if critical_selector
                ''The selector is marked critical by the protocol-specific watchlist.''
            @ reason_if (native_value_wei > 0) ''The transaction includes native asset value.''"

definition pending_action :: "bool \<Rightarrow> bool \<Rightarrow> string" where
  "pending_action critical_selector routine_selector =
            (if critical_selector then
               ''Compare the call with the protocol baseline, decode the function, run state-pinned ''
               @ ''simulation, correlate the protocol change window, and preserve supporting evidence ''
               @ ''for operator review.''
             else if routine_selector then
               ''No case action. Retain the observation as hourly aggregated telemetry.''
             else
               ''Retain as telemetry unless policy, simulation, or correlated evidence promotes it ''
               @ ''into an investigation case.'')"

definition score_pending :: "string \<Rightarrow> bool \<Rightarrow> int \<Rightarrow> bool \<Rightarrow> score_result" where
  "score_pending protocol critical_selector native_value_wei routine_selector =
     (let c0 = (if routine_selector then 9/10 else 55/100);
          c1 = (if critical_selector then max c0 (85/100) else c0)
      in \<lparr> sr_score = min 100 (pending_points critical_selector native_value_wei routine_selector),
           sr_confidence = min (95/100) c1,
           sr_reasons = pending_reasons protocol critical_selector native_value_wei routine_selector,
           sr_recommended_action = pending_action critical_selector routine_selector \<rparr>)"

section \<open>Profile changes\<close>

definition control_plane_fields :: "string list" where
  "control_plane_fields = [''implementation'', ''admin'', ''beacon'']"

text \<open>\<^verbatim>\<open>changed_fields\<close> is the frozen set of the changed column names, given by a list.\<close>

definition changed_bytecode :: "string list \<Rightarrow> bool" where
  "changed_bytecode changed \<longleftrightarrow>
     ''bytecode_sha256'' \<in> set changed \<or> ''normalized_sha256'' \<in> set changed"

definition changed_control_plane :: "string list \<Rightarrow> string list" where
  "changed_control_plane changed = filter (\<lambda>f. f \<in> set changed) control_plane_fields"

definition profile_reasons :: "string list \<Rightarrow> string option \<Rightarrow> string list" where
  "profile_reasons changed watched_protocol =
     (let reasons =
            reason_if (changed_bytecode changed) ''The observed runtime bytecode fingerprint changed.''
            @ reason_if (changed_control_plane changed \<noteq> [])
                (''Proxy control-plane state changed: '' @ join '', '' (sort (changed_control_plane changed)) @ ''.'')
            @ reason_if (''verified'' \<in> set changed)
                ''Explorer verification status changed after the initial observation.''
            @ reason_if (''contract_name'' \<in> set changed)
                ''The explorer-reported contract identity changed.''
            @ reason_if (truthy_opt watched_protocol)
                (''The contract is in the protocol inventory: '' @ opt_fmt watched_protocol @ ''.'')
      in if reasons = []
         then [''Stored contract intelligence changed during scheduled re-enrichment.'']
         else reasons)"

definition score_profile_change :: "string list \<Rightarrow> string option \<Rightarrow> score_result" where
  "score_profile_change changed watched_protocol =
     (let s1 = (if changed_bytecode changed then max 25 90 else 25);
          s2 = (if changed_control_plane changed \<noteq> [] then max s1 80 else s1);
          s3 = (if truthy_opt watched_protocol then min 100 (s2 + 10) else s2)
      in \<lparr> sr_score = s3,
           sr_confidence = (if changed_bytecode changed then 98/100 else 9/10),
           sr_reasons = profile_reasons changed watched_protocol,
           sr_recommended_action =
             ''Compare the new state with release, governance, and incident records. Validate through ''
             @ ''independent RPC and explorer sources, then escalate unexplained drift.'' \<rparr>)"

section \<open>Ranges\<close>

definition valid_score :: "score_result \<Rightarrow> bool" where
  "valid_score r \<longleftrightarrow> 0 \<le> sr_score r \<and> sr_score r \<le> 100
     \<and> 1/2 \<le> sr_confidence r \<and> sr_confidence r \<le> 98/100 \<and> sr_reasons r \<noteq> []"

lemma points_bounds: "0 \<le> n \<Longrightarrow> 0 \<le> points_if b n \<and> points_if b n \<le> n"
  by (simp add: points_if_def)

lemma deployment_points_ge: "10 \<le> deployment_points c m b k l e s"
  by (simp add: deployment_points_def points_if_def)

lemma reasons_nonempty:
  "deployment_reasons c m b k l e s \<noteq> []" "pending_reasons p cr v r \<noteq> []" "profile_reasons f w \<noteq> []"
  by (simp_all add: deployment_reasons_def pending_reasons_def profile_reasons_def Let_def)

lemma valid_score_deployment: "valid_score (score_deployment c m b k l e s)"
  using deployment_points_ge [of c m b k l e s]
  by (simp add: valid_score_def score_deployment_def Let_def bonus_if_def reasons_nonempty)

lemma valid_score_upgrade: "valid_score (score_upgrade w g)"
  by (simp add: valid_score_def score_upgrade_def Let_def)

lemma valid_score_pending: "valid_score (score_pending p c v r)"
  by (simp add: valid_score_def score_pending_def pending_points_def Let_def reasons_nonempty)

lemma valid_score_profile_change: "valid_score (score_profile_change f w)"
  by (simp add: valid_score_def score_profile_change_def Let_def reasons_nonempty)

lemmas valid_scores = valid_score_deployment valid_score_upgrade valid_score_pending
  valid_score_profile_change

lemma score_pending_cases:
  "sr_score (score_pending p critical v routine) =
     (if critical then 75 else if routine then 0 else 10) + (if v > 0 then 5 else 0)"
  by (simp add: score_pending_def pending_points_def Let_def)

lemma routine_below_review: "\<not> critical \<Longrightarrow> sr_score (score_pending p critical v routine) < 30"
  by (simp add: score_pending_cases)

lemma score_profile_change_bytecode:
  "changed_bytecode changed \<Longrightarrow> sr_score (score_profile_change changed w) \<ge> 90"
  by (auto simp: score_profile_change_def Let_def)

lemma score_profile_change_control:
  assumes "set changed \<inter> {''implementation'', ''admin'', ''beacon''} \<noteq> {}"
  shows "sr_score (score_profile_change changed w) \<ge> 80"
proof -
  from assms have "changed_control_plane changed \<noteq> []"
    by (auto simp: changed_control_plane_def control_plane_fields_def filter_empty_conv)
  then show ?thesis by (simp add: score_profile_change_def Let_def)
qed

section \<open>Properties\<close>

text \<open>Every scoring routine, on every input, gives a score from 0 to 100, a confidence from 0 to
  1 and at least one reason.\<close>

theorem scores_well_formed:
  "valid_score (score_deployment chain metadata bytecode_size cluster_size label exact similar)
     \<and> valid_score (score_upgrade watched global_scan)
     \<and> valid_score (score_pending protocol critical v routine)
     \<and> valid_score (score_profile_change changed watched)"
  by (intro conjI valid_scores)

text \<open>A pending transaction reaches the review range (a score of 30 or more) exactly when its
  selector is critical: the transferred value alone never raises it there, and a critical call
  is never lowered out of it by the routine-call discount.\<close>

theorem pending_review_iff: "30 \<le> sr_score (score_pending protocol critical v routine) \<longleftrightarrow> critical"
  by (simp add: score_pending_cases)

end
