(* ===== verification/Rpc_Client.thy ===== *)
theory Rpc_Client
  imports Radar_Prelude
begin

text \<open>
  \<^verbatim>\<open>src/white_radar/rpc.py\<close> and the retry loop of \<^verbatim>\<open>src/white_radar/http.py\<close>: the read-only
  JSON-RPC client with endpoint failover, and the typed read operations on top of it. The
  network is an argument. For \<open>request_json\<close> it is a function from the attempt number to what
  the attempt met; for the client it is a function from the URL and the request (identifier,
  method, parameters) to the answer, so that a provider may answer every request, and every
  endpoint, differently. The operations on top take the call function itself
  (type \<open>rpc\<close>): \<open>client_view\<close> is the one the client provides.
\<close>

section \<open>One HTTP request with retries\<close>

text \<open>What \<^verbatim>\<open>urlopen\<close> and \<^verbatim>\<open>json.loads\<close> did in one attempt. \<open>Escaped\<close> is an exception that no
  \<^verbatim>\<open>except\<close> clause of the loop names (a connection closed in the middle of the answer, bytes that
  are not UTF-8): it leaves the function at once.\<close>

datatype attempt =
    Answered json
  | HttpStatus int
  | Unreachable
  | MalformedJson
  | Escaped exn

text \<open>The seconds slept after attempt \<open>n\<close>: \<^verbatim>\<open>min(4.0, 0.5 * 2**attempt)\<close>.\<close>

definition backoff_seconds :: "nat \<Rightarrow> rat" where
  "backoff_seconds n = min 4 (1/2 * 2 ^ n)"

text \<open>The loop \<^verbatim>\<open>for attempt in range(retries)\<close>, from attempt \<open>n\<close> with \<open>left\<close> attempts left.
  The result is the answer, the attempts made and the pauses between them.\<close>

fun request_loop ::
  "(nat \<Rightarrow> attempt) \<Rightarrow> bool \<Rightarrow> nat \<Rightarrow> nat \<Rightarrow> json res \<times> nat \<times> rat list" where
  "request_loop net allow_not_found n 0 = (Inl HttpError, 0, [])"
| "request_loop net allow_not_found n (Suc left) =
     (let retry = (if left = 0 then (Inl HttpError, 1, [])
          else case request_loop net allow_not_found (Suc n) left of (r, k, ps) \<Rightarrow>
            (r, Suc k, backoff_seconds n # ps))
      in case net n of
           Answered j \<Rightarrow> (Inr j, 1, [])
         | HttpStatus c \<Rightarrow>
             if allow_not_found \<and> c = 404 then (Inr JNull, 1, [])
             else if c < 500 \<and> c \<noteq> 429 then (Inl HttpError, 1, [])
             else retry
         | Unreachable \<Rightarrow> retry
         | MalformedJson \<Rightarrow> retry
         | Escaped e \<Rightarrow> (Inl e, 1, []))"

definition request_json :: "(nat \<Rightarrow> attempt) \<Rightarrow> nat \<Rightarrow> bool \<Rightarrow> json res" where
  "request_json net retries allow_not_found = fst (request_loop net allow_not_found 0 retries)"

lemma request_loop_attempts: "request_loop net nf n left = (r, k, ps) \<Longrightarrow> k \<le> left"
  by (induction left arbitrary: n r k ps) (auto simp: Let_def split: attempt.splits prod.splits if_splits)

lemma request_loop_pauses:
  "request_loop net nf n left = (r, k, ps) \<Longrightarrow> p \<in> set ps \<Longrightarrow> 0 < p \<and> p \<le> 4"
  by (induction left arbitrary: n r k ps)
    (auto simp: Let_def backoff_seconds_def split: attempt.splits prod.splits if_splits)

text \<open>A transient failure is one the loop retries.\<close>

definition transient :: "attempt \<Rightarrow> bool" where
  "transient a = (case a of Answered _ \<Rightarrow> False | HttpStatus c \<Rightarrow> c \<ge> 500 \<or> c = 429
     | Escaped e \<Rightarrow> False | _ \<Rightarrow> True)"

lemma request_loop_recovers:
  "k < left \<Longrightarrow> (\<And>i. i < k \<Longrightarrow> transient (net (n + i))) \<Longrightarrow> net (n + k) = Answered j \<Longrightarrow>
     request_loop net False n left = (Inr j, Suc k, map backoff_seconds [n..<n + k])"
proof (induction left arbitrary: n k)
  case 0
  then show ?case by simp
next
  case (Suc left)
  show ?case
  proof (cases k)
    case 0
    with Suc.prems show ?thesis by simp
  next
    case (Suc k')
    from Suc.prems(2) [of 0] Suc have t: "transient (net n)" by simp
    have "request_loop net False (Suc n) left = (Inr j, Suc k', map backoff_seconds [Suc n..<Suc n + k'])"
      using Suc Suc.prems Suc.prems(2) [of "Suc _"] by (intro Suc.IH) auto
    with t Suc Suc.prems(1) show ?thesis
      by (auto simp: Let_def transient_def upt_rec [of n] split: attempt.splits)
  qed
qed

section \<open>The read-only client\<close>

definition READ_ONLY_RPC_METHODS :: "string set" where
  "READ_ONLY_RPC_METHODS =
     {''eth_blockNumber'', ''eth_call'', ''eth_chainId'', ''eth_getBlockByNumber'',
      ''eth_getCode'', ''eth_getLogs'', ''eth_getStorageAt'', ''eth_getTransactionByHash'',
      ''eth_getTransactionReceipt'', ''debug_traceCall'', ''debug_traceTransaction''}"

record rpc_client =
  urls :: "string list"
  next_id :: nat
  active_endpoint :: nat

definition valid_url :: "string \<Rightarrow> bool" where
  "valid_url u = (startswith ''http://'' u \<or> startswith ''https://'' u)"

definition make_client :: "string list \<Rightarrow> rpc_client res" where
  "make_client us =
     (if us = [] then Inl RpcError
      else if \<not> list_all valid_url us then Inl RpcError
      else if \<not> distinct us then Inl RpcError
      else Inr \<lparr> urls = us, next_id = 1, active_endpoint = 0 \<rparr>)"

definition endpoint_count :: "rpc_client \<Rightarrow> nat" where
  "endpoint_count c = length (urls c)"

text \<open>The endpoints in the order the loop tries them.\<close>

definition rotation :: "nat \<Rightarrow> nat \<Rightarrow> nat list" where
  "rotation active n = map (\<lambda>offset. (active + offset) mod n) [0..<n]"

text \<open>
  The loop over the endpoints. \<open>answer i\<close> is what \<^verbatim>\<open>request_json\<close> returns or raises for
  endpoint \<open>i\<close>. Besides the result: the endpoint that answered, if one did, and the
  endpoints contacted. The error code -32601 (method not found) moves on to the next endpoint
  where there is one; any other RPC error is raised at once.
\<close>

fun try_endpoints :: "(nat \<Rightarrow> json res) \<Rightarrow> nat list \<Rightarrow> json res \<times> nat option \<times> nat list" where
  "try_endpoints answer [] = (Inl RpcError, None, [])"
| "try_endpoints answer (i # rest) =
     (let next = (case try_endpoints answer rest of (r, a, contacted) \<Rightarrow> (r, a, i # contacted)) in
      case answer i of
        Inl e \<Rightarrow> if e = HttpError then next else (Inl e, None, [i])
      | Inr response \<Rightarrow>
          (case dict_of response of
             None \<Rightarrow> next
           | Some d \<Rightarrow>
               if truthy (dget d ''error'') then
                 (case dget d ''error'' of
                    JObj err \<Rightarrow>
                      if dget err ''code'' = JInt (-32601) \<and> rest \<noteq> [] then next
                      else (Inl RpcError, None, [i])
                  | _ \<Rightarrow> (Inl RpcError, None, [i]))
               else (Inr (dget d ''result''), Some i, [i])))"

record request =
  rq_url :: string
  rq_id :: nat
  rq_method :: string
  rq_params :: "json list"

type_synonym network = "request \<Rightarrow> json res"

definition mk_request :: "rpc_client \<Rightarrow> string \<Rightarrow> json list \<Rightarrow> nat \<Rightarrow> request" where
  "mk_request c method params i =
     \<lparr> rq_url = urls c ! i, rq_id = next_id c, rq_method = method, rq_params = params \<rparr>"

text \<open>\<^verbatim>\<open>JsonRpcClient.call\<close>: the result, the client afterwards, and the requests it sent.\<close>

definition client_call ::
  "network \<Rightarrow> rpc_client \<Rightarrow> string \<Rightarrow> json list \<Rightarrow> json res \<times> rpc_client \<times> request list" where
  "client_call net c method params =
     (if method \<notin> READ_ONLY_RPC_METHODS then (Inl ReadOnlyViolation, c, [])
      else
        (case try_endpoints (\<lambda>i. net (mk_request c method params i))
                (rotation (active_endpoint c) (length (urls c))) of
           (r, answered, contacted) \<Rightarrow>
             (r,
              c\<lparr> next_id := Suc (next_id c),
                 active_endpoint := (case answered of None \<Rightarrow> active_endpoint c | Some i \<Rightarrow> i) \<rparr>,
              map (mk_request c method params) contacted)))"

definition wf_client :: "rpc_client \<Rightarrow> bool" where
  "wf_client c \<longleftrightarrow> urls c \<noteq> [] \<and> distinct (urls c) \<and> list_all valid_url (urls c)
     \<and> active_endpoint c < length (urls c)"

text \<open>A session of calls threads the client.\<close>

fun client_session ::
  "network \<Rightarrow> rpc_client \<Rightarrow> (string \<times> json list) list \<Rightarrow> json res list \<times> rpc_client \<times> request list" where
  "client_session net c [] = ([], c, [])"
| "client_session net c ((m, ps) # calls) =
     (case client_call net c m ps of (r, c', sent) \<Rightarrow>
        (case client_session net c' calls of (rs, c'', sent') \<Rightarrow> (r # rs, c'', sent @ sent')))"

subsection \<open>Lemmas on the failover loop\<close>

lemma make_client_wf: "make_client us = Inr c \<Longrightarrow> wf_client c"
  by (auto simp: make_client_def wf_client_def split: if_splits)

lemma length_rotation [simp]: "length (rotation a n) = n"
  by (simp add: rotation_def)

lemma set_rotation: "set (rotation a n) \<subseteq> {..<n}"
  by (auto simp: rotation_def)

lemma distinct_rotation: "distinct (rotation a n)"
proof -
  have *: "y = x" if "x < n" "y < n" "x \<le> y" "(a + x) mod n = (a + y) mod n" for x y
  proof -
    have "n dvd (a + y) - (a + x)"
      using mod_eq_dvd_iff_nat [of "a + x" "a + y" n] that(3,4) by (metis add_le_cancel_left)
    then have d: "n dvd y - x" by simp
    from that(2) have "y - x < n" by (rule less_imp_diff_less)
    then have "\<not> 0 < y - x" using nat_dvd_not_less [of "y - x" n] d by blast
    with that(3) show "y = x" by (simp del: mod_mod_trivial)
  qed
  have "inj_on (\<lambda>k. (a + k) mod n) {..<n}"
  proof (rule inj_onI)
    fix x y assume "x \<in> {..<n}" "y \<in> {..<n}" and eq: "(a + x) mod n = (a + y) mod n"
    then have "x < n" "y < n" by simp_all
    show "x = y"
    proof (cases "x \<le> y")
      case True
      with * [OF \<open>x < n\<close> \<open>y < n\<close> True eq] show ?thesis by blast
    next
      case False
      then have "y \<le> x" by simp
      from * [OF \<open>y < n\<close> \<open>x < n\<close> this eq [symmetric]] show ?thesis .
    qed
  qed
  then show ?thesis by (simp add: rotation_def distinct_map lessThan_atLeast0)
qed

lemma try_endpoints_log_prefix:
  "\<exists>k. snd (snd (try_endpoints answer is)) = take k is"
proof (induction "is")
  case Nil
  then show ?case by simp
next
  case (Cons i "is")
  then obtain k where k: "snd (snd (try_endpoints answer is)) = take k is" by blast
  then have "snd (snd (try_endpoints answer (i # is))) = take (Suc k) (i # is)
     \<or> snd (snd (try_endpoints answer (i # is))) = take (Suc 0) (i # is)"
    by (auto simp: Let_def split: sum.split prod.split option.split json.split)
  then show ?case by blast
qed

lemma try_endpoints_answered:
  "try_endpoints answer is = (r, Some i, contacted) \<Longrightarrow>
     i \<in> set is \<and> (\<exists>d. answer i = Inr (JObj d) \<and> r = Inr (dget d ''result''))"
proof (induction "is" arbitrary: r contacted)
  case Nil
  then show ?case by simp
next
  case (Cons j "is")
  have dict: "\<And>x d. dict_of x = Some d \<Longrightarrow> x = JObj d" by (case_tac x) simp_all
  from Cons show ?case
    by (auto simp: Let_def dest: dict split: sum.splits prod.splits option.splits json.splits if_splits)
qed

text \<open>A transport-level failure: the request raised \<^verbatim>\<open>HttpError\<close> or the answer is no object.\<close>

definition transport_failure :: "json res \<Rightarrow> bool" where
  "transport_failure a = (case a of Inl e \<Rightarrow> e = HttpError | Inr j \<Rightarrow> dict_of j = None)"

lemma try_endpoints_skip:
  "list_all (\<lambda>i. transport_failure (answer i)) pre \<Longrightarrow>
     try_endpoints answer (pre @ is) =
       (case try_endpoints answer is of (r, a, contacted) \<Rightarrow> (r, a, pre @ contacted))"
  by (induction pre)
    (auto simp: transport_failure_def Let_def split: sum.splits prod.splits option.splits)

lemma try_endpoints_first_result:
  assumes "list_all (\<lambda>i. transport_failure (answer i)) pre"
    and "answer i = Inr (JObj d)" and "\<not> truthy (dget d ''error'')"
  shows "try_endpoints answer (pre @ i # post) = (Inr (dget d ''result''), Some i, pre @ [i])"
  using assms by (simp add: try_endpoints_skip)

lemma try_endpoints_all_down:
  assumes "list_all (\<lambda>i. transport_failure (answer i)) is"
  shows "try_endpoints answer is = (Inl RpcError, None, is)"
  using try_endpoints_skip [of answer "is" "[]"] assms by simp

subsection \<open>Lemmas on the client\<close>

lemma client_call_requests:
  assumes "client_call net c m ps = (r, c', sent)"
  shows "\<forall>q \<in> set sent. rq_method q = m \<and> m \<in> READ_ONLY_RPC_METHODS \<and> rq_id q = next_id c
           \<and> rq_params q = ps"
  using assms by (auto simp: client_call_def mk_request_def split: if_splits prod.splits)

lemma client_call_wf:
  assumes "wf_client c" and "client_call net c m ps = (r, c', sent)"
  shows "wf_client c'" and "urls c' = urls c" and "next_id c \<le> next_id c'"
proof -
  have sub: "set (rotation (active_endpoint c) (length (urls c))) \<subseteq> {..<length (urls c)}"
    by (rule set_rotation)
  from assms show "urls c' = urls c" and "next_id c \<le> next_id c'"
    by (auto simp: client_call_def split: if_splits prod.splits)
  from assms sub show "wf_client c'"
    by (auto simp: client_call_def wf_client_def split: if_splits prod.splits option.splits
        dest!: try_endpoints_answered)
qed

lemma client_call_endpoints:
  assumes "wf_client c" and "client_call net c m ps = (r, c', sent)"
  shows "distinct (map rq_url sent)" and "length sent \<le> endpoint_count c"
proof -
  let ?rot = "rotation (active_endpoint c) (length (urls c))"
  obtain k where sent: "sent = map (mk_request c m ps) (take k ?rot)"
  proof (cases "m \<in> READ_ONLY_RPC_METHODS")
    case False
    with assms have "sent = map (mk_request c m ps) (take 0 ?rot)"
      by (simp add: client_call_def)
    then show thesis by (rule that)
  next
    case True
    from try_endpoints_log_prefix obtain k where
      "snd (snd (try_endpoints (\<lambda>i. net (mk_request c m ps i)) ?rot)) = take k ?rot" by blast
    with True assms have "sent = map (mk_request c m ps) (take k ?rot)"
      by (auto simp: client_call_def split: prod.splits)
    then show thesis by (rule that)
  qed
  then show "length sent \<le> endpoint_count c" by (simp add: endpoint_count_def)
  have "set (take k ?rot) \<subseteq> {..<length (urls c)}"
    using set_take_subset [of k ?rot] set_rotation [of "active_endpoint c" "length (urls c)"] by blast
  moreover have "distinct (urls c)" using assms by (simp add: wf_client_def)
  ultimately have "inj_on (\<lambda>i. urls c ! i) (set (take k ?rot))"
    by (meson inj_onI lessThan_iff nth_eq_iff_index_eq subsetD)
  then show "distinct (map rq_url sent)"
    using distinct_rotation by (simp add: sent comp_def mk_request_def distinct_map)
qed

lemma client_session_requests:
  "client_session net c calls = (rs, c', sent) \<Longrightarrow> q \<in> set sent \<Longrightarrow>
     rq_method q \<in> READ_ONLY_RPC_METHODS \<and> (\<exists>ps. (rq_method q, ps) \<in> set calls)"
proof (induction net c calls arbitrary: rs c' sent rule: client_session.induct)
  case (1 net c)
  then show ?case by simp
next
  case (2 net c m ps calls)
  obtain r c1 s1 where call: "client_call net c m ps = (r, c1, s1)" by (metis prod_cases3)
  obtain rs2 c2 s2 where rest: "client_session net c1 calls = (rs2, c2, s2)" by (metis prod_cases3)
  from call rest "2.prems" have "q \<in> set s1 \<or> q \<in> set s2" by auto
  then show ?case
    using client_call_requests [OF call] "2.IH" [OF call [symmetric] refl rest] by auto
qed

lemma client_call_failover:
  assumes perm: "m \<in> READ_ONLY_RPC_METHODS"
    and rot: "rotation (active_endpoint c) (length (urls c)) = pre @ i # post"
    and down: "\<forall>j \<in> set pre. transport_failure (net (mk_request c m ps j))"
    and up: "net (mk_request c m ps i) = Inr (JObj d)" "\<not> truthy (dget d ''error'')"
  shows "client_call net c m ps =
     (Inr (dget d ''result''), c\<lparr>next_id := Suc (next_id c), active_endpoint := i\<rparr>,
      map (mk_request c m ps) (pre @ [i]))"
proof -
  have "list_all (\<lambda>j. transport_failure (net (mk_request c m ps j))) pre"
    using down by (simp add: list_all_iff)
  from try_endpoints_first_result [where answer = "\<lambda>j. net (mk_request c m ps j)", OF this up]
  show ?thesis using perm by (simp add: client_call_def rot)
qed

section \<open>The typed reads\<close>

type_synonym rpc = "string \<Rightarrow> json list \<Rightarrow> json res"

text \<open>What a client answers to one call from its present state.\<close>

definition client_view :: "network \<Rightarrow> rpc_client \<Rightarrow> rpc" where
  "client_view net c m ps = fst (client_call net c m ps)"

text \<open>\<^verbatim>\<open>hex_to_int(value)\<close>: of a text, and of any JSON value (\<^verbatim>\<open>int(value or "0x0", 16)\<close>).\<close>

definition hex_to_int :: "string \<Rightarrow> int res" where
  "hex_to_int s = py_int16 (if s = [] then ''0x0'' else s)"

definition hex_to_int_json :: "json \<Rightarrow> int res" where
  "hex_to_int_json j = (case py_or j (JStr ''0x0'') of JStr s \<Rightarrow> py_int16 s | _ \<Rightarrow> Inl TypeError)"

definition dict_or_none :: "json \<Rightarrow> dict option" where
  "dict_or_none j = dict_of j"

definition rpc_chain_id :: "rpc \<Rightarrow> int res" where
  "rpc_chain_id call = and_then (call ''eth_chainId'' []) hex_to_int_json"

definition rpc_block_number :: "rpc \<Rightarrow> int res" where
  "rpc_block_number call = and_then (call ''eth_blockNumber'' []) hex_to_int_json"

definition rpc_block :: "rpc \<Rightarrow> int \<Rightarrow> bool \<Rightarrow> dict option res" where
  "rpc_block call number full_transactions =
     and_then (call ''eth_getBlockByNumber'' [JStr (int_to_hex number), JBool full_transactions])
       (\<lambda>r. Inr (dict_or_none r))"

definition rpc_transaction :: "rpc \<Rightarrow> string \<Rightarrow> dict option res" where
  "rpc_transaction call tx_hash =
     and_then (call ''eth_getTransactionByHash'' [JStr tx_hash]) (\<lambda>r. Inr (dict_or_none r))"

definition rpc_receipt :: "rpc \<Rightarrow> string \<Rightarrow> dict option res" where
  "rpc_receipt call tx_hash =
     and_then (call ''eth_getTransactionReceipt'' [JStr tx_hash]) (\<lambda>r. Inr (dict_or_none r))"

definition rpc_code :: "rpc \<Rightarrow> string \<Rightarrow> string \<Rightarrow> string res" where
  "rpc_code call address block =
     and_then (call ''eth_getCode'' [JStr address, JStr block]) (\<lambda>r. Inr (str_or r ''0x''))"

definition rpc_storage_at :: "rpc \<Rightarrow> string \<Rightarrow> string \<Rightarrow> string \<Rightarrow> string res" where
  "rpc_storage_at call address slot block =
     and_then (call ''eth_getStorageAt'' [JStr address, JStr slot, JStr block])
       (\<lambda>r. Inr (str_or r ''0x''))"

definition rpc_eth_call :: "rpc \<Rightarrow> dict \<Rightarrow> string \<Rightarrow> string res" where
  "rpc_eth_call call transaction block =
     and_then (call ''eth_call'' [JObj transaction, JStr block]) (\<lambda>r. Inr (str_or r ''0x''))"

text \<open>\<^verbatim>\<open>logs\<close>: the address filter is sent only when there are addresses. Iterating over a
  result that is no list raises \<^verbatim>\<open>TypeError\<close> for a number or \<^verbatim>\<open>True\<close>; over a text or an object
  it meets only texts, which the filter drops.\<close>

definition rpc_logs :: "rpc \<Rightarrow> int \<Rightarrow> int \<Rightarrow> json list \<Rightarrow> string list option \<Rightarrow> dict list res" where
  "rpc_logs call from_block to_block topics addresses =
     (let base = [(''fromBlock'', JStr (int_to_hex from_block)),
                  (''toBlock'', JStr (int_to_hex to_block)), (''topics'', JList topics)];
          log_filter = (case addresses of
             Some (a # as) \<Rightarrow> base @ [(''address'', JList (map JStr (a # as)))] | _ \<Rightarrow> base)
      in and_then (call ''eth_getLogs'' [JObj log_filter])
           (\<lambda>r. case py_or r (JList []) of
                  JList xs \<Rightarrow> Inr (only_dicts xs)
                | JStr _ \<Rightarrow> Inr [] | JObj _ \<Rightarrow> Inr [] | _ \<Rightarrow> Inl TypeError))"

definition call_tracer_config :: dict where
  "call_tracer_config =
     [(''tracer'', JStr ''callTracer''),
      (''tracerConfig'', JObj [(''onlyTopCall'', JBool False), (''withLog'', JBool False)])]"

definition rpc_trace_transaction :: "rpc \<Rightarrow> string \<Rightarrow> dict option res" where
  "rpc_trace_transaction call tx_hash =
     and_then (call ''debug_traceTransaction'' [JStr tx_hash, JObj call_tracer_config])
       (\<lambda>r. Inr (dict_or_none r))"

definition rpc_trace_transaction_state_diff :: "rpc \<Rightarrow> string \<Rightarrow> dict option res" where
  "rpc_trace_transaction_state_diff call tx_hash =
     and_then (call ''debug_traceTransaction''
        [JStr tx_hash, JObj [(''tracer'', JStr ''prestateTracer''), (''timeout'', JStr ''10s''),
           (''tracerConfig'', JObj [(''diffMode'', JBool True), (''disableCode'', JBool False),
              (''disableStorage'', JBool False)])]])
       (\<lambda>r. Inr (dict_or_none r))"

definition rpc_trace_call :: "rpc \<Rightarrow> dict \<Rightarrow> string \<Rightarrow> dict option res" where
  "rpc_trace_call call transaction block =
     and_then (call ''debug_traceCall''
        [JObj transaction, JStr block,
         JObj [(''tracer'', JStr ''callTracer''), (''timeout'', JStr ''5s''),
           (''tracerConfig'', JObj [(''onlyTopCall'', JBool False), (''withLog'', JBool False)])]])
       (\<lambda>r. Inr (dict_or_none r))"

section \<open>The read-only interface\<close>

text \<open>What the analysis components may rely on: whatever is not a read is refused locally.\<close>

locale read_only_rpc =
  fixes call :: rpc
  assumes refused: "m \<notin> READ_ONLY_RPC_METHODS \<Longrightarrow> call m ps = Inl ReadOnlyViolation"
begin

text \<open>The answers depend on the permitted methods alone: two views that agree on the reads agree.\<close>

lemma determined_by_reads:
  assumes "\<And>m ps. m \<in> READ_ONLY_RPC_METHODS \<Longrightarrow> call m ps = other m ps"
    and "\<And>m ps. m \<notin> READ_ONLY_RPC_METHODS \<Longrightarrow> other m ps = Inl ReadOnlyViolation"
  shows "call = other"
proof (intro ext)
  fix m ps
  show "call m ps = other m ps"
    using assms refused by (cases "m \<in> READ_ONLY_RPC_METHODS") auto
qed

lemma broadcast_refused: "call ''eth_sendRawTransaction'' ps = Inl ReadOnlyViolation"
  by (rule refused) (simp add: READ_ONLY_RPC_METHODS_def)

end

interpretation client: read_only_rpc "client_view net c" for net c
  by unfold_locales (simp add: client_view_def client_call_def)

lemmas rpc_reads_defs = rpc_chain_id_def rpc_block_number_def rpc_block_def rpc_transaction_def
  rpc_receipt_def rpc_code_def rpc_storage_at_def rpc_eth_call_def rpc_logs_def
  rpc_trace_transaction_def rpc_trace_transaction_state_diff_def rpc_trace_call_def

section \<open>Properties\<close>

lemma client_session_sent:
  "client_session net c calls = (rs, c', sent) \<Longrightarrow>
     list_all (\<lambda>q. rq_method q \<in> READ_ONLY_RPC_METHODS \<and> (rq_method q, rq_params q) \<in> set calls) sent
     \<and> list_all2 (\<lambda>(m, ps) r. m \<in> READ_ONLY_RPC_METHODS \<or> r = Inl ReadOnlyViolation) calls rs"
proof (induction net c calls arbitrary: rs c' sent rule: client_session.induct)
  case (1 net c)
  then show ?case by simp
next
  case (2 net c m ps calls)
  obtain r c1 s1 where call: "client_call net c m ps = (r, c1, s1)" by (metis prod_cases3)
  obtain rs2 c2 s2 where rest: "client_session net c1 calls = (rs2, c2, s2)" by (metis prod_cases3)
  from call rest "2.prems" have eqs: "rs = r # rs2" "sent = s1 @ s2" by auto
  have r: "m \<in> READ_ONLY_RPC_METHODS \<or> r = Inl ReadOnlyViolation"
    using call by (cases "m \<in> READ_ONLY_RPC_METHODS") (simp_all add: client_call_def)
  show ?case
    using client_call_requests [OF call] "2.IH" [OF call [symmetric] refl rest] r
    by (auto simp: eqs list_all_iff)
qed

text \<open>C2. Whatever sequence of calls is made through a client and whatever the network answers,
  every request that leaves it is one of the eleven read-only methods with the parameters of a
  requested call, and every call of another method (a broadcast, a signature) is answered
  locally with \<^verbatim>\<open>ReadOnlyViolation\<close>.\<close>

theorem session_read_only:
  "list_all (\<lambda>q. rq_method q \<in> READ_ONLY_RPC_METHODS \<and> (rq_method q, rq_params q) \<in> set calls)
     (snd (snd (client_session net c calls)))
   \<and> list_all2 (\<lambda>(m, ps) r. m \<in> READ_ONLY_RPC_METHODS \<or> r = Inl ReadOnlyViolation)
     calls (fst (client_session net c calls))"
  using client_session_sent [of net c calls] by (cases "client_session net c calls") auto

text \<open>Failover: when the endpoints before one in the rotation fail at the transport level and
  that one answers without an error, the call returns its result, contacts each failed endpoint
  and the answering one exactly once, in order and each under the same identifier, makes the
  answering endpoint the active one and leaves a well-formed client.\<close>

theorem client_failover:
  assumes "wf_client c" and "m \<in> READ_ONLY_RPC_METHODS"
    and "rotation (active_endpoint c) (length (urls c)) = pre @ i # post"
    and "\<forall>j \<in> set pre. transport_failure (net (mk_request c m ps j))"
    and "net (mk_request c m ps i) = Inr (JObj d)" and "\<not> truthy (dget d ''error'')"
  shows "client_call net c m ps =
      (Inr (dget d ''result''), c\<lparr>next_id := Suc (next_id c), active_endpoint := i\<rparr>,
       map (mk_request c m ps) (pre @ [i]))
    \<and> wf_client (c\<lparr>next_id := Suc (next_id c), active_endpoint := i\<rparr>)
    \<and> distinct (map rq_url (map (mk_request c m ps) (pre @ [i])))"
proof -
  have run: "client_call net c m ps =
      (Inr (dget d ''result''), c\<lparr>next_id := Suc (next_id c), active_endpoint := i\<rparr>,
       map (mk_request c m ps) (pre @ [i]))"
    using assms(2-) by (rule client_call_failover)
  then show ?thesis
    using client_call_wf(1) [OF assms(1) run] client_call_endpoints(1) [OF assms(1) run] by blast
qed

definition demo_client :: rpc_client where
  "demo_client = \<lparr> urls = [''https://a.example'', ''https://b.example''], next_id = 7, active_endpoint = 1 \<rparr>"

definition demo_network :: network where
  "demo_network q = (if rq_url q = ''https://b.example'' then Inl HttpError
     else Inr (JObj [(''result'', JStr ''0x1'')]))"

theorem client_failover_witness:
  "client_call demo_network demo_client ''eth_chainId'' [] =
      (Inr (JStr ''0x1''), demo_client\<lparr>next_id := 8, active_endpoint := 0\<rparr>,
       map (mk_request demo_client ''eth_chainId'' []) [1, 0])"
proof -
  have wf: "wf_client demo_client" by code_simp
  have m: "''eth_chainId'' \<in> READ_ONLY_RPC_METHODS" by code_simp
  have r: "rotation (active_endpoint demo_client) (length (urls demo_client)) = [1] @ 0 # []"
    by code_simp
  have d: "\<forall>j \<in> set [1]. transport_failure (demo_network (mk_request demo_client ''eth_chainId'' [] j))"
    by code_simp
  have u: "demo_network (mk_request demo_client ''eth_chainId'' [] 0) = Inr (JObj [(''result'', JStr ''0x1'')])"
    by code_simp
  have e: "\<not> truthy (dget [(''result'', JStr ''0x1'')] ''error'')" by code_simp
  from client_failover [OF wf m r d u e] show ?thesis
    by (simp add: dget_def demo_client_def)
qed

text \<open>The retry loop recovers from every run of transient failures (no answer, malformed JSON,
  status 429 or 5xx) shorter than its budget: it makes exactly one attempt more than there were
  failures, returns the answer, and the pause after the \<open>n\<close>-th failure is
  \<^verbatim>\<open>min(4, 0.5 * 2**n)\<close> seconds.\<close>

theorem retry_recovers:
  assumes "k < retries" and "\<forall>i < k. transient (net i)" and "net k = Answered j"
  shows "request_loop net False 0 retries = (Inr j, Suc k, map backoff_seconds [0..<k])"
  using request_loop_recovers [of k retries net 0 j] assms by simp

theorem retry_recovers_witness:
  "request_loop (\<lambda>n. if n < 2 then HttpStatus 503 else Answered (JInt 5)) False 0 4
     = (Inr (JInt 5), 3, [1/2, 1])"
  using retry_recovers [of 2 4 "\<lambda>n. if n < 2 then HttpStatus 503 else Answered (JInt 5)" "JInt 5"]
  by (simp add: transient_def backoff_seconds_def upt_rec)

end
