(* ===== verification/Config.thy ===== *)
theory Config
  imports Models
begin

text \<open>
  \<^verbatim>\<open>src/white_radar/config.py\<close>: the settings, the chain table and the watchlist, read from
  a TOML document already parsed into a dictionary, and the lookups the scanners make in the
  watchlist. The environment is a function from variable names to values. A frozen set is the
  list of its elements without repetitions.
\<close>

section \<open>Reading values\<close>

text \<open>\<^verbatim>\<open>d.get(k, default)\<close> and \<^verbatim>\<open>d[k]\<close>\<close>

definition dget_default :: "dict \<Rightarrow> string \<Rightarrow> json \<Rightarrow> json" where
  "dget_default d k v = (case map_of d k of None \<Rightarrow> v | Some x \<Rightarrow> x)"

definition dindex :: "dict \<Rightarrow> string \<Rightarrow> json res" where
  "dindex d k = (case map_of d k of None \<Rightarrow> Inl KeyError | Some x \<Rightarrow> Inr x)"

definition require :: "bool \<Rightarrow> exn \<Rightarrow> unit res" where
  "require b e = (if b then Inr () else Inl e)"

lemma require_simps [simp]: "require True e = Inr ()" "require False e = Inl e"
  by (simp_all add: require_def)

lemma require_eq_Inr [simp]: "require b e = Inr u \<longleftrightarrow> b"
  by (simp add: require_def)

text \<open>\<^verbatim>\<open>int(d.get(k, n))\<close>, and the clamps the settings put on it.\<close>

definition int_setting :: "dict \<Rightarrow> string \<Rightarrow> int \<Rightarrow> int res" where
  "int_setting d k n = py_int (dget_default d k (JInt n))"

definition bool_setting :: "dict \<Rightarrow> string \<Rightarrow> bool \<Rightarrow> bool" where
  "bool_setting d k b = truthy (dget_default d k (JBool b))"

definition as_bool :: "string option \<Rightarrow> bool \<Rightarrow> bool res" where
  "as_bool value dflt =
     (case value of None \<Rightarrow> Inr dflt
      | Some v \<Rightarrow>
          (let normalized = lower (strip v) in
           if normalized \<in> {''1'', ''true'', ''yes'', ''on''} then Inr True
           else if normalized \<in> {''0'', ''false'', ''no'', ''off''} then Inr False
           else Inl ConfigurationError))"

definition configured_endpoints :: "(string \<Rightarrow> string option) \<Rightarrow> string \<Rightarrow> string list \<Rightarrow> string list" where
  "configured_endpoints env primary fallbacks =
     fromkeys (filter (\<lambda>v. v \<noteq> [])
       (map (\<lambda>n. strip (case env n of None \<Rightarrow> [] | Some v \<Rightarrow> v))
         (filter (\<lambda>n. n \<noteq> []) (primary # fallbacks))))"

definition env_name_char :: "char \<Rightarrow> bool" where
  "env_name_char c = (let n = code_pt c in
     (65 \<le> n \<and> n \<le> 90) \<or> (48 \<le> n \<and> n \<le> 57) \<or> n = 95)"

definition env_name :: "string \<Rightarrow> bool" where
  "env_name s = (case s of [] \<Rightarrow> False
     | c # cs \<Rightarrow> 65 \<le> code_pt c \<and> code_pt c \<le> 90 \<and> list_all env_name_char cs)"

definition environment_names :: "json \<Rightarrow> string list res" where
  "environment_names value =
     (case value of JList xs \<Rightarrow>
        (let names = map (\<lambda>x. strip (py_str x)) xs in
         and_then (require (list_all env_name names) ConfigurationError) (\<lambda>_.
         and_then (require (distinct names) ConfigurationError) (\<lambda>_. Inr names)))
      | _ \<Rightarrow> Inl ConfigurationError)"

section \<open>Settings\<close>

record app_config =
  ap_poll_interval_seconds :: int
  ap_request_timeout_seconds :: int
  ap_request_retries :: int
  ap_incident_minimum_score :: int
  ap_incident_sla_minutes :: int
  ap_heartbeat_stale_after_seconds :: int
  ap_log_level :: string
  ap_dry_run :: bool

record telegram_config =
  tg_enabled :: bool
  tg_minimum_score :: int
  tg_send_testnet_alerts :: bool

record analysis_config =
  an_pending_simulation_enabled :: bool
  an_pending_simulation_minimum_score :: int
  an_trace_call_enabled :: bool
  an_invariant_checks_enabled :: bool
  an_abi_resolution_enabled :: bool

text \<open>The paths of the database and of the other files are left out; the arguments are the
  \<^verbatim>\<open>[app]\<close> table and \<^verbatim>\<open>WHITE_RADAR_DRY_RUN\<close>.\<close>

definition load_app :: "dict \<Rightarrow> string option \<Rightarrow> app_config res" where
  "load_app d dry_run_env =
     and_then (int_setting d ''poll_interval_seconds'' 20) (\<lambda>poll.
     and_then (int_setting d ''request_timeout_seconds'' 20) (\<lambda>timeout.
     and_then (int_setting d ''request_retries'' 3) (\<lambda>retries.
     and_then (int_setting d ''incident_minimum_score'' 70) (\<lambda>minimum.
     and_then (int_setting d ''incident_sla_minutes'' 30) (\<lambda>sla.
     and_then (int_setting d ''heartbeat_stale_after_seconds'' 120) (\<lambda>stale.
     and_then (as_bool dry_run_env (bool_setting d ''dry_run'' True)) (\<lambda>dry.
     Inr \<lparr> ap_poll_interval_seconds = max 5 poll, ap_request_timeout_seconds = max 3 timeout,
           ap_request_retries = max 1 (min 8 retries),
           ap_incident_minimum_score = max 0 (min 100 minimum),
           ap_incident_sla_minutes = max 1 sla,
           ap_heartbeat_stale_after_seconds = max 30 stale,
           ap_log_level = upper (py_str (dget_default d ''log_level'' (JStr ''INFO''))),
           ap_dry_run = dry \<rparr>)))))))"

definition load_telegram :: "dict \<Rightarrow> telegram_config res" where
  "load_telegram d =
     and_then (int_setting d ''minimum_score'' 60) (\<lambda>minimum.
     Inr \<lparr> tg_enabled = bool_setting d ''enabled'' False, tg_minimum_score = max 0 (min 100 minimum),
           tg_send_testnet_alerts = bool_setting d ''send_testnet_alerts'' False \<rparr>)"

definition load_analysis :: "dict \<Rightarrow> analysis_config res" where
  "load_analysis d =
     and_then (int_setting d ''pending_simulation_minimum_score'' 70) (\<lambda>minimum.
     Inr \<lparr> an_pending_simulation_enabled = bool_setting d ''pending_simulation_enabled'' False,
           an_pending_simulation_minimum_score = max 0 (min 100 minimum),
           an_trace_call_enabled = bool_setting d ''trace_call_enabled'' False,
           an_invariant_checks_enabled = bool_setting d ''invariant_checks_enabled'' True,
           an_abi_resolution_enabled = bool_setting d ''abi_resolution_enabled'' True \<rparr>)"

definition rstrip_slash :: "string \<Rightarrow> string" where
  "rstrip_slash s = rev (dropWhile (\<lambda>c. c = CHR ''/'') (rev s))"

definition load_chain :: "dict \<Rightarrow> chain_config res" where
  "load_chain d =
     (let pending = lower (py_str (dget_default d ''pending_subscription'' (JStr ''auto''))) in
     and_then (require (pending \<in> {''auto'', ''alchemy'', ''standard''}) ConfigurationError) (\<lambda>_.
     and_then (dindex d ''name'') (\<lambda>name.
     and_then (dindex d ''chain_id'') (\<lambda>cid0. and_then (py_int cid0) (\<lambda>cid.
     and_then (dindex d ''rpc_http_env'') (\<lambda>http.
     and_then (dindex d ''explorer_url'') (\<lambda>explorer.
     and_then (int_setting d ''confirmations'' 3) (\<lambda>conf.
     and_then (int_setting d ''initial_lookback_blocks'' 3) (\<lambda>look.
     and_then (int_setting d ''max_blocks_per_cycle'' 12) (\<lambda>maxb.
     and_then (environment_names (dget_default d ''rpc_http_fallback_envs'' (JList []))) (\<lambda>httpf.
     and_then (environment_names (dget_default d ''rpc_ws_fallback_envs'' (JList []))) (\<lambda>wsf.
     (let ws = py_str (dget_default d ''rpc_ws_env'' (JStr [])) in
     and_then (require (py_str http \<notin> set httpf) ConfigurationError) (\<lambda>_.
     and_then (require (ws = [] \<or> ws \<notin> set wsf) ConfigurationError) (\<lambda>_.
     Inr \<lparr> cc_name = py_str name,
           cc_display_name = py_str (dget_default d ''display_name'' name),
           cc_chain_id = cid, cc_enabled = bool_setting d ''enabled'' False,
           cc_is_testnet = bool_setting d ''is_testnet'' False,
           cc_rpc_http_env = py_str http, cc_rpc_ws_env = ws,
           cc_explorer_url = rstrip_slash (py_str explorer),
           cc_confirmations = max 0 conf, cc_initial_lookback_blocks = max 1 look,
           cc_max_blocks_per_cycle = max 1 maxb,
           cc_monitor_global_upgrades = bool_setting d ''monitor_global_upgrades'' False,
           cc_pending_subscription = pending,
           cc_trace_internal_creations = bool_setting d ''trace_internal_creations'' False,
           cc_rpc_http_fallback_envs = httpf, cc_rpc_ws_fallback_envs = wsf \<rparr>)))))))))))))))"

text \<open>The loop over \<^verbatim>\<open>[[chains]]\<close> with its sets of identifiers and names seen.\<close>

fun load_chains :: "int list \<Rightarrow> string list \<Rightarrow> dict list \<Rightarrow> chain_config list res" where
  "load_chains ids names [] = Inr []"
| "load_chains ids names (d # ds) =
     and_then (load_chain d) (\<lambda>chain.
     and_then (require (cc_chain_id chain \<notin> set ids \<and> cc_name chain \<notin> set names) ConfigurationError)
       (\<lambda>_. and_then (load_chains (cc_chain_id chain # ids) (cc_name chain # names) ds)
       (\<lambda>cs. Inr (chain # cs))))"

definition load_chain_table :: "dict list \<Rightarrow> chain_config list res" where
  "load_chain_table ds =
     and_then (load_chains [] [] ds) (\<lambda>cs.
     and_then (require (cs \<noteq> []) ConfigurationError) (\<lambda>_. Inr cs))"

definition enabled_chains :: "chain_config list \<Rightarrow> chain_config list" where
  "enabled_chains cs = filter cc_enabled cs"

definition chain_by_name :: "chain_config list \<Rightarrow> string \<Rightarrow> chain_config res" where
  "chain_by_name cs name =
     (case find (\<lambda>c. cc_name c = name) cs of None \<Rightarrow> Inl ConfigurationError | Some c \<Rightarrow> Inr c)"

definition wf_chain :: "chain_config \<Rightarrow> bool" where
  "wf_chain c \<longleftrightarrow> 0 \<le> cc_confirmations c \<and> 1 \<le> cc_initial_lookback_blocks c
     \<and> 1 \<le> cc_max_blocks_per_cycle c
     \<and> cc_rpc_http_env c \<notin> set (cc_rpc_http_fallback_envs c)
     \<and> distinct (cc_rpc_http_fallback_envs c) \<and> distinct (cc_rpc_ws_fallback_envs c)"

lemma load_chain_wf: "load_chain d = Inr c \<Longrightarrow> wf_chain c"
  by (auto simp: load_chain_def environment_names_def wf_chain_def and_then_eq_Inr Let_def
      split: json.splits)

lemma load_chains_wf:
  "load_chains ids names ds = Inr cs \<Longrightarrow>
     list_all wf_chain cs \<and> distinct (map cc_chain_id cs) \<and> distinct (map cc_name cs)
     \<and> set (map cc_chain_id cs) \<inter> set ids = {} \<and> set (map cc_name cs) \<inter> set names = {}"
  by (induction ids names ds arbitrary: cs rule: load_chains.induct)
    (fastforce simp: and_then_eq_Inr dest: load_chain_wf)+

section \<open>The watchlist\<close>

record watchlist =
  wl_contracts :: "contract_watch list"
  wl_deployers :: "deployer_watch list"

text \<open>\<^verbatim>\<open>if not address: return None\<close> covers the empty text.\<close>

definition watch_contract :: "watchlist \<Rightarrow> int \<Rightarrow> string \<Rightarrow> contract_watch option" where
  "watch_contract w chain_id address =
     (if address = [] then None
      else find (\<lambda>i. cw_chain_id i = chain_id \<and> cw_address i = lower address) (wl_contracts w))"

definition watch_deployer :: "watchlist \<Rightarrow> int \<Rightarrow> string \<Rightarrow> deployer_watch option" where
  "watch_deployer w chain_id address =
     (if address = [] then None
      else find (\<lambda>i. dw_chain_id i = chain_id \<and> dw_address i = lower address) (wl_deployers w))"

definition addresses_for_chain :: "watchlist \<Rightarrow> int \<Rightarrow> string list" where
  "addresses_for_chain w chain_id =
     fromkeys (map cw_address (filter (\<lambda>i. cw_chain_id i = chain_id) (wl_contracts w)))"

definition is_selector :: "string \<Rightarrow> bool" where
  "is_selector s = is_hex_string 8 s"

definition validate_address :: "json \<Rightarrow> string res" where
  "validate_address value =
     (let address = lower (py_str value) in
      if is_address address then Inr address else Inl ConfigurationError)"

text \<open>\<^verbatim>\<open>for value in item.get("critical_selectors", [])\<close>: the elements of a TOML array.\<close>

definition watch_entry :: "dict \<Rightarrow> contract_watch res" where
  "watch_entry d =
     (let selectors = map (\<lambda>v. lower (py_str v)) (list_items (dget_default d ''critical_selectors'' (JList []))) in
     and_then (require (list_all is_selector selectors) ConfigurationError) (\<lambda>_.
     and_then (dindex d ''chain_id'') (\<lambda>cid0. and_then (py_int cid0) (\<lambda>cid.
     and_then (dindex d ''address'') (\<lambda>a0. and_then (validate_address a0) (\<lambda>a.
     and_then (dindex d ''protocol'') (\<lambda>p.
     Inr \<lparr> cw_chain_id = cid, cw_address = a, cw_protocol = py_str p,
           cw_role = py_str (dget_default d ''role'' (JStr ''contract'')),
           cw_bounty_url = py_str (dget_default d ''bounty_url'' (JStr [])),
           cw_contact_uri = py_str (dget_default d ''contact_uri'' (JStr [])),
           cw_critical_selectors = selectors \<rparr>)))))))"

definition deployer_entry :: "dict \<Rightarrow> deployer_watch res" where
  "deployer_entry d =
     and_then (dindex d ''chain_id'') (\<lambda>cid0. and_then (py_int cid0) (\<lambda>cid.
     and_then (dindex d ''address'') (\<lambda>a0. and_then (validate_address a0) (\<lambda>a.
     and_then (dindex d ''label'') (\<lambda>l.
     Inr \<lparr> dw_chain_id = cid, dw_address = a, dw_label = py_str l \<rparr>)))))"

definition contract_key :: "contract_watch \<Rightarrow> int \<times> string" where
  "contract_key c = (cw_chain_id c, cw_address c)"

definition deployer_key :: "deployer_watch \<Rightarrow> int \<times> string" where
  "deployer_key c = (dw_chain_id c, dw_address c)"

definition load_watchlist :: "dict list \<Rightarrow> dict list \<Rightarrow> watchlist res" where
  "load_watchlist contract_tables deployer_tables =
     and_then (traverse watch_entry contract_tables) (\<lambda>cs.
     and_then (traverse deployer_entry deployer_tables) (\<lambda>ds.
     and_then (require (distinct (map contract_key cs)) ConfigurationError) (\<lambda>_.
     and_then (require (distinct (map deployer_key ds)) ConfigurationError) (\<lambda>_.
     Inr \<lparr> wl_contracts = cs, wl_deployers = ds \<rparr>))))"

definition wf_watchlist :: "watchlist \<Rightarrow> bool" where
  "wf_watchlist w \<longleftrightarrow> distinct (map contract_key (wl_contracts w))
     \<and> distinct (map deployer_key (wl_deployers w))
     \<and> (\<forall>c \<in> set (wl_contracts w). is_address (cw_address c))
     \<and> (\<forall>d \<in> set (wl_deployers w). is_address (dw_address d))"

lemma watch_entry_address: "watch_entry d = Inr c \<Longrightarrow> is_address (cw_address c)"
  by (auto simp: watch_entry_def validate_address_def and_then_eq_Inr Let_def split: if_splits)

lemma deployer_entry_address: "deployer_entry d = Inr c \<Longrightarrow> is_address (dw_address c)"
  by (auto simp: deployer_entry_def validate_address_def and_then_eq_Inr Let_def split: if_splits)

lemma traverse_all:
  "(\<And>x y. f x = Inr y \<Longrightarrow> P y) \<Longrightarrow> traverse f xs = Inr ys \<Longrightarrow> y \<in> set ys \<Longrightarrow> P y"
  by (induction xs arbitrary: ys) (auto simp: and_then_eq_Inr)

lemma traverse_addresses:
  "traverse watch_entry xs = Inr cs \<Longrightarrow> c \<in> set cs \<Longrightarrow> is_address (cw_address c)"
  "traverse deployer_entry xs = Inr ds \<Longrightarrow> d \<in> set ds \<Longrightarrow> is_address (dw_address d)"
proof -
  show "traverse watch_entry xs = Inr cs \<Longrightarrow> c \<in> set cs \<Longrightarrow> is_address (cw_address c)"
    using traverse_all [of watch_entry "\<lambda>c. is_address (cw_address c)"] watch_entry_address by blast
  show "traverse deployer_entry xs = Inr ds \<Longrightarrow> d \<in> set ds \<Longrightarrow> is_address (dw_address d)"
    using traverse_all [of deployer_entry "\<lambda>c. is_address (dw_address c)"] deployer_entry_address by blast
qed

lemma load_watchlist_wf: "load_watchlist cs ds = Inr w \<Longrightarrow> wf_watchlist w"
  by (auto simp: load_watchlist_def wf_watchlist_def and_then_eq_Inr dest: traverse_addresses)

lemma watch_contract_Some:
  "watch_contract w cid a = Some c \<Longrightarrow>
     c \<in> set (wl_contracts w) \<and> cw_chain_id c = cid \<and> cw_address c = lower a"
  by (auto simp: watch_contract_def find_Some_iff split: if_splits)

section \<open>Properties\<close>

lemma find_by_key:
  assumes "distinct (map key xs)" "x \<in> set xs"
  shows "find (\<lambda>y. key y = key x) xs = Some x"
  using assms by (induction xs) (auto simp: image_iff)

text \<open>A watchlist that loads is a function of chain and address: every contract entry has a
  well-formed address and is the one that looking up its chain and address (in whatever letter
  case) returns, so no entry shadows another.\<close>

theorem watchlist_lookup:
  assumes "load_watchlist contract_tables deployer_tables = Inr w"
    and "c \<in> set (wl_contracts w)" and "lower a = cw_address c"
  shows "is_address (cw_address c) \<and> watch_contract w (cw_chain_id c) a = Some c"
proof -
  from load_watchlist_wf [OF assms(1)] assms(2) have wf: "distinct (map contract_key (wl_contracts w))"
    and addr: "is_address (cw_address c)" by (auto simp: wf_watchlist_def)
  from addr assms(3) have "a \<noteq> []" by (auto simp: is_address_def is_hex_string_def lower_def)
  moreover have "(\<lambda>i. cw_chain_id i = cw_chain_id c \<and> cw_address i = lower a) = (\<lambda>i. contract_key i = contract_key c)"
    using assms(3) by (auto simp: contract_key_def)
  ultimately show ?thesis
    using find_by_key [OF wf assms(2)] addr by (simp add: watch_contract_def)
qed

definition demo_watch_table :: dict where
  "demo_watch_table = [(''chain_id'', JInt 1), (''address'', JStr (''0x'' @ replicate 40 (CHR ''A''))),
     (''name'', JStr ''Vault''), (''protocol'', JStr ''Demo'')]"

definition demo_watch :: contract_watch where
  "demo_watch = (case watch_entry demo_watch_table of Inr c \<Rightarrow> c | Inl e \<Rightarrow> undefined)"

theorem watchlist_lookup_witness:
  "watch_contract \<lparr> wl_contracts = [demo_watch], wl_deployers = [] \<rparr> 1 (''0x'' @ replicate 40 (CHR ''A''))
     = Some demo_watch"
proof -
  have l: "load_watchlist [demo_watch_table] [] = Inr \<lparr> wl_contracts = [demo_watch], wl_deployers = [] \<rparr>"
    by code_simp
  have a: "lower (''0x'' @ replicate 40 (CHR ''A'')) = cw_address demo_watch" by code_simp
  have c: "cw_chain_id demo_watch = 1" by code_simp
  show ?thesis using watchlist_lookup [OF l _ a] c by simp
qed

end
