(* ===== verification/Policy.thy ===== *)
theory Policy
  imports Config
begin

text \<open>
  \<^verbatim>\<open>src/white_radar/policy.py\<close>: the protocol policies with their invariants, the bounded
  loader with every check it makes on the parsed TOML document, the lookups in the policy
  book, and the comparison of a pending transaction with its baseline. A frozen set of texts
  is a list without repetitions.
\<close>

section \<open>Data\<close>

record protocol_invariant =
  pi_name :: string
  pi_target :: string
  pi_call_data :: string
  pi_decode_as :: string
  pi_operator :: string
  pi_expected :: json
  pi_score :: int
  pi_alert_on_error :: bool

record protocol_policy =
  pp_chain_id :: int
  pp_address :: string
  pp_protocol :: string
  pp_authorized_senders :: "string list"
  pp_allowed_selectors :: "string list"
  pp_critical_selectors :: "string list"
  pp_max_native_value_wei :: "int option"
  pp_incident_sla_minutes :: "int option"
  pp_selector_labels :: "(string \<times> string) list"
  pp_invariants :: "protocol_invariant list"

record policy_finding =
  pf_code :: string
  pf_score_delta :: int
  pf_reason :: string

record policy_assessment =
  pa_baseline_match :: bool
  pa_findings :: "policy_finding list"

record policy_book =
  pb_policies :: "protocol_policy list"
  pb_source_sha256 :: "string option"

definition selector_label :: "protocol_policy \<Rightarrow> string \<Rightarrow> string option" where
  "selector_label p selector =
     map_option snd (find (\<lambda>kl. fst kl = lower selector) (pp_selector_labels p))"

definition assessment_delta :: "policy_assessment \<Rightarrow> int" where
  "assessment_delta a = sum_list (map pf_score_delta (pa_findings a))"

definition empty_book :: policy_book where
  "empty_book = \<lparr> pb_policies = [], pb_source_sha256 = None \<rparr>"

definition book_contract :: "policy_book \<Rightarrow> int \<Rightarrow> string \<Rightarrow> protocol_policy option" where
  "book_contract b chain_id address =
     (if address = [] then None
      else find (\<lambda>p. pp_chain_id p = chain_id \<and> pp_address p = lower address) (pb_policies b))"

definition book_for_chain :: "policy_book \<Rightarrow> int \<Rightarrow> protocol_policy list" where
  "book_for_chain b chain_id = filter (\<lambda>p. pp_chain_id p = chain_id) (pb_policies b)"

section \<open>The loader\<close>

definition MAX_POLICY_BYTES :: int where "MAX_POLICY_BYTES = 1048576"
definition MAX_CALLDATA_BYTES :: int where "MAX_CALLDATA_BYTES = 8192"

definition INVARIANT_DECODERS :: "string set" where
  "INVARIANT_DECODERS = {''uint256'', ''int256'', ''address'', ''bool'', ''bytes32''}"

definition INVARIANT_OPERATORS :: "string set" where
  "INVARIANT_OPERATORS = {''eq'', ''ne'', ''gt'', ''gte'', ''lt'', ''lte'', ''zero'', ''nonzero''}"

definition policy_selectors :: "json \<Rightarrow> string list res" where
  "policy_selectors values =
     (case values of JList xs \<Rightarrow>
        (let normalized = fromkeys (map (\<lambda>v. lower (py_str v)) xs) in
         if list_all is_selector normalized then Inr normalized else Inl ConfigurationError)
      | _ \<Rightarrow> Inl ConfigurationError)"

definition policy_call_data :: "json \<Rightarrow> string res" where
  "policy_call_data value =
     (let normalized = lower (py_str value) in
      if \<not> startswith ''0x'' normalized \<or> odd (length normalized) then Inl ConfigurationError
      else case fromhex (drop 2 normalized) of
          None \<Rightarrow> Inl ConfigurationError
        | Some raw \<Rightarrow>
            if length raw < 4 \<or> int (length raw) > MAX_CALLDATA_BYTES then Inl ConfigurationError
            else Inr normalized)"

definition invariant_name :: "dict \<Rightarrow> string" where
  "invariant_name d = strip (str_or (dget d ''name'') [])"

definition policy_invariant :: "string \<Rightarrow> dict \<Rightarrow> protocol_invariant res" where
  "policy_invariant default_target d =
     (let decode_as = lower (py_str (dget_default d ''decode_as'' (JStr ''uint256'')));
          operator = lower (py_str (dget_default d ''operator'' (JStr ''eq'')));
          expected = dget d ''expected'' in
     and_then (require (decode_as \<in> INVARIANT_DECODERS) ConfigurationError) (\<lambda>_.
     and_then (require (operator \<in> INVARIANT_OPERATORS) ConfigurationError) (\<lambda>_.
     and_then (require (operator \<in> {''zero'', ''nonzero''} \<or> expected \<noteq> JNull) ConfigurationError) (\<lambda>_.
     and_then (validate_address (dget_default d ''target'' (JStr default_target))) (\<lambda>target.
     and_then (policy_call_data (dget_default d ''call_data'' (JStr []))) (\<lambda>call_data.
     and_then (int_setting d ''score'' 85) (\<lambda>score.
     Inr \<lparr> pi_name = invariant_name d, pi_target = target, pi_call_data = call_data,
           pi_decode_as = decode_as, pi_operator = operator, pi_expected = expected,
           pi_score = max 0 (min 100 score),
           pi_alert_on_error = bool_setting d ''alert_on_error'' True \<rparr>)))))))"

text \<open>The loop of \<^verbatim>\<open>_invariants\<close> with the names seen so far.\<close>

fun policy_invariants_loop :: "string \<Rightarrow> string list \<Rightarrow> json list \<Rightarrow> protocol_invariant list res" where
  "policy_invariants_loop default_target names [] = Inr []"
| "policy_invariants_loop default_target names (item # items) =
     (case dict_of item of
        None \<Rightarrow> Inl ConfigurationError
      | Some d \<Rightarrow>
          (let name = invariant_name d in
           and_then (require (name \<noteq> [] \<and> length name \<le> 100) ConfigurationError) (\<lambda>_.
           and_then (require (name \<notin> set names) ConfigurationError) (\<lambda>_.
           and_then (policy_invariant default_target d) (\<lambda>i.
           and_then (policy_invariants_loop default_target (name # names) items)
             (\<lambda>is. Inr (i # is)))))))"

definition policy_invariants :: "string \<Rightarrow> json \<Rightarrow> protocol_invariant list res" where
  "policy_invariants default_target values =
     (case values of JList xs \<Rightarrow> policy_invariants_loop default_target [] xs
      | _ \<Rightarrow> Inl ConfigurationError)"

text \<open>An optional number with a lower bound.\<close>

definition bounded_option :: "json \<Rightarrow> int \<Rightarrow> int option res" where
  "bounded_option v minimum =
     (if v = JNull then Inr None
      else and_then (py_int v) (\<lambda>n.
        if n < minimum then Inl ConfigurationError else Inr (Some n)))"

definition selector_label_entry :: "string \<times> json \<Rightarrow> (string \<times> string) res" where
  "selector_label_entry kv =
     and_then (policy_selectors (JList [JStr (fst kv)])) (\<lambda>s. Inr (hd s, strip (py_str (snd kv))))"

definition selector_labels :: "json \<Rightarrow> (string \<times> string) list res" where
  "selector_labels v =
     (case v of JObj d \<Rightarrow>
        and_then (traverse selector_label_entry d) (\<lambda>ls.
        and_then (require (list_all (\<lambda>l. snd l \<noteq> []) ls) ConfigurationError) (\<lambda>_. Inr (sort ls)))
      | _ \<Rightarrow> Inl ConfigurationError)"

definition load_policy :: "dict \<Rightarrow> int \<Rightarrow> string \<Rightarrow> protocol_policy res" where
  "load_policy d chain_id address =
     and_then (bounded_option (dget d ''max_native_value_wei'') 0) (\<lambda>maximum.
     and_then (bounded_option (dget d ''incident_sla_minutes'') 1) (\<lambda>sla.
     and_then (case dget_default d ''authorized_senders'' (JList []) of
                 JList xs \<Rightarrow> Inr xs | _ \<Rightarrow> Inl ConfigurationError) (\<lambda>authorized.
     and_then (dindex d ''protocol'') (\<lambda>p0.
     (let protocol = strip (py_str p0) in
     and_then (require (protocol \<noteq> []) ConfigurationError) (\<lambda>_.
     and_then (selector_labels (dget_default d ''selector_labels'' (JObj []))) (\<lambda>labels.
     and_then (traverse validate_address authorized) (\<lambda>senders.
     and_then (policy_selectors (dget_default d ''allowed_selectors'' (JList []))) (\<lambda>allowed.
     and_then (policy_selectors (dget_default d ''critical_selectors'' (JList []))) (\<lambda>critical.
     and_then (policy_invariants address (dget_default d ''invariants'' (JList []))) (\<lambda>invs.
     Inr \<lparr> pp_chain_id = chain_id, pp_address = address, pp_protocol = protocol,
           pp_authorized_senders = fromkeys senders, pp_allowed_selectors = allowed,
           pp_critical_selectors = critical, pp_max_native_value_wei = maximum,
           pp_incident_sla_minutes = sla, pp_selector_labels = labels,
           pp_invariants = invs \<rparr>)))))))))))"

fun load_policies :: "(int \<times> string) list \<Rightarrow> json list \<Rightarrow> protocol_policy list res" where
  "load_policies seen [] = Inr []"
| "load_policies seen (item # items) =
     (case dict_of item of
        None \<Rightarrow> Inl ConfigurationError
      | Some d \<Rightarrow>
          and_then (dindex d ''chain_id'') (\<lambda>c0. and_then (py_int c0) (\<lambda>chain_id.
          and_then (dindex d ''address'') (\<lambda>a0. and_then (validate_address a0) (\<lambda>address.
          and_then (require ((chain_id, address) \<notin> set seen) ConfigurationError) (\<lambda>_.
          and_then (load_policy d chain_id address) (\<lambda>p.
          and_then (load_policies ((chain_id, address) # seen) items) (\<lambda>ps. Inr (p # ps)))))))))"

text \<open>The file: absent, or its size, the parsed document (\<^verbatim>\<open>None\<close> where decoding or parsing
  failed) and the digest of its bytes.\<close>

definition load_policy_book :: "(int \<times> dict option \<times> string) option \<Rightarrow> policy_book res" where
  "load_policy_book file =
     (case file of
        None \<Rightarrow> Inr empty_book
      | Some (nbytes, document, sha) \<Rightarrow>
          if nbytes > MAX_POLICY_BYTES then Inl ConfigurationError
          else (case document of
             None \<Rightarrow> Inl ConfigurationError
           | Some d \<Rightarrow>
               and_then (int_setting d ''schema_version'' 1) (\<lambda>v.
               and_then (require (v \<in> {1, 2}) ConfigurationError) (\<lambda>_.
               (case dget_default d ''protocols'' (JList []) of
                  JList items \<Rightarrow>
                    and_then (load_policies [] items) (\<lambda>ps.
                    Inr \<lparr> pb_policies = ps, pb_source_sha256 = Some sha \<rparr>)
                | _ \<Rightarrow> Inl ConfigurationError)))))"

section \<open>Well-formed books\<close>

definition wf_invariant :: "protocol_invariant \<Rightarrow> bool" where
  "wf_invariant i \<longleftrightarrow> pi_decode_as i \<in> INVARIANT_DECODERS \<and> pi_operator i \<in> INVARIANT_OPERATORS
     \<and> is_address (pi_target i) \<and> 0 \<le> pi_score i \<and> pi_score i \<le> 100
     \<and> (pi_expected i = JNull \<longrightarrow> pi_operator i \<in> {''zero'', ''nonzero''})"

definition wf_policy :: "protocol_policy \<Rightarrow> bool" where
  "wf_policy p \<longleftrightarrow> list_all wf_invariant (pp_invariants p)
     \<and> distinct (map pi_name (pp_invariants p)) \<and> pp_protocol p \<noteq> []
     \<and> list_all is_selector (pp_allowed_selectors p) \<and> list_all is_selector (pp_critical_selectors p)
     \<and> list_all is_address (pp_authorized_senders p)
     \<and> (\<forall>m. pp_max_native_value_wei p = Some m \<longrightarrow> 0 \<le> m)
     \<and> (\<forall>m. pp_incident_sla_minutes p = Some m \<longrightarrow> 1 \<le> m)"

definition policy_key :: "protocol_policy \<Rightarrow> int \<times> string" where
  "policy_key p = (pp_chain_id p, pp_address p)"

definition wf_book :: "policy_book \<Rightarrow> bool" where
  "wf_book b \<longleftrightarrow> distinct (map policy_key (pb_policies b)) \<and> list_all wf_policy (pb_policies b)
     \<and> list_all (\<lambda>p. is_address (pp_address p)) (pb_policies b)"

lemma validate_address_Inr: "validate_address v = Inr a \<Longrightarrow> is_address a"
  by (auto simp: validate_address_def Let_def split: if_splits)

lemma traverse_validate: "traverse validate_address xs = Inr ys \<Longrightarrow> list_all is_address ys"
  using traverse_all [of validate_address is_address] validate_address_Inr
  by (metis list_all_iff)

lemma policy_selectors_Inr: "policy_selectors v = Inr ss \<Longrightarrow> list_all is_selector ss"
  by (auto simp: policy_selectors_def Let_def split: json.splits if_splits)

lemma policy_invariant_Inr:
  "policy_invariant t d = Inr i \<Longrightarrow> wf_invariant i \<and> pi_name i = invariant_name d"
  unfolding policy_invariant_def Let_def and_then_eq_Inr require_eq_Inr
  by (auto simp: wf_invariant_def dest: validate_address_Inr)

lemma policy_invariants_loop_Inr:
  "policy_invariants_loop t names items = Inr is \<Longrightarrow>
     list_all wf_invariant is \<and> distinct (map pi_name is) \<and> set (map pi_name is) \<inter> set names = {}"
proof (induction t names items arbitrary: "is" rule: policy_invariants_loop.induct)
  case (1 t names)
  then show ?case by simp
next
  case (2 t names item items)
  from "2.prems" obtain d i rest where item: "dict_of item = Some d"
    and fresh: "invariant_name d \<notin> set names" and i: "policy_invariant t d = Inr i"
    and rest: "policy_invariants_loop t (invariant_name d # names) items = Inr rest"
    and eq: "is = i # rest"
    and len: "invariant_name d \<noteq> [] \<and> length (invariant_name d) \<le> 100"
    by (auto simp: Let_def and_then_eq_Inr split: option.splits)
  have "list_all wf_invariant rest \<and> distinct (map pi_name rest)
      \<and> set (map pi_name rest) \<inter> set (invariant_name d # names) = {}"
    using "2.IH" [OF item refl rest] by simp
  with fresh policy_invariant_Inr [OF i] show ?case by (auto simp: eq)
qed

lemma bounded_option_Inr: "bounded_option v n = Inr (Some m) \<Longrightarrow> n \<le> m"
  by (auto simp: bounded_option_def and_then_eq_Inr split: if_splits)

lemma load_policy_Inr:
  assumes "load_policy d c a = Inr p"
  shows "wf_policy p" and "policy_key p = (c, a)"
proof -
  from assms show "policy_key p = (c, a)"
    unfolding load_policy_def Let_def and_then_eq_Inr by (auto simp: policy_key_def)
  from assms show "wf_policy p"
    unfolding load_policy_def Let_def and_then_eq_Inr
    by (auto simp: wf_policy_def policy_invariants_def list_all_iff
        dest: policy_invariants_loop_Inr policy_selectors_Inr bounded_option_Inr traverse_validate
        split: json.splits)
qed

lemma load_policies_Inr:
  "load_policies seen items = Inr ps \<Longrightarrow>
     distinct (map policy_key ps) \<and> list_all wf_policy ps
     \<and> list_all (\<lambda>p. is_address (pp_address p)) ps \<and> set (map policy_key ps) \<inter> set seen = {}"
proof (induction seen items arbitrary: ps rule: load_policies.induct)
  case (1 seen)
  then show ?case by simp
next
  case (2 seen item items)
  from "2.prems" obtain d c0 c a0 a p qs where *: "dict_of item = Some d"
      "dindex d ''chain_id'' = Inr c0" "py_int c0 = Inr c" "dindex d ''address'' = Inr a0"
      "validate_address a0 = Inr a" "require ((c, a) \<notin> set seen) ConfigurationError = Inr ()"
      "load_policy d c a = Inr p" "load_policies ((c, a) # seen) items = Inr qs"
    and eq: "ps = p # qs"
    by (auto simp: and_then_eq_Inr split: option.splits)
  from "2.IH" [OF *(1) *(8)] load_policy_Inr [OF *(7)] validate_address_Inr [OF *(5)] *(6)
  show ?case by (auto simp: eq policy_key_def)
qed

lemma load_policy_book_wf: "load_policy_book file = Inr b \<Longrightarrow> wf_book b"
  by (auto simp: load_policy_book_def wf_book_def empty_book_def and_then_eq_Inr
      dest: load_policies_Inr split: option.splits prod.splits if_splits json.splits)

lemma book_contract_unique:
  assumes "wf_book b" and "p \<in> set (pb_policies b)" and "a \<noteq> []"
    and "pp_chain_id p = c" and "pp_address p = lower a"
  shows "book_contract b c a = Some p"
proof -
  have inj: "inj_on policy_key (set (pb_policies b))"
    using assms(1) by (simp add: wf_book_def distinct_map)
  obtain q where q: "find (\<lambda>p. pp_chain_id p = c \<and> pp_address p = lower a) (pb_policies b) = Some q"
    using assms by (metis (mono_tags, lifting) find_None_iff not_None_eq)
  then have "q \<in> set (pb_policies b)" "policy_key q = policy_key p"
    using assms(4,5) by (auto simp: find_Some_iff policy_key_def)
  with inj assms(2) have "q = p" by (auto simp: inj_on_def)
  with q assms(3) show ?thesis by (simp add: book_contract_def)
qed

section \<open>Pending transactions against the baseline\<close>

definition finding_if :: "bool \<Rightarrow> string \<Rightarrow> int \<Rightarrow> string \<Rightarrow> policy_finding list" where
  "finding_if b code delta rsn =
     (if b then [\<lparr> pf_code = code, pf_score_delta = delta, pf_reason = rsn \<rparr>] else [])"

definition sender_deviates :: "protocol_policy \<Rightarrow> string option \<Rightarrow> bool" where
  "sender_deviates p sender \<longleftrightarrow> pp_authorized_senders p \<noteq> []
     \<and> lower (case sender of None \<Rightarrow> [] | Some s \<Rightarrow> s) \<notin> set (pp_authorized_senders p)"

definition selector_deviates :: "protocol_policy \<Rightarrow> string \<Rightarrow> bool" where
  "selector_deviates p selector \<longleftrightarrow> pp_allowed_selectors p \<noteq> []
     \<and> selector \<notin> set (pp_allowed_selectors p)"

definition value_deviates :: "protocol_policy \<Rightarrow> int \<Rightarrow> bool" where
  "value_deviates p v = (case pp_max_native_value_wei p of None \<Rightarrow> False | Some m \<Rightarrow> v > m)"

definition assess_pending ::
  "protocol_policy \<Rightarrow> string option \<Rightarrow> string \<Rightarrow> int \<Rightarrow> policy_assessment" where
  "assess_pending p sender selector native_value_wei =
     (let findings =
        finding_if (sender_deviates p sender) ''sender_outside_baseline'' 15
          ''The sender is outside the protocol-supplied sender baseline.''
        @ finding_if (selector_deviates p selector) ''selector_outside_baseline'' 10
          ''The selector is outside the protocol-supplied call baseline.''
        @ finding_if (selector \<in> set (pp_critical_selectors p)) ''critical_selector'' 0
          ''The selector is marked critical in the protocol policy.''
        @ finding_if (value_deviates p native_value_wei) ''native_value_above_baseline'' 15
          ''The native value exceeds the protocol-supplied baseline.''
      in \<lparr> pa_baseline_match = (\<not> list_ex (\<lambda>f. pf_score_delta f > 0) findings),
           pa_findings = findings \<rparr>)"

lemma assess_baseline:
  "pa_baseline_match (assess_pending p sender selector v) \<longleftrightarrow>
     \<not> sender_deviates p sender \<and> \<not> selector_deviates p selector \<and> \<not> value_deviates p v"
  by (simp add: assess_pending_def finding_if_def Let_def)

lemma assess_delta:
  "assessment_delta (assess_pending p sender selector v) =
     (if sender_deviates p sender then 15 else 0) + (if selector_deviates p selector then 10 else 0)
     + (if value_deviates p v then 15 else 0)"
  by (simp add: assessment_delta_def assess_pending_def finding_if_def Let_def)

lemma assess_no_findings:
  "pa_findings (assess_pending p sender selector v) = [] \<longleftrightarrow>
     pa_baseline_match (assess_pending p sender selector v) \<and> selector \<notin> set (pp_critical_selectors p)"
  by (simp add: assess_pending_def finding_if_def Let_def)

lemma assess_count: "length (pa_findings (assess_pending p sender selector v)) \<le> 4"
  by (simp add: assess_pending_def finding_if_def Let_def)

section \<open>Properties\<close>

text \<open>A policy book that loads is well formed, and looking up the chain and address of any of
  its policies, in whatever letter case, returns that policy: its invariants have distinct
  names, known decoders and operators and an expectation where the operator needs one, its
  selectors and addresses are well formed, its value limit is not negative and its response
  time is at least a minute.\<close>

theorem policy_book_lookup:
  assumes "load_policy_book file = Inr b" and "p \<in> set (pb_policies b)" and "lower a = pp_address p"
  shows "wf_policy p \<and> book_contract b (pp_chain_id p) a = Some p"
proof -
  from load_policy_book_wf [OF assms(1)] have wf: "wf_book b" .
  with assms(2) have "wf_policy p" "is_address (pp_address p)" by (auto simp: wf_book_def list_all_iff)
  moreover from this(2) assms(3) have "a \<noteq> []" by (auto simp: is_address_def is_hex_string_def lower_def)
  ultimately show ?thesis using book_contract_unique [OF wf assms(2)] assms(3) by simp
qed

definition demo_policy_doc :: dict where
  "demo_policy_doc = [(''schema_version'', JInt 2), (''protocols'', JList [JObj
     [(''chain_id'', JInt 1), (''address'', JStr (''0x'' @ replicate 40 (CHR ''b''))),
      (''protocol'', JStr ''Demo''), (''max_native_value_wei'', JInt 1000),
      (''critical_selectors'', JList [JStr ''0x3659cfe6'']),
      (''invariants'', JList [JObj [(''name'', JStr ''owner''), (''call_data'', JStr ''0x8da5cb5b''),
         (''decode_as'', JStr ''address''), (''operator'', JStr ''nonzero'')]])]])]"

definition demo_book :: policy_book where
  "demo_book = (case load_policy_book (Some (400, Some demo_policy_doc, ''digest'')) of
     Inr b \<Rightarrow> b | Inl e \<Rightarrow> empty_book)"

definition demo_policy :: protocol_policy where
  "demo_policy = hd (pb_policies demo_book)"

theorem policy_book_lookup_witness:
  "wf_policy demo_policy \<and> book_contract demo_book 1 (''0x'' @ replicate 40 (CHR ''B'')) = Some demo_policy"
proof -
  have l: "load_policy_book (Some (400, Some demo_policy_doc, ''digest'')) = Inr demo_book" by code_simp
  have p: "demo_policy \<in> set (pb_policies demo_book)" by code_simp
  have a: "lower (''0x'' @ replicate 40 (CHR ''B'')) = pp_address demo_policy" by code_simp
  have c: "pp_chain_id demo_policy = 1" by code_simp
  show ?thesis using policy_book_lookup [OF l p a] c by simp
qed

text \<open>A pending transaction is assessed exactly: the score added is the sum of 15 for a sender
  outside the authorised ones, 10 for a selector outside the allowed ones and 15 for a value
  above the limit; it matches the baseline exactly when that sum is 0; and it has no finding
  exactly when it matches and its selector is not marked critical.\<close>

theorem pending_assessment_exact:
  "assessment_delta (assess_pending p sender selector v) =
       (if sender_deviates p sender then 15 else 0) + (if selector_deviates p selector then 10 else 0)
       + (if value_deviates p v then 15 else 0)
   \<and> (pa_baseline_match (assess_pending p sender selector v)
        \<longleftrightarrow> assessment_delta (assess_pending p sender selector v) = 0)
   \<and> (pa_findings (assess_pending p sender selector v) = [] \<longleftrightarrow>
        pa_baseline_match (assess_pending p sender selector v)
        \<and> selector \<notin> set (pp_critical_selectors p))"
  by (simp add: assess_baseline assess_delta assess_no_findings)

end
