(* ===== verification/Invariants.thy ===== *)
theory Invariants
  imports Policy Rpc_Client
begin

text \<open>
  \<^verbatim>\<open>src/white_radar/invariants.py\<close>: decoding of the word a protocol read returned,
  normalization of the configured expectation, the typed comparison, and the check that turns
  every outcome, exceptions included, into a status. A value \<^verbatim>\<open>str | int | bool | None\<close> is a
  \<^typ>\<open>json\<close>; \<open>py_eq\<close> is Python's equality on it, where \<^verbatim>\<open>True == 1\<close> and \<^verbatim>\<open>False == 0\<close>.
\<close>

record invariant_check =
  ic_name :: string
  ic_target :: string
  ic_status :: string
  ic_observed :: json
  ic_expected :: json
  ic_operator :: string
  ic_score :: int
  ic_block_number :: int
  ic_block_hash :: "string option"
  ic_error_class :: "string option"

section \<open>Decoding\<close>

text \<open>\<^verbatim>\<open>int.from_bytes(raw, "big", signed=True)\<close>\<close>

definition from_be_signed :: "bytes \<Rightarrow> int" where
  "from_be_signed bs = (let n = int (from_be bs) in
     if bs \<noteq> [] \<and> hd bs \<ge> 128 then n - 256 ^ length bs else n)"

definition decode_word_as :: "bytes \<Rightarrow> string \<Rightarrow> json res" where
  "decode_word_as word decode_as =
     (if decode_as = ''address'' then Inr (JStr (''0x'' @ hex_of (last_n 20 word)))
      else if decode_as = ''bool'' then
        (let value = from_be word in
         if value \<notin> {0, 1} then Inl ValueError else Inr (JBool (value \<noteq> 0)))
      else if decode_as = ''int256'' then Inr (JInt (from_be_signed word))
      else if decode_as = ''uint256'' then Inr (JInt (int (from_be word)))
      else if decode_as = ''bytes32'' then Inr (JStr (''0x'' @ hex_of word))
      else Inl ValueError)"

definition decode_return_data :: "string \<Rightarrow> string \<Rightarrow> json res" where
  "decode_return_data data decode_as =
     (if \<not> startswith ''0x'' data then Inl ValueError
      else case fromhex (drop 2 data) of
          None \<Rightarrow> Inl ValueError
        | Some raw \<Rightarrow>
            if length raw < 32 then Inl ValueError else decode_word_as (take 32 raw) decode_as)"

definition normalize_expected :: "json \<Rightarrow> string \<Rightarrow> json res" where
  "normalize_expected value decode_as =
     (if value = JNull then Inr JNull
      else if decode_as = ''address'' then
        (let text = lower (py_str value) in
         if \<not> startswith ''0x'' text \<or> length text \<noteq> 42 then Inl ValueError
         else and_then (py_int16 (drop 2 text)) (\<lambda>_. Inr (JStr text)))
      else if decode_as = ''bool'' then
        (case value of
           JBool b \<Rightarrow> Inr (JBool b)
         | _ \<Rightarrow>
             (let normalized = lower (strip (py_str value)) in
              if normalized \<in> {''true'', ''1''} then Inr (JBool True)
              else if normalized \<in> {''false'', ''0''} then Inr (JBool False)
              else Inl ValueError))
      else if decode_as \<in> {''uint256'', ''int256''} then
        (case value of
           JInt i \<Rightarrow> Inr (JInt i)
         | JBool b \<Rightarrow> Inr (JBool b)
         | _ \<Rightarrow> and_then (py_int0 (py_str value)) (\<lambda>i. Inr (JInt i)))
      else if decode_as = ''bytes32'' then
        (let text = lower (py_str value) in
         if \<not> startswith ''0x'' text \<or> length text \<noteq> 66 then Inl ValueError
         else and_then (py_int16 (drop 2 text)) (\<lambda>_. Inr (JStr text)))
      else Inl ValueError)"

section \<open>Comparison\<close>

fun num_of :: "json \<Rightarrow> int option" where
  "num_of (JInt i) = Some i"
| "num_of (JBool b) = Some (if b then 1 else 0)"
| "num_of _ = None"

definition py_eq :: "json \<Rightarrow> json \<Rightarrow> bool" where
  "py_eq a b = (case (num_of a, num_of b) of (Some i, Some j) \<Rightarrow> i = j | _ \<Rightarrow> a = b)"

definition zero_values :: "json list" where
  "zero_values = [JInt 0, JStr (''0x'' @ replicate 40 (CHR ''0'')), JStr (''0x'' @ replicate 64 (CHR ''0''))]"

definition is_zero_value :: "json \<Rightarrow> bool" where
  "is_zero_value v = list_ex (py_eq v) zero_values"

fun int_only :: "json \<Rightarrow> int res" where
  "int_only (JInt i) = Inr i"
| "int_only _ = Inl ValueError"

definition compare_values :: "json \<Rightarrow> json \<Rightarrow> string \<Rightarrow> bool res" where
  "compare_values observed expected operator =
     (if operator = ''zero'' then Inr (is_zero_value observed)
      else if operator = ''nonzero'' then Inr (\<not> is_zero_value observed)
      else if expected = JNull then Inl ValueError
      else if operator = ''eq'' then Inr (py_eq observed expected)
      else if operator = ''ne'' then Inr (\<not> py_eq observed expected)
      else and_then (int_only observed) (\<lambda>a. and_then (int_only expected) (\<lambda>b.
        if operator = ''gt'' then Inr (a > b)
        else if operator = ''gte'' then Inr (a \<ge> b)
        else if operator = ''lt'' then Inr (a < b)
        else if operator = ''lte'' then Inr (a \<le> b)
        else Inl ValueError)))"

section \<open>The check\<close>

text \<open>The \<^verbatim>\<open>try\<close> block: the expectation is kept when only what follows it fails.\<close>

definition observe_invariant :: "rpc \<Rightarrow> protocol_invariant \<Rightarrow> int \<Rightarrow> json res" where
  "observe_invariant call iv block_number =
     and_then (rpc_eth_call call
        [(''to'', JStr (pi_target iv)), (''data'', JStr (pi_call_data iv))] (int_to_hex block_number))
       (\<lambda>raw. decode_return_data raw (pi_decode_as iv))"

definition exn_name :: "exn \<Rightarrow> string" where
  "exn_name e = (case e of ValueError \<Rightarrow> ''ValueError'' | TypeError \<Rightarrow> ''TypeError''
     | KeyError \<Rightarrow> ''KeyError'' | AttributeError \<Rightarrow> ''AttributeError'' | IndexError \<Rightarrow> ''IndexError''
     | RuntimeError \<Rightarrow> ''RuntimeError'' | RpcError \<Rightarrow> ''RpcError''
     | ReadOnlyViolation \<Rightarrow> ''ReadOnlyViolation'' | HttpError \<Rightarrow> ''HttpError''
     | HistorySourceError _ \<Rightarrow> ''HistorySourceError'' | ConfigurationError \<Rightarrow> ''ConfigurationError''
     | IntegrityError \<Rightarrow> ''IntegrityError'')"

definition mk_check ::
  "protocol_invariant \<Rightarrow> int \<Rightarrow> string option \<Rightarrow> string \<Rightarrow> json \<Rightarrow> json \<Rightarrow> string option \<Rightarrow> invariant_check" where
  "mk_check iv block_number block_hash status observed expected err =
     \<lparr> ic_name = pi_name iv, ic_target = pi_target iv, ic_status = status,
       ic_observed = observed, ic_expected = expected, ic_operator = pi_operator iv,
       ic_score = pi_score iv, ic_block_number = block_number, ic_block_hash = block_hash,
       ic_error_class = err \<rparr>"

definition failed_check ::
  "protocol_invariant \<Rightarrow> int \<Rightarrow> string option \<Rightarrow> json \<Rightarrow> exn \<Rightarrow> invariant_check res" where
  "failed_check iv block_number block_hash expected e =
     (if is_rpc_error e \<or> is_value_error e
      then Inr (mk_check iv block_number block_hash
        (if pi_alert_on_error iv then ''error'' else ''unavailable'') JNull expected (Some (exn_name e)))
      else Inl e)"

definition check_invariant ::
  "rpc \<Rightarrow> protocol_invariant \<Rightarrow> int \<Rightarrow> string option \<Rightarrow> invariant_check res" where
  "check_invariant call iv block_number block_hash =
     (case normalize_expected (pi_expected iv) (pi_decode_as iv) of
        Inl e \<Rightarrow> failed_check iv block_number block_hash JNull e
      | Inr expected \<Rightarrow>
          (case observe_invariant call iv block_number of
             Inl e \<Rightarrow> failed_check iv block_number block_hash expected e
           | Inr observed \<Rightarrow>
               (case compare_values observed expected (pi_operator iv) of
                  Inl e \<Rightarrow> failed_check iv block_number block_hash expected e
                | Inr matched \<Rightarrow>
                    Inr (mk_check iv block_number block_hash
                      (if matched then ''ok'' else ''violated'') observed expected None))))"

definition check_policy_invariants ::
  "rpc \<Rightarrow> protocol_policy \<Rightarrow> int \<Rightarrow> string option \<Rightarrow> invariant_check list res" where
  "check_policy_invariants call policy block_number block_hash =
     traverse (\<lambda>i. check_invariant call i block_number block_hash) (pp_invariants policy)"

section \<open>Lemmas\<close>

lemma from_be_signed_range:
  assumes "wf_bytes bs" and "length bs = 32"
  shows "- (2 ^ 255) \<le> from_be_signed bs \<and> from_be_signed bs < 2 ^ 255"
    and "from_be_signed bs mod 2 ^ 256 = int (from_be bs)"
proof -
  obtain b cs where bs: "bs = b # cs" and len: "length cs = 31"
    using assms(2) by (cases bs) auto
  have b: "b < 256" and cs: "wf_bytes cs" using assms(1) by (simp_all add: bs wf_bytes_def)
  have acc: "foldl (\<lambda>acc x. acc * 256 + x) a xs = a * 256 ^ length xs + from_be xs" for a and xs :: "nat list"
  proof (induction xs rule: rev_induct)
    case Nil
    show ?case by (simp add: from_be_def)
  next
    case (snoc x xs)
    then show ?case by (simp add: from_be_snoc algebra_simps)
  qed
  have split: "from_be bs = b * 256 ^ 31 + from_be cs"
    using acc [of b cs] by (simp add: bs len from_be_def)
  have lo: "from_be cs < 256 ^ 31" using from_be_bound [OF cs] len by simp
  have pw: "(256::nat) ^ 31 = 2 ^ 248" by (simp flip: power_mult [of 2 8, simplified])
  have v: "int (from_be bs) = int b * 2 ^ 248 + int (from_be cs)"
    using split by (simp add: pw)
  have lo': "int (from_be cs) < 2 ^ 248" using lo by (simp add: pw flip: of_nat_less_iff)
  have val: "from_be_signed bs = int b * 2 ^ 248 + int (from_be cs) - (if 128 \<le> b then 2 ^ 256 else 0)"
    using v by (simp add: from_be_signed_def bs len Let_def)
  have bnd: "int b * 2 ^ 248 + int (from_be cs) < (int b + 1) * 2 ^ 248" "int b * 2 ^ 248 \<le> int b * 2 ^ 248 + int (from_be cs)"
    using lo' by (simp_all add: algebra_simps)
  show "- (2 ^ 255) \<le> from_be_signed bs \<and> from_be_signed bs < 2 ^ 255"
  proof (cases "128 \<le> b")
    case True
    with bnd b val show ?thesis by auto
  next
    case False
    then have "int b + 1 \<le> 128" by simp
    then have "(int b + 1) * 2 ^ 248 \<le> 128 * (2 ^ 248 :: int)" by (rule mult_right_mono) simp
    with False bnd val show ?thesis by auto
  qed
  have "0 \<le> int (from_be bs)" "int (from_be bs) < 2 ^ 256"
  proof -
    have "(int b + 1) * 2 ^ 248 \<le> 256 * (2 ^ 248 :: int)" using b by (intro mult_right_mono) auto
    with bnd v show "int (from_be bs) < 2 ^ 256" by simp
  qed simp
  then show "from_be_signed bs mod 2 ^ 256 = int (from_be bs)"
    using val v by (cases "128 \<le> b") (simp_all add: mod_diff_eq)
qed

lemma decode_uint_word:
  assumes "wf_bytes bs" and "length bs = 32"
  shows "decode_return_data (''0x'' @ hex_of bs) ''uint256'' = Inr (JInt (int (from_be bs)))"
  using assms by (simp add: decode_return_data_def decode_word_as_def startswith_def fromhex_hex_of)

lemma decode_int_word:
  assumes "wf_bytes bs" and "length bs = 32"
  shows "decode_return_data (''0x'' @ hex_of bs) ''int256'' = Inr (JInt (from_be_signed bs))"
  using assms by (simp add: decode_return_data_def decode_word_as_def startswith_def fromhex_hex_of)

lemma decode_bytes32_word:
  assumes "wf_bytes bs" and "length bs = 32"
  shows "decode_return_data (''0x'' @ hex_of bs) ''bytes32'' = Inr (JStr (''0x'' @ hex_of bs))"
  using assms by (simp add: decode_return_data_def decode_word_as_def startswith_def fromhex_hex_of)

lemma normalize_expected_error: "normalize_expected v d = Inl e \<Longrightarrow> e = ValueError"
  by (auto simp: normalize_expected_def py_int16_def py_int0_def with_sign_def Let_def and_then_eq_Inl
      split: if_splits json.splits option.splits prod.splits)

lemma decode_return_data_error: "decode_return_data s d = Inl e \<Longrightarrow> e = ValueError"
  by (auto simp: decode_return_data_def decode_word_as_def Let_def split: if_splits option.splits)

lemma int_only_error: "int_only v = Inl e \<Longrightarrow> e = ValueError"
  by (cases v) auto

lemma compare_values_error: "compare_values a b p = Inl e \<Longrightarrow> e = ValueError"
  by (auto simp: compare_values_def and_then_eq_Inl int_only_error split: if_splits)

text \<open>A supported operator on two integers always yields a verdict.\<close>

lemma compare_values_ints:
  "p \<in> INVARIANT_OPERATORS \<Longrightarrow> \<exists>b. compare_values (JInt i) (JInt j) p = Inr b"
  by (auto simp: compare_values_def INVARIANT_OPERATORS_def)

text \<open>The check never raises when the network raises only RPC errors.\<close>

lemma check_invariant_total:
  assumes "\<And>m ps e. call m ps = Inl e \<Longrightarrow> is_rpc_error e"
  shows "\<exists>c. check_invariant call iv n h = Inr c \<and> ic_name c = pi_name iv
      \<and> ic_status c \<in> {''ok'', ''violated'', if pi_alert_on_error iv then ''error'' else ''unavailable''}
      \<and> (ic_error_class c = None \<longleftrightarrow> ic_status c \<in> {''ok'', ''violated''})"
proof -
  have obs: "is_rpc_error e \<or> is_value_error e" if "observe_invariant call iv n = Inl e" for e
    using that assms
    by (auto simp: observe_invariant_def rpc_eth_call_def and_then_eq_Inl dest: decode_return_data_error)
  have fc: "\<exists>c. failed_check iv n h x e = Inr c \<and> ic_name c = pi_name iv
      \<and> ic_status c = (if pi_alert_on_error iv then ''error'' else ''unavailable'')
      \<and> ic_error_class c \<noteq> None"
    if "is_rpc_error e \<or> is_value_error e" for e x
    using that by (simp add: failed_check_def mk_check_def)
  show ?thesis
  proof (cases "normalize_expected (pi_expected iv) (pi_decode_as iv)")
    case (Inl e)
    with normalize_expected_error have "is_value_error e" by fastforce
    with fc [of e JNull] Inl show ?thesis by (auto simp: check_invariant_def)
  next
    case expected: (Inr x)
    show ?thesis
    proof (cases "observe_invariant call iv n")
      case (Inl e)
      with fc [OF obs [OF Inl], of x] expected show ?thesis by (auto simp: check_invariant_def)
    next
      case observed: (Inr v)
      show ?thesis
      proof (cases "compare_values v x (pi_operator iv)")
        case (Inl e)
        with compare_values_error have "is_value_error e" by fastforce
        with fc [of e x] Inl expected observed show ?thesis by (auto simp: check_invariant_def)
      next
        case (Inr b)
        with expected observed show ?thesis by (simp add: check_invariant_def mk_check_def)
      qed
    qed
  qed
qed

lemma check_invariant_ok_iff:
  assumes "normalize_expected (pi_expected iv) (pi_decode_as iv) = Inr x"
    and "observe_invariant call iv n = Inr v"
    and "compare_values v x (pi_operator iv) = Inr b"
  shows "check_invariant call iv n h =
     Inr (mk_check iv n h (if b then ''ok'' else ''violated'') v x None)"
  using assms by (simp add: check_invariant_def)

section \<open>Properties\<close>

lemma try_endpoints_error:
  assumes "\<And>i e. answer i = Inl e \<Longrightarrow> e = HttpError"
  shows "try_endpoints answer is = (Inl e, a, contacted) \<Longrightarrow> e = RpcError"
proof (induction "is" arbitrary: a contacted)
  case Nil
  then show ?case by simp
next
  case (Cons i "is")
  then show ?case using assms [of i]
    by (auto simp: Let_def split: sum.splits option.splits prod.splits if_splits json.splits)
qed

lemma client_view_errors:
  assumes "\<And>q e. net q = Inl e \<Longrightarrow> e = HttpError" and "client_view net c m ps = Inl e"
  shows "is_rpc_error e"
proof (cases "m \<in> READ_ONLY_RPC_METHODS")
  case True
  obtain r a s where run: "try_endpoints (\<lambda>i. net (mk_request c m ps i))
      (rotation (active_endpoint c) (length (urls c))) = (r, a, s)" by (metis prod_cases3)
  with True assms(2) have "r = Inl e" by (simp add: client_view_def client_call_def)
  with try_endpoints_error [of "\<lambda>i. net (mk_request c m ps i)"] run assms(1) have "e = RpcError" by blast
  then show ?thesis by simp
next
  case False
  with client.refused have "client_view net c m ps = Inl ReadOnlyViolation" by blast
  with assms(2) show ?thesis by auto
qed

text \<open>Checking a policy always ends in a report: through a client whose HTTP layer fails only
  with its own error, every invariant is reported, in order and under its name, whatever the
  nodes answer. Its status is \<^verbatim>\<open>ok\<close>, \<^verbatim>\<open>violated\<close>, or what the invariant says an unreadable
  value means, and an error class is recorded exactly in the last case.\<close>

theorem policy_checks_total:
  assumes "\<forall>q e. net q = Inl e \<longrightarrow> e = HttpError"
  shows "\<exists>cs. check_policy_invariants (client_view net c) p n h = Inr cs
     \<and> list_all2 (\<lambda>iv ck. ic_name ck = pi_name iv
         \<and> ic_status ck \<in> {''ok'', ''violated'', if pi_alert_on_error iv then ''error'' else ''unavailable''}
         \<and> (ic_error_class ck = None \<longleftrightarrow> ic_status ck \<in> {''ok'', ''violated''}))
        (pp_invariants p) cs"
proof -
  have rpc: "is_rpc_error e" if "client_view net c m ps = Inl e" for m ps e
    using client_view_errors [OF _ that] assms by blast
  define g where "g i = projr (check_invariant (client_view net c) i n h)" for i
  have g: "check_invariant (client_view net c) i n h = Inr (g i) \<and> ic_name (g i) = pi_name i
      \<and> ic_status (g i) \<in> {''ok'', ''violated'', if pi_alert_on_error i then ''error'' else ''unavailable''}
      \<and> (ic_error_class (g i) = None \<longleftrightarrow> ic_status (g i) \<in> {''ok'', ''violated''})" for i
    using check_invariant_total [where call = "client_view net c" and iv = i and n = n and h = h] rpc
    by (metis g_def sum.sel(2))
  then have "check_policy_invariants (client_view net c) p n h = Inr (map g (pp_invariants p))"
    by (simp add: check_policy_invariants_def traverse_Inr_map)
  with g show ?thesis by (simp add: list.rel_map list.rel_refl)
qed

definition demo_invariant :: protocol_invariant where
  "demo_invariant = \<lparr> pi_name = ''owner'', pi_target = ZERO_ADDRESS, pi_call_data = ''0x8da5cb5b'',
     pi_decode_as = ''uint256'', pi_operator = ''nonzero'', pi_expected = JNull, pi_score = 85,
     pi_alert_on_error = True \<rparr>"

definition demo_invariant_policy :: protocol_policy where
  "demo_invariant_policy = \<lparr> pp_chain_id = 1, pp_address = ZERO_ADDRESS, pp_protocol = ''Demo'',
     pp_authorized_senders = [], pp_allowed_selectors = [], pp_critical_selectors = [],
     pp_max_native_value_wei = None, pp_incident_sla_minutes = None, pp_selector_labels = [],
     pp_invariants = [demo_invariant] \<rparr>"

theorem policy_checks_total_witness:
  "\<exists>ck. check_policy_invariants (client_view (\<lambda>q. Inl HttpError) demo_client) demo_invariant_policy 7 None = Inr [ck]
     \<and> ic_name ck = ''owner'' \<and> ic_status ck \<in> {''ok'', ''violated'', ''error''}"
proof -
  have "\<forall>(q :: request) e. (Inl HttpError :: json res) = Inl e \<longrightarrow> e = HttpError" by simp
  from policy_checks_total [OF this, of demo_client demo_invariant_policy 7 None] show ?thesis
    by (auto simp: demo_invariant_policy_def demo_invariant_def list_all2_Cons1)
qed

text \<open>A returned 32-byte word decoded as \<^verbatim>\<open>int256\<close> is its two's-complement value: it lies from
  \<open>- 2 ^ 255\<close> to \<open>2 ^ 255 - 1\<close> and is congruent to the word modulo \<open>2 ^ 256\<close>; decoded
  as \<^verbatim>\<open>uint256\<close> it is the word itself.\<close>

theorem int256_decoded:
  assumes "wf_bytes word" and "length word = 32"
  shows "decode_return_data (''0x'' @ hex_of word) ''int256'' = Inr (JInt (from_be_signed word))
     \<and> - (2 ^ 255) \<le> from_be_signed word \<and> from_be_signed word < 2 ^ 255
     \<and> from_be_signed word mod 2 ^ 256 = int (from_be word)
     \<and> decode_return_data (''0x'' @ hex_of word) ''uint256'' = Inr (JInt (int (from_be word)))"
  using from_be_signed_range [OF assms] decode_int_word [OF assms] decode_uint_word [OF assms] by simp

definition demo_word :: bytes where
  "demo_word = [128, 0, 0, 0, 0, 0, 0, 0, 0, 0, 0, 0, 0, 0, 0, 0, 0, 0, 0, 0, 0, 0, 0, 0, 0, 0, 0, 0, 0, 0, 0, 0]"

theorem int256_decoded_witness:
  "decode_return_data (''0x'' @ hex_of demo_word) ''int256'' = Inr (JInt (- (2 ^ 255)))"
proof -
  have "wf_bytes demo_word" "length demo_word = 32" by (simp_all add: demo_word_def wf_bytes_def)
  moreover have "from_be_signed demo_word = - (2 ^ 255)"
    by (simp add: demo_word_def from_be_signed_def from_be_def)
  ultimately show ?thesis using int256_decoded by metis
qed

end
