(* ===== verification/Fingerprint.thy ===== *)
theory Fingerprint
  imports Radar_Prelude
begin

text \<open>
  \<^verbatim>\<open>src/white_radar/fingerprint.py\<close>: the identity of runtime bytecode. The two digests it calls,
  SHA-256 in hexadecimal and BLAKE2b with eight bytes read as a number, are the arguments
  \<open>sha256\<close> and \<open>blake8\<close>. The similarity is the rational number the code's float denotes
  (a multiple of 1/64, which a double holds exactly).
\<close>

section \<open>Decoding and the metadata trailer\<close>

record fingerprint =
  fp_raw_sha256 :: string
  fp_normalized_sha256 :: string
  fp_simhash64 :: string
  fp_bytecode_size :: nat
  fp_normalized_size :: nat
  fp_metadata_size :: nat

definition decode_hex_bytecode :: "string \<Rightarrow> bytes" where
  "decode_hex_bytecode code_text =
     (let v = removeprefix ''0x'' code_text;
          padded = (if odd (length v) then CHR ''0'' # v else v)
      in case fromhex padded of None \<Rightarrow> [] | Some raw \<Rightarrow> raw)"

text \<open>\<^verbatim>\<open>key in metadata\<close> for byte strings.\<close>

fun contains :: "'a list \<Rightarrow> 'a list \<Rightarrow> bool" where
  "contains key [] = (key = [])"
| "contains key (x # xs) = (take (length key) (x # xs) = key \<or> contains key xs)"

definition ascii_bytes :: "string \<Rightarrow> bytes" where
  "ascii_bytes s = map code_pt s"

definition known_keys :: "bytes list" where
  "known_keys = map ascii_bytes [''ipfs'', ''bzzr0'', ''bzzr1'', ''solc'', ''experimental'']"

definition metadata_recognized :: "bytes \<Rightarrow> bool" where
  "metadata_recognized metadata =
     (metadata \<noteq> [] \<and> hd metadata div 32 = 5 \<and> list_ex (\<lambda>k. contains k metadata) known_keys)"

definition strip_solidity_metadata :: "bytes \<Rightarrow> bytes \<times> nat" where
  "strip_solidity_metadata bytecode =
     (if length bytecode < 4 then (bytecode, 0)
      else
        (let metadata_length = from_be (last_n 2 bytecode);
             total_length = metadata_length + 2
         in if metadata_length = 0 \<or> length bytecode \<le> total_length then (bytecode, 0)
            else
              (let metadata = take metadata_length (last_n total_length bytecode) in
               if \<not> metadata_recognized metadata then (bytecode, 0)
               else (take (length bytecode - total_length) bytecode, total_length))))"

section \<open>The similarity sketch\<close>

definition simhash_offsets :: "nat \<Rightarrow> nat list" where
  "simhash_offsets token_count =
     (let step = max 1 (token_count div 4096)
      in map (\<lambda>i. i * step) [0..<(token_count + step - 1) div step])"

definition simhash_tokens :: "bytes \<Rightarrow> bytes list" where
  "simhash_tokens bytecode =
     (let width = min 4 (length bytecode);
          token_count = max 1 (length bytecode - width + 1)
      in map (\<lambda>offset. take width (drop offset bytecode)) (simhash_offsets token_count))"

definition bit_weight :: "nat list \<Rightarrow> nat \<Rightarrow> int" where
  "bit_weight digests n = sum_list (map (\<lambda>d. if odd (d div 2 ^ n) then 1 else - 1) digests)"

definition simhash_value :: "nat list \<Rightarrow> nat" where
  "simhash_value digests =
     sum_list (map (\<lambda>n. if 0 \<le> bit_weight digests n then 2 ^ n else 0) [0..<64])"

text \<open>\<^verbatim>\<open>f"{value:016x}"\<close>\<close>

definition hex16 :: "nat \<Rightarrow> string" where
  "hex16 v = (let s = hex_digits v in replicate (16 - length s) (CHR ''0'') @ s)"

definition simhash64 :: "(bytes \<Rightarrow> nat) \<Rightarrow> bytes \<Rightarrow> string" where
  "simhash64 blake8 bytecode =
     (if bytecode = [] then replicate 16 (CHR ''0'')
      else hex16 (simhash_value (map blake8 (simhash_tokens bytecode))))"

definition fingerprint_bytecode :: "(bytes \<Rightarrow> string) \<Rightarrow> (bytes \<Rightarrow> nat) \<Rightarrow> string \<Rightarrow> fingerprint" where
  "fingerprint_bytecode sha256 blake8 code_text =
     (let raw = decode_hex_bytecode code_text;
          (normalized, metadata_size) = strip_solidity_metadata raw
      in \<lparr> fp_raw_sha256 = sha256 raw, fp_normalized_sha256 = sha256 normalized,
           fp_simhash64 = simhash64 blake8 normalized, fp_bytecode_size = length raw,
           fp_normalized_size = length normalized, fp_metadata_size = metadata_size \<rparr>)"

text \<open>\<^verbatim>\<open>int.bit_count\<close> counts the ones of the absolute value.\<close>

fun pop_count :: "nat \<Rightarrow> nat" where
  "pop_count n = (if n = 0 then 0 else n mod 2 + pop_count (n div 2))"

declare pop_count.simps [simp del]

definition simhash_similarity :: "string \<Rightarrow> string \<Rightarrow> rat" where
  "simhash_similarity left right =
     (if length left \<noteq> 16 \<or> length right \<noteq> 16 then 0
      else case (py_int16 left, py_int16 right) of
        (Inr a, Inr b) \<Rightarrow> max 0 (1 - of_nat (pop_count (nat \<bar>xor a b\<bar>)) / 64)
      | _ \<Rightarrow> 0)"

section \<open>Lemmas\<close>

lemma strip_metadata_split:
  "\<exists>trailer. fst (strip_solidity_metadata b) @ trailer = b \<and> length trailer = snd (strip_solidity_metadata b)"
  by (auto simp: strip_solidity_metadata_def Let_def
      intro!: exI [of _ "drop (length b - (from_be (last_n 2 b) + 2)) b"])

lemma strip_metadata_nonempty: "b \<noteq> [] \<Longrightarrow> fst (strip_solidity_metadata b) \<noteq> []"
  by (auto simp: strip_solidity_metadata_def Let_def)

lemma strip_metadata_removed:
  assumes "snd (strip_solidity_metadata b) \<noteq> 0"
  shows "metadata_recognized (take (from_be (last_n 2 b)) (last_n (from_be (last_n 2 b) + 2) b))"
    and "snd (strip_solidity_metadata b) = from_be (last_n 2 b) + 2"
  using assms by (auto simp: strip_solidity_metadata_def Let_def split: if_splits)

lemma strip_metadata_sizes:
  "length (fst (strip_solidity_metadata b)) + snd (strip_solidity_metadata b) = length b"
  using strip_metadata_split [of b] by (metis length_append)

lemma fingerprint_sizes:
  "fp_normalized_size (fingerprint_bytecode sha256 blake8 c) + fp_metadata_size (fingerprint_bytecode sha256 blake8 c)
     = fp_bytecode_size (fingerprint_bytecode sha256 blake8 c)"
  by (simp add: fingerprint_bytecode_def Let_def split_beta strip_metadata_sizes)

text \<open>The work for a sketch is bounded whatever the size of the bytecode.\<close>

lemma simhash_offsets_length: "length (simhash_offsets n) \<le> 8192"
proof (cases "n div 4096 = 0")
  case True
  then have "n < 4096" by (simp add: div_eq_0_iff)
  with True show ?thesis by (simp add: simhash_offsets_def Let_def)
next
  case False
  define step where "step = n div 4096"
  have pos: "1 \<le> step" using False by (simp add: step_def)
  have "n < 4096 * step + 4096"
    using mod_less_divisor [of 4096 n] div_mult_mod_eq [of n 4096] by (simp add: step_def)
  then have "n + step - 1 < 8193 * step" using pos by linarith
  then have "(n + step - 1) div step < 8193" by (rule less_mult_imp_div_less)
  moreover have "max 1 (n div 4096) = step" using pos by (simp add: step_def)
  ultimately show ?thesis by (simp only: simhash_offsets_def Let_def length_map length_upt)
qed

lemma simhash_work: "length (simhash_tokens b) \<le> 8192"
  by (simp add: simhash_tokens_def Let_def simhash_offsets_length)

lemma simhash_offset_bound:
  assumes "i \<in> set (simhash_offsets n)" shows "i < n"
proof -
  define step where "step = max 1 (n div 4096)"
  have pos: "0 < step" by (simp add: step_def)
  from assms obtain k where k: "i = k * step" "k < (n + step - 1) div step"
    by (auto simp: simhash_offsets_def Let_def step_def)
  then have "Suc k * step \<le> n + step - 1"
    using pos by (metis Suc_leI div_times_less_eq_dividend le_trans mult_le_mono1)
  with k(1) pos show ?thesis by simp
qed

lemma simhash_tokens_width:
  assumes "b \<noteq> []" "t \<in> set (simhash_tokens b)" shows "length t = min 4 (length b)"
  using assms simhash_offset_bound by (fastforce simp: simhash_tokens_def Let_def max_def split: if_splits)

section \<open>A sketch is sixteen hexadecimal digits and is similar to itself\<close>

lemma bit_sum_bound: "sum_list (map (\<lambda>n. if P n then 2 ^ n else 0) [0..<k]) < (2::nat) ^ k"
  by (induction k) (simp_all add: add.commute less_imp_add_positive add_strict_mono add_mono_thms_linordered_field)

lemma simhash_value_bound: "simhash_value ds < 2 ^ 64"
  unfolding simhash_value_def by (rule bit_sum_bound)

lemma foldl_zeros: "foldl (\<lambda>a d. a * b + d) (0::nat) (replicate k 0) = 0"
  by (induction k) simp_all

lemma digit_char_0: "digit_char 0 = CHR ''0''"
  by code_simp

lemma hex16_digits:
  assumes "v < 2 ^ 64"
  shows "length (hex16 v) = 16" and "py_int16 (hex16 v) = Inr (int v)"
proof -
  have len: "length (nat_digits 16 v) \<le> 16"
    using assms by (intro length_nat_digits) simp_all
  then show "length (hex16 v) = 16" by (simp add: hex16_def Let_def hex_digits_def)
  let ?ds = "replicate (16 - length (nat_digits 16 v)) 0 @ nat_digits 16 v"
  have "hex16 v = map digit_char ?ds"
    by (simp add: hex16_def Let_def hex_digits_def digit_char_0 map_replicate_const)
  moreover have "\<forall>d \<in> set ?ds. d < 16" by (auto dest: nat_digits_bound [rotated])
  ultimately show "py_int16 (hex16 v) = Inr (int v)"
    using py_int16_digits [of ?ds] nat_digits_value [of 16 v]
    by (simp only: foldl_append foldl_zeros) simp
qed

lemma simhash64_readable: "\<exists>v. length (simhash64 blake8 b) = 16 \<and> py_int16 (simhash64 blake8 b) = Inr v"
proof (cases "b = []")
  case True
  then have z: "simhash64 blake8 b = map digit_char (replicate 16 0)"
    by (simp add: simhash64_def digit_char_0 map_replicate_const)
  have "py_int16 (map digit_char (replicate 16 0)) = Inr (int (foldl (\<lambda>a d. a * 16 + d) 0 (replicate 16 0)))"
    by (rule py_int16_digits) simp_all
  with z show ?thesis by (metis length_map length_replicate)
next
  case False
  then have "simhash64 blake8 b = hex16 (simhash_value (map blake8 (simhash_tokens b)))"
    by (simp add: simhash64_def)
  with hex16_digits [OF simhash_value_bound] show ?thesis by metis
qed

lemma pop_count_0 [simp]: "pop_count 0 = 0"
  by (simp add: pop_count.simps)

lemma similarity_refl: "length s = 16 \<Longrightarrow> py_int16 s = Inr v \<Longrightarrow> simhash_similarity s s = 1"
  by (simp add: simhash_similarity_def)

lemma similarity_sym: "simhash_similarity a b = simhash_similarity b a"
  by (auto simp: simhash_similarity_def xor.commute split: sum.split)

lemma similarity_range: "0 \<le> simhash_similarity a b \<and> simhash_similarity a b \<le> 1"
  by (auto simp: simhash_similarity_def split: sum.split)

section \<open>Properties\<close>

text \<open>Normalisation removes exactly a recognised compiler trailer: code followed by any
  recognised metadata and its two-byte length normalises to that code, so two builds that
  differ in their metadata alone have the same normalised digest and sketch.\<close>

theorem metadata_trailer_removed:
  assumes "metadata_recognized m" and "length m < 65536" and "body \<noteq> []"
  shows "strip_solidity_metadata (body @ m @ [length m div 256, length m mod 256]) = (body, length m + 2)"
proof -
  have m: "m \<noteq> []" using assms(1) by (auto simp: metadata_recognized_def)
  let ?b = "body @ m @ [length m div 256, length m mod 256]"
  have l2: "last_n 2 ?b = [length m div 256, length m mod 256]" by (simp add: last_n_def)
  have len: "from_be (last_n 2 ?b) = length m" by (simp add: l2 from_be_def)
  have tail: "last_n (length m + 2) ?b = m @ [length m div 256, length m mod 256]"
    by (simp add: last_n_def)
  from m assms(3) have "4 \<le> length ?b" by (cases m; cases body) auto
  then show ?thesis
    using assms(1) m assms(3) unfolding strip_solidity_metadata_def Let_def len tail by simp
qed

theorem metadata_trailer_removed_witness:
  "strip_solidity_metadata ([96, 128] @ (162 # ascii_bytes ''dipfs'') @ [0, 6]) = ([96, 128], 8)"
  using metadata_trailer_removed [of "162 # ascii_bytes ''dipfs''" "[96, 128]"]
  by (simp add: metadata_recognized_def known_keys_def ascii_bytes_def code_pt_def)

text \<open>What is not a recognised trailer is kept: normalised code and the removed bytes are a
  prefix and the rest of the code, the reported sizes add up, nothing but recognised metadata
  is ever removed, and non-empty code never becomes empty.\<close>

theorem fingerprint_lossless:
  "(\<exists>trailer. fst (strip_solidity_metadata b) @ trailer = b \<and> length trailer = snd (strip_solidity_metadata b)
      \<and> (trailer = [] \<or> metadata_recognized (take (length trailer - 2) trailer)))
   \<and> (b = [] \<longleftrightarrow> fst (strip_solidity_metadata b) = [])
   \<and> fp_normalized_size (fingerprint_bytecode sha256 blake8 code_text)
       + fp_metadata_size (fingerprint_bytecode sha256 blake8 code_text)
     = fp_bytecode_size (fingerprint_bytecode sha256 blake8 code_text)"
proof -
  have "\<exists>trailer. fst (strip_solidity_metadata b) @ trailer = b \<and> length trailer = snd (strip_solidity_metadata b)
      \<and> (trailer = [] \<or> metadata_recognized (take (length trailer - 2) trailer))"
  proof -
    obtain trailer where t: "fst (strip_solidity_metadata b) @ trailer = b"
      "length trailer = snd (strip_solidity_metadata b)" using strip_metadata_split by blast
    show ?thesis
    proof (cases "trailer = []")
      case False
      then have "snd (strip_solidity_metadata b) \<noteq> 0" using t(2) by (metis length_0_conv)
      from strip_metadata_removed [OF this] t have "length trailer = from_be (last_n 2 b) + 2"
        "metadata_recognized (take (length trailer - 2) (last_n (length trailer) b))" by simp_all
      moreover have "last_n (length trailer) b = trailer"
        using t(1) by (metis append_eq_conv_conj diff_add_inverse2 last_n_def length_append)
      ultimately show ?thesis using t by auto
    qed (use t in auto)
  qed
  then show ?thesis
    using fingerprint_sizes strip_metadata_nonempty [of b] strip_metadata_split [of b] by auto
qed

text \<open>The similarity sketch costs a bounded amount of work and is comparable: at most 8,192 of the
  four-byte windows are hashed however long the code is, the sketch is always 16 hexadecimal
  digits, a sketch is fully similar to itself, and similarity is symmetric and lies between
  0 and 1.\<close>

theorem similarity_sketch:
  "length (simhash_tokens b) \<le> 8192
     \<and> length (simhash64 blake8 b) = 16
     \<and> simhash_similarity (simhash64 blake8 b) (simhash64 blake8 b) = 1
     \<and> simhash_similarity s t = simhash_similarity t s
     \<and> 0 \<le> simhash_similarity s t \<and> simhash_similarity s t \<le> 1"
proof -
  obtain v where v: "length (simhash64 blake8 b) = 16" "py_int16 (simhash64 blake8 b) = Inr v"
    using simhash64_readable by blast
  show ?thesis
    using simhash_work v similarity_refl [OF v] similarity_sym similarity_range by blast
qed

end
