(* ===== verification/Store.thy ===== *)
theory Store
  imports Models Fingerprint
begin

text \<open>
  The tables of \<^verbatim>\<open>src/white_radar/storage.py\<close> and their operations, but for the incident
  workflow (theory Incidents). A table is the list of its rows in
  \<^verbatim>\<open>rowid\<close> order; the state of \<^verbatim>\<open>RadarStore\<close> is the record of the tables; one method is one
  function on it. A method that raises inside its transaction leaves the database unchanged,
  so it returns no new state. Texts are compared byte by byte, as SQLite's default collation
  does. The clock is a record of what \<^verbatim>\<open>datetime\<close> answers: the present second, the texts of
  an instant, and the instant a text denotes.
\<close>

section \<open>Rows\<close>

record cursor_row =
  cr_chain_id :: int
  cr_last_confirmed_block :: int
  cr_updated_at :: string

record deployment_row =
  dr_chain_id :: int
  dr_address :: string
  dr_deployer_address :: string
  dr_tx_hash :: string
  dr_block_number :: int
  dr_observed_at :: string
  dr_contract_name :: "string option"
  dr_is_proxy :: bool

record event_row =
  er_event_id :: string
  er_observed_at :: string
  er_chain_id :: int
  er_score :: int
  er_severity :: string
  er_payload :: "(string \<times> field) list"
  er_alerted_at :: "string option"

record telemetry_row =
  te_chain_id :: int
  te_contract_address :: string
  te_selector :: string
  te_hour_bucket :: string
  te_protocol :: string
  te_observation_count :: nat
  te_last_observed_at :: string
  te_last_tx_hash :: string

record node_row =
  no_node_id :: string
  no_chain_id :: int
  no_kind :: string
  no_value :: string
  no_label :: "string option"
  no_metadata :: dict
  no_updated_at :: string

record edge_row =
  ed_edge_id :: string
  ed_chain_id :: int
  ed_source :: string
  ed_relation :: string
  ed_target :: string
  ed_evidence :: dict
  ed_observed_at :: string

record history_row =
  hi_incident_id :: string
  hi_from_status :: "incident_status option"
  hi_to_status :: incident_status
  hi_actor :: string
  hi_note :: "string option"
  hi_changed_at :: string

record heartbeat_row =
  hb_service :: string
  hb_chain_id :: int
  hb_status :: string
  hb_last_seen_at :: string
  hb_details :: dict
  hb_last_error :: "string option"

record abi_row =
  ab_chain_id :: int
  ab_address :: string
  ab_source :: string
  ab_sha256 :: string
  ab_selectors :: "(string \<times> string) list"
  ab_updated_at :: string

record invariant_row =
  iv_chain_id :: int
  iv_policy_address :: string
  iv_name :: string
  iv_status :: string
  iv_observed :: "string option"
  iv_expected :: "string option"
  iv_block_number :: int
  iv_block_hash :: "string option"
  iv_checked_at :: string

record profile_row =
  pr_chain_id :: int
  pr_address :: string
  pr_bytecode_sha256 :: string
  pr_normalized_sha256 :: string
  pr_simhash64 :: string
  pr_bytecode_size :: nat
  pr_normalized_size :: nat
  pr_metadata_size :: nat
  pr_metadata :: contract_metadata
  pr_first_seen_at :: string
  pr_last_enriched_at :: string

record store =
  st_cursors :: "cursor_row list"
  st_deployments :: "deployment_row list"
  st_events :: "event_row list"
  st_telemetry :: "telemetry_row list"
  st_nodes :: "node_row list"
  st_edges :: "edge_row list"
  st_incidents :: "incident_record list"
  st_history :: "history_row list"
  st_heartbeats :: "heartbeat_row list"
  st_abis :: "abi_row list"
  st_invariants :: "invariant_row list"
  st_profiles :: "profile_row list"

definition empty_store :: store where
  "empty_store = \<lparr> st_cursors = [], st_deployments = [], st_events = [], st_telemetry = [],
     st_nodes = [], st_edges = [], st_incidents = [], st_history = [], st_heartbeats = [],
     st_abis = [], st_invariants = [], st_profiles = [] \<rparr>"

record clock =
  ck_now :: int
  ck_format :: "int \<Rightarrow> string"
  ck_format_micro :: "int \<Rightarrow> string"
  ck_parse :: "string \<Rightarrow> int option"

definition utc_now :: "clock \<Rightarrow> string" where
  "utc_now ck = ck_format ck (ck_now ck)"

text \<open>\<^verbatim>\<open>(now - timedelta(hours=hours)).isoformat()\<close>\<close>

definition hours_ago :: "clock \<Rightarrow> int \<Rightarrow> string" where
  "hours_ago ck hours = ck_format_micro ck (ck_now ck - 3600 * hours)"

text \<open>\<^verbatim>\<open>LIMIT ?\<close>: a negative limit is none.\<close>

definition sql_limit :: "int \<Rightarrow> 'a list \<Rightarrow> 'a list" where
  "sql_limit n xs = (if n < 0 then xs else take (nat n) xs)"

definition clamp :: "int \<Rightarrow> int \<Rightarrow> int \<Rightarrow> int" where
  "clamp lo hi n = max lo (min hi n)"

section \<open>Interfaces\<close>

text \<open>A table written by \<^verbatim>\<open>INSERT ... ON CONFLICT(key) DO UPDATE\<close>: one row per key, and a
  write changes the row of its key only.\<close>

locale upsert_table =
  fixes key :: "'r \<Rightarrow> 'k"
    and merge :: "'r \<Rightarrow> 'r \<Rightarrow> 'r"
    and fetch :: "'s \<Rightarrow> 'k \<Rightarrow> 'r option"
    and put :: "'r \<Rightarrow> 's \<Rightarrow> 's"
  assumes fetch_put: "fetch (put r s) k =
      (if k = key r then Some (case fetch s k of None \<Rightarrow> r | Some old \<Rightarrow> merge old r) else fetch s k)"
    and merge_key: "key old = key new \<Longrightarrow> key (merge old new) = key new"
begin

lemma fetch_put_same: "\<exists>r'. fetch (put r s) (key r) = Some r'"
  by (simp add: fetch_put)

lemma fetch_put_other: "k \<noteq> key r \<Longrightarrow> fetch (put r s) k = fetch s k"
  by (simp add: fetch_put)

text \<open>A row, once written, is never lost.\<close>

lemma put_keeps: "fetch s k \<noteq> None \<Longrightarrow> fetch (put r s) k \<noteq> None"
  by (simp add: fetch_put)

lemma puts_domain: "fetch (fold put rs s) k \<noteq> None \<longleftrightarrow> fetch s k \<noteq> None \<or> k \<in> key ` set rs"
  by (induction rs arbitrary: s) (auto simp: fetch_put)

lemma puts_other: "k \<notin> key ` set rs \<Longrightarrow> fetch (fold put rs s) k = fetch s k"
  by (induction rs arbitrary: s) (auto simp: fetch_put)

end

text \<open>Where a conflict replaces the row, the last write wins.\<close>

locale replace_table = upsert_table +
  assumes merge_new: "merge old new = new"
begin

lemma fetch_put_replace: "fetch (put r s) k = (if k = key r then Some r else fetch s k)"
  by (simp add: fetch_put merge_new split: option.split)

lemma last_write_wins: "fetch (put r2 (put r1 s)) (key r2) = Some r2"
  by (simp add: fetch_put_replace)

lemma puts_last: "key r \<notin> key ` set rs \<Longrightarrow> fetch (fold put (r # rs) s) (key r) = Some r"
  by (simp add: puts_other fetch_put_replace)

end

text \<open>A table written by \<^verbatim>\<open>INSERT OR IGNORE\<close>: the first row of a key stays, and the write says
  whether it was the first.\<close>

locale insert_once_table =
  fixes key :: "'r \<Rightarrow> 'k"
    and fetch :: "'s \<Rightarrow> 'k \<Rightarrow> 'r option"
    and add :: "'r \<Rightarrow> 's \<Rightarrow> bool \<times> 's"
  assumes add_new: "fetch s (key r) = None \<Longrightarrow>
      fst (add r s) \<and> fetch (snd (add r s)) = (fetch s)(key r \<mapsto> r)"
    and add_old: "fetch s (key r) \<noteq> None \<Longrightarrow> add r s = (False, s)"
begin

lemma add_idempotent: "add r (snd (add r s)) = (False, snd (add r s))"
  by (cases "fetch s (key r) = None") (auto simp: add_new add_old intro!: add_old)

lemma add_first_wins: "fetch s k = Some r' \<Longrightarrow> fetch (snd (add r s)) k = Some r'"
  by (cases "fetch s (key r) = None") (auto simp: add_new add_old)

lemma add_present: "fetch (snd (add r s)) (key r) \<noteq> None"
  by (cases "fetch s (key r) = None") (auto simp: add_new add_old)

fun add_all :: "'r list \<Rightarrow> 's \<Rightarrow> nat \<times> 's" where
  "add_all [] s = (0, s)"
| "add_all (r # rs) s =
     (case add r s of (b, s1) \<Rightarrow> (case add_all rs s1 of (n, s2) \<Rightarrow> ((if b then Suc n else n), s2)))"

lemma snd_add_all: "snd (add_all (r # rs) s) = snd (add_all rs (snd (add r s)))"
  by (simp add: split_beta)

text \<open>Replaying a batch that was already stored adds nothing.\<close>

lemma add_all_present: "(\<forall>r \<in> set rs. fetch s (key r) \<noteq> None) \<Longrightarrow> add_all rs s = (0, s)"
  by (induction rs) (auto simp: add_old)

lemma add_all_keeps: "fetch s k = Some r \<Longrightarrow> fetch (snd (add_all rs s)) k = Some r"
proof (induction rs arbitrary: s)
  case (Cons x rs)
  from Cons.IH [OF add_first_wins [OF Cons.prems]] show ?case by (simp only: snd_add_all)
qed simp

lemma add_all_stores: "r \<in> set rs \<Longrightarrow> fetch (snd (add_all rs s)) (key r) \<noteq> None"
proof (induction rs arbitrary: s)
  case (Cons x rs)
  show ?case
  proof (cases "r = x")
    case True
    obtain y where "fetch (snd (add r s)) (key r) = Some y" using add_present by blast
    from add_all_keeps [OF this, of rs] True show ?thesis by (simp add: snd_add_all del: add_all.simps)
  next
    case False
    with Cons show ?thesis by (simp add: snd_add_all del: add_all.simps)
  qed
qed simp

lemma add_all_replay: "add_all rs (snd (add_all rs s)) = (0, snd (add_all rs s))"
  by (rule add_all_present) (simp add: add_all_stores)

end

section \<open>Cursors\<close>

definition get_cursor :: "store \<Rightarrow> int \<Rightarrow> int option" where
  "get_cursor st chain_id = map_option cr_last_confirmed_block (lookup_row cr_chain_id (st_cursors st) chain_id)"

definition set_cursor :: "clock \<Rightarrow> int \<Rightarrow> int \<Rightarrow> store \<Rightarrow> store" where
  "set_cursor ck chain_id block_number st =
     st\<lparr> st_cursors := upsert_row cr_chain_id (\<lambda>old new. new)
        \<lparr> cr_chain_id = chain_id, cr_last_confirmed_block = block_number, cr_updated_at = utc_now ck \<rparr>
        (st_cursors st) \<rparr>"

definition cursors :: "store \<Rightarrow> cursor_row list" where
  "cursors st = st_cursors st"

section \<open>Deployments\<close>

definition deployment_key :: "deployment_row \<Rightarrow> int \<times> string" where
  "deployment_key r = (dr_chain_id r, dr_address r)"

definition mk_deployment ::
  "int \<Rightarrow> string \<Rightarrow> string \<Rightarrow> string \<Rightarrow> int \<Rightarrow> string \<Rightarrow> string option \<Rightarrow> bool \<Rightarrow> deployment_row" where
  "mk_deployment chain_id address deployer tx_hash block_number observed_at name is_proxy =
     \<lparr> dr_chain_id = chain_id, dr_address = lower address, dr_deployer_address = lower deployer,
       dr_tx_hash = lower tx_hash, dr_block_number = block_number, dr_observed_at = observed_at,
       dr_contract_name = name, dr_is_proxy = is_proxy \<rparr>"

definition insert_deployment :: "deployment_row \<Rightarrow> store \<Rightarrow> bool \<times> store" where
  "insert_deployment r st =
     (case insert_or_ignore deployment_key r (st_deployments st) of
        (rows, inserted) \<Rightarrow> (inserted, st\<lparr> st_deployments := rows \<rparr>))"

definition add_deployment ::
  "int \<Rightarrow> string \<Rightarrow> string \<Rightarrow> string \<Rightarrow> int \<Rightarrow> string \<Rightarrow> string option \<Rightarrow> bool \<Rightarrow> store \<Rightarrow> bool \<times> store" where
  "add_deployment chain_id address deployer tx_hash block_number observed_at name is_proxy st =
     insert_deployment
       (mk_deployment chain_id address deployer tx_hash block_number observed_at name is_proxy) st"

definition related_deployments :: "clock \<Rightarrow> store \<Rightarrow> int \<Rightarrow> string \<Rightarrow> int \<Rightarrow> int \<Rightarrow> deployment_row list" where
  "related_deployments ck st chain_id deployer hours limit =
     (let since = hours_ago ck hours in
      sql_limit limit (sort_key (\<lambda>r. - dr_block_number r)
        (filter (\<lambda>r. dr_chain_id r = chain_id \<and> dr_deployer_address r = lower deployer
                    \<and> since \<le> dr_observed_at r) (st_deployments st))))"

section \<open>Events and the alert outbox\<close>

definition event_row_of :: "radar_event \<Rightarrow> event_row" where
  "event_row_of e =
     \<lparr> er_event_id = ev_event_id e, er_observed_at = ev_observed_at e, er_chain_id = ev_chain_id e,
       er_score = ev_score e, er_severity = severity_value (ev_severity e),
       er_payload = event_to_dict e, er_alerted_at = None \<rparr>"

definition insert_event_row :: "event_row \<Rightarrow> store \<Rightarrow> bool \<times> store" where
  "insert_event_row r st =
     (case insert_or_ignore er_event_id r (st_events st) of
        (rows, inserted) \<Rightarrow> (inserted, st\<lparr> st_events := rows \<rparr>))"

definition add_event :: "radar_event \<Rightarrow> store \<Rightarrow> bool \<times> store" where
  "add_event e st = insert_event_row (event_row_of e) st"

definition mark_alerted :: "clock \<Rightarrow> string \<Rightarrow> store \<Rightarrow> store" where
  "mark_alerted ck event_id st =
     st\<lparr> st_events := update_row er_event_id (\<lambda>r. r\<lparr> er_alerted_at := Some (utc_now ck) \<rparr>) event_id
          (st_events st) \<rparr>"

definition was_alerted :: "store \<Rightarrow> string \<Rightarrow> bool" where
  "was_alerted st event_id =
     (case lookup_row er_event_id (st_events st) event_id of
        None \<Rightarrow> False | Some r \<Rightarrow> truthy_opt (er_alerted_at r))"

definition read_events :: "event_row list \<Rightarrow> radar_event list res" where
  "read_events rows = traverse (\<lambda>r. event_from_dict (er_payload r)) rows"

definition pending_rows :: "store \<Rightarrow> int \<Rightarrow> int \<Rightarrow> event_row list" where
  "pending_rows st chain_id limit =
     sql_limit limit (sort_key er_observed_at
       (filter (\<lambda>r. er_chain_id r = chain_id \<and> er_alerted_at r = None) (st_events st)))"

definition pending_alerts :: "store \<Rightarrow> int \<Rightarrow> int \<Rightarrow> radar_event list res" where
  "pending_alerts st chain_id limit = read_events (pending_rows st chain_id limit)"

definition recent_events :: "store \<Rightarrow> int \<Rightarrow> radar_event list res" where
  "recent_events st limit = read_events (sql_limit limit (rev (sort_key er_observed_at (st_events st))))"

definition events_since :: "clock \<Rightarrow> store \<Rightarrow> int \<Rightarrow> int \<Rightarrow> radar_event list res" where
  "events_since ck st hours limit =
     (let since = hours_ago ck (max 1 hours) in
      read_events (sql_limit (clamp 1 5000 limit)
        (rev (sort_key er_observed_at (filter (\<lambda>r. since \<le> er_observed_at r) (st_events st))))))"

definition export_rows :: "store \<Rightarrow> (string \<times> field) list list" where
  "export_rows st = map er_payload (sort_key er_observed_at (st_events st))"

text \<open>\<^verbatim>\<open>counts\<close>: events, deployments, alerted events.\<close>

definition counts :: "store \<Rightarrow> nat \<times> nat \<times> nat" where
  "counts st = (length (st_events st), length (st_deployments st),
     length (filter (\<lambda>r. er_alerted_at r \<noteq> None) (st_events st)))"

section \<open>Pending telemetry\<close>

definition telemetry_key :: "telemetry_row \<Rightarrow> int \<times> string \<times> string \<times> string" where
  "telemetry_key r = (te_chain_id r, te_contract_address r, te_selector r, te_hour_bucket r)"

text \<open>The \<^verbatim>\<open>ON CONFLICT\<close> clause: one more observation; the latest one gives the hash.\<close>

definition merge_telemetry :: "telemetry_row \<Rightarrow> telemetry_row \<Rightarrow> telemetry_row" where
  "merge_telemetry old new =
     old\<lparr> te_observation_count := te_observation_count old + 1,
          te_protocol := te_protocol new,
          te_last_tx_hash := (if te_last_observed_at old \<le> te_last_observed_at new
             then te_last_tx_hash new else te_last_tx_hash old),
          te_last_observed_at := max (te_last_observed_at old) (te_last_observed_at new) \<rparr>"

definition mk_telemetry :: "clock \<Rightarrow> int \<Rightarrow> string \<Rightarrow> string \<Rightarrow> string \<Rightarrow> string \<Rightarrow> string \<Rightarrow> telemetry_row" where
  "mk_telemetry ck chain_id contract selector protocol tx_hash observed_at =
     (let observed = (case ck_parse ck observed_at of None \<Rightarrow> ck_now ck | Some t \<Rightarrow> t) in
      \<lparr> te_chain_id = chain_id, te_contract_address = lower contract, te_selector = lower selector,
        te_hour_bucket = ck_format ck (observed - observed mod 3600),
        te_protocol = take 200 protocol, te_observation_count = 1,
        te_last_observed_at = ck_format ck observed, te_last_tx_hash = lower tx_hash \<rparr>)"

definition put_telemetry :: "telemetry_row \<Rightarrow> store \<Rightarrow> store" where
  "put_telemetry r st = st\<lparr> st_telemetry := upsert_row telemetry_key merge_telemetry r (st_telemetry st) \<rparr>"

definition record_pending_telemetry ::
  "clock \<Rightarrow> int \<Rightarrow> string \<Rightarrow> string \<Rightarrow> string \<Rightarrow> string \<Rightarrow> string \<Rightarrow> store \<Rightarrow> store" where
  "record_pending_telemetry ck chain_id contract selector protocol tx_hash observed_at st =
     put_telemetry (mk_telemetry ck chain_id contract selector protocol tx_hash observed_at) st"

definition telemetry_total :: "store \<Rightarrow> nat" where
  "telemetry_total st = sum_list (map te_observation_count (st_telemetry st))"

record telemetry_group =
  tg_key :: "int \<times> string \<times> string \<times> string"
  tg_observation_count :: nat
  tg_last_observed_at :: string
  tg_last_tx_hash :: string

definition telemetry_group_key :: "telemetry_row \<Rightarrow> int \<times> string \<times> string \<times> string" where
  "telemetry_group_key r = (te_chain_id r, te_contract_address r, te_selector r, te_protocol r)"

definition max_text :: "string list \<Rightarrow> string" where
  "max_text xs = foldr max xs []"

definition telemetry_group_of :: "telemetry_row list \<Rightarrow> int \<times> string \<times> string \<times> string \<Rightarrow> telemetry_group" where
  "telemetry_group_of rows k =
     (let group = filter (\<lambda>r. telemetry_group_key r = k) rows in
      \<lparr> tg_key = k, tg_observation_count = sum_list (map te_observation_count group),
        tg_last_observed_at = max_text (map te_last_observed_at group),
        tg_last_tx_hash = max_text (map te_last_tx_hash group) \<rparr>)"

definition pending_telemetry_since :: "clock \<Rightarrow> store \<Rightarrow> int \<Rightarrow> int \<Rightarrow> telemetry_group list" where
  "pending_telemetry_since ck st hours limit =
     (let since = hours_ago ck (max 1 hours);
          rows = filter (\<lambda>r. since \<le> te_last_observed_at r) (st_telemetry st);
          groups = map (telemetry_group_of rows) (fromkeys (map telemetry_group_key rows))
      in sql_limit (clamp 1 5000 limit)
           (rev (sort_key (\<lambda>g. (tg_observation_count g, tg_last_observed_at g)) groups)))"

section \<open>The identity graph\<close>

definition identity_id :: "(string \<Rightarrow> string) \<Rightarrow> string list \<Rightarrow> string" where
  "identity_id sha256 parts = take 32 (sha256 (join ''|'' (map lower parts)))"

definition node_key :: "node_row \<Rightarrow> int \<times> string \<times> string" where
  "node_key r = (no_chain_id r, no_kind r, no_value r)"

definition merge_node :: "node_row \<Rightarrow> node_row \<Rightarrow> node_row" where
  "merge_node old new =
     old\<lparr> no_label := (case no_label new of None \<Rightarrow> no_label old | Some l \<Rightarrow> Some l),
          no_metadata := no_metadata new, no_updated_at := no_updated_at new \<rparr>"

definition put_node :: "node_row \<Rightarrow> store \<Rightarrow> store" where
  "put_node r st = st\<lparr> st_nodes := upsert_row node_key merge_node r (st_nodes st) \<rparr>"

text \<open>The conflict clause names \<^verbatim>\<open>(chain_id, kind, value)\<close>; a fresh triple whose digest is already
  the \<^verbatim>\<open>node_id\<close> of another row violates the primary key and raises.\<close>

definition upsert_identity_node ::
  "(string \<Rightarrow> string) \<Rightarrow> clock \<Rightarrow> int \<Rightarrow> string \<Rightarrow> string \<Rightarrow> string option \<Rightarrow> dict \<Rightarrow> store \<Rightarrow> (string \<times> store) res" where
  "upsert_identity_node sha256 ck chain_id kind val label metadata st =
     (let normalized = lower val;
          node_id = identity_id sha256 [''node'', int_str chain_id, kind, normalized];
          row = \<lparr> no_node_id = node_id, no_chain_id = chain_id, no_kind = kind,
                  no_value = normalized, no_label = label, no_metadata = metadata,
                  no_updated_at = utc_now ck \<rparr>
      in if node_key row \<notin> node_key ` set (st_nodes st) \<and> node_id \<in> no_node_id ` set (st_nodes st)
         then Inl IntegrityError
         else Inr (node_id, put_node row st))"

definition merge_edge :: "edge_row \<Rightarrow> edge_row \<Rightarrow> edge_row" where
  "merge_edge old new = old\<lparr> ed_evidence := ed_evidence new, ed_observed_at := ed_observed_at new \<rparr>"

definition put_edge :: "edge_row \<Rightarrow> store \<Rightarrow> store" where
  "put_edge r st = st\<lparr> st_edges := upsert_row ed_edge_id merge_edge r (st_edges st) \<rparr>"

definition upsert_identity_edge ::
  "(string \<Rightarrow> string) \<Rightarrow> int \<Rightarrow> string \<Rightarrow> string \<Rightarrow> string \<Rightarrow> dict \<Rightarrow> string \<Rightarrow> store \<Rightarrow> string \<times> store" where
  "upsert_identity_edge sha256 chain_id source relation target evidence observed_at st =
     (let edge_id = identity_id sha256 [''edge'', int_str chain_id, source, relation, target] in
      (edge_id, put_edge \<lparr> ed_edge_id = edge_id, ed_chain_id = chain_id, ed_source = source,
         ed_relation = relation, ed_target = target, ed_evidence = evidence,
         ed_observed_at = observed_at \<rparr> st))"

text \<open>The rows of \<^verbatim>\<open>identity_edges\<close> incident to the frontier, and the hops of the loop. The
  state is the frontier, the nodes seen and the edges seen (by identifier, first position,
  last row, as a Python dictionary keeps them).\<close>

definition incident_edges :: "store \<Rightarrow> int \<Rightarrow> string list \<Rightarrow> edge_row list" where
  "incident_edges st chain_id frontier =
     filter (\<lambda>e. ed_chain_id e = chain_id \<and> (ed_source e \<in> set frontier \<or> ed_target e \<in> set frontier))
       (st_edges st)"

definition edge_ends :: "edge_row list \<Rightarrow> string list" where
  "edge_ends rows = concat (map (\<lambda>e. [ed_source e, ed_target e]) rows)"

fun neighborhood_loop ::
  "store \<Rightarrow> int \<Rightarrow> nat \<Rightarrow> string list \<Rightarrow> string list \<Rightarrow> edge_row list \<Rightarrow> string list \<times> edge_row list" where
  "neighborhood_loop st chain_id 0 frontier seen edges = (seen, edges)"
| "neighborhood_loop st chain_id (Suc n) frontier seen edges =
     (if frontier = [] then (seen, edges)
      else
        (let rows = incident_edges st chain_id frontier;
             edges' = fold (upsert_row ed_edge_id (\<lambda>old new. new)) rows edges;
             next_frontier = filter (\<lambda>x. x \<notin> set seen) (fromkeys (edge_ends rows))
         in neighborhood_loop st chain_id n next_frontier (seen @ next_frontier) edges'))"

definition identity_neighborhood :: "store \<Rightarrow> int \<Rightarrow> string \<Rightarrow> int \<Rightarrow> node_row list \<times> edge_row list" where
  "identity_neighborhood st chain_id val depth =
     (let seeds = map no_node_id
            (filter (\<lambda>r. no_chain_id r = chain_id \<and> no_value r = lower val) (st_nodes st));
          (seen, edges) = neighborhood_loop st chain_id (nat (clamp 0 4 depth)) (fromkeys seeds) (fromkeys seeds) []
      in (sort_key (\<lambda>r. (no_kind r, no_value r)) (filter (\<lambda>r. no_node_id r \<in> set seen) (st_nodes st)),
          sort_key ed_edge_id edges))"

section \<open>Heartbeats\<close>

definition heartbeat_key :: "heartbeat_row \<Rightarrow> string \<times> int" where
  "heartbeat_key r = (hb_service r, hb_chain_id r)"

definition put_heartbeat :: "heartbeat_row \<Rightarrow> store \<Rightarrow> store" where
  "put_heartbeat r st = st\<lparr> st_heartbeats := upsert_row heartbeat_key (\<lambda>old new. new) r (st_heartbeats st) \<rparr>"

definition record_heartbeat ::
  "clock \<Rightarrow> string \<Rightarrow> int \<Rightarrow> string \<Rightarrow> dict \<Rightarrow> string option \<Rightarrow> store \<Rightarrow> store res" where
  "record_heartbeat ck service_name chain_id status details last_error st =
     (let service = take 100 (squeeze service_name);
          normalized = take 30 (lower (strip status))
      in if service = [] \<or> normalized = [] then Inl ValueError
         else Inr (put_heartbeat \<lparr> hb_service = service, hb_chain_id = chain_id,
           hb_status = normalized, hb_last_seen_at = utc_now ck, hb_details = details,
           hb_last_error = none_if_empty (take 200 (case last_error of None \<Rightarrow> [] | Some e \<Rightarrow> e)) \<rparr> st))"

record service_health =
  sh_service :: string
  sh_chain_id :: int
  sh_status :: string
  sh_last_seen_at :: "string option"
  sh_age_seconds :: "int option"
  sh_stale :: bool
  sh_healthy :: bool
  sh_last_error :: "string option"

definition service_of_row :: "clock \<Rightarrow> int \<Rightarrow> heartbeat_row \<Rightarrow> service_health" where
  "service_of_row ck threshold r =
     (let age = (case ck_parse ck (hb_last_seen_at r) of
            None \<Rightarrow> threshold + 1 | Some seen \<Rightarrow> max 0 (ck_now ck - seen));
          stale = (age > threshold)
      in \<lparr> sh_service = hb_service r, sh_chain_id = hb_chain_id r, sh_status = hb_status r,
           sh_last_seen_at = Some (hb_last_seen_at r), sh_age_seconds = Some age,
           sh_stale = stale, sh_healthy = (hb_status r = ''ok'' \<and> \<not> stale),
           sh_last_error = hb_last_error r \<rparr>)"

definition missing_service :: "string \<times> int \<Rightarrow> service_health" where
  "missing_service s =
     \<lparr> sh_service = fst s, sh_chain_id = snd s, sh_status = ''missing'', sh_last_seen_at = None,
       sh_age_seconds = None, sh_stale = True, sh_healthy = False,
       sh_last_error = Some ''No heartbeat has been recorded.'' \<rparr>"

definition health_snapshot :: "clock \<Rightarrow> store \<Rightarrow> int \<Rightarrow> (string \<times> int) list \<Rightarrow> bool \<times> int \<times> service_health list" where
  "health_snapshot ck st stale_after_seconds expected_services =
     (let threshold = max 30 stale_after_seconds;
          services = map (service_of_row ck threshold)
            (sort_key (\<lambda>r. (hb_service r, hb_chain_id r)) (st_heartbeats st));
          observed = map (\<lambda>s. (sh_service s, sh_chain_id s)) services;
          missing = map missing_service
            (sort (filter (\<lambda>s. s \<notin> set observed) (fromkeys expected_services)));
          all_services = sort_key (\<lambda>s. (sh_service s, sh_chain_id s)) (services @ missing)
      in (all_services \<noteq> [] \<and> list_all sh_healthy all_services, threshold, all_services))"

section \<open>ABI catalogs and invariant states\<close>

definition abi_key :: "abi_row \<Rightarrow> int \<times> string" where
  "abi_key r = (ab_chain_id r, ab_address r)"

definition put_abi :: "abi_row \<Rightarrow> store \<Rightarrow> store" where
  "put_abi r st = st\<lparr> st_abis := upsert_row abi_key (\<lambda>old new. new) r (st_abis st) \<rparr>"

definition upsert_abi_catalog ::
  "clock \<Rightarrow> int \<Rightarrow> string \<Rightarrow> string \<Rightarrow> string \<Rightarrow> (string \<times> string) list \<Rightarrow> store \<Rightarrow> store" where
  "upsert_abi_catalog ck chain_id address source sha selectors st =
     put_abi \<lparr> ab_chain_id = chain_id, ab_address = lower address, ab_source = source,
       ab_sha256 = sha, ab_selectors = selectors, ab_updated_at = utc_now ck \<rparr> st"

definition get_abi_catalog :: "store \<Rightarrow> int \<Rightarrow> string \<Rightarrow> abi_row option" where
  "get_abi_catalog st chain_id address = lookup_row abi_key (st_abis st) (chain_id, lower address)"

definition invariant_key :: "invariant_row \<Rightarrow> int \<times> string \<times> string" where
  "invariant_key r = (iv_chain_id r, iv_policy_address r, iv_name r)"

definition put_invariant :: "invariant_row \<Rightarrow> store \<Rightarrow> store" where
  "put_invariant r st = st\<lparr> st_invariants := upsert_row invariant_key (\<lambda>old new. new) r (st_invariants st) \<rparr>"

definition fetch_invariant :: "store \<Rightarrow> int \<times> string \<times> string \<Rightarrow> invariant_row option" where
  "fetch_invariant st k = lookup_row invariant_key (st_invariants st) k"

text \<open>The snapshot is written and the previous one returned.\<close>

definition record_invariant_state ::
  "clock \<Rightarrow> int \<Rightarrow> string \<Rightarrow> string \<Rightarrow> string \<Rightarrow> string option \<Rightarrow> string option \<Rightarrow> int \<Rightarrow> string option
     \<Rightarrow> store \<Rightarrow> invariant_row option \<times> store" where
  "record_invariant_state ck chain_id policy_address name status observed expected block_number block_hash st =
     (fetch_invariant st (chain_id, lower policy_address, name),
      put_invariant \<lparr> iv_chain_id = chain_id, iv_policy_address = lower policy_address, iv_name = name,
        iv_status = status, iv_observed = observed, iv_expected = expected,
        iv_block_number = block_number, iv_block_hash = block_hash, iv_checked_at = utc_now ck \<rparr> st)"

definition list_invariant_states :: "store \<Rightarrow> int option \<Rightarrow> int \<Rightarrow> invariant_row list" where
  "list_invariant_states st chain_id limit =
     sql_limit (clamp 1 5000 limit) (rev (sort_key iv_checked_at (rev
       (filter (\<lambda>r. case chain_id of None \<Rightarrow> True | Some c \<Rightarrow> iv_chain_id r = c) (st_invariants st)))))"

section \<open>Bytecode profiles\<close>

definition profile_key :: "profile_row \<Rightarrow> int \<times> string" where
  "profile_key r = (pr_chain_id r, pr_address r)"

text \<open>The conflict clause updates every column but \<^verbatim>\<open>first_seen_at\<close>.\<close>

definition merge_profile :: "profile_row \<Rightarrow> profile_row \<Rightarrow> profile_row" where
  "merge_profile old new = new\<lparr> pr_chain_id := pr_chain_id old, pr_address := pr_address old,
     pr_first_seen_at := pr_first_seen_at old \<rparr>"

definition put_profile :: "profile_row \<Rightarrow> store \<Rightarrow> store" where
  "put_profile r st = st\<lparr> st_profiles := upsert_row profile_key merge_profile r (st_profiles st) \<rparr>"

definition fetch_profile :: "store \<Rightarrow> int \<times> string \<Rightarrow> profile_row option" where
  "fetch_profile st k = lookup_row profile_key (st_profiles st) k"

definition upsert_contract_profile ::
  "int \<Rightarrow> string \<Rightarrow> fingerprint \<Rightarrow> contract_metadata \<Rightarrow> string \<Rightarrow> store \<Rightarrow> store" where
  "upsert_contract_profile chain_id address fp metadata observed_at st =
     put_profile
       \<lparr> pr_chain_id = chain_id, pr_address = lower address,
         pr_bytecode_sha256 = fp_raw_sha256 fp, pr_normalized_sha256 = fp_normalized_sha256 fp,
         pr_simhash64 = fp_simhash64 fp, pr_bytecode_size = fp_bytecode_size fp,
         pr_normalized_size = fp_normalized_size fp, pr_metadata_size = fp_metadata_size fp,
         pr_metadata = metadata, pr_first_seen_at = observed_at, pr_last_enriched_at = observed_at \<rparr> st"

text \<open>\<^verbatim>\<open>int(n * c)\<close> for the double \<open>c = m / 2 ^ 52\<close>: the exact product is rounded to 53
  significant bits, ties to even, and truncated. \<^verbatim>\<open>0.7\<close> and \<^verbatim>\<open>1.3\<close> are the doubles below.\<close>

fun bit_length :: "nat \<Rightarrow> nat" where
  "bit_length n = (if n = 0 then 0 else Suc (bit_length (n div 2)))"

declare bit_length.simps [simp del]

definition round_half_even :: "nat \<Rightarrow> nat \<Rightarrow> nat" where
  "round_half_even p d =
     (let q = p div d; r = p mod d
      in if 2 * r < d then q else if d < 2 * r then q + 1 else if even q then q else q + 1)"

definition float_scale :: "nat \<Rightarrow> nat \<Rightarrow> nat" where
  "float_scale m n = (let p = n * m; e = 2 ^ (bit_length p - 53) in round_half_even p e * e div 2 ^ 52)"

definition FLOAT_0_7 :: nat where "FLOAT_0_7 = 3152519739159347"
definition FLOAT_1_3 :: nat where "FLOAT_1_3 = 5854679515581645"

record profile_match =
  ma_row :: profile_row
  ma_exact :: bool
  ma_similarity :: nat

text \<open>The similarity in ten-thousandths, \<^verbatim>\<open>round(similarity, 4)\<close>.\<close>

definition round4 :: "rat \<Rightarrow> nat" where
  "round4 q = (case quotient_of q of (n, d) \<Rightarrow> round_half_even (nat (10000 * n)) (nat d))"

definition match_row :: "fingerprint \<Rightarrow> rat \<Rightarrow> profile_row \<Rightarrow> profile_match option" where
  "match_row fp minimum r =
     (let exact = (pr_normalized_sha256 r = fp_normalized_sha256 fp);
          similarity = (if exact then 1 else simhash_similarity (pr_simhash64 r) (fp_simhash64 fp))
      in if similarity < minimum then None
         else Some \<lparr> ma_row = r, ma_exact = exact, ma_similarity = round4 similarity \<rparr>)"

text \<open>A slice \<^verbatim>\<open>xs[:n]\<close>.\<close>

definition py_take :: "int \<Rightarrow> 'a list \<Rightarrow> 'a list" where
  "py_take n xs = (if n < 0 then take (length xs - nat (- n)) xs else take (nat n) xs)"

definition similar_contracts ::
  "store \<Rightarrow> int \<Rightarrow> string \<Rightarrow> fingerprint \<Rightarrow> rat \<Rightarrow> int \<Rightarrow> profile_match list" where
  "similar_contracts st chain_id address fp minimum limit =
     (let lower_size = float_scale FLOAT_0_7 (fp_normalized_size fp);
          upper_size = max lower_size (float_scale FLOAT_1_3 (fp_normalized_size fp) + 1);
          rows = take 2000 (rev (sort_key pr_last_enriched_at
            (filter (\<lambda>r. pr_chain_id r = chain_id \<and> pr_address r \<noteq> lower address
                \<and> lower_size \<le> pr_normalized_size r \<and> pr_normalized_size r \<le> upper_size) (st_profiles st))));
          matches = List.map_filter (match_row fp minimum) rows
      in py_take limit (rev (sort_key (\<lambda>m. (ma_exact m, ma_similarity m, pr_last_enriched_at (ma_row m)))
           (rev matches))))"

text \<open>The rows with the deployment each joins, where there is one.\<close>

definition profiles_due_for_refresh ::
  "clock \<Rightarrow> store \<Rightarrow> int \<Rightarrow> int \<Rightarrow> int \<Rightarrow> (profile_row \<times> deployment_row option) list" where
  "profiles_due_for_refresh ck st chain_id min_age_minutes limit =
     (let threshold = ck_format_micro ck (ck_now ck - 60 * max 0 min_age_minutes);
          rows = sort_key (\<lambda>r. (pr_last_enriched_at r, pr_address r))
            (filter (\<lambda>r. pr_chain_id r = chain_id \<and> pr_last_enriched_at r \<le> threshold) (st_profiles st))
      in map (\<lambda>r. (r, lookup_row deployment_key (st_deployments st) (pr_chain_id r, pr_address r)))
           (sql_limit (clamp 1 500 limit) rows))"

record intelligence =
  ig_profiles :: nat
  ig_identity_nodes :: nat
  ig_identity_edges :: nat
  ig_abi_catalogs :: nat
  ig_invariant_states :: nat
  ig_pending_telemetry_observations :: nat
  ig_pending_telemetry_buckets :: nat

definition intelligence_counts :: "store \<Rightarrow> intelligence" where
  "intelligence_counts st =
     \<lparr> ig_profiles = length (st_profiles st), ig_identity_nodes = length (st_nodes st),
       ig_identity_edges = length (st_edges st), ig_abi_catalogs = length (st_abis st),
       ig_invariant_states = length (st_invariants st),
       ig_pending_telemetry_observations = telemetry_total st,
       ig_pending_telemetry_buckets = length (st_telemetry st) \<rparr>"

section \<open>The interfaces hold for the tables\<close>

lemma merge_keys [simp]:
  "telemetry_key (merge_telemetry old new) = telemetry_key old"
  "node_key (merge_node o_node n_node) = node_key o_node"
  "ed_edge_id (merge_edge o_edge n_edge) = ed_edge_id o_edge"
  "profile_key (merge_profile p_old p_new) = profile_key p_old"
  by (simp_all add: telemetry_key_def merge_telemetry_def node_key_def merge_node_def merge_edge_def
      profile_key_def merge_profile_def)

interpretation cursor_table: replace_table cr_chain_id "\<lambda>old new. new"
  "\<lambda>st. lookup_row cr_chain_id (st_cursors st)"
  "\<lambda>r st. st\<lparr> st_cursors := upsert_row cr_chain_id (\<lambda>old new. new) r (st_cursors st) \<rparr>"
  by unfold_locales (simp_all add: lookup_upsert_row)

interpretation telemetry_table: upsert_table telemetry_key merge_telemetry
  "\<lambda>st. lookup_row telemetry_key (st_telemetry st)" put_telemetry
  by unfold_locales (simp_all add: put_telemetry_def lookup_upsert_row)

interpretation node_table: upsert_table node_key merge_node "\<lambda>st. lookup_row node_key (st_nodes st)" put_node
  by unfold_locales (simp_all add: put_node_def lookup_upsert_row)

interpretation edge_table: upsert_table ed_edge_id merge_edge "\<lambda>st. lookup_row ed_edge_id (st_edges st)" put_edge
  by unfold_locales (simp_all add: put_edge_def lookup_upsert_row)

interpretation heartbeat_table: replace_table heartbeat_key "\<lambda>old new. new"
  "\<lambda>st. lookup_row heartbeat_key (st_heartbeats st)" put_heartbeat
  by unfold_locales (simp_all add: put_heartbeat_def lookup_upsert_row)

interpretation abi_table: replace_table abi_key "\<lambda>old new. new"
  "\<lambda>st. lookup_row abi_key (st_abis st)" put_abi
  by unfold_locales (simp_all add: put_abi_def lookup_upsert_row)

interpretation invariant_table: replace_table invariant_key "\<lambda>old new. new" fetch_invariant put_invariant
  by unfold_locales (simp_all add: put_invariant_def fetch_invariant_def lookup_upsert_row)

interpretation profile_table: upsert_table profile_key merge_profile fetch_profile put_profile
  by unfold_locales (simp_all add: put_profile_def fetch_profile_def lookup_upsert_row)

interpretation event_table: insert_once_table er_event_id
  "\<lambda>st. lookup_row er_event_id (st_events st)" insert_event_row
  by unfold_locales
    (simp_all add: insert_event_row_def insert_or_ignore_new insert_or_ignore_old lookup_row_snoc)

interpretation deployment_table: insert_once_table deployment_key
  "\<lambda>st. lookup_row deployment_key (st_deployments st)" insert_deployment
  by unfold_locales
    (simp_all add: insert_deployment_def insert_or_ignore_new insert_or_ignore_old lookup_row_snoc)

section \<open>Lemmas\<close>

lemma get_set_cursor:
  "get_cursor (set_cursor ck c n st) c' = (if c' = c then Some n else get_cursor st c')"
  by (simp add: get_cursor_def set_cursor_def lookup_upsert_row split: option.split)

lemma set_cursor_frame [simp]:
  "st_events (set_cursor ck c n st) = st_events st"
  "st_deployments (set_cursor ck c n st) = st_deployments st"
  "st_incidents (set_cursor ck c n st) = st_incidents st"
  "st_history (set_cursor ck c n st) = st_history st"
  by (simp_all add: set_cursor_def)

lemma add_event_stored:
  "add_event e st = (b, st') \<Longrightarrow>
     (b \<longleftrightarrow> lookup_row er_event_id (st_events st) (ev_event_id e) = None) \<and>
     lookup_row er_event_id (st_events st') (ev_event_id e) \<noteq> None \<and>
     get_cursor st' c = get_cursor st c"
  using event_table.add_present [of "event_row_of e" st]
  by (auto simp: add_event_def insert_event_row_def event_row_of_def insert_or_ignore_def
      lookup_row_None get_cursor_def split: if_splits)

lemma add_event_replay:
  "add_event e st = (b, st') \<Longrightarrow> add_event e st' = (False, st')"
  using event_table.add_idempotent [of "event_row_of e" st] by (simp add: add_event_def)

definition wf_event_row :: "event_row \<Rightarrow> bool" where
  "wf_event_row r \<longleftrightarrow> (\<exists>e. er_payload r = event_to_dict e \<and> ev_event_id e = er_event_id r
     \<and> ev_chain_id e = er_chain_id r \<and> ev_observed_at e = er_observed_at r \<and> ev_score e = er_score r)"

definition wf_events :: "store \<Rightarrow> bool" where
  "wf_events st \<longleftrightarrow> keys_distinct er_event_id (st_events st) \<and> list_all wf_event_row (st_events st)"

lemma wf_event_row_of: "wf_event_row (event_row_of e)"
  unfolding wf_event_row_def by (rule exI [of _ e]) (simp add: event_row_of_def)

lemma wf_events_empty: "wf_events empty_store"
  by (simp add: wf_events_def empty_store_def keys_distinct_def)

lemma wf_events_add: "wf_events st \<Longrightarrow> add_event e st = (b, st') \<Longrightarrow> wf_events st'"
  using wf_event_row_of [of e]
  by (auto simp: wf_events_def add_event_def insert_event_row_def insert_or_ignore_def
      keys_distinct_def split: if_splits)

lemma wf_event_row_alerted [simp]: "wf_event_row (r\<lparr>er_alerted_at := x\<rparr>) = wf_event_row r"
  by (simp add: wf_event_row_def)

lemma wf_events_mark: "wf_events st \<Longrightarrow> wf_events (mark_alerted ck i st)"
  by (simp add: wf_events_def mark_alerted_def keys_distinct_def keys_update_row)
    (auto simp: list_all_iff update_row_def)

text \<open>Every stored payload reads back.\<close>

lemma read_events_wf:
  assumes "wf_events st" and "set rows \<subseteq> set (st_events st)"
  shows "\<exists>es. read_events rows = Inr es \<and> map ev_event_id es = map er_event_id rows
     \<and> map ev_score es = map er_score rows"
proof -
  define g :: "event_row \<Rightarrow> radar_event" where "g r = projr (event_from_dict (er_payload r))" for r
  have g: "event_from_dict (er_payload r) = Inr (g r) \<and> ev_event_id (g r) = er_event_id r
      \<and> ev_score (g r) = er_score r"
    if "r \<in> set rows" for r
    using assms that by (auto simp: wf_events_def list_all_iff wf_event_row_def g_def event_roundtrip_aux
        dest!: subsetD)
  then have "read_events rows = Inr (map g rows)"
    by (simp add: read_events_def traverse_Inr_map)
  with g show ?thesis by simp
qed

lemma set_sql_limit: "set (sql_limit n xs) \<subseteq> set xs"
  by (auto simp: sql_limit_def dest: in_set_takeD)

lemma set_pending_rows:
  "set (pending_rows st c n) \<subseteq> {r \<in> set (st_events st). er_chain_id r = c \<and> er_alerted_at r = None}"
  using set_sql_limit [of n] by (fastforce simp: pending_rows_def)

lemma sorted_pending_rows: "sorted (map er_observed_at (pending_rows st c n))"
  by (simp add: pending_rows_def sql_limit_def take_map [symmetric] sorted_wrt_take)

text \<open>The outbox of a chain: its events without an alert, oldest observation first, ties in the order of
  arrival. The program reads a window of it.\<close>

definition outbox_rows :: "store \<Rightarrow> int \<Rightarrow> event_row list" where
  "outbox_rows st c = sort_key er_observed_at (filter (\<lambda>r. er_chain_id r = c \<and> er_alerted_at r = None) (st_events st))"

lemma pending_rows_window: "pending_rows st c (int n) = take n (outbox_rows st c)"
  by (simp add: pending_rows_def outbox_rows_def sql_limit_def)

text \<open>A marked alert leaves the outbox, and nothing else does.\<close>

lemma filter_update_row:
  "(\<And>r. \<not> P (f r)) \<Longrightarrow> filter P (update_row key f k rows) = filter (\<lambda>r. key r \<noteq> k) (filter P rows)"
  by (induction rows) (auto simp: update_row_def)

lemma outbox_after_mark: "outbox_rows (mark_alerted ck i st) c = filter (\<lambda>r. er_event_id r \<noteq> i) (outbox_rows st c)"
  by (simp add: outbox_rows_def mark_alerted_def filter_update_row filter_sort)

text \<open>A new last row goes behind the rows observed no later.\<close>

lemma insort_key_before: "f x \<le> f r \<Longrightarrow> insort_key f x (xs @ r # ys) = insort_key f x xs @ r # ys"
  by (induction xs) auto

lemma insort_key_after: "\<forall>y \<in> set xs. f y < f x \<Longrightarrow> insort_key f x (xs @ ys) = xs @ insort_key f x ys"
  by (induction xs) auto

lemma sort_key_append_last:
  fixes f :: "'a \<Rightarrow> 'b :: linorder"
  shows "sort_key f (xs @ [r]) = filter (\<lambda>y. f y \<le> f r) (sort_key f xs) @ r # filter (\<lambda>y. \<not> f y \<le> f r) (sort_key f xs)"
proof (induction xs)
  case (Cons x xs)
  let ?s = "sort_key f xs"
  let ?le = "filter (\<lambda>y. f y \<le> f r) ?s" and ?gt = "filter (\<lambda>y. \<not> f y \<le> f r) ?s"
  have sorted: "sorted (map f ?s)" by simp
  have step: "sort_key f (xs @ [r]) = ?le @ r # ?gt" by (rule Cons.IH)
  show ?case
  proof (cases "f x \<le> f r")
    case True
    then show ?thesis by (simp add: step insort_key_before filter_insort [OF sorted] filter_insort_triv)
  next
    case False
    then have "\<forall>y \<in> set (?le @ [r]). f y < f x" by auto
    from insort_key_after [OF this, of ?gt] False show ?thesis
      by (simp add: step filter_insort [OF sorted] filter_insort_triv)
  qed
qed simp

lemma outbox_window:
  assumes "st_events st' = st_events st @ [event_row_of e]" "ev_event_id e \<notin> er_event_id ` set (st_events st)"
  shows "event_row_of e \<in> set (take n (outbox_rows st' (ev_chain_id e)))
    \<longleftrightarrow> length (filter (\<lambda>r. er_chain_id r = ev_chain_id e \<and> er_alerted_at r = None
           \<and> er_observed_at r \<le> ev_observed_at e) (st_events st)) < n"
proof -
  let ?waiting = "filter (\<lambda>r. er_chain_id r = ev_chain_id e \<and> er_alerted_at r = None) (st_events st)"
  let ?before = "filter (\<lambda>r. er_observed_at r \<le> ev_observed_at e) (sort_key er_observed_at ?waiting)"
  let ?after = "filter (\<lambda>r. \<not> er_observed_at r \<le> ev_observed_at e) (sort_key er_observed_at ?waiting)"
  have key: "er_chain_id (event_row_of e) = ev_chain_id e" "er_alerted_at (event_row_of e) = None"
    "er_observed_at (event_row_of e) = ev_observed_at e" "er_event_id (event_row_of e) = ev_event_id e"
    by (simp_all add: event_row_of_def)
  have all: "outbox_rows st' (ev_chain_id e) = ?before @ [event_row_of e] @ ?after"
    by (simp add: outbox_rows_def assms(1) key sort_key_append_last)
  have "event_row_of e \<notin> set (st_events st)" using assms(2) key(4) by (metis image_eqI)
  then have out: "event_row_of e \<notin> set ?before" "event_row_of e \<notin> set ?after" by auto
  have "event_row_of e \<in> set (take n (?before @ [event_row_of e] @ ?after)) \<longleftrightarrow> length ?before < n"
    using out by (cases "n - length ?before") (auto dest: in_set_takeD)
  moreover have "length ?before = length (filter (\<lambda>r. er_chain_id r = ev_chain_id e \<and> er_alerted_at r = None
      \<and> er_observed_at r \<le> ev_observed_at e) (st_events st))"
    by (simp add: filter_sort conj_ac)
  ultimately show ?thesis by (simp only: all)
qed

lemma one_row_per_key:
  "distinct (map key rows) \<Longrightarrow> k \<in> key ` set rows \<Longrightarrow> length (filter (\<lambda>r. key r = k) rows) = 1"
proof (induction rows)
  case (Cons r rows)
  show ?case
  proof (cases "key r = k")
    case True
    with Cons.prems(1) have "filter (\<lambda>r. key r = k) rows = []"
      by (auto simp: filter_empty_conv image_iff)
    with True show ?thesis by simp
  next
    case False
    with Cons show ?thesis by auto
  qed
qed simp

lemma count_update_telemetry:
  "sum_list (map te_observation_count (update_row key (\<lambda>old. merge_telemetry old new) k rows))
     = sum_list (map te_observation_count rows) + length (filter (\<lambda>r. key r = k) rows)"
  by (induction rows) (auto simp: update_row_def merge_telemetry_def)

lemma telemetry_total_record:
  assumes "keys_distinct telemetry_key (st_telemetry st)"
  shows "telemetry_total (record_pending_telemetry ck c a s p h t st) = Suc (telemetry_total st)"
proof -
  define r where "r = mk_telemetry ck c a s p h t"
  have one: "te_observation_count r = 1" by (simp add: r_def mk_telemetry_def Let_def)
  have rec: "st_telemetry (record_pending_telemetry ck c a s p h t st)
      = upsert_row telemetry_key merge_telemetry r (st_telemetry st)"
    by (simp add: record_pending_telemetry_def put_telemetry_def r_def)
  show ?thesis
  proof (cases "telemetry_key r \<in> telemetry_key ` set (st_telemetry st)")
    case True
    then have "length (filter (\<lambda>x. telemetry_key x = telemetry_key r) (st_telemetry st)) = 1"
      by (rule one_row_per_key [OF assms [unfolded keys_distinct_def]])
    with True show ?thesis
      by (simp add: telemetry_total_def rec upsert_row_def count_update_telemetry)
  next
    case False
    with one show ?thesis by (simp add: telemetry_total_def rec upsert_row_def)
  qed
qed

lemma keys_put_telemetry:
  "keys_distinct telemetry_key (st_telemetry st) \<Longrightarrow>
     keys_distinct telemetry_key (st_telemetry (record_pending_telemetry ck c a s p h t st))"
  by (simp add: record_pending_telemetry_def put_telemetry_def keys_upsert_row)

text \<open>Enriching a contract again keeps the time it was first seen.\<close>

lemma profile_first_seen:
  assumes "fetch_profile st (c, lower a) = Some r"
  shows "\<exists>r'. fetch_profile (upsert_contract_profile c a fp m t st) (c, lower a) = Some r'
     \<and> pr_first_seen_at r' = pr_first_seen_at r \<and> pr_last_enriched_at r' = t \<and> pr_metadata r' = m"
proof -
  have k: "profile_key \<lparr> pr_chain_id = c, pr_address = lower a,
         pr_bytecode_sha256 = fp_raw_sha256 fp, pr_normalized_sha256 = fp_normalized_sha256 fp,
         pr_simhash64 = fp_simhash64 fp, pr_bytecode_size = fp_bytecode_size fp,
         pr_normalized_size = fp_normalized_size fp, pr_metadata_size = fp_metadata_size fp,
         pr_metadata = m, pr_first_seen_at = t, pr_last_enriched_at = t \<rparr> = (c, lower a)"
    by (simp add: profile_key_def)
  show ?thesis
    by (simp add: upsert_contract_profile_def profile_table.fetch_put k assms) (simp add: merge_profile_def)
qed

lemma length_py_take: "0 \<le> n \<Longrightarrow> length (py_take n xs) \<le> nat n"
  by (simp add: py_take_def)

lemma set_py_take: "set (py_take n xs) \<subseteq> set xs"
  by (auto simp: py_take_def dest: in_set_takeD)

lemma map_filter_in: "y \<in> set (List.map_filter f xs) \<longleftrightarrow> (\<exists>x \<in> set xs. f x = Some y)"
  by (force simp: List.map_filter_def)

lemma similar_contracts_sound:
  assumes "m \<in> set (similar_contracts st c a fp q n)"
  shows "ma_row m \<in> set (st_profiles st)" "pr_chain_id (ma_row m) = c" "pr_address (ma_row m) \<noteq> lower a"
    "ma_exact m \<longleftrightarrow> pr_normalized_sha256 (ma_row m) = fp_normalized_sha256 fp"
    "\<not> ma_exact m \<Longrightarrow> q \<le> simhash_similarity (pr_simhash64 (ma_row m)) (fp_simhash64 fp)"
proof -
  from assms obtain r where r: "r \<in> set (st_profiles st)" "pr_chain_id r = c" "pr_address r \<noteq> lower a"
    and m: "match_row fp q r = Some m"
    by (auto simp: similar_contracts_def Let_def map_filter_in dest!: subsetD [OF set_py_take] in_set_takeD)
  from m have eq: "ma_row m = r" "ma_exact m \<longleftrightarrow> pr_normalized_sha256 r = fp_normalized_sha256 fp"
    and sim: "\<not> ma_exact m \<Longrightarrow> q \<le> simhash_similarity (pr_simhash64 r) (fp_simhash64 fp)"
    by (auto simp: match_row_def Let_def split: if_splits)
  show "ma_row m \<in> set (st_profiles st)" "pr_chain_id (ma_row m) = c" "pr_address (ma_row m) \<noteq> lower a"
    "ma_exact m \<longleftrightarrow> pr_normalized_sha256 (ma_row m) = fp_normalized_sha256 fp"
    using r eq by simp_all
  show "\<not> ma_exact m \<Longrightarrow> q \<le> simhash_similarity (pr_simhash64 (ma_row m)) (fp_simhash64 fp)"
    using sim eq by simp
qed

section \<open>The health report\<close>

lemma list_all_sort_key [simp]: "list_all P (sort_key f xs) = list_all P xs"
  by (simp add: list_all_iff)

lemma sort_key_Nil_iff [simp]: "sort_key f xs = [] \<longleftrightarrow> xs = []"
  by (metis length_0_conv length_sort)

definition fresh_heartbeat :: "clock \<Rightarrow> int \<Rightarrow> heartbeat_row \<Rightarrow> bool" where
  "fresh_heartbeat ck threshold r \<longleftrightarrow> hb_status r = ''ok''
     \<and> (\<exists>seen. ck_parse ck (hb_last_seen_at r) = Some seen \<and> ck_now ck - seen \<le> threshold)"

lemma service_of_row_healthy:
  "0 \<le> threshold \<Longrightarrow> sh_healthy (service_of_row ck threshold r) \<longleftrightarrow> fresh_heartbeat ck threshold r"
  by (auto simp: service_of_row_def fresh_heartbeat_def Let_def split: option.splits)

lemma service_of_row_key:
  "sh_service (service_of_row ck n r) = hb_service r" "sh_chain_id (service_of_row ck n r) = hb_chain_id r"
  by (simp_all add: service_of_row_def Let_def)

lemma missing_unhealthy: "list_all sh_healthy (map missing_service xs) \<longleftrightarrow> xs = []"
  by (cases xs) (simp_all add: missing_service_def)

section \<open>Reachability in the identity graph\<close>

text \<open>What lies within \<open>n\<close> hops of a set of nodes: the reference for the breadth-first loop.\<close>

definition hop :: "store \<Rightarrow> int \<Rightarrow> string set \<Rightarrow> string set" where
  "hop st c S = (\<Union>e \<in> {e \<in> set (st_edges st). ed_chain_id e = c \<and> (ed_source e \<in> S \<or> ed_target e \<in> S)}.
     {ed_source e, ed_target e})"

fun within_hops :: "store \<Rightarrow> int \<Rightarrow> nat \<Rightarrow> string set \<Rightarrow> string set" where
  "within_hops st c 0 S = S"
| "within_hops st c (Suc n) S = within_hops st c n (S \<union> hop st c S)"

lemma edge_ends_incident: "set (edge_ends (incident_edges st c F)) = hop st c (set F)"
  by (auto simp: edge_ends_def incident_edges_def hop_def)

lemma hop_union: "hop st c (S \<union> T) = hop st c S \<union> hop st c T"
  by (auto simp: hop_def)

lemma within_closed: "hop st c S \<subseteq> S \<Longrightarrow> within_hops st c n S = S"
  by (induction n) (simp_all add: Un_absorb2)

lemma neighborhood_within:
  "set F \<subseteq> set seen \<Longrightarrow> hop st c (set seen - set F) \<subseteq> set seen \<Longrightarrow>
     set (fst (neighborhood_loop st c n F seen edges)) = within_hops st c n (set seen)"
proof (induction st c n F seen edges rule: neighborhood_loop.induct)
  case (1 st c F seen edges)
  then show ?case by simp
next
  case (2 st c n F seen edges)
  have hop_seen: "set seen \<union> hop st c (set seen) = set seen \<union> hop st c (set F)"
    using hop_union [of st c "set F" "set seen - set F"] "2.prems" by (auto simp: Un_absorb1)
  show ?case
  proof (cases "F = []")
    case True
    with "2.prems" show ?thesis by (simp add: within_closed Un_absorb2)
  next
    case False
    let ?next = "filter (\<lambda>x. x \<notin> set seen) (fromkeys (edge_ends (incident_edges st c F)))"
    have next_set: "set ?next = hop st c (set F) - set seen" by (auto simp: edge_ends_incident)
    have rest: "set (seen @ ?next) - set ?next = set seen" by auto
    have all: "set (seen @ ?next) = set seen \<union> hop st c (set seen)"
      unfolding set_append next_set hop_seen by blast
    have "set (fst (neighborhood_loop st c n ?next (seen @ ?next)
        (fold (upsert_row ed_edge_id (\<lambda>old new. new)) (incident_edges st c F) edges)))
        = within_hops st c n (set (seen @ ?next))"
    proof (rule "2.IH" [OF False refl refl refl])
      show "hop st c (set (seen @ ?next) - set ?next) \<subseteq> set (seen @ ?next)"
        unfolding rest by (subst all) blast
    qed simp
    with all False show ?thesis by (simp add: Let_def)
  qed
qed

section \<open>Properties\<close>

text \<open>C36. The alert outbox neither loses nor repeats an event. An event that was not stored before is
  stored unalerted, and storing it again changes nothing, also after its alert. The program reads
  the outbox of a chain through a window of 100 rows, the oldest observations first: the event is
  read back unchanged exactly when fewer than 100 unalerted events of its chain are observed no
  later than it. Marking it alerted removes it from the outbox and nothing else, in the same order,
  so the window moves on to the next event.\<close>

theorem outbox_exactly_once:
  assumes "wf_events st" and "lookup_row er_event_id (st_events st) (ev_event_id e) = None"
    and "add_event e st = (b, st')"
  shows "b \<and> add_event e st' = (False, st')
     \<and> add_event e (mark_alerted ck (ev_event_id e) st') = (False, mark_alerted ck (ev_event_id e) st')
     \<and> (\<exists>es. pending_alerts st' (ev_chain_id e) 100 = Inr es
          \<and> (e \<in> set es \<longleftrightarrow> length (filter (\<lambda>r. er_chain_id r = ev_chain_id e \<and> er_alerted_at r = None
                 \<and> er_observed_at r \<le> ev_observed_at e) (st_events st)) < 100))
     \<and> pending_rows st' c 100 = take 100 (outbox_rows st' c)
     \<and> pending_rows (mark_alerted ck (ev_event_id e) st') c 100
         = take 100 (filter (\<lambda>r. er_event_id r \<noteq> ev_event_id e) (outbox_rows st' c))"
proof -
  have b: "b" and replay: "add_event e st' = (False, st')"
    using add_event_stored [OF assms(3)] add_event_replay [OF assms(3)] assms(2) by blast+
  have rows: "st_events st' = st_events st @ [event_row_of e]"
    using assms(2,3)
    by (auto simp: add_event_def insert_event_row_def insert_or_ignore_def lookup_row_None
        event_row_of_def split: if_splits)
  have again: "add_event e (mark_alerted ck (ev_event_id e) st') = (False, mark_alerted ck (ev_event_id e) st')"
    by (auto simp: add_event_def insert_event_row_def insert_or_ignore_def mark_alerted_def rows
        update_row_def event_row_of_def)
  have new: "ev_event_id e \<notin> er_event_id ` set (st_events st)" using assms(2) by (auto simp: lookup_row_None)
  have wf: "wf_events st'" using wf_events_add assms(1,3) by blast
  let ?c = "ev_chain_id e" and ?rows = "pending_rows st' (ev_chain_id e) 100"
  have sub: "set ?rows \<subseteq> set (st_events st')" using set_pending_rows by fast
  obtain es where es: "read_events ?rows = Inr es" "map ev_event_id es = map er_event_id ?rows"
    using read_events_wf [OF wf sub] by blast
  have window: "event_row_of e \<in> set ?rows \<longleftrightarrow> length (filter (\<lambda>r. er_chain_id r = ?c \<and> er_alerted_at r = None
      \<and> er_observed_at r \<le> ev_observed_at e) (st_events st)) < 100"
    using outbox_window [OF rows new, of 100] pending_rows_window [of st' ?c 100] by simp
  have "e \<in> set es \<longleftrightarrow> event_row_of e \<in> set ?rows"
  proof
    assume "event_row_of e \<in> set ?rows"
    with es(1) show "e \<in> set es"
      unfolding read_events_def by (rule traverse_member) (simp add: event_row_of_def event_roundtrip_aux)
  next
    assume "e \<in> set es"
    then have "ev_event_id e \<in> set (map er_event_id ?rows)" by (simp flip: es(2))
    then obtain r where r: "r \<in> set ?rows" "er_event_id r = ev_event_id e" by auto
    with sub new rows show "event_row_of e \<in> set ?rows" by force
  qed
  with window es(1) have "\<exists>es. pending_alerts st' ?c 100 = Inr es
      \<and> (e \<in> set es \<longleftrightarrow> length (filter (\<lambda>r. er_chain_id r = ?c \<and> er_alerted_at r = None
           \<and> er_observed_at r \<le> ev_observed_at e) (st_events st)) < 100)"
    by (auto simp: pending_alerts_def)
  moreover have "pending_rows s c 100 = take 100 (outbox_rows s c)" for s using pending_rows_window [of s c 100] by simp
  ultimately show ?thesis using b replay again by (simp add: outbox_after_mark)
qed

definition demo_clock :: clock where
  "demo_clock = \<lparr> ck_now = 1000, ck_format = (\<lambda>t. ''t''), ck_format_micro = (\<lambda>t. ''t''), ck_parse = (\<lambda>s. Some 900) \<rparr>"

definition demo_event :: radar_event where
  "demo_event = \<lparr> ev_event_id = ''e1'', ev_observed_at = ''t'', ev_event_type = ''proxy_upgrade'',
     ev_title = ''Upgrade'', ev_summary = ''s'', ev_chain = ''Ethereum'', ev_chain_id = 1, ev_score = 85,
     ev_severity = CRITICAL, ev_confidence = 9/10, ev_reasons = [''r''], ev_recommended_action = ''act'',
     ev_subject_address = None, ev_deployer_address = None, ev_tx_hash = Some ''0xaa'',
     ev_block_number = Some 5, ev_evidence = [], ev_metadata = [] \<rparr>"

theorem outbox_exactly_once_witness:
  "\<exists>es. pending_alerts (snd (add_event demo_event empty_store)) 1 100 = Inr es \<and> demo_event \<in> set es"
proof -
  have none: "lookup_row er_event_id (st_events empty_store) (ev_event_id demo_event) = None"
    by (simp add: empty_store_def)
  have "ev_chain_id demo_event = 1" "st_events empty_store = []" by (simp_all add: demo_event_def empty_store_def)
  with outbox_exactly_once [OF wf_events_empty none prod.collapse [symmetric], of demo_clock 1] show ?thesis by simp
qed

text \<open>The health report is exact: it says healthy precisely when there is at least one heartbeat,
  every expected service has one, and every recorded one has status \<^verbatim>\<open>ok\<close>, a readable time
  and an age within the threshold, which is never below 30 seconds.\<close>

theorem health_exact:
  "fst (health_snapshot ck st n expected) \<longleftrightarrow>
     st_heartbeats st \<noteq> [] \<and> set expected \<subseteq> heartbeat_key ` set (st_heartbeats st)
     \<and> list_all (fresh_heartbeat ck (max 30 n)) (st_heartbeats st)"
proof -
  have keys: "map (\<lambda>s. (sh_service s, sh_chain_id s)) (map (service_of_row ck (max 30 n)) rows)
      = map heartbeat_key rows" for rows
    by (simp add: heartbeat_key_def service_of_row_key)
  have healthy: "list_all sh_healthy (map (service_of_row ck (max 30 n)) rows)
      = list_all (fresh_heartbeat ck (max 30 n)) rows" for rows
    by (simp add: list_all_iff service_of_row_healthy)
  have none_missing: "filter (\<lambda>s. s \<notin> set (map heartbeat_key rows)) (fromkeys expected) = []
      \<longleftrightarrow> set expected \<subseteq> heartbeat_key ` set rows" for rows
    by (auto simp: filter_empty_conv)
  show ?thesis
    unfolding health_snapshot_def Let_def keys fst_conv list_all_sort_key sort_key_Nil_iff
      list_all_append healthy missing_unhealthy append_is_Nil_conv map_is_Nil_conv
      none_missing set_sort by blast
qed

text \<open>The identity neighbourhood is exactly the graph distance: the nodes reported for a value are
  the stored nodes within the requested number of hops (at most 4) of a node with that value,
  along the edges of the chain in either direction.\<close>

theorem neighborhood_exact:
  "set (fst (identity_neighborhood st c val depth)) =
     {r \<in> set (st_nodes st). no_node_id r \<in> within_hops st c (nat (clamp 0 4 depth))
        (no_node_id ` {r \<in> set (st_nodes st). no_chain_id r = c \<and> no_value r = lower val})}"
proof -
  let ?seeds = "fromkeys (map no_node_id (filter (\<lambda>r. no_chain_id r = c \<and> no_value r = lower val) (st_nodes st)))"
  have "set (fst (neighborhood_loop st c (nat (clamp 0 4 depth)) ?seeds ?seeds []))
      = within_hops st c (nat (clamp 0 4 depth)) (set ?seeds)"
    by (rule neighborhood_within) (simp_all add: hop_def)
  moreover obtain seen edges where "neighborhood_loop st c (nat (clamp 0 4 depth)) ?seeds ?seeds [] = (seen, edges)"
    by fastforce
  moreover have "set ?seeds = no_node_id ` {r \<in> set (st_nodes st). no_chain_id r = c \<and> no_value r = lower val}"
    by simp
  ultimately show ?thesis by (simp add: identity_neighborhood_def Let_def del: set_fromkeys)
qed

text \<open>Pending observations are counted once each: while the telemetry table has one row per
  bucket, recording an observation raises the total by one, whether it opens a bucket or joins
  one, and leaves one row per bucket.\<close>

theorem telemetry_counts:
  assumes "keys_distinct telemetry_key (st_telemetry st)"
  shows "ig_pending_telemetry_observations (intelligence_counts
            (record_pending_telemetry ck c a s p h t st))
         = Suc (ig_pending_telemetry_observations (intelligence_counts st))
     \<and> keys_distinct telemetry_key (st_telemetry (record_pending_telemetry ck c a s p h t st))"
  using telemetry_total_record [OF assms] keys_put_telemetry [OF assms] by (simp add: intelligence_counts_def)

theorem telemetry_counts_witness:
  "telemetry_total (record_pending_telemetry demo_clock 1 ''0xA'' ''0xb'' ''P'' ''0xh'' ''t'' empty_store) = 1"
proof -
  have "keys_distinct telemetry_key (st_telemetry empty_store)" by (simp add: empty_store_def keys_distinct_def)
  from telemetry_counts [OF this, of demo_clock 1 "''0xA''" "''0xb''" "''P''" "''0xh''" "''t''"] show ?thesis
    by (simp add: intelligence_counts_def telemetry_total_def empty_store_def)
qed

text \<open>Every reported similar contract is a stored profile of the same chain at another address; it
  is called exact precisely when the normalised digests agree, and otherwise its sketch is at
  least as similar as the requested minimum.\<close>

theorem similar_contracts_justified:
  assumes "m \<in> set (similar_contracts st c a fp q n)"
  shows "ma_row m \<in> set (st_profiles st) \<and> pr_chain_id (ma_row m) = c \<and> pr_address (ma_row m) \<noteq> lower a
     \<and> (ma_exact m \<longleftrightarrow> pr_normalized_sha256 (ma_row m) = fp_normalized_sha256 fp)
     \<and> (ma_exact m \<or> q \<le> simhash_similarity (pr_simhash64 (ma_row m)) (fp_simhash64 fp))"
  using similar_contracts_sound [OF assms] by blast

definition demo_print :: fingerprint where
  "demo_print = \<lparr> fp_raw_sha256 = ''r'', fp_normalized_sha256 = ''n'', fp_simhash64 = replicate 16 (CHR ''0''),
     fp_bytecode_size = 0, fp_normalized_size = 0, fp_metadata_size = 0 \<rparr>"

definition demo_profile :: profile_row where
  "demo_profile = \<lparr> pr_chain_id = 1, pr_address = ''0xbb'', pr_bytecode_sha256 = ''r'', pr_normalized_sha256 = ''n'',
     pr_simhash64 = replicate 16 (CHR ''0''), pr_bytecode_size = 0, pr_normalized_size = 0,
     pr_metadata_size = 0, pr_metadata = undefined, pr_first_seen_at = ''t'', pr_last_enriched_at = ''t'' \<rparr>"

theorem similar_contracts_justified_witness:
  "ma_row (hd (similar_contracts (empty_store\<lparr> st_profiles := [demo_profile] \<rparr>) 1 ''0xaa'' demo_print 1 5)) = demo_profile"
proof -
  let ?st = "empty_store\<lparr> st_profiles := [demo_profile] \<rparr>"
  have z: "float_scale f 0 = 0" for f
    by (simp add: float_scale_def round_half_even_def)
  have other: "''0xbb'' \<noteq> lower ''0xaa''" by code_simp
  have "similar_contracts ?st 1 ''0xaa'' demo_print 1 5 \<noteq> []"
    by (simp add: similar_contracts_def demo_print_def z demo_profile_def match_row_def py_take_def
        List.map_filter_def other)
  then have "hd (similar_contracts ?st 1 ''0xaa'' demo_print 1 5) \<in> set (similar_contracts ?st 1 ''0xaa'' demo_print 1 5)"
    by simp
  from similar_contracts_justified [OF this] show ?thesis by simp
qed

end
