(* ===== verification/Incidents.thy ===== *)
theory Incidents
  imports Store
begin

text \<open>
  The incident workflow of \<^verbatim>\<open>src/white_radar/storage.py\<close>: the transition table, the promotion
  of an event into an incident, the audited transitions, the lists and the counters. The step
  relation at the end is every sequence of these operations and of operations that leave the
  two incident tables alone; its invariants say what the tables mean.
\<close>

section \<open>The transition table\<close>

fun INCIDENT_TRANSITIONS :: "incident_status \<Rightarrow> incident_status list" where
  "INCIDENT_TRANSITIONS NEW = [ACKNOWLEDGED, INVESTIGATING, FALSE_POSITIVE]"
| "INCIDENT_TRANSITIONS ACKNOWLEDGED = [INVESTIGATING, MONITORING, RESOLVED, FALSE_POSITIVE]"
| "INCIDENT_TRANSITIONS INVESTIGATING = [MONITORING, RESOLVED, FALSE_POSITIVE]"
| "INCIDENT_TRANSITIONS MONITORING = [INVESTIGATING, RESOLVED, FALSE_POSITIVE]"
| "INCIDENT_TRANSITIONS RESOLVED = []"
| "INCIDENT_TRANSITIONS FALSE_POSITIVE = []"

definition OPEN_INCIDENT_STATUSES :: "incident_status list" where
  "OPEN_INCIDENT_STATUSES = [NEW, ACKNOWLEDGED, INVESTIGATING, MONITORING]"

definition handled_statuses :: "incident_status list" where
  "handled_statuses = [ACKNOWLEDGED, INVESTIGATING, MONITORING]"

definition closed_statuses :: "incident_status list" where
  "closed_statuses = [RESOLVED, FALSE_POSITIVE]"

definition all_statuses :: "incident_status list" where
  "all_statuses = [NEW, ACKNOWLEDGED, INVESTIGATING, MONITORING, RESOLVED, FALSE_POSITIVE]"

lemmas status_sets = OPEN_INCIDENT_STATUSES_def handled_statuses_def closed_statuses_def all_statuses_def

section \<open>Operations\<close>

definition OPENED_NOTE :: string where
  "OPENED_NOTE = ''Automatically opened from an explainable priority threshold.''"

definition get_incident :: "store \<Rightarrow> string \<Rightarrow> incident_record option" where
  "get_incident st incident_id = lookup_row in_incident_id (st_incidents st) incident_id"

definition incident_for_event :: "store \<Rightarrow> string \<Rightarrow> incident_record option" where
  "incident_for_event st event_id = lookup_row in_event_id (st_incidents st) event_id"

definition new_incident ::
  "(string \<Rightarrow> string) \<Rightarrow> clock \<Rightarrow> radar_event \<Rightarrow> int \<Rightarrow> string option \<Rightarrow> incident_record" where
  "new_incident sha256 ck event sla_minutes protocol =
     (let observed = (case ck_parse ck (ev_observed_at event) of None \<Rightarrow> ck_now ck | Some t \<Rightarrow> t);
          created_at = ck_format ck observed;
          due_at = ck_format ck (observed + 60 * max 1 sla_minutes)
      in \<lparr> in_incident_id = stable_event_id sha256 [''incident'', ev_event_id event],
           in_event_id = ev_event_id event, in_status = NEW, in_severity = ev_severity event,
           in_protocol = protocol, in_owner = None, in_created_at = created_at,
           in_updated_at = created_at, in_due_at = due_at, in_acknowledged_at = None,
           in_closed_at = None, in_disposition = None \<rparr>)"

text \<open>\<^verbatim>\<open>INSERT OR IGNORE\<close> skips a row whose \<^verbatim>\<open>incident_id\<close> or \<^verbatim>\<open>event_id\<close> is there already.\<close>

definition insert_incident :: "incident_record \<Rightarrow> store \<Rightarrow> store" where
  "insert_incident i st =
     (if in_incident_id i \<in> in_incident_id ` set (st_incidents st)
         \<or> in_event_id i \<in> in_event_id ` set (st_incidents st) then st
      else st\<lparr> st_incidents := st_incidents st @ [i],
               st_history := st_history st @
                 [\<lparr> hi_incident_id = in_incident_id i, hi_from_status = None, hi_to_status = NEW,
                    hi_actor = ''white-radar'', hi_note = Some OPENED_NOTE,
                    hi_changed_at = in_created_at i \<rparr>] \<rparr>)"

definition open_incident ::
  "(string \<Rightarrow> string) \<Rightarrow> clock \<Rightarrow> radar_event \<Rightarrow> int \<Rightarrow> int \<Rightarrow> string option \<Rightarrow> store
     \<Rightarrow> incident_record option \<times> store" where
  "open_incident sha256 ck event minimum_score sla_minutes protocol st =
     (if ev_score event < clamp 0 100 minimum_score then (None, st)
      else
        (let i = new_incident sha256 ck event sla_minutes protocol;
             st' = insert_incident i st
         in (get_incident st' (in_incident_id i), st')))"

text \<open>The columns an accepted transition writes.\<close>

definition moved_incident :: "string \<Rightarrow> incident_status \<Rightarrow> string \<Rightarrow> string \<Rightarrow> incident_record \<Rightarrow> incident_record" where
  "moved_incident now status actor note row =
     (let acknowledged_at =
            (if status \<in> set handled_statuses \<and> in_acknowledged_at row = None then Some now
             else in_acknowledged_at row);
          closed_at = (if status \<in> set closed_statuses then Some now else None);
          disposition =
            (if truthy_opt closed_at \<and> note \<noteq> [] then Some note else in_disposition row);
          owner = (if truthy_opt (in_owner row) then in_owner row else Some actor)
      in row\<lparr> in_status := status, in_owner := owner, in_updated_at := now,
             in_acknowledged_at := acknowledged_at, in_closed_at := closed_at,
             in_disposition := disposition \<rparr>)"

definition transition_incident ::
  "clock \<Rightarrow> string \<Rightarrow> incident_status \<Rightarrow> string \<Rightarrow> string \<Rightarrow> store \<Rightarrow> (incident_record \<times> store) res" where
  "transition_incident ck incident_id status actor note st =
     (let normalized_actor = take 100 (squeeze actor);
          normalized_note = take 2000 (squeeze note);
          now = utc_now ck
      in if normalized_actor = [] then Inl ValueError
         else case get_incident st incident_id of
           None \<Rightarrow> Inl ValueError
         | Some row \<Rightarrow>
             if status \<notin> set (INCIDENT_TRANSITIONS (in_status row)) then Inl ValueError
             else
               (let st' = st\<lparr> st_incidents :=
                        update_row in_incident_id (moved_incident now status normalized_actor normalized_note)
                          incident_id (st_incidents st),
                      st_history := st_history st @
                        [\<lparr> hi_incident_id = incident_id, hi_from_status = Some (in_status row),
                           hi_to_status = status, hi_actor = normalized_actor,
                           hi_note = none_if_empty normalized_note, hi_changed_at = now \<rparr>] \<rparr>
                in case get_incident st' incident_id of
                     None \<Rightarrow> Inl RuntimeError
                   | Some updated \<Rightarrow> Inr (updated, st')))"

definition incident_history :: "store \<Rightarrow> string \<Rightarrow> history_row list" where
  "incident_history st incident_id = filter (\<lambda>h. hi_incident_id h = incident_id) (st_history st)"

definition list_incidents :: "store \<Rightarrow> incident_status option \<Rightarrow> int \<Rightarrow> incident_record list" where
  "list_incidents st status limit =
     sql_limit (clamp 1 500 limit)
       (sort_key in_due_at (rev (sort_key in_created_at (rev
         (filter (\<lambda>i. case status of None \<Rightarrow> True | Some s \<Rightarrow> in_status i = s) (st_incidents st))))))"

definition status_count :: "store \<Rightarrow> incident_status \<Rightarrow> nat" where
  "status_count st s = length (filter (\<lambda>i. in_status i = s) (st_incidents st))"

definition incident_counts :: "store \<Rightarrow> (string \<times> nat) list" where
  "incident_counts st =
     map (\<lambda>s. (status_value s, status_count st s)) all_statuses
       @ [(''open'', sum_list (map (status_count st) OPEN_INCIDENT_STATUSES))]"

definition overdue_incidents :: "clock \<Rightarrow> store \<Rightarrow> int \<Rightarrow> incident_record list" where
  "overdue_incidents ck st limit =
     sql_limit (clamp 1 500 limit)
       (sort_key in_due_at
         (filter (\<lambda>i. in_status i \<in> set OPEN_INCIDENT_STATUSES \<and> in_due_at i < utc_now ck) (st_incidents st)))"

section \<open>Steps\<close>

text \<open>The incident tables only change by these two operations; every other method of the store
  is a \<open>frame\<close> step.\<close>

inductive incident_step :: "(string \<Rightarrow> string) \<Rightarrow> store \<Rightarrow> store \<Rightarrow> bool" for sha256 where
  opened: "open_incident sha256 ck event m sla p st = (r, st') \<Longrightarrow> incident_step sha256 st st'"
| moved: "transition_incident ck i status actor note st = Inr (r, st') \<Longrightarrow> incident_step sha256 st st'"
| frame: "st_incidents st' = st_incidents st \<Longrightarrow> st_history st' = st_history st \<Longrightarrow> incident_step sha256 st st'"

inductive incident_reach :: "(string \<Rightarrow> string) \<Rightarrow> store \<Rightarrow> bool" for sha256 where
  start: "incident_reach sha256 empty_store"
| step: "incident_reach sha256 st \<Longrightarrow> incident_step sha256 st st' \<Longrightarrow> incident_reach sha256 st'"

inductive_cases incident_stepE: "incident_step sha256 st st'"

section \<open>The audit trail as a run of the transition table\<close>

definition allowed_move :: "incident_status option \<Rightarrow> incident_status \<Rightarrow> bool" where
  "allowed_move s t = (case s of None \<Rightarrow> t = NEW | Some s' \<Rightarrow> t \<in> set (INCIDENT_TRANSITIONS s'))"

text \<open>The status a history leads to, or nothing when a row does not continue the one before.\<close>

fun run_trail :: "incident_status option \<Rightarrow> history_row list \<Rightarrow> incident_status option option" where
  "run_trail s [] = Some s"
| "run_trail s (h # hs) =
     (if hi_from_status h = s \<and> allowed_move s (hi_to_status h) then run_trail (Some (hi_to_status h)) hs
      else None)"

definition wf_incident :: "incident_record \<Rightarrow> bool" where
  "wf_incident i =
     ((in_closed_at i \<noteq> None \<longleftrightarrow> in_status i \<in> set closed_statuses)
      \<and> (in_status i \<notin> {NEW, FALSE_POSITIVE} \<longrightarrow> in_acknowledged_at i \<noteq> None)
      \<and> (in_status i \<noteq> NEW \<longrightarrow> truthy_opt (in_owner i)))"

definition incidents_ok :: "store \<Rightarrow> bool" where
  "incidents_ok st =
     (keys_distinct in_incident_id (st_incidents st) \<and> keys_distinct in_event_id (st_incidents st)
      \<and> (\<forall>h \<in> set (st_history st). hi_incident_id h \<in> in_incident_id ` set (st_incidents st))
      \<and> (\<forall>i \<in> set (st_incidents st). wf_incident i
           \<and> run_trail None (incident_history st (in_incident_id i)) = Some (Some (in_status i))))"

section \<open>Facts about the operations\<close>

lemma run_trail_append:
  "run_trail s (xs @ ys) = (case run_trail s xs of None \<Rightarrow> None | Some t \<Rightarrow> run_trail t ys)"
  by (induction xs arbitrary: s) auto

lemma moved_keys [simp]:
  "in_incident_id (moved_incident now s a n i) = in_incident_id i"
  "in_event_id (moved_incident now s a n i) = in_event_id i"
  "in_status (moved_incident now s a n i) = s"
  by (simp_all add: moved_incident_def Let_def)

lemma moved_wf:
  "wf_incident i \<Longrightarrow> s \<in> set (INCIDENT_TRANSITIONS (in_status i)) \<Longrightarrow> a \<noteq> []
     \<Longrightarrow> wf_incident (moved_incident now s a n i)"
  by (cases "in_status i"; cases "in_acknowledged_at i")
    (auto simp: wf_incident_def moved_incident_def status_sets Let_def)

lemma new_incident_wf [simp]: "wf_incident (new_incident sha256 ck e sla p)"
  by (simp add: wf_incident_def new_incident_def status_sets Let_def)

lemma new_incident_fields [simp]:
  "in_status (new_incident sha256 ck e sla p) = NEW"
  "in_event_id (new_incident sha256 ck e sla p) = ev_event_id e"
  "in_incident_id (new_incident sha256 ck e sla p) = stable_event_id sha256 [''incident'', ev_event_id e]"
  by (simp_all add: new_incident_def Let_def)

lemma transition_incident_Inr:
  assumes "transition_incident ck i s actor note st = Inr (r, st')"
  obtains row where "get_incident st i = Some row"
    "s \<in> set (INCIDENT_TRANSITIONS (in_status row))"
    "take 100 (squeeze actor) \<noteq> []"
    "r = moved_incident (utc_now ck) s (take 100 (squeeze actor)) (take 2000 (squeeze note)) row"
    "st_incidents st' = update_row in_incident_id
       (moved_incident (utc_now ck) s (take 100 (squeeze actor)) (take 2000 (squeeze note))) i (st_incidents st)"
    "st_history st' = st_history st @ [\<lparr> hi_incident_id = i, hi_from_status = Some (in_status row),
       hi_to_status = s, hi_actor = take 100 (squeeze actor),
       hi_note = none_if_empty (take 2000 (squeeze note)), hi_changed_at = utc_now ck \<rparr>]"
proof -
  from assms obtain row where row: "get_incident st i = Some row"
    by (auto simp: transition_incident_def Let_def split: if_splits option.splits)
  with assms have ok: "s \<in> set (INCIDENT_TRANSITIONS (in_status row))" "take 100 (squeeze actor) \<noteq> []"
    by (auto simp: transition_incident_def Let_def split: if_splits)
  with row assms show ?thesis
    by (intro that [OF row ok])
      (auto simp: transition_incident_def Let_def get_incident_def lookup_update_row split: option.splits)
qed

text \<open>When a transition is accepted.\<close>

lemma transition_accepted_iff:
  "(\<exists>r st'. transition_incident ck i s actor note st = Inr (r, st')) \<longleftrightarrow>
     squeeze actor \<noteq> [] \<and> (\<exists>row. get_incident st i = Some row \<and> s \<in> set (INCIDENT_TRANSITIONS (in_status row)))"
proof (cases "get_incident st i")
  case None
  then show ?thesis by (simp add: transition_incident_def Let_def)
next
  case (Some row)
  then show ?thesis
    by (auto simp: transition_incident_def Let_def get_incident_def lookup_update_row)
qed

section \<open>The invariant\<close>

lemma incidents_ok_empty: "incidents_ok empty_store"
  by (simp add: incidents_ok_def empty_store_def keys_distinct_def)

lemma incidents_ok_frame:
  "st_incidents st' = st_incidents st \<Longrightarrow> st_history st' = st_history st \<Longrightarrow> incidents_ok st \<Longrightarrow> incidents_ok st'"
  by (simp add: incidents_ok_def incident_history_def)

lemma insert_incident_ok:
  assumes ok: "incidents_ok st" and new: "wf_incident i" "in_status i = NEW"
  shows "incidents_ok (insert_incident i st)"
proof (cases "in_incident_id i \<in> in_incident_id ` set (st_incidents st)
    \<or> in_event_id i \<in> in_event_id ` set (st_incidents st)")
  case True
  with ok show ?thesis by (auto simp: insert_incident_def)
next
  case False
  let ?h = "\<lparr> hi_incident_id = in_incident_id i, hi_from_status = None, hi_to_status = NEW,
      hi_actor = ''white-radar'', hi_note = Some OPENED_NOTE, hi_changed_at = in_created_at i \<rparr>"
  have ins: "st_incidents (insert_incident i st) = st_incidents st @ [i]"
    "st_history (insert_incident i st) = st_history st @ [?h]"
    using False by (simp_all add: insert_incident_def)
  have none: "incident_history st (in_incident_id i) = []"
  proof -
    have "\<forall>h \<in> set (st_history st). hi_incident_id h \<in> in_incident_id ` set (st_incidents st)"
      using ok by (simp add: incidents_ok_def)
    with False show ?thesis unfolding incident_history_def filter_empty_conv by metis
  qed
  have hist: "incident_history (insert_incident i st) k = incident_history st k
      @ (if k = in_incident_id i then [?h] else [])" for k
    by (auto simp: incident_history_def ins)
  have old: "in_incident_id x \<noteq> in_incident_id i" if "x \<in> set (st_incidents st)" for x
    using False that by (auto simp: image_iff)
  show ?thesis
    using False ok new none old
    by (auto simp: incidents_ok_def ins hist keys_distinct_def allowed_move_def)
qed

lemma open_incident_ok:
  "incidents_ok st \<Longrightarrow> incidents_ok (snd (open_incident sha256 ck e m sla p st))"
  by (simp add: open_incident_def Let_def insert_incident_ok)

lemma transition_incident_ok:
  assumes ok: "incidents_ok st" and tr: "transition_incident ck i s actor note st = Inr (r, st')"
  shows "incidents_ok st'"
proof -
  let ?f = "moved_incident (utc_now ck) s (take 100 (squeeze actor)) (take 2000 (squeeze note))"
  from tr obtain row where row: "get_incident st i = Some row"
    "s \<in> set (INCIDENT_TRANSITIONS (in_status row))" and actor: "take 100 (squeeze actor) \<noteq> []"
    and inc: "st_incidents st' = update_row in_incident_id ?f i (st_incidents st)"
    and his: "st_history st' = st_history st @ [\<lparr> hi_incident_id = i, hi_from_status = Some (in_status row),
       hi_to_status = s, hi_actor = take 100 (squeeze actor),
       hi_note = none_if_empty (take 2000 (squeeze note)), hi_changed_at = utc_now ck \<rparr>]"
    by (rule transition_incident_Inr)
  have mem: "row \<in> set (st_incidents st)" "in_incident_id row = i"
    using lookup_row_Some row(1) unfolding get_incident_def by metis+
  have ids: "map in_incident_id (st_incidents st') = map in_incident_id (st_incidents st)"
    and evs: "map in_event_id (st_incidents st') = map in_event_id (st_incidents st)"
    by (auto simp: inc update_row_def)
  have hist: "incident_history st' k = incident_history st k @ (if k = i then
      [\<lparr> hi_incident_id = i, hi_from_status = Some (in_status row),
       hi_to_status = s, hi_actor = take 100 (squeeze actor),
       hi_note = none_if_empty (take 2000 (squeeze note)), hi_changed_at = utc_now ck \<rparr>] else [])" for k
    by (simp add: incident_history_def his)
  have one: "x = row" if "x \<in> set (st_incidents st)" "in_incident_id x = i" for x
  proof -
    have "keys_distinct in_incident_id (st_incidents st)" using ok by (simp add: incidents_ok_def)
    from lookup_row_in [OF this that(1)] that(2) row(1) show ?thesis by (simp add: get_incident_def)
  qed
  have each: "wf_incident x \<and> run_trail None (incident_history st' (in_incident_id x)) = Some (Some (in_status x))"
    if "x \<in> set (st_incidents st')" for x
  proof -
    from that obtain y where y: "y \<in> set (st_incidents st)" "x = (if in_incident_id y = i then ?f y else y)"
      by (auto simp: inc update_row_def)
    have "wf_incident y \<and> run_trail None (incident_history st (in_incident_id y)) = Some (Some (in_status y))"
      using ok y(1) by (simp add: incidents_ok_def)
    then show ?thesis
      using y one row(2) actor
      by (auto simp: hist run_trail_append allowed_move_def moved_wf split: if_splits)
  qed
  have "set (map in_incident_id (st_incidents st')) = set (map in_incident_id (st_incidents st))"
    by (simp only: ids)
  then have "in_incident_id ` set (st_incidents st') = in_incident_id ` set (st_incidents st)" by simp
  with ok each ids evs mem show ?thesis
    by (auto simp: incidents_ok_def keys_distinct_def his)
qed

lemma incident_step_ok: "incident_step sha256 st st' \<Longrightarrow> incidents_ok st \<Longrightarrow> incidents_ok st'"
proof (induction rule: incident_step.induct)
  case (opened ck event m sla p st r st')
  then show ?case using open_incident_ok [of st sha256 ck event m sla p] by simp
next
  case (moved ck i status actor nt st r st')
  then show ?case by (blast intro: transition_incident_ok)
next
  case (frame st' st)
  then show ?case by (blast intro: incidents_ok_frame)
qed

lemma incident_reach_ok: "incident_reach sha256 st \<Longrightarrow> incidents_ok st"
  by (induction rule: incident_reach.induct) (auto intro: incidents_ok_empty incident_step_ok)

text \<open>A closed case has no way out.\<close>

lemma closed_final:
  "in_status row \<in> set closed_statuses \<Longrightarrow> INCIDENT_TRANSITIONS (in_status row) = []"
  by (cases "in_status row") (auto simp: status_sets)

text \<open>Opening the same event again finds the incident that is there.\<close>

lemma get_insert_incident:
  "in_incident_id i \<notin> in_incident_id ` set (st_incidents st) \<Longrightarrow>
   in_event_id i \<notin> in_event_id ` set (st_incidents st) \<Longrightarrow>
     get_incident (insert_incident i st) (in_incident_id i) = Some i"
  by (simp add: get_incident_def insert_incident_def lookup_row_append lookup_row_None [THEN iffD2])

lemma insert_incident_again:
  "in_incident_id i = in_incident_id j \<Longrightarrow> in_event_id i = in_event_id j \<Longrightarrow>
     insert_incident j (insert_incident i st) = insert_incident i st"
  by (auto simp: insert_incident_def)

lemma open_incident_again:
  "snd (open_incident sha256 ck' e m' sla' p' (snd (open_incident sha256 ck e m sla p st))) =
     (if ev_score e < clamp 0 100 m then snd (open_incident sha256 ck' e m' sla' p' st)
      else snd (open_incident sha256 ck e m sla p st))"
  by (simp add: open_incident_def Let_def insert_incident_again)

lemma sum_status_counts:
  "sum_list (map (status_count st) all_statuses) = length (st_incidents st)"
proof -
  have "sum_list (map (\<lambda>s. length (filter (\<lambda>i. in_status i = s) xs)) all_statuses) = length xs"
    for xs :: "incident_record list"
  proof (induction xs)
    case (Cons x xs)
    then show ?case by (cases "in_status x") (simp_all add: all_statuses_def)
  qed (simp add: all_statuses_def)
  then show ?thesis unfolding status_count_def by blast
qed

section \<open>Properties\<close>

text \<open>C1. The audit trail is complete and lawful: in every state reachable by opening incidents,
  moving them and any other operation of the store, the recorded history of each incident,
  read from the start, is a run of the transition table that begins with \<^verbatim>\<open>new\<close> and ends in
  the status the incident has; an incident has a closing time exactly when it is closed, an
  owner once it left \<^verbatim>\<open>new\<close>, an acknowledgement time once someone handled it; it is found
  under its identifier, and no history row belongs to no incident.\<close>

theorem incident_audit_trail:
  assumes "incident_reach sha256 st" and "i \<in> set (st_incidents st)"
  shows "run_trail None (incident_history st (in_incident_id i)) = Some (Some (in_status i))
     \<and> (in_closed_at i \<noteq> None \<longleftrightarrow> in_status i \<in> set closed_statuses)
     \<and> (in_status i \<in> {NEW, FALSE_POSITIVE} \<or> in_acknowledged_at i \<noteq> None)
     \<and> (in_status i = NEW \<or> truthy_opt (in_owner i))
     \<and> get_incident st (in_incident_id i) = Some i
     \<and> list_all (\<lambda>h. get_incident st (hi_incident_id h) \<noteq> None) (st_history st)"
proof -
  have ok: "incidents_ok st" using assms(1) by (rule incident_reach_ok)
  then have "get_incident st (in_incident_id i) = Some i"
    using assms(2) by (simp add: get_incident_def incidents_ok_def keys_distinct_def lookup_row_in)
  then show ?thesis
    using ok assms(2)
    by (auto simp: incidents_ok_def wf_incident_def get_incident_def lookup_row_None list_all_iff)
qed

definition demo_opened :: store where
  "demo_opened = snd (open_incident (\<lambda>s. s) demo_clock demo_event 75 60 None empty_store)"

definition demo_moved :: store where
  "demo_moved = (case transition_incident demo_clock ''incident|e1'' ACKNOWLEDGED ''ana'' '''' demo_opened of
     Inr (r, st) \<Rightarrow> st | Inl e \<Rightarrow> demo_opened)"

definition demo_incident :: incident_record where
  "demo_incident = hd (st_incidents demo_moved)"

theorem incident_audit_trail_witness:
  "run_trail None (incident_history demo_moved ''incident|e1'') = Some (Some ACKNOWLEDGED)"
proof -
  have opened: "incident_reach (\<lambda>s. s) demo_opened"
    unfolding demo_opened_def by (rule incident_reach.step [OF incident_reach.start incident_step.opened]) (rule prod.collapse [symmetric])
  have "transition_incident demo_clock ''incident|e1'' ACKNOWLEDGED ''ana'' '''' demo_opened
      = Inr (demo_incident, demo_moved)" by code_simp
  from incident_reach.step [OF opened incident_step.moved [OF this]] have r: "incident_reach (\<lambda>s. s) demo_moved" .
  have i: "demo_incident \<in> set (st_incidents demo_moved)" "in_incident_id demo_incident = ''incident|e1''"
    "in_status demo_incident = ACKNOWLEDGED" by code_simp+
  from incident_audit_trail [OF r i(1)] i show ?thesis by simp
qed

lemma no_moves_iff: "INCIDENT_TRANSITIONS s = [] \<longleftrightarrow> s \<in> set closed_statuses"
  by (cases s) (simp_all add: closed_statuses_def)

text \<open>A transition is accepted exactly when the actor's name is not blank, the incident exists and
  the table allows the move; every other request is refused with \<^verbatim>\<open>ValueError\<close>, and the closed
  statuses are the ones no move leaves, so a closed incident never reopens.\<close>

theorem transition_accepted:
  "((\<exists>r st'. transition_incident ck i s actor note st = Inr (r, st')) \<longleftrightarrow>
      squeeze actor \<noteq> [] \<and> (\<exists>row. get_incident st i = Some row \<and> s \<in> set (INCIDENT_TRANSITIONS (in_status row))))
   \<and> ((\<exists>r st'. transition_incident ck i s actor note st = Inr (r, st'))
      \<or> transition_incident ck i s actor note st = Inl ValueError)
   \<and> (INCIDENT_TRANSITIONS t = [] \<longleftrightarrow> t \<in> set closed_statuses)"
proof -
  have "transition_incident ck i s actor note st = Inl ValueError"
    if "\<not> (\<exists>r st'. transition_incident ck i s actor note st = Inr (r, st'))"
    using that unfolding transition_accepted_iff
    by (auto simp: transition_incident_def Let_def split: option.splits)
  then show ?thesis by (metis transition_accepted_iff no_moves_iff)
qed

text \<open>The incident counters add up: the counts per status are those of the table, \<^verbatim>\<open>open\<close> is the
  number of incidents that still have a move, and together with the closed ones it is the
  number of incidents; opening an incident again for the same event changes nothing, whatever
  the threshold, the response time and the clock are the second time.\<close>

theorem incident_counters:
  "sum_list (map (status_count st) all_statuses) = length (st_incidents st)
   \<and> map_of (incident_counts st) ''open''
       = Some (length (filter (\<lambda>i. INCIDENT_TRANSITIONS (in_status i) \<noteq> []) (st_incidents st)))
   \<and> (case open_incident sha256 ck e m sla p st of
        (None, st1) \<Rightarrow> st1 = st
      | (Some r, st1) \<Rightarrow> snd (open_incident sha256 ck' e m' sla' p' st1) = st1)"
proof -
  have "sum_list (map (\<lambda>s. length (filter (\<lambda>i. in_status i = s) xs)) OPEN_INCIDENT_STATUSES)
      = length (filter (\<lambda>i. INCIDENT_TRANSITIONS (in_status i) \<noteq> []) xs)" for xs :: "incident_record list"
  proof (induction xs)
    case (Cons x xs)
    then show ?case by (cases "in_status x") (simp_all add: OPEN_INCIDENT_STATUSES_def)
  qed (simp add: OPEN_INCIDENT_STATUSES_def)
  then have "map_of (incident_counts st) ''open''
      = Some (length (filter (\<lambda>i. INCIDENT_TRANSITIONS (in_status i) \<noteq> []) (st_incidents st)))"
    by (simp add: incident_counts_def all_statuses_def status_count_def [abs_def])
  moreover have "case open_incident sha256 ck e m sla p st of
        (None, st1) \<Rightarrow> st1 = st
      | (Some r, st1) \<Rightarrow> snd (open_incident sha256 ck' e m' sla' p' st1) = st1"
    using open_incident_again [of sha256 ck' e m' sla' p' ck m sla p st]
    by (auto simp: open_incident_def Let_def insert_incident_again get_insert_incident
        insert_incident_def get_incident_def lookup_row_None lookup_row_append split: option.splits if_splits)
  ultimately show ?thesis using sum_status_counts by blast
qed

end
