(* ===== verification/Traces.thy ===== *)
theory Traces
  imports Rpc_Client Fingerprint
begin

text \<open>
  Call traces: \<^verbatim>\<open>src/white_radar/tracing.py\<close> (the nested contract creations of a
  \<^verbatim>\<open>callTracer\<close> tree) and \<^verbatim>\<open>src/white_radar/simulation.py\<close> (the call object, its fingerprint,
  the bounded summary of a trace, its findings, and the simulation pinned to one block). A trace
  is any JSON value: a frame is an object in it, everything else is ignored as the code does.
\<close>

section \<open>Frames\<close>

definition iter_calls :: "dict \<Rightarrow> json list res" where
  "iter_calls d = (case py_or (dget d ''calls'') (JList []) of
      JList xs \<Rightarrow> Inr xs | JStr _ \<Rightarrow> Inr [] | JObj _ \<Rightarrow> Inr [] | _ \<Rightarrow> Inl TypeError)"

definition frame_children :: "dict \<Rightarrow> json list" where
  "frame_children d = (case py_or (dget d ''calls'') (JList []) of JList xs \<Rightarrow> xs | _ \<Rightarrow> [])"

text \<open>The number of nodes of a JSON value, the measure of the walks.\<close>

fun jsize :: "json \<Rightarrow> nat" where
  "jsize (JList xs) = Suc (sum_list (map jsize xs))"
| "jsize (JObj d) = Suc (sum_list (map (\<lambda>kv. jsize (snd kv)) d))"
| "jsize _ = 1"

lemma jsize_pos [simp]: "0 < jsize j"
  by (cases j) simp_all

lemma jsize_lookup: "map_of d k = Some v \<Longrightarrow> jsize v < jsize (JObj d)"
  by (induction d) (auto split: if_splits)

lemma frame_children_size: "sum_list (map jsize (frame_children d)) < jsize (JObj d)"
proof (cases "map_of d ''calls''")
  case None
  then show ?thesis by (simp add: frame_children_def dget_def py_or_def)
next
  case (Some v)
  then have "jsize v < jsize (JObj d)" by (rule jsize_lookup)
  with Some show ?thesis
    by (cases v) (auto simp: frame_children_def dget_def py_or_def simp del: jsize.simps(2))
qed

lemma child_size: "c \<in> set (frame_children d) \<Longrightarrow> jsize c < jsize (JObj d)"
  using frame_children_size [of d] member_le_sum_list [of "jsize c" "map jsize (frame_children d)"]
  by (auto simp del: jsize.simps(2))

lemma iter_calls_children: "iter_calls d = Inr cs \<Longrightarrow> cs = frame_children d"
  by (auto simp: iter_calls_def frame_children_def split: json.splits)

section \<open>Contract creations inside a trace\<close>

record internal_creation =
  ic_address :: string
  ic_creator :: string
  ic_creation_type :: string
  ic_depth :: nat

definition frame_creation :: "dict \<Rightarrow> nat \<Rightarrow> internal_creation list" where
  "frame_creation frame depth =
     (let frame_type = upper (str_or (dget frame ''type'') []);
          address = lower (str_or (dget frame ''to'') []);
          creator = lower (str_or (dget frame ''from'') [])
      in if 0 < depth \<and> (frame_type = ''CREATE'' \<or> frame_type = ''CREATE2'')
            \<and> \<not> truthy (dget frame ''error'') \<and> is_address address \<and> is_address creator
         then [\<lparr> ic_address = address, ic_creator = creator, ic_creation_type = frame_type, ic_depth = depth \<rparr>]
         else [])"

lemma traverse_cong [fundef_cong]:
  "xs = ys \<Longrightarrow> (\<And>y. y \<in> set ys \<Longrightarrow> f y = g y) \<Longrightarrow> traverse f xs = traverse g ys"
  by (induction ys arbitrary: xs) auto

function visit_frame :: "json \<Rightarrow> nat \<Rightarrow> internal_creation list res" where
  "visit_frame (JObj frame) depth =
     (case iter_calls frame of
        Inl e \<Rightarrow> Inl e
      | Inr cs \<Rightarrow> and_then (traverse (\<lambda>c. visit_frame c (Suc depth)) cs)
          (\<lambda>rest. Inr (frame_creation frame depth @ concat rest)))"
| "visit_frame JNull depth = Inr []"
| "visit_frame (JBool b) depth = Inr []"
| "visit_frame (JInt i) depth = Inr []"
| "visit_frame (JStr s) depth = Inr []"
| "visit_frame (JList xs) depth = Inr []"
  by pat_completeness auto
termination
  by (relation "measure (jsize \<circ> fst)")
    (auto dest!: iter_calls_children child_size simp del: jsize.simps)

definition creation_key :: "internal_creation \<Rightarrow> string \<times> string \<times> string" where
  "creation_key c = (ic_address c, ic_creator c, ic_creation_type c)"

definition internal_creations :: "dict \<Rightarrow> internal_creation list res" where
  "internal_creations trace =
     and_then (visit_frame (JObj trace) 0) (\<lambda>found. Inr (nub_by creation_key [] found))"

definition wf_creation :: "internal_creation \<Rightarrow> bool" where
  "wf_creation c = (0 < ic_depth c \<and> ic_creation_type c \<in> {''CREATE'', ''CREATE2''}
     \<and> is_address (ic_address c) \<and> is_address (ic_creator c))"

lemma traverse_in:
  "traverse f xs = Inr ys \<Longrightarrow> y \<in> set ys \<Longrightarrow> \<exists>x \<in> set xs. f x = Inr y"
  by (induction xs arbitrary: ys) (auto simp: and_then_eq_Inr)

lemma visit_frame_wf: "visit_frame j n = Inr cs \<Longrightarrow> c \<in> set cs \<Longrightarrow> wf_creation c"
proof (induction j n arbitrary: cs c rule: visit_frame.induct)
  case (1 frame depth)
  then obtain xs rest where xs: "iter_calls frame = Inr xs"
    and rest: "traverse (\<lambda>c. visit_frame c (Suc depth)) xs = Inr rest"
    and cs: "cs = frame_creation frame depth @ concat rest"
    by (auto simp: and_then_eq_Inr split: sum.splits)
  show ?case
  proof (cases "c \<in> set (frame_creation frame depth)")
    case True
    then show ?thesis by (auto simp: frame_creation_def Let_def wf_creation_def split: if_splits)
  next
    case False
    with 1(3) cs obtain ys where ys: "ys \<in> set rest" "c \<in> set ys" by auto
    from traverse_in [OF rest ys(1)] obtain x where x: "x \<in> set xs" "visit_frame x (Suc depth) = Inr ys" by auto
    from 1(1) [OF xs x ys(2)] show ?thesis .
  qed
qed auto

lemma internal_creations_sound:
  assumes "internal_creations trace = Inr cs"
  shows "distinct (map creation_key cs)" "list_all wf_creation cs"
proof -
  from assms obtain found where f: "visit_frame (JObj trace) 0 = Inr found" "cs = nub_by creation_key [] found"
    by (auto simp: internal_creations_def and_then_eq_Inr)
  show "distinct (map creation_key cs)" by (simp add: f(2) distinct_nub_by_keys)
  show "list_all wf_creation cs"
    using visit_frame_wf [OF f(1)] set_nub_by_subset [of creation_key "[]" found]
    by (auto simp: f(2) list_all_iff)
qed

section \<open>The summary of a call trace\<close>

definition MAX_TRACE_FRAMES :: nat where "MAX_TRACE_FRAMES = 512"
definition MAX_TOUCHED_ADDRESSES :: nat where "MAX_TOUCHED_ADDRESSES = 64"

record trace_summary =
  ts_call_count :: nat
  ts_max_depth :: nat
  ts_delegatecall_count :: nat
  ts_staticcall_count :: nat
  ts_create_count :: nat
  ts_selfdestruct_count :: nat
  ts_value_call_count :: nat
  ts_reverted_call_count :: nat
  ts_truncated :: bool
  ts_touched_addresses :: "string list"

definition empty_summary :: trace_summary where
  "empty_summary = \<lparr> ts_call_count = 0, ts_max_depth = 0, ts_delegatecall_count = 0,
     ts_staticcall_count = 0, ts_create_count = 0, ts_selfdestruct_count = 0,
     ts_value_call_count = 0, ts_reverted_call_count = 0, ts_truncated = False,
     ts_touched_addresses = [] \<rparr>"

definition count_if :: "bool \<Rightarrow> nat \<Rightarrow> nat" where
  "count_if b n = (if b then Suc n else n)"

text \<open>The body of the loop for one frame; the touched set is a list without repetition.\<close>

definition count_frame :: "dict \<Rightarrow> nat \<Rightarrow> trace_summary \<Rightarrow> trace_summary res" where
  "count_frame frame depth acc =
     (let call_type = upper (str_or (dget frame ''type'') ''CALL'');
          destination = lower (str_or (dget frame ''to'') [])
      in and_then (hex_to_int (str_or (dget frame ''value'') ''0x0'')) (\<lambda>v.
         Inr \<lparr> ts_call_count = Suc (ts_call_count acc), ts_max_depth = max (ts_max_depth acc) depth,
           ts_delegatecall_count = count_if (call_type = ''DELEGATECALL'') (ts_delegatecall_count acc),
           ts_staticcall_count = count_if (call_type = ''STATICCALL'') (ts_staticcall_count acc),
           ts_create_count = count_if (call_type = ''CREATE'' \<or> call_type = ''CREATE2'') (ts_create_count acc),
           ts_selfdestruct_count = count_if (call_type = ''SELFDESTRUCT'') (ts_selfdestruct_count acc),
           ts_value_call_count = count_if (0 < v) (ts_value_call_count acc),
           ts_reverted_call_count =
             count_if (truthy (dget frame ''error'') \<or> truthy (dget frame ''revertReason''))
               (ts_reverted_call_count acc),
           ts_truncated = ts_truncated acc,
           ts_touched_addresses =
             (if startswith ''0x'' destination \<and> length destination = 42
              then List.insert destination (ts_touched_addresses acc) else ts_touched_addresses acc) \<rparr>))"

function trace_loop :: "(json \<times> nat) list \<Rightarrow> trace_summary \<Rightarrow> trace_summary res" where
  "trace_loop [] acc = Inr acc"
| "trace_loop ((frame, depth) # stack) acc =
     (case frame of
        JObj d \<Rightarrow>
          if MAX_TRACE_FRAMES \<le> ts_call_count acc then Inr (acc\<lparr> ts_truncated := True \<rparr>)
          else and_then (count_frame d depth acc)
            (\<lambda>acc'. trace_loop (map (\<lambda>c. (c, Suc depth)) (frame_children d) @ stack) acc')
      | _ \<Rightarrow> trace_loop stack acc)"
  by pat_completeness auto
termination
  by (relation "measure (\<lambda>(stack, acc). sum_list (map (jsize \<circ> fst) stack))")
    (auto simp: comp_def frame_children_size simp del: jsize.simps)

definition summarize_call_trace :: "dict \<Rightarrow> trace_summary res" where
  "summarize_call_trace trace =
     and_then (trace_loop [(JObj trace, 0)] empty_summary) (\<lambda>s.
       Inr (s\<lparr> ts_truncated := ts_truncated s \<or> MAX_TOUCHED_ADDRESSES < length (ts_touched_addresses s),
               ts_touched_addresses := take MAX_TOUCHED_ADDRESSES (sort (ts_touched_addresses s)) \<rparr>))"

section \<open>The summary is a fold over the first frames in call order\<close>

text \<open>The specification: the frames of a tree in the order the calls were made, and a fold.\<close>

function frames :: "json \<Rightarrow> nat \<Rightarrow> (dict \<times> nat) list" where
  "frames (JObj d) n = (d, n) # concat (map (\<lambda>c. frames c (Suc n)) (frame_children d))"
| "frames JNull n = []"
| "frames (JBool b) n = []"
| "frames (JInt i) n = []"
| "frames (JStr s) n = []"
| "frames (JList xs) n = []"
  by pat_completeness auto
termination
  by (relation "measure (jsize \<circ> fst)") (auto dest: child_size simp del: jsize.simps)

definition stack_frames :: "(json \<times> nat) list \<Rightarrow> (dict \<times> nat) list" where
  "stack_frames stack = concat (map (\<lambda>(j, n). frames j n) stack)"

fun fold_frames :: "(dict \<times> nat) list \<Rightarrow> trace_summary \<Rightarrow> trace_summary res" where
  "fold_frames [] acc = Inr acc"
| "fold_frames ((d, n) # fs) acc = and_then (count_frame d n acc) (fold_frames fs)"

fun run_frames :: "(dict \<times> nat) list \<Rightarrow> trace_summary \<Rightarrow> trace_summary res" where
  "run_frames [] acc = Inr acc"
| "run_frames ((d, n) # fs) acc =
     (if MAX_TRACE_FRAMES \<le> ts_call_count acc then Inr (acc\<lparr> ts_truncated := True \<rparr>)
      else and_then (count_frame d n acc) (run_frames fs))"

lemma stack_frames_simps:
  "stack_frames [] = []"
  "stack_frames ((JObj d, n) # st) =
     (d, n) # stack_frames (map (\<lambda>c. (c, Suc n)) (frame_children d) @ st)"
  by (simp_all add: stack_frames_def comp_def)

lemma stack_frames_skip: "frames j n = [] \<Longrightarrow> stack_frames ((j, n) # st) = stack_frames st"
  by (simp add: stack_frames_def)

lemma trace_loop_run: "trace_loop stack acc = run_frames (stack_frames stack) acc"
proof (induction stack acc rule: trace_loop.induct)
  case (2 frame depth stack acc)
  show ?case
  proof (cases frame)
    case (JObj d)
    show ?thesis
    proof (cases "MAX_TRACE_FRAMES \<le> ts_call_count acc")
      case True
      then show ?thesis by (simp add: JObj stack_frames_simps)
    next
      case False
      have "trace_loop (map (\<lambda>c. (c, Suc depth)) (frame_children d) @ stack) acc'
          = run_frames (stack_frames (map (\<lambda>c. (c, Suc depth)) (frame_children d) @ stack)) acc'" for acc'
        using 2(6) [OF JObj False] .
      then have "trace_loop (map (\<lambda>c. (c, Suc depth)) (frame_children d) @ stack)
          = run_frames (stack_frames (map (\<lambda>c. (c, Suc depth)) (frame_children d) @ stack))" by (rule ext)
      then show ?thesis using False by (simp add: JObj stack_frames_simps)
    qed
  qed (use 2 in \<open>auto simp: stack_frames_skip\<close>)
qed (simp add: stack_frames_simps)

lemma count_frame_Inr:
  "count_frame d n acc = Inr acc' \<Longrightarrow> ts_call_count acc' = Suc (ts_call_count acc) \<and> ts_truncated acc' = ts_truncated acc"
  by (auto simp: count_frame_def Let_def and_then_eq_Inr)

lemma run_frames_fold:
  assumes "ts_call_count acc \<le> MAX_TRACE_FRAMES"
  shows "run_frames fs acc =
     and_then (fold_frames (take (MAX_TRACE_FRAMES - ts_call_count acc) fs) acc)
       (\<lambda>s. Inr (if MAX_TRACE_FRAMES - ts_call_count acc < length fs then s\<lparr> ts_truncated := True \<rparr> else s))"
  using assms
proof (induction fs arbitrary: acc)
  case (Cons f fs)
  obtain d n where f: "f = (d, n)" by force
  show ?case
  proof (cases "MAX_TRACE_FRAMES \<le> ts_call_count acc")
    case True
    with Cons.prems show ?thesis by (simp add: f)
  next
    case False
    then obtain k where k: "MAX_TRACE_FRAMES - ts_call_count acc = Suc k"
      by (metis Suc_diff_Suc not_less)
    show ?thesis
    proof (cases "count_frame d n acc")
      case (Inr acc')
      then have c: "ts_call_count acc' = Suc (ts_call_count acc)" by (simp add: count_frame_Inr)
      with k have k': "MAX_TRACE_FRAMES - ts_call_count acc' = k" by simp
      have "ts_call_count acc' \<le> MAX_TRACE_FRAMES" using False c by simp
      from Cons.IH [OF this] show ?thesis using False Inr by (simp add: f k k')
    qed (use False in \<open>simp add: f k\<close>)
  qed
qed simp

lemma fold_frames_count:
  "fold_frames fs acc = Inr s \<Longrightarrow> ts_call_count s = ts_call_count acc + length fs \<and> ts_truncated s = ts_truncated acc"
proof (induction fs arbitrary: acc)
  case (Cons f fs)
  then show ?case by (cases f) (auto simp: and_then_eq_Inr dest!: count_frame_Inr)
qed simp

text \<open>The whole function against the specification.\<close>

definition all_frames :: "dict \<Rightarrow> (dict \<times> nat) list" where
  "all_frames trace = frames (JObj trace) 0"

definition summary_spec :: "dict \<Rightarrow> trace_summary res" where
  "summary_spec trace =
     and_then (fold_frames (take MAX_TRACE_FRAMES (all_frames trace)) empty_summary) (\<lambda>s.
       Inr (s\<lparr> ts_truncated := MAX_TRACE_FRAMES < length (all_frames trace)
                 \<or> MAX_TOUCHED_ADDRESSES < length (ts_touched_addresses s),
               ts_touched_addresses := take MAX_TOUCHED_ADDRESSES (sort (ts_touched_addresses s)) \<rparr>))"

lemma summarize_spec_aux: "summarize_call_trace trace = summary_spec trace"
proof -
  have st: "stack_frames [(JObj trace, 0)] = all_frames trace"
    by (simp add: stack_frames_def all_frames_def)
  have z: "ts_call_count empty_summary = 0" by (simp add: empty_summary_def)
  show ?thesis
  proof (cases "fold_frames (take MAX_TRACE_FRAMES (all_frames trace)) empty_summary")
    case (Inr s)
    then have "\<not> ts_truncated s" using fold_frames_count by (fastforce simp: empty_summary_def)
    with Inr show ?thesis
      by (simp add: summarize_call_trace_def summary_spec_def trace_loop_run st run_frames_fold z)
  qed (simp add: summarize_call_trace_def summary_spec_def trace_loop_run st run_frames_fold z)
qed

definition summary_ok :: "trace_summary \<Rightarrow> bool" where
  "summary_ok s = (list_all (\<lambda>n. n \<le> ts_call_count s)
       [ts_delegatecall_count s + ts_staticcall_count s + ts_create_count s + ts_selfdestruct_count s,
        ts_value_call_count s, ts_reverted_call_count s]
     \<and> distinct (ts_touched_addresses s) \<and> length (ts_touched_addresses s) \<le> ts_call_count s
     \<and> list_all (\<lambda>a. length a = 42) (ts_touched_addresses s))"

lemma count_frame_ok:
  assumes ok: "summary_ok acc" and c: "count_frame d n acc = Inr acc'"
  shows "summary_ok acc'"
proof -
  define t where "t = upper (str_or (dget d ''type'') ''CALL'')"
  define a where "a = lower (str_or (dget d ''to'') [])"
  from c obtain v :: int where v: "acc' =
       \<lparr> ts_call_count = Suc (ts_call_count acc), ts_max_depth = max (ts_max_depth acc) n,
         ts_delegatecall_count = count_if (t = ''DELEGATECALL'') (ts_delegatecall_count acc),
         ts_staticcall_count = count_if (t = ''STATICCALL'') (ts_staticcall_count acc),
         ts_create_count = count_if (t = ''CREATE'' \<or> t = ''CREATE2'') (ts_create_count acc),
         ts_selfdestruct_count = count_if (t = ''SELFDESTRUCT'') (ts_selfdestruct_count acc),
         ts_value_call_count = count_if (0 < v) (ts_value_call_count acc),
         ts_reverted_call_count = count_if (truthy (dget d ''error'') \<or> truthy (dget d ''revertReason''))
            (ts_reverted_call_count acc),
         ts_truncated = ts_truncated acc,
         ts_touched_addresses = (if startswith ''0x'' a \<and> length a = 42
            then List.insert a (ts_touched_addresses acc) else ts_touched_addresses acc) \<rparr>"
    unfolding count_frame_def Let_def and_then_eq_Inr t_def a_def by blast
  have cnt: "k \<le> m \<Longrightarrow> count_if b k \<le> Suc m" for b k m by (simp add: count_if_def)
  have kinds: "i + j + k + l \<le> m \<Longrightarrow> count_if (t = ''DELEGATECALL'') i + count_if (t = ''STATICCALL'') j
      + count_if (t = ''CREATE'' \<or> t = ''CREATE2'') k + count_if (t = ''SELFDESTRUCT'') l \<le> Suc m" for i j k l m
    by (auto simp: count_if_def)
  have ins: "length xs \<le> m \<Longrightarrow> length (List.insert a xs) \<le> Suc m" for m and xs :: "string list"
    by (simp add: List.insert_def)
  show ?thesis
    using ok by (auto simp: summary_ok_def v list_all_iff intro!: cnt kinds ins)
qed

lemma fold_frames_ok: "summary_ok acc \<Longrightarrow> fold_frames fs acc = Inr s \<Longrightarrow> summary_ok s"
proof (induction fs arbitrary: acc)
  case (Cons f fs)
  then show ?case by (cases f) (auto simp: and_then_eq_Inr dest: count_frame_ok)
qed simp

lemma summarize_bounds:
  assumes "summarize_call_trace trace = Inr s"
  shows "ts_call_count s = min MAX_TRACE_FRAMES (length (all_frames trace))"
    and "summary_ok s" "length (ts_touched_addresses s) \<le> MAX_TOUCHED_ADDRESSES"
    and "sorted (ts_touched_addresses s)"
    and "\<not> ts_truncated s \<Longrightarrow> ts_call_count s = length (all_frames trace)"
proof -
  from assms obtain r where r: "fold_frames (take MAX_TRACE_FRAMES (all_frames trace)) empty_summary = Inr r"
    and s: "s = r\<lparr> ts_truncated := MAX_TRACE_FRAMES < length (all_frames trace)
                 \<or> MAX_TOUCHED_ADDRESSES < length (ts_touched_addresses r),
               ts_touched_addresses := take MAX_TOUCHED_ADDRESSES (sort (ts_touched_addresses r)) \<rparr>"
    by (auto simp: summarize_spec_aux summary_spec_def and_then_eq_Inr)
  from fold_frames_count [OF r] show c: "ts_call_count s = min MAX_TRACE_FRAMES (length (all_frames trace))"
    by (simp add: s empty_summary_def)
  have "summary_ok empty_summary" by (simp add: summary_ok_def empty_summary_def)
  from fold_frames_ok [OF this r] show "summary_ok s"
    by (auto simp: summary_ok_def s list_all_iff dest: in_set_takeD)
  show "length (ts_touched_addresses s) \<le> MAX_TOUCHED_ADDRESSES" by (simp add: s)
  show "sorted (ts_touched_addresses s)" by (simp add: s sorted_wrt_take)
  show "\<not> ts_truncated s \<Longrightarrow> ts_call_count s = length (all_frames trace)"
    using c by (simp add: s)
qed

section \<open>The creations are those of the frames\<close>

lemma traverse_concat_spec:
  "traverse f xs = Inr yss \<Longrightarrow> (\<And>x ys. x \<in> set xs \<Longrightarrow> f x = Inr ys \<Longrightarrow> ys = g x) \<Longrightarrow> yss = map g xs"
  by (induction xs arbitrary: yss) (auto simp: and_then_eq_Inr)

lemma concat_map_concat: "concat (concat (map g xs)) = concat (map (\<lambda>x. concat (g x)) xs)"
  by (induction xs) simp_all

lemma visit_frame_frames:
  "visit_frame j n = Inr cs \<Longrightarrow> cs = concat (map (\<lambda>(d, k). frame_creation d k) (frames j n))"
proof (induction j n arbitrary: cs rule: visit_frame.induct)
  case (1 frame depth)
  then obtain xs rest where xs: "iter_calls frame = Inr xs"
    and rest: "traverse (\<lambda>c. visit_frame c (Suc depth)) xs = Inr rest"
    and cs: "cs = frame_creation frame depth @ concat rest"
    by (auto simp: and_then_eq_Inr split: sum.splits)
  have "rest = map (\<lambda>c. concat (map (\<lambda>(d, k). frame_creation d k) (frames c (Suc depth)))) xs"
    using rest 1(1) [OF xs] by (rule traverse_concat_spec)
  then show ?case using iter_calls_children [OF xs] by (simp add: cs map_concat comp_def concat_map_concat)
qed auto

section \<open>Properties\<close>

text \<open>The nested creations read from a trace are exactly those of its frames: the frames of the
  call tree below the root, in call order, that are a successful \<^verbatim>\<open>CREATE\<close> or \<^verbatim>\<open>CREATE2\<close>
  with well-formed addresses, each address, creator and kind once and at its first position.\<close>

theorem internal_creations_exact:
  assumes "internal_creations trace = Inr cs"
  shows "cs = nub_by creation_key [] (concat (map (\<lambda>(d, n). frame_creation d n) (all_frames trace)))
     \<and> distinct (map creation_key cs)
     \<and> ((a, c, ty) \<in> creation_key ` set cs \<longleftrightarrow> (\<exists>(d, n) \<in> set (all_frames trace).
          0 < n \<and> ty = upper (str_or (dget d ''type'') []) \<and> ty \<in> {''CREATE'', ''CREATE2''}
          \<and> \<not> truthy (dget d ''error'') \<and> a = lower (str_or (dget d ''to'') []) \<and> is_address a
          \<and> c = lower (str_or (dget d ''from'') []) \<and> is_address c))"
proof -
  have eq: "cs = nub_by creation_key [] (concat (map (\<lambda>(d, n). frame_creation d n) (all_frames trace)))"
    using assms visit_frame_frames [of "JObj trace" 0]
    by (auto simp: internal_creations_def and_then_eq_Inr all_frames_def)
  have mem: "(a, c, ty) \<in> creation_key ` set (frame_creation d n) \<longleftrightarrow>
      0 < n \<and> ty = upper (str_or (dget d ''type'') []) \<and> ty \<in> {''CREATE'', ''CREATE2''}
      \<and> \<not> truthy (dget d ''error'') \<and> a = lower (str_or (dget d ''to'') []) \<and> is_address a
      \<and> c = lower (str_or (dget d ''from'') []) \<and> is_address c" for d n
    by (auto simp: frame_creation_def Let_def creation_key_def)
  have "creation_key ` set cs = (\<Union>(d, n) \<in> set (all_frames trace). creation_key ` set (frame_creation d n))"
    by (simp add: eq keys_nub_by image_UN split_def)
  then have "(a, c, ty) \<in> creation_key ` set cs \<longleftrightarrow>
      (\<exists>(d, n) \<in> set (all_frames trace). (a, c, ty) \<in> creation_key ` set (frame_creation d n))"
    by (simp only: UN_iff split_def)
  then show ?thesis using eq internal_creations_sound(1) [OF assms] unfolding mem by blast
qed

definition demo_created :: string where "demo_created = ''0x'' @ replicate 40 (CHR ''c'')"
definition demo_creator :: string where "demo_creator = ''0x'' @ replicate 40 (CHR ''d'')"

definition demo_trace :: dict where
  "demo_trace = [(''type'', JStr ''CALL''), (''to'', JStr demo_creator), (''calls'', JList
     [JObj [(''type'', JStr ''CREATE''), (''from'', JStr demo_creator), (''to'', JStr demo_created)],
      JObj [(''type'', JStr ''CREATE''), (''from'', JStr demo_creator), (''to'', JStr demo_created),
        (''error'', JStr ''out of gas'')],
      JObj [(''type'', JStr ''DELEGATECALL''), (''to'', JStr demo_created), (''value'', JStr ''0x1'')]])]"

theorem internal_creations_exact_witness:
  "map creation_key (projr (internal_creations demo_trace)) = [(demo_created, demo_creator, ''CREATE'')]
     \<and> (demo_created, demo_creator, ''CREATE2'') \<notin> creation_key ` set (projr (internal_creations demo_trace))"
proof -
  let ?c = "\<lparr> ic_address = demo_created, ic_creator = demo_creator, ic_creation_type = ''CREATE'', ic_depth = 1 \<rparr>"
  have run: "internal_creations demo_trace = Inr [?c]" by code_simp
  have none: "\<not> (\<exists>(d, n) \<in> set (all_frames demo_trace).
      0 < n \<and> ''CREATE2'' = upper (str_or (dget d ''type'') []) \<and> ''CREATE2'' \<in> {''CREATE'', ''CREATE2''}
      \<and> \<not> truthy (dget d ''error'') \<and> demo_created = lower (str_or (dget d ''to'') []) \<and> is_address demo_created
      \<and> demo_creator = lower (str_or (dget d ''from'') []) \<and> is_address demo_creator)"
    by code_simp
  from internal_creations_exact [OF run, of demo_created demo_creator "''CREATE2''"] none
  have "(demo_created, demo_creator, ''CREATE2'') \<notin> creation_key ` set [?c]" by blast
  then show ?thesis by (simp add: run creation_key_def)
qed

text \<open>C21. The bounded trace summary is what its specification says: the stack loop of the code equals
  a fold, in call order, over the first 512 frames of the call tree, with the truncation flag
  set exactly when a frame or a touched address was left out.\<close>

theorem trace_summary_equivalence: "summarize_call_trace trace = summary_spec trace"
  by (rule summarize_spec_aux)

text \<open>A trace summary is bounded and says when it is incomplete: it counts at most 512 frames, no
  counter exceeds the number of frames, at most 64 touched addresses are kept, sorted and
  without repetition, and a summary that is not marked truncated counts every frame.\<close>

theorem trace_summary_bounds:
  assumes "summarize_call_trace trace = Inr s"
  shows "ts_call_count s = min MAX_TRACE_FRAMES (length (all_frames trace)) \<and> summary_ok s
     \<and> length (ts_touched_addresses s) \<le> MAX_TOUCHED_ADDRESSES \<and> sorted (ts_touched_addresses s)
     \<and> (ts_truncated s \<or> ts_call_count s = length (all_frames trace))"
  using summarize_bounds [OF assms] by blast

definition demo_summary :: trace_summary where
  "demo_summary = projr (summarize_call_trace demo_trace)"

theorem trace_summary_bounds_witness:
  "ts_call_count (projr (summarize_call_trace demo_trace)) = length (all_frames demo_trace)"
proof -
  have s: "summarize_call_trace demo_trace = Inr demo_summary" "\<not> ts_truncated demo_summary" by code_simp+
  from trace_summary_bounds [OF s(1)] s show ?thesis by simp
qed

end
