(* ===== verification/Simulation.thy ===== *)
theory Simulation
  imports Traces Invariants
begin

text \<open>
  The rest of \<^verbatim>\<open>src/white_radar/simulation.py\<close>: the call object built from a transaction, the
  fingerprint of what would be executed, the findings drawn from a trace summary, and
  \<^verbatim>\<open>simulate_transaction\<close>, which asks the node to execute the call at one pinned block.
  SHA-256 (bytes to hexadecimal text) is the argument \<open>sha256\<close>; \<^verbatim>\<open>json.dumps\<close> with sorted keys
  and compact separators is written out.
\<close>

section \<open>JSON text\<close>

definition json_char :: "char \<Rightarrow> string" where
  "json_char c = (let n = code_pt c; bs = char_of (92::nat) in
     if n = 34 \<or> n = 92 then [bs, c]
     else if n = 10 then [bs, CHR ''n'']
     else if n = 13 then [bs, CHR ''r'']
     else if n = 9 then [bs, CHR ''t'']
     else if n = 12 then [bs, CHR ''f'']
     else if n = 8 then [bs, CHR ''b'']
     else if n < 32 \<or> 126 < n then bs # ''u00'' @ hex2 n
     else [c])"

definition json_string :: "string \<Rightarrow> string" where
  "json_string s = (let q = char_of (34::nat) in q # concat (map json_char s) @ [q])"

fun json_dumps :: "json \<Rightarrow> string" where
  "json_dumps JNull = ''null''"
| "json_dumps (JBool b) = (if b then ''true'' else ''false'')"
| "json_dumps (JInt i) = int_str i"
| "json_dumps (JStr s) = json_string s"
| "json_dumps (JList xs) = ''['' @ join '','' (map json_dumps xs) @ '']''"
| "json_dumps (JObj d) =
     ''{'' @ join '','' (map (\<lambda>kt. json_string (fst kt) @ '':'' @ snd kt)
        (sort_key fst (map (\<lambda>kv. (fst kv, json_dumps (snd kv))) d))) @ ''}''"

section \<open>The call object and its fingerprint\<close>

definition CALL_FIELDS :: "string list" where
  "CALL_FIELDS = [''from'', ''to'', ''gas'', ''gasPrice'', ''maxFeePerGas'', ''maxPriorityFeePerGas'',
     ''value'', ''type'', ''accessList'']"

definition present_fields :: "string list \<Rightarrow> dict \<Rightarrow> dict" where
  "present_fields names d =
     concat (map (\<lambda>f. if dget d f = JNull then [] else [(f, dget d f)]) names)"

text \<open>The calldata text and its bytes, or \<^verbatim>\<open>ValueError\<close>.\<close>

definition calldata_of :: "dict \<Rightarrow> (string \<times> bytes) res" where
  "calldata_of transaction =
     (let calldata = str_or (py_or (dget transaction ''input'') (dget transaction ''data'')) ''0x''
      in if \<not> startswith ''0x'' calldata \<or> odd (length calldata) then Inl ValueError
         else case fromhex (drop 2 calldata) of None \<Rightarrow> Inl ValueError | Some raw \<Rightarrow> Inr (calldata, raw))"

definition build_call_object :: "dict \<Rightarrow> dict res" where
  "build_call_object transaction =
     and_then (calldata_of transaction)
       (\<lambda>(calldata, raw). Inr (present_fields CALL_FIELDS transaction @ [(''data'', JStr calldata)]))"

definition transaction_fingerprint :: "(bytes \<Rightarrow> string) \<Rightarrow> dict \<Rightarrow> string res" where
  "transaction_fingerprint sha256 transaction =
     and_then (calldata_of transaction) (\<lambda>(calldata, raw).
       Inr (sha256 (ascii_bytes (json_dumps (JObj
         (present_fields CALL_FIELDS transaction @ [(''data_sha256'', JStr (sha256 raw))]
          @ present_fields [''nonce'', ''chainId''] transaction))))))"

section \<open>Findings\<close>

record sim_finding =
  sf_code :: string
  sf_category :: string
  sf_score_delta :: int
  sf_summary :: string

definition sim_finding_if :: "bool \<Rightarrow> string \<Rightarrow> string \<Rightarrow> int \<Rightarrow> string \<Rightarrow> sim_finding list" where
  "sim_finding_if b fcode category delta summary =
     (if b then [\<lparr> sf_code = fcode, sf_category = category, sf_score_delta = delta, sf_summary = summary \<rparr>]
      else [])"

definition assess_trace :: "trace_summary \<Rightarrow> sim_finding list" where
  "assess_trace s =
     sim_finding_if (ts_selfdestruct_count s \<noteq> 0) ''destructive_execution_path'' ''runtime_control'' 15
       ''The simulated call graph contains a SELFDESTRUCT execution frame.''
   @ sim_finding_if (ts_create_count s \<noteq> 0) ''dynamic_contract_creation'' ''runtime_control'' 8
       ''The simulated call graph creates one or more contracts.''
   @ sim_finding_if (ts_delegatecall_count s \<noteq> 0) ''delegated_execution_path'' ''upgradeability_and_dispatch'' 5
       ''The simulated call graph enters delegated execution.''
   @ sim_finding_if (2 \<le> ts_value_call_count s) ''multi_hop_native_value_flow'' ''asset_flow'' 7
       ''The simulated call graph contains multiple value-bearing execution frames.''
   @ sim_finding_if (8 \<le> ts_max_depth s) ''deep_execution_graph'' ''business_logic'' 5
       ''The simulated call graph reaches a depth of eight or more frames.''"

record simulation_result =
  si_status :: string
  si_block_number :: int
  si_block_hash :: "string option"
  si_fingerprint :: string
  si_return_data_size :: nat
  si_return_data_sha256 :: "string option"
  si_error_class :: "string option"
  si_trace :: "trace_summary option"
  si_findings :: "sim_finding list"

definition simulation_delta :: "simulation_result \<Rightarrow> int" where
  "simulation_delta r = sum_list (map sf_score_delta (si_findings r))"

section \<open>The simulation\<close>

record call_outcome =
  co_status :: string
  co_error :: "string option"
  co_size :: nat
  co_sha :: "string option"

text \<open>The first \<^verbatim>\<open>try\<close>: the outcome of \<^verbatim>\<open>eth_call\<close>.\<close>

definition outcome_of_error :: "exn \<Rightarrow> call_outcome res" where
  "outcome_of_error e =
     (if is_rpc_error e then Inr \<lparr> co_status = ''reverted'', co_error = Some (exn_name e), co_size = 0, co_sha = None \<rparr>
      else if is_value_error e
        then Inr \<lparr> co_status = ''unavailable'', co_error = Some (exn_name e), co_size = 0, co_sha = None \<rparr>
      else Inl e)"

definition call_outcome_of :: "(bytes \<Rightarrow> string) \<Rightarrow> string res \<Rightarrow> call_outcome res" where
  "call_outcome_of sha256 r =
     (case r of
        Inl e \<Rightarrow> outcome_of_error e
      | Inr raw_result \<Rightarrow>
          (let encoded = removeprefix ''0x'' raw_result in
           if odd (length encoded)
           then Inr \<lparr> co_status = ''succeeded'', co_error = None, co_size = 0, co_sha = None \<rparr>
           else case fromhex encoded of
             None \<Rightarrow> outcome_of_error ValueError
           | Some return_data \<Rightarrow>
               Inr \<lparr> co_status = ''succeeded'', co_error = None, co_size = length return_data,
                     co_sha = Some (sha256 return_data) \<rparr>))"

text \<open>The second \<^verbatim>\<open>try\<close>: the trace, and the error class it may leave.\<close>

definition trace_of :: "dict option res \<Rightarrow> string option \<Rightarrow> (trace_summary option \<times> string option) res" where
  "trace_of r error_class =
     (case r of
        Inl e \<Rightarrow> if is_rpc_error e
           then Inr (None, if error_class = None then Some ''TraceUnavailable'' else error_class) else Inl e
      | Inr None \<Rightarrow> Inr (None, error_class)
      | Inr (Some trace) \<Rightarrow>
          if trace = [] then Inr (None, error_class)
          else (case summarize_call_trace trace of
             Inr s \<Rightarrow> Inr (Some s, error_class)
           | Inl e \<Rightarrow> if is_rpc_error e
               then Inr (None, if error_class = None then Some ''TraceUnavailable'' else error_class)
               else Inl e))"

definition selected_block_of :: "rpc \<Rightarrow> int option \<Rightarrow> int res" where
  "selected_block_of call block_number =
     (case block_number of None \<Rightarrow> rpc_block_number call | Some n \<Rightarrow> Inr (max 0 n))"

definition block_hash_of :: "dict option \<Rightarrow> string option" where
  "block_hash_of block =
     none_if_empty (str_or (dget (case block of None \<Rightarrow> [] | Some b \<Rightarrow> b) ''hash'') [])"

definition mk_simulation ::
  "int \<Rightarrow> dict option \<Rightarrow> call_outcome \<Rightarrow> trace_summary option \<times> string option \<Rightarrow> string \<Rightarrow> simulation_result" where
  "mk_simulation selected block co te fp =
     \<lparr> si_status = co_status co, si_block_number = selected,
       si_block_hash = block_hash_of block, si_fingerprint = fp,
       si_return_data_size = co_size co, si_return_data_sha256 = co_sha co,
       si_error_class = snd te, si_trace = fst te,
       si_findings = (case fst te of None \<Rightarrow> [] | Some s \<Rightarrow> assess_trace s) \<rparr>"

definition simulate_transaction ::
  "(bytes \<Rightarrow> string) \<Rightarrow> rpc \<Rightarrow> dict \<Rightarrow> int option \<Rightarrow> bool \<Rightarrow> simulation_result res" where
  "simulate_transaction sha256 call transaction block_number include_trace =
     and_then (selected_block_of call block_number) (\<lambda>selected.
     and_then (rpc_block call selected False) (\<lambda>block.
     and_then (build_call_object transaction) (\<lambda>callobj.
     and_then (call_outcome_of sha256 (rpc_eth_call call callobj (int_to_hex selected))) (\<lambda>co.
     and_then (if include_trace
               then trace_of (rpc_trace_call call callobj (int_to_hex selected)) (co_error co)
               else Inr (None, co_error co)) (\<lambda>te.
     and_then (transaction_fingerprint sha256 transaction) (\<lambda>fp.
       Inr (mk_simulation selected block co te fp)))))))"

section \<open>Lemmas\<close>

lemma assess_trace_range:
  "0 \<le> sum_list (map sf_score_delta (assess_trace s)) \<and> sum_list (map sf_score_delta (assess_trace s)) \<le> 40"
  by (simp add: assess_trace_def sim_finding_if_def)

lemma assess_trace_clean:
  "assess_trace s = [] \<longleftrightarrow> ts_selfdestruct_count s = 0 \<and> ts_create_count s = 0
     \<and> ts_delegatecall_count s = 0 \<and> ts_value_call_count s < 2 \<and> ts_max_depth s < 8"
  by (auto simp: assess_trace_def sim_finding_if_def not_le)

lemma call_outcome_status:
  "call_outcome_of sha256 r = Inr co \<Longrightarrow>
     co_status co \<in> {''succeeded'', ''reverted'', ''unavailable''}
     \<and> (co_status co = ''succeeded'' \<longleftrightarrow> co_error co = None)
     \<and> (co_status co \<noteq> ''succeeded'' \<longrightarrow> co_size co = 0 \<and> co_sha co = None)"
  by (auto simp: call_outcome_of_def outcome_of_error_def Let_def split: sum.splits if_splits option.splits)

lemma simulate_Inr:
  assumes "simulate_transaction sha256 call t b tr = Inr r"
  obtains selected block callobj co te fp where
    "selected_block_of call b = Inr selected" "rpc_block call selected False = Inr block"
    "build_call_object t = Inr callobj"
    "call_outcome_of sha256 (rpc_eth_call call callobj (int_to_hex selected)) = Inr co"
    "(if tr then trace_of (rpc_trace_call call callobj (int_to_hex selected)) (co_error co)
      else Inr (None, co_error co)) = Inr te"
    "transaction_fingerprint sha256 t = Inr fp"
    "r = mk_simulation selected block co te fp"
  using assms unfolding simulate_transaction_def and_then_eq_Inr by blast

lemma trace_of_keeps_error: "trace_of x (Some e) = Inr te \<Longrightarrow> snd te = Some e"
  by (auto simp: trace_of_def split: sum.splits option.splits if_splits)

lemma trace_of_fresh_error: "trace_of x None = Inr te \<Longrightarrow> snd te \<in> {None, Some ''TraceUnavailable''}"
  by (auto simp: trace_of_def split: sum.splits option.splits if_splits)

lemma simulate_facts:
  assumes "simulate_transaction sha256 call t b tr = Inr r"
  shows "si_status r \<in> {''succeeded'', ''reverted'', ''unavailable''}"
    and "si_status r = ''succeeded'' \<Longrightarrow> si_error_class r \<in> {None, Some ''TraceUnavailable''}"
    and "si_status r \<noteq> ''succeeded'' \<Longrightarrow> si_error_class r \<noteq> None \<and> si_return_data_size r = 0 \<and> si_return_data_sha256 r = None"
    and "si_trace r = None \<Longrightarrow> si_findings r = []"
    and "0 \<le> simulation_delta r \<and> simulation_delta r \<le> 40"
proof -
  from assms obtain selected block callobj co te fp where
    co: "call_outcome_of sha256 (rpc_eth_call call callobj (int_to_hex selected)) = Inr co" and
    te: "(if tr then trace_of (rpc_trace_call call callobj (int_to_hex selected)) (co_error co)
      else Inr (None, co_error co)) = Inr te" and
    r: "r = mk_simulation selected block co te fp"
    by (rule simulate_Inr)
  note st = call_outcome_status [OF co]
  have status: "si_status r = co_status co" and err: "si_error_class r = snd te"
    and data: "si_return_data_size r = co_size co" "si_return_data_sha256 r = co_sha co"
    by (simp_all add: r mk_simulation_def)
  show "si_status r \<in> {''succeeded'', ''reverted'', ''unavailable''}"
    using st unfolding status by blast
  have fresh: "snd te \<in> {None, Some ''TraceUnavailable''}" if "co_error co = None"
    using te that by (cases tr) (auto dest: trace_of_fresh_error)
  have kept: "snd te \<noteq> None" if "co_error co \<noteq> None"
    using te that by (cases tr) (fastforce dest: trace_of_keeps_error)+
  show "si_status r = ''succeeded'' \<Longrightarrow> si_error_class r \<in> {None, Some ''TraceUnavailable''}"
    using st fresh unfolding status err by blast
  show "si_status r \<noteq> ''succeeded'' \<Longrightarrow> si_error_class r \<noteq> None \<and> si_return_data_size r = 0 \<and> si_return_data_sha256 r = None"
    using st kept unfolding status err data by blast
  show "si_trace r = None \<Longrightarrow> si_findings r = []" by (simp add: r mk_simulation_def)
  show "0 \<le> simulation_delta r \<and> simulation_delta r \<le> 40"
    using assess_trace_range by (simp add: r mk_simulation_def simulation_delta_def split: option.split)
qed

text \<open>The fingerprint is a function of the executed fields alone.\<close>

lemma present_fields_cong:
  "(\<And>f. f \<in> set names \<Longrightarrow> dget d f = dget e f) \<Longrightarrow> present_fields names d = present_fields names e"
  unfolding present_fields_def by (intro arg_cong [where f = concat] map_cong) auto

lemma fingerprint_cong:
  assumes "\<And>f. f \<in> set (CALL_FIELDS @ [''input'', ''data'', ''nonce'', ''chainId'']) \<Longrightarrow> dget d f = dget e f"
  shows "transaction_fingerprint sha256 d = transaction_fingerprint sha256 e"
proof -
  have "dget d ''input'' = dget e ''input''" "dget d ''data'' = dget e ''data''"
    by (rule assms, simp)+
  then have "calldata_of d = calldata_of e" by (simp add: calldata_of_def)
  moreover have "present_fields CALL_FIELDS d = present_fields CALL_FIELDS e"
    by (rule present_fields_cong, rule assms) (unfold set_append, rule UnI1)
  moreover have "present_fields [''nonce'', ''chainId''] d = present_fields [''nonce'', ''chainId''] e"
    by (rule present_fields_cong, rule assms) auto
  ultimately show ?thesis by (simp add: transaction_fingerprint_def)
qed

section \<open>Properties\<close>

text \<open>A simulation reports what happened: its status is \<^verbatim>\<open>succeeded\<close>, \<^verbatim>\<open>reverted\<close> or
  \<^verbatim>\<open>unavailable\<close>; a successful one has no error other than a missing trace; a failed one names
  its error and carries no return data; without a trace it has no findings; and its
  contribution to a score lies between 0 and 40.\<close>

theorem simulation_report:
  assumes "simulate_transaction sha256 call t b tr = Inr r"
  shows "si_status r \<in> {''succeeded'', ''reverted'', ''unavailable''}
     \<and> (if si_status r = ''succeeded'' then si_error_class r \<in> {None, Some ''TraceUnavailable''}
        else si_error_class r \<noteq> None \<and> si_return_data_size r = 0 \<and> si_return_data_sha256 r = None)
     \<and> (si_trace r \<noteq> None \<or> si_findings r = [])
     \<and> 0 \<le> simulation_delta r \<and> simulation_delta r \<le> 40"
  using simulate_facts [OF assms] by auto

definition demo_rpc :: rpc where
  "demo_rpc m ps = (if m = ''eth_getBlockByNumber'' then Inr (JObj [(''hash'', JStr ''0xb'')])
     else if m = ''eth_call'' then Inr (JStr ''0x01'')
     else if m = ''debug_traceCall'' then Inr (JObj [(''type'', JStr ''CALL'')]) else Inl RpcError)"

definition demo_simulation :: simulation_result where
  "demo_simulation = projr (simulate_transaction (\<lambda>b. ''h'') demo_rpc [(''to'', JStr ''0xa'')] (Some 9) True)"

theorem simulation_report_witness:
  "simulate_transaction (\<lambda>b. ''h'') demo_rpc [(''to'', JStr ''0xa'')] (Some 9) True = Inr demo_simulation
     \<and> si_status demo_simulation \<in> {''succeeded'', ''reverted'', ''unavailable''} \<and> simulation_delta demo_simulation \<le> 40"
proof -
  have "simulate_transaction (\<lambda>b. ''h'') demo_rpc [(''to'', JStr ''0xa'')] (Some 9) True = Inr demo_simulation"
    by code_simp
  from simulation_report [OF this] this show ?thesis by simp
qed

text \<open>The fingerprint of a pending transaction depends on what would be executed alone: two
  transactions that agree on the call fields, the calldata, the nonce and the chain have the
  same fingerprint, whatever else the node attached (hash, signature, block).\<close>

theorem fingerprint_of_execution:
  assumes "\<forall>f \<in> set (CALL_FIELDS @ [''input'', ''data'', ''nonce'', ''chainId'']). dget d f = dget e f"
  shows "transaction_fingerprint sha256 d = transaction_fingerprint sha256 e"
  using assms by (intro fingerprint_cong) blast

theorem fingerprint_of_execution_witness:
  "transaction_fingerprint (\<lambda>b. ''h'') [(''to'', JStr ''0xa''), (''hash'', JStr ''0x1'')]
     = transaction_fingerprint (\<lambda>b. ''h'') [(''blockHash'', JStr ''0x2''), (''to'', JStr ''0xa'')]"
  by (rule fingerprint_of_execution) (simp add: CALL_FIELDS_def dget_def)

end
