(* ===== verification/State_Diff.thy ===== *)
theory State_Diff
  imports Fingerprint
begin

text \<open>
  \<^verbatim>\<open>src/white_radar/state_diff.py\<close>: the normal form of the difference a \<^verbatim>\<open>prestateTracer\<close> in
  diff mode reports. \<open>sha256\<close> is the digest of bytes as hexadecimal text. A Python dictionary
  built by a comprehension keeps the last value of a repeated key: \<open>last_value\<close> reads it so.
\<close>

section \<open>Values\<close>

definition MAX_STATE_ACCOUNTS :: int where "MAX_STATE_ACCOUNTS = 512"
definition MAX_STORAGE_CHANGES :: int where "MAX_STORAGE_CHANGES = 8192"

record storage_change =
  sc_slot :: string
  sc_before :: "string option"
  sc_after :: "string option"

record account_change =
  ac_address :: string
  ac_change_type :: string
  ac_balance_before_wei :: "string option"
  ac_balance_after_wei :: "string option"
  ac_nonce_before :: "int option"
  ac_nonce_after :: "int option"
  ac_code_before :: "(nat \<times> string) option"
  ac_code_after :: "(nat \<times> string) option"
  ac_storage_changes :: "storage_change list"

record state_diff =
  sd_source :: string
  sd_accounts :: "account_change list"
  sd_storage_change_count :: nat
  sd_truncated :: bool
  sd_warnings :: "string list"

definition as_mapping :: "json \<Rightarrow> dict" where
  "as_mapping v = (case v of JObj d \<Rightarrow> d | _ \<Rightarrow> [])"

definition sd_quantity :: "json \<Rightarrow> int option" where
  "sd_quantity v = (if v = JNull then None
     else case py_int16 (py_str v) of Inr n \<Rightarrow> Some n | Inl e \<Rightarrow> None)"

definition sd_balance :: "json \<Rightarrow> string option" where
  "sd_balance v = map_option int_str (sd_quantity v)"

definition code_evidence :: "(bytes \<Rightarrow> string) \<Rightarrow> json \<Rightarrow> (nat \<times> string) option" where
  "code_evidence sha256 v =
     (let encoded = str_or v [] in
      if \<not> startswith ''0x'' encoded \<or> odd (length encoded) then None
      else case fromhex (drop 2 encoded) of None \<Rightarrow> None | Some raw \<Rightarrow> Some (length raw, sha256 raw))"

section \<open>Storage slots\<close>

definition slot_text :: "dict \<Rightarrow> string \<Rightarrow> string option" where
  "slot_text d slot = map_option py_str (map_of d slot)"

definition all_slots :: "dict \<Rightarrow> dict \<Rightarrow> string list" where
  "all_slots before after = sort (fromkeys (map fst before @ map fst after))"

fun storage_loop ::
  "dict \<Rightarrow> dict \<Rightarrow> nat \<Rightarrow> string list \<Rightarrow> storage_change list \<Rightarrow> storage_change list \<times> bool" where
  "storage_loop before after remaining [] selected = (selected, False)"
| "storage_loop before after remaining (slot # slots) selected =
     (if slot_text before slot = slot_text after slot then storage_loop before after remaining slots selected
      else if remaining \<le> length selected then (selected, True)
      else storage_loop before after remaining slots
        (selected @ [\<lparr> sc_slot = slot, sc_before = slot_text before slot, sc_after = slot_text after slot \<rparr>]))"

definition storage_diff :: "dict \<Rightarrow> dict \<Rightarrow> nat \<Rightarrow> storage_change list \<times> bool" where
  "storage_diff before after remaining = storage_loop before after remaining (all_slots before after) []"

section \<open>Accounts\<close>

text \<open>\<^verbatim>\<open>{str(address).lower(): value for ... if ADDRESS_RE.fullmatch(str(address))}\<close>\<close>

definition address_map :: "dict \<Rightarrow> dict" where
  "address_map d = map (\<lambda>kv. (lower (fst kv), snd kv)) (filter (\<lambda>kv. is_address (fst kv)) d)"

definition last_value :: "dict \<Rightarrow> string \<Rightarrow> json option" where
  "last_value d k = map_of (rev d) k"

definition account_of :: "dict \<Rightarrow> string \<Rightarrow> dict" where
  "account_of d address = (case last_value d address of None \<Rightarrow> [] | Some v \<Rightarrow> as_mapping v)"

definition change_type :: "dict \<Rightarrow> dict \<Rightarrow> string \<Rightarrow> string" where
  "change_type pre post address =
     (let in_pre = (last_value pre address \<noteq> None); in_post = (last_value post address \<noteq> None) in
      if in_pre \<and> \<not> in_post then ''removed_from_post_state''
      else if in_post \<and> \<not> in_pre then ''created_or_newly_materialized''
      else ''modified'')"

definition diff_account ::
  "(bytes \<Rightarrow> string) \<Rightarrow> dict \<Rightarrow> dict \<Rightarrow> string \<Rightarrow> storage_change list \<Rightarrow> account_change" where
  "diff_account sha256 pre post address changes =
     (let before = account_of pre address; after = account_of post address in
      \<lparr> ac_address = address, ac_change_type = change_type pre post address,
        ac_balance_before_wei = sd_balance (dget before ''balance''),
        ac_balance_after_wei = sd_balance (dget after ''balance''),
        ac_nonce_before = sd_quantity (dget before ''nonce''),
        ac_nonce_after = sd_quantity (dget after ''nonce''),
        ac_code_before = code_evidence sha256 (dget before ''code''),
        ac_code_after = code_evidence sha256 (dget after ''code''),
        ac_storage_changes = changes \<rparr>)"

definition account_storage :: "dict \<Rightarrow> dict \<Rightarrow> string \<Rightarrow> nat \<Rightarrow> storage_change list \<times> bool" where
  "account_storage pre post address remaining =
     storage_diff (as_mapping (dget (account_of pre address) ''storage''))
       (as_mapping (dget (account_of post address) ''storage'')) remaining"

fun accounts_loop ::
  "(bytes \<Rightarrow> string) \<Rightarrow> dict \<Rightarrow> dict \<Rightarrow> nat \<Rightarrow> string list \<Rightarrow> nat \<Rightarrow> bool \<Rightarrow> account_change list
     \<Rightarrow> account_change list \<times> nat \<times> bool" where
  "accounts_loop sha256 pre post storage_limit [] tot truncated accounts = (accounts, tot, truncated)"
| "accounts_loop sha256 pre post storage_limit (address # rest) tot truncated accounts =
     (let (changes, cut) = account_storage pre post address (storage_limit - tot)
      in accounts_loop sha256 pre post storage_limit rest (tot + length changes) (truncated \<or> cut)
           (accounts @ [diff_account sha256 pre post address changes]))"

definition SOURCE :: string where
  "SOURCE = ''debug_traceTransaction:prestateTracer:diffMode''"

definition BOUND_WARNING :: string where
  "BOUND_WARNING = ''State-diff evidence reached an account or storage bound; omitted values are not ''
     @ ''treated as unchanged.''"

definition diff_addresses :: "dict \<Rightarrow> dict \<Rightarrow> string list" where
  "diff_addresses pre post = sort (fromkeys (map fst pre @ map fst post))"

definition parse_state_diff :: "(bytes \<Rightarrow> string) \<Rightarrow> dict \<Rightarrow> int \<Rightarrow> int \<Rightarrow> state_diff" where
  "parse_state_diff sha256 payload max_accounts max_storage_changes =
     (let pre = address_map (as_mapping (dget payload ''pre''));
          post = address_map (as_mapping (dget payload ''post''));
          addresses = diff_addresses pre post;
          account_limit = nat (max 0 (min MAX_STATE_ACCOUNTS max_accounts));
          storage_limit = nat (max 0 (min MAX_STORAGE_CHANGES max_storage_changes));
          (accounts, tot, truncated) =
            accounts_loop sha256 pre post storage_limit (take account_limit addresses) 0
              (account_limit < length addresses) []
      in \<lparr> sd_source = SOURCE, sd_accounts = accounts, sd_storage_change_count = tot,
           sd_truncated = truncated, sd_warnings = (if truncated then [BOUND_WARNING] else []) \<rparr>)"

section \<open>The loops select the changed slots in order\<close>

definition changed_slots :: "dict \<Rightarrow> dict \<Rightarrow> string list" where
  "changed_slots before after =
     filter (\<lambda>s. slot_text before s \<noteq> slot_text after s) (all_slots before after)"

definition mk_change :: "dict \<Rightarrow> dict \<Rightarrow> string \<Rightarrow> storage_change" where
  "mk_change before after slot =
     \<lparr> sc_slot = slot, sc_before = slot_text before slot, sc_after = slot_text after slot \<rparr>"

lemma storage_loop_take:
  "length selected \<le> remaining \<Longrightarrow> storage_loop before after remaining slots selected =
     (let changed = filter (\<lambda>s. slot_text before s \<noteq> slot_text after s) slots
      in (selected @ map (mk_change before after) (take (remaining - length selected) changed),
          remaining - length selected < length changed))"
proof (induction before after remaining slots selected rule: storage_loop.induct)
  case (2 before after remaining slot slots selected)
  show ?case
  proof (cases "slot_text before slot = slot_text after slot \<or> remaining \<le> length selected")
    case True
    with 2 show ?thesis by (auto simp: Let_def)
  next
    case False
    then obtain k where k: "remaining - length selected = Suc k"
      by (metis Suc_diff_Suc not_le)
    then have k': "remaining - Suc (length selected) = k" by simp
    from False 2 show ?thesis by (simp add: Let_def k k' mk_change_def)
  qed
qed (simp add: Let_def)

lemma storage_diff_spec:
  "storage_diff before after remaining =
     (map (mk_change before after) (take remaining (changed_slots before after)),
      remaining < length (changed_slots before after))"
  by (simp add: storage_diff_def storage_loop_take changed_slots_def Let_def)

lemma slot_changed_in:
  "slot_text before s \<noteq> slot_text after s \<Longrightarrow> s \<in> set (changed_slots before after)"
proof -
  assume ne: "slot_text before s \<noteq> slot_text after s"
  then have "map_of before s \<noteq> None \<or> map_of after s \<noteq> None"
    by (auto simp: slot_text_def)
  then have "s \<in> set (all_slots before after)"
    by (auto simp: all_slots_def map_of_eq_None_iff)
  with ne show ?thesis by (simp add: changed_slots_def)
qed

lemma changed_slots_sorted: "sorted (changed_slots before after)" "distinct (changed_slots before after)"
  by (simp_all add: changed_slots_def all_slots_def sorted_wrt_filter)

definition changes_ok :: "storage_change list \<Rightarrow> bool" where
  "changes_ok cs = (sorted (map sc_slot cs) \<and> distinct (map sc_slot cs) \<and> list_all (\<lambda>c. sc_before c \<noteq> sc_after c) cs)"

lemma map_slot_mk_change: "map sc_slot (map (mk_change before after) slots) = slots"
  by (induction slots) (simp_all add: mk_change_def)

lemma storage_diff_ok: "changes_ok (fst (storage_diff before after n))"
proof -
  have "sc_before c \<noteq> sc_after c" if "c \<in> set (map (mk_change before after) (take n (changed_slots before after)))" for c
    using that by (auto simp: mk_change_def changed_slots_def dest: in_set_takeD)
  then show ?thesis
    unfolding changes_ok_def storage_diff_spec fst_conv map_slot_mk_change
    using changed_slots_sorted by (auto simp: sorted_wrt_take list_all_iff)
qed

lemma storage_diff_complete:
  "\<not> snd (storage_diff before after n) \<Longrightarrow> slot_text before s \<noteq> slot_text after s
     \<Longrightarrow> mk_change before after s \<in> set (fst (storage_diff before after n))"
  by (simp add: storage_diff_spec slot_changed_in)

section \<open>The account loop\<close>

lemma accounts_loop_facts:
  assumes "accounts_loop sha256 pre post cap addrs tot tr acs = (acs', tot', tr')" "tot \<le> cap"
  shows "map ac_address acs' = map ac_address acs @ addrs \<and> tot' \<le> cap
     \<and> tot' = tot + sum_list (map (length \<circ> ac_storage_changes) (drop (length acs) acs'))
     \<and> take (length acs) acs' = acs
     \<and> (tr \<longrightarrow> tr')
     \<and> (\<forall>a \<in> set addrs. \<exists>n. diff_account sha256 pre post a (fst (account_storage pre post a n)) \<in> set acs'
           \<and> (\<not> tr' \<longrightarrow> \<not> snd (account_storage pre post a n)))
     \<and> (\<forall>c \<in> set (drop (length acs) acs'). changes_ok (ac_storage_changes c))"
  using assms
proof (induction addrs arbitrary: tot tr acs)
  case (Cons a addrs)
  obtain ch cut where st: "account_storage pre post a (cap - tot) = (ch, cut)" by force
  define c where "c = diff_account sha256 pre post a ch"
  have len: "length ch \<le> cap - tot"
    using st by (auto simp: account_storage_def storage_diff_spec)
  have ok: "changes_ok ch" using storage_diff_ok st unfolding account_storage_def by (metis fst_conv)
  have c: "ac_address c = a" "ac_storage_changes c = ch" by (simp_all add: c_def diff_account_def Let_def)
  from Cons.prems st have run:
    "accounts_loop sha256 pre post cap addrs (tot + length ch) (tr \<or> cut) (acs @ [c]) = (acs', tot', tr')"
    by (simp add: c_def)
  note IH = Cons.IH [OF run]
  have cap: "tot + length ch \<le> cap" using len Cons.prems(2) by simp
  from IH [OF cap] have tk: "take (Suc (length acs)) acs' = acs @ [c]" by simp
  then have dr: "drop (length acs) acs' = c # drop (Suc (length acs)) acs'"
    by (metis append_take_drop_id append.assoc append_Cons append_Nil drop_Suc_Cons append_eq_conv_conj)
  have mem: "c \<in> set acs'" using tk by (metis in_set_conv_decomp in_set_takeD)
  have tk': "take (length acs) acs' = acs"
    using tk by (metis append_eq_conv_conj append_eq_append_conv2 take_add take_append take_take min_def lessI less_imp_le)
  have "tr \<or> cut \<longrightarrow> tr'" using IH [OF cap] by simp
  then have here: "\<exists>n. diff_account sha256 pre post a (fst (account_storage pre post a n)) \<in> set acs'
           \<and> (\<not> tr' \<longrightarrow> \<not> snd (account_storage pre post a n))"
    using mem st unfolding c_def by (intro exI [of _ "cap - tot"]) auto
  from IH [OF cap] c ok here show ?case
    by (simp add: dr tk' comp_def)
qed simp

lemma parse_state_diff_facts:
  fixes sha256 payload m k
  defines "r \<equiv> parse_state_diff sha256 payload m k"
    and "pre \<equiv> address_map (as_mapping (dget payload ''pre''))"
    and "post \<equiv> address_map (as_mapping (dget payload ''post''))"
  shows "sorted (map ac_address (sd_accounts r))" "distinct (map ac_address (sd_accounts r))"
    and "length (sd_accounts r) \<le> 512"
    and "sd_storage_change_count r = sum_list (map (length \<circ> ac_storage_changes) (sd_accounts r))"
    and "sd_storage_change_count r \<le> 8192"
    and "\<forall>c \<in> set (sd_accounts r). changes_ok (ac_storage_changes c)"
    and "\<not> sd_truncated r \<Longrightarrow> a \<in> fst ` set pre \<union> fst ` set post \<Longrightarrow>
      \<exists>c \<in> set (sd_accounts r). ac_address c = a
        \<and> (\<forall>s. slot_text (as_mapping (dget (account_of pre a) ''storage'')) s
               \<noteq> slot_text (as_mapping (dget (account_of post a) ''storage'')) s
            \<longrightarrow> s \<in> sc_slot ` set (ac_storage_changes c))"
    and "sd_truncated r \<longleftrightarrow> sd_warnings r \<noteq> []"
proof -
  define al where "al = nat (max 0 (min MAX_STATE_ACCOUNTS m))"
  define sl where "sl = nat (max 0 (min MAX_STORAGE_CHANGES k))"
  define addrs where "addrs = diff_addresses pre post"
  obtain acs tot tr where run: "accounts_loop sha256 pre post sl (take al addrs) 0 (al < length addrs) [] = (acs, tot, tr)"
    by (metis prod_cases3)
  have r: "sd_accounts r = acs" "sd_storage_change_count r = tot" "sd_truncated r = tr"
    "sd_warnings r = (if tr then [BOUND_WARNING] else [])"
    using run unfolding r_def parse_state_diff_def pre_def post_def al_def sl_def addrs_def
    by (simp_all add: Let_def)
  note facts = accounts_loop_facts [OF run le0]
  have al: "al \<le> 512" and sl: "sl \<le> 8192"
    by (simp_all add: al_def sl_def MAX_STATE_ACCOUNTS_def MAX_STORAGE_CHANGES_def)
  have addr: "sorted addrs" "distinct addrs" "set addrs = fst ` set pre \<union> fst ` set post"
    by (auto simp: addrs_def diff_addresses_def)
  have names: "map ac_address acs = take al addrs" using facts by simp
  show "sorted (map ac_address (sd_accounts r))" "distinct (map ac_address (sd_accounts r))"
    using addr by (simp_all add: r names sorted_wrt_take)
  have "length acs = length (take al addrs)" using names by (metis length_map)
  then show "length (sd_accounts r) \<le> 512" using al by (simp add: r)
  show "sd_storage_change_count r = sum_list (map (length \<circ> ac_storage_changes) (sd_accounts r))"
    using facts by (simp add: r)
  show "sd_storage_change_count r \<le> 8192" using facts sl by (simp add: r)
  show "\<forall>c \<in> set (sd_accounts r). changes_ok (ac_storage_changes c)" using facts by (simp add: r)
  show "sd_truncated r \<longleftrightarrow> sd_warnings r \<noteq> []" by (simp add: r)
  show "\<exists>c \<in> set (sd_accounts r). ac_address c = a
        \<and> (\<forall>s. slot_text (as_mapping (dget (account_of pre a) ''storage'')) s
               \<noteq> slot_text (as_mapping (dget (account_of post a) ''storage'')) s
            \<longrightarrow> s \<in> sc_slot ` set (ac_storage_changes c))"
    if "\<not> sd_truncated r" "a \<in> fst ` set pre \<union> fst ` set post"
  proof -
    from that facts have "\<not> al < length addrs" and tr: "\<not> tr" by (auto simp: r)
    with that addr have "a \<in> set (take al addrs)" by simp
    with facts tr obtain n where n: "diff_account sha256 pre post a (fst (account_storage pre post a n)) \<in> set acs"
      "\<not> snd (account_storage pre post a n)" by blast
    have "s \<in> sc_slot ` set (fst (account_storage pre post a n))"
      if "slot_text (as_mapping (dget (account_of pre a) ''storage'')) s
               \<noteq> slot_text (as_mapping (dget (account_of post a) ''storage'')) s" for s
      using storage_diff_complete [OF n(2) [unfolded account_storage_def] that]
      unfolding account_storage_def by (rule rev_image_eqI) (simp add: mk_change_def)
    with n(1) show ?thesis
      unfolding r by (intro bexI [OF _ n(1)]) (simp add: diff_account_def Let_def)
  qed
qed

text \<open>A quantity given as a JSON number is read in base sixteen as well.\<close>

lemma quantity_of_text: "sd_quantity (JStr s) = (case py_int16 s of Inr n \<Rightarrow> Some n | Inl e \<Rightarrow> None)"
  by (simp add: sd_quantity_def)

lemma quantity_of_hex: "0 \<le> n \<Longrightarrow> sd_quantity (JStr (int_to_hex n)) = Some n"
  by (simp add: quantity_of_text py_int16_hex)

section \<open>Properties\<close>

text \<open>C19. A state difference is bounded, ordered and honest: at most 512 accounts and 8,192 storage
  changes, accounts and slots in increasing order without repetition, every reported slot
  really changed, the reported count the number of reported changes; and unless it is marked
  truncated (which it is exactly when it carries the warning) every account of either side is
  there with every slot whose value differs.\<close>

theorem state_diff_complete:
  fixes sha256 :: "bytes \<Rightarrow> string" and payload :: dict and m k :: int
  defines "r \<equiv> parse_state_diff sha256 payload m k"
    and "pre \<equiv> address_map (as_mapping (dget payload ''pre''))"
    and "post \<equiv> address_map (as_mapping (dget payload ''post''))"
  shows "sorted (map ac_address (sd_accounts r)) \<and> distinct (map ac_address (sd_accounts r))
     \<and> length (sd_accounts r) \<le> 512 \<and> sd_storage_change_count r \<le> 8192
     \<and> sd_storage_change_count r = sum_list (map (length \<circ> ac_storage_changes) (sd_accounts r))
     \<and> (\<forall>c \<in> set (sd_accounts r). changes_ok (ac_storage_changes c))
     \<and> (sd_truncated r \<longleftrightarrow> sd_warnings r \<noteq> [])
     \<and> (\<not> sd_truncated r \<longrightarrow> (\<forall>a \<in> fst ` set pre \<union> fst ` set post. \<exists>c \<in> set (sd_accounts r). ac_address c = a
        \<and> (\<forall>s. slot_text (as_mapping (dget (account_of pre a) ''storage'')) s
               \<noteq> slot_text (as_mapping (dget (account_of post a) ''storage'')) s
            \<longrightarrow> s \<in> sc_slot ` set (ac_storage_changes c))))"
  unfolding r_def pre_def post_def
  using parse_state_diff_facts [of sha256 payload m k] by blast

definition demo_account :: string where "demo_account = ''0x'' @ replicate 40 (CHR ''e'')"

definition demo_diff :: dict where
  "demo_diff = [(''pre'', JObj [(demo_account, JObj [(''storage'', JObj [(''0x1'', JStr ''0x5'')])])]),
     (''post'', JObj [(demo_account, JObj [(''storage'', JObj [(''0x1'', JStr ''0x6'')])])])]"

theorem state_diff_complete_witness:
  "\<exists>c \<in> set (sd_accounts (parse_state_diff (\<lambda>b. ''h'') demo_diff 8 8)). ac_address c = demo_account
     \<and> ''0x1'' \<in> sc_slot ` set (ac_storage_changes c)"
proof -
  let ?pre = "address_map (as_mapping (dget demo_diff ''pre''))"
  let ?post = "address_map (as_mapping (dget demo_diff ''post''))"
  have "\<not> sd_truncated (parse_state_diff (\<lambda>b. ''h'') demo_diff 8 8)" by code_simp
  moreover have "demo_account \<in> fst ` set ?pre \<union> fst ` set ?post" by code_simp
  moreover have "slot_text (as_mapping (dget (account_of ?pre demo_account) ''storage'')) ''0x1''
      \<noteq> slot_text (as_mapping (dget (account_of ?post demo_account) ''storage'')) ''0x1''" by code_simp
  ultimately show ?thesis using state_diff_complete [of "\<lambda>b. ''h''" demo_diff 8 8] by blast
qed

end
