(* ===== verification/Proxy.thy ===== *)
theory Proxy
  imports Simulation
begin

text \<open>
  \<^verbatim>\<open>src/white_radar/enrichment.py\<close> and \<^verbatim>\<open>src/white_radar/proxy.py\<close>: the EIP-1967 slots, the
  address a storage word holds, the metadata of a contract from the chain and two explorers, and
  the inspection of a proxy pinned to one block. What \<^verbatim>\<open>request_json\<close> answered for an explorer
  is an argument (theory Rpc-Client has that function); the digests are arguments as elsewhere.
\<close>

section \<open>Storage words\<close>

definition IMPLEMENTATION_SLOT :: string where
  "IMPLEMENTATION_SLOT = ''0x360894a13ba1a3210667c828492db98dca3e2076cc3735a920a3ca505d382bbc''"

definition ADMIN_SLOT :: string where
  "ADMIN_SLOT = ''0xb53127684a568b3173ae13b9f8a6016e243e63b6e8ee1178d6a717850b5d6103''"

definition BEACON_SLOT :: string where
  "BEACON_SLOT = ''0xa3f0ad74e5423aebfd80d3ef4346578335a9a72aeaee59ff6cb3582b35133d50''"

definition rjust :: "nat \<Rightarrow> char \<Rightarrow> string \<Rightarrow> string" where
  "rjust n c s = replicate (n - length s) c @ s"

definition storage_word_to_address :: "string \<Rightarrow> string option res" where
  "storage_word_to_address v =
     (if \<not> startswith ''0x'' v then Inr None
      else
        (let raw = rjust 64 (CHR ''0'') (drop 2 v) in
         and_then (py_int16 raw) (\<lambda>n.
           Inr (if n = 0 then None else Some (''0x'' @ lower (last_n 40 raw))))))"

section \<open>Contract metadata\<close>

text \<open>\<^verbatim>\<open>_proxy_metadata\<close> swallows every exception of one slot.\<close>

definition slot_address :: "rpc \<Rightarrow> string \<Rightarrow> string \<Rightarrow> string \<Rightarrow> string option res" where
  "slot_address call address slot block =
     and_then (rpc_storage_at call address slot block) storage_word_to_address"

definition quiet :: "'a option res \<Rightarrow> 'a option" where
  "quiet r = (case r of Inl e \<Rightarrow> None | Inr x \<Rightarrow> x)"

record proxy_slots =
  ps_implementation :: "string option"
  ps_admin :: "string option"
  ps_beacon :: "string option"

definition proxy_metadata :: "rpc \<Rightarrow> string \<Rightarrow> proxy_slots" where
  "proxy_metadata call address =
     \<lparr> ps_implementation = quiet (slot_address call address IMPLEMENTATION_SLOT ''latest''),
       ps_admin = quiet (slot_address call address ADMIN_SLOT ''latest''),
       ps_beacon = quiet (slot_address call address BEACON_SLOT ''latest'') \<rparr>"

text \<open>\<^verbatim>\<open>_sourcify\<close>: the compilation name, or one of the two fallbacks.\<close>

definition sourcify :: "json res \<Rightarrow> (bool \<times> string option) res" where
  "sourcify answer =
     (case answer of
        Inl e \<Rightarrow> if e = HttpError then Inr (False, None) else Inl e
      | Inr (JObj data) \<Rightarrow>
          (case (case map_of data ''compilation'' of None \<Rightarrow> Some [] | Some j \<Rightarrow> dict_of j) of
             None \<Rightarrow> Inl AttributeError
           | Some compilation \<Rightarrow>
               (let n = dget compilation ''name'';
                    name = (if truthy n then n
                            else py_or (dget data ''contractName'') (dget data ''name''))
                in Inr (True, if truthy name then Some (py_str name) else None)))
      | Inr _ \<Rightarrow> Inr (False, None))"

record explorer_answer =
  ex_verified :: bool
  ex_name :: "string option"
  ex_proxy :: bool
  ex_implementation :: "string option"

definition no_explorer :: explorer_answer where
  "no_explorer = \<lparr> ex_verified = False, ex_name = None, ex_proxy = False, ex_implementation = None \<rparr>"

definition explorer_record :: "dict \<Rightarrow> explorer_answer" where
  "explorer_record r =
     \<lparr> ex_verified = (str_or (dget r ''SourceCode'') [] \<noteq> []
           \<and> dget r ''ABI'' \<noteq> JStr ''Contract source code not verified''),
       ex_name = none_if_empty (str_or (dget r ''ContractName'') []),
       ex_proxy = (str_or (dget r ''Proxy'') ''0'' = ''1''),
       ex_implementation = none_if_empty (lower (str_or (dget r ''Implementation'') [])) \<rparr>"

text \<open>\<^verbatim>\<open>_etherscan\<close>; no key in the environment is \<open>None\<close>.\<close>

definition etherscan :: "json res option \<Rightarrow> explorer_answer res" where
  "etherscan answer =
     (case answer of
        None \<Rightarrow> Inr no_explorer
      | Some (Inl e) \<Rightarrow> if e = HttpError then Inr no_explorer else Inl e
      | Some (Inr (JObj data)) \<Rightarrow>
          (case dget data ''result'' of
             JList (JObj r # rs) \<Rightarrow> Inr (explorer_record r)
           | _ \<Rightarrow> Inr no_explorer)
      | Some (Inr _) \<Rightarrow> Inr no_explorer)"

text \<open>\<^verbatim>\<open>enrich\<close>: the first explorer that verifies the source wins.\<close>

definition enrich ::
  "bool \<Rightarrow> bool \<Rightarrow> rpc \<Rightarrow> json res \<Rightarrow> json res option \<Rightarrow> string \<Rightarrow> contract_metadata res" where
  "enrich sourcify_enabled etherscan_enabled call sourcify_answer etherscan_answer address =
     (let proxy = proxy_metadata call address in
      and_then (if sourcify_enabled then sourcify sourcify_answer else Inr (False, None)) (\<lambda>(v, n).
      if v \<or> \<not> etherscan_enabled
      then Inr \<lparr> cm_verified = v, cm_verification_source = (if v then Some ''Sourcify'' else None),
             cm_contract_name = n, cm_is_proxy = (truthy_opt (ps_implementation proxy) \<or> truthy_opt (ps_beacon proxy)),
             cm_implementation = ps_implementation proxy, cm_admin = ps_admin proxy, cm_beacon = ps_beacon proxy \<rparr>
      else and_then (etherscan etherscan_answer) (\<lambda>x.
        let implementation = (if ex_proxy x \<and> \<not> truthy_opt (ps_implementation proxy)
               then ex_implementation x else ps_implementation proxy)
        in Inr \<lparr> cm_verified = ex_verified x,
             cm_verification_source = (if ex_verified x then Some ''Etherscan'' else None),
             cm_contract_name = ex_name x, cm_is_proxy = (truthy_opt implementation \<or> truthy_opt (ps_beacon proxy)),
             cm_implementation = implementation, cm_admin = ps_admin proxy, cm_beacon = ps_beacon proxy \<rparr>)))"

section \<open>Proxy inspection\<close>

definition IMPLEMENTATION_SELECTOR :: string where "IMPLEMENTATION_SELECTOR = ''0x5c60da1b''"
definition PROXIABLE_UUID_SELECTOR :: string where "PROXIABLE_UUID_SELECTOR = ''0x52d1902d''"

record proxy_finding =
  xf_code :: string
  xf_score_delta :: int
  xf_summary :: string

record proxy_snapshot =
  px_address :: string
  px_block_number :: int
  px_block_hash :: "string option"
  px_implementation :: "string option"
  px_admin :: "string option"
  px_beacon :: "string option"
  px_beacon_implementation :: "string option"
  px_effective :: "string option"
  px_code_sha256 :: "string option"
  px_code_size :: nat
  px_uups :: "bool option"
  px_findings :: "proxy_finding list"

definition returned_address :: "string \<Rightarrow> string option" where
  "returned_address v =
     (if \<not> startswith ''0x'' v then None
      else case fromhex (drop 2 v) of
        None \<Rightarrow> None
      | Some raw \<Rightarrow>
          if length raw < 32 \<or> from_be (take 32 raw) = 0 then None
          else Some (''0x'' @ hex_of (last_n 20 (take 32 raw))))"

definition view_call :: "string \<Rightarrow> string \<Rightarrow> dict" where
  "view_call target selector = [(''to'', JStr target), (''data'', JStr selector)]"

text \<open>A \<^verbatim>\<open>try ... except RpcError\<close> around a step.\<close>

definition rpc_guard :: "'a res \<Rightarrow> 'a \<Rightarrow> 'a res" where
  "rpc_guard r dflt = (case r of Inl e \<Rightarrow> if is_rpc_error e then Inr dflt else Inl e | Inr x \<Rightarrow> Inr x)"

definition code_fingerprint ::
  "(bytes \<Rightarrow> string) \<Rightarrow> (bytes \<Rightarrow> nat) \<Rightarrow> rpc \<Rightarrow> string \<Rightarrow> string \<Rightarrow> fingerprint res" where
  "code_fingerprint sha256 blake8 call address block =
     and_then (rpc_code call address block) (\<lambda>c. Inr (fingerprint_bytecode sha256 blake8 c))"

definition direct_candidate ::
  "(bytes \<Rightarrow> string) \<Rightarrow> (bytes \<Rightarrow> nat) \<Rightarrow> rpc \<Rightarrow> string \<Rightarrow> string \<Rightarrow> string option res" where
  "direct_candidate sha256 blake8 call address block =
     rpc_guard (and_then (rpc_eth_call call (view_call address IMPLEMENTATION_SELECTOR) block) (\<lambda>v.
       case returned_address v of
         None \<Rightarrow> Inr None
       | Some candidate \<Rightarrow> and_then (code_fingerprint sha256 blake8 call candidate block) (\<lambda>fp.
           Inr (if fp_bytecode_size fp \<noteq> 0 then Some candidate else None)))) None"

definition beacon_candidate :: "rpc \<Rightarrow> string \<Rightarrow> string \<Rightarrow> string option res" where
  "beacon_candidate call beacon block =
     rpc_guard (and_then (rpc_eth_call call (view_call beacon IMPLEMENTATION_SELECTOR) block)
       (\<lambda>v. Inr (returned_address v))) None"

definition uups_check :: "rpc \<Rightarrow> string \<Rightarrow> string \<Rightarrow> bool option res" where
  "uups_check call effective block =
     rpc_guard (and_then (rpc_eth_call call (view_call effective PROXIABLE_UUID_SELECTOR) block)
       (\<lambda>v. Inr (Some (lower v = lower IMPLEMENTATION_SLOT)))) None"

definition proxy_finding_if :: "bool \<Rightarrow> string \<Rightarrow> int \<Rightarrow> string \<Rightarrow> proxy_finding list" where
  "proxy_finding_if b c delta summary =
     (if b then [\<lparr> xf_code = c, xf_score_delta = delta, xf_summary = summary \<rparr>] else [])"

definition proxy_findings :: "proxy_slots \<Rightarrow> string option \<Rightarrow> nat \<Rightarrow> proxy_finding list" where
  "proxy_findings slots effective code_size =
     proxy_finding_if ((ps_implementation slots \<noteq> None \<or> ps_beacon slots \<noteq> None) \<and> effective = None)
       ''unresolved_proxy_implementation'' 15
       ''Proxy control state is present but the effective implementation is unresolved.''
   @ proxy_finding_if (effective \<noteq> None \<and> code_size = 0) ''implementation_without_runtime_code'' 25
       ''The effective implementation address has no runtime bytecode at the pinned block.''
   @ proxy_finding_if (ps_implementation slots \<noteq> None \<and> ps_beacon slots \<noteq> None)
       ''multiple_proxy_control_planes'' 10
       ''Both implementation and beacon control slots are populated.''"

definition first_some :: "'a option \<Rightarrow> 'a option \<Rightarrow> 'a option" where
  "first_some a b = (case a of None \<Rightarrow> b | Some x \<Rightarrow> Some x)"

definition read_slots :: "rpc \<Rightarrow> string \<Rightarrow> string \<Rightarrow> proxy_slots res" where
  "read_slots call address block =
     and_then (slot_address call address IMPLEMENTATION_SLOT block) (\<lambda>i.
     and_then (slot_address call address ADMIN_SLOT block) (\<lambda>a.
     and_then (slot_address call address BEACON_SLOT block) (\<lambda>b.
       Inr \<lparr> ps_implementation = i, ps_admin = a, ps_beacon = b \<rparr>)))"

record effective_code =
  ef_sha :: "string option"
  ef_size :: nat
  ef_uups :: "bool option"

definition inspect_effective ::
  "(bytes \<Rightarrow> string) \<Rightarrow> (bytes \<Rightarrow> nat) \<Rightarrow> rpc \<Rightarrow> string option \<Rightarrow> string \<Rightarrow> effective_code res" where
  "inspect_effective sha256 blake8 call effective block =
     (case effective of
        None \<Rightarrow> Inr \<lparr> ef_sha = None, ef_size = 0, ef_uups = None \<rparr>
      | Some address \<Rightarrow>
          and_then (code_fingerprint sha256 blake8 call address block) (\<lambda>fp.
          and_then (uups_check call address block) (\<lambda>u.
            Inr \<lparr> ef_sha = Some (fp_normalized_sha256 fp), ef_size = fp_bytecode_size fp, ef_uups = u \<rparr>)))"

definition mk_snapshot ::
  "string \<Rightarrow> int \<Rightarrow> dict option \<Rightarrow> proxy_slots \<Rightarrow> string option \<Rightarrow> string option \<Rightarrow> effective_code \<Rightarrow> proxy_snapshot" where
  "mk_snapshot address selected block slots direct beacon_impl code_state =
     (let effective = first_some (ps_implementation slots) (first_some beacon_impl direct) in
      \<lparr> px_address = lower address, px_block_number = selected, px_block_hash = block_hash_of block,
        px_implementation = first_some (ps_implementation slots) direct, px_admin = ps_admin slots,
        px_beacon = ps_beacon slots, px_beacon_implementation = beacon_impl, px_effective = effective,
        px_code_sha256 = ef_sha code_state, px_code_size = ef_size code_state, px_uups = ef_uups code_state,
        px_findings = proxy_findings slots effective (ef_size code_state) \<rparr>)"

definition inspect_proxy ::
  "(bytes \<Rightarrow> string) \<Rightarrow> (bytes \<Rightarrow> nat) \<Rightarrow> rpc \<Rightarrow> string \<Rightarrow> int option \<Rightarrow> proxy_snapshot res" where
  "inspect_proxy sha256 blake8 call address block_number =
     and_then (selected_block_of call block_number) (\<lambda>selected.
     and_then (rpc_block call selected False) (\<lambda>block.
     and_then (read_slots call address (int_to_hex selected)) (\<lambda>slots.
     and_then (if ps_implementation slots = None \<and> ps_beacon slots = None
               then direct_candidate sha256 blake8 call address (int_to_hex selected) else Inr None) (\<lambda>direct.
     and_then (case ps_beacon slots of None \<Rightarrow> Inr None
               | Some b \<Rightarrow> beacon_candidate call b (int_to_hex selected)) (\<lambda>beacon_impl.
     and_then (inspect_effective sha256 blake8 call
                 (first_some (ps_implementation slots) (first_some beacon_impl direct)) (int_to_hex selected)) (\<lambda>ec.
       Inr (mk_snapshot address selected block slots direct beacon_impl ec)))))))"

definition proxy_delta :: "proxy_snapshot \<Rightarrow> int" where
  "proxy_delta s = sum_list (map xf_score_delta (px_findings s))"

section \<open>Reads are pinned to the block\<close>

text \<open>Two nodes that agree on every call naming block \<open>n\<close> give the same answers.\<close>

definition agree_at :: "int \<Rightarrow> rpc \<Rightarrow> rpc \<Rightarrow> bool" where
  "agree_at n c d = (\<forall>m ps. JStr (int_to_hex n) \<in> set ps \<longrightarrow> c m ps = d m ps)"

lemma agree_atD: "agree_at n c d \<Longrightarrow> JStr (int_to_hex n) \<in> set ps \<Longrightarrow> c m ps = d m ps"
  by (simp add: agree_at_def)

lemma agree_reads:
  assumes "agree_at n c d"
  shows "rpc_block c n full = rpc_block d n full"
    "rpc_code c a (int_to_hex n) = rpc_code d a (int_to_hex n)"
    "rpc_storage_at c a slot (int_to_hex n) = rpc_storage_at d a slot (int_to_hex n)"
    "rpc_eth_call c t (int_to_hex n) = rpc_eth_call d t (int_to_hex n)"
    "rpc_trace_call c t (int_to_hex n) = rpc_trace_call d t (int_to_hex n)"
proof -
  show "rpc_block c n full = rpc_block d n full"
    unfolding rpc_block_def by (subst agree_atD [OF assms]) simp_all
  show "rpc_code c a (int_to_hex n) = rpc_code d a (int_to_hex n)"
    unfolding rpc_code_def by (subst agree_atD [OF assms]) simp_all
  show "rpc_storage_at c a slot (int_to_hex n) = rpc_storage_at d a slot (int_to_hex n)"
    unfolding rpc_storage_at_def by (subst agree_atD [OF assms]) simp_all
  show "rpc_eth_call c t (int_to_hex n) = rpc_eth_call d t (int_to_hex n)"
    unfolding rpc_eth_call_def by (subst agree_atD [OF assms]) simp_all
  show "rpc_trace_call c t (int_to_hex n) = rpc_trace_call d t (int_to_hex n)"
    unfolding rpc_trace_call_def by (subst agree_atD [OF assms]) simp_all
qed

lemma inspect_pinned:
  assumes "agree_at n c d" "0 \<le> n"
  shows "inspect_proxy sha256 blake8 c a (Some n) = inspect_proxy sha256 blake8 d a (Some n)"
  using assms(2)
  by (simp add: inspect_proxy_def selected_block_of_def read_slots_def slot_address_def
      direct_candidate_def beacon_candidate_def inspect_effective_def code_fingerprint_def uups_check_def
      agree_reads [OF assms(1)] cong: option.case_cong if_cong)

lemma simulate_pinned:
  assumes "agree_at n c d" "0 \<le> n"
  shows "simulate_transaction sha256 c t (Some n) tr = simulate_transaction sha256 d t (Some n) tr"
  using assms(2) by (simp add: simulate_transaction_def selected_block_of_def agree_reads [OF assms(1)] cong: if_cong)

section \<open>The two address decoders agree on words of 32 bytes\<close>

lemma word_decoders_agree_aux:
  assumes "wf_bytes raw" "length raw = 32"
  shows "storage_word_to_address (''0x'' @ hex_of raw) = Inr (returned_address (''0x'' @ hex_of raw))"
proof -
  have ne: "raw \<noteq> []" using assms(2) by auto
  have sw: "startswith ''0x'' (''0x'' @ hex_of raw)" by (simp add: startswith_def)
  have last: "last_n 40 (hex_of raw) = hex_of (last_n 20 raw)"
    using drop_hex_of [of 12 raw] assms(2) by (simp add: last_n_def)
  have wl: "wf_bytes (last_n 20 raw)"
    using assms(1) by (auto simp: wf_bytes_def last_n_def dest: in_set_dropD)
  have rj: "rjust 64 (CHR ''0'') (hex_of raw) = hex_of raw" using assms(2) by (simp add: rjust_def)
  have d: "drop 2 (''0x'' @ hex_of raw) = hex_of raw" by simp
  show ?thesis
    unfolding storage_word_to_address_def returned_address_def Let_def
    by (simp only: sw d rj py_int16_hex_of [OF assms(1) ne] fromhex_hex_of [OF assms(1)] last
        lower_hex_of [OF wl] and_then_simps option.case not_True_eq_False if_False)
      (use assms(2) in simp)
qed

lemma returned_address_wf: "returned_address v = Some a \<Longrightarrow> is_address a"
proof -
  assume "returned_address v = Some a"
  then obtain raw where raw: "fromhex (drop 2 v) = Some raw" "32 \<le> length raw"
    and a: "a = ''0x'' @ hex_of (last_n 20 (take 32 raw))"
    by (auto simp: returned_address_def split: if_splits option.splits)
  have "wf_bytes (last_n 20 (take 32 raw))"
    using fromhex_wf [OF raw(1)] by (auto simp: wf_bytes_def last_n_def dest: in_set_dropD in_set_takeD)
  from hex_of_is_hex [OF this] show "is_address a"
    using raw(2) by (simp add: a is_address_def is_hex_string_def startswith_def last_n_def)
qed

section \<open>What an inspection reports\<close>

lemma inspect_Inr:
  assumes "inspect_proxy sha256 blake8 c a b = Inr s"
  obtains selected block slots direct bi ec where
    "read_slots c a (int_to_hex selected) = Inr slots"
    "(if ps_implementation slots = None \<and> ps_beacon slots = None
      then direct_candidate sha256 blake8 c a (int_to_hex selected) else Inr None) = Inr direct"
    "inspect_effective sha256 blake8 c (first_some (ps_implementation slots) (first_some bi direct)) (int_to_hex selected) = Inr ec"
    "s = mk_snapshot a selected block slots direct bi ec"
  using assms unfolding inspect_proxy_def and_then_eq_Inr by blast

lemma proxy_delta_range: "0 \<le> sum_list (map xf_score_delta (proxy_findings slots e n))
    \<and> sum_list (map xf_score_delta (proxy_findings slots e n)) \<le> 35"
  by (auto simp: proxy_findings_def proxy_finding_if_def)

lemma inspect_delta_range:
  "inspect_proxy sha256 blake8 c a b = Inr s \<Longrightarrow> 0 \<le> proxy_delta s \<and> proxy_delta s \<le> 35"
  by (erule inspect_Inr) (simp add: proxy_delta_def mk_snapshot_def Let_def proxy_delta_range)

section \<open>Properties\<close>

text \<open>C35. Analysis is pinned to its block: two nodes that give the same answers to the calls that name
  block \<open>n\<close> yield the same proxy inspection and the same simulation at block \<open>n\<close>, so neither
  reads the head of the chain or any other block.\<close>

theorem analysis_pinned:
  assumes "agree_at n c d" and "0 \<le> n"
  shows "inspect_proxy sha256 blake8 c a (Some n) = inspect_proxy sha256 blake8 d a (Some n)
     \<and> simulate_transaction sha256 c t (Some n) tr = simulate_transaction sha256 d t (Some n) tr"
  using inspect_pinned [OF assms] simulate_pinned [OF assms] by blast

theorem analysis_pinned_witness:
  "inspect_proxy (\<lambda>b. ''h'') (\<lambda>b. 0) demo_rpc (''0x'' @ replicate 40 (CHR ''a'')) (Some 9)
     = inspect_proxy (\<lambda>b. ''h'') (\<lambda>b. 0) (\<lambda>m ps. if JStr ''0x9'' \<in> set ps then demo_rpc m ps else Inl ValueError) (''0x'' @ replicate 40 (CHR ''a'')) (Some 9)"
proof -
  have "int_to_hex 9 = ''0x9''" by code_simp
  then have "agree_at 9 demo_rpc (\<lambda>m ps. if JStr ''0x9'' \<in> set ps then demo_rpc m ps else Inl ValueError)"
    by (simp add: agree_at_def)
  from analysis_pinned [OF this] show ?thesis by simp
qed

text \<open>The two readers of an address in a 32-byte word agree: on every word, the storage-slot reader
  of the enrichment and the return-data reader of the proxy inspection give the same address
  (none for the zero word), and it is well formed.\<close>

theorem word_readers_agree:
  assumes "wf_bytes raw" and "length raw = 32"
  shows "storage_word_to_address (''0x'' @ hex_of raw) = Inr (returned_address (''0x'' @ hex_of raw))
     \<and> (case returned_address (''0x'' @ hex_of raw) of None \<Rightarrow> True | Some a \<Rightarrow> is_address a)"
  using word_decoders_agree_aux [OF assms] returned_address_wf by (simp split: option.split)

theorem word_readers_agree_witness:
  "storage_word_to_address (''0x'' @ hex_of demo_word) = Inr (returned_address (''0x'' @ hex_of demo_word))"
  using word_readers_agree [of demo_word] by (simp add: demo_word_def wf_bytes_def)

end
