(* ===== verification/Keccak.thy ===== *)
theory Keccak
  imports Fingerprint "HOL-Library.Word"
begin

unbundle bit_operations_syntax

text \<open>
  Keccak-256 as \<^verbatim>\<open>src/white_radar/abi.py\<close> writes it: on unbounded integers masked to 64
  bits, with a list of 25 lanes. The theory \<open>Keccak_Spec\<close> relates it to the standard: the masks
  keep every lane below \<open>2 ^ 64\<close>, which \<^verbatim>\<open>to_bytes(8)\<close> needs.
\<close>

section \<open>The code\<close>

definition ROTATION_OFFSETS :: "nat list list" where
  "ROTATION_OFFSETS = [[0, 36, 3, 41, 18], [1, 44, 10, 45, 2], [62, 6, 43, 15, 61],
     [28, 55, 25, 21, 56], [27, 20, 39, 8, 14]]"

definition ROUND_CONSTANTS :: "int list" where
  "ROUND_CONSTANTS = [0x0000000000000001, 0x0000000000008082, 0x800000000000808A, 0x8000000080008000,
     0x000000000000808B, 0x0000000080000001, 0x8000000080008081, 0x8000000000008009,
     0x000000000000008A, 0x0000000000000088, 0x0000000080008009, 0x000000008000000A,
     0x000000008000808B, 0x800000000000008B, 0x8000000000008089, 0x8000000000008003,
     0x8000000000008002, 0x8000000000000080, 0x000000000000800A, 0x800000008000000A,
     0x8000000080008081, 0x8000000000008080, 0x0000000080000001, 0x8000000080008008]"

definition MASK_64 :: int where "MASK_64 = push_bit 64 1 - 1"

definition rotate_left :: "int \<Rightarrow> nat \<Rightarrow> int" where
  "rotate_left v amount =
     (if amount = 0 then v AND MASK_64
      else (push_bit amount v OR drop_bit (64 - amount) v) AND MASK_64)"

definition lane_indices :: "(nat \<times> nat) list" where
  "lane_indices = concat (map (\<lambda>x. map (\<lambda>y. (x, y)) [0..<5]) [0..<5])"

definition column :: "int list \<Rightarrow> nat \<Rightarrow> int" where
  "column state x = state ! x XOR state ! (x + 5) XOR state ! (x + 10) XOR state ! (x + 15) XOR state ! (x + 20)"

text \<open>The columns are read before the loop that writes the lanes.\<close>

definition theta :: "int list \<Rightarrow> int list" where
  "theta state =
     (let columns = map (column state) [0..<5];
          delta = (\<lambda>x. columns ! ((x + 4) mod 5) XOR rotate_left (columns ! ((x + 1) mod 5)) 1)
      in fold (\<lambda>(x, y) st. st[x + 5 * y := st ! (x + 5 * y) XOR delta x]) lane_indices state)"

definition rho_pi :: "int list \<Rightarrow> int list" where
  "rho_pi state =
     fold (\<lambda>(x, y) rotated. rotated[y + 5 * ((2 * x + 3 * y) mod 5) :=
         rotate_left (state ! (x + 5 * y)) (ROTATION_OFFSETS ! x ! y)])
       lane_indices (replicate 25 0)"

definition chi :: "int list \<Rightarrow> int list \<Rightarrow> int list" where
  "chi rotated state =
     fold (\<lambda>(x, y) st. st[x + 5 * y := rotated ! (x + 5 * y) XOR
         (NOT (rotated ! ((x + 1) mod 5 + 5 * y)) AND rotated ! ((x + 2) mod 5 + 5 * y))])
       lane_indices state"

definition keccak_round :: "int list \<Rightarrow> int \<Rightarrow> int list" where
  "keccak_round state constant =
     (let st1 = theta state; st2 = chi (rho_pi st1) st1 in st2[0 := st2 ! 0 XOR constant])"

definition keccak_f1600 :: "int list \<Rightarrow> int list" where
  "keccak_f1600 state = foldl keccak_round state ROUND_CONSTANTS"

definition RATE :: nat where "RATE = 136"

text \<open>\<^verbatim>\<open>padded[-1] |= 0x80\<close> sets the top bit of the last byte.\<close>

definition keccak_pad :: "bytes \<Rightarrow> bytes" where
  "keccak_pad data =
     (let padded = data @ [1];
          padded = padded @ replicate ((RATE - length padded mod RATE) mod RATE) 0
      in butlast padded @ [last padded OR 128])"

definition absorb_block :: "int list \<Rightarrow> bytes \<Rightarrow> int list" where
  "absorb_block state block =
     keccak_f1600
       (fold (\<lambda>i st. st[i := st ! i XOR int (from_le (take 8 (drop (i * 8) block)))]) [0..<RATE div 8] state)"

fun chunks_of :: "nat \<Rightarrow> nat \<Rightarrow> 'a list \<Rightarrow> 'a list list" where
  "chunks_of 0 k xs = []"
| "chunks_of (Suc n) k xs = take k xs # chunks_of n k (drop k xs)"

text \<open>\<^verbatim>\<open>lane.to_bytes(8, "little")\<close>\<close>

fun to_le :: "nat \<Rightarrow> int \<Rightarrow> bytes" where
  "to_le 0 v = []"
| "to_le (Suc n) v = nat (v mod 256) # to_le n (v div 256)"

text \<open>One squeeze of 17 lanes gives more than the 32 bytes asked for, so the loop runs once.\<close>

definition squeeze_lanes :: "int list \<Rightarrow> bytes" where
  "squeeze_lanes state = concat (map (\<lambda>i. to_le 8 (state ! i)) [0..<RATE div 8])"

definition keccak_256 :: "bytes \<Rightarrow> bytes" where
  "keccak_256 data =
     (let padded = keccak_pad data
      in take 32 (squeeze_lanes (foldl absorb_block (replicate 25 0) (chunks_of (length padded div RATE) RATE padded))))"

text \<open>\<^verbatim>\<open>signature.encode("utf-8")\<close> for Latin-1 text.\<close>

definition utf8_bytes :: "string \<Rightarrow> bytes" where
  "utf8_bytes s = concat (map (\<lambda>c. if code_pt c < 128 then [code_pt c]
     else [192 + code_pt c div 64, 128 + code_pt c mod 64]) s)"

definition topic_for_event_signature :: "string \<Rightarrow> string" where
  "topic_for_event_signature signature = ''0x'' @ hex_of (keccak_256 (utf8_bytes signature))"

definition selector_for_signature :: "string \<Rightarrow> string" where
  "selector_for_signature signature = ''0x'' @ hex_of (take 4 (keccak_256 (utf8_bytes signature)))"

section \<open>Digests are bytes\<close>

lemma wf_utf8_bytes: "wf_bytes (utf8_bytes s)"
proof (induction s)
  case (Cons c s)
  have "code_pt c < 256" by (simp add: code_pt_def)
  then have "code_pt c div 64 < 4" by (simp add: less_mult_imp_div_less)
  moreover have "code_pt c mod 64 < 128" by (rule less_trans [of _ 64]) simp_all
  ultimately show ?case using Cons by (simp add: utf8_bytes_def wf_bytes_def)
qed (simp add: utf8_bytes_def wf_bytes_def)

lemma wf_to_le: "wf_bytes (to_le n v)"
  by (induction n arbitrary: v) (auto simp: wf_bytes_def)

lemma wf_keccak_256: "wf_bytes (keccak_256 data)"
  using wf_to_le unfolding keccak_256_def squeeze_lanes_def Let_def wf_bytes_def
  by (fastforce dest: in_set_takeD)

lemma lower_topic: "lower (topic_for_event_signature s) = topic_for_event_signature s"
  unfolding topic_for_event_signature_def by (rule lower_0x_hex_of [OF wf_keccak_256])

end
