(* ===== verification/Keccak_Spec.thy ===== *)
theory Keccak_Spec
  imports Keccak
begin

unbundle bit_operations_syntax

text \<open>
  A reference for the Keccak-256 of \<^verbatim>\<open>src/white_radar/abi.py\<close>: the permutation of FIPS 202 on
  64-bit machine words, each step a function from lane positions to lanes, its rotation offsets
  and round constants computed as the standard defines them, and the sponge over bit strings. The
  code works on bytes and unbounded integers, masks some of them, updates lists in place and reads
  its constants from tables; the lemmas show that it computes the reference, so every lane stays
  below \<open>2 ^ 64\<close>.
\<close>

section \<open>The constants of the standard\<close>

text \<open>The walk \<open>(x, y) \<mapsto> (y, 2 x + 3 y)\<close> from \<open>(1, 0)\<close>; its \<open>t\<close>-th lane is rotated by
  \<open>(t + 1) (t + 2) / 2\<close>.\<close>

fun lane_walk :: "nat \<Rightarrow> nat \<Rightarrow> nat \<Rightarrow> nat \<Rightarrow> ((nat \<times> nat) \<times> nat) list" where
  "lane_walk 0 t x y = []"
| "lane_walk (Suc n) t x y =
     ((x, y), (t + 1) * (t + 2) div 2 mod 64) # lane_walk n (Suc t) y ((2 * x + 3 * y) mod 5)"

definition rho_offset :: "nat \<Rightarrow> nat \<Rightarrow> nat" where
  "rho_offset x y = (case map_of (lane_walk 24 0 1 0) (x, y) of None \<Rightarrow> 0 | Some k \<Rightarrow> k)"

text \<open>The linear feedback register gives one bit per step; a round constant places seven of them at
  the positions \<open>2 ^ j - 1\<close>.\<close>

definition lfsr_step :: "int \<Rightarrow> int" where
  "lfsr_step r = (if 2 * r < 256 then 2 * r else (2 * r) XOR 0x171)"

fun lfsr_bits :: "nat \<Rightarrow> int \<Rightarrow> bool list" where
  "lfsr_bits 0 r = []"
| "lfsr_bits (Suc n) r = odd r # lfsr_bits n (lfsr_step r)"

definition constant_of_bits :: "bool list \<Rightarrow> int" where
  "constant_of_bits bs = sum_list (map2 (\<lambda>b j. if b then 2 ^ (2 ^ j - 1) else 0) bs [0..<7])"

fun constants_of_bits :: "nat \<Rightarrow> bool list \<Rightarrow> int list" where
  "constants_of_bits 0 bs = []"
| "constants_of_bits (Suc n) bs = constant_of_bits (take 7 bs) # constants_of_bits n (drop 7 bs)"

definition round_constants :: "int list" where
  "round_constants = constants_of_bits 24 (lfsr_bits 168 1)"

lemma rotation_offsets_spec: "x < 5 \<Longrightarrow> y < 5 \<Longrightarrow> ROTATION_OFFSETS ! x ! y = rho_offset x y"
proof -
  have "\<forall>x \<in> set [0..<5]. \<forall>y \<in> set [0..<5]. ROTATION_OFFSETS ! x ! y = rho_offset x y" by code_simp
  then show "x < 5 \<Longrightarrow> y < 5 \<Longrightarrow> ROTATION_OFFSETS ! x ! y = rho_offset x y" by simp
qed

lemma round_constants_spec: "ROUND_CONSTANTS = round_constants"
  by code_simp

section \<open>The permutation on machine words\<close>

text \<open>Lane \<open>(x, y)\<close> of a state is its element \<open>x + 5 * y\<close>.\<close>

type_synonym lanes = "64 word list"

definition lane :: "lanes \<Rightarrow> nat \<Rightarrow> nat \<Rightarrow> 64 word" where
  "lane a x y = a ! (x + 5 * y)"

definition of_lanes :: "(nat \<Rightarrow> nat \<Rightarrow> 64 word) \<Rightarrow> lanes" where
  "of_lanes f = map (\<lambda>i. f (i mod 5) (i div 5)) [0..<25]"

definition parity :: "lanes \<Rightarrow> nat \<Rightarrow> 64 word" where
  "parity a x = lane a x 0 XOR lane a x 1 XOR lane a x 2 XOR lane a x 3 XOR lane a x 4"

definition spec_theta :: "lanes \<Rightarrow> lanes" where
  "spec_theta a = of_lanes (\<lambda>x y. lane a x y XOR (parity a ((x + 4) mod 5) XOR word_rotl 1 (parity a ((x + 1) mod 5))))"

text \<open>\<open>rho\<close> rotates a lane in place, \<open>pi\<close> moves lane \<open>(x, y)\<close> to \<open>(y, 2 x + 3 y)\<close>.\<close>

definition spec_rho :: "lanes \<Rightarrow> lanes" where
  "spec_rho a = of_lanes (\<lambda>x y. word_rotl (rho_offset x y) (lane a x y))"

definition spec_pi :: "lanes \<Rightarrow> lanes" where
  "spec_pi a = of_lanes (\<lambda>x y. lane a ((x + 3 * y) mod 5) x)"

definition spec_chi :: "lanes \<Rightarrow> lanes" where
  "spec_chi a = of_lanes (\<lambda>x y. lane a x y XOR (NOT (lane a ((x + 1) mod 5) y) AND lane a ((x + 2) mod 5) y))"

definition spec_iota :: "int \<Rightarrow> lanes \<Rightarrow> lanes" where
  "spec_iota c a = of_lanes (\<lambda>x y. if x = 0 \<and> y = 0 then lane a 0 0 XOR word_of_int c else lane a x y)"

definition spec_round :: "lanes \<Rightarrow> int \<Rightarrow> lanes" where
  "spec_round a c = spec_iota c (spec_chi (spec_pi (spec_rho (spec_theta a))))"

definition spec_permutation :: "lanes \<Rightarrow> lanes" where
  "spec_permutation a = foldl spec_round a round_constants"

section \<open>The integers of the code are the words\<close>

lemma length_of_lanes [simp]: "length (of_lanes f) = 25"
  by (simp add: of_lanes_def)

lemma lane_of_lanes: "x < 5 \<Longrightarrow> y < 5 \<Longrightarrow> lane (of_lanes f) x y = f x y"
  by (simp add: lane_def of_lanes_def)

lemma mask_64: "MASK_64 = mask 64"
  by (simp add: MASK_64_def mask_eq_exp_minus_1)

lemma rotate_left_word:
  assumes "k < 64"
  shows "rotate_left (uint (w :: 64 word)) k = uint (word_rotl k w)"
proof (rule bit_eqI)
  fix n
  have idx: "n < 64 \<Longrightarrow> (n + 64 - k) mod 64 = (if k \<le> n then n - k else 64 + n - k)"
    using assms by (auto simp: mod_if)
  have high: "k \<le> n \<Longrightarrow> \<not> bit w (64 + n - k)" using bit_imp_le_length [of w "64 + n - k"] by auto
  show "bit (rotate_left (uint w) k) n \<longleftrightarrow> bit (uint (word_rotl k w)) n"
    using assms
    by (auto simp: rotate_left_def mask_64 bit_simps bit_word_rotl_iff bit_uint_iff idx high split: if_splits)
qed

text \<open>A loop that updates each position once, each from its old value, gives every position its
  new value.\<close>

lemma fold_update_other:
  "i \<notin> g ` set ks \<Longrightarrow> fold (\<lambda>k st. st[g k := h k (st ! g k)]) ks st ! i = st ! i"
  by (induction ks arbitrary: st) auto

lemma fold_update_nth:
  assumes "distinct (map g ks)" "k \<in> set ks" "\<forall>k \<in> set ks. g k < length st"
  shows "fold (\<lambda>k st. st[g k := h k (st ! g k)]) ks st ! g k = h k (st ! g k)"
  using assms
proof (induction ks arbitrary: st)
  case (Cons j ks)
  show ?case
  proof (cases "k = j")
    case True
    with Cons.prems show ?thesis by (simp add: fold_update_other)
  next
    case False
    with Cons.prems have "k \<in> set ks" by simp
    moreover from this Cons.prems(1) have "g k \<noteq> g j" by (metis distinct.simps(2) image_eqI list.set_map list.simps(9))
    ultimately have "k \<in> set ks" "g k \<noteq> g j" .
    with Cons show ?thesis by simp
  qed
qed simp

lemma lane_indices_eq: "lane_indices = [(x, y). x \<leftarrow> [0, 1, 2, 3, 4], y \<leftarrow> [0, 1, 2, 3, 4]]"
  by code_simp

lemma lane_index_member: "x < 5 \<Longrightarrow> y < 5 \<Longrightarrow> (x, y) \<in> set lane_indices"
  by (simp add: lane_indices_def) (use atLeastLessThan_iff in blast)

lemma lane_index_bounds: "(x, y) \<in> set lane_indices \<Longrightarrow> x < 5 \<and> y < 5"
  by (auto simp: lane_indices_def)

lemma lane_index_distinct: "distinct (map (\<lambda>(x, y). x + 5 * y) lane_indices)"
  by code_simp

lemma lane_loop:
  assumes "distinct (map (\<lambda>(x, y). g x y) lane_indices)" and "x < 5" "y < 5"
    and "\<And>x y. x < 5 \<Longrightarrow> y < 5 \<Longrightarrow> g x y < length st"
  shows "fold (\<lambda>(x, y) st. st[g x y := h x y (st ! g x y)]) lane_indices st ! g x y = h x y (st ! g x y)"
proof -
  have bounds: "\<forall>p \<in> set lane_indices. (\<lambda>(x, y). g x y) p < length st"
    using lane_index_bounds assms(4) by auto
  have "fold (\<lambda>p st. st[(\<lambda>(x, y). g x y) p := (\<lambda>p v. h (fst p) (snd p) v) p (st ! (\<lambda>(x, y). g x y) p)]) lane_indices st
      ! (\<lambda>(x, y). g x y) (x, y) = h x y (st ! (\<lambda>(x, y). g x y) (x, y))"
    using fold_update_nth [OF assms(1) lane_index_member [OF assms(2,3)] bounds, of "\<lambda>p v. h (fst p) (snd p) v"] by simp
  moreover have "(\<lambda>(x, y) st. st[g x y := h x y (st ! g x y)])
      = (\<lambda>p st. st[(\<lambda>(x, y). g x y) p := (\<lambda>p v. h (fst p) (snd p) v) p (st ! (\<lambda>(x, y). g x y) p)])"
    by (auto simp: fun_eq_iff)
  ultimately show ?thesis by simp
qed

lemma lane_loop_length: "length (fold (\<lambda>(x, y) st. st[g x y := h x y st]) lane_indices st) = length st"
proof -
  have "length (fold (\<lambda>(x, y) st. st[g x y := h x y st]) ps st) = length st" for ps
    by (induction ps arbitrary: st) auto
  then show ?thesis .
qed

text \<open>The state of the code that stands for a list of words, and its lanes.\<close>

definition represents :: "int list \<Rightarrow> lanes \<Rightarrow> bool" where
  "represents s a \<longleftrightarrow> s = map uint a \<and> length a = 25"

lemma representsI:
  assumes "length s = 25" "length a = 25" "\<And>x y. x < 5 \<Longrightarrow> y < 5 \<Longrightarrow> s ! (x + 5 * y) = uint (lane a x y)"
  shows "represents s a"
proof -
  have "s ! i = uint (a ! i)" if "i < 25" for i
    using assms(3) [of "i mod 5" "i div 5"] that by (simp add: lane_def mult.commute)
  then have "s = map uint a" using assms(1,2) by (intro nth_equalityI) simp_all
  with assms(2) show ?thesis by (simp add: represents_def)
qed

lemma represents_lane: "represents s a \<Longrightarrow> x < 5 \<Longrightarrow> y < 5 \<Longrightarrow> s ! (x + 5 * y) = uint (lane a x y)"
  by (auto simp: represents_def lane_def)

lemma represents_length: "represents s a \<Longrightarrow> length s = 25"
  by (auto simp: represents_def)

section \<open>Each step of the code is the step of the standard\<close>

lemma column_word: "represents s a \<Longrightarrow> x < 5 \<Longrightarrow> column s x = uint (parity a x)"
  using represents_lane [of s a x 0] represents_lane [of s a x 1] represents_lane [of s a x 2]
    represents_lane [of s a x 3] represents_lane [of s a x 4]
  by (simp add: column_def parity_def uint_xor)

lemma theta_step: "represents s a \<Longrightarrow> represents (theta s) (spec_theta a)"
proof (rule representsI)
  assume r: "represents s a"
  show "length (theta s) = 25" by (simp add: theta_def Let_def lane_loop_length represents_length [OF r])
  show "length (spec_theta a) = 25" by (simp add: spec_theta_def)
  fix x y :: nat assume xy: "x < 5" "y < 5"
  have "theta s ! (x + 5 * y) = s ! (x + 5 * y) XOR (column s ((x + 4) mod 5) XOR rotate_left (column s ((x + 1) mod 5)) 1)"
    unfolding theta_def Let_def
    by (subst lane_loop [OF lane_index_distinct xy]) (use xy in \<open>simp_all add: represents_length [OF r]\<close>)
  then show "theta s ! (x + 5 * y) = uint (lane (spec_theta a) x y)"
    using xy by (simp add: spec_theta_def lane_of_lanes represents_lane [OF r] column_word [OF r]
        rotate_left_word uint_xor)
qed

lemma moved_distinct: "distinct (map (\<lambda>(x, y). y + 5 * ((2 * x + 3 * y) mod 5)) lane_indices)"
  by code_simp

lemma rho_offset_bound: "x < 5 \<Longrightarrow> y < 5 \<Longrightarrow> rho_offset x y < 64"
proof -
  have "\<forall>x \<in> set [0..<5]. \<forall>y \<in> set [0..<5]. rho_offset x y < 64" by code_simp
  then show "x < 5 \<Longrightarrow> y < 5 \<Longrightarrow> rho_offset x y < 64" by simp
qed

lemma moved_back: "x < 5 \<Longrightarrow> y < 5 \<Longrightarrow> (2 * ((x + 3 * y) mod 5) + 3 * x) mod 5 = (y :: nat)"
proof -
  have "\<forall>x \<in> set [0..<5]. \<forall>y \<in> set [0..<5]. (2 * ((x + 3 * y) mod 5) + 3 * x) mod 5 = (y :: nat)" by code_simp
  then show "x < 5 \<Longrightarrow> y < 5 \<Longrightarrow> (2 * ((x + 3 * y) mod 5) + 3 * x) mod 5 = y" by simp
qed

lemma rho_pi_step: "represents s a \<Longrightarrow> represents (rho_pi s) (spec_pi (spec_rho a))"
proof (rule representsI)
  assume r: "represents s a"
  show "length (rho_pi s) = 25" by (simp add: rho_pi_def lane_loop_length)
  show "length (spec_pi (spec_rho a)) = 25" by (simp add: spec_pi_def)
  fix x y :: nat assume xy: "x < 5" "y < 5"
  let ?x = "(x + 3 * y) mod 5"
  have x: "?x < 5" by simp
  have "rho_pi s ! (x + 5 * ((2 * ?x + 3 * x) mod 5)) = rotate_left (s ! (?x + 5 * x)) (ROTATION_OFFSETS ! ?x ! x)"
    unfolding rho_pi_def by (rule lane_loop [OF moved_distinct x xy(1)]) simp
  then show "rho_pi s ! (x + 5 * y) = uint (lane (spec_pi (spec_rho a)) x y)"
    using xy x by (simp add: moved_back rotation_offsets_spec represents_lane [OF r] rotate_left_word
        rho_offset_bound spec_pi_def spec_rho_def lane_of_lanes)
qed

lemma uint_not_and: "NOT (uint v) AND uint w = uint (NOT v AND (w :: 64 word))"
  by (rule bit_eqI) (auto simp: bit_simps bit_uint_iff dest: bit_imp_le_length)

lemma chi_step:
  assumes r: "represents s a" and len: "length t = 25"
  shows "represents (chi s t) (spec_chi a)"
proof (rule representsI)
  show "length (chi s t) = 25" by (simp add: chi_def lane_loop_length len)
  show "length (spec_chi a) = 25" by (simp add: spec_chi_def)
  fix x y :: nat assume xy: "x < 5" "y < 5"
  have "chi s t ! (x + 5 * y) = s ! (x + 5 * y) XOR
      (NOT (s ! ((x + 1) mod 5 + 5 * y)) AND s ! ((x + 2) mod 5 + 5 * y))"
    unfolding chi_def by (subst lane_loop [OF lane_index_distinct xy]) (use xy in \<open>simp_all add: len\<close>)
  then show "chi s t ! (x + 5 * y) = uint (lane (spec_chi a) x y)"
    using xy by (simp add: spec_chi_def lane_of_lanes represents_lane [OF r] uint_not_and uint_xor)
qed

lemma iota_step:
  assumes r: "represents s a" and c: "0 \<le> c" "c < 2 ^ 64"
  shows "represents (s[0 := s ! 0 XOR c]) (spec_iota c a)"
proof (rule representsI)
  show "length (s[0 := s ! 0 XOR c]) = 25" by (simp add: represents_length [OF r])
  show "length (spec_iota c a) = 25" by (simp add: spec_iota_def)
  fix x y :: nat assume xy: "x < 5" "y < 5"
  have "uint (word_of_int c :: 64 word) = c" using c by (simp add: uint_word_of_int)
  then show "s[0 := s ! 0 XOR c] ! (x + 5 * y) = uint (lane (spec_iota c a) x y)"
    using xy represents_lane [OF r xy] represents_lane [OF r, of 0 0] represents_length [OF r]
    by (auto simp: spec_iota_def lane_of_lanes uint_xor nth_list_update)
qed

lemma round_step:
  assumes "represents s a" "0 \<le> c" "c < 2 ^ 64"
  shows "represents (keccak_round s c) (spec_round a c)"
proof -
  have "represents (chi (rho_pi (theta s)) (theta s)) (spec_chi (spec_pi (spec_rho (spec_theta a))))"
    by (intro chi_step rho_pi_step theta_step assms(1)) (rule represents_length [OF theta_step [OF assms(1)]])
  from iota_step [OF this assms(2,3)] show ?thesis by (simp add: keccak_round_def spec_round_def Let_def)
qed

lemma rounds_step:
  "list_all (\<lambda>c. 0 \<le> c \<and> c < 2 ^ 64) cs \<Longrightarrow> represents s a
     \<Longrightarrow> represents (foldl keccak_round s cs) (foldl spec_round a cs)"
  by (induction cs arbitrary: s a) (simp_all add: round_step [simplified])

lemma permutation_step: "represents s a \<Longrightarrow> represents (keccak_f1600 s) (spec_permutation a)"
proof -
  have "list_all (\<lambda>c. 0 \<le> c \<and> c < 2 ^ 64) ROUND_CONSTANTS" by (simp add: ROUND_CONSTANTS_def)
  then show "represents s a \<Longrightarrow> represents (keccak_f1600 s) (spec_permutation a)"
    unfolding keccak_f1600_def spec_permutation_def round_constants_spec [symmetric] by (rule rounds_step)
qed

section \<open>The sponge of the standard, on bits\<close>

text \<open>The reference speaks of bit strings and shares nothing with the code. A byte string stands for
  its bits, the lowest bit of a byte first. The padding is that of \<open>KECCAK[512]\<close> with no domain
  suffix, \<open>pad10*1\<close> to a multiple of 1088 bits; the state is a string of 1600 bits with lane
  \<open>i\<close> at the bits from \<open>64 * i\<close>; a block of 1088 bits is followed by 512 zero bits; the digest
  is the first 256 bits of the final state.\<close>

definition bits_of_bytes :: "bytes \<Rightarrow> bool list" where
  "bits_of_bytes bs = concat (map (\<lambda>b. map (bit b) [0..<8]) bs)"

definition spec_pad :: "bool list \<Rightarrow> bool list" where
  "spec_pad m = m @ [True] @ replicate (nat ((- int (length m) - 2) mod 1088)) False @ [True]"

definition spec_lane :: "bool list \<Rightarrow> nat \<Rightarrow> 64 word" where
  "spec_lane s i = horner_sum of_bool 2 (take 64 (drop (64 * i) s))"

definition spec_absorb :: "lanes \<Rightarrow> bool list \<Rightarrow> lanes" where
  "spec_absorb a block = spec_permutation (of_lanes (\<lambda>x y.
     lane a x y XOR spec_lane (block @ replicate 512 False) (x + 5 * y)))"

definition spec_blocks :: "bool list \<Rightarrow> bool list list" where
  "spec_blocks p = map (\<lambda>i. take 1088 (drop (1088 * i) p)) [0..<length p div 1088]"

definition spec_keccak_256 :: "bool list \<Rightarrow> bool list" where
  "spec_keccak_256 m = take 256 (concat (map (\<lambda>w. map (bit w) [0..<64])
     (foldl spec_absorb (replicate 25 0) (spec_blocks (spec_pad m)))))"

section \<open>Bytes and their bits\<close>

lemma bits_of_bytes_simps [simp]:
  "bits_of_bytes [] = []" "bits_of_bytes (b # bs) = map (bit b) [0..<8] @ bits_of_bytes bs"
  "bits_of_bytes (xs @ ys) = bits_of_bytes xs @ bits_of_bytes ys"
  by (simp_all add: bits_of_bytes_def)

lemma length_bits_of_bytes [simp]: "length (bits_of_bytes bs) = 8 * length bs"
  by (induction bs) simp_all

lemma take_bits_of_bytes: "take (8 * n) (bits_of_bytes bs) = bits_of_bytes (take n bs)"
proof (induction n arbitrary: bs)
  case (Suc n)
  then show ?case by (cases bs) simp_all
qed simp

lemma drop_bits_of_bytes: "drop (8 * n) (bits_of_bytes bs) = bits_of_bytes (drop n bs)"
proof (induction n arbitrary: bs)
  case (Suc n)
  then show ?case by (cases bs) simp_all
qed simp

lemma bits_of_zeros: "bits_of_bytes (replicate n 0) = replicate (8 * n) False"
proof (induction n)
  case (Suc n)
  have "map (bit (0 :: nat)) [0..<8] = replicate 8 False" by code_simp
  with Suc show ?case by (simp flip: replicate_add)
qed simp

lemma from_le_bound: "wf_bytes bs \<Longrightarrow> from_le bs < 256 ^ length bs"
  using from_be_bound [of "rev bs"] by (simp add: from_le_def wf_bytes_def)

lemma from_le_Cons: "from_le (b # bs) = b + 256 * from_le bs"
  by (simp add: from_le_def from_be_def)

lemma word_of_horner: "(of_nat (horner_sum of_bool 2 bs) :: 64 word) = horner_sum of_bool 2 bs"
  by (induction bs) simp_all

lemma horner_of_bytes: "wf_bytes bs \<Longrightarrow> horner_sum of_bool (2 :: nat) (bits_of_bytes bs) = from_le bs"
proof (induction bs)
  case Nil
  show ?case by (simp add: from_le_def from_be_def)
next
  case (Cons b bs)
  from Cons.prems have b: "take_bit 8 b = b" by (simp add: wf_bytes_def take_bit_nat_eq_self_iff)
  from Cons have "horner_sum of_bool (2 :: nat) (bits_of_bytes bs) = from_le bs" by (simp add: wf_bytes_def)
  then show ?case
    by (simp add: horner_sum_append horner_sum_bit_eq_take_bit b from_le_Cons del: upt_rec_numeral upt_conv_Cons)
qed

lemma bits_of_to_le: "bits_of_bytes (to_le n v) = map (bit v) [0..<8 * n]"
proof (induction n arbitrary: v)
  case (Suc n)
  have low: "map (bit (nat (v mod 256))) [0..<8] = map (bit v) [0..<8]"
  proof (rule map_cong [OF refl])
    fix i :: nat
    assume "i \<in> set [0..<8]"
    then have i: "i < 8" by simp
    have "nat (v mod 256) = nat (take_bit 8 v)" by (simp add: take_bit_eq_mod)
    also have "bit \<dots> i = bit (take_bit 8 v) i" by (simp add: bit_nat_iff)
    finally show "bit (nat (v mod 256)) i = bit v i" using i by (simp add: bit_take_bit_iff)
  qed
  have "v div 256 = drop_bit 8 v" by (simp add: drop_bit_eq_div)
  then have high: "map (bit (v div 256)) [0..<8 * n] = map (bit v) [8..<8 + 8 * n]"
    by (simp add: bit_drop_bit_eq list_eq_iff_nth_eq)
  have "[0..<8 + 8 * n] = [0..<8] @ [8..<8 + 8 * n]" by (rule upt_add_eq_append) simp
  then show ?case by (simp only: to_le.simps bits_of_bytes_simps low Suc high mult_Suc_right map_append)
qed simp

section \<open>The padding\<close>

lemma padding_fills: "(n + (RATE - n mod RATE) mod RATE) mod RATE = 0"
proof -
  have "n mod RATE \<le> RATE" by (simp add: RATE_def less_imp_le)
  then have "n + (RATE - n mod RATE) = n div RATE * RATE + RATE"
    using div_mult_mod_eq [of n RATE] by linarith
  then have "RATE dvd n + (RATE - n mod RATE)" by simp
  then show ?thesis by (simp add: mod_add_right_eq dvd_eq_mod_eq_0)
qed

lemma length_keccak_pad: "RATE dvd length (keccak_pad data)" "length data < length (keccak_pad data)"
proof -
  have len: "length (keccak_pad data) = Suc (length data) + (RATE - Suc (length data) mod RATE) mod RATE"
    by (simp add: keccak_pad_def Let_def)
  then show "length data < length (keccak_pad data)" by simp
  show "RATE dvd length (keccak_pad data)" unfolding len by (simp only: dvd_eq_mod_eq_0 padding_fills)
qed

lemma padding_zeros:
  assumes "k = (RATE - Suc n mod RATE) mod RATE"
  shows "nat ((- int (8 * n) - 2) mod 1088) = 8 * k + 6"
proof -
  have "(Suc n + k) mod 136 = 0" using padding_fills [of "Suc n"] assms by (simp add: RATE_def)
  then obtain q where q: "Suc n + k = 136 * q" by (metis mod_0_imp_dvd dvdE)
  have k: "k < 136" unfolding assms RATE_def by (rule mod_less_divisor) simp
  from q have "int n + 1 + int k = 136 * int q" by linarith
  then have "- int (8 * n) - 2 = int (8 * k + 6) + (- int q) * 1088" by simp
  then have "(- int (8 * n) - 2) mod 1088 = int (8 * k + 6) mod 1088" by (metis mod_mult_self1)
  also have "\<dots> = int (8 * k + 6)" using k by (intro mod_pos_pos_trivial) simp_all
  finally show ?thesis by simp
qed

lemma pad_bits: "bits_of_bytes (keccak_pad data) = spec_pad (bits_of_bytes data)"
proof -
  define k where "k = (RATE - Suc (length data) mod RATE) mod RATE"
  have j: "nat ((- int (length (bits_of_bytes data)) - 2) mod 1088) = 8 * k + 6"
    using padding_zeros [OF k_def] by simp
  have pad: "keccak_pad data = (if k = 0 then data @ [129] else data @ [1] @ replicate (k - 1) 0 @ [128])"
  proof (cases k)
    case 0
    have "(1 :: nat) OR 128 = 129" by code_simp
    with 0 show ?thesis by (simp add: keccak_pad_def Let_def flip: k_def)
  next
    case (Suc m)
    have "replicate (Suc m) (0 :: nat) = replicate m 0 @ [0]" by (simp add: replicate_append_same)
    with Suc show ?thesis by (simp add: keccak_pad_def Let_def butlast_append flip: k_def)
  qed
  have byte: "map (bit (1 :: nat)) [0..<8] = True # replicate 7 False"
    "map (bit (128 :: nat)) [0..<8] = replicate 7 False @ [True]"
    "map (bit (129 :: nat)) [0..<8] = True # replicate 6 False @ [True]" by code_simp+
  show ?thesis
  proof (cases k)
    case 0
    with j pad show ?thesis by (simp only: spec_pad_def) (simp add: byte del: upt_rec_numeral)
  next
    case (Suc m)
    have "replicate (8 * k + 6) False = replicate 7 False @ replicate (8 * m) False @ replicate 7 False"
      by (simp add: Suc flip: replicate_add)
    with j pad Suc show ?thesis
      by (simp only: spec_pad_def) (simp add: byte [unfolded One_nat_def] bits_of_zeros del: upt_rec_numeral replicate.simps)
  qed
qed

section \<open>The blocks\<close>

lemma chunks_of_blocks:
  "map bits_of_bytes (chunks_of n k p) = map (\<lambda>i. take (8 * k) (drop (8 * k * i) (bits_of_bytes p))) [0..<n]"
proof (induction n arbitrary: p)
  case (Suc n)
  have "[0..<Suc n] = 0 # map Suc [0..<n]" by (simp only: upt_conv_Cons zero_less_Suc map_Suc_upt)
  moreover have "take (8 * k) (drop (8 * k * i) (bits_of_bytes (drop k p)))
      = take (8 * k) (drop (8 * k * Suc i) (bits_of_bytes p))" for i
    by (simp add: add.commute flip: drop_bits_of_bytes)
  ultimately show ?case by (simp only: chunks_of.simps list.map Suc list.map_comp comp_def)
      (simp add: take_bits_of_bytes)
qed simp

lemma spec_blocks_pad:
  "spec_blocks (spec_pad (bits_of_bytes data)) = map bits_of_bytes (chunks_of (length (keccak_pad data) div RATE) RATE (keccak_pad data))"
proof -
  have "length (spec_pad (bits_of_bytes data)) div 1088 = length (keccak_pad data) div RATE"
    using div_mult_mult1 [of 8 "length (keccak_pad data)" 136]
    by (simp add: RATE_def flip: pad_bits)
  then show ?thesis unfolding chunks_of_blocks spec_blocks_def pad_bits by (simp add: RATE_def)
qed

lemma chunks_length: "length xs = n * k \<Longrightarrow> list_all (\<lambda>b. length b = k) (chunks_of n k xs)"
  by (induction n arbitrary: xs) simp_all

lemma xor_lanes_nth:
  "i < length st \<Longrightarrow> fold (\<lambda>i st. st[i := st ! i XOR f i]) [0..<n] st ! i
     = (if i < n then st ! i XOR f i else (st ! i :: int))"
proof (induction n)
  case (Suc n)
  have "length (fold (\<lambda>i st. st[i := st ! i XOR f i]) ks st) = length st" for ks and st :: "int list"
    by (induction ks arbitrary: st) simp_all
  with Suc show ?case by (auto simp: nth_list_update less_Suc_eq)
qed simp

lemma xor_lanes_length: "length (fold (\<lambda>i st. st[i := st ! i XOR f i]) ks (st :: int list)) = length st"
  by (induction ks arbitrary: st) simp_all

lemma lane_of_block:
  assumes "wf_bytes block" "length block = RATE"
  shows "spec_lane (bits_of_bytes block @ replicate 512 False) i
    = (if i < 17 then word_of_nat (from_le (take 8 (drop (i * 8) block))) else 0)"
proof (cases "i < 17")
  case True
  have wf: "wf_bytes (take 8 (drop (i * 8) block))"
    using assms(1) by (auto simp: wf_bytes_def dest: in_set_takeD in_set_dropD)
  have "take 64 (drop (64 * i) (bits_of_bytes block @ replicate 512 False)) = take (8 * 8) (drop (8 * (i * 8)) (bits_of_bytes block))"
    using True assms(2) by (simp add: RATE_def)
  also have "\<dots> = bits_of_bytes (take 8 (drop (i * 8) block))" by (simp only: take_bits_of_bytes drop_bits_of_bytes)
  finally show ?thesis using True by (simp add: spec_lane_def horner_of_bytes [OF wf] flip: word_of_horner)
next
  case False
  have "horner_sum of_bool 2 (replicate n False) = (0 :: 64 word)" for n by (induction n) simp_all
  with False assms(2) show ?thesis by (simp add: spec_lane_def RATE_def min_def)
qed

lemma absorb_step:
  assumes r: "represents s a" and wf: "wf_bytes block" and len: "length block = RATE"
  shows "represents (absorb_block s block) (spec_absorb a (bits_of_bytes block))"
proof -
  let ?v = "\<lambda>i. int (from_le (take 8 (drop (i * 8) block)))"
  have small: "uint (word_of_nat (from_le (take 8 (drop (i * 8) block))) :: 64 word) = ?v i" for i
  proof -
    have "wf_bytes (take 8 (drop (i * 8) block))"
      using wf by (auto simp: wf_bytes_def dest: in_set_takeD in_set_dropD)
    then have "from_le (take 8 (drop (i * 8) block)) < 256 ^ length (take 8 (drop (i * 8) block))"
      by (rule from_le_bound)
    also have "\<dots> \<le> 256 ^ 8" by (rule power_increasing) simp_all
    finally have "from_le (take 8 (drop (i * 8) block)) < 2 ^ 64" by simp
    then show ?thesis by (simp add: uint_nat unat_of_nat)
  qed
  have "represents (fold (\<lambda>i st. st[i := st ! i XOR ?v i]) [0..<RATE div 8] s)
      (of_lanes (\<lambda>x y. lane a x y XOR spec_lane (bits_of_bytes block @ replicate 512 False) (x + 5 * y)))"
  proof (rule representsI)
    fix x y :: nat assume xy: "x < 5" "y < 5"
    then show "fold (\<lambda>i st. st[i := st ! i XOR ?v i]) [0..<RATE div 8] s ! (x + 5 * y)
        = uint (lane (of_lanes (\<lambda>x y. lane a x y XOR spec_lane (bits_of_bytes block @ replicate 512 False) (x + 5 * y))) x y)"
      using represents_lane [OF r xy] represents_length [OF r] small [of "x + 5 * y"]
      by (simp add: xor_lanes_nth RATE_def lane_of_lanes uint_xor lane_of_block [OF wf len])
  qed (simp_all add: xor_lanes_length represents_length [OF r])
  from permutation_step [OF this] show ?thesis by (simp add: absorb_block_def spec_absorb_def)
qed

lemma absorb_all:
  "list_all wf_bytes bs \<Longrightarrow> list_all (\<lambda>b. length b = RATE) bs \<Longrightarrow> represents s a \<Longrightarrow>
     represents (foldl absorb_block s bs) (foldl spec_absorb a (map bits_of_bytes bs))"
  by (induction bs arbitrary: s a) (simp_all add: absorb_step)

lemma or_128_bound: "b < 256 \<Longrightarrow> (b :: nat) OR 128 < 256"
proof -
  assume "b < 256"
  then have "take_bit 8 b = b" by (simp add: take_bit_nat_eq_self_iff)
  moreover have "take_bit 8 (128 :: nat) = 128" by (simp add: take_bit_nat_eq_self_iff)
  ultimately have "take_bit 8 (b OR 128) = b OR 128" by (simp only: take_bit_or)
  then show ?thesis using take_bit_nat_less_exp [of 8 "b OR 128"] by simp
qed

lemma wf_keccak_pad: "wf_bytes data \<Longrightarrow> wf_bytes (keccak_pad data)"
proof -
  assume wf: "wf_bytes data"
  let ?p = "data @ [1] @ replicate ((RATE - length (data @ [1]) mod RATE) mod RATE) 0"
  have p: "wf_bytes ?p" using wf by (auto simp: wf_bytes_def)
  have "last ?p \<in> set ?p" by (rule last_in_set) simp
  with p have "last ?p < 256" by (simp only: wf_bytes_def)
  then have "last ?p OR 128 < 256" by (rule or_128_bound)
  moreover have "wf_bytes (butlast ?p)" using p unfolding wf_bytes_def by (meson in_set_butlastD)
  ultimately show ?thesis by (simp add: keccak_pad_def Let_def wf_bytes_def del: butlast_append last_append)
qed

lemma wf_chunks: "wf_bytes xs \<Longrightarrow> list_all wf_bytes (chunks_of n k xs)"
  by (induction n arbitrary: xs) (auto simp: wf_bytes_def dest: in_set_takeD in_set_dropD)

text \<open>The lanes of the final state, byte by byte and bit by bit.\<close>

lemma squeeze_bits:
  assumes "represents s a"
  shows "bits_of_bytes (squeeze_lanes s) = concat (map (\<lambda>w. map (bit w) [0..<64]) (take 17 a))"
proof -
  have "map (\<lambda>i. to_le 8 (s ! i)) [0..<17] = map (\<lambda>w. to_le 8 (uint w)) (take 17 a)"
    using assms by (intro nth_equalityI) (auto simp: represents_def)
  then have "squeeze_lanes s = concat (map (\<lambda>w. to_le 8 (uint w)) (take 17 a))"
    by (simp add: squeeze_lanes_def RATE_def)
  moreover have "bits_of_bytes (concat (map (\<lambda>w. to_le 8 (uint w)) ws)) = concat (map (\<lambda>w. map (bit w) [0..<64]) ws)"
    for ws :: lanes
  proof (induction ws)
    case (Cons w ws)
    have "map (bit (uint w)) [0..<64] = map (bit w) [0..<64]" by (simp add: bit_uint_iff)
    with Cons show ?case by (simp add: bits_of_to_le del: to_le.simps upt_rec_numeral)
  qed simp
  ultimately show ?thesis by simp
qed

lemma keccak_256_bits:
  assumes "wf_bytes data"
  shows "bits_of_bytes (keccak_256 data) = spec_keccak_256 (bits_of_bytes data)"
proof -
  let ?p = "keccak_pad data"
  let ?blocks = "chunks_of (length ?p div RATE) RATE ?p"
  have "list_all (\<lambda>b. length b = RATE) ?blocks"
    by (rule chunks_length) (use length_keccak_pad(1) [of data] in simp)
  moreover have "represents (replicate 25 0) (replicate 25 0)" by (simp add: represents_def)
  ultimately have r: "represents (foldl absorb_block (replicate 25 0) ?blocks)
      (foldl spec_absorb (replicate 25 0) (map bits_of_bytes ?blocks))"
    by (rule absorb_all [OF wf_chunks [OF wf_keccak_pad [OF assms]]])
  define a where "a = foldl spec_absorb (replicate 25 0) (map bits_of_bytes ?blocks)"
  have len: "length a = 25" using r by (simp add: represents_def a_def)
  have "bits_of_bytes (keccak_256 data) = take (8 * 32) (concat (map (\<lambda>w. map (bit w) [0..<64]) (take 17 a)))"
    by (simp only: keccak_256_def Let_def squeeze_bits [OF r] flip: take_bits_of_bytes a_def)
  also have "\<dots> = take 256 (concat (map (\<lambda>w. map (bit w) [0..<64]) (take 17 a @ drop 17 a)))"
    using len by (simp add: length_concat comp_def sum_list_triv del: upt_rec_numeral append_take_drop_id)
  finally show ?thesis by (simp add: spec_keccak_256_def spec_blocks_pad a_def)
qed

lemma length_to_le [simp]: "length (to_le n v) = n"
  by (induction n arbitrary: v) simp_all

lemma length_squeeze: "length (squeeze_lanes s) = 136"
  by (simp add: squeeze_lanes_def RATE_def length_concat comp_def sum_list_triv)

section \<open>Properties\<close>

text \<open>C20. The Keccak-256 of the code is that of the standard: on every byte string, the bits of the
  digest are those of the sponge of FIPS 202 over bit strings, with capacity 512, the padding
  \<open>pad10*1\<close> and no domain suffix, over the permutation on 64-bit lanes whose offsets and round
  constants are derived as the standard derives them; none of the reference is taken from the
  code. The digest has 32 bytes, and the padded message is whole blocks that contain the message.\<close>

theorem keccak_matches_standard:
  assumes "wf_bytes data"
  shows "bits_of_bytes (keccak_256 data) = spec_keccak_256 (bits_of_bytes data)
     \<and> wf_bytes (keccak_256 data) \<and> length (keccak_256 data) = 32
     \<and> RATE dvd length (keccak_pad data) \<and> length data < length (keccak_pad data)"
proof -
  have "length (keccak_256 data) = 32" by (simp add: keccak_256_def Let_def length_squeeze)
  then show ?thesis using keccak_256_bits [OF assms] wf_keccak_256 length_keccak_pad by blast
qed

theorem keccak_matches_standard_witness:
  "bits_of_bytes (keccak_256 (utf8_bytes ''a()'')) = spec_keccak_256 (bits_of_bytes (utf8_bytes ''a()''))"
proof -
  from keccak_matches_standard [OF wf_utf8_bytes [of "''a()''"]] show ?thesis by blast
qed

end
