(* ===== verification/Evidence.thy ===== *)
theory Evidence
  imports "HOL-Library.Code_Target_Nat" Keccak Rpc_Client
begin

text \<open>
  The readers of chain evidence that \<^verbatim>\<open>src/white_radar/investigation.py\<close> and
  \<^verbatim>\<open>src/white_radar/history.py\<close> share: the event topics, the normal form of addresses, hashes,
  topics and quantities, and the words of event data. Each returns nothing where the Python
  function returns \<^verbatim>\<open>None\<close>.
\<close>

section \<open>Topics\<close>

definition TRANSFER_TOPIC :: string where
  "TRANSFER_TOPIC = topic_for_event_signature ''Transfer(address,address,uint256)''"

definition TRANSFER_SINGLE_TOPIC :: string where
  "TRANSFER_SINGLE_TOPIC = topic_for_event_signature ''TransferSingle(address,address,address,uint256,uint256)''"

definition TRANSFER_BATCH_TOPIC :: string where
  "TRANSFER_BATCH_TOPIC = topic_for_event_signature ''TransferBatch(address,address,address,uint256[],uint256[])''"

section \<open>Readers\<close>

definition validate_transaction_hash :: "string \<Rightarrow> string res" where
  "validate_transaction_hash v =
     (let normalized = lower v in if is_hex_string 64 normalized then Inr normalized else Inl ValueError)"

definition as_address :: "json \<Rightarrow> string option" where
  "as_address v = (let normalized = lower (str_or v []) in if is_address normalized then Some normalized else None)"

definition address_of_text :: "string \<Rightarrow> string option" where
  "address_of_text s = as_address (JStr s)"

text \<open>\<^verbatim>\<open>investigation._topic_address\<close> checks that the word is a number;
  \<^verbatim>\<open>history._topic_address\<close> does not.\<close>

definition topic_address :: "json \<Rightarrow> string option" where
  "topic_address v =
     (let raw = removeprefix ''0x'' (str_or v []) in
      if length raw \<noteq> 64 then None
      else case py_int16 raw of Inl e \<Rightarrow> None | Inr n \<Rightarrow> address_of_text (''0x'' @ last_n 40 raw))"

definition hex_data :: "json \<Rightarrow> bytes option" where
  "hex_data v =
     (let raw = str_or v ''0x'' in
      if \<not> startswith ''0x'' raw \<or> odd (length raw) then None else fromhex (drop 2 raw))"

definition word_at :: "bytes \<Rightarrow> nat \<Rightarrow> nat option" where
  "word_at raw offset = (if length raw < offset + 32 then None else Some (from_be (take 32 (drop offset raw))))"

definition MAX_ERC1155_BATCH_ITEMS :: nat where "MAX_ERC1155_BATCH_ITEMS = 256"

definition decode_dynamic_uint_array :: "bytes \<Rightarrow> nat \<Rightarrow> nat list option" where
  "decode_dynamic_uint_array raw head_offset =
     (case word_at raw head_offset of
        None \<Rightarrow> None
      | Some relative \<Rightarrow>
          if relative mod 32 \<noteq> 0 \<or> length raw < relative + 32 then None
          else case word_at raw relative of
            None \<Rightarrow> None
          | Some n \<Rightarrow>
              if MAX_ERC1155_BATCH_ITEMS < n \<or> length raw < relative + 32 + n * 32 then None
              else Some (map (\<lambda>i. from_be (take 32 (drop (relative + 32 + 32 * i) raw))) [0..<n]))"

text \<open>\<^verbatim>\<open>datetime.fromtimestamp(...).isoformat\<close> is the argument \<open>isof\<close>; out of range is \<open>None\<close>.\<close>

definition block_timestamp :: "(int \<Rightarrow> string option) \<Rightarrow> dict \<Rightarrow> string option" where
  "block_timestamp isof block =
     (let t = dget block ''timestamp'' in
      if t = JNull then None
      else case hex_to_int (py_str t) of Inl e \<Rightarrow> None | Inr n \<Rightarrow> isof n)"

definition quantity :: "json \<Rightarrow> int res" where
  "quantity v = (if v = JNull then Inl RuntimeError
     else case hex_to_int (py_str v) of Inl e \<Rightarrow> Inl RuntimeError | Inr n \<Rightarrow> Inr n)"

definition optional_quantity :: "json \<Rightarrow> int option" where
  "optional_quantity v = (if v = JNull then None
     else case hex_to_int (py_str v) of Inl e \<Rightarrow> None | Inr n \<Rightarrow> Some n)"

definition calldata_selector :: "json \<Rightarrow> string" where
  "calldata_selector v =
     (let calldata = lower (str_or v ''0x'') in if 10 \<le> length calldata then take 10 calldata else ''0x'')"

section \<open>Lemmas\<close>

lemma validate_hash_Inr:
  "validate_transaction_hash v = Inr h \<Longrightarrow> h = lower v \<and> length h = 66 \<and> startswith ''0x'' h"
  by (auto simp: validate_transaction_hash_def Let_def is_hex_string_def split: if_splits)

lemma as_address_Some: "as_address v = Some a \<Longrightarrow> is_address a"
  by (auto simp: as_address_def Let_def split: if_splits)

lemma topic_address_Some: "topic_address v = Some a \<Longrightarrow> is_address a"
  by (auto simp: topic_address_def address_of_text_def Let_def dest: as_address_Some split: if_splits sum.splits)

lemma hex_data_wf: "hex_data v = Some b \<Longrightarrow> wf_bytes b"
  by (auto simp: hex_data_def Let_def dest: fromhex_wf split: if_splits)

lemma word_at_bound: "wf_bytes b \<Longrightarrow> word_at b i = Some w \<Longrightarrow> w < 2 ^ 256"
proof -
  assume wf: "wf_bytes b" and w: "word_at b i = Some w"
  have "wf_bytes (take 32 (drop i b))"
    using wf by (auto simp: wf_bytes_def dest: in_set_takeD in_set_dropD)
  from from_be_bound [OF this] w have "w < 256 ^ 32"
    by (auto simp: word_at_def split: if_splits)
  then show ?thesis by simp
qed

lemma decode_array_bounds:
  assumes "wf_bytes raw" "decode_dynamic_uint_array raw off = Some xs"
  shows "length xs \<le> 256" "list_all (\<lambda>x. x < 2 ^ 256) xs" "32 * length xs + 32 \<le> length raw"
proof -
  from assms(2) obtain relative n where
    n: "n \<le> MAX_ERC1155_BATCH_ITEMS" "relative + 32 + n * 32 \<le> length raw" and
    xs: "xs = map (\<lambda>i. from_be (take 32 (drop (relative + 32 + 32 * i) raw))) [0..<n]"
    by (auto simp: decode_dynamic_uint_array_def not_less split: option.splits if_splits)
  show "length xs \<le> 256" using n(1) by (simp add: xs MAX_ERC1155_BATCH_ITEMS_def)
  show "32 * length xs + 32 \<le> length raw" using n(2) by (simp add: xs)
  have "from_be (take 32 (drop k raw)) < 2 ^ 256" if "k + 32 \<le> length raw" for k
    using that word_at_bound [OF assms(1), of k] by (simp add: word_at_def)
  then show "list_all (\<lambda>x. x < 2 ^ 256) xs" using n(2) by (auto simp: xs list_all_iff)
qed

section \<open>Reading what was written\<close>

lemma removeprefix_0x: "removeprefix ''0x'' (''0x'' @ s) = s"
  by (simp add: removeprefix_def startswith_def)

lemma as_address_hex_of:
  assumes "wf_bytes b" "length b = 20"
  shows "as_address (JStr (''0x'' @ hex_of b)) = Some (''0x'' @ hex_of b)"
proof -
  have "str_or (JStr (''0x'' @ hex_of b)) [] = ''0x'' @ hex_of b" by (simp add: str_or_def py_or_def)
  then show ?thesis
    using is_address_hex_of [OF assms] lower_0x_hex_of [OF assms(1)] unfolding as_address_def Let_def by presburger
qed

lemma topic_address_word:
  assumes "wf_bytes b" "length b = 32"
  shows "topic_address (JStr (''0x'' @ hex_of b)) = Some (''0x'' @ hex_of (drop 12 b))"
proof -
  have s: "str_or (JStr (''0x'' @ hex_of b)) [] = ''0x'' @ hex_of b" by (simp add: str_or_def py_or_def)
  have ne: "b \<noteq> []" using assms(2) by auto
  have last: "last_n 40 (hex_of b) = hex_of (drop 12 b)"
    using drop_hex_of [of 12 b] assms(2) by (simp add: last_n_def)
  have d: "wf_bytes (drop 12 b)" using assms(1) by (auto simp: wf_bytes_def dest: in_set_dropD)
  show ?thesis
    using as_address_hex_of [OF d] assms(2)
    unfolding topic_address_def Let_def s removeprefix_0x last address_of_text_def py_int16_hex_of [OF assms(1) ne]
    by simp
qed

lemma hex_data_hex_of: "wf_bytes b \<Longrightarrow> hex_data (JStr (''0x'' @ hex_of b)) = Some b"
  by (simp add: hex_data_def str_or_def py_or_def startswith_def fromhex_hex_of Let_def)

end
