(* ===== verification/History.thy ===== *)
theory History
  imports Evidence
begin

text \<open>
  \<^verbatim>\<open>src/white_radar/history.py\<close>: the transaction-history sources. A source is a state (its
  warnings and caches) and a query; \<open>history_source\<close> is the contract a client relies on (a bounded
  answer without repeated records), which the explorer source, the RPC window source and
  their composition each meet.
\<close>

section \<open>Records and helpers\<close>

record history_record =
  hr_transaction_hash :: string
  hr_block_number :: int
  hr_transaction_index :: "int option"
  hr_timestamp :: "int option"
  hr_sender :: "string option"
  hr_recipient :: "string option"
  hr_record_type :: string
  hr_value :: "string option"
  hr_asset_address :: "string option"
  hr_token_id :: "string option"
  hr_source :: string

record query =
  qu_chain_id :: int
  qu_address :: string
  qu_start :: int
  qu_end :: int
  qu_anchor :: int
  qu_limit :: int

definition history_hash :: "json \<Rightarrow> string option" where
  "history_hash v =
     (let normalized = lower (str_or v []) in
      if length normalized \<noteq> 66 \<or> \<not> startswith ''0x'' normalized then None
      else case py_int16 (drop 2 normalized) of Inl e \<Rightarrow> None | Inr n \<Rightarrow> Some normalized)"

definition history_integer :: "json \<Rightarrow> int option" where
  "history_integer v = (case py_int10 (py_str v) of Inl e \<Rightarrow> None | Inr n \<Rightarrow> Some n)"

definition history_topic_address :: "json \<Rightarrow> string option" where
  "history_topic_address v =
     (let raw = removeprefix ''0x'' (str_or v []) in
      if length raw \<noteq> 64 then None else address_of_text (''0x'' @ last_n 40 raw))"

definition topic_for_address :: "string \<Rightarrow> string" where
  "topic_for_address address = ''0x'' @ replicate 24 (CHR ''0'') @ removeprefix ''0x'' (lower address)"

text \<open>\<^verbatim>\<open>_bounded_unique\<close>: the sort key, the identity, and the loop that stops at the limit.\<close>

definition record_rank :: "int option \<Rightarrow> history_record \<Rightarrow> int \<times> int \<times> int \<times> string \<times> string" where
  "record_rank anchor r =
     ((case anchor of None \<Rightarrow> 0 | Some a \<Rightarrow> \<bar>hr_block_number r - a\<bar>), hr_block_number r,
      (case hr_transaction_index r of None \<Rightarrow> 2 ^ 31 | Some i \<Rightarrow> i), hr_transaction_hash r, hr_record_type r)"

type_synonym record_identity =
  "string \<times> string \<times> string option \<times> string option \<times> string option \<times> string option \<times> string option"

definition record_identity :: "history_record \<Rightarrow> record_identity" where
  "record_identity r = (hr_transaction_hash r, hr_record_type r, hr_sender r, hr_recipient r,
     hr_asset_address r, hr_value r, hr_token_id r)"

fun unique_loop :: "int \<Rightarrow> record_identity list \<Rightarrow> history_record list \<Rightarrow> history_record list \<Rightarrow> history_record list" where
  "unique_loop limit seen selected [] = selected"
| "unique_loop limit seen selected (r # rs) =
     (if record_identity r \<in> set seen then unique_loop limit seen selected rs
      else if max 0 limit \<le> int (length (selected @ [r])) then selected @ [r]
      else unique_loop limit (record_identity r # seen) (selected @ [r]) rs)"

definition bounded_unique :: "history_record list \<Rightarrow> int \<Rightarrow> int option \<Rightarrow> history_record list" where
  "bounded_unique rs limit anchor = unique_loop limit [] [] (sort_key (record_rank anchor) rs)"

definition bounded_window :: "int \<Rightarrow> int \<Rightarrow> int \<Rightarrow> int \<Rightarrow> int \<times> int \<times> bool" where
  "bounded_window start_block end_block anchor_block max_blocks =
     (if end_block < start_block then (start_block, start_block - 1, False)
      else
        (let requested = end_block - start_block + 1 in
         if requested \<le> max_blocks then (start_block, end_block, False)
         else
           (let anchor = min end_block (max start_block anchor_block);
                left_budget = (max_blocks - 1) div 2;
                selected_start = max start_block (anchor - left_budget);
                selected_end = min end_block (selected_start + max_blocks - 1);
                selected_start = max start_block (selected_end - max_blocks + 1)
            in (selected_start, selected_end, True))))"

section \<open>The selection loop\<close>

lemma unique_loop_take:
  assumes "length selected < max 1 (nat limit)"
  shows "unique_loop limit seen selected rs =
     take (max 1 (nat limit)) (selected @ nub_by record_identity seen rs)"
  using assms
proof (induction limit seen selected rs rule: unique_loop.induct)
  case (2 limit seen selected r rs)
  show ?case
  proof (cases "record_identity r \<in> set seen")
    case True
    with 2 show ?thesis by simp
  next
    case new: False
    show ?thesis
    proof (cases "max 0 limit \<le> int (length (selected @ [r]))")
      case True
      with 2(3) have "max 1 (nat limit) = Suc (length selected)" by (auto simp: max_def split: if_splits)
      with new True show ?thesis by simp
    next
      case False
      then have "length (selected @ [r]) < max 1 (nat limit)" by (auto simp: max_def split: if_splits)
      from 2(2) [OF new False this] new False show ?thesis by simp
    qed
  qed
qed simp

lemma bounded_unique_take:
  "bounded_unique rs limit anchor =
     take (max 1 (nat limit)) (nub_by record_identity [] (sort_key (record_rank anchor) rs))"
  by (simp add: bounded_unique_def unique_loop_take)

lemma bounded_unique_length: "1 \<le> limit \<Longrightarrow> int (length (bounded_unique rs limit anchor)) \<le> limit"
  by (simp add: bounded_unique_take)

lemma bounded_unique_distinct: "distinct (map record_identity (bounded_unique rs limit anchor))"
  unfolding bounded_unique_take take_map [symmetric] by (intro distinct_take distinct_nub_by_keys)

lemma bounded_unique_subset: "set (bounded_unique rs limit anchor) \<subseteq> set rs"
  using set_nub_by_subset [of record_identity "[]" "sort_key (record_rank anchor) rs"]
  by (auto simp: bounded_unique_take dest: in_set_takeD)

lemma bounded_unique_sorted: "sorted (map (record_rank anchor) (bounded_unique rs limit anchor))"
proof -
  have "sorted_wrt (\<lambda>x y. record_rank anchor x \<le> record_rank anchor y) (sort_key (record_rank anchor) rs)"
    using sorted_sort_key [of "record_rank anchor" rs] by (simp add: sorted_map)
  from sorted_wrt_nub_by [OF this, of record_identity "[]"] show ?thesis
    unfolding bounded_unique_take sorted_map by (rule sorted_wrt_take)
qed

lemma nub_by_first:
  assumes "sorted_wrt (\<lambda>x y. f x \<le> (f y :: 'b :: linorder)) xs" "r \<in> set xs" "key r \<notin> set seen"
  shows "\<exists>x \<in> set (nub_by key seen xs). key x = key r \<and> f x \<le> f r"
  using assms
proof (induction key seen xs rule: nub_by.induct)
  case (2 key seen x xs)
  show ?case
  proof (cases "key x = key r")
    case True
    with 2 show ?thesis by auto
  next
    case False
    with 2 show ?thesis by (cases "key x \<in> set seen") auto
  qed
qed simp

text \<open>A record left out ranks at or after every record kept, so the nearest to the anchor stay.\<close>

lemma bounded_unique_nearest:
  assumes "r \<in> set rs" "record_identity r \<notin> record_identity ` set (bounded_unique rs limit anchor)"
    and "k \<in> set (bounded_unique rs limit anchor)"
  shows "record_rank anchor k \<le> record_rank anchor r"
proof -
  let ?P = "\<lambda>x y. record_rank anchor x \<le> record_rank anchor y"
  let ?xs = "nub_by record_identity [] (sort_key (record_rank anchor) rs)"
  let ?n = "max 1 (nat limit)"
  have sorted: "sorted_wrt ?P (sort_key (record_rank anchor) rs)"
    using sorted_sort_key [of "record_rank anchor" rs] by (simp add: sorted_map)
  obtain x where x: "x \<in> set ?xs" "record_identity x = record_identity r" "?P x r"
    using nub_by_first [OF sorted, of r record_identity "[]"] assms(1) by auto
  from x(1) have "x \<in> set (take ?n ?xs) \<union> set (drop ?n ?xs)"
    by (metis append_take_drop_id set_append)
  moreover have "x \<notin> set (take ?n ?xs)"
    using assms(2) x(2) unfolding bounded_unique_take by (metis imageI)
  ultimately have "x \<in> set (drop ?n ?xs)" by blast
  moreover have "sorted_wrt ?P (take ?n ?xs @ drop ?n ?xs)"
    using sorted_wrt_nub_by [OF sorted] by simp
  ultimately have "?P k x" using assms(3) unfolding bounded_unique_take sorted_wrt_append by blast
  with x(3) show ?thesis by simp
qed

lemma bounded_window_facts:
  assumes "start \<le> finish" "1 \<le> n" "bounded_window start finish anchor n = (s, e, capped)"
  shows "start \<le> s" "s \<le> e" "e \<le> finish" "e - s + 1 \<le> n" "capped \<longleftrightarrow> n < finish - start + 1"
    and "capped \<Longrightarrow> e - s + 1 = n"
    and "start \<le> anchor \<Longrightarrow> anchor \<le> finish \<Longrightarrow> s \<le> anchor \<and> anchor \<le> e"
  using assms by (auto simp: bounded_window_def Let_def max_def min_def split: if_splits)

section \<open>The interface of a source\<close>

locale history_source =
  fixes fetch :: "query \<Rightarrow> 's \<Rightarrow> history_record list res \<times> 's"
    and ok :: "'s \<Rightarrow> bool"
  assumes answer_ok: "ok s \<Longrightarrow> fetch q s = (Inr rs, s') \<Longrightarrow>
      int (length rs) \<le> max 1 (qu_limit q) \<and> distinct (map record_identity rs)"
    and state_ok: "ok s \<Longrightarrow> ok (snd (fetch q s))"
begin

fun fetch_all :: "query list \<Rightarrow> 's \<Rightarrow> history_record list \<times> 's" where
  "fetch_all [] s = ([], s)"
| "fetch_all (q # qs) s =
     (case fetch q s of (r, s1) \<Rightarrow>
        (case fetch_all qs s1 of (rest, s2) \<Rightarrow> ((case r of Inl e \<Rightarrow> rest | Inr rs \<Rightarrow> rs @ rest), s2)))"

text \<open>A sequence of queries brings in at most the sum of its limits.\<close>

lemma fetch_all_ok: "ok s \<Longrightarrow> ok (snd (fetch_all qs s))"
proof (induction qs arbitrary: s)
  case (Cons q qs)
  have "ok (snd (fetch q s))" using Cons.prems by (rule state_ok)
  from Cons.IH [OF this] show ?case by (simp add: split_beta)
qed simp

lemma fetch_all_bound:
  "ok s \<Longrightarrow> int (length (fst (fetch_all qs s))) \<le> sum_list (map (\<lambda>q. max 1 (qu_limit q)) qs)"
proof (induction qs arbitrary: s)
  case (Cons q qs)
  obtain r s1 where f: "fetch q s = (r, s1)" by force
  have "ok s1" using state_ok [OF Cons.prems, of q] f by simp
  from Cons.IH [OF this] answer_ok [OF Cons.prems, of q] show ?case
    by (cases r) (fastforce simp: f split_beta)+
qed simp

end

section \<open>The explorer source\<close>

definition MAX_HISTORY_PAGE :: int where "MAX_HISTORY_PAGE = 1000"

definition ACTION_TYPES :: "(string \<times> string) list" where
  "ACTION_TYPES = [(''txlist'', ''normal''), (''txlistinternal'', ''internal''), (''tokentx'', ''erc20''),
     (''tokennfttx'', ''erc721''), (''token1155tx'', ''erc1155'')]"

text \<open>What \<^verbatim>\<open>request_json\<close> answered: chain, action, address, first and last block, offset, sort.\<close>

type_synonym explorer = "int \<Rightarrow> string \<Rightarrow> string \<Rightarrow> int \<Rightarrow> int \<Rightarrow> int \<Rightarrow> string \<Rightarrow> json res"
type_synonym cache_key = "int \<times> string \<times> int \<times> int \<times> int"

record explorer_state =
  es_warnings :: "string list"
  es_cache :: "(cache_key \<times> history_record list) list"

definition explorer_request ::
  "explorer \<Rightarrow> string \<Rightarrow> int \<Rightarrow> string \<Rightarrow> string \<Rightarrow> int \<Rightarrow> int \<Rightarrow> int \<Rightarrow> string \<Rightarrow> dict list res" where
  "explorer_request explorer api_key chain_id action address start_block end_block limit sort_order =
     (if api_key = [] then Inl (HistorySourceError ''Etherscan history is not configured'')
      else case explorer chain_id action address start_block end_block (min MAX_HISTORY_PAGE (max 1 limit)) sort_order of
        Inl e \<Rightarrow> if e = HttpError then Inl (HistorySourceError (''Etherscan '' @ action @ '' request failed'')) else Inl e
      | Inr (JObj response) \<Rightarrow>
          (case dget response ''result'' of
             JList result \<Rightarrow> Inr (only_dicts result)
           | other \<Rightarrow>
               (let message = str_or (py_or (dget response ''message'') other) ''unknown response'' in
                if contains ''No transactions found'' message then Inr []
                else Inl (HistorySourceError (''Etherscan '' @ action @ '' unavailable: '' @ take 160 message))))
      | Inr _ \<Rightarrow> Inl (HistorySourceError (''Etherscan '' @ action @ '' returned malformed data'')))"

definition text_unless_null :: "json \<Rightarrow> string option" where
  "text_unless_null j = (if j = JNull then None else Some (py_str j))"

definition explorer_convert :: "string \<Rightarrow> string \<Rightarrow> dict \<Rightarrow> history_record option" where
  "explorer_convert action record_type entry =
     (case (history_hash (dget entry ''hash''), history_integer (dget entry ''blockNumber'')) of
        (Some tx_hash, Some block_number) \<Rightarrow>
          Some \<lparr> hr_transaction_hash = tx_hash, hr_block_number = block_number,
            hr_transaction_index = history_integer (dget entry ''transactionIndex''),
            hr_timestamp = history_integer (dget entry ''timeStamp''),
            hr_sender = as_address (dget entry ''from''), hr_recipient = as_address (dget entry ''to''),
            hr_record_type = record_type, hr_value = text_unless_null (dget entry ''value''),
            hr_asset_address = (if record_type \<noteq> ''normal'' then as_address (dget entry ''contractAddress'') else None),
            hr_token_id = text_unless_null (dget entry ''tokenID''),
            hr_source = ''etherscan_v2:'' @ action \<rparr>
      | _ \<Rightarrow> None)"

text \<open>The two ranges of one action: warnings, records and whether a request succeeded. Any other
  exception than \<^verbatim>\<open>HistorySourceError\<close> leaves the method with the warnings so far.\<close>

fun range_loop ::
  "(int \<Rightarrow> int \<Rightarrow> string \<Rightarrow> dict list res) \<Rightarrow> (dict \<Rightarrow> history_record option) \<Rightarrow> (int \<times> int \<times> string) list
     \<Rightarrow> string list \<Rightarrow> history_record list \<Rightarrow> bool \<Rightarrow> (exn \<times> string list) + (string list \<times> history_record list \<times> bool)" where
  "range_loop ask convert [] ws rs good = Inr (ws, rs, good)"
| "range_loop ask convert ((a, b, srt) # todo) ws rs good =
     (if b < a then range_loop ask convert todo ws rs good
      else case ask a b srt of
        Inl (HistorySourceError m) \<Rightarrow> range_loop ask convert todo (ws @ [m]) rs good
      | Inl e \<Rightarrow> Inl (e, ws)
      | Inr entries \<Rightarrow> range_loop ask convert todo ws (rs @ List.map_filter convert entries) True)"

definition query_ranges :: "query \<Rightarrow> (int \<times> int \<times> string) list" where
  "query_ranges q = [(qu_start q, min (qu_anchor q) (qu_end q), ''desc''), (max (qu_anchor q) (qu_start q), qu_end q, ''asc'')]"

fun action_loop ::
  "explorer \<Rightarrow> string \<Rightarrow> query \<Rightarrow> int \<Rightarrow> (string \<times> string) list \<Rightarrow> string list \<Rightarrow> history_record list \<Rightarrow> nat
     \<Rightarrow> (exn \<times> string list) + (string list \<times> history_record list \<times> nat)" where
  "action_loop explorer api_key q per_direction [] ws rs errors = Inr (ws, rs, errors)"
| "action_loop explorer api_key q per_direction ((action, record_type) # todo) ws rs errors =
     and_then (range_loop
         (\<lambda>a b. explorer_request explorer api_key (qu_chain_id q) action (qu_address q) a b per_direction)
         (explorer_convert action record_type) (query_ranges q) ws rs False)
       (\<lambda>(ws', rs', good). action_loop explorer api_key q per_direction todo ws' rs'
          (if good then errors else Suc errors))"

definition explorer_key :: "query \<Rightarrow> cache_key" where
  "explorer_key q = (qu_chain_id q, lower (qu_address q), qu_start q, qu_end q, min MAX_HISTORY_PAGE (max 1 (qu_limit q)))"

definition explorer_records ::
  "explorer \<Rightarrow> string \<Rightarrow> query \<Rightarrow> explorer_state \<Rightarrow> history_record list res \<times> explorer_state" where
  "explorer_records explorer api_key q st =
     (let bounded_limit = min MAX_HISTORY_PAGE (max 1 (qu_limit q));
          key = explorer_key q;
          per_direction = max 5 ((bounded_limit + 1) div 2)
      in case map_of (es_cache st) key of
           Some hit \<Rightarrow> (Inr hit, st)
         | None \<Rightarrow>
             (case action_loop explorer api_key q per_direction ACTION_TYPES (es_warnings st) [] 0 of
                Inl (e, ws) \<Rightarrow> (Inl e, st\<lparr> es_warnings := ws \<rparr>)
              | Inr (ws, rs, errors) \<Rightarrow>
                  if errors = length ACTION_TYPES
                  then (Inl (HistorySourceError ''All Etherscan history endpoints failed for the address''),
                        st\<lparr> es_warnings := ws \<rparr>)
                  else
                    (let answer = bounded_unique rs bounded_limit (Some (qu_anchor q)) in
                     (Inr answer, st\<lparr> es_warnings := ws, es_cache := (key, answer) # es_cache st \<rparr>))))"

definition explorer_warnings :: "explorer_state \<Rightarrow> string list" where
  "explorer_warnings st = fromkeys (es_warnings st)"

definition explorer_ok :: "explorer_state \<Rightarrow> bool" where
  "explorer_ok st = list_all (\<lambda>((c, a, s, e, n), rs). int (length rs) \<le> n \<and> distinct (map record_identity rs)) (es_cache st)"

lemma explorer_cache_hit:
  assumes "explorer_ok st" "map_of (es_cache st) (explorer_key q) = Some hit"
  shows "int (length hit) \<le> max 1 (qu_limit q) \<and> distinct (map record_identity hit)"
  using assms map_of_SomeD [OF assms(2)]
  by (auto simp: explorer_ok_def list_all_iff explorer_key_def)

lemma explorer_records_new:
  assumes "map_of (es_cache st) (explorer_key q) = None" "explorer_records explorer key q st = (Inr rs, st')"
  shows "\<exists>found. rs = bounded_unique found (min MAX_HISTORY_PAGE (max 1 (qu_limit q))) (Some (qu_anchor q))
     \<and> es_cache st' = (explorer_key q, rs) # es_cache st"
  using assms by (auto simp: explorer_records_def Let_def split: sum.splits if_splits prod.splits)

lemma explorer_answer_ok:
  assumes ok: "explorer_ok st" and run: "explorer_records explorer key q st = (Inr rs, st')"
  shows "int (length rs) \<le> max 1 (qu_limit q) \<and> distinct (map record_identity rs)"
proof (cases "map_of (es_cache st) (explorer_key q)")
  case None
  from explorer_records_new [OF None run] obtain found where
    "rs = bounded_unique found (min MAX_HISTORY_PAGE (max 1 (qu_limit q))) (Some (qu_anchor q))" by blast
  moreover have "1 \<le> min MAX_HISTORY_PAGE (max 1 (qu_limit q))" by (simp add: MAX_HISTORY_PAGE_def)
  ultimately show ?thesis using bounded_unique_length bounded_unique_distinct by fastforce
next
  case (Some hit)
  with run have "rs = hit" by (simp add: explorer_records_def Let_def)
  with explorer_cache_hit [OF ok Some] show ?thesis by simp
qed

lemma explorer_state_ok:
  assumes ok: "explorer_ok st"
  shows "explorer_ok (snd (explorer_records explorer key q st))"
proof -
  have "1 \<le> min MAX_HISTORY_PAGE (max 1 (qu_limit q))" by (simp add: MAX_HISTORY_PAGE_def)
  from bounded_unique_length [OF this] bounded_unique_distinct ok show ?thesis
    by (auto simp: explorer_records_def Let_def explorer_ok_def explorer_key_def split: option.split sum.split)
qed

interpretation explorer_source: history_source "explorer_records explorer api_key" explorer_ok
  for explorer api_key
  by unfold_locales (simp_all add: explorer_answer_ok explorer_state_ok)

section \<open>The RPC window source\<close>

record window_state =
  ws_warnings :: "string list"
  ws_normal_cache :: "((int \<times> int) \<times> history_record list) list"
  ws_address_cache :: "((string \<times> int \<times> int \<times> int) \<times> history_record list) list"

record window_config =
  wc_max_blocks :: int
  wc_max_transactions :: nat
  wc_log_chunk_blocks :: int

definition mk_window_config :: "int \<Rightarrow> int \<Rightarrow> int \<Rightarrow> window_config" where
  "mk_window_config max_blocks max_transactions log_chunk_blocks =
     \<lparr> wc_max_blocks = max 1 (min 10000 max_blocks),
       wc_max_transactions = nat (max 1 (min 1000000 max_transactions)),
       wc_log_chunk_blocks = max 1 (min 10000 log_chunk_blocks) \<rparr>"

text \<open>\<^verbatim>\<open>except (RpcError, AttributeError)\<close>\<close>

definition source_gap :: "exn \<Rightarrow> bool" where
  "source_gap e = (is_rpc_error e \<or> e = AttributeError)"

text \<open>A number field that may be absent: \<^verbatim>\<open>hex_to_int(str(x)) if x is not None else default\<close>.\<close>

definition hex_or :: "json \<Rightarrow> int option \<Rightarrow> int option res" where
  "hex_or j dflt = (if j = JNull then Inr dflt else and_then (hex_to_int (py_str j)) (\<lambda>n. Inr (Some n)))"

definition block_record :: "int \<Rightarrow> int \<Rightarrow> nat \<Rightarrow> string \<Rightarrow> dict \<Rightarrow> history_record res" where
  "block_record block_number timestamp ordinal tx_hash entry =
     and_then (hex_or (dget entry ''transactionIndex'') (Some (int ordinal))) (\<lambda>idx.
     and_then (hex_to_int (str_or (dget entry ''value'') ''0x0'')) (\<lambda>v.
       Inr \<lparr> hr_transaction_hash = tx_hash, hr_block_number = block_number, hr_transaction_index = idx,
             hr_timestamp = Some timestamp, hr_sender = as_address (dget entry ''from''),
             hr_recipient = as_address (dget entry ''to''), hr_record_type = ''normal'',
             hr_value = Some (int_str v), hr_asset_address = None, hr_token_id = None,
             hr_source = ''ethereum_json_rpc:block_scan'' \<rparr>))"

text \<open>The transactions of one block; the flag says that the cap was reached.\<close>

fun scan_transactions ::
  "nat \<Rightarrow> int \<Rightarrow> int \<Rightarrow> nat \<Rightarrow> json list \<Rightarrow> history_record list \<Rightarrow> (history_record list \<times> bool) res" where
  "scan_transactions cap block_number timestamp ordinal [] rs = Inr (rs, False)"
| "scan_transactions cap block_number timestamp ordinal (entry # rest) rs =
     (case entry of
        JObj d \<Rightarrow>
          (case history_hash (dget d ''hash'') of
             None \<Rightarrow> scan_transactions cap block_number timestamp (Suc ordinal) rest rs
           | Some tx_hash \<Rightarrow>
               and_then (block_record block_number timestamp ordinal tx_hash d) (\<lambda>r.
                 if cap \<le> length (rs @ [r]) then Inr (rs @ [r], True)
                 else scan_transactions cap block_number timestamp (Suc ordinal) rest (rs @ [r])))
      | _ \<Rightarrow> scan_transactions cap block_number timestamp (Suc ordinal) rest rs)"

definition block_gap_warning :: "int \<Rightarrow> string" where
  "block_gap_warning n = ''RPC block '' @ int_str n @ '' was unavailable during history scan.''"

definition inventory_warning :: "nat \<Rightarrow> string" where
  "inventory_warning cap = ''RPC history transaction inventory was capped at '' @ nat_str cap @ ''.''"

definition log_cap_warning :: "nat \<Rightarrow> string" where
  "log_cap_warning cap = ''RPC transfer-log inventory was capped at '' @ nat_str cap @ ''.''"

definition log_gap_warning :: "int \<Rightarrow> int \<Rightarrow> string" where
  "log_gap_warning a b = ''Standard transfer-log history was partially unavailable from the RPC ''
     @ ''endpoint for blocks '' @ int_str a @ ''-'' @ int_str b @ ''.''"

definition window_warning :: "int \<Rightarrow> string" where
  "window_warning n = ''RPC history was centered on the seed and capped at '' @ int_str n
     @ '' blocks; use indexed history for wider coverage.''"

fun scan_blocks ::
  "rpc \<Rightarrow> nat \<Rightarrow> int list \<Rightarrow> string list \<Rightarrow> history_record list
     \<Rightarrow> (exn \<times> string list) + (string list \<times> history_record list)" where
  "scan_blocks call cap [] ws rs = Inr (ws, rs)"
| "scan_blocks call cap (n # ns) ws rs =
     (case rpc_block call n True of
        Inl e \<Rightarrow> if source_gap e then scan_blocks call cap ns (ws @ [block_gap_warning n]) rs else Inl (e, ws)
      | Inr None \<Rightarrow> scan_blocks call cap ns ws rs
      | Inr (Some block) \<Rightarrow>
          if block = [] then scan_blocks call cap ns ws rs
          else (case hex_to_int (str_or (dget block ''timestamp'') ''0x0'') of
             Inl e \<Rightarrow> Inl (e, ws)
           | Inr timestamp \<Rightarrow>
               (case py_or (dget block ''transactions'') (JList []) of
                  JList entries \<Rightarrow>
                    (case scan_transactions cap n timestamp 0 entries rs of
                       Inl e \<Rightarrow> Inl (e, ws)
                     | Inr (rs', full) \<Rightarrow>
                         if full then Inr (ws @ [inventory_warning cap], rs')
                         else scan_blocks call cap ns ws rs')
                | _ \<Rightarrow> scan_blocks call cap ns ws rs)))"

text \<open>\<^verbatim>\<open>_append_log_record\<close>: the record one log adds, if any.\<close>

definition nth_topic :: "json list \<Rightarrow> nat \<Rightarrow> string option" where
  "nth_topic topics i = (if i < length topics then history_topic_address (topics ! i) else None)"

definition erc20_value :: "dict \<Rightarrow> string option res" where
  "erc20_value entry =
     (let raw_data = removeprefix ''0x'' (str_or (dget entry ''data'') ''0x'') in
      if 64 \<le> length raw_data then and_then (py_int16 (take 64 raw_data)) (\<lambda>n. Inr (Some (int_str n)))
      else Inr None)"

text \<open>Sender, recipient, type, value and token of a log.\<close>

definition log_parties ::
  "string \<Rightarrow> dict \<Rightarrow> json list
     \<Rightarrow> (string option \<times> string option \<times> string \<times> string option \<times> string option) res" where
  "log_parties record_type entry topics =
     (let topic0 = (case topics of [] \<Rightarrow> [] | t # ts \<Rightarrow> lower (py_str t)) in
      if topic0 = TRANSFER_TOPIC then
        if 4 \<le> length topics
        then and_then (hex_to_int (py_str (topics ! 3))) (\<lambda>token.
               Inr (nth_topic topics 1, nth_topic topics 2, ''erc721'', Some ''1'', Some (int_str token)))
        else and_then (erc20_value entry) (\<lambda>v. Inr (nth_topic topics 1, nth_topic topics 2, ''erc20'', v, None))
      else Inr (nth_topic topics 2, nth_topic topics 3, record_type, None, None))"

definition log_record :: "string \<Rightarrow> dict \<Rightarrow> history_record option res" where
  "log_record record_type entry =
     and_then (hex_or (dget entry ''blockNumber'') None) (\<lambda>bn.
       case (history_hash (dget entry ''transactionHash''), bn, py_or (dget entry ''topics'') (JList [])) of
         (Some tx_hash, Some block_number, JList topics) \<Rightarrow>
           and_then (log_parties record_type entry topics) (\<lambda>(sender, recipient, resolved, v, token).
           and_then (hex_or (dget entry ''transactionIndex'') None) (\<lambda>idx.
             Inr (Some \<lparr> hr_transaction_hash = tx_hash, hr_block_number = block_number,
               hr_transaction_index = idx, hr_timestamp = None, hr_sender = sender,
               hr_recipient = recipient, hr_record_type = resolved, hr_value = v,
               hr_asset_address = as_address (dget entry ''address''), hr_token_id = token,
               hr_source = ''ethereum_json_rpc:eth_getLogs'' \<rparr>)))
       | _ \<Rightarrow> Inr None)"

fun append_logs :: "nat \<Rightarrow> string \<Rightarrow> dict list \<Rightarrow> history_record list \<Rightarrow> (history_record list \<times> bool) res" where
  "append_logs cap record_type [] rs = Inr (rs, False)"
| "append_logs cap record_type (entry # rest) rs =
     and_then (log_record record_type entry) (\<lambda>r.
       let rs' = (case r of None \<Rightarrow> rs | Some x \<Rightarrow> rs @ [x]) in
       if cap \<le> length rs' then Inr (rs', True) else append_logs cap record_type rest rs')"

text \<open>The six filters, and the blocks each is split over.\<close>

definition log_filters :: "string \<Rightarrow> (string \<times> json list) list" where
  "log_filters address =
     (let padded = JStr (topic_for_address address) in
      [(''erc20_or_erc721'', [JStr TRANSFER_TOPIC, padded]),
       (''erc20_or_erc721'', [JStr TRANSFER_TOPIC, JNull, padded]),
       (''erc1155'', [JStr TRANSFER_SINGLE_TOPIC, JNull, padded]),
       (''erc1155'', [JStr TRANSFER_SINGLE_TOPIC, JNull, JNull, padded]),
       (''erc1155'', [JStr TRANSFER_BATCH_TOPIC, JNull, padded]),
       (''erc1155'', [JStr TRANSFER_BATCH_TOPIC, JNull, JNull, padded])])"

text \<open>\<^verbatim>\<open>range(start, end + 1, step)\<close>\<close>

definition range_step :: "int \<Rightarrow> int \<Rightarrow> int \<Rightarrow> int list" where
  "range_step a b k = map (\<lambda>i. a + int i * k) [0..<nat ((b - a + k) div k)]"

definition log_queries :: "string \<Rightarrow> int \<Rightarrow> int \<Rightarrow> int \<Rightarrow> (string \<times> json list \<times> int \<times> int) list" where
  "log_queries address a b chunk =
     concat (map (\<lambda>(record_type, topics).
        map (\<lambda>s. (record_type, topics, s, min b (s + chunk - 1))) (range_step a b chunk)) (log_filters address))"

fun scan_logs ::
  "rpc \<Rightarrow> nat \<Rightarrow> (string \<times> json list \<times> int \<times> int) list \<Rightarrow> string list \<Rightarrow> history_record list
     \<Rightarrow> (exn \<times> string list) + (string list \<times> history_record list)" where
  "scan_logs call cap [] ws rs = Inr (ws, rs)"
| "scan_logs call cap ((record_type, topics, a, b) # rest) ws rs =
     (case rpc_logs call a b topics None of
        Inl e \<Rightarrow> if source_gap e then scan_logs call cap rest (ws @ [log_gap_warning a b]) rs else Inl (e, ws)
      | Inr entries \<Rightarrow>
          (case append_logs cap record_type entries rs of
             Inl e \<Rightarrow> Inl (e, ws)
           | Inr (rs', full) \<Rightarrow>
               if full then Inr (ws @ [log_cap_warning cap], rs')
               else scan_logs call cap rest ws rs'))"

definition normal_records ::
  "rpc \<Rightarrow> window_config \<Rightarrow> int \<Rightarrow> int \<Rightarrow> window_state \<Rightarrow> history_record list res \<times> window_state" where
  "normal_records call cfg a b st =
     (case map_of (ws_normal_cache st) (a, b) of
        Some hit \<Rightarrow> (Inr hit, st)
      | None \<Rightarrow>
          (case scan_blocks call (wc_max_transactions cfg) [a..b] (ws_warnings st) [] of
             Inl (e, ws) \<Rightarrow> (Inl e, st\<lparr> ws_warnings := ws \<rparr>)
           | Inr (ws, rs) \<Rightarrow>
               (Inr rs, st\<lparr> ws_warnings := ws, ws_normal_cache := ((a, b), rs) # ws_normal_cache st \<rparr>)))"

definition log_records ::
  "rpc \<Rightarrow> window_config \<Rightarrow> string \<Rightarrow> int \<Rightarrow> int \<Rightarrow> window_state \<Rightarrow> history_record list res \<times> window_state" where
  "log_records call cfg address a b st =
     (case scan_logs call (wc_max_transactions cfg) (log_queries address a b (wc_log_chunk_blocks cfg)) (ws_warnings st) [] of
        Inl (e, ws) \<Rightarrow> (Inl e, st\<lparr> ws_warnings := ws \<rparr>)
      | Inr (ws, rs) \<Rightarrow>
          (Inr (bounded_unique rs (int (wc_max_transactions cfg)) None), st\<lparr> ws_warnings := ws \<rparr>))"

definition involves :: "string \<Rightarrow> history_record \<Rightarrow> bool" where
  "involves address r = (hr_sender r = Some address \<or> hr_recipient r = Some address)"

definition window_fetch ::
  "rpc \<Rightarrow> window_config \<Rightarrow> query \<Rightarrow> int \<Rightarrow> int \<Rightarrow> window_state \<Rightarrow> history_record list res \<times> window_state" where
  "window_fetch call cfg q a b st =
     (let address = lower (qu_address q); limit = max 1 (qu_limit q); key = (address, a, b, limit) in
      case map_of (ws_address_cache st) key of
        Some hit \<Rightarrow> (Inr hit, st)
      | None \<Rightarrow>
          (case normal_records call cfg a b st of
             (Inl e, st1) \<Rightarrow> (Inl e, st1)
           | (Inr normal, st1) \<Rightarrow>
               (case log_records call cfg address a b st1 of
                  (Inl e, st2) \<Rightarrow> (Inl e, st2)
                | (Inr logs, st2) \<Rightarrow>
                    (let answer = bounded_unique (filter (involves address) normal @ logs) limit (Some (qu_anchor q)) in
                     (Inr answer, st2\<lparr> ws_address_cache := (key, answer) # ws_address_cache st2 \<rparr>)))))"

definition window_records ::
  "rpc \<Rightarrow> window_config \<Rightarrow> query \<Rightarrow> window_state \<Rightarrow> history_record list res \<times> window_state" where
  "window_records call cfg q st =
     (let (a, b, capped) = bounded_window (qu_start q) (qu_end q) (qu_anchor q) (wc_max_blocks cfg);
          st1 = (if capped then st\<lparr> ws_warnings := ws_warnings st @ [window_warning (wc_max_blocks cfg)] \<rparr> else st)
      in window_fetch call cfg q a b st1)"

definition window_warnings :: "window_state \<Rightarrow> string list" where
  "window_warnings st = fromkeys (ws_warnings st)"

definition window_ok :: "window_state \<Rightarrow> bool" where
  "window_ok st = list_all (\<lambda>((c, a, b, n), rs). int (length rs) \<le> n \<and> distinct (map record_identity rs)) (ws_address_cache st)"

lemma normal_records_cache: "ws_address_cache (snd (normal_records call cfg a b st)) = ws_address_cache st"
  by (auto simp: normal_records_def split: option.split sum.split)

lemma log_records_cache: "ws_address_cache (snd (log_records call cfg x a b st)) = ws_address_cache st"
  by (auto simp: log_records_def split: sum.split)

definition window_key :: "query \<Rightarrow> int \<Rightarrow> int \<Rightarrow> string \<times> int \<times> int \<times> int" where
  "window_key q a b = (lower (qu_address q), a, b, max 1 (qu_limit q))"

text \<open>An answer comes from the cache or is a bounded selection that enters it.\<close>

lemma window_fetch_cases:
  assumes "window_fetch call cfg q a b st = (r, st')"
  obtains (hit) h where "r = Inr h" "st' = st" "map_of (ws_address_cache st) (window_key q a b) = Some h"
    | (new) found where "r = Inr (bounded_unique found (max 1 (qu_limit q)) (Some (qu_anchor q)))"
        "ws_address_cache st' = (window_key q a b, bounded_unique found (max 1 (qu_limit q)) (Some (qu_anchor q)))
           # ws_address_cache st"
    | (failed) e where "r = Inl e" "ws_address_cache st' = ws_address_cache st"
proof (cases "map_of (ws_address_cache st) (window_key q a b)")
  case (Some h)
  with assms have "r = Inr h \<and> st' = st" by (auto simp: window_fetch_def Let_def window_key_def)
  with Some that(1) show ?thesis by blast
next
  case None
  obtain r1 st1 where n: "normal_records call cfg a b st = (r1, st1)" by force
  have c1: "ws_address_cache st1 = ws_address_cache st" using normal_records_cache [of call cfg a b st] n by simp
  obtain r2 st2 where l: "log_records call cfg (lower (qu_address q)) a b st1 = (r2, st2)" by force
  have c2: "ws_address_cache st2 = ws_address_cache st"
    using log_records_cache [of call cfg "lower (qu_address q)" a b st1] l c1 by simp
  have run: "window_fetch call cfg q a b st =
      (case r1 of Inl e \<Rightarrow> (Inl e, st1) | Inr normal \<Rightarrow>
        (case r2 of Inl e \<Rightarrow> (Inl e, st2) | Inr logs \<Rightarrow>
          (let answer = bounded_unique (filter (involves (lower (qu_address q))) normal @ logs) (max 1 (qu_limit q)) (Some (qu_anchor q)) in
           (Inr answer, st2\<lparr> ws_address_cache := (window_key q a b, answer) # ws_address_cache st2 \<rparr>))))"
    using None by (auto simp: window_fetch_def Let_def window_key_def n l split: sum.split)
  show ?thesis
  proof (cases r1)
    case (Inl e)
    with run assms c1 that(3) show ?thesis by auto
  next
    case r1: (Inr normal)
    show ?thesis
    proof (cases r2)
      case (Inl e)
      with run assms c2 r1 that(3) show ?thesis by auto
    next
      case (Inr logs)
      with run assms c2 r1 show ?thesis
        by (intro that(2) [of "filter (involves (lower (qu_address q))) normal @ logs"]) (auto simp: Let_def)
    qed
  qed
qed

lemma bounded_answer_ok:
  "int (length (bounded_unique found (max 1 n) anchor)) \<le> max 1 n
     \<and> distinct (map record_identity (bounded_unique found (max 1 n) anchor))"
  using bounded_unique_length [of "max 1 n" found anchor] by (simp add: bounded_unique_distinct)

lemma window_fetch_ok:
  assumes ok: "window_ok st" and run: "window_fetch call cfg q a b st = (r, st')"
  shows "window_ok st'"
    and "r = Inr rs \<Longrightarrow> int (length rs) \<le> max 1 (qu_limit q) \<and> distinct (map record_identity rs)"
proof -
  from run show "window_ok st'"
  proof (cases rule: window_fetch_cases)
    case hit
    with ok show ?thesis by simp
  next
    case (new found)
    with ok bounded_answer_ok [of found "qu_limit q"] show ?thesis
      by (simp add: window_ok_def window_key_def)
  next
    case failed
    with ok show ?thesis by (simp add: window_ok_def)
  qed
  from run show "int (length rs) \<le> max 1 (qu_limit q) \<and> distinct (map record_identity rs)" if "r = Inr rs"
  proof (cases rule: window_fetch_cases)
    case (hit h)
    with that ok map_of_SomeD [OF hit(3)] show ?thesis
      by (auto simp: window_ok_def list_all_iff window_key_def)
  next
    case (new found)
    with that have "rs = bounded_unique found (max 1 (qu_limit q)) (Some (qu_anchor q))" by simp
    then show ?thesis by (simp only: bounded_answer_ok)
  qed (use that in simp)
qed

lemma window_ok_warnings: "window_ok (st\<lparr> ws_warnings := ws \<rparr>) = window_ok st"
  by (simp add: window_ok_def)

interpretation window_source: history_source "window_records call cfg" window_ok for call cfg
proof (unfold_locales, goal_cases)
  case (1 s q rs s')
  then show ?case
    by (auto simp: window_records_def Let_def window_ok_warnings split: prod.splits if_splits
        dest: window_fetch_ok(2) [rotated])
next
  case (2 s q)
  obtain a b c where w: "bounded_window (qu_start q) (qu_end q) (qu_anchor q) (wc_max_blocks cfg) = (a, b, c)"
    by (metis prod_cases3)
  have "window_ok (if c then s\<lparr> ws_warnings := ws_warnings s @ [window_warning (wc_max_blocks cfg)] \<rparr> else s)"
    using 2 by (simp add: window_ok_warnings)
  from window_fetch_ok(1) [OF this, of call cfg q a b] show ?case
    by (simp add: window_records_def w) (metis prod.collapse)
qed

section \<open>The composition\<close>

text \<open>\<^verbatim>\<open>CompositeHistorySource\<close>: the primary source if there is one, the fallback when it
  raises \<^verbatim>\<open>HistorySourceError\<close>. Its state pairs its own warnings with the two sources'.\<close>

type_synonym ('p, 'f) composite_state = "string list \<times> 'p \<times> 'f"

definition fallback_warning :: "string \<Rightarrow> string \<Rightarrow> string" where
  "fallback_warning address message =
     ''Indexed history failed for '' @ address @ ''; RPC fallback was used ('' @ message @ '').''"

definition composite_records ::
  "bool \<Rightarrow> (query \<Rightarrow> 'p \<Rightarrow> history_record list res \<times> 'p) \<Rightarrow> (query \<Rightarrow> 'f \<Rightarrow> history_record list res \<times> 'f)
     \<Rightarrow> query \<Rightarrow> ('p, 'f) composite_state \<Rightarrow> history_record list res \<times> ('p, 'f) composite_state" where
  "composite_records has_primary primary fallback q st =
     (case st of (ws, p, f) \<Rightarrow>
        if \<not> has_primary then (case fallback q f of (r, f') \<Rightarrow> (r, (ws, p, f')))
        else (case primary q p of
           (Inl (HistorySourceError m), p') \<Rightarrow>
             (case fallback q f of (r, f') \<Rightarrow> (r, (ws @ [fallback_warning (qu_address q) m], p', f')))
         | (r, p') \<Rightarrow> (r, (ws, p', f))))"

definition composite_warnings :: "string list \<Rightarrow> string list \<Rightarrow> string list \<Rightarrow> string list" where
  "composite_warnings own primary fallback = fromkeys (own @ primary @ fallback)"

definition composite_ok :: "('p \<Rightarrow> bool) \<Rightarrow> ('f \<Rightarrow> bool) \<Rightarrow> ('p, 'f) composite_state \<Rightarrow> bool" where
  "composite_ok okp okf st = (case st of (ws, p, f) \<Rightarrow> okp p \<and> okf f)"

locale two_sources = p: history_source fetchp okp + f: history_source fetchf okf
  for fetchp :: "query \<Rightarrow> 'p \<Rightarrow> history_record list res \<times> 'p" and okp
    and fetchf :: "query \<Rightarrow> 'f \<Rightarrow> history_record list res \<times> 'f" and okf
begin

lemma composite_cases:
  assumes "composite_records b fetchp fetchf q (ws, p, f) = (r, st')"
  shows "(\<exists>p' f'. st' = (ws, p', f) \<and> fetchp q p = (r, p')) \<or>
     (\<exists>ws' p' f'. st' = (ws', p', f') \<and> fetchf q f = (r, f') \<and> (p' = p \<or> p' = snd (fetchp q p)))"
  using assms by (auto simp: composite_records_def split: if_splits prod.splits sum.splits exn.splits)

lemma composite_answer:
  assumes "composite_ok okp okf st" "composite_records b fetchp fetchf q st = (Inr rs, st')"
  shows "int (length rs) \<le> max 1 (qu_limit q) \<and> distinct (map record_identity rs)"
proof -
  obtain ws p f where st: "st = (ws, p, f)" by (cases st)
  with assms have ok: "okp p" "okf f" by (simp_all add: composite_ok_def)
  have "(\<exists>p'. fetchp q p = (Inr rs, p')) \<or> (\<exists>f'. fetchf q f = (Inr rs, f'))"
    using composite_cases [OF assms(2) [unfolded st]] by auto
  then show ?thesis
  proof
    assume "\<exists>p'. fetchp q p = (Inr rs, p')"
    then obtain p' where "fetchp q p = (Inr rs, p')" ..
    then show ?thesis by (rule p.answer_ok [OF ok(1)])
  next
    assume "\<exists>f'. fetchf q f = (Inr rs, f')"
    then obtain f' where "fetchf q f = (Inr rs, f')" ..
    then show ?thesis by (rule f.answer_ok [OF ok(2)])
  qed
qed

lemma composite_state:
  assumes "composite_ok okp okf st"
  shows "composite_ok okp okf (snd (composite_records b fetchp fetchf q st))"
proof -
  obtain ws p f where st: "st = (ws, p, f)" by (cases st)
  with assms have ok: "okp p" "okf f" by (simp_all add: composite_ok_def)
  obtain r st' where run: "composite_records b fetchp fetchf q (ws, p, f) = (r, st')"
    by (cases "composite_records b fetchp fetchf q (ws, p, f)")
  from composite_cases [OF run] show ?thesis
    using p.state_ok [OF ok(1), of q] f.state_ok [OF ok(2), of q] ok
    by (auto simp: st run composite_ok_def)
qed

end

sublocale two_sources \<subseteq> composite: history_source "composite_records b fetchp fetchf" "composite_ok okp okf" for b
  by unfold_locales (auto dest: composite_answer composite_state)

text \<open>The program's composition: the explorer first, the RPC window behind it.\<close>

interpretation history: two_sources "explorer_records explorer api_key" explorer_ok "window_records call cfg" window_ok
  for explorer api_key call cfg ..

section \<open>Properties\<close>

text \<open>C27. The bounded selection keeps the nearest records: it returns at most the limit (one for a
  limit below one), only given records, none twice, in the order of their distance to the
  anchor; and any record it leaves out, that it does not hold an equal of, is no nearer to the
  anchor than any record it keeps.\<close>

theorem history_selection_nearest:
  "int (length (bounded_unique rs limit anchor)) \<le> max 1 limit
     \<and> distinct (map record_identity (bounded_unique rs limit anchor))
     \<and> set (bounded_unique rs limit anchor) \<subseteq> set rs
     \<and> sorted (map (record_rank anchor) (bounded_unique rs limit anchor))
     \<and> list_all (\<lambda>r. record_identity r \<in> record_identity ` set (bounded_unique rs limit anchor)
          \<or> list_all (\<lambda>k. record_rank anchor k \<le> record_rank anchor r) (bounded_unique rs limit anchor)) rs"
  using bounded_unique_distinct bounded_unique_subset bounded_unique_sorted bounded_unique_nearest
  by (auto simp: list_all_iff bounded_unique_take)

text \<open>The block window stays inside the request and around the anchor: for a non-empty request and
  a positive budget the scanned window is non-empty, lies inside the requested range, has at
  most the budgeted number of blocks (exactly that many when the range was capped), reports
  the cap exactly when there was one, and contains the anchor when the request did.\<close>

theorem history_window:
  assumes "start \<le> finish" and "1 \<le> n" and "bounded_window start finish anchor n = (s, e, capped)"
  shows "start \<le> s \<and> s \<le> e \<and> e \<le> finish \<and> e - s + 1 \<le> n
     \<and> (capped \<longleftrightarrow> n < finish - start + 1) \<and> (if capped then e - s + 1 = n else s = start \<and> e = finish)
     \<and> (if start \<le> anchor \<and> anchor \<le> finish then s \<le> anchor \<and> anchor \<le> e else True)"
proof -
  have "s = start \<and> e = finish" if "\<not> capped"
    using assms that by (auto simp: bounded_window_def Let_def split: if_splits)
  then show ?thesis using bounded_window_facts [OF assms] by auto
qed

theorem history_window_witness: "bounded_window 100 199 130 11 = (125, 135, True) \<and> (125::int) \<le> 130 \<and> (130::int) \<le> 135"
proof -
  have w: "bounded_window 100 199 130 11 = (125, 135, True)" by (simp add: bounded_window_def Let_def)
  from history_window [OF _ _ w] w show ?thesis by simp
qed

text \<open>The composed history source keeps its contract: whichever of the explorer and the RPC window
  answers, from a cache or fresh, after any failures before, an answer holds at most the
  requested number of records, none twice, and the caches stay such that later answers do too.\<close>

theorem history_answers_bounded:
  assumes "composite_ok explorer_ok window_ok st"
    and "composite_records b (explorer_records explorer api_key) (window_records call cfg) q st = (Inr rs, st')"
  shows "int (length rs) \<le> max 1 (qu_limit q) \<and> distinct (map record_identity rs)
     \<and> composite_ok explorer_ok window_ok st'"
  using history.composite_answer [OF assms] history.composite_state [OF assms(1), of b _ _ call cfg q] assms(2)
  by (metis snd_conv)

definition demo_query :: query where
  "demo_query = \<lparr> qu_chain_id = 1, qu_address = ''0xAA'', qu_start = 10, qu_end = 40, qu_anchor = 20, qu_limit = 5 \<rparr>"

definition demo_record :: history_record where
  "demo_record = \<lparr> hr_transaction_hash = ''0x1'', hr_block_number = 20, hr_transaction_index = None, hr_timestamp = None,
     hr_sender = Some ''0xaa'', hr_recipient = None, hr_record_type = ''normal'', hr_value = None,
     hr_asset_address = None, hr_token_id = None, hr_source = ''rpc'' \<rparr>"

definition demo_sources :: "string list \<times> explorer_state \<times> window_state" where
  "demo_sources = ([], \<lparr> es_warnings = [], es_cache = [] \<rparr>,
     \<lparr> ws_warnings = [], ws_normal_cache = [], ws_address_cache = [((''0xaa'', 16, 25, 5), [demo_record])] \<rparr>)"

definition demo_window_config :: window_config where
  "demo_window_config = \<lparr> wc_max_blocks = 10, wc_max_transactions = 100, wc_log_chunk_blocks = 10 \<rparr>"

theorem history_answers_bounded_witness:
  "\<exists>st'. composite_records False (explorer_records (\<lambda>a1 a2 a3 a4 a5 a6 a7. Inl HttpError) ''k'')
       (window_records (\<lambda>m ps. Inl RpcError) demo_window_config) demo_query demo_sources = (Inr [demo_record], st')
     \<and> composite_ok explorer_ok window_ok st'"
proof -
  let ?run = "composite_records False (explorer_records (\<lambda>a1 a2 a3 a4 a5 a6 a7. Inl HttpError) ''k'')
       (window_records (\<lambda>m ps. Inl RpcError) demo_window_config) demo_query demo_sources"
  have ok: "composite_ok explorer_ok window_ok demo_sources"
    by (simp add: composite_ok_def demo_sources_def explorer_ok_def window_ok_def)
  have low: "lower ''0xAA'' = ''0xaa''" by code_simp
  obtain st' where run: "?run = (Inr [demo_record], st')"
    by (simp add: composite_records_def demo_sources_def window_records_def window_fetch_def demo_query_def
        demo_window_config_def bounded_window_def Let_def low)
  from history_answers_bounded [OF ok run] run show ?thesis by auto
qed

end
