(* ===== verification/Abi.thy ===== *)
theory Abi
  imports Simulation Keccak Store
begin

text \<open>
  \<^verbatim>\<open>src/white_radar/abi.py\<close>: canonical types and signatures of ABI entries, the selector
  catalog, the decoding of static arguments and of events, and \<^verbatim>\<open>AbiResolver\<close> with its memory
  and its catalog in the store. A method of the resolver returns its result, which may be an
  exception, and the resolver's state at that point. \<^verbatim>\<open>bytes.decode("utf-8", errors="replace")\<close>
  is the argument \<open>utf8\<close>, \<^verbatim>\<open>json.loads\<close> is \<open>loads\<close>.
\<close>

section \<open>Signatures\<close>

lemma component_size:
  "py_or (dget d k) (JList []) = JList cs \<Longrightarrow> c \<in> set cs \<Longrightarrow> jsize c < jsize (JObj d)"
proof -
  assume cs: "py_or (dget d k) (JList []) = JList cs" and c: "c \<in> set cs"
  then have "map_of d k = Some (JList cs)"
    by (auto simp: py_or_def dget_def split: if_splits option.splits)
  then have "jsize (JList cs) < jsize (JObj d)" by (rule jsize_lookup)
  moreover have "jsize c < jsize (JList cs)"
    using member_le_sum_list [of "jsize c" "map jsize cs"] c by (auto simp: less_Suc_eq_le)
  ultimately show "jsize c < jsize (JObj d)" by (rule less_trans [rotated])
qed

function canonical_abi_type :: "json \<Rightarrow> string res" where
  "canonical_abi_type (JObj d) =
     (let t = str_or (dget d ''type'') [] in
      if \<not> startswith ''tuple'' t then Inr t
      else case py_or (dget d ''components'') (JList []) of
          JList cs \<Rightarrow> and_then (traverse canonical_abi_type cs)
             (\<lambda>ts. Inr (''('' @ join '','' ts @ '')'' @ removeprefix ''tuple'' t))
        | _ \<Rightarrow> Inr t)"
| "canonical_abi_type JNull = Inl AttributeError"
| "canonical_abi_type (JBool b) = Inl AttributeError"
| "canonical_abi_type (JInt i) = Inl AttributeError"
| "canonical_abi_type (JStr s) = Inl AttributeError"
| "canonical_abi_type (JList xs) = Inl AttributeError"
  by pat_completeness auto
termination
  by (relation "measure jsize") (auto dest: component_size simp del: jsize.simps)

definition signature_of :: "dict \<Rightarrow> string option res" where
  "signature_of entry =
     (case py_or (dget entry ''inputs'') (JList []) of
        JList inputs \<Rightarrow> and_then (traverse canonical_abi_type inputs)
          (\<lambda>ts. Inr (Some (py_str (dget entry ''name'') @ ''('' @ join '','' ts @ '')'')))
      | _ \<Rightarrow> Inr None)"

definition function_signature :: "dict \<Rightarrow> string option res" where
  "function_signature entry =
     (if dget entry ''type'' \<noteq> JStr ''function'' \<or> \<not> truthy (dget entry ''name'') then Inr None
      else signature_of entry)"

definition event_signature :: "dict \<Rightarrow> string option res" where
  "event_signature entry =
     (if dget entry ''type'' \<noteq> JStr ''event'' \<or> \<not> truthy (dget entry ''name'') \<or> truthy (dget entry ''anonymous'')
      then Inr None else signature_of entry)"

definition MAX_ABI_ENTRIES :: nat where "MAX_ABI_ENTRIES = 2000"

definition catalog_of_signatures :: "string list \<Rightarrow> (string \<times> string) list" where
  "catalog_of_signatures signatures =
     map (\<lambda>sel. (sel, join '' | '' (sort (fromkeys (filter (\<lambda>s. selector_for_signature s = sel) signatures)))))
       (sort (fromkeys (map selector_for_signature signatures)))"

definition build_selector_catalog :: "dict list \<Rightarrow> (string \<times> string) list res" where
  "build_selector_catalog abi =
     and_then (traverse function_signature (take MAX_ABI_ENTRIES abi)) (\<lambda>sigs.
       Inr (catalog_of_signatures (filter (\<lambda>s. s \<noteq> []) (List.map_filter (\<lambda>s. s) sigs))))"

definition abi_function :: "string \<Rightarrow> (string \<times> string) list \<Rightarrow> dict" where
  "abi_function name inputs =
     [(''type'', JStr ''function''), (''name'', JStr name),
      (''inputs'', JList (map (\<lambda>(n, t). JObj [(''name'', JStr n), (''type'', JStr t)]) inputs))]"

definition BUILTIN_FUNCTIONS :: "dict list" where
  "BUILTIN_FUNCTIONS =
     [abi_function ''transfer'' [(''to'', ''address''), (''amount'', ''uint256'')],
      abi_function ''approve'' [(''spender'', ''address''), (''amount'', ''uint256'')],
      abi_function ''transferFrom'' [(''from'', ''address''), (''to'', ''address''), (''valueOrTokenId'', ''uint256'')],
      abi_function ''balanceOf'' [(''account'', ''address'')],
      abi_function ''allowance'' [(''owner'', ''address''), (''spender'', ''address'')],
      abi_function ''totalSupply'' [],
      abi_function ''mint'' [(''to'', ''address''), (''amount'', ''uint256'')],
      abi_function ''burn'' [(''amount'', ''uint256'')],
      abi_function ''burnFrom'' [(''account'', ''address''), (''amount'', ''uint256'')],
      abi_function ''safeTransferFrom'' [(''from'', ''address''), (''to'', ''address''), (''tokenId'', ''uint256'')],
      abi_function ''setApprovalForAll'' [(''operator'', ''address''), (''approved'', ''bool'')],
      abi_function ''safeTransferFrom'' [(''from'', ''address''), (''to'', ''address''), (''id'', ''uint256''),
        (''amount'', ''uint256''), (''data'', ''bytes'')],
      abi_function ''upgradeTo'' [(''newImplementation'', ''address'')],
      abi_function ''upgradeToAndCall'' [(''newImplementation'', ''address''), (''data'', ''bytes'')],
      abi_function ''implementation'' [],
      abi_function ''owner'' [],
      abi_function ''grantRole'' [(''role'', ''bytes32''), (''account'', ''address'')],
      abi_function ''revokeRole'' [(''role'', ''bytes32''), (''account'', ''address'')]]"

definition BUILTIN_SELECTORS :: "(string \<times> string) list" where
  "BUILTIN_SELECTORS = (case build_selector_catalog BUILTIN_FUNCTIONS of Inl e \<Rightarrow> [] | Inr c \<Rightarrow> c)"

definition BUILTIN_ITEMS :: "(string \<times> dict) list" where
  "BUILTIN_ITEMS = List.map_filter (\<lambda>entry. case function_signature entry of
      Inr (Some s) \<Rightarrow> Some (selector_for_signature s, entry) | _ \<Rightarrow> None) (rev BUILTIN_FUNCTIONS)"

section \<open>Decoding words\<close>

definition hex0x :: "bytes \<Rightarrow> string" where
  "hex0x raw = ''0x'' @ hex_of raw"

definition decode_word :: "string \<Rightarrow> bytes \<Rightarrow> json" where
  "decode_word type_name word =
     (if type_name = ''address'' then JStr (hex0x (last_n 20 word))
      else if type_name = ''bool'' then JBool (from_be word \<noteq> 0)
      else if startswith ''uint'' type_name then JInt (int (from_be word))
      else if startswith ''int'' type_name then JInt (from_be_signed word)
      else if startswith ''bytes'' type_name \<and> type_name \<noteq> ''bytes'' then
        (let n = (case py_int10 (drop 5 type_name) of Inl e \<Rightarrow> 32 | Inr n \<Rightarrow> n)
         in JStr (hex0x (take (nat (max 0 (min 32 n))) word)))
      else JStr (hex0x word))"

definition dynamic_type :: "string \<Rightarrow> bool" where
  "dynamic_type t = (t \<in> {''string'', ''bytes''} \<or> CHR ''['' \<in> set t \<or> startswith ''('' t)"

definition put_field :: "string \<Rightarrow> json \<Rightarrow> dict \<Rightarrow> dict" where
  "put_field k v d = upsert_row fst (\<lambda>old new. new) (k, v) d"

definition argument_name :: "dict \<Rightarrow> nat \<Rightarrow> string" where
  "argument_name d i = str_or (dget d ''name'') (''arg'' @ nat_str i)"

fun static_loop :: "bytes \<Rightarrow> nat \<Rightarrow> json list \<Rightarrow> dict \<Rightarrow> dict res" where
  "static_loop raw i [] decoded = Inr decoded"
| "static_loop raw i (entry # rest) decoded =
     (case entry of
        JObj d \<Rightarrow>
          and_then (canonical_abi_type (JObj d)) (\<lambda>t.
            if length raw < i * 32 + 32 then Inr decoded
            else if dynamic_type t
            then static_loop raw (Suc i) rest (put_field (argument_name d i) (JStr ''<dynamic>'') decoded)
            else static_loop raw (Suc i) rest
              (put_field (argument_name d i) (decode_word t (take 32 (drop (i * 32) raw))) decoded))
      | _ \<Rightarrow> static_loop raw (Suc i) rest decoded)"

definition decode_static_arguments :: "dict \<Rightarrow> string \<Rightarrow> int \<Rightarrow> dict res" where
  "decode_static_arguments abi_item calldata limit =
     (case py_or (dget abi_item ''inputs'') (JList []) of
        JList inputs \<Rightarrow>
          if \<not> startswith ''0x'' calldata then Inr []
          else (case fromhex (drop 10 calldata) of
             None \<Rightarrow> Inr []
           | Some raw \<Rightarrow> static_loop raw 0 (take (nat (max 0 limit)) inputs) [])
      | _ \<Rightarrow> Inr [])"

section \<open>Decoding events\<close>

definition MAX_EVENT_ARGUMENTS :: nat where "MAX_EVENT_ARGUMENTS = 64"
definition MAX_DYNAMIC_EVENT_BYTES :: nat where "MAX_DYNAMIC_EVENT_BYTES = 4096"

definition decode_dynamic_event_value :: "(bytes \<Rightarrow> string) \<Rightarrow> string \<Rightarrow> bytes \<Rightarrow> nat \<Rightarrow> string" where
  "decode_dynamic_event_value utf8 type_name raw head_offset =
     (if length raw < head_offset + 32 then ''<unavailable>''
      else
        (let offset = from_be (take 32 (drop head_offset raw)) in
         if offset mod 32 \<noteq> 0 \<or> length raw < offset + 32 then ''<invalid-offset>''
         else if type_name \<noteq> ''string'' \<and> type_name \<noteq> ''bytes'' then ''<dynamic:'' @ type_name @ ''>''
         else
           (let n = from_be (take 32 (drop offset raw));
                start = offset + 32;
                selected_length = min n (min (length raw - start) MAX_DYNAMIC_EVENT_BYTES);
                v = take selected_length (drop start raw);
                suffix = (if selected_length < n then ''<truncated>'' else [])
            in (if type_name = ''string'' then utf8 v else hex0x v) @ suffix)))"

definition decode_topic :: "string \<Rightarrow> string \<Rightarrow> json" where
  "decode_topic t topic =
     (if dynamic_type t then JObj [(''indexed_hash'', JStr (lower topic))]
      else case fromhex (removeprefix ''0x'' topic) of
        None \<Rightarrow> JStr ''<invalid-topic>''
      | Some word \<Rightarrow> if length word = 32 then decode_word t word else JStr ''<invalid-topic>'')"

definition decode_event_data :: "(bytes \<Rightarrow> string) \<Rightarrow> string \<Rightarrow> bytes \<Rightarrow> nat \<Rightarrow> json" where
  "decode_event_data utf8 t raw head_offset =
     (if dynamic_type t then JStr (decode_dynamic_event_value utf8 t raw head_offset)
      else if head_offset + 32 \<le> length raw then decode_word t (take 32 (drop head_offset raw))
      else JStr ''<missing-data>'')"

fun event_loop ::
  "(bytes \<Rightarrow> string) \<Rightarrow> string list \<Rightarrow> bytes \<Rightarrow> nat \<Rightarrow> nat \<Rightarrow> nat \<Rightarrow> json list \<Rightarrow> dict \<Rightarrow> dict res" where
  "event_loop utf8 topics raw i ti di [] decoded = Inr decoded"
| "event_loop utf8 topics raw i ti di (entry # rest) decoded =
     (case entry of
        JObj d \<Rightarrow>
          and_then (canonical_abi_type (JObj d)) (\<lambda>t.
            if truthy (dget d ''indexed'')
            then event_loop utf8 topics raw (Suc i) (Suc ti) di rest
              (put_field (argument_name d i)
                (if length topics \<le> ti then JStr ''<missing-topic>'' else decode_topic t (topics ! ti)) decoded)
            else event_loop utf8 topics raw (Suc i) ti (Suc di) rest
              (put_field (argument_name d i) (decode_event_data utf8 t raw (di * 32)) decoded))
      | _ \<Rightarrow> event_loop utf8 topics raw (Suc i) ti di rest decoded)"

definition decode_event_arguments :: "(bytes \<Rightarrow> string) \<Rightarrow> dict \<Rightarrow> string list \<Rightarrow> string \<Rightarrow> dict res" where
  "decode_event_arguments utf8 abi_item topics data =
     (case py_or (dget abi_item ''inputs'') (JList []) of
        JList inputs \<Rightarrow>
          event_loop utf8 topics (case fromhex (removeprefix ''0x'' data) of None \<Rightarrow> [] | Some raw \<Rightarrow> raw)
            0 1 0 (take MAX_EVENT_ARGUMENTS inputs) []
      | _ \<Rightarrow> Inr [])"

section \<open>The resolver\<close>

type_synonym identity = "int \<times> string"
type_synonym verified_abi = "dict list \<times> string \<times> string"

record resolver =
  rv_memory :: "(identity \<times> verified_abi) list"
  rv_unavailable :: "identity list"
  rv_store :: store

text \<open>The outside of the resolver: the explorer's answer (\<open>None\<close> without an API key), the JSON
  parser, the digest, the decoder of texts and the clock.\<close>

record abi_env =
  ae_fetch :: "int \<Rightarrow> string \<Rightarrow> json res option"
  ae_loads :: "string \<Rightarrow> json option"
  ae_sha256 :: "bytes \<Rightarrow> string"
  ae_utf8 :: "bytes \<Rightarrow> string"
  ae_clock :: clock

definition MAX_ABI_BYTES :: nat where "MAX_ABI_BYTES = 2000000"

text \<open>\<^verbatim>\<open>len(raw.encode("utf-8"))\<close> for Latin-1 text.\<close>

definition utf8_length :: "string \<Rightarrow> nat" where
  "utf8_length s = sum_list (map (\<lambda>c. if code_pt c < 128 then 1 else 2) s)"

definition fetch_etherscan :: "abi_env \<Rightarrow> int \<Rightarrow> string \<Rightarrow> dict list option res" where
  "fetch_etherscan env chain_id address =
     (case ae_fetch env chain_id address of
        None \<Rightarrow> Inr None
      | Some (Inl e) \<Rightarrow> if e = HttpError then Inr None else Inl e
      | Some (Inr (JObj response)) \<Rightarrow>
          (case dget response ''result'' of
             JStr raw \<Rightarrow>
               if MAX_ABI_BYTES < utf8_length raw then Inr None
               else (case ae_loads env raw of
                  Some (JList parsed) \<Rightarrow>
                    if MAX_ABI_ENTRIES < length parsed then Inr None else Inr (Some (only_dicts parsed))
                | _ \<Rightarrow> Inr None)
           | _ \<Rightarrow> Inr None)
      | Some (Inr _) \<Rightarrow> Inr None)"

definition remember_abi :: "identity \<Rightarrow> verified_abi \<Rightarrow> resolver \<Rightarrow> resolver" where
  "remember_abi key v r =
     r\<lparr> rv_memory := upsert_row fst (\<lambda>old new. new) (key, v) (rv_memory r),
        rv_unavailable := filter (\<lambda>k. k \<noteq> key) (rv_unavailable r) \<rparr>"

definition load_verified_abi ::
  "abi_env \<Rightarrow> int \<Rightarrow> string \<Rightarrow> bool \<Rightarrow> resolver \<Rightarrow> verified_abi option res \<times> resolver" where
  "load_verified_abi env chain_id address refresh r =
     (let key = (chain_id, lower address) in
      case (if refresh then None else map_of (rv_memory r) key) of
        Some hit \<Rightarrow> (Inr (Some hit), r)
      | None \<Rightarrow>
          if \<not> refresh \<and> key \<in> set (rv_unavailable r) then (Inr None, r)
          else (case fetch_etherscan env chain_id address of
             Inl e \<Rightarrow> (Inl e, r)
           | Inr None \<Rightarrow> (Inr None, r\<lparr> rv_unavailable := List.insert key (rv_unavailable r) \<rparr>)
           | Inr (Some abi) \<Rightarrow>
               (let digest = ae_sha256 env (ascii_bytes (json_dumps (JList (map JObj abi))));
                    v = (abi, ''Etherscan'', digest);
                    r1 = remember_abi key v r
                in case build_selector_catalog abi of
                     Inl e \<Rightarrow> (Inl e, r1)
                   | Inr selectors \<Rightarrow>
                       (Inr (Some v), r1\<lparr> rv_store :=
                          upsert_abi_catalog (ae_clock env) chain_id address ''Etherscan'' digest selectors (rv_store r1) \<rparr>))))"

type_synonym catalog_answer = "(string \<times> string) list \<times> string option \<times> string option"

definition abi_catalog ::
  "abi_env \<Rightarrow> int \<Rightarrow> string \<Rightarrow> bool \<Rightarrow> resolver \<Rightarrow> catalog_answer res \<times> resolver" where
  "abi_catalog env chain_id address refresh r =
     (case (if refresh then None else get_abi_catalog (rv_store r) chain_id address) of
        Some row \<Rightarrow> (Inr (ab_selectors row, Some (ab_source row), Some (ab_sha256 row)), r)
      | None \<Rightarrow>
          if \<not> refresh \<and> (chain_id, lower address) \<in> set (rv_unavailable r) then (Inr ([], None, None), r)
          else (case load_verified_abi env chain_id address refresh r of
             (Inl e, r1) \<Rightarrow> (Inl e, r1)
           | (Inr None, r1) \<Rightarrow> (Inr ([], None, None), r1)
           | (Inr (Some (abi, source, digest)), r1) \<Rightarrow>
               (case build_selector_catalog abi of
                  Inl e \<Rightarrow> (Inl e, r1)
                | Inr selectors \<Rightarrow> (Inr (selectors, Some source, Some digest), r1))))"

record decoded_call =
  dc_selector :: string
  dc_signature :: "string option"
  dc_arguments :: dict
  dc_source :: "string option"
  dc_abi_sha256 :: "string option"
  dc_confidence :: "string option"

record decoded_event =
  de_topic0 :: string
  de_signature :: string
  de_name :: string
  de_arguments :: dict
  de_source :: string
  de_abi_sha256 :: string
  de_confidence :: string

text \<open>\<^verbatim>\<open>next((x for x in xs if test(x)), None)\<close> with a test that may raise.\<close>

fun find_res :: "('a \<Rightarrow> bool res) \<Rightarrow> 'a list \<Rightarrow> 'a option res" where
  "find_res test [] = Inr None"
| "find_res test (x # xs) = and_then (test x) (\<lambda>b. if b then Inr (Some x) else find_res test xs)"

definition BUILTIN_SELECTOR_SOURCE :: string where
  "BUILTIN_SELECTOR_SOURCE = ''built-in selector hint (unverified)''"

fun has_bar :: "string \<Rightarrow> bool" where
  "has_bar [] = False"
| "has_bar (c # cs) = (startswith '' | '' (c # cs) \<or> has_bar cs)"

definition or_text :: "string option \<Rightarrow> string option \<Rightarrow> string option" where
  "or_text a b = (if truthy_opt a then a else b)"

definition memory_arguments :: "resolver \<Rightarrow> int \<Rightarrow> string \<Rightarrow> string option \<Rightarrow> string \<Rightarrow> dict res" where
  "memory_arguments r chain_id address signature calldata =
     (case (signature, map_of (rv_memory r) (chain_id, lower address)) of
        (Some s, Some (abi, v)) \<Rightarrow>
          if s = [] \<or> has_bar s then Inr []
          else and_then (find_res (\<lambda>entry. and_then (function_signature entry) (\<lambda>x. Inr (x = Some s))) abi)
            (\<lambda>found. case found of None \<Rightarrow> Inr []
               | Some entry \<Rightarrow> if entry = [] then Inr [] else decode_static_arguments entry calldata 16)
      | _ \<Rightarrow> Inr [])"

definition builtin_arguments :: "string \<Rightarrow> string option \<Rightarrow> string \<Rightarrow> dict \<Rightarrow> dict res" where
  "builtin_arguments selector signature calldata arguments =
     (let builtin = map_of BUILTIN_SELECTORS selector in
      if arguments = [] \<and> truthy_opt builtin \<and> signature = builtin
      then (case map_of BUILTIN_ITEMS selector of
          None \<Rightarrow> Inr arguments | Some entry \<Rightarrow> decode_static_arguments entry calldata 16)
      else Inr arguments)"

definition confidence_of :: "string option \<Rightarrow> string option \<Rightarrow> string option \<Rightarrow> string option" where
  "confidence_of verified provided builtin =
     (if truthy_opt verified then Some ''verified''
      else if truthy_opt provided then Some ''provided_hint''
      else if truthy_opt builtin then Some ''candidate'' else None)"

definition abi_resolve ::
  "abi_env \<Rightarrow> int \<Rightarrow> string \<Rightarrow> string \<Rightarrow> string option \<Rightarrow> resolver \<Rightarrow> decoded_call res \<times> resolver" where
  "abi_resolve env chain_id address calldata fallback_signature r =
     (let selector = (if 10 \<le> length calldata then lower (take 10 calldata) else ''0x'') in
      case abi_catalog env chain_id address False r of
        (Inl e, r1) \<Rightarrow> (Inl e, r1)
      | (Inr (selectors, source, digest), r1) \<Rightarrow>
          (let verified = map_of selectors selector;
               builtin = map_of BUILTIN_SELECTORS selector;
               signature = or_text verified (or_text fallback_signature builtin);
               confidence = confidence_of verified fallback_signature builtin
           in (and_then (memory_arguments r1 chain_id address signature calldata) (\<lambda>a1.
                 and_then (builtin_arguments selector signature calldata a1) (\<lambda>arguments.
                 Inr \<lparr> dc_selector = selector, dc_signature = signature, dc_arguments = arguments,
                   dc_source = (if confidence = Some ''candidate'' then Some BUILTIN_SELECTOR_SOURCE else source),
                   dc_abi_sha256 = digest, dc_confidence = confidence \<rparr>)), r1)))"

definition event_matches :: "string \<Rightarrow> dict \<Rightarrow> bool res" where
  "event_matches topic0 entry =
     and_then (event_signature entry) (\<lambda>s. Inr (case s of None \<Rightarrow> False
        | Some signature \<Rightarrow> signature \<noteq> [] \<and> topic_for_event_signature signature = topic0))"

definition abi_resolve_event ::
  "abi_env \<Rightarrow> int \<Rightarrow> string \<Rightarrow> string list \<Rightarrow> string \<Rightarrow> resolver \<Rightarrow> decoded_event option res \<times> resolver" where
  "abi_resolve_event env chain_id address topics data r =
     (case topics of
        [] \<Rightarrow> (Inr None, r)
      | t # ts \<Rightarrow>
          (case load_verified_abi env chain_id address False r of
             (Inl e, r1) \<Rightarrow> (Inl e, r1)
           | (Inr None, r1) \<Rightarrow> (Inr None, r1)
           | (Inr (Some (abi, source, digest)), r1) \<Rightarrow>
               (and_then (find_res (event_matches (lower t)) (take MAX_ABI_ENTRIES abi)) (\<lambda>found.
                  case found of None \<Rightarrow> Inr None
                  | Some entry \<Rightarrow> and_then (event_signature entry) (\<lambda>s. case s of None \<Rightarrow> Inr None
                     | Some signature \<Rightarrow> and_then (decode_event_arguments (ae_utf8 env) entry topics data) (\<lambda>arguments.
                         Inr (Some \<lparr> de_topic0 = lower t, de_signature = signature,
                           de_name = py_str (dget entry ''name''), de_arguments = arguments,
                           de_source = source, de_abi_sha256 = digest, de_confidence = ''verified'' \<rparr>)))), r1)))"

section \<open>Lemmas\<close>

lemma find_res_sound: "find_res test xs = Inr (Some x) \<Longrightarrow> x \<in> set xs \<and> test x = Inr True"
  by (induction xs) (auto simp: and_then_eq_Inr split: if_splits)

text \<open>An event is named only by an entry whose signature hashes to the topic.\<close>

lemma resolve_event_topic:
  assumes "abi_resolve_event env c a (t # ts) data r = (Inr (Some d), r')"
  shows "topic_for_event_signature (de_signature d) = lower t \<and> de_topic0 d = lower t"
proof -
  obtain abi source digest r1 where l: "load_verified_abi env c a False r = (Inr (Some (abi, source, digest)), r1)"
    using assms unfolding abi_resolve_event_def list.case
    by (cases "load_verified_abi env c a False r")
      (auto split: sum.splits option.splits)
  then obtain entry signature arguments where
    e: "find_res (event_matches (lower t)) (take MAX_ABI_ENTRIES abi) = Inr (Some entry)"
    and s: "event_signature entry = Inr (Some signature)"
    and d: "d = \<lparr> de_topic0 = lower t, de_signature = signature,
        de_name = py_str (dget entry ''name''), de_arguments = arguments,
        de_source = source, de_abi_sha256 = digest, de_confidence = ''verified'' \<rparr>"
    using assms unfolding abi_resolve_event_def list.case l prod.case sum.case option.case and_then_eq_Inr prod.inject
    by (auto simp: and_then_eq_Inr split: option.splits)
  from find_res_sound [OF e] s have "topic_for_event_signature signature = lower t"
    by (simp add: event_matches_def)
  then show ?thesis by (simp add: d)
qed

text \<open>A catalog has one entry per selector.\<close>

lemma catalog_keys: "map fst (catalog_of_signatures sigs) = sort (fromkeys (map selector_for_signature sigs))"
  by (simp add: catalog_of_signatures_def comp_def)

lemma catalog_distinct: "distinct (map fst (catalog_of_signatures sigs))"
  by (simp add: catalog_keys)

lemma map_of_map_self: "map_of (map (\<lambda>k. (k, f k)) ks) k = (if k \<in> set ks then Some (f k) else None)"
  by (induction ks) auto

text \<open>The catalog's entry for a selector lists exactly the signatures with that selector.\<close>

lemma catalog_lookup:
  "map_of (catalog_of_signatures sigs) sel =
     (if sel \<in> selector_for_signature ` set sigs
      then Some (join '' | '' (sort (fromkeys (filter (\<lambda>s. selector_for_signature s = sel) sigs)))) else None)"
  by (simp add: catalog_of_signatures_def map_of_map_self)

text \<open>Static decoding reads at most one word per argument, within the data.\<close>

lemma length_put_field: "length (put_field k v d) \<le> Suc (length d)"
  by (simp add: put_field_def upsert_row_def)

lemma static_loop_length: "static_loop raw i inputs acc = Inr d \<Longrightarrow> length d \<le> length acc + length inputs"
proof (induction inputs arbitrary: i acc)
  case (Cons entry rest)
  have step: "length d \<le> length acc + length (entry # rest)"
    if "static_loop raw (Suc i) rest (put_field k v acc) = Inr d" for k v
    using Cons.IH [OF that] length_put_field [of k v acc] by simp
  have skip: "length d \<le> length acc + length (entry # rest)" if "static_loop raw (Suc i) rest acc = Inr d"
    using Cons.IH [OF that] by simp
  show ?case
  proof (cases entry)
    case (JObj x)
    with Cons.prems show ?thesis
      by (auto simp: and_then_eq_Inr simp del: canonical_abi_type.simps split: if_splits dest: step)
  qed (use Cons.prems skip in simp_all)
qed simp

lemma static_arguments_bound:
  "decode_static_arguments entry calldata n = Inr d \<Longrightarrow> length d \<le> nat (max 0 n)"
  by (auto simp: decode_static_arguments_def dest!: static_loop_length split: json.splits if_splits option.splits)

section \<open>Properties\<close>

text \<open>A selector catalog answers for a selector exactly when a function of the ABI has it, and then
  with every signature that has it, in order and once; each selector has one entry.\<close>

theorem selector_catalog_exact:
  "map_of (catalog_of_signatures sigs) sel =
     (if sel \<in> selector_for_signature ` set sigs
      then Some (join '' | '' (sort (fromkeys (filter (\<lambda>s. selector_for_signature s = sel) sigs)))) else None)
   \<and> distinct (map fst (catalog_of_signatures sigs))"
  using catalog_lookup catalog_distinct by blast

text \<open>An event is named only by evidence: whenever the resolver decodes a log, the signature it
  reports hashes (Keccak-256) to the first topic of that log.\<close>

theorem event_named_by_topic:
  assumes "abi_resolve_event env c a (t # ts) data r = (Inr (Some d), r')"
  shows "topic_for_event_signature (de_signature d) = lower t \<and> de_topic0 d = lower t"
  using assms by (rule resolve_event_topic)

definition demo_event_abi :: dict where
  "demo_event_abi = [(''type'', JStr ''event''), (''name'', JStr ''Ping''), (''inputs'', JList [])]"

definition demo_abi_env :: abi_env where
  "demo_abi_env = \<lparr> ae_fetch = (\<lambda>c a. None), ae_loads = (\<lambda>s. None), ae_sha256 = (\<lambda>b. ''h''), ae_utf8 = (\<lambda>b. []),
     ae_clock = demo_clock \<rparr>"

definition demo_abi_resolver :: resolver where
  "demo_abi_resolver = \<lparr> rv_memory = [((1, ''0xaa''), ([demo_event_abi], ''Etherscan'', ''d''))], rv_unavailable = [],
     rv_store = empty_store \<rparr>"

theorem event_named_by_topic_witness:
  "\<exists>d. abi_resolve_event demo_abi_env 1 ''0xaa'' [topic_for_event_signature ''Ping()''] ''0x'' demo_abi_resolver
       = (Inr (Some d), demo_abi_resolver) \<and> topic_for_event_signature (de_signature d) = topic_for_event_signature ''Ping()''"
proof -
  have sig: "event_signature demo_event_abi = Inr (Some ''Ping()'')" by code_simp
  have args: "decode_event_arguments f demo_event_abi ts ''0x'' = Inr []" for f ts
    by (simp add: decode_event_arguments_def demo_event_abi_def dget_def py_or_def)
  have low: "lower ''0xaa'' = ''0xaa''" by code_simp
  obtain d where run: "abi_resolve_event demo_abi_env 1 ''0xaa'' [topic_for_event_signature ''Ping()''] ''0x'' demo_abi_resolver
       = (Inr (Some d), demo_abi_resolver)"
    by (simp add: abi_resolve_event_def load_verified_abi_def demo_abi_resolver_def low lower_topic
        event_matches_def sig args MAX_ABI_ENTRIES_def)
  from event_named_by_topic [OF run] run show ?thesis by (auto simp: lower_topic)
qed

end
