(* ===== verification/Call_Graph.thy ===== *)
theory Call_Graph
  imports Abi Evidence "HOL-Library.Sublist"
begin

text \<open>
  The call graph of \<^verbatim>\<open>src/white_radar/investigation.py\<close>: the bounded flattening of a trace into
  frames with dotted paths, their decoding through the resolver, and the classification of the
  frames whose effects reached the chain. The lemmas relate the dotted paths to positions in
  the tree: the textual test for a failed ancestor is the test on positions.
\<close>

section \<open>Frames\<close>

definition MAX_CALL_FRAMES :: nat where "MAX_CALL_FRAMES = 2000"
definition MAX_ABI_DESTINATIONS :: nat where "MAX_ABI_DESTINATIONS = 32"
definition MAX_CALLDATA_BYTES :: nat where "MAX_CALLDATA_BYTES = 16384"

definition EXECUTION_COMMITTED :: string where "EXECUTION_COMMITTED = ''committed''"
definition EXECUTION_ATTEMPTED_REVERTED :: string where
  "EXECUTION_ATTEMPTED_REVERTED = ''attempted_reverted''"
definition EXECUTION_UNKNOWN :: string where "EXECUTION_UNKNOWN = ''unknown''"

definition VALUE_TRANSFER_CALL_TYPES :: "string list" where
  "VALUE_TRANSFER_CALL_TYPES = [''CALL'', ''CREATE'', ''CREATE2'', ''SELFDESTRUCT'']"

record call_frame =
  cf_path :: string
  cf_depth :: nat
  cf_call_type :: string
  cf_sender :: "string option"
  cf_recipient :: "string option"
  cf_value_wei :: int
  cf_gas :: int
  cf_gas_used :: int
  cf_selector :: string
  cf_function_signature :: "string option"
  cf_abi_source :: "string option"
  cf_error :: "string option"
  cf_revert_reason :: "string option"
  cf_execution_effect :: string
  cf_decode_confidence :: "string option"
  cf_decoded_arguments :: dict
  cf_calldata :: string
  cf_calldata_bytes :: nat
  cf_calldata_sha256 :: "string option"
  cf_calldata_truncated :: bool

text \<open>The ABI part of the loop: the addresses looked up so far and the resolver.\<close>

record abi_progress =
  ap_addresses :: "string list"
  ap_resolver :: resolver

definition via_proxy :: "decoded_call \<Rightarrow> decoded_call" where
  "via_proxy d = d\<lparr> dc_source := Some ((if truthy_opt (dc_source d) then the (dc_source d) else ''verified ABI'')
      @ '' via proxy implementation'') \<rparr>"

definition resolve_with_proxy ::
  "abi_env \<Rightarrow> int \<Rightarrow> string \<Rightarrow> string \<Rightarrow> string option \<Rightarrow> resolver \<Rightarrow> (decoded_call \<times> resolver) res" where
  "resolve_with_proxy env chain_id address calldata implementation r =
     (case abi_resolve env chain_id address calldata None r of
        (Inl e, r1) \<Rightarrow> Inl e
      | (Inr d, r1) \<Rightarrow>
          if truthy_opt (dc_signature d) \<or> \<not> truthy_opt implementation then Inr (d, r1)
          else (case abi_resolve env chain_id (the implementation) calldata None r1 of
             (Inl e, r2) \<Rightarrow> Inl e
           | (Inr i, r2) \<Rightarrow> Inr (if truthy_opt (dc_signature i) then via_proxy i else d, r2)))"

definition decode_frame ::
  "abi_env option \<Rightarrow> int \<Rightarrow> string option \<Rightarrow> string \<Rightarrow> string option \<Rightarrow> string \<Rightarrow> abi_progress
     \<Rightarrow> (decoded_call option \<times> abi_progress) res" where
  "decode_frame env chain_id implementation path recipient calldata p =
     (case (env, recipient) of
        (Some e, Some address) \<Rightarrow>
          if address \<in> set (ap_addresses p) \<or> length (ap_addresses p) < MAX_ABI_DESTINATIONS
          then and_then (resolve_with_proxy e chain_id address calldata
                 (if path = ''0'' \<and> implementation \<noteq> Some address then implementation else None) (ap_resolver p))
               (\<lambda>(d, r). Inr (Some d, \<lparr> ap_addresses = List.insert address (ap_addresses p), ap_resolver = r \<rparr>))
          else Inr (None, p)
      | _ \<Rightarrow> Inr (None, p))"

definition mk_frame ::
  "(bytes \<Rightarrow> string) \<Rightarrow> dict \<Rightarrow> nat \<Rightarrow> string \<Rightarrow> string \<Rightarrow> decoded_call option \<Rightarrow> int \<Rightarrow> int \<Rightarrow> int \<Rightarrow> call_frame" where
  "mk_frame sha256 d depth path calldata decoded v gas gas_used =
     (let raw = hex_data (JStr calldata); n = (case raw of None \<Rightarrow> 0 | Some b \<Rightarrow> length b) in
      \<lparr> cf_path = path, cf_depth = depth, cf_call_type = upper (str_or (dget d ''type'') ''CALL''),
        cf_sender = as_address (dget d ''from''), cf_recipient = as_address (dget d ''to''),
        cf_value_wei = v, cf_gas = gas, cf_gas_used = gas_used,
        cf_selector = (case decoded of Some c \<Rightarrow> dc_selector c | None \<Rightarrow> calldata_selector (JStr calldata)),
        cf_function_signature = (case decoded of Some c \<Rightarrow> dc_signature c | None \<Rightarrow> None),
        cf_abi_source = (case decoded of Some c \<Rightarrow> dc_source c | None \<Rightarrow> None),
        cf_error = none_if_empty (str_or (dget d ''error'') []),
        cf_revert_reason = none_if_empty (str_or (dget d ''revertReason'') []),
        cf_execution_effect = EXECUTION_UNKNOWN,
        cf_decode_confidence = (case decoded of Some c \<Rightarrow> dc_confidence c | None \<Rightarrow> None),
        cf_decoded_arguments = (case decoded of Some c \<Rightarrow> dc_arguments c | None \<Rightarrow> []),
        cf_calldata = (case raw of None \<Rightarrow> ''0x'' | Some b \<Rightarrow> hex0x (take MAX_CALLDATA_BYTES b)),
        cf_calldata_bytes = n,
        cf_calldata_sha256 = map_option sha256 raw,
        cf_calldata_truncated = (MAX_CALLDATA_BYTES < n) \<rparr>)"

text \<open>The body of the loop for one frame.\<close>

definition flatten_frame ::
  "(bytes \<Rightarrow> string) \<Rightarrow> abi_env option \<Rightarrow> int \<Rightarrow> string option \<Rightarrow> dict \<Rightarrow> nat \<Rightarrow> string \<Rightarrow> abi_progress
     \<Rightarrow> (call_frame \<times> abi_progress) res" where
  "flatten_frame sha256 env chain_id implementation d depth path p =
     (let calldata = str_or (dget d ''input'') ''0x'' in
      and_then (decode_frame env chain_id implementation path (as_address (dget d ''to'')) calldata p) (\<lambda>(decoded, p').
      and_then (hex_to_int (str_or (dget d ''value'') ''0x0'')) (\<lambda>v.
      and_then (hex_to_int (str_or (dget d ''gas'') ''0x0'')) (\<lambda>gas.
      and_then (hex_to_int (str_or (dget d ''gasUsed'') ''0x0'')) (\<lambda>gas_used.
        Inr (mk_frame sha256 d depth path calldata decoded v gas gas_used, p'))))))"

definition child_path :: "string \<Rightarrow> nat \<Rightarrow> string" where
  "child_path path i = path @ ''.'' @ nat_str i"

definition push_children :: "nat \<Rightarrow> string \<Rightarrow> json list \<Rightarrow> (json \<times> nat \<times> string) list" where
  "push_children depth path cs = map (\<lambda>(i, c). (c, Suc depth, child_path path i)) (enumerate 0 cs)"

lemma push_children_size:
  "sum_list (map (jsize \<circ> fst) (push_children depth path cs)) = sum_list (map jsize cs)"
proof -
  have "map (jsize \<circ> fst) (push_children depth path cs) = map jsize cs"
    by (simp add: push_children_def comp_def split_beta flip: map_map [of jsize snd, unfolded comp_def])
  then show ?thesis by simp
qed

function flatten_loop ::
  "(dict \<Rightarrow> nat \<Rightarrow> string \<Rightarrow> abi_progress \<Rightarrow> (call_frame \<times> abi_progress) res)
     \<Rightarrow> (json \<times> nat \<times> string) list \<Rightarrow> call_frame list \<Rightarrow> abi_progress
     \<Rightarrow> (call_frame list \<times> bool \<times> abi_progress) res" where
  "flatten_loop body [] fs p = Inr (fs, False, p)"
| "flatten_loop body ((raw, depth, path) # stack) fs p =
     (case raw of
        JObj d \<Rightarrow>
          if MAX_CALL_FRAMES \<le> length fs then Inr (fs, True, p)
          else and_then (body d depth path p) (\<lambda>(f, p').
            flatten_loop body (push_children depth path (frame_children d) @ stack) (fs @ [f]) p')
      | _ \<Rightarrow> flatten_loop body stack fs p)"
  by pat_completeness auto
termination
  by (relation "measure (\<lambda>(body, stack, fs, p). sum_list (map (jsize \<circ> fst) stack))")
    (auto simp: push_children_size frame_children_size simp del: jsize.simps)

definition flatten_trace ::
  "(bytes \<Rightarrow> string) \<Rightarrow> abi_env option \<Rightarrow> int \<Rightarrow> string option \<Rightarrow> dict \<Rightarrow> resolver
     \<Rightarrow> (call_frame list \<times> bool \<times> resolver) res" where
  "flatten_trace sha256 env chain_id implementation trace r =
     and_then (flatten_loop (flatten_frame sha256 env chain_id implementation) [(JObj trace, 0, ''0'')] []
                 \<lparr> ap_addresses = [], ap_resolver = r \<rparr>)
       (\<lambda>(fs, truncated, p). Inr (fs, truncated, ap_resolver p))"

section \<open>Effects\<close>

definition frame_failed :: "call_frame \<Rightarrow> bool" where
  "frame_failed f = (cf_error f \<noteq> None \<or> cf_revert_reason f \<noteq> None)"

definition has_failed_ancestor :: "string list \<Rightarrow> string \<Rightarrow> bool" where
  "has_failed_ancestor failed_paths path =
     list_ex (\<lambda>failed. path = failed \<or> startswith (failed @ ''.'') path) failed_paths"

definition call_effect :: "string list \<Rightarrow> string \<Rightarrow> call_frame \<Rightarrow> string" where
  "call_effect failed_paths transaction_status f =
     (if transaction_status = ''reverted'' \<or> has_failed_ancestor failed_paths (cf_path f)
      then EXECUTION_ATTEMPTED_REVERTED
      else if transaction_status = ''succeeded'' then EXECUTION_COMMITTED
      else EXECUTION_UNKNOWN)"

definition classify_call_effects :: "call_frame list \<Rightarrow> string \<Rightarrow> call_frame list" where
  "classify_call_effects calls transaction_status =
     (let failed_paths = map cf_path (filter frame_failed calls)
      in map (\<lambda>f. f\<lparr> cf_execution_effect := call_effect failed_paths transaction_status f \<rparr>) calls)"

section \<open>Dotted paths are positions\<close>

definition path_text :: "nat list \<Rightarrow> string" where
  "path_text p = join ''.'' (map nat_str p)"

definition dotted :: "nat list \<Rightarrow> string" where
  "dotted p = concat (map (\<lambda>i. nat_str i @ ''.'') p)"

lemma dotted_path: "p \<noteq> [] \<Longrightarrow> dotted p = path_text p @ ''.''"
proof (induction p)
  case (Cons i p)
  then show ?case by (cases p) (simp_all add: dotted_def path_text_def)
qed simp

lemma nat_str_digits: "\<exists>ds. nat_str n = map digit_char ds \<and> (\<forall>d \<in> set ds. d < 10) \<and> foldl (\<lambda>a d. a * 10 + d) 0 ds = n"
  by (rule exI [of _ "nat_digits 10 n"]) (auto simp: nat_str_def nat_digits_value dest: nat_digits_bound [rotated])

lemma digit_char_inject: "c < 16 \<Longrightarrow> d < 16 \<Longrightarrow> digit_char c = digit_char d \<longleftrightarrow> c = d"
  by (metis digit_of_digit_char option.inject)

lemma inj_digit_char: "inj_on digit_char {..<16}"
  by (rule inj_onI) (simp add: digit_char_inject)

lemma map_digit_char_inject:
  assumes "\<forall>d \<in> set xs. d < 16" "\<forall>d \<in> set ys. d < 16" "map digit_char xs = map digit_char ys"
  shows "xs = ys"
  by (rule map_inj_on [OF assms(3) inj_on_subset [OF inj_digit_char]]) (use assms in auto)

lemma nat_str_inject: "nat_str m = nat_str n \<longleftrightarrow> m = n"
proof
  assume eq: "nat_str m = nat_str n"
  have b: "\<forall>d \<in> set (nat_digits 10 k). d < 16" for k
    using nat_digits_bound [of 10 _ k] by fastforce
  have "nat_digits 10 m = nat_digits 10 n"
    using map_digit_char_inject [OF b b] eq by (simp add: nat_str_def)
  then have "foldl (\<lambda>a d. a * 10 + d) 0 (nat_digits 10 m) = foldl (\<lambda>a d. a * 10 + d) 0 (nat_digits 10 n)"
    by (rule arg_cong)
  moreover have "(2::nat) \<le> 10" by simp
  ultimately show "m = n" by (simp only: nat_digits_value)
qed (rule arg_cong)

lemma digit_char_not_dot: "d < 10 \<Longrightarrow> digit_char d \<noteq> CHR ''.''"
proof -
  assume "d < 10"
  then have "d \<in> set [0..<10]" by simp
  moreover have "\<forall>d \<in> set [0..<10]. digit_char d \<noteq> CHR ''.''" by code_simp
  ultimately show ?thesis by (rule bspec [rotated])
qed

lemma nat_str_no_dot: "CHR ''.'' \<notin> set (nat_str n)"
  using nat_str_digits [of n] digit_char_not_dot by fastforce

lemma split_at_dot:
  assumes "CHR ''.'' \<notin> set a" "CHR ''.'' \<notin> set b"
  shows "startswith (a @ ''.'' @ x) (b @ ''.'' @ y) \<longleftrightarrow> a = b \<and> startswith x y"
  using assms
proof (induction a arbitrary: b)
  case Nil
  then show ?case by (cases b) (auto simp: startswith_def)
next
  case (Cons c a)
  show ?case
  proof (cases b)
    case Nil
    with Cons.prems show ?thesis by (auto simp: startswith_def)
  next
    case (Cons e b')
    with Cons.prems Cons.IH [of b'] show ?thesis by (auto simp: startswith_def)
  qed
qed

lemma dotted_prefix: "startswith (dotted q) (dotted p) \<longleftrightarrow> prefix q p"
proof (induction q arbitrary: p)
  case (Cons i q)
  show ?case
  proof (cases p)
    case Nil
    then show ?thesis by (simp add: dotted_def startswith_def)
  next
    case (Cons j p')
    have "startswith (nat_str i @ ''.'' @ dotted q) (nat_str j @ ''.'' @ dotted p') \<longleftrightarrow> i = j \<and> prefix q p'"
      by (simp only: split_at_dot [OF nat_str_no_dot nat_str_no_dot] nat_str_inject Cons.IH)
    with Cons show ?thesis by (simp add: dotted_def)
  qed
qed (simp add: dotted_def startswith_def)

lemma startswith_snoc: "startswith (f @ [c]) (x @ [c]) \<longleftrightarrow> x = f \<or> startswith (f @ [c]) x"
  by (cases "length f < length x") (auto simp: startswith_def not_less)

text \<open>The code's textual test, on the paths of two positions.\<close>

lemma ancestor_text:
  assumes "p \<noteq> []" "q \<noteq> []"
  shows "path_text p = path_text q \<or> startswith (path_text q @ ''.'') (path_text p) \<longleftrightarrow> prefix q p"
  using dotted_prefix [of q p] dotted_path [OF assms(1)] dotted_path [OF assms(2)] startswith_snoc [of "path_text q" "CHR ''.''" "path_text p"]
  by simp

lemma path_text_inject: "p \<noteq> [] \<Longrightarrow> q \<noteq> [] \<Longrightarrow> path_text p = path_text q \<longleftrightarrow> p = q"
  using ancestor_text [of p q] ancestor_text [of q p] by (metis prefix_order.antisym prefix_order.refl)

lemma child_path_text: "p \<noteq> [] \<Longrightarrow> child_path (path_text p) i = path_text (p @ [i])"
proof (induction p)
  case (Cons j p)
  then show ?case by (cases p) (simp_all add: child_path_def path_text_def)
qed simp

section \<open>The frames are the first positions of the tree\<close>

function positions :: "json \<Rightarrow> nat list \<Rightarrow> (nat list \<times> dict) list" where
  "positions (JObj d) q = (q, d) # concat (map (\<lambda>(i, c). positions c (q @ [i])) (enumerate 0 (frame_children d)))"
| "positions JNull q = []"
| "positions (JBool b) q = []"
| "positions (JInt i) q = []"
| "positions (JStr s) q = []"
| "positions (JList xs) q = []"
  by pat_completeness auto
termination
  by (relation "measure (jsize \<circ> fst)")
    (auto intro!: child_size nth_mem simp del: jsize.simps simp: in_set_enumerate_eq)

definition dict_failed :: "dict \<Rightarrow> bool" where
  "dict_failed d = (str_or (dget d ''error'') [] \<noteq> [] \<or> str_or (dget d ''revertReason'') [] \<noteq> [])"

definition position_entry :: "json \<times> nat list \<Rightarrow> json \<times> nat \<times> string" where
  "position_entry g = (fst g, length (snd g) - 1, path_text (snd g))"

definition position_stack :: "(json \<times> nat list) list \<Rightarrow> (nat list \<times> dict) list" where
  "position_stack g = concat (map (\<lambda>(j, q). positions j q) g)"

definition child_positions :: "nat list \<Rightarrow> json list \<Rightarrow> (json \<times> nat list) list" where
  "child_positions q cs = map (\<lambda>(i, c). (c, q @ [i])) (enumerate 0 cs)"

lemma push_children_positions:
  "q \<noteq> [] \<Longrightarrow> push_children (length q - 1) (path_text q) cs = map position_entry (child_positions q cs)"
  by (auto simp: push_children_def child_positions_def position_entry_def child_path_text)

lemma position_stack_simps:
  "position_stack [] = []"
  "position_stack ((JObj d, q) # g) = (q, d) # position_stack (child_positions q (frame_children d) @ g)"
  by (simp_all add: position_stack_def child_positions_def comp_def case_prod_unfold)

lemma position_stack_skip: "positions j q = [] \<Longrightarrow> position_stack ((j, q) # g) = position_stack g"
  by (simp add: position_stack_def)

definition frame_mark :: "call_frame \<Rightarrow> string \<times> bool" where
  "frame_mark f = (cf_path f, frame_failed f)"

definition position_mark :: "nat list \<times> dict \<Rightarrow> string \<times> bool" where
  "position_mark x = (path_text (fst x), dict_failed (snd x))"

lemma flatten_frame_mark:
  "flatten_frame sha256 env c impl d n path p = Inr (f, p') \<Longrightarrow> frame_mark f = (path, dict_failed d)"
  by (auto simp: flatten_frame_def Let_def and_then_eq_Inr mk_frame_def frame_mark_def frame_failed_def
      dict_failed_def none_if_empty_def split: prod.splits)

lemma flatten_loop_positions:
  assumes "flatten_loop body st fs p = Inr (fs', tr, p')"
    and "st = map position_entry g" "\<forall>x \<in> set g. snd x \<noteq> []" "length fs \<le> MAX_CALL_FRAMES"
    and body: "\<And>d n path p f p'. body d n path p = Inr (f, p') \<Longrightarrow> frame_mark f = (path, dict_failed d)"
  shows "map frame_mark fs' = map frame_mark fs
      @ map position_mark (take (MAX_CALL_FRAMES - length fs) (position_stack g))
    \<and> (tr \<longleftrightarrow> MAX_CALL_FRAMES - length fs < length (position_stack g))"
  using assms(1-4)
proof (induction "sum_list (map (jsize \<circ> fst) st)" arbitrary: st g fs p rule: less_induct)
  case less
  show ?case
  proof (cases g)
    case Nil
    with less.prems show ?thesis by (simp add: position_stack_simps)
  next
    case (Cons x g')
    obtain raw q where x: "x = (raw, q)" by (cases x)
    from less.prems(3) Cons x have q: "q \<noteq> []" and g': "\<forall>x \<in> set g'. snd x \<noteq> []" by auto
    have st: "st = (raw, length q - 1, path_text q) # map position_entry g'"
      using less.prems(2) by (simp add: Cons x position_entry_def)
    show ?thesis
    proof (cases "\<exists>d. raw = JObj d")
      case False
      then have skip: "positions raw q = []" by (cases raw) auto
      from False less.prems(1) st have "flatten_loop body (map position_entry g') fs p = Inr (fs', tr, p')"
        by (cases raw) auto
      then show ?thesis
        using less.hyps [of "map position_entry g'" fs p g'] g' less.prems(4)
        by (simp add: st Cons x position_stack_skip [OF skip])
    next
      case True
      then obtain d where d: "raw = JObj d" ..
      show ?thesis
      proof (cases "MAX_CALL_FRAMES \<le> length fs")
        case True
        with less.prems(1) st d show ?thesis by (simp add: Cons x position_stack_simps)
      next
        case False
        then obtain k where k: "MAX_CALL_FRAMES - length fs = Suc k" by (metis Suc_diff_Suc not_le)
        let ?g = "child_positions q (frame_children d) @ g'"
        let ?st = "map position_entry ?g"
        have eq: "push_children (length q - 1) (path_text q) (frame_children d) @ map position_entry g' = ?st"
          by (simp only: push_children_positions [OF q] map_append)
        obtain f p1 where b: "body d (length q - 1) (path_text q) p = Inr (f, p1)"
          and run: "flatten_loop body ?st (fs @ [f]) p1 = Inr (fs', tr, p')"
          using less.prems(1) False unfolding st d flatten_loop.simps json.case if_not_P [OF False] eq
          by (auto simp: and_then_eq_Inr)
        have ne: "\<forall>x \<in> set ?g. snd x \<noteq> []" using g' by (auto simp: child_positions_def)
        have len: "length (fs @ [f]) \<le> MAX_CALL_FRAMES" using False by simp
        have "sum_list (map (jsize \<circ> fst) ?st) < sum_list (map (jsize \<circ> fst) st)"
          using frame_children_size [of d] push_children_size [of "length q - 1" "path_text q" "frame_children d"]
          by (simp add: st d eq [symmetric] push_children_positions [OF q, symmetric] del: jsize.simps(2))
        note IH = less.hyps [OF this run refl ne len]
        have "MAX_CALL_FRAMES - length (fs @ [f]) = k" using k by simp
        with IH show ?thesis
          by (simp add: Cons x d position_stack_simps k body [OF b] position_mark_def)
      qed
    qed
  qed
qed

section \<open>An ancestor of a selected frame is selected\<close>

lemma positions_prefix: "x \<in> set (positions j q) \<Longrightarrow> prefix q (fst x)"
proof (induction j q rule: positions.induct)
  case (1 d q)
  then show ?case by (fastforce simp: in_set_enumerate_eq append_prefixD dest: append_prefixD)
qed auto

lemma sorted_wrt_concat:
  "(\<forall>xs \<in> set xss. sorted_wrt P xs) \<Longrightarrow> sorted_wrt (\<lambda>xs ys. \<forall>x \<in> set xs. \<forall>y \<in> set ys. P x y) xss
     \<Longrightarrow> sorted_wrt P (concat xss)"
  by (induction xss) (auto simp: sorted_wrt_append)

lemma positions_order: "sorted_wrt (\<lambda>a b. \<not> prefix (fst b) (fst a)) (positions j q)"
proof (induction j q rule: positions.induct)
  case (1 d q)
  let ?kids = "map (\<lambda>(i, c). positions c (q @ [i])) (enumerate 0 (frame_children d))"
  have below: "\<exists>i. prefix (q @ [i]) (fst x)" if "x \<in> set (concat ?kids)" for x
    using that positions_prefix by (fastforce simp: in_set_enumerate_eq)
  have "\<not> prefix (fst x) q" if mem: "x \<in> set (concat ?kids)" for x
  proof
    assume "prefix (fst x) q"
    moreover obtain i where "prefix (q @ [i]) (fst x)" using below [OF mem] by blast
    ultimately show False by (metis append_one_prefix prefix_order.trans prefix_snoc prefix_length_le length_append_singleton Suc_n_not_le_n)
  qed
  moreover have "sorted_wrt (\<lambda>a b. \<not> prefix (fst b) (fst a)) (concat ?kids)"
  proof (rule sorted_wrt_concat)
    show "\<forall>xs \<in> set ?kids. sorted_wrt (\<lambda>a b. \<not> prefix (fst b) (fst a)) xs"
      using 1 by (auto simp: in_set_enumerate_eq)
    have clash: False if "prefix (q @ [i]) a" "prefix (q @ [k]) b" "prefix b a" "i < k" for i k :: nat and a b
    proof -
      have "prefix (q @ [k]) a" using that by (meson prefix_order.trans)
      with that(1) have "q @ [i] = q @ [k]" by (auto simp: prefix_def)
      with that(4) show False by simp
    qed
    show "sorted_wrt (\<lambda>xs ys. \<forall>x \<in> set xs. \<forall>y \<in> set ys. \<not> prefix (fst y) (fst x)) ?kids"
      unfolding sorted_wrt_iff_nth_less
    proof (intro allI impI ballI notI, goal_cases)
      case (1 i k x y)
      then have "i < length (frame_children d)" "k < length (frame_children d)" by simp_all
      with 1 have "x \<in> set (positions (frame_children d ! i) (q @ [i]))"
        "y \<in> set (positions (frame_children d ! k) (q @ [k]))"
        by (simp_all add: nth_enumerate_eq)
      from positions_prefix [OF this(1)] positions_prefix [OF this(2)] 1 clash show False by blast
    qed
  qed
  ultimately show ?case by simp
qed simp_all

lemma ancestor_selected:
  assumes "i < n" "i < length L" "x \<in> set L" "prefix (fst x) (fst (L ! i))"
    and "sorted_wrt (\<lambda>a b. \<not> prefix (fst b) (fst a)) L"
  shows "x \<in> set (take n L)"
proof -
  from assms(3) obtain j where j: "j < length L" "L ! j = x" by (auto simp: in_set_conv_nth)
  have "j \<le> i"
  proof (rule ccontr)
    assume "\<not> j \<le> i"
    with sorted_wrt_nth_less [OF assms(5), of i j] j assms(4) show False by simp
  qed
  with assms(1) j show ?thesis by (auto simp: in_set_conv_nth intro!: exI [of _ j])
qed

section \<open>The classification, in terms of the tree\<close>

definition trace_positions :: "dict \<Rightarrow> (nat list \<times> dict) list" where
  "trace_positions trace = positions (JObj trace) [0]"

lemma flatten_trace_marks:
  assumes "flatten_trace sha256 env c impl trace r = Inr (fs, tr, r')"
  shows "map frame_mark fs = map position_mark (take MAX_CALL_FRAMES (trace_positions trace))"
    and "tr \<longleftrightarrow> MAX_CALL_FRAMES < length (trace_positions trace)"
proof -
  from assms obtain p where run: "flatten_loop (flatten_frame sha256 env c impl) [(JObj trace, 0, ''0'')] []
      \<lparr> ap_addresses = [], ap_resolver = r \<rparr> = Inr (fs, tr, p)"
    by (auto simp: flatten_trace_def and_then_eq_Inr)
  have zero: "path_text [0] = ''0''" by code_simp
  have st: "[(JObj trace, 0, ''0'')] = map position_entry [(JObj trace, [0])]"
    by (simp add: position_entry_def zero)
  have pos: "position_stack [(JObj trace, [0])] = trace_positions trace"
    by (simp add: position_stack_def trace_positions_def)
  from flatten_loop_positions [OF run st _ _ flatten_frame_mark]
  have both: "map frame_mark fs = map position_mark (take MAX_CALL_FRAMES (trace_positions trace))
      \<and> (tr \<longleftrightarrow> MAX_CALL_FRAMES < length (trace_positions trace))"
    by (simp add: pos)
  then show "map frame_mark fs = map position_mark (take MAX_CALL_FRAMES (trace_positions trace))" ..
  from both show "tr \<longleftrightarrow> MAX_CALL_FRAMES < length (trace_positions trace)" ..
qed

lemma trace_position_nonempty: "x \<in> set (trace_positions trace) \<Longrightarrow> fst x \<noteq> []"
  using positions_prefix unfolding trace_positions_def by fastforce

lemma failed_ancestor_marks:
  "has_failed_ancestor (map cf_path (filter frame_failed fs)) path \<longleftrightarrow>
     (\<exists>m \<in> set (map frame_mark fs). snd m \<and> (path = fst m \<or> startswith (fst m @ ''.'') path))"
  by (auto simp: has_failed_ancestor_def list_ex_iff frame_mark_def)

text \<open>A frame is classified as reverted exactly when the transaction was, or when a call on the way
  from the root to it failed; the bound on the frames never hides such a call.\<close>

lemma call_effect_tree:
  assumes run: "flatten_trace sha256 env c impl trace r = Inr (fs, tr, r')" and i: "i < length fs"
  shows "cf_path (fs ! i) = path_text (fst (trace_positions trace ! i))"
    and "cf_execution_effect (classify_call_effects fs status ! i) = EXECUTION_ATTEMPTED_REVERTED \<longleftrightarrow>
      status = ''reverted'' \<or>
      (\<exists>x \<in> set (trace_positions trace). prefix (fst x) (fst (trace_positions trace ! i)) \<and> dict_failed (snd x))"
proof -
  let ?L = "trace_positions trace"
  note marks = flatten_trace_marks(1) [OF run]
  have len: "length fs = min MAX_CALL_FRAMES (length ?L)" using marks by (metis length_map length_take min.commute)
  have iL: "i < length ?L" "i < MAX_CALL_FRAMES" using i len by simp_all
  have "frame_mark (fs ! i) = map frame_mark fs ! i" using i by simp
  also have "\<dots> = position_mark (?L ! i)" using marks iL by simp
  finally have mark: "frame_mark (fs ! i) = position_mark (?L ! i)" .
  then show path: "cf_path (fs ! i) = path_text (fst (?L ! i))"
    by (simp add: frame_mark_def position_mark_def)
  have ne: "fst (?L ! i) \<noteq> []" using iL by (intro trace_position_nonempty [of _ trace]) simp
  have sel: "x \<in> set (take MAX_CALL_FRAMES ?L)" if "x \<in> set ?L" "prefix (fst x) (fst (?L ! i))" for x
    using ancestor_selected [OF iL(2) iL(1) that] positions_order unfolding trace_positions_def by blast
  have "has_failed_ancestor (map cf_path (filter frame_failed fs)) (cf_path (fs ! i)) \<longleftrightarrow>
      (\<exists>x \<in> set (take MAX_CALL_FRAMES ?L). dict_failed (snd x)
         \<and> (path_text (fst (?L ! i)) = path_text (fst x) \<or> startswith (path_text (fst x) @ ''.'') (path_text (fst (?L ! i)))))"
    unfolding failed_ancestor_marks marks path by (auto simp: position_mark_def)
  also have "\<dots> \<longleftrightarrow> (\<exists>x \<in> set (take MAX_CALL_FRAMES ?L). dict_failed (snd x) \<and> prefix (fst x) (fst (?L ! i)))"
    using ancestor_text [OF ne] trace_position_nonempty by (metis in_set_takeD)
  also have "\<dots> \<longleftrightarrow> (\<exists>x \<in> set ?L. dict_failed (snd x) \<and> prefix (fst x) (fst (?L ! i)))"
    using sel by (meson in_set_takeD)
  finally show "cf_execution_effect (classify_call_effects fs status ! i) = EXECUTION_ATTEMPTED_REVERTED \<longleftrightarrow>
      status = ''reverted'' \<or>
      (\<exists>x \<in> set ?L. prefix (fst x) (fst (?L ! i)) \<and> dict_failed (snd x))"
    using i by (auto simp: classify_call_effects_def call_effect_def Let_def
        EXECUTION_ATTEMPTED_REVERTED_def EXECUTION_COMMITTED_def EXECUTION_UNKNOWN_def)
qed

section \<open>Properties\<close>

text \<open>C3. Which calls took effect is decided by the call tree: in a flattened trace the frames are the
  first 2,000 of the tree in call order, each under the dotted text of its position, the
  truncation flag is set exactly when frames were left out, and a frame is classified as
  attempted and reverted exactly when the transaction reverted or the frame itself or a frame
  above it in the tree failed. The textual comparison of dotted paths is therefore the ancestor
  relation (\<open>0.1\<close> is no ancestor of \<open>0.10\<close>), although the failing ancestor is looked up among
  the retained frames only.\<close>

theorem call_effects_follow_tree:
  assumes "flatten_trace sha256 env c impl trace r = Inr (fs, tr, r')" and "i < length fs"
  shows "cf_path (fs ! i) = path_text (fst (trace_positions trace ! i))
     \<and> (tr \<longleftrightarrow> MAX_CALL_FRAMES < length (trace_positions trace))
     \<and> length fs = min MAX_CALL_FRAMES (length (trace_positions trace))
     \<and> (cf_execution_effect (classify_call_effects fs status ! i) = EXECUTION_ATTEMPTED_REVERTED \<longleftrightarrow>
         status = ''reverted'' \<or>
         (\<exists>x \<in> set (trace_positions trace). prefix (fst x) (fst (trace_positions trace ! i)) \<and> dict_failed (snd x)))"
proof -
  have "length fs = min MAX_CALL_FRAMES (length (trace_positions trace))"
    using arg_cong [OF flatten_trace_marks(1) [OF assms(1)], of length] by (simp add: min.commute)
  then show ?thesis
    using call_effect_tree [OF assms] flatten_trace_marks(2) [OF assms(1)] by blast
qed

definition demo_failed_trace :: dict where
  "demo_failed_trace = [(''type'', JStr ''CALL''), (''from'', JStr demo_creator), (''to'', JStr demo_created), (''calls'', JList
     [JObj [(''type'', JStr ''CALL''), (''to'', JStr demo_creator), (''error'', JStr ''execution reverted''),
        (''calls'', JList [JObj [(''type'', JStr ''CALL''), (''from'', JStr demo_created), (''to'', JStr demo_creator), (''value'', JStr ''0x5'')]])],
      JObj [(''type'', JStr ''STATICCALL''), (''from'', JStr demo_created), (''to'', JStr demo_creator)]])]"

definition demo_resolver :: resolver where
  "demo_resolver = \<lparr> rv_memory = [], rv_unavailable = [], rv_store = empty_store \<rparr>"

definition demo_frames :: "call_frame list" where
  "demo_frames = fst (projr (flatten_trace (\<lambda>b. ''h'') None 1 None demo_failed_trace demo_resolver))"

theorem call_effects_follow_tree_witness:
  "cf_execution_effect (classify_call_effects demo_frames ''succeeded'' ! 2) = EXECUTION_ATTEMPTED_REVERTED"
proof -
  have run: "flatten_trace (\<lambda>b. ''h'') None 1 None demo_failed_trace demo_resolver = Inr (demo_frames, False, demo_resolver)"
    by code_simp
  have "length demo_frames = 4" by code_simp
  then have "2 < length demo_frames" by simp
  moreover have "\<exists>x \<in> set (trace_positions demo_failed_trace).
      prefix (fst x) (fst (trace_positions demo_failed_trace ! 2)) \<and> dict_failed (snd x)" by code_simp
  ultimately show ?thesis using call_effects_follow_tree [OF run] by blast
qed

end
