(* ===== verification/Asset_Flow.thy ===== *)
theory Asset_Flow
  imports Call_Graph
begin

text \<open>
  Asset flow and events of \<^verbatim>\<open>src/white_radar/investigation.py\<close>: the transfers read from
  receipt logs and from the frames of the call graph, and the event records.
\<close>

section \<open>Transfers in receipt logs\<close>

definition MAX_TRANSFERS :: nat where "MAX_TRANSFERS = 20000"

record asset_transfer =
  at_transfer_id :: string
  at_asset_type :: string
  at_asset_address :: "string option"
  at_sender :: string
  at_recipient :: string
  at_amount :: string
  at_token_id :: "string option"
  at_operator :: "string option"
  at_source :: string
  at_evidence_ref :: string
  at_execution_effect :: string
  at_asset_name :: "string option"
  at_asset_symbol :: "string option"
  at_asset_decimals :: "int option"
  at_amount_display :: "string option"

definition mk_transfer ::
  "string \<Rightarrow> string \<Rightarrow> string option \<Rightarrow> string \<Rightarrow> string \<Rightarrow> string \<Rightarrow> string option \<Rightarrow> string option
     \<Rightarrow> string \<Rightarrow> string \<Rightarrow> string \<Rightarrow> asset_transfer" where
  "mk_transfer tid asset_type asset sender recipient amount token operator source ref effect =
     \<lparr> at_transfer_id = tid, at_asset_type = asset_type, at_asset_address = asset, at_sender = sender,
       at_recipient = recipient, at_amount = amount, at_token_id = token, at_operator = operator,
       at_source = source, at_evidence_ref = ref, at_execution_effect = effect,
       at_asset_name = None, at_asset_symbol = None, at_asset_decimals = None, at_amount_display = None \<rparr>"

text \<open>What one log adds: the transfers, the notices, and whether the loop stops.\<close>

type_synonym log_step = "asset_transfer list \<times> string list \<times> bool"

definition transfer_cap_notice :: string where
  "transfer_cap_notice = ''Asset transfers were capped at '' @ nat_str MAX_TRANSFERS @ '' records.''"

definition topic_at :: "json list \<Rightarrow> nat \<Rightarrow> string option" where
  "topic_at topics i = (if i < length topics then topic_address (topics ! i) else None)"

definition log_transfer_id :: "int \<Rightarrow> nat \<Rightarrow> string" where
  "log_transfer_id log_index i = ''transfer:'' @ int_str log_index @ '':'' @ nat_str i"

definition log_ref :: "int \<Rightarrow> string" where
  "log_ref log_index = ''log:'' @ int_str log_index"

definition token_transfer :: "string \<Rightarrow> string \<Rightarrow> json list \<Rightarrow> bytes \<Rightarrow> int \<Rightarrow> log_step res" where
  "token_transfer effect token topics raw log_index =
     (case (topic_at topics 1, topic_at topics 2) of
        (Some sender, Some recipient) \<Rightarrow>
          if 4 \<le> length topics then
            and_then (hex_to_int (py_str (topics ! 3))) (\<lambda>token_id.
              Inr ([mk_transfer (log_transfer_id log_index 0) ''erc721'' (Some token) sender recipient ''1''
                      (Some (int_str token_id)) None ''receipt_log'' (log_ref log_index) effect], [], False))
          else if 32 \<le> length raw then
            Inr ([mk_transfer (log_transfer_id log_index 0) ''erc20'' (Some token) sender recipient
                    (nat_str (from_be (take 32 raw))) None None ''receipt_log'' (log_ref log_index) effect], [], False)
          else Inr ([], [], False)
      | _ \<Rightarrow> Inr ([], [], False))"

definition single_transfer :: "string \<Rightarrow> string \<Rightarrow> json list \<Rightarrow> bytes \<Rightarrow> int \<Rightarrow> log_step" where
  "single_transfer effect token topics raw log_index =
     (case (topic_at topics 2, topic_at topics 3) of
        (Some sender, Some recipient) \<Rightarrow>
          (case (word_at raw 0, word_at raw 32) of
             (Some token_id, Some amount) \<Rightarrow>
               ([mk_transfer (log_transfer_id log_index 0) ''erc1155'' (Some token) sender recipient
                   (nat_str amount) (Some (nat_str token_id)) (topic_at topics 1) ''receipt_log''
                   (log_ref log_index) effect], [], False)
           | _ \<Rightarrow> ([], [''ERC-1155 TransferSingle log '' @ int_str log_index @ '' could not be decoded.''], False))
      | _ \<Rightarrow> ([], [], False))"

definition batch_transfer :: "nat \<Rightarrow> string \<Rightarrow> string \<Rightarrow> json list \<Rightarrow> bytes \<Rightarrow> int \<Rightarrow> log_step" where
  "batch_transfer room effect token topics raw log_index =
     (case (topic_at topics 2, topic_at topics 3) of
        (Some sender, Some recipient) \<Rightarrow>
          (case (decode_dynamic_uint_array raw 0, decode_dynamic_uint_array raw 32) of
             (Some ids, Some amounts) \<Rightarrow>
               if length ids \<noteq> length amounts
               then ([], [''ERC-1155 TransferBatch log '' @ int_str log_index @ '' contains unequal array lengths.''], False)
               else
                 (let selected = take room (zip ids amounts) in
                  (map (\<lambda>(i, token_id, amount). mk_transfer (log_transfer_id log_index i) ''erc1155'' (Some token)
                      sender recipient (nat_str amount) (Some (nat_str token_id)) (topic_at topics 1) ''receipt_log''
                      (log_ref log_index) effect) (enumerate 0 selected),
                   (if length selected < length ids then [transfer_cap_notice] else []),
                   length selected < length ids))
           | _ \<Rightarrow> ([], [''ERC-1155 TransferBatch log '' @ int_str log_index @ '' could not be decoded.''], False))
      | _ \<Rightarrow> ([], [], False))"

definition log_step :: "nat \<Rightarrow> string \<Rightarrow> nat \<Rightarrow> dict \<Rightarrow> log_step res" where
  "log_step room effect ordinal entry =
     (case py_or (dget entry ''topics'') (JList []) of
        JList (t0 # ts) \<Rightarrow>
          (let topics = t0 # ts; topic0 = lower (py_str t0) in
           and_then (hex_to_int (str_or (dget entry ''logIndex'') (int_to_hex (int ordinal)))) (\<lambda>log_index.
             case (as_address (dget entry ''address''), hex_data (dget entry ''data'')) of
               (Some token, Some raw) \<Rightarrow>
                 if topic0 = TRANSFER_TOPIC then token_transfer effect token topics raw log_index
                 else if topic0 = TRANSFER_SINGLE_TOPIC \<and> 4 \<le> length topics
                   then Inr (single_transfer effect token topics raw log_index)
                 else if topic0 = TRANSFER_BATCH_TOPIC \<and> 4 \<le> length topics
                   then Inr (batch_transfer room effect token topics raw log_index)
                 else Inr ([], [], False)
             | _ \<Rightarrow> Inr ([], [], False)))
      | _ \<Rightarrow> Inr ([], [], False))"

fun transfers_loop ::
  "string \<Rightarrow> nat \<Rightarrow> dict list \<Rightarrow> asset_transfer list \<Rightarrow> string list \<Rightarrow> (asset_transfer list \<times> string list) res" where
  "transfers_loop effect ordinal [] ts notices = Inr (ts, notices)"
| "transfers_loop effect ordinal (entry # rest) ts notices =
     (if MAX_TRANSFERS \<le> length ts then Inr (ts, notices @ [transfer_cap_notice])
      else and_then (log_step (MAX_TRANSFERS - length ts) effect ordinal entry) (\<lambda>(new, nts, stop).
        if stop then Inr (ts @ new, notices @ nts)
        else transfers_loop effect (Suc ordinal) rest (ts @ new) (notices @ nts)))"

definition transfers_from_logs :: "dict list \<Rightarrow> string list \<Rightarrow> string \<Rightarrow> (asset_transfer list \<times> string list) res" where
  "transfers_from_logs logs warnings effect = transfers_loop effect 0 logs [] warnings"

section \<open>Native transfers\<close>

definition native_of ::
  "string \<Rightarrow> string option \<Rightarrow> string option \<Rightarrow> int \<Rightarrow> string \<Rightarrow> string \<Rightarrow> string \<Rightarrow> string \<Rightarrow> asset_transfer list" where
  "native_of path sender recipient v call_type source ref effect =
     (case (sender, recipient) of
        (Some s, Some r) \<Rightarrow>
          if v \<le> 0 \<or> call_type \<notin> set VALUE_TRANSFER_CALL_TYPES then []
          else [mk_transfer (''native:'' @ path) ''native'' None s r (int_str v) None None source ref effect]
      | _ \<Rightarrow> [])"

definition frame_native :: "call_frame \<Rightarrow> asset_transfer list" where
  "frame_native f = native_of (cf_path f) (cf_sender f) (cf_recipient f) (cf_value_wei f) (cf_call_type f)
     ''call_trace'' (''call:'' @ cf_path f) (cf_execution_effect f)"

definition top_level_effect :: "string \<Rightarrow> string" where
  "top_level_effect transaction_status =
     (if transaction_status = ''succeeded'' then EXECUTION_COMMITTED
      else if transaction_status = ''reverted'' then EXECUTION_ATTEMPTED_REVERTED
      else EXECUTION_UNKNOWN)"

definition native_transfers :: "call_frame list \<Rightarrow> dict \<Rightarrow> string \<Rightarrow> asset_transfer list res" where
  "native_transfers calls transaction transaction_status =
     (if calls \<noteq> [] then Inr (concat (map frame_native calls))
      else and_then (hex_to_int (str_or (dget transaction ''value'') ''0x0'')) (\<lambda>v.
        Inr (native_of ''0'' (as_address (dget transaction ''from'')) (as_address (dget transaction ''to'')) v
          ''CALL'' ''transaction'' ''transaction'' (top_level_effect transaction_status))))"

section \<open>Events\<close>

definition MAX_ABI_EVENT_ADDRESSES :: nat where "MAX_ABI_EVENT_ADDRESSES = 32"
definition MAX_EVENT_DATA_BYTES :: nat where "MAX_EVENT_DATA_BYTES = 16384"

record event_record =
  xe_log_index :: int
  xe_address :: "string option"
  xe_topic0 :: "string option"
  xe_event_signature :: "string option"
  xe_event_name :: "string option"
  xe_arguments :: dict
  xe_abi_source :: "string option"
  xe_abi_sha256 :: "string option"
  xe_decode_confidence :: "string option"
  xe_topics :: "string list"
  xe_data :: string
  xe_data_bytes :: nat
  xe_data_sha256 :: "string option"
  xe_data_truncated :: bool
  xe_evidence_ref :: string

definition text_topics :: "json \<Rightarrow> string list" where
  "text_topics j = (case py_or j (JList []) of
      JList ts \<Rightarrow> List.map_filter (\<lambda>t. case t of JStr s \<Rightarrow> if startswith ''0x'' s then Some (lower s) else None | _ \<Rightarrow> None) ts
    | _ \<Rightarrow> [])"

definition mk_event ::
  "(bytes \<Rightarrow> string) \<Rightarrow> int \<Rightarrow> string option \<Rightarrow> string list \<Rightarrow> bytes option \<Rightarrow> decoded_event option \<Rightarrow> event_record" where
  "mk_event sha256 log_index address topics raw decoded =
     (let n = (case raw of None \<Rightarrow> 0 | Some b \<Rightarrow> length b) in
      \<lparr> xe_log_index = log_index, xe_address = address,
        xe_topic0 = (case topics of [] \<Rightarrow> None | t # ts \<Rightarrow> Some t),
        xe_event_signature = map_option de_signature decoded, xe_event_name = map_option de_name decoded,
        xe_arguments = (case decoded of None \<Rightarrow> [] | Some d \<Rightarrow> de_arguments d),
        xe_abi_source = map_option de_source decoded, xe_abi_sha256 = map_option de_abi_sha256 decoded,
        xe_decode_confidence = map_option de_confidence decoded, xe_topics = topics,
        xe_data = (case raw of None \<Rightarrow> ''0x'' | Some b \<Rightarrow> hex0x (take MAX_EVENT_DATA_BYTES b)),
        xe_data_bytes = n, xe_data_sha256 = map_option sha256 raw,
        xe_data_truncated = (MAX_EVENT_DATA_BYTES < n), xe_evidence_ref = log_ref log_index \<rparr>)"

text \<open>\<^verbatim>\<open>except (AttributeError, ValueError)\<close> around the resolver; the resolver keeps its state.\<close>

definition decode_log ::
  "abi_env option \<Rightarrow> int \<Rightarrow> string option \<Rightarrow> string list \<Rightarrow> string \<Rightarrow> abi_progress
     \<Rightarrow> (decoded_event option \<times> bool \<times> abi_progress) res" where
  "decode_log env chain_id address topics data p =
     (case (env, address) of
        (Some e, Some a) \<Rightarrow>
          if topics = [] then Inr (None, False, p)
          else if a \<in> set (ap_addresses p) \<or> length (ap_addresses p) < MAX_ABI_EVENT_ADDRESSES
          then (case abi_resolve_event e chain_id a topics data (ap_resolver p) of (r, rv) \<Rightarrow>
             (let p' = \<lparr> ap_addresses = List.insert a (ap_addresses p), ap_resolver = rv \<rparr> in
              case r of Inr d \<Rightarrow> Inr (d, False, p')
              | Inl x \<Rightarrow> if x = AttributeError \<or> is_value_error x then Inr (None, False, p') else Inl x))
          else Inr (None, True, p)
      | _ \<Rightarrow> Inr (None, False, p))"

definition event_of_log ::
  "(bytes \<Rightarrow> string) \<Rightarrow> abi_env option \<Rightarrow> int \<Rightarrow> nat \<Rightarrow> dict \<Rightarrow> abi_progress
     \<Rightarrow> (event_record \<times> bool \<times> abi_progress) res" where
  "event_of_log sha256 env chain_id ordinal entry p =
     (let log_index = (case hex_to_int (str_or (dget entry ''logIndex'') (int_to_hex (int ordinal))) of
             Inl e \<Rightarrow> int ordinal | Inr n \<Rightarrow> n);
          address = as_address (dget entry ''address'');
          topics = text_topics (dget entry ''topics'');
          raw = hex_data (dget entry ''data'');
          data = (case raw of None \<Rightarrow> ''0x'' | Some b \<Rightarrow> hex0x (take MAX_EVENT_DATA_BYTES b))
      in and_then (decode_log env chain_id address topics data p) (\<lambda>(decoded, limited, p').
           Inr (mk_event sha256 log_index address topics raw decoded, limited, p')))"

fun events_loop ::
  "(bytes \<Rightarrow> string) \<Rightarrow> abi_env option \<Rightarrow> int \<Rightarrow> nat \<Rightarrow> dict list \<Rightarrow> event_record list \<Rightarrow> bool \<Rightarrow> abi_progress
     \<Rightarrow> (event_record list \<times> bool \<times> abi_progress) res" where
  "events_loop sha256 env chain_id ordinal [] es limited p = Inr (es, limited, p)"
| "events_loop sha256 env chain_id ordinal (entry # rest) es limited p =
     and_then (event_of_log sha256 env chain_id ordinal entry p) (\<lambda>(e, l, p').
       events_loop sha256 env chain_id (Suc ordinal) rest (es @ [e]) (limited \<or> l) p')"

definition abi_cap_warning :: string where
  "abi_cap_warning = ''Verified event ABI resolution was capped at '' @ nat_str MAX_ABI_EVENT_ADDRESSES
     @ '' unique log-emitting addresses.''"

definition event_data_warning :: string where
  "event_data_warning = ''One or more event payloads exceeded '' @ nat_str MAX_EVENT_DATA_BYTES
     @ '' bytes; full payload SHA-256 values are retained.''"

definition events_from_logs ::
  "(bytes \<Rightarrow> string) \<Rightarrow> abi_env option \<Rightarrow> int \<Rightarrow> dict list \<Rightarrow> string list \<Rightarrow> resolver
     \<Rightarrow> (event_record list \<times> string list \<times> resolver) res" where
  "events_from_logs sha256 env chain_id logs warnings r =
     and_then (events_loop sha256 env chain_id 0 logs [] False \<lparr> ap_addresses = [], ap_resolver = r \<rparr>)
       (\<lambda>(es, limited, p). Inr (es,
          warnings @ (if limited then [abi_cap_warning] else [])
            @ (if list_ex xe_data_truncated es then [event_data_warning] else []), ap_resolver p))"

section \<open>Lemmas\<close>

definition wf_log_transfer :: "string \<Rightarrow> asset_transfer \<Rightarrow> bool" where
  "wf_log_transfer effect t =
     (at_execution_effect t = effect \<and> is_address (at_sender t) \<and> is_address (at_recipient t)
      \<and> at_asset_type t \<in> {''erc20'', ''erc721'', ''erc1155''} \<and> at_source t = ''receipt_log''
      \<and> (at_asset_type t = ''erc20'' \<longleftrightarrow> at_token_id t = None))"

lemma wf_mk_transfer:
  "is_address s \<Longrightarrow> is_address r \<Longrightarrow> ty \<in> {''erc20'', ''erc721'', ''erc1155''} \<Longrightarrow> (ty = ''erc20'') = (token = None)
     \<Longrightarrow> wf_log_transfer effect (mk_transfer i ty a s r m token oper ''receipt_log'' ref effect)"
  by (simp add: wf_log_transfer_def mk_transfer_def)

lemma topic_at_address: "topic_at ts i = Some a \<Longrightarrow> is_address a"
  by (auto simp: topic_at_def dest: topic_address_Some split: if_splits)

lemma token_transfer_ok:
  assumes "token_transfer effect token topics raw n = Inr (new, nts, stop)"
  shows "length new \<le> 1 \<and> list_all (wf_log_transfer effect) new"
proof (cases "topic_at topics 1")
  case (Some s)
  show ?thesis
  proof (cases "topic_at topics 2")
    case (Some r)
    with assms \<open>topic_at topics 1 = Some s\<close> show ?thesis
      by (auto simp: token_transfer_def and_then_eq_Inr intro!: wf_mk_transfer topic_at_address split: if_splits)
  qed (use assms Some in \<open>auto simp: token_transfer_def\<close>)
qed (use assms in \<open>auto simp: token_transfer_def\<close>)

lemma single_transfer_ok:
  "single_transfer effect token topics raw n = (new, nts, stop) \<Longrightarrow>
     length new \<le> 1 \<and> list_all (wf_log_transfer effect) new"
  by (auto simp: single_transfer_def intro!: wf_mk_transfer topic_at_address split: option.splits)

lemma batch_transfer_ok:
  assumes "batch_transfer room effect token topics raw n = (new, nts, stop)"
  shows "length new \<le> room \<and> list_all (wf_log_transfer effect) new"
proof (cases "topic_at topics 2")
  case (Some s)
  show ?thesis
  proof (cases "topic_at topics 3")
    case (Some r)
    with assms \<open>topic_at topics 2 = Some s\<close> show ?thesis
      by (auto simp: batch_transfer_def Let_def list_all_iff intro!: wf_mk_transfer topic_at_address
          split: option.splits if_splits)
  qed (use assms Some in \<open>auto simp: batch_transfer_def\<close>)
qed (use assms in \<open>auto simp: batch_transfer_def\<close>)

lemma log_step_ok:
  assumes "log_step room effect i entry = Inr (new, nts, stop)" "1 \<le> room"
  shows "length new \<le> room \<and> list_all (wf_log_transfer effect) new"
proof (cases "\<exists>t0 ts. py_or (dget entry ''topics'') (JList []) = JList (t0 # ts)")
  case False
  then have "log_step room effect i entry = Inr ([], [], False)"
    by (auto simp: log_step_def split: json.split list.split)
  with assms show ?thesis by simp
next
  case True
  then obtain t0 ts where t: "py_or (dget entry ''topics'') (JList []) = JList (t0 # ts)" by blast
  show ?thesis
  proof (cases "(as_address (dget entry ''address''), hex_data (dget entry ''data''))")
    case (Pair token raw)
    show ?thesis
    proof (cases "token = None \<or> raw = None")
      case True
      with assms Pair t show ?thesis
        by (auto simp: log_step_def and_then_eq_Inr Let_def split: option.splits)
    next
      case False
      then obtain tk rw where "token = Some tk" "raw = Some rw" by (cases token; cases raw) auto
      with assms(1) Pair t obtain n where
        "(if lower (py_str t0) = TRANSFER_TOPIC then token_transfer effect tk (t0 # ts) rw n
          else if lower (py_str t0) = TRANSFER_SINGLE_TOPIC \<and> 4 \<le> length (t0 # ts)
            then Inr (single_transfer effect tk (t0 # ts) rw n)
          else if lower (py_str t0) = TRANSFER_BATCH_TOPIC \<and> 4 \<le> length (t0 # ts)
            then Inr (batch_transfer room effect tk (t0 # ts) rw n)
          else Inr ([], [], False)) = Inr (new, nts, stop)"
        by (auto simp: log_step_def and_then_eq_Inr Let_def simp del: list.size)
      then show ?thesis
        using token_transfer_ok single_transfer_ok batch_transfer_ok assms(2)
        by (simp del: list.size split: if_splits) (fastforce intro: le_trans)+
    qed
  qed
qed

lemma transfers_loop_ok:
  assumes "transfers_loop effect i logs ts notices = Inr (ts', notices')"
    and "length ts \<le> MAX_TRANSFERS" "list_all (wf_log_transfer effect) ts"
  shows "length ts' \<le> MAX_TRANSFERS \<and> list_all (wf_log_transfer effect) ts'"
  using assms
proof (induction logs arbitrary: i ts notices)
  case (Cons entry logs)
  show ?case
  proof (cases "MAX_TRANSFERS \<le> length ts")
    case True
    with Cons.prems show ?thesis by simp
  next
    case False
    with Cons.prems(1) obtain new nts stop where
      st: "log_step (MAX_TRANSFERS - length ts) effect i entry = Inr (new, nts, stop)"
      and run: "(if stop then Inr (ts @ new, notices @ nts)
        else transfers_loop effect (Suc i) logs (ts @ new) (notices @ nts)) = Inr (ts', notices')"
      by (auto simp: and_then_eq_Inr)
    have "1 \<le> MAX_TRANSFERS - length ts" using False by simp
    from log_step_ok [OF st this] Cons.prems(2,3)
    have new: "length (ts @ new) \<le> MAX_TRANSFERS" "list_all (wf_log_transfer effect) (ts @ new)" by auto
    show ?thesis
    proof (cases stop)
      case True
      with run new show ?thesis by auto
    next
      case False
      with run have "transfers_loop effect (Suc i) logs (ts @ new) (notices @ nts) = Inr (ts', notices')" by simp
      from Cons.IH [OF this new] show ?thesis .
    qed
  qed
qed simp

lemma transfers_from_logs_ok:
  "transfers_from_logs logs ws effect = Inr (ts, ws') \<Longrightarrow>
     length ts \<le> MAX_TRANSFERS \<and> list_all (wf_log_transfer effect) ts"
  unfolding transfers_from_logs_def by (drule transfers_loop_ok) simp_all

text \<open>Native transfers: where each comes from, and when it counts as committed.\<close>

lemma native_of_facts:
  "t \<in> set (native_of path s r v ty source ref effect) \<Longrightarrow>
     at_asset_type t = ''native'' \<and> at_execution_effect t = effect \<and> 0 < v \<and> s = Some (at_sender t)
     \<and> r = Some (at_recipient t) \<and> at_amount t = int_str v \<and> ty \<in> set VALUE_TRANSFER_CALL_TYPES"
  by (auto simp: native_of_def mk_transfer_def split: option.splits if_splits)

lemma native_transfers_calls:
  "calls \<noteq> [] \<Longrightarrow> native_transfers calls tx status = Inr ts \<Longrightarrow> t \<in> set ts \<Longrightarrow>
     \<exists>f \<in> set calls. t \<in> set (frame_native f) \<and> at_execution_effect t = cf_execution_effect f"
  by (fastforce simp: native_transfers_def frame_native_def dest: native_of_facts)

lemma classify_reverted:
  "f \<in> set (classify_call_effects calls ''reverted'') \<Longrightarrow> cf_execution_effect f = EXECUTION_ATTEMPTED_REVERTED"
  by (auto simp: classify_call_effects_def Let_def call_effect_def)

lemma native_reverted:
  assumes "native_transfers (classify_call_effects calls ''reverted'') tx ''reverted'' = Inr ts" "t \<in> set ts"
  shows "at_execution_effect t = EXECUTION_ATTEMPTED_REVERTED"
proof (cases "classify_call_effects calls ''reverted'' = []")
  case True
  with assms show ?thesis
    by (auto simp: native_transfers_def and_then_eq_Inr top_level_effect_def dest: native_of_facts)
next
  case False
  from native_transfers_calls [OF False assms] classify_reverted show ?thesis by metis
qed

lemma events_loop_length: "events_loop sha256 env c i logs es l p = Inr (es', l', p') \<Longrightarrow> length es' = length es + length logs"
  by (induction logs arbitrary: i es l p) (fastforce simp: and_then_eq_Inr split: prod.splits)+

section \<open>Properties\<close>

text \<open>The log an ERC-20 token emits for a transfer: the two parties as topics of 32 bytes, the amount
  as data.\<close>

definition erc20_log :: "bytes \<Rightarrow> bytes \<Rightarrow> bytes \<Rightarrow> bytes \<Rightarrow> dict" where
  "erc20_log token sender recipient amount =
     [(''address'', JStr (''0x'' @ hex_of token)),
      (''topics'', JList [JStr TRANSFER_TOPIC, JStr (''0x'' @ hex_of (replicate 12 0 @ sender)),
         JStr (''0x'' @ hex_of (replicate 12 0 @ recipient))]),
      (''data'', JStr (''0x'' @ hex_of amount))]"

lemma transfers_from_erc20_log:
  assumes "wf_bytes token" "length token = 20" and "wf_bytes sender" "length sender = 20"
    and "wf_bytes recipient" "length recipient = 20" and "wf_bytes amount" "length amount = 32"
  shows "transfers_from_logs [erc20_log token sender recipient amount] ws effect =
     Inr ([mk_transfer (log_transfer_id 0 0) ''erc20'' (Some (''0x'' @ hex_of token)) (''0x'' @ hex_of sender)
             (''0x'' @ hex_of recipient) (nat_str (from_be amount)) None None ''receipt_log'' (log_ref 0) effect], ws)"
proof -
  let ?log = "erc20_log token sender recipient amount"
  have wf: "wf_bytes (replicate 12 0 @ b)" if "wf_bytes b" for b using that by (auto simp: wf_bytes_def)
  have topic: "topic_address (JStr (''0x'' @ hex_of (replicate 12 0 @ b))) = Some (''0x'' @ hex_of b)"
    if "wf_bytes b" "length b = 20" for b
  proof -
    have z: "drop 12 (replicate 12 0 @ b) = b" by simp
    have "length (replicate 12 0 @ b) = 32" using that(2) by simp
    from topic_address_word [OF wf [OF that(1)] this] show ?thesis unfolding z .
  qed
  have idx: "hex_to_int (str_or (dget ?log ''logIndex'') (int_to_hex (int 0))) = Inr 0"
  proof -
    have "dget ?log ''logIndex'' = JNull" by (simp add: erc20_log_def dget_def)
    moreover have "hex_to_int (str_or JNull (int_to_hex (int 0))) = Inr 0" by code_simp
    ultimately show ?thesis by (simp only:)
  qed
  have fields: "py_or (dget ?log ''topics'') (JList []) = JList [JStr TRANSFER_TOPIC,
        JStr (''0x'' @ hex_of (replicate 12 0 @ sender)), JStr (''0x'' @ hex_of (replicate 12 0 @ recipient))]"
    "dget ?log ''address'' = JStr (''0x'' @ hex_of token)" "dget ?log ''data'' = JStr (''0x'' @ hex_of amount)"
    by (simp_all add: erc20_log_def dget_def py_or_def)
  have t0: "lower (py_str (JStr TRANSFER_TOPIC)) = TRANSFER_TOPIC" by (simp add: TRANSFER_TOPIC_def lower_topic)
  have step: "token_transfer effect (''0x'' @ hex_of token) [JStr TRANSFER_TOPIC,
        JStr (''0x'' @ hex_of (replicate 12 0 @ sender)), JStr (''0x'' @ hex_of (replicate 12 0 @ recipient))] amount 0
     = Inr ([mk_transfer (log_transfer_id 0 0) ''erc20'' (Some (''0x'' @ hex_of token)) (''0x'' @ hex_of sender)
             (''0x'' @ hex_of recipient) (nat_str (from_be amount)) None None ''receipt_log'' (log_ref 0) effect], [], False)"
    using topic [OF assms(3,4)] topic [OF assms(5,6)] assms(8)
    by (simp add: token_transfer_def topic_at_def numeral_2_eq_2 del: append.simps replicate.simps)
  have "log_step MAX_TRANSFERS effect 0 ?log = Inr ([mk_transfer (log_transfer_id 0 0) ''erc20'' (Some (''0x'' @ hex_of token)) (''0x'' @ hex_of sender)
             (''0x'' @ hex_of recipient) (nat_str (from_be amount)) None None ''receipt_log'' (log_ref 0) effect], [], False)"
    unfolding log_step_def fields json.case list.case Let_def t0 idx and_then_simps
      as_address_hex_of [OF assms(1,2)] hex_data_hex_of [OF assms(7)] prod.case option.case step
    by (simp only: idx and_then_simps step simp_thms if_True)
  then show ?thesis by (simp add: transfers_from_logs_def MAX_TRANSFERS_def)
qed

text \<open>A transfer is read as it was emitted: from the log of an ERC-20 transfer the case records
  exactly one transfer, of that token, from and to those addresses and of that amount, and
  nothing is lost or warned about.\<close>

theorem erc20_transfer_read:
  assumes "wf_bytes token" "length token = 20" and "wf_bytes sender" "length sender = 20"
    and "wf_bytes recipient" "length recipient = 20" and "wf_bytes amount" "length amount = 32"
  shows "transfers_from_logs [erc20_log token sender recipient amount] ws effect =
     Inr ([mk_transfer (log_transfer_id 0 0) ''erc20'' (Some (''0x'' @ hex_of token)) (''0x'' @ hex_of sender)
             (''0x'' @ hex_of recipient) (nat_str (from_be amount)) None None ''receipt_log'' (log_ref 0) effect], ws)"
  using assms by (rule transfers_from_erc20_log)

theorem erc20_transfer_read_witness:
  "\<exists>t. transfers_from_logs [erc20_log (replicate 20 1) (replicate 20 2) (replicate 20 3) (replicate 31 0 @ [7])] [] ''committed''
     = Inr ([t], []) \<and> at_amount t = ''7'' \<and> at_sender t = ''0x'' @ hex_of (replicate 20 2)"
proof -
  have "nat_str (from_be (replicate 31 0 @ [7])) = ''7''" by code_simp
  with erc20_transfer_read [of "replicate 20 1" "replicate 20 2" "replicate 20 3" "replicate 31 0 @ [7]" "[]" "''committed''"]
  show ?thesis by (simp add: wf_bytes_def mk_transfer_def)
qed

text \<open>Token transfers read from the logs of a receipt are bounded and well formed whatever the logs
  contain: at most 20,000, each with well-formed sender and recipient, of one of the three
  token standards, with a token identifier unless it is ERC-20, and with the execution effect
  of the receipt.\<close>

theorem log_transfers_well_formed:
  assumes "transfers_from_logs logs ws effect = Inr (ts, ws')"
  shows "length ts \<le> MAX_TRANSFERS \<and> list_all (wf_log_transfer effect) ts"
  using assms by (rule transfers_from_logs_ok)

theorem log_transfers_well_formed_witness:
  "\<exists>ts. transfers_from_logs [erc20_log (replicate 20 1) (replicate 20 2) (replicate 20 3) (replicate 32 7)] [] EXECUTION_COMMITTED
     = Inr (ts, []) \<and> length ts = 1 \<and> list_all (wf_log_transfer EXECUTION_COMMITTED) ts"
proof -
  obtain t where run: "transfers_from_logs [erc20_log (replicate 20 1) (replicate 20 2) (replicate 20 3) (replicate 32 7)]
      [] EXECUTION_COMMITTED = Inr ([t], [])"
    using transfers_from_erc20_log [of "replicate 20 1" "replicate 20 2" "replicate 20 3" "replicate 32 7"]
    by (simp add: wf_bytes_def)
  from log_transfers_well_formed [OF run] run show ?thesis by simp
qed

end
