(* ===== verification/Investigation.thy ===== *)
theory Investigation
  imports Asset_Flow Proxy State_Diff Config
begin

text \<open>
  The case itself of \<^verbatim>\<open>src/white_radar/investigation.py\<close>: entities, relationships, timeline,
  findings, the retained source documents, and \<^verbatim>\<open>investigate_transaction\<close>, which reads a
  confirmed transaction through the RPC interface and composes them. The exceptions the method
  catches become warnings; the others are its error results.
\<close>

section \<open>Entities\<close>

definition MAX_ENTITIES :: nat where "MAX_ENTITIES = 1000"
definition MAX_CODE_LOOKUPS :: nat where "MAX_CODE_LOOKUPS = 128"

record entity =
  en_address :: string
  en_kind :: string
  en_label :: "string option"
  en_roles :: "string list"
  en_code_observed :: "bool option"
  en_code_bytes :: "nat option"
  en_runtime_code_sha256 :: "string option"

record role_table =
  rt_roles :: "(string \<times> string list) list"
  rt_kinds :: "(string \<times> string) list"
  rt_truncated :: bool

text \<open>The local function \<^verbatim>\<open>add\<close> and the mentions it is called with.\<close>

type_synonym mention = "string option \<times> string \<times> string option"

definition add_role :: "mention \<Rightarrow> role_table \<Rightarrow> role_table" where
  "add_role m t =
     (case m of (v, role, kind) \<Rightarrow>
        if \<not> truthy_opt v then t
        else if MAX_ENTITIES \<le> length (rt_roles t) \<and> the v \<notin> fst ` set (rt_roles t)
        then t\<lparr> rt_truncated := True \<rparr>
        else t\<lparr> rt_roles := upsert_row fst (\<lambda>old new. (fst old, List.insert role (snd old))) (the v, [role]) (rt_roles t),
                rt_kinds := (case kind of None \<Rightarrow> rt_kinds t
                   | Some k \<Rightarrow> upsert_row fst (\<lambda>old new. new) (the v, k) (rt_kinds t)) \<rparr>)"

definition transaction_mentions :: "dict \<Rightarrow> dict \<Rightarrow> mention list" where
  "transaction_mentions transaction receipt =
     (let target = as_address (dget transaction ''to'') in
      [(as_address (dget transaction ''from''), ''transaction_origin'', Some ''account''),
       (target, ''transaction_target'', if target = None then None else Some ''contract''),
       (as_address (dget receipt ''contractAddress''), ''created_contract'', Some ''contract'')])"

definition frame_mentions :: "call_frame \<Rightarrow> mention list" where
  "frame_mentions f =
     (let creates = (cf_call_type f \<in> {''CREATE'', ''CREATE2''}) in
      [(cf_sender f, ''call_sender'', None),
       (cf_recipient f, if creates then ''created_contract'' else ''call_recipient'',
        if creates \<or> cf_call_type f = ''DELEGATECALL'' then Some ''contract'' else None)])"

definition transfer_mentions :: "asset_transfer \<Rightarrow> mention list" where
  "transfer_mentions t =
     [(Some (at_sender t), ''asset_sender'', None), (Some (at_recipient t), ''asset_recipient'', None),
      (at_asset_address t, ''asset_contract'', Some ''contract''), (at_operator t, ''asset_operator'', None)]"

definition all_mentions ::
  "dict \<Rightarrow> dict \<Rightarrow> call_frame list \<Rightarrow> event_record list \<Rightarrow> asset_transfer list \<Rightarrow> mention list" where
  "all_mentions transaction receipt calls events transfers =
     transaction_mentions transaction receipt @ concat (map frame_mentions calls)
       @ map (\<lambda>e. (xe_address e, ''event_emitter'', Some ''contract'')) events
       @ concat (map transfer_mentions transfers)"

definition known_label :: "watchlist option \<Rightarrow> int \<Rightarrow> string \<Rightarrow> string option" where
  "known_label w chain_id address =
     (case w of None \<Rightarrow> None
      | Some wl \<Rightarrow> (case watch_contract wl chain_id address of None \<Rightarrow> None
          | Some c \<Rightarrow> Some (cw_protocol c @ '' '' @ cw_role c)))"

text \<open>What \<^verbatim>\<open>eth_getCode\<close> says of an address: kind, observed, size, digest; and the lookups used.\<close>

definition code_is_observed :: "string \<Rightarrow> bool" where
  "code_is_observed c =
     (c \<notin> {''0x'', ''0x0'', []} \<and> list_ex (\<lambda>x. x \<noteq> CHR ''0'') (removeprefix ''0x'' c))"

definition plain_entity :: "string \<Rightarrow> string option \<Rightarrow> string option \<Rightarrow> string list \<Rightarrow> entity" where
  "plain_entity address kind label roles =
     \<lparr> en_address = address, en_kind = (case kind of None \<Rightarrow> ''unknown'' | Some k \<Rightarrow> k), en_label = label,
       en_roles = sort roles, en_code_observed = None, en_code_bytes = None, en_runtime_code_sha256 = None \<rparr>"

definition coded_entity ::
  "(bytes \<Rightarrow> string) \<Rightarrow> string \<Rightarrow> string \<Rightarrow> string option \<Rightarrow> string option \<Rightarrow> string list \<Rightarrow> entity" where
  "coded_entity sha256 code_text address kind label roles =
     (let seen = code_is_observed code_text; raw = hex_data (JStr code_text) in
      \<lparr> en_address = address,
        en_kind = (if kind = Some ''contract'' \<or> seen then ''contract'' else ''account''),
        en_label = label, en_roles = sort roles, en_code_observed = Some seen,
        en_code_bytes = map_option length raw,
        en_runtime_code_sha256 = (case raw of None \<Rightarrow> None | Some b \<Rightarrow> if b = [] then None else Some (sha256 b)) \<rparr>)"

definition system_entity :: "string \<Rightarrow> string option \<Rightarrow> string list \<Rightarrow> entity" where
  "system_entity address label roles =
     \<lparr> en_address = address, en_kind = ''system'', en_label = label, en_roles = sort roles,
       en_code_observed = Some False, en_code_bytes = Some 0, en_runtime_code_sha256 = None \<rparr>"

fun entities_loop ::
  "(bytes \<Rightarrow> string) \<Rightarrow> rpc \<Rightarrow> string \<Rightarrow> (string \<Rightarrow> string option) \<Rightarrow> (string \<times> string) list
     \<Rightarrow> (string \<times> string list) list \<Rightarrow> nat \<Rightarrow> entity list res" where
  "entities_loop sha256 call block_ref label kinds [] lookups = Inr []"
| "entities_loop sha256 call block_ref label kinds ((address, roles) # rest) lookups =
     (let kind = map_of kinds address in
      if address = ZERO_ADDRESS
      then and_then (entities_loop sha256 call block_ref label kinds rest lookups)
             (\<lambda>es. Inr (system_entity address (label address) roles # es))
      else if kind \<noteq> Some ''account'' \<and> lookups < MAX_CODE_LOOKUPS then
        (case rpc_code call address block_ref of
           Inl e \<Rightarrow> if is_rpc_error e \<or> e = AttributeError
             then and_then (entities_loop sha256 call block_ref label kinds rest (Suc lookups))
                    (\<lambda>es. Inr (plain_entity address kind (label address) roles # es))
             else Inl e
         | Inr c \<Rightarrow> and_then (entities_loop sha256 call block_ref label kinds rest (Suc lookups))
             (\<lambda>es. Inr (coded_entity sha256 c address kind (label address) roles # es)))
      else and_then (entities_loop sha256 call block_ref label kinds rest lookups)
             (\<lambda>es. Inr (plain_entity address kind (label address) roles # es)))"

definition build_entities ::
  "(bytes \<Rightarrow> string) \<Rightarrow> rpc \<Rightarrow> int \<Rightarrow> int \<Rightarrow> watchlist option \<Rightarrow> mention list \<Rightarrow> (entity list \<times> bool) res" where
  "build_entities sha256 call chain_id block_number w mentions =
     (let t = fold add_role mentions \<lparr> rt_roles = [], rt_kinds = [], rt_truncated = False \<rparr> in
      and_then (entities_loop sha256 call (int_to_hex block_number) (known_label w chain_id) (rt_kinds t)
                  (sort_key fst (rt_roles t)) 0)
        (\<lambda>es. Inr (es, rt_truncated t)))"

section \<open>Relationships\<close>

record relationship =
  re_relationship_id :: string
  re_source :: string
  re_target :: string
  re_relation :: string
  re_evidence_ref :: string
  re_asset_address :: "string option"
  re_amount :: "string option"
  re_asset_type :: "string option"
  re_asset_symbol :: "string option"
  re_amount_display :: "string option"
  re_execution_effect :: string

definition frame_relationship :: "call_frame \<Rightarrow> relationship option" where
  "frame_relationship f =
     (case (cf_sender f, cf_recipient f) of
        (Some s, Some r) \<Rightarrow>
          (let v = (if cf_call_type f \<in> set VALUE_TRANSFER_CALL_TYPES then cf_value_wei f else 0) in
           Some \<lparr> re_relationship_id = ''call:'' @ cf_path f, re_source = s, re_target = r,
             re_relation = cf_call_type f, re_evidence_ref = ''call:'' @ cf_path f, re_asset_address = None,
             re_amount = (if v = 0 then None else Some (int_str v)), re_asset_type = None,
             re_asset_symbol = None, re_amount_display = None, re_execution_effect = cf_execution_effect f \<rparr>)
      | _ \<Rightarrow> None)"

definition transfer_relationship :: "asset_transfer \<Rightarrow> relationship" where
  "transfer_relationship t =
     \<lparr> re_relationship_id = at_transfer_id t, re_source = at_sender t, re_target = at_recipient t,
       re_relation = upper (at_asset_type t) @ ''_TRANSFER'', re_evidence_ref = at_evidence_ref t,
       re_asset_address = at_asset_address t, re_amount = Some (at_amount t),
       re_asset_type = Some (at_asset_type t), re_asset_symbol = at_asset_symbol t,
       re_amount_display = at_amount_display t, re_execution_effect = at_execution_effect t \<rparr>"

definition build_relationships :: "call_frame list \<Rightarrow> asset_transfer list \<Rightarrow> relationship list" where
  "build_relationships calls transfers =
     List.map_filter frame_relationship calls @ map transfer_relationship transfers"

section \<open>Timeline\<close>

record timeline_entry =
  tl_entry_id :: string
  tl_phase :: string
  tl_order :: int
  tl_event_type :: string
  tl_summary :: string
  tl_evidence_ref :: string

definition effect_suffix :: "string \<Rightarrow> string" where
  "effect_suffix effect =
     (if effect = EXECUTION_ATTEMPTED_REVERTED then '' (attempted; reverted)''
      else if effect = EXECUTION_UNKNOWN then '' (final effect unknown)'' else [])"

definition text_or :: "string option \<Rightarrow> string \<Rightarrow> string" where
  "text_or a dflt = (if truthy_opt a then the a else dflt)"

definition call_entry :: "nat \<Rightarrow> call_frame \<Rightarrow> timeline_entry" where
  "call_entry i f =
     \<lparr> tl_entry_id = ''call:'' @ cf_path f, tl_phase = ''execution'', tl_order = int i,
       tl_event_type = lower (cf_call_type f),
       tl_summary = cf_call_type f @ '' to '' @ text_or (cf_recipient f) ''contract creation'' @ '' via ''
         @ text_or (cf_function_signature f) (cf_selector f) @ effect_suffix (cf_execution_effect f),
       tl_evidence_ref = ''call:'' @ cf_path f \<rparr>"

definition event_entry :: "event_record \<Rightarrow> timeline_entry" where
  "event_entry e =
     \<lparr> tl_entry_id = ''event:'' @ int_str (xe_log_index e), tl_phase = ''events'', tl_order = xe_log_index e,
       tl_event_type = (if xe_decode_confidence e = Some ''verified'' then ''verified_event'' else ''event''),
       tl_summary = text_or (xe_event_signature e) (text_or (xe_topic0 e) ''anonymous/unresolved'')
         @ '' emitted by '' @ text_or (xe_address e) ''unknown emitter'',
       tl_evidence_ref = xe_evidence_ref e \<rparr>"

text \<open>\<^verbatim>\<open>s.split(c, 1)[-1]\<close> and \<^verbatim>\<open>s.split(c, 1)[0]\<close>\<close>

definition after_first :: "char \<Rightarrow> string \<Rightarrow> string" where
  "after_first c s = (if c \<in> set s then tl (dropWhile (\<lambda>x. x \<noteq> c) s) else s)"

definition before_first :: "char \<Rightarrow> string \<Rightarrow> string" where
  "before_first c s = takeWhile (\<lambda>x. x \<noteq> c) s"

definition transfer_order :: "nat \<Rightarrow> string \<Rightarrow> int" where
  "transfer_order n ref =
     (case py_int10 (before_first (CHR ''.'') (after_first (CHR '':'') ref)) of Inl e \<Rightarrow> int n | Inr i \<Rightarrow> i)"

definition transfer_entry :: "nat \<Rightarrow> asset_transfer \<Rightarrow> timeline_entry" where
  "transfer_entry n t =
     \<lparr> tl_entry_id = at_transfer_id t, tl_phase = ''asset_flow'', tl_order = transfer_order n (at_evidence_ref t),
       tl_event_type = (if at_execution_effect t = EXECUTION_COMMITTED then at_asset_type t @ ''_transfer''
          else ''attempted_'' @ at_asset_type t @ ''_transfer''),
       tl_summary = at_execution_effect t @ '': '' @ at_amount t @ '' '' @ at_asset_type t
         @ (case at_token_id t of None \<Rightarrow> [] | Some i \<Rightarrow> '' token '' @ i)
         @ '' from '' @ at_sender t @ '' to '' @ at_recipient t,
       tl_evidence_ref = at_evidence_ref t \<rparr>"

definition phase_order :: "string \<Rightarrow> nat" where
  "phase_order p = (if p = ''execution'' then 0 else if p = ''events'' then 1 else if p = ''asset_flow'' then 2 else 99)"

definition build_timeline :: "call_frame list \<Rightarrow> event_record list \<Rightarrow> asset_transfer list \<Rightarrow> timeline_entry list" where
  "build_timeline calls events transfers =
     (let n = length calls + length events in
      sort_key (\<lambda>e. (phase_order (tl_phase e), tl_order e, tl_entry_id e))
        (map (\<lambda>(i, f). call_entry i f) (enumerate 0 calls) @ map event_entry events
          @ map (\<lambda>(i, t). transfer_entry (n + i) t) (enumerate 0 transfers)))"

section \<open>Findings\<close>

record case_finding =
  fi_code :: string
  fi_category :: string
  fi_summary :: string
  fi_evidence_refs :: "string list"

definition case_finding_if :: "bool \<Rightarrow> string \<Rightarrow> string \<Rightarrow> string \<Rightarrow> string list \<Rightarrow> case_finding list" where
  "case_finding_if b c category summary refs =
     (if b then [\<lparr> fi_code = c, fi_category = category, fi_summary = summary, fi_evidence_refs = refs \<rparr>] else [])"

definition counted_finding :: "string list \<Rightarrow> string \<Rightarrow> string \<Rightarrow> string \<Rightarrow> string \<Rightarrow> case_finding list" where
  "counted_finding refs c category before after =
     case_finding_if (refs \<noteq> []) c category (before @ nat_str (length refs) @ after) (take 20 refs)"

definition call_ref :: "call_frame \<Rightarrow> string" where
  "call_ref f = ''call:'' @ cf_path f"

definition committed_refs :: "bool \<Rightarrow> asset_transfer list \<Rightarrow> string list" where
  "committed_refs native transfers =
     map at_evidence_ref (filter (\<lambda>t. (at_asset_type t = ''native'') = native
        \<and> at_execution_effect t = EXECUTION_COMMITTED) transfers)"

definition call_findings :: "string \<Rightarrow> call_frame list \<Rightarrow> case_finding list" where
  "call_findings status calls =
     case_finding_if (status = ''reverted'') ''transaction_reverted'' ''execution''
       ''The transaction receipt records a reverted execution.'' [''receipt'']
   @ counted_finding (map call_ref (filter (\<lambda>f. truthy_opt (cf_error f) \<or> truthy_opt (cf_revert_reason f)) calls))
       ''reverted_internal_calls'' ''execution'' ''The call trace contains '' '' reverted internal call(s).''
   @ counted_finding (map call_ref (filter (\<lambda>f. cf_call_type f = ''DELEGATECALL'') calls))
       ''delegated_execution'' ''control_flow'' ''The execution graph contains '' '' DELEGATECALL frame(s).''
   @ counted_finding (map call_ref (filter (\<lambda>f. cf_call_type f \<in> {''CREATE'', ''CREATE2''}) calls))
       ''contract_creation'' ''control_flow'' ''The transaction created '' '' contract(s) in its call graph.''"

definition flow_findings :: "asset_transfer list \<Rightarrow> case_finding list" where
  "flow_findings transfers =
     counted_finding (committed_refs False transfers) ''token_asset_flow'' ''asset_flow''
       ''Receipt logs reconstruct '' '' token transfer(s).''
   @ counted_finding (committed_refs True transfers) ''native_asset_flow'' ''asset_flow''
       ''The call graph reconstructs '' '' native-value transfer(s).''
   @ counted_finding (map at_evidence_ref (filter (\<lambda>t. at_execution_effect t = EXECUTION_ATTEMPTED_REVERTED) transfers))
       ''attempted_reverted_asset_flow'' ''asset_flow'' ''The trace records ''
       '' attempted value transfer(s) that did not commit to final chain state.''"

definition context_findings ::
  "event_record list \<Rightarrow> proxy_snapshot option \<Rightarrow> state_diff option \<Rightarrow> case_finding list" where
  "context_findings events proxy diff =
     case_finding_if (case proxy of None \<Rightarrow> False | Some s \<Rightarrow> truthy_opt (px_effective s))
       ''proxy_execution_context'' ''contract_identity''
       (''The transaction target resolves to an implementation contract at the '' @ ''transaction block.'')
       [''proxy_snapshot'']
   @ counted_finding (map xe_evidence_ref (filter (\<lambda>e. xe_decode_confidence e = Some ''verified'') events))
       ''verified_event_evidence'' ''event_evidence'' ''Verified contract ABIs decoded '' '' emitted event(s).''
   @ (case diff of None \<Rightarrow> [] | Some d \<Rightarrow>
       case_finding_if (sd_accounts d \<noteq> []) ''state_changes_observed'' ''state_evidence''
         (''The pre/post trace records '' @ nat_str (length (sd_accounts d)) @ '' changed account(s) and ''
           @ nat_str (sd_storage_change_count d) @ '' changed storage slot(s).'') [''state_diff''])"

definition build_findings ::
  "string \<Rightarrow> call_frame list \<Rightarrow> event_record list \<Rightarrow> asset_transfer list \<Rightarrow> proxy_snapshot option
     \<Rightarrow> state_diff option \<Rightarrow> case_finding list" where
  "build_findings status calls events transfers proxy diff =
     call_findings status calls @ flow_findings transfers @ context_findings events proxy diff"

section \<open>Retained sources\<close>

definition keep_fields :: "string list \<Rightarrow> dict \<Rightarrow> dict" where
  "keep_fields names d = concat (map (\<lambda>f. case map_of d f of None \<Rightarrow> [] | Some v \<Rightarrow> [(f, v)]) names)"

definition source_transaction :: "dict \<Rightarrow> dict" where
  "source_transaction transaction =
     keep_fields [''hash'', ''blockHash'', ''blockNumber'', ''transactionIndex'', ''from'', ''to'', ''nonce'',
       ''value'', ''gas'', ''gasPrice'', ''maxFeePerGas'', ''maxPriorityFeePerGas'', ''type'', ''chainId'',
       ''input'', ''accessList''] transaction"

definition MAX_RECEIPT_LOGS :: nat where "MAX_RECEIPT_LOGS = 5000"

definition source_log :: "(bytes \<Rightarrow> string) \<Rightarrow> dict \<Rightarrow> dict" where
  "source_log sha256 entry =
     (let with_data = (case hex_data (dget entry ''data'') of
            Some raw \<Rightarrow>
              put_field ''dataTruncated'' (JBool (MAX_EVENT_DATA_BYTES < length raw))
               (put_field ''dataSha256'' (JStr (sha256 raw))
                (put_field ''dataBytes'' (JInt (int (length raw)))
                 (put_field ''data'' (JStr (hex0x (take MAX_EVENT_DATA_BYTES raw))) entry)))
          | None \<Rightarrow> put_field ''data''
              (JStr (take (2 + MAX_EVENT_DATA_BYTES * 2) (str_or (dget entry ''data'') ''0x''))) entry)
      in case dget entry ''topics'' of
           JList topics \<Rightarrow> put_field ''topics'' (JList (map (\<lambda>t. JStr (take 66 (py_str t))) (take 32 topics))) with_data
         | _ \<Rightarrow> with_data)"

definition source_receipt :: "(bytes \<Rightarrow> string) \<Rightarrow> dict \<Rightarrow> dict" where
  "source_receipt sha256 receipt =
     keep_fields [''transactionHash'', ''transactionIndex'', ''blockHash'', ''blockNumber'', ''from'', ''to'',
       ''contractAddress'', ''cumulativeGasUsed'', ''gasUsed'', ''effectiveGasPrice'', ''status'', ''type'',
       ''logsBloom''] receipt
     @ [(''logs'', JList (map (\<lambda>d. JObj (source_log sha256 d))
          (only_dicts (take MAX_RECEIPT_LOGS (case py_or (dget receipt ''logs'') (JList []) of JList xs \<Rightarrow> xs | _ \<Rightarrow> [])))))]"

section \<open>The confirmed transaction\<close>

record confirmed =
  cn_transaction :: dict
  cn_receipt :: dict
  cn_block :: dict
  cn_number :: int
  cn_hash :: "string option"
  cn_outcome :: string

definition require_dict :: "dict option res \<Rightarrow> dict res" where
  "require_dict r = and_then r (\<lambda>d. case d of None \<Rightarrow> Inl RuntimeError
     | Some x \<Rightarrow> if x = [] then Inl RuntimeError else Inr x)"

definition require_true :: "bool \<Rightarrow> unit res" where
  "require_true b = (if b then Inr () else Inl RuntimeError)"

definition hash_names :: "dict \<Rightarrow> string \<Rightarrow> string" where
  "hash_names d k = lower (str_or (dget d k) [])"

definition block_hashes :: "dict \<Rightarrow> dict \<Rightarrow> dict \<Rightarrow> string list" where
  "block_hashes transaction receipt block =
     fromkeys (map (\<lambda>v. lower (py_str v))
       (filter truthy [dget transaction ''blockHash'', dget receipt ''blockHash'', dget block ''hash'']))"

definition receipt_outcome :: "dict \<Rightarrow> string res" where
  "receipt_outcome receipt =
     (if dget receipt ''status'' = JNull then Inr ''unknown''
      else and_then (quantity (dget receipt ''status'')) (\<lambda>n.
        Inr (if n = 1 then ''succeeded'' else if n = 0 then ''reverted'' else ''unknown'')))"

definition same_block :: "int option \<Rightarrow> int \<Rightarrow> bool" where
  "same_block other n = (case other of None \<Rightarrow> True | Some m \<Rightarrow> m = n)"

definition confirm_transaction :: "rpc \<Rightarrow> string \<Rightarrow> confirmed res" where
  "confirm_transaction call tx_hash =
     and_then (require_dict (rpc_transaction call tx_hash)) (\<lambda>transaction.
     and_then (require_true (hash_names transaction ''hash'' = tx_hash)) (\<lambda>_.
     and_then (require_dict (rpc_receipt call tx_hash)) (\<lambda>receipt.
     and_then (require_true (hash_names receipt ''transactionHash'' = tx_hash)) (\<lambda>_.
     and_then (quantity (dget receipt ''blockNumber'')) (\<lambda>n.
     and_then (require_true (same_block (optional_quantity (dget transaction ''blockNumber'')) n)) (\<lambda>_.
     and_then (require_dict (rpc_block call n False)) (\<lambda>block.
     and_then (require_true (same_block (optional_quantity (dget block ''number'')) n)) (\<lambda>_.
     and_then (require_true (length (block_hashes transaction receipt block) \<le> 1)) (\<lambda>_.
     and_then (receipt_outcome receipt) (\<lambda>outcome.
       Inr \<lparr> cn_transaction = transaction, cn_receipt = receipt, cn_block = block, cn_number = n,
             cn_hash = (case block_hashes transaction receipt block of [] \<Rightarrow> None | h # hs \<Rightarrow> Some h),
             cn_outcome = outcome \<rparr>))))))))))"

section \<open>The parts of the case\<close>

definition transaction_fee :: "confirmed \<Rightarrow> string option" where
  "transaction_fee c =
     (case (optional_quantity (dget (cn_receipt c) ''gasUsed''),
            optional_quantity (py_or (dget (cn_receipt c) ''effectiveGasPrice'') (dget (cn_transaction c) ''gasPrice''))) of
        (Some g, Some p) \<Rightarrow> Some (int_str (g * p)) | _ \<Rightarrow> None)"

definition fee_warning :: string where
  "fee_warning = ''Transaction fee is unavailable because gas evidence is incomplete.''"
definition malformed_logs_warning :: string where
  "malformed_logs_warning = ''Receipt logs are malformed and could not be retained.''"
definition log_cap_notice :: string where
  "log_cap_notice = ''Receipt logs were capped at '' @ nat_str MAX_RECEIPT_LOGS @ '' entries.''"
definition proxy_warning :: string where
  "proxy_warning = ''Proxy inspection was unavailable from the configured RPC endpoint.''"
definition no_trace_warning :: string where
  "no_trace_warning = ''The RPC endpoint returned no call trace for this transaction.''"
definition trace_warning :: string where
  "trace_warning = ''Call tracing is unavailable; receipt logs and top-level transaction evidence ''
     @ ''remain complete.''"
definition frame_cap_warning :: string where
  "frame_cap_warning = ''The call graph was capped at '' @ nat_str MAX_CALL_FRAMES @ '' frames.''"
definition calldata_warning :: "nat \<Rightarrow> string" where
  "calldata_warning n = ''Calldata was display-capped at '' @ nat_str MAX_CALLDATA_BYTES @ '' bytes in ''
     @ nat_str n @ '' call frame(s); full byte lengths and SHA-256 digests are retained.''"
definition no_diff_warning :: string where
  "no_diff_warning = ''The RPC endpoint returned no pre/post state-diff evidence.''"
definition diff_warning :: string where
  "diff_warning = ''Pre/post account and storage changes are unavailable from this RPC endpoint.''"
definition inconsistent_logs_warning :: string where
  "inconsistent_logs_warning =
     ''The RPC receipt reports a reverted transaction but also contains logs; log-derived ''
     @ ''asset effects are classified as unknown because this evidence is inconsistent.''"
definition entity_cap_warning :: string where
  "entity_cap_warning = ''The entity inventory was capped at '' @ nat_str MAX_ENTITIES @ '' addresses.''"
definition replay_mismatch_warning :: string where
  "replay_mismatch_warning = ''Pre-state eth_call did not reproduce the confirmed outcome; use the mined ''
     @ ''trace as primary execution evidence.''"
definition replay_warning :: string where
  "replay_warning = ''Historical pre-state replay is unavailable from this RPC endpoint.''"

text \<open>The two exception filters of the method.\<close>

definition rpc_gap :: "exn \<Rightarrow> bool" where
  "rpc_gap e = (is_rpc_error e \<or> e = AttributeError)"

definition evidence_gap :: "exn \<Rightarrow> bool" where
  "evidence_gap e = (rpc_gap e \<or> is_value_error e)"

definition receipt_logs :: "confirmed \<Rightarrow> dict list \<times> string list" where
  "receipt_logs c =
     (case py_or (dget (cn_receipt c) ''logs'') (JList []) of
        JList raw \<Rightarrow> (only_dicts (take MAX_RECEIPT_LOGS raw),
          if MAX_RECEIPT_LOGS < length raw then [log_cap_notice] else [])
      | _ \<Rightarrow> ([], [malformed_logs_warning]))"

definition proxy_context ::
  "(bytes \<Rightarrow> string) \<Rightarrow> (bytes \<Rightarrow> nat) \<Rightarrow> rpc \<Rightarrow> confirmed \<Rightarrow> (proxy_snapshot option \<times> string list) res" where
  "proxy_context sha256 blake8 call c =
     (case as_address (dget (cn_transaction c) ''to'') of
        None \<Rightarrow> Inr (None, [])
      | Some target \<Rightarrow>
          (case inspect_proxy sha256 blake8 call target (Some (cn_number c)) of
             Inl e \<Rightarrow> if evidence_gap e then Inr (None, [proxy_warning]) else Inl e
           | Inr s \<Rightarrow> Inr (if truthy_opt (px_effective s) \<or> truthy_opt (px_admin s) \<or> truthy_opt (px_beacon s)
               then Some s else None, [])))"

definition trace_document :: "rpc \<Rightarrow> string \<Rightarrow> bool \<Rightarrow> (dict option \<times> string list) res" where
  "trace_document call tx_hash include_trace =
     (if \<not> include_trace then Inr (None, [])
      else case rpc_trace_transaction call tx_hash of
        Inl e \<Rightarrow> if rpc_gap e then Inr (None, [trace_warning]) else Inl e
      | Inr None \<Rightarrow> Inr (None, [no_trace_warning])
      | Inr (Some d) \<Rightarrow> Inr (Some d, []))"

definition state_diff_evidence ::
  "(bytes \<Rightarrow> string) \<Rightarrow> rpc \<Rightarrow> string \<Rightarrow> bool \<Rightarrow> (state_diff option \<times> string list) res" where
  "state_diff_evidence sha256 call tx_hash include_state_diff =
     (if \<not> include_state_diff then Inr (None, [])
      else case rpc_trace_transaction_state_diff call tx_hash of
        Inl e \<Rightarrow> if evidence_gap e then Inr (None, [diff_warning]) else Inl e
      | Inr None \<Rightarrow> Inr (None, [no_diff_warning])
      | Inr (Some d) \<Rightarrow>
          (let sd = parse_state_diff sha256 d MAX_STATE_ACCOUNTS MAX_STORAGE_CHANGES in Inr (Some sd, sd_warnings sd)))"

definition root_call_of ::
  "abi_env option \<Rightarrow> int \<Rightarrow> confirmed \<Rightarrow> proxy_snapshot option \<Rightarrow> resolver \<Rightarrow> (decoded_call option \<times> resolver) res" where
  "root_call_of env chain_id c proxy r =
     (case (env, as_address (dget (cn_transaction c) ''to'')) of
        (Some e, Some target) \<Rightarrow>
          and_then (resolve_with_proxy e chain_id target (str_or (dget (cn_transaction c) ''input'') ''0x'')
              (case proxy of None \<Rightarrow> None | Some s \<Rightarrow> px_effective s) r)
            (\<lambda>(d, r'). Inr (Some d, r'))
      | _ \<Rightarrow> Inr (None, r))"

definition replay ::
  "(bytes \<Rightarrow> string) \<Rightarrow> rpc \<Rightarrow> confirmed \<Rightarrow> bool \<Rightarrow> (simulation_result option \<times> string list) res" where
  "replay sha256 call c replay_prestate =
     (if \<not> replay_prestate \<or> cn_number c \<le> 0 then Inr (None, [])
      else case simulate_transaction sha256 call (cn_transaction c) (Some (cn_number c - 1)) False of
        Inl e \<Rightarrow> if evidence_gap e then Inr (None, [replay_warning]) else Inl e
      | Inr s \<Rightarrow> Inr (Some s, if si_status s \<noteq> ''succeeded'' \<and> cn_outcome c = ''succeeded''
          then [replay_mismatch_warning] else []))"

definition calls_of ::
  "(bytes \<Rightarrow> string) \<Rightarrow> abi_env option \<Rightarrow> int \<Rightarrow> confirmed \<Rightarrow> proxy_snapshot option \<Rightarrow> dict option \<Rightarrow> resolver
     \<Rightarrow> (call_frame list \<times> bool \<times> resolver) res" where
  "calls_of sha256 env chain_id c proxy trace r =
     (case trace of
        None \<Rightarrow> Inr ([], False, r)
      | Some d \<Rightarrow>
          if d = [] then Inr ([], False, r)
          else and_then (flatten_trace sha256 env chain_id (case proxy of None \<Rightarrow> None | Some s \<Rightarrow> px_effective s) d r)
            (\<lambda>(fs, capped, r'). Inr (classify_call_effects fs (cn_outcome c), capped, r')))"

definition call_warnings :: "call_frame list \<Rightarrow> bool \<Rightarrow> string list" where
  "call_warnings calls capped =
     (let n = length (filter cf_calldata_truncated calls) in
      (if capped then [frame_cap_warning] else []) @ (if n \<noteq> 0 then [calldata_warning n] else []))"

definition log_effect :: "string \<Rightarrow> string" where
  "log_effect status = (if status = ''succeeded'' then EXECUTION_COMMITTED else EXECUTION_UNKNOWN)"

definition transfers_of ::
  "confirmed \<Rightarrow> call_frame list \<Rightarrow> dict list \<Rightarrow> string list \<Rightarrow> (asset_transfer list \<times> string list) res" where
  "transfers_of c calls logs warnings =
     (let ws = warnings @ (if cn_outcome c = ''reverted'' \<and> logs \<noteq> [] then [inconsistent_logs_warning] else []) in
      and_then (native_transfers calls (cn_transaction c) (cn_outcome c)) (\<lambda>native.
      and_then (transfers_from_logs logs ws (log_effect (cn_outcome c))) (\<lambda>(tokens, ws').
        Inr (native @ tokens, ws'))))"

section \<open>The investigation\<close>

record investigation_env =
  ie_sha256 :: "bytes \<Rightarrow> string"
  ie_blake8 :: "bytes \<Rightarrow> nat"
  ie_isoformat :: "int \<Rightarrow> string option"
  ie_resolver :: "abi_env option"
  ie_watchlist :: "watchlist option"
  ie_clock :: clock

record investigation_options =
  io_include_trace :: bool
  io_include_state_diff :: bool
  io_replay_prestate :: bool

record investigation_case =
  ik_id :: string
  ik_generated_at :: string
  ik_chain :: string
  ik_chain_id :: int
  ik_explorer_url :: string
  ik_transaction_hash :: string
  ik_block :: int
  ik_block_hash :: "string option"
  ik_block_timestamp :: "string option"
  ik_transaction_status :: string
  ik_transaction_fee_wei :: "string option"
  ik_trace_available :: bool
  ik_trace_truncated :: bool
  ik_source_transaction :: dict
  ik_source_receipt :: dict
  ik_root_call :: "decoded_call option"
  ik_calls :: "call_frame list"
  ik_events :: "event_record list"
  ik_transfers :: "asset_transfer list"
  ik_entities :: "entity list"
  ik_relationships :: "relationship list"
  ik_timeline :: "timeline_entry list"
  ik_findings :: "case_finding list"
  ik_warnings :: "string list"
  ik_proxy_snapshot :: "proxy_snapshot option"
  ik_historical_replay :: "simulation_result option"
  ik_state_diff :: "state_diff option"

text \<open>The evidence the method gathers, and the case it makes of it.\<close>

record gathered =
  ga_events :: "event_record list"
  ga_proxy :: "proxy_snapshot option"
  ga_trace :: "dict option"
  ga_calls :: "call_frame list"
  ga_cut :: bool
  ga_diff :: "state_diff option"
  ga_root :: "decoded_call option"
  ga_transfers :: "asset_transfer list"
  ga_warnings :: "string list"

definition gather ::
  "investigation_env \<Rightarrow> rpc \<Rightarrow> int \<Rightarrow> string \<Rightarrow> investigation_options \<Rightarrow> confirmed \<Rightarrow> resolver
     \<Rightarrow> (gathered \<times> resolver) res" where
  "gather env call chain_id tx_hash opt c r =
     (let sha256 = ie_sha256 env;
          w0 = (if transaction_fee c = None then [fee_warning] else []);
          (logs, w1) = receipt_logs c
      in and_then (events_from_logs sha256 (ie_resolver env) chain_id logs (w0 @ w1) r) (\<lambda>(events, w2, r1).
         and_then (proxy_context sha256 (ie_blake8 env) call c) (\<lambda>(proxy, w3).
         and_then (trace_document call tx_hash (io_include_trace opt)) (\<lambda>(trace, w4).
         and_then (calls_of sha256 (ie_resolver env) chain_id c proxy trace r1) (\<lambda>(calls, capped, r2).
         and_then (state_diff_evidence sha256 call tx_hash (io_include_state_diff opt)) (\<lambda>(diff, w5).
         and_then (root_call_of (ie_resolver env) chain_id c proxy r2) (\<lambda>(root, r3).
         and_then (transfers_of c calls logs (w2 @ w3 @ w4 @ call_warnings calls capped @ w5)) (\<lambda>(transfers, w6).
           Inr (\<lparr> ga_events = events, ga_proxy = proxy, ga_trace = trace, ga_calls = calls, ga_cut = capped,
                  ga_diff = diff, ga_root = root, ga_transfers = transfers, ga_warnings = w6 \<rparr>, r3)))))))))"

definition mk_case ::
  "investigation_env \<Rightarrow> chain_config \<Rightarrow> string \<Rightarrow> confirmed \<Rightarrow> gathered \<Rightarrow> entity list
     \<Rightarrow> simulation_result option \<Rightarrow> string list \<Rightarrow> investigation_case" where
  "mk_case env chain tx_hash c g entities historical warnings =
     \<lparr> ik_id = cc_name chain @ ''-'' @ take 16 (drop 2 tx_hash), ik_generated_at = utc_now (ie_clock env),
       ik_chain = cc_name chain, ik_chain_id = cc_chain_id chain, ik_explorer_url = cc_explorer_url chain,
       ik_transaction_hash = tx_hash, ik_block = cn_number c, ik_block_hash = cn_hash c,
       ik_block_timestamp = block_timestamp (ie_isoformat env) (cn_block c),
       ik_transaction_status = cn_outcome c, ik_transaction_fee_wei = transaction_fee c,
       ik_trace_available = (ga_trace g \<noteq> None), ik_trace_truncated = ga_cut g,
       ik_source_transaction = source_transaction (cn_transaction c),
       ik_source_receipt = source_receipt (ie_sha256 env) (cn_receipt c),
       ik_root_call = ga_root g, ik_calls = ga_calls g, ik_events = ga_events g, ik_transfers = ga_transfers g,
       ik_entities = entities, ik_relationships = build_relationships (ga_calls g) (ga_transfers g),
       ik_timeline = build_timeline (ga_calls g) (ga_events g) (ga_transfers g),
       ik_findings = build_findings (cn_outcome c) (ga_calls g) (ga_events g) (ga_transfers g) (ga_proxy g) (ga_diff g),
       ik_warnings = fromkeys warnings, ik_proxy_snapshot = ga_proxy g,
       ik_historical_replay = historical, ik_state_diff = ga_diff g \<rparr>"

definition investigate_transaction ::
  "investigation_env \<Rightarrow> rpc \<Rightarrow> chain_config \<Rightarrow> string \<Rightarrow> investigation_options \<Rightarrow> resolver
     \<Rightarrow> (investigation_case \<times> resolver) res" where
  "investigate_transaction env call chain transaction_hash opt r =
     and_then (validate_transaction_hash transaction_hash) (\<lambda>tx_hash.
     and_then (confirm_transaction call tx_hash) (\<lambda>c.
     and_then (gather env call (cc_chain_id chain) tx_hash opt c r) (\<lambda>(g, r').
     and_then (build_entities (ie_sha256 env) call (cc_chain_id chain) (cn_number c) (ie_watchlist env)
         (all_mentions (cn_transaction c) (cn_receipt c) (ga_calls g) (ga_events g) (ga_transfers g))) (\<lambda>(entities, capped).
     and_then (replay (ie_sha256 env) call c (io_replay_prestate opt)) (\<lambda>(historical, w).
       Inr (mk_case env chain tx_hash c g entities historical
              (ga_warnings g @ (if capped then [entity_cap_warning] else []) @ w), r'))))))"

section \<open>Lemmas\<close>

subsection \<open>The documents agree\<close>

lemma require_true_Inr [simp]: "require_true b = Inr u \<longleftrightarrow> b"
  by (auto simp: require_true_def)

lemma require_dict_Inr: "require_dict r = Inr d \<longleftrightarrow> r = Inr (Some d) \<and> d \<noteq> []"
  by (cases r) (auto simp: require_dict_def split: option.splits)

lemma confirm_Inr:
  assumes "confirm_transaction call h = Inr c"
  shows "rpc_transaction call h = Inr (Some (cn_transaction c))" "hash_names (cn_transaction c) ''hash'' = h"
    "rpc_receipt call h = Inr (Some (cn_receipt c))" "hash_names (cn_receipt c) ''transactionHash'' = h"
    "quantity (dget (cn_receipt c) ''blockNumber'') = Inr (cn_number c)"
    "same_block (optional_quantity (dget (cn_transaction c) ''blockNumber'')) (cn_number c)"
    "rpc_block call (cn_number c) False = Inr (Some (cn_block c))"
    "same_block (optional_quantity (dget (cn_block c) ''number'')) (cn_number c)"
    "length (block_hashes (cn_transaction c) (cn_receipt c) (cn_block c)) \<le> 1"
    "receipt_outcome (cn_receipt c) = Inr (cn_outcome c)"
    "cn_hash c = (case block_hashes (cn_transaction c) (cn_receipt c) (cn_block c) of [] \<Rightarrow> None | x # xs \<Rightarrow> Some x)"
  using assms unfolding confirm_transaction_def and_then_eq_Inr require_dict_Inr require_true_Inr by auto

lemma receipt_outcome_cases:
  "receipt_outcome r = Inr s \<Longrightarrow> s \<in> {''succeeded'', ''reverted'', ''unknown''}"
  by (auto simp: receipt_outcome_def and_then_eq_Inr split: if_splits)

lemma investigate_Inr:
  assumes "investigate_transaction env call chain th opt r = Inr (k, r')"
  obtains h c g entities capped historical w where
    "validate_transaction_hash th = Inr h" "confirm_transaction call h = Inr c"
    "gather env call (cc_chain_id chain) h opt c r = Inr (g, r')"
    "build_entities (ie_sha256 env) call (cc_chain_id chain) (cn_number c) (ie_watchlist env)
         (all_mentions (cn_transaction c) (cn_receipt c) (ga_calls g) (ga_events g) (ga_transfers g)) = Inr (entities, capped)"
    "k = mk_case env chain h c g entities historical
              (ga_warnings g @ (if capped then [entity_cap_warning] else []) @ w)"
  using assms unfolding investigate_transaction_def
  by (clarsimp simp: and_then_eq_Inr split: prod.splits)

lemma gather_Inr:
  assumes "gather env call cid h opt c r = Inr (g, r')"
  obtains logs w1 ws w r1 r2 trace where "receipt_logs c = (logs, w1)"
    "events_from_logs (ie_sha256 env) (ie_resolver env) cid logs ws r = Inr (ga_events g, w, r1)"
    "calls_of (ie_sha256 env) (ie_resolver env) cid c (ga_proxy g) trace r1 = Inr (ga_calls g, ga_cut g, r2)"
    "\<exists>ws'. transfers_of c (ga_calls g) logs ws' = Inr (ga_transfers g, ga_warnings g)"
  using assms unfolding gather_def Let_def
  by (cases "receipt_logs c")
    (clarsimp simp: and_then_eq_Inr split: prod.splits, rule that, (assumption | simp | blast)+)

subsection \<open>Bounds\<close>

lemma receipt_logs_length: "receipt_logs c = (logs, w) \<Longrightarrow> length logs \<le> MAX_RECEIPT_LOGS"
  by (auto simp: receipt_logs_def intro: le_trans [OF length_only_dicts] split: json.splits)

lemma calls_of_length:
  assumes "calls_of sha256 env cid c proxy trace r = Inr (calls, capped, r')"
  shows "length calls \<le> MAX_CALL_FRAMES"
proof -
  have "length fs \<le> MAX_CALL_FRAMES" if "flatten_trace sha256 env cid impl d r = Inr (fs, x, r2)" for impl d fs x r2
    using arg_cong [OF flatten_trace_marks(1) [OF that], of length] by simp
  with assms show ?thesis
    by (auto simp: calls_of_def and_then_eq_Inr classify_call_effects_def Let_def split: option.splits if_splits)
qed

lemma frame_native_length: "length (frame_native f) \<le> 1"
  by (auto simp: frame_native_def native_of_def split: option.split)

lemma native_transfers_length:
  assumes "native_transfers calls tx status = Inr ts"
  shows "length ts \<le> max 1 (length calls)"
proof -
  have "length (concat (map frame_native cs)) \<le> length cs" for cs
  proof (induction cs)
    case (Cons f cs)
    then show ?case using frame_native_length [of f] by simp
  qed simp
  moreover have "length (native_of a s r v ty src rf ef) \<le> 1" for a s r v ty src rf ef
    by (auto simp: native_of_def split: option.split)
  ultimately show ?thesis
    using assms by (auto simp: native_transfers_def and_then_eq_Inr le_max_iff_disj split: if_splits)
qed

definition roles_ok :: "role_table \<Rightarrow> bool" where
  "roles_ok t = (distinct (map fst (rt_roles t)) \<and> length (rt_roles t) \<le> MAX_ENTITIES)"

lemma add_role_ok: "roles_ok t \<Longrightarrow> roles_ok (add_role m t)"
proof -
  assume ok: "roles_ok t"
  obtain v role kind where m: "m = (v, role, kind)" by (cases m)
  have keys: "keys_distinct fst (upsert_row fst (\<lambda>old new. (fst old, List.insert role (snd old))) (a, [role]) (rt_roles t))" for a
    using ok by (intro keys_upsert_row) (auto simp: roles_ok_def keys_distinct_def)
  show ?thesis
    using ok keys unfolding keys_distinct_def
    by (auto simp: m add_role_def roles_ok_def upsert_row_def)
qed

lemma fold_add_role_ok: "roles_ok t \<Longrightarrow> roles_ok (fold add_role ms t)"
  by (induction ms arbitrary: t) (auto intro: add_role_ok)

lemma entities_loop_addresses:
  "entities_loop sha256 call ref label kinds roles n = Inr es \<Longrightarrow> map en_address es = map fst roles"
proof (induction roles arbitrary: n es)
  case (Cons x roles)
  obtain a rs where x: "x = (a, rs)" by (cases x)
  have [simp]: "en_address (system_entity a' l r) = a'" "en_address (plain_entity a' k l r) = a'"
    "en_address (coded_entity sha256 t a' k l r) = a'" for a' k l r t
    by (simp_all add: system_entity_def plain_entity_def coded_entity_def Let_def)
  from Cons show ?case
    by (auto simp: x Let_def and_then_eq_Inr split: if_splits sum.splits)
qed simp

lemma build_entities_ok:
  assumes "build_entities sha256 call cid n w ms = Inr (es, b)"
  shows "length es \<le> MAX_ENTITIES" "sorted (map en_address es)" "distinct (map en_address es)"
proof -
  define t where "t = fold add_role ms \<lparr> rt_roles = [], rt_kinds = [], rt_truncated = False \<rparr>"
  have ok: "roles_ok t" unfolding t_def by (rule fold_add_role_ok) (simp add: roles_ok_def)
  have addr: "map en_address es = map fst (sort_key fst (rt_roles t))"
    using assms by (auto simp: build_entities_def t_def Let_def and_then_eq_Inr dest: entities_loop_addresses)
  from arg_cong [OF addr, of length] ok show "length es \<le> MAX_ENTITIES" by (simp add: roles_ok_def)
  show "sorted (map en_address es)" by (simp add: addr)
  have "distinct (map fst (sort_key fst (rt_roles t)))"
    using ok by (auto simp: roles_ok_def distinct_map)
  then show "distinct (map en_address es)" by (simp only: addr)
qed

subsection \<open>A reverted transaction has no committed asset flow\<close>

lemma transfers_of_reverted:
  assumes "transfers_of c calls logs ws = Inr (ts, ws')" "cn_outcome c = ''reverted''"
    and "calls = classify_call_effects fs ''reverted''" "t \<in> set ts"
  shows "at_execution_effect t \<noteq> EXECUTION_COMMITTED"
proof -
  from assms(1,2) obtain native tokens where n: "native_transfers calls (cn_transaction c) ''reverted'' = Inr native"
    and k: "transfers_from_logs logs (ws @ (if logs \<noteq> [] then [inconsistent_logs_warning] else [])) EXECUTION_UNKNOWN = Inr (tokens, ws')"
    and ts: "ts = native @ tokens"
    by (auto simp: transfers_of_def Let_def and_then_eq_Inr log_effect_def split: prod.splits)
  show ?thesis
  proof (cases "t \<in> set native")
    case True
    from native_reverted [OF n [unfolded assms(3)] True] show ?thesis
      by (simp add: EXECUTION_ATTEMPTED_REVERTED_def EXECUTION_COMMITTED_def)
  next
    case False
    with assms(4) ts transfers_from_logs_ok [OF k] show ?thesis
      by (auto simp: list_all_iff wf_log_transfer_def EXECUTION_UNKNOWN_def EXECUTION_COMMITTED_def)
  qed
qed

lemma flow_findings_committed:
  assumes "\<forall>t \<in> set ts. at_execution_effect t \<noteq> EXECUTION_COMMITTED"
  shows "list_all (\<lambda>f. fi_code f = ''attempted_reverted_asset_flow'') (flow_findings ts)"
proof -
  have "committed_refs b ts = []" for b using assms by (auto simp: committed_refs_def filter_empty_conv)
  then show ?thesis by (simp add: flow_findings_def counted_finding_def case_finding_if_def)
qed

lemma calls_of_classified:
  "calls_of sha256 env cid c proxy trace r = Inr (calls, capped, r') \<Longrightarrow> \<exists>fs. calls = classify_call_effects fs (cn_outcome c)"
  by (auto simp: calls_of_def and_then_eq_Inr split: option.splits if_splits)
    (auto simp: classify_call_effects_def intro: exI [of _ "[]"])

lemma investigate_reverted_transfers:
  assumes "investigate_transaction env call chain th opt r = Inr (k, r')" "ik_transaction_status k = ''reverted''"
    and "t \<in> set (ik_transfers k)"
  shows "at_execution_effect t \<noteq> EXECUTION_COMMITTED"
proof -
  from assms(1) obtain h c g entities capped historical w where
    g: "gather env call (cc_chain_id chain) h opt c r = Inr (g, r')" and
    k: "k = mk_case env chain h c g entities historical
              (ga_warnings g @ (if capped then [entity_cap_warning] else []) @ w)"
    by (rule investigate_Inr)
  from k assms(2,3) have out: "cn_outcome c = ''reverted''" and t: "t \<in> set (ga_transfers g)"
    by (simp_all add: mk_case_def)
  from g obtain logs r1 r2 trace ws' where
    cs: "calls_of (ie_sha256 env) (ie_resolver env) (cc_chain_id chain) c (ga_proxy g) trace r1 = Inr (ga_calls g, ga_cut g, r2)" and
    tr: "transfers_of c (ga_calls g) logs ws' = Inr (ga_transfers g, ga_warnings g)"
    by (rule gather_Inr) blast
  from calls_of_classified [OF cs] obtain fs where "ga_calls g = classify_call_effects fs ''reverted''"
    using out by auto
  from transfers_of_reverted [OF tr out this t] show ?thesis .
qed

subsection \<open>The timeline\<close>

lemma timeline_sorted:
  "sorted (map (\<lambda>e. (phase_order (tl_phase e), tl_order e, tl_entry_id e)) (build_timeline calls events transfers))"
  by (simp add: build_timeline_def Let_def)

lemma timeline_length:
  "length (build_timeline calls events transfers) = length calls + length events + length transfers"
  by (simp add: build_timeline_def Let_def)

lemma timeline_call: "i < length calls \<Longrightarrow> call_entry i (calls ! i) \<in> set (build_timeline calls events transfers)"
proof -
  assume "i < length calls"
  then have "(i, calls ! i) \<in> set (enumerate 0 calls)" by (simp add: in_set_enumerate_eq)
  then have "call_entry i (calls ! i) \<in> set (map (\<lambda>(i, f). call_entry i f) (enumerate 0 calls))" by force
  then show ?thesis by (simp add: build_timeline_def Let_def)
qed

lemma timeline_event: "e \<in> set events \<Longrightarrow> event_entry e \<in> set (build_timeline calls events transfers)"
  by (simp add: build_timeline_def Let_def)

section \<open>Properties\<close>

text \<open>C5. A case describes one confirmed transaction: its transaction, receipt and block documents were
  each returned by the node for the requested hash and for one block number, name each other
  consistently, and give the case its block, its block hash and its outcome.\<close>

theorem case_documents_agree:
  assumes "investigate_transaction env call chain th opt r = Inr (k, r')"
  shows "\<exists>transaction receipt block.
     rpc_transaction call (ik_transaction_hash k) = Inr (Some transaction)
     \<and> rpc_receipt call (ik_transaction_hash k) = Inr (Some receipt)
     \<and> rpc_block call (ik_block k) False = Inr (Some block)
     \<and> hash_names transaction ''hash'' = ik_transaction_hash k
     \<and> hash_names receipt ''transactionHash'' = ik_transaction_hash k
     \<and> quantity (dget receipt ''blockNumber'') = Inr (ik_block k)
     \<and> same_block (optional_quantity (dget transaction ''blockNumber'')) (ik_block k)
     \<and> same_block (optional_quantity (dget block ''number'')) (ik_block k)
     \<and> set (block_hashes transaction receipt block) = set_option (ik_block_hash k)
     \<and> receipt_outcome receipt = Inr (ik_transaction_status k)"
proof -
  obtain h c g entities capped historical w where c: "confirm_transaction call h = Inr c"
    and k: "k = mk_case env chain h c g entities historical (ga_warnings g @ (if capped then [entity_cap_warning] else []) @ w)"
    using assms by (rule investigate_Inr)
  note f = confirm_Inr [OF c]
  have "set (block_hashes (cn_transaction c) (cn_receipt c) (cn_block c)) = set_option (cn_hash c)"
    using f(9,11) by (cases "block_hashes (cn_transaction c) (cn_receipt c) (cn_block c)") auto
  then show ?thesis using f unfolding k mk_case_def by (auto simp: mk_case_def)
qed

text \<open>A case is bounded: at most 2,000 call frames, 5,000 events, 22,000 transfers and 1,000
  entities; the entities have distinct addresses in increasing order.\<close>

theorem case_bounded:
  assumes "investigate_transaction env call chain th opt r = Inr (k, r')"
  shows "length (ik_calls k) \<le> 2000 \<and> length (ik_events k) \<le> 5000 \<and> length (ik_transfers k) \<le> 22000
     \<and> length (ik_entities k) \<le> 1000 \<and> sorted (map en_address (ik_entities k))
     \<and> distinct (map en_address (ik_entities k))
     \<and> length (ik_timeline k) = length (ik_calls k) + length (ik_events k) + length (ik_transfers k)"
proof -
  obtain h c g entities capped historical w where
    g: "gather env call (cc_chain_id chain) h opt c r = Inr (g, r')"
    and e: "build_entities (ie_sha256 env) call (cc_chain_id chain) (cn_number c) (ie_watchlist env)
         (all_mentions (cn_transaction c) (cn_receipt c) (ga_calls g) (ga_events g) (ga_transfers g)) = Inr (entities, capped)"
    and k: "k = mk_case env chain h c g entities historical (ga_warnings g @ (if capped then [entity_cap_warning] else []) @ w)"
    using assms by (rule investigate_Inr)
  obtain logs w1 ws w2 r1 r2 trace where logs: "receipt_logs c = (logs, w1)"
    and ev: "events_from_logs (ie_sha256 env) (ie_resolver env) (cc_chain_id chain) logs ws r = Inr (ga_events g, w2, r1)"
    and ca: "calls_of (ie_sha256 env) (ie_resolver env) (cc_chain_id chain) c (ga_proxy g) trace r1 = Inr (ga_calls g, ga_cut g, r2)"
    and tr: "\<exists>ws'. transfers_of c (ga_calls g) logs ws' = Inr (ga_transfers g, ga_warnings g)"
    using g by (rule gather_Inr)
  have nc: "length (ga_calls g) \<le> 2000" using calls_of_length [OF ca] by (simp add: MAX_CALL_FRAMES_def)
  have ne: "length (ga_events g) \<le> 5000"
    using ev receipt_logs_length [OF logs]
    by (auto simp: events_from_logs_def and_then_eq_Inr MAX_RECEIPT_LOGS_def dest!: events_loop_length)
  from tr obtain ws' native tokens ws'' where n: "native_transfers (ga_calls g) (cn_transaction c) (cn_outcome c) = Inr native"
    and t: "transfers_from_logs logs ws' (log_effect (cn_outcome c)) = Inr (tokens, ws'')"
    and gt: "ga_transfers g = native @ tokens"
    by (auto simp: transfers_of_def and_then_eq_Inr Let_def)
  have "length (ga_transfers g) \<le> 22000"
    using native_transfers_length [OF n] transfers_from_logs_ok [OF t] nc by (auto simp: gt MAX_TRANSFERS_def max_def split: if_splits)
  with nc ne build_entities_ok [OF e] show ?thesis
    by (simp add: k mk_case_def MAX_ENTITIES_def timeline_length)
qed

text \<open>C4. A reverted transaction moves nothing: no transfer of its case is reported as committed, and
  the only asset-flow finding it can have is the one on attempted transfers.\<close>

theorem reverted_case_commits_nothing:
  assumes "investigate_transaction env call chain th opt r = Inr (k, r')" and "ik_transaction_status k = ''reverted''"
  shows "list_all (\<lambda>t. at_execution_effect t \<noteq> EXECUTION_COMMITTED) (ik_transfers k)
     \<and> list_all (\<lambda>f. fi_category f \<noteq> ''asset_flow'' \<or> fi_code f = ''attempted_reverted_asset_flow'') (ik_findings k)"
proof -
  have none: "\<forall>t \<in> set (ik_transfers k). at_execution_effect t \<noteq> EXECUTION_COMMITTED"
    using investigate_reverted_transfers [OF assms] by blast
  obtain h c g entities historical w where k: "k = mk_case env chain h c g entities historical w"
    using assms(1) by (rule investigate_Inr)
  have find: "ik_findings k = build_findings (cn_outcome c) (ga_calls g) (ga_events g) (ik_transfers k) (ga_proxy g) (ga_diff g)"
    by (simp add: k mk_case_def)
  have "list_all (\<lambda>f. fi_category f \<noteq> ''asset_flow'') (call_findings (cn_outcome c) (ga_calls g))"
    by (simp add: call_findings_def counted_finding_def case_finding_if_def)
  moreover have "list_all (\<lambda>f. fi_category f \<noteq> ''asset_flow'') (context_findings (ga_events g) (ga_proxy g) (ga_diff g))"
    by (simp add: context_findings_def counted_finding_def case_finding_if_def split: option.split)
  ultimately show ?thesis
    using flow_findings_committed [OF none] none by (auto simp: find build_findings_def list_all_iff)
qed

text \<open>The timeline is complete and ordered: it holds one entry for every call, event and transfer
  and nothing else, sorted by phase (execution, events, asset flow), position and identifier.\<close>

theorem timeline_complete:
  "set (build_timeline calls events transfers)
     = (\<lambda>i. call_entry i (calls ! i)) ` {..<length calls} \<union> event_entry ` set events
       \<union> (\<lambda>i. transfer_entry (length calls + length events + i) (transfers ! i)) ` {..<length transfers}
   \<and> length (build_timeline calls events transfers) = length calls + length events + length transfers
   \<and> sorted (map (\<lambda>e. (phase_order (tl_phase e), tl_order e, tl_entry_id e)) (build_timeline calls events transfers))"
proof -
  have enum: "(\<lambda>(i, x). f i x) ` set (enumerate 0 xs) = (\<lambda>i. f i (xs ! i)) ` {..<length xs}" for f :: "nat \<Rightarrow> 'a \<Rightarrow> timeline_entry" and xs
    by (force simp: in_set_enumerate_eq image_iff)
  show ?thesis
    using timeline_sorted timeline_length by (simp add: build_timeline_def Let_def enum Un_assoc)
qed

text \<open>A concrete investigation: a reverted transaction of block 5 with a failing call tree.\<close>

definition demo_hash :: string where "demo_hash = ''0x'' @ replicate 64 (CHR ''1'')"

definition demo_chain :: chain_config where
  "demo_chain = \<lparr> cc_name = ''ethereum'', cc_display_name = ''Ethereum'', cc_chain_id = 1, cc_enabled = True,
     cc_is_testnet = False, cc_rpc_http_env = ''R'', cc_rpc_ws_env = ''W'', cc_explorer_url = ''e'', cc_confirmations = 3,
     cc_initial_lookback_blocks = 0, cc_max_blocks_per_cycle = 25, cc_monitor_global_upgrades = False,
     cc_pending_subscription = ''none'', cc_trace_internal_creations = True,
     cc_rpc_http_fallback_envs = [], cc_rpc_ws_fallback_envs = [] \<rparr>"

definition demo_investigation :: investigation_env where
  "demo_investigation = \<lparr> ie_sha256 = (\<lambda>b. ''h''), ie_blake8 = (\<lambda>b. 0), ie_isoformat = (\<lambda>t. None), ie_resolver = None,
     ie_watchlist = None, ie_clock = demo_clock \<rparr>"

definition demo_trace_only :: investigation_options where
  "demo_trace_only = \<lparr> io_include_trace = True, io_include_state_diff = False, io_replay_prestate = False \<rparr>"

definition demo_chain_rpc :: rpc where
  "demo_chain_rpc m ps =
     (if m = ''eth_getTransactionByHash'' then Inr (JObj [(''hash'', JStr demo_hash), (''blockNumber'', JStr ''0x5''),
          (''from'', JStr demo_creator), (''to'', JStr demo_created), (''input'', JStr ''0x'')])
      else if m = ''eth_getTransactionReceipt'' then Inr (JObj [(''transactionHash'', JStr demo_hash),
          (''blockNumber'', JStr ''0x5''), (''status'', JStr ''0x0''), (''logs'', JList [])])
      else if m = ''eth_getBlockByNumber'' then Inr (JObj [(''number'', JStr ''0x5''), (''hash'', JStr demo_hash)])
      else if m = ''debug_traceTransaction'' then Inr (JObj demo_failed_trace)
      else if m = ''eth_getCode'' then Inr (JStr ''0x'') else Inl RpcError)"

abbreviation demo_case :: "(investigation_case \<times> resolver) res" where
  "demo_case \<equiv> investigate_transaction demo_investigation demo_chain_rpc demo_chain demo_hash demo_trace_only demo_resolver"

lemma demo_case_runs:
  "case demo_case of Inl e \<Rightarrow> False | Inr (k, r) \<Rightarrow>
     ik_transaction_status k = ''reverted'' \<and> length (ik_calls k) = 4 \<and> ik_transfers k \<noteq> []"
  by code_simp

lemma demo_case_Inr:
  obtains k r where "demo_case = Inr (k, r)" "ik_transaction_status k = ''reverted''" "length (ik_calls k) = 4"
    "ik_transfers k \<noteq> []"
  using demo_case_runs by (auto split: sum.splits)

theorem case_documents_agree_witness:
  "\<exists>k r receipt. demo_case = Inr (k, r) \<and> rpc_receipt demo_chain_rpc (ik_transaction_hash k) = Inr (Some receipt)
     \<and> receipt_outcome receipt = Inr ''reverted''"
proof -
  obtain k r where run: "demo_case = Inr (k, r)" and s: "ik_transaction_status k = ''reverted''" by (rule demo_case_Inr)
  from case_documents_agree [OF run] show ?thesis unfolding s using run by blast
qed

theorem case_bounded_witness: "\<exists>k r. demo_case = Inr (k, r) \<and> ik_calls k \<noteq> [] \<and> distinct (map en_address (ik_entities k))"
proof -
  obtain k r where run: "demo_case = Inr (k, r)" and n: "length (ik_calls k) = 4" by (rule demo_case_Inr)
  from n have "ik_calls k \<noteq> []" by auto
  with case_bounded [OF run] run show ?thesis by blast
qed

theorem reverted_case_commits_nothing_witness:
  "\<exists>k r. demo_case = Inr (k, r) \<and> ik_transfers k \<noteq> []
     \<and> list_all (\<lambda>t. at_execution_effect t \<noteq> EXECUTION_COMMITTED) (ik_transfers k)"
proof -
  obtain k r where run: "demo_case = Inr (k, r)" and s: "ik_transaction_status k = ''reverted''"
    and n: "ik_transfers k \<noteq> []" by (rule demo_case_Inr)
  from reverted_case_commits_nothing [OF run s] run n show ?thesis by blast
qed

end
