(* ===== verification/Notifier.thy ===== *)
theory Notifier
  imports Config Store Rpc_Client
begin

text \<open>
  \<^verbatim>\<open>src/white_radar/telegram.py\<close>: which events are sent, and what sending one does. The request is
  the parameter \<open>tn_post\<close>, which gives what \<^verbatim>\<open>request_json\<close> returned, or what rendering or sending
  raised, for the message of an event or for the text of a digest (a list of code points);
  \<open>Telegram_Text\<close> renders the message.
\<close>

record notifier =
  tn_config :: telegram_config
  tn_dry_run :: bool
  tn_token :: string
  tn_chat_id :: string
  tn_post :: "nat list + (radar_event \<times> chain_config) \<Rightarrow> json res"

definition should_send :: "notifier \<Rightarrow> radar_event \<Rightarrow> chain_config \<Rightarrow> bool" where
  "should_send n e chain =
     (tg_enabled (tn_config n) \<and> tg_minimum_score (tn_config n) \<le> ev_score e
      \<and> (tg_send_testnet_alerts (tn_config n) \<or> \<not> cc_is_testnet chain))"

text \<open>The request, with \<^verbatim>\<open>HttpError\<close> turned into \<^verbatim>\<open>RuntimeError\<close>, and the check of the answer.\<close>

definition delivered :: "json res \<Rightarrow> bool res" where
  "delivered answer =
     (case answer of
        Inl HttpError \<Rightarrow> Inl RuntimeError
      | Inl e \<Rightarrow> Inl e
      | Inr (JObj d) \<Rightarrow> if truthy (dget d ''ok'') then Inr True else Inl RuntimeError
      | Inr _ \<Rightarrow> Inl RuntimeError)"

definition send :: "notifier \<Rightarrow> radar_event \<Rightarrow> chain_config \<Rightarrow> bool res" where
  "send n e chain =
     (if \<not> should_send n e chain then Inr False
      else if strip (tn_token n) = [] \<or> strip (tn_chat_id n) = [] then Inl RuntimeError
      else if tn_dry_run n then Inr False
      else delivered (tn_post n (Inr (e, chain))))"

definition send_digest :: "notifier \<Rightarrow> nat list \<Rightarrow> bool res" where
  "send_digest n message =
     (if \<not> tg_enabled (tn_config n) \<or> tn_dry_run n then Inr False
      else if strip (tn_token n) = [] \<or> strip (tn_chat_id n) = [] then Inl RuntimeError
      else delivered (tn_post n (Inl (take 4000 message))))"

definition event_buttons :: "radar_event \<Rightarrow> chain_config \<Rightarrow> json list" where
  "event_buttons e chain =
     (let button = (\<lambda>caption url. JObj [(''text'', JStr caption), (''url'', JStr url)]);
          bounty = dget (ev_metadata e) ''bounty_url'';
          buttons =
            (if truthy_opt (ev_tx_hash e)
             then [button ''Transaction'' (cc_explorer_url chain @ ''/tx/'' @ the (ev_tx_hash e))] else [])
          @ (if truthy_opt (ev_subject_address e)
             then [button ''Contract'' (cc_explorer_url chain @ ''/address/'' @ the (ev_subject_address e))] else [])
          @ (case bounty of JStr u \<Rightarrow> if startswith ''https://'' u then [button ''Security policy'' u] else []
             | _ \<Rightarrow> [])
      in if buttons = [] then [] else [JList buttons])"

section \<open>Lemmas\<close>

lemma delivered_Inr: "delivered r = Inr b \<longleftrightarrow> b \<and> (\<exists>d. r = Inr (JObj d) \<and> truthy (dget d ''ok''))"
  by (auto simp: delivered_def split: sum.splits json.splits exn.splits)

lemma send_sendable: "send n e chain = Inr True \<Longrightarrow> should_send n e chain \<and> \<not> tn_dry_run n"
  by (auto simp: send_def split: if_splits)

end
