(* ===== verification/Monitor_State.thy ===== *)
theory Monitor_State
  imports "HOL-Library.Code_Target_Nat" Incidents Policy Invariants Proxy Scoring Notifier
begin

text \<open>
  What the methods of \<^verbatim>\<open>src/white_radar/monitor.py\<close> work on: the statistics of a scan and the store,
  as a state that survives an exception (every method of the store commits on its own), and the
  combinators the methods are written with. A method is a function from a state to a result or
  exception and a state. The predicate \<open>keeps\<close> says that a method preserves a property of the
  state however it ends; the rules collected in \<open>keeps_intro\<close> follow the structure of a method.
\<close>

named_theorems keeps_intro \<open>rules for methods that preserve a property of the state\<close>

section \<open>State\<close>

record scan_stats =
  sn_chain :: string
  sn_start_block :: "int option"
  sn_end_block :: "int option"
  sn_blocks :: nat
  sn_deployments :: nat
  sn_upgrades :: nat
  sn_events :: nat
  sn_alerts :: nat
  sn_profiles_refreshed :: nat
  sn_profile_changes :: nat
  sn_invariants_checked :: nat
  sn_invariant_transitions :: nat
  sn_rpc_endpoint_count :: int
  sn_rpc_active_endpoint :: int

definition new_stats :: "string \<Rightarrow> scan_stats" where
  "new_stats name = \<lparr> sn_chain = name, sn_start_block = None, sn_end_block = None, sn_blocks = 0, sn_deployments = 0,
     sn_upgrades = 0, sn_events = 0, sn_alerts = 0, sn_profiles_refreshed = 0, sn_profile_changes = 0,
     sn_invariants_checked = 0, sn_invariant_transitions = 0, sn_rpc_endpoint_count = 1, sn_rpc_active_endpoint = 0 \<rparr>"

type_synonym state = "store \<times> scan_stats"

type_synonym 'a monitor = "state \<Rightarrow> 'a res \<times> state"

section \<open>Combinators\<close>

definition done_with :: "'a \<Rightarrow> 'a monitor" where
  "done_with x s = (Inr x, s)"

definition of_res :: "'a res \<Rightarrow> 'a monitor" where
  "of_res r s = (r, s)"

definition seq :: "'a monitor \<Rightarrow> ('a \<Rightarrow> 'b monitor) \<Rightarrow> 'b monitor" where
  "seq m f s = (case m s of (Inl e, s') \<Rightarrow> (Inl e, s') | (Inr x, s') \<Rightarrow> f x s')"

definition with_store :: "(store \<Rightarrow> 'a monitor) \<Rightarrow> 'a monitor" where
  "with_store f s = f (fst s) s"

definition on_store :: "(store \<Rightarrow> 'a \<times> store) \<Rightarrow> 'a monitor" where
  "on_store f s = (case f (fst s) of (x, st) \<Rightarrow> (Inr x, (st, snd s)))"

definition on_store_res :: "(store \<Rightarrow> ('a \<times> store) res) \<Rightarrow> 'a monitor" where
  "on_store_res f s = (case f (fst s) of Inl e \<Rightarrow> (Inl e, s) | Inr (x, st) \<Rightarrow> (Inr x, (st, snd s)))"

definition count :: "(scan_stats \<Rightarrow> scan_stats) \<Rightarrow> unit monitor" where
  "count f s = (Inr (), (fst s, f (snd s)))"

definition skip :: "unit monitor" where
  "skip = done_with ()"

text \<open>\<^verbatim>\<open>for x in xs: f(x)\<close>\<close>

fun each :: "('a \<Rightarrow> unit monitor) \<Rightarrow> 'a list \<Rightarrow> unit monitor" where
  "each f [] = skip"
| "each f (x # xs) = seq (f x) (\<lambda>_. each f xs)"

section \<open>What a method preserves\<close>

definition keeps :: "(store \<Rightarrow> bool) \<Rightarrow> 'a monitor \<Rightarrow> bool" where
  "keeps P m \<longleftrightarrow> (\<forall>s. P (fst s) \<longrightarrow> P (fst (snd (m s))))"

lemma keepsD: "keeps P m \<Longrightarrow> P (fst s) \<Longrightarrow> m s = (r, s') \<Longrightarrow> P (fst s')"
  unfolding keeps_def by (metis snd_conv)

lemma keepsI: "(\<And>s r s'. P (fst s) \<Longrightarrow> m s = (r, s') \<Longrightarrow> P (fst s')) \<Longrightarrow> keeps P m"
  unfolding keeps_def by (metis prod.collapse)

lemma keeps_done [keeps_intro]: "keeps P (done_with x)"
  by (simp add: keeps_def done_with_def)

lemma keeps_of_res [keeps_intro]: "keeps P (of_res r)"
  by (simp add: keeps_def of_res_def)

lemma keeps_skip [keeps_intro]: "keeps P skip"
  by (simp add: skip_def keeps_done)

lemma keeps_count [keeps_intro]: "keeps P (count f)"
  by (simp add: keeps_def count_def)

lemma keeps_seq [keeps_intro]: "keeps P m \<Longrightarrow> (\<And>x. keeps P (f x)) \<Longrightarrow> keeps P (seq m f)"
proof (rule keepsI)
  fix s r s'
  assume m: "keeps P m" and f: "\<And>x. keeps P (f x)" and s: "P (fst s)" and run: "seq m f s = (r, s')"
  obtain q t where q: "m s = (q, t)" by (cases "m s")
  with m s have t: "P (fst t)" by (rule keepsD)
  show "P (fst s')"
  proof (cases q)
    case (Inl e)
    with run q t show ?thesis by (simp add: seq_def)
  next
    case (Inr x)
    with run q have "f x t = (r, s')" by (simp add: seq_def)
    with f t show ?thesis by (rule keepsD)
  qed
qed

lemma keeps_with_store [keeps_intro]: "(\<And>st. keeps P (f st)) \<Longrightarrow> keeps P (with_store f)"
  by (simp add: keeps_def with_store_def)

lemma keeps_each [keeps_intro]: "(\<And>x. x \<in> set xs \<Longrightarrow> keeps P (f x)) \<Longrightarrow> keeps P (each f xs)"
  by (induction xs) (auto intro: keeps_intro)

lemma keeps_if [keeps_intro]: "(b \<Longrightarrow> keeps P m) \<Longrightarrow> (\<not> b \<Longrightarrow> keeps P m') \<Longrightarrow> keeps P (if b then m else m')"
  by simp

lemma keeps_option [keeps_intro]:
  "keeps P m \<Longrightarrow> (\<And>x. v = Some x \<Longrightarrow> keeps P (f x)) \<Longrightarrow> keeps P (case v of None \<Rightarrow> m | Some x \<Rightarrow> f x)"
  by (simp split: option.split)

lemma keeps_sum [keeps_intro]:
  "(\<And>e. keeps P (f e)) \<Longrightarrow> (\<And>x. v = Inr x \<Longrightarrow> keeps P (g x)) \<Longrightarrow> keeps P (case v of Inl e \<Rightarrow> f e | Inr x \<Rightarrow> g x)"
  by (simp split: sum.split)

lemma keeps_on_store: "(\<And>st. P st \<Longrightarrow> P (snd (f st))) \<Longrightarrow> keeps P (on_store f)"
  by (auto simp: keeps_def on_store_def split: prod.split) (metis snd_conv)

lemma keeps_on_store_res: "(\<And>st x st'. P st \<Longrightarrow> f st = Inr (x, st') \<Longrightarrow> P st') \<Longrightarrow> keeps P (on_store_res f)"
  by (auto simp: keeps_def on_store_res_def split: prod.split sum.split)

lemma seq_assoc: "seq (seq m f) g = seq m (\<lambda>x. seq (f x) g)"
  by (auto simp: seq_def fun_eq_iff split: prod.split sum.split)

lemma each_append: "each f (xs @ ys) = seq (each f xs) (\<lambda>_. each f ys)"
proof (induction xs)
  case Nil
  show ?case by (simp add: skip_def done_with_def seq_def fun_eq_iff)
next
  case (Cons x xs)
  then show ?case by (simp add: seq_assoc)
qed

lemma seq_Inr: "seq m f s = (Inr y, s') \<longleftrightarrow> (\<exists>x t. m s = (Inr x, t) \<and> f x t = (Inr y, s'))"
  by (auto simp: seq_def split: prod.split sum.split)

lemma seq_eq: "m s = (r, t) \<Longrightarrow> seq m f s = (case r of Inl e \<Rightarrow> (Inl e, t) | Inr x \<Rightarrow> f x t)"
  by (simp add: seq_def split: sum.split)

section \<open>The parts of a scanner\<close>

record scanner =
  mo_chain :: chain_config
  mo_watchlist :: watchlist
  mo_policies :: policy_book
  mo_app :: app_config
  mo_analysis :: analysis_config
  mo_notifier :: notifier
  mo_rpc :: rpc
  mo_endpoints :: "int \<times> int"
  mo_sourcify_enabled :: bool
  mo_etherscan_enabled :: bool
  mo_sourcify :: "string \<Rightarrow> json res"
  mo_etherscan :: "string \<Rightarrow> json res option"
  mo_sha256 :: "bytes \<Rightarrow> string"
  mo_digest :: "string \<Rightarrow> string"
  mo_blake8 :: "bytes \<Rightarrow> nat"
  mo_isoformat :: "int \<Rightarrow> string res"
  mo_clock :: clock

definition mo_id :: "scanner \<Rightarrow> int" where
  "mo_id sc = cc_chain_id (mo_chain sc)"

end
