(* ===== verification/Monitor_Events.thy ===== *)
theory Monitor_Events
  imports Monitor_State
begin

text \<open>
  The events of \<^verbatim>\<open>src/white_radar/monitor.py\<close> and their way into the store: recording with the
  promotion to an incident, the delivery of pending alerts, the identity graph, and the three
  sources of events about single contracts: invariant transitions, profile changes and
  deployments. Similarities, floats in the source, are in ten-thousandths in the metadata of
  events and edges.
\<close>

section \<open>Recording and delivery\<close>

text \<open>\<^verbatim>\<open>_record_and_alert\<close>\<close>

definition record_and_alert :: "scanner \<Rightarrow> radar_event \<Rightarrow> unit monitor" where
  "record_and_alert sc e =
     seq (on_store (add_event e)) (\<lambda>inserted.
       if \<not> inserted then skip
       else seq (on_store (open_incident (mo_digest sc) (mo_clock sc) e
                (ap_incident_minimum_score (mo_app sc)) (ap_incident_sla_minutes (mo_app sc))
                (none_if_empty (str_or (dget (ev_metadata e) ''protocol'') []))))
            (\<lambda>_. count (\<lambda>n. n\<lparr> sn_events := Suc (sn_events n) \<rparr>)))"

text \<open>\<^verbatim>\<open>_flush_alerts\<close>: the events are read once; whatever sending one raises is logged.\<close>

definition mark_sent :: "scanner \<Rightarrow> radar_event \<Rightarrow> unit monitor" where
  "mark_sent sc e =
     seq (on_store (\<lambda>st. ((), mark_alerted (mo_clock sc) (ev_event_id e) st)))
         (\<lambda>_. count (\<lambda>n. n\<lparr> sn_alerts := Suc (sn_alerts n) \<rparr>))"

definition flush_event :: "scanner \<Rightarrow> radar_event \<Rightarrow> unit monitor" where
  "flush_event sc e =
     (if \<not> should_send (mo_notifier sc) e (mo_chain sc) then skip
      else case send (mo_notifier sc) e (mo_chain sc) of
        Inl ex \<Rightarrow> skip
      | Inr sent \<Rightarrow> if sent then mark_sent sc e else skip)"

definition flush_alerts :: "scanner \<Rightarrow> unit monitor" where
  "flush_alerts sc = with_store (\<lambda>st. seq (of_res (pending_alerts st (mo_id sc) 100)) (each (flush_event sc)))"

section \<open>The identity graph\<close>

definition upsert_node ::
  "scanner \<Rightarrow> string \<Rightarrow> string \<Rightarrow> string option \<Rightarrow> dict \<Rightarrow> string monitor" where
  "upsert_node sc kind val label metadata =
     on_store_res (upsert_identity_node (mo_digest sc) (mo_clock sc) (mo_id sc) kind val label metadata)"

definition upsert_edge ::
  "scanner \<Rightarrow> string \<Rightarrow> string \<Rightarrow> string \<Rightarrow> dict \<Rightarrow> string \<Rightarrow> unit monitor" where
  "upsert_edge sc source relation target evidence observed_at =
     seq (on_store (upsert_identity_edge (mo_digest sc) (mo_id sc) source relation target evidence observed_at)) (\<lambda>_. skip)"

definition link_control :: "scanner \<Rightarrow> string \<Rightarrow> dict \<Rightarrow> string \<Rightarrow> string option \<times> string \<times> string \<Rightarrow> unit monitor" where
  "link_control sc contract_node evidence observed_at entry =
     (case entry of (v, kind, relation) \<Rightarrow>
        if \<not> truthy_opt v then skip
        else seq (upsert_node sc kind (the v) None []) (\<lambda>target.
               upsert_edge sc contract_node relation target evidence observed_at))"

definition link_similar :: "scanner \<Rightarrow> string \<Rightarrow> fingerprint \<Rightarrow> string \<Rightarrow> profile_match \<Rightarrow> unit monitor" where
  "link_similar sc contract_node fp observed_at m =
     (let other_address = pr_address (ma_row m);
          name = cm_contract_name (pr_metadata (ma_row m))
      in if other_address = [] then skip
         else seq (upsert_node sc ''contract'' other_address (if truthy_opt name then name else None) []) (\<lambda>other.
           upsert_edge sc contract_node (if ma_exact m then ''BYTECODE_MATCHES'' else ''BYTECODE_SIMILAR_TO'') other
             [(''similarity'', JInt (int (ma_similarity m))),
              (''normalized_bytecode_sha256'', JStr (fp_normalized_sha256 fp))] observed_at))"

text \<open>\<^verbatim>\<open>_register_identity\<close>\<close>

definition register_identity ::
  "scanner \<Rightarrow> string \<Rightarrow> string \<Rightarrow> string \<Rightarrow> int \<Rightarrow> string \<Rightarrow> contract_metadata \<Rightarrow> fingerprint
     \<Rightarrow> profile_match list \<Rightarrow> string option \<Rightarrow> unit monitor" where
  "register_identity sc address deployer tx_hash block_number observed_at metadata fp similar deployer_label =
     (let evidence = [(''transaction'', JStr tx_hash), (''block_number'', JInt block_number)] in
      seq (upsert_node sc ''contract'' address (cm_contract_name metadata)
             [(''contract_name'', opt_json (cm_contract_name metadata)), (''verified'', JBool (cm_verified metadata)),
              (''normalized_bytecode_sha256'', JStr (fp_normalized_sha256 fp))]) (\<lambda>contract_node.
      seq (upsert_node sc ''deployer'' deployer deployer_label []) (\<lambda>deployer_node.
      seq (upsert_edge sc deployer_node ''DEPLOYED'' contract_node evidence observed_at) (\<lambda>_.
      seq (each (link_control sc contract_node evidence observed_at)
             [(cm_implementation metadata, ''contract'', ''DELEGATES_TO''),
              (cm_admin metadata, ''account'', ''ADMINISTERED_BY''),
              (cm_beacon metadata, ''contract'', ''USES_BEACON'')]) (\<lambda>_.
        each (link_similar sc contract_node fp observed_at) similar)))))"

section \<open>Invariant transitions\<close>

definition state_value :: "json \<Rightarrow> string option" where
  "state_value v =
     (case v of JNull \<Rightarrow> None | JObj d \<Rightarrow> Some (json_dumps v) | JList xs \<Rightarrow> Some (json_dumps v) | _ \<Rightarrow> Some (py_str v))"

definition check_json :: "invariant_check \<Rightarrow> json" where
  "check_json c = JObj [(''name'', JStr (ic_name c)), (''target'', JStr (ic_target c)), (''status'', JStr (ic_status c)),
     (''observed'', ic_observed c), (''expected'', ic_expected c), (''operator'', JStr (ic_operator c)),
     (''score'', JInt (ic_score c)), (''block_number'', JInt (ic_block_number c)),
     (''block_hash'', opt_json (ic_block_hash c)), (''error_class'', opt_json (ic_error_class c))]"

text \<open>The previous status and the previous value, \<^verbatim>\<open>str(previous.get("observed_value"))\<close>: a value that
  was not observed reads \<^verbatim>\<open>"None"\<close>.\<close>

definition previous_status :: "invariant_row option \<Rightarrow> string option" where
  "previous_status previous = map_option iv_status previous"

definition previous_value :: "invariant_row option \<Rightarrow> string option" where
  "previous_value previous = map_option (\<lambda>r. opt_fmt (iv_observed r)) previous"

definition invariant_changed :: "invariant_row option \<Rightarrow> invariant_check \<Rightarrow> bool" where
  "invariant_changed previous c =
     (previous_status previous \<noteq> Some (ic_status c) \<or> previous_value previous \<noteq> state_value (ic_observed c))"

definition invariant_recovery :: "invariant_row option \<Rightarrow> invariant_check \<Rightarrow> bool" where
  "invariant_recovery previous c =
     (ic_status c = ''ok'' \<and> previous_status previous \<in> {Some ''violated'', Some ''error''})"

definition invariant_score :: "bool \<Rightarrow> invariant_check \<Rightarrow> int" where
  "invariant_score recovery c =
     (if recovery then 20 else if ic_status c = ''error'' then max 50 (ic_score c - 15) else ic_score c)"

definition invariant_event ::
  "scanner \<Rightarrow> protocol_policy \<Rightarrow> invariant_row option \<Rightarrow> invariant_check \<Rightarrow> radar_event" where
  "invariant_event sc policy previous c =
     (let recovery = invariant_recovery previous c;
          event_type = (if recovery then ''protocol_invariant_recovered'' else ''protocol_invariant_violation'');
          score = invariant_score recovery c;
          now_value = opt_fmt (state_value (ic_observed c));
          chain = mo_chain sc
      in \<lparr> ev_event_id = stable_event_id (mo_digest sc) [event_type, int_str (cc_chain_id chain), pp_address policy,
             ic_name c, int_str (ic_block_number c), ic_status c, now_value],
           ev_observed_at = utc_now (mo_clock sc), ev_event_type = event_type,
           ev_title = (if recovery then ''Protocol invariant recovered'' else ''Protocol invariant requires investigation''),
           ev_summary = pp_protocol policy @ '' invariant '' @ ic_name c @ '' changed to '' @ ic_status c
             @ '' on '' @ cc_display_name chain @ ''.'',
           ev_chain = cc_name chain, ev_chain_id = cc_chain_id chain, ev_score = score,
           ev_severity = severity_for_score score, ev_confidence = (if ic_status c \<noteq> ''error'' then 98/100 else 8/10),
           ev_reasons = (if recovery
             then [''Protocol invariant '' @ ic_name c @ '' returned to its configured baseline.'',
                   ''Previous state was '' @ opt_fmt (previous_status previous) @ ''.'']
             else [''Protocol invariant '' @ ic_name c @ '' is '' @ ic_status c @ '' at pinned block ''
                     @ int_str (ic_block_number c) @ ''.'',
                   ''Observed '' @ now_value @ ''; configured operator is '' @ ic_operator c @ ''.'']),
           ev_recommended_action = ''Correlate the invariant transition with governance, upgrades, oracle inputs, ''
             @ ''and the protocol change calendar; preserve the pinned-block evidence.'',
           ev_subject_address = Some (pp_address policy), ev_deployer_address = None, ev_tx_hash = None,
           ev_block_number = Some (ic_block_number c),
           ev_evidence = [(''contract'', JStr (cc_explorer_url chain @ ''/address/'' @ pp_address policy))],
           ev_metadata = [(''protocol'', JStr (pp_protocol policy)), (''invariant'', check_json c),
             (''previous_status'', opt_json (previous_status previous)),
             (''previous_observed_value'', opt_json (previous_value previous)),
             (''policy_sha256'', opt_json (pb_source_sha256 (mo_policies sc)))] \<rparr>)"

definition record_invariant_transition :: "scanner \<Rightarrow> protocol_policy \<Rightarrow> invariant_check \<Rightarrow> unit monitor" where
  "record_invariant_transition sc policy c =
     seq (on_store (record_invariant_state (mo_clock sc) (mo_id sc) (pp_address policy) (ic_name c) (ic_status c)
            (state_value (ic_observed c)) (state_value (ic_expected c)) (ic_block_number c) (ic_block_hash c)))
       (\<lambda>previous.
          if \<not> invariant_changed previous c \<or> ic_status c = ''unavailable'' then skip
          else if ic_status c = ''ok'' \<and> \<not> invariant_recovery previous c then skip
          else seq (record_and_alert sc (invariant_event sc policy previous c))
            (\<lambda>_. count (\<lambda>n. n\<lparr> sn_invariant_transitions := Suc (sn_invariant_transitions n) \<rparr>)))"

definition check_step :: "scanner \<Rightarrow> protocol_policy \<Rightarrow> invariant_check \<Rightarrow> unit monitor" where
  "check_step sc policy c =
     seq (count (\<lambda>n. n\<lparr> sn_invariants_checked := Suc (sn_invariants_checked n) \<rparr>))
       (\<lambda>_. record_invariant_transition sc policy c)"

definition scan_invariants :: "scanner \<Rightarrow> int \<Rightarrow> unit monitor" where
  "scan_invariants sc block_number =
     (let policies = book_for_chain (mo_policies sc) (mo_id sc) in
      if policies = [] then skip
      else seq (of_res (rpc_block (mo_rpc sc) block_number False)) (\<lambda>block.
        let block_hash = none_if_empty (str_or (dget (case block of None \<Rightarrow> [] | Some d \<Rightarrow> d) ''hash'') []) in
        each (\<lambda>policy. seq (of_res (check_policy_invariants (mo_rpc sc) policy block_number block_hash))
                (each (check_step sc policy))) policies))"

section \<open>Evidence in the metadata\<close>

definition similar_json :: "profile_match list \<Rightarrow> json" where
  "similar_json ms = JList (map (\<lambda>m. let r = ma_row m in
     JObj [(''address'', JStr (pr_address r)), (''normalized_sha256'', JStr (pr_normalized_sha256 r)),
       (''simhash64'', JStr (pr_simhash64 r)), (''normalized_size'', JInt (int (pr_normalized_size r))),
       (''contract_name'', opt_json (cm_contract_name (pr_metadata r))),
       (''is_proxy'', JInt (if cm_is_proxy (pr_metadata r) then 1 else 0)),
       (''implementation'', opt_json (cm_implementation (pr_metadata r))),
       (''last_enriched_at'', JStr (pr_last_enriched_at r)),
       (''exact_normalized_match'', JBool (ma_exact m)), (''similarity'', JInt (int (ma_similarity m)))]) ms)"

definition related_json :: "deployment_row list \<Rightarrow> json" where
  "related_json rs = JList (map (\<lambda>r.
     JObj [(''address'', JStr (dr_address r)), (''tx_hash'', JStr (dr_tx_hash r)),
       (''block_number'', JInt (dr_block_number r)), (''observed_at'', JStr (dr_observed_at r)),
       (''contract_name'', opt_json (dr_contract_name r)), (''is_proxy'', JInt (if dr_is_proxy r then 1 else 0))]) rs)"

definition contract_url :: "scanner \<Rightarrow> string \<Rightarrow> json" where
  "contract_url sc address = JStr (cc_explorer_url (mo_chain sc) @ ''/address/'' @ address)"

definition transaction_url :: "scanner \<Rightarrow> string \<Rightarrow> json" where
  "transaction_url sc tx_hash = JStr (cc_explorer_url (mo_chain sc) @ ''/tx/'' @ tx_hash)"

text \<open>\<^verbatim>\<open>similar_contracts\<close> with its defaults, \<^verbatim>\<open>minimum_similarity=0.84\<close> and \<^verbatim>\<open>limit=8\<close>.\<close>

definition similar_of :: "scanner \<Rightarrow> string \<Rightarrow> fingerprint \<Rightarrow> store \<Rightarrow> profile_match list" where
  "similar_of sc address fp st = similar_contracts st (mo_id sc) address fp (84/100) 8"

definition enrich_contract :: "scanner \<Rightarrow> string \<Rightarrow> contract_metadata res" where
  "enrich_contract sc address =
     enrich (mo_sourcify_enabled sc) (mo_etherscan_enabled sc) (mo_rpc sc) (mo_sourcify sc address)
       (mo_etherscan sc address) address"

section \<open>Profile changes\<close>

text \<open>The columns compared, old and new, in the order of the dictionary.\<close>

definition profile_fields :: "profile_row \<Rightarrow> fingerprint \<Rightarrow> contract_metadata \<Rightarrow> (string \<times> json \<times> json) list" where
  "profile_fields r fp m =
     (let old = pr_metadata r; flag = (\<lambda>b. JInt (if b then 1 else 0)) in
      [(''bytecode_sha256'', JStr (pr_bytecode_sha256 r), JStr (fp_raw_sha256 fp)),
       (''normalized_sha256'', JStr (pr_normalized_sha256 r), JStr (fp_normalized_sha256 fp)),
       (''verified'', flag (cm_verified old), flag (cm_verified m)),
       (''verification_source'', opt_json (cm_verification_source old), opt_json (cm_verification_source m)),
       (''contract_name'', opt_json (cm_contract_name old), opt_json (cm_contract_name m)),
       (''is_proxy'', flag (cm_is_proxy old), flag (cm_is_proxy m)),
       (''implementation'', opt_json (cm_implementation old), opt_json (cm_implementation m)),
       (''admin'', opt_json (cm_admin old), opt_json (cm_admin m)),
       (''beacon'', opt_json (cm_beacon old), opt_json (cm_beacon m))])"

definition profile_changes :: "profile_row \<Rightarrow> fingerprint \<Rightarrow> contract_metadata \<Rightarrow> (string \<times> json \<times> json) list" where
  "profile_changes r fp m = filter (\<lambda>(f, before, after). before \<noteq> after) (profile_fields r fp m)"

definition change_identity :: "(string \<times> json \<times> json) list \<Rightarrow> string" where
  "change_identity changes =
     join ''|'' (map (\<lambda>(f, before, after). f @ '':'' @ py_str after) (sort_key fst changes))"

definition changes_json :: "(string \<times> json \<times> json) list \<Rightarrow> json" where
  "changes_json changes =
     JObj (map (\<lambda>(f, before, after). (f, JObj [(''previous'', before), (''current'', after)])) changes)"

definition profile_event ::
  "scanner \<Rightarrow> string \<Rightarrow> (string \<times> json \<times> json) list \<Rightarrow> string \<Rightarrow> string \<Rightarrow> int \<Rightarrow> contract_metadata
     \<Rightarrow> fingerprint \<Rightarrow> profile_match list \<Rightarrow> radar_event" where
  "profile_event sc address changes deployer tx_hash block_number metadata fp similar =
     (let chain = mo_chain sc;
          watched = watch_contract (mo_watchlist sc) (mo_id sc) address;
          score = score_profile_change (map fst changes) (map_option cw_protocol watched)
      in \<lparr> ev_event_id = stable_event_id (mo_digest sc) [''contract_profile_changed'', int_str (mo_id sc), address,
             change_identity changes],
           ev_observed_at = utc_now (mo_clock sc), ev_event_type = ''contract_profile_changed'',
           ev_title = ''Contract intelligence changed'',
           ev_summary = ''Scheduled re-enrichment observed '' @ nat_str (length changes) @ '' changed field(s) for ''
             @ address @ '' on '' @ cc_display_name chain @ ''.'',
           ev_chain = cc_name chain, ev_chain_id = cc_chain_id chain, ev_score = sr_score score,
           ev_severity = severity_for_score (sr_score score), ev_confidence = sr_confidence score,
           ev_reasons = sr_reasons score, ev_recommended_action = sr_recommended_action score,
           ev_subject_address = Some address, ev_deployer_address = none_if_empty deployer,
           ev_tx_hash = none_if_empty tx_hash, ev_block_number = (if block_number = 0 then None else Some block_number),
           ev_evidence = (''contract'', contract_url sc address)
             # (if tx_hash \<noteq> [] then [(''original_deployment'', transaction_url sc tx_hash)] else []),
           ev_metadata = [(''protocol'', opt_json (map_option cw_protocol watched)),
             (''role'', opt_json (map_option cw_role watched)), (''changes'', changes_json changes),
             (''verified'', JBool (cm_verified metadata)),
             (''verification_source'', opt_json (cm_verification_source metadata)),
             (''contract_name'', opt_json (cm_contract_name metadata)),
             (''normalized_bytecode_sha256'', JStr (fp_normalized_sha256 fp)),
             (''is_proxy'', JBool (cm_is_proxy metadata)), (''implementation'', opt_json (cm_implementation metadata)),
             (''admin'', opt_json (cm_admin metadata)), (''beacon'', opt_json (cm_beacon metadata)),
             (''similar_contracts'', similar_json similar)] \<rparr>)"

definition deployer_label :: "scanner \<Rightarrow> string \<Rightarrow> string option" where
  "deployer_label sc deployer = map_option dw_label (watch_deployer (mo_watchlist sc) (mo_id sc) deployer)"

definition report_changes ::
  "scanner \<Rightarrow> profile_row \<times> deployment_row option \<Rightarrow> fingerprint \<Rightarrow> contract_metadata \<Rightarrow> profile_match list
     \<Rightarrow> unit monitor" where
  "report_changes sc profile fp metadata similar =
     (let (r, d) = profile;
          changes = profile_changes r fp metadata;
          deployer = (case d of None \<Rightarrow> [] | Some x \<Rightarrow> dr_deployer_address x);
          tx_hash = (case d of None \<Rightarrow> [] | Some x \<Rightarrow> dr_tx_hash x);
          block_number = (case d of None \<Rightarrow> 0 | Some x \<Rightarrow> dr_block_number x)
      in if changes = [] then skip
         else seq (if deployer \<noteq> [] \<and> tx_hash \<noteq> []
                   then register_identity sc (pr_address r) deployer tx_hash block_number (utc_now (mo_clock sc)) metadata
                          fp similar (deployer_label sc deployer)
                   else skip) (\<lambda>_.
              seq (record_and_alert sc (profile_event sc (pr_address r) changes deployer tx_hash block_number metadata fp similar))
                (\<lambda>_. count (\<lambda>n. n\<lparr> sn_profile_changes := Suc (sn_profile_changes n) \<rparr>))))"

text \<open>\<^verbatim>\<open>_refresh_profile\<close>\<close>

definition refresh_profile :: "scanner \<Rightarrow> profile_row \<times> deployment_row option \<Rightarrow> unit monitor" where
  "refresh_profile sc profile =
     (let address = pr_address (fst profile) in
      seq (of_res (rpc_code (mo_rpc sc) address ''latest'')) (\<lambda>code_text.
      let fp = fingerprint_bytecode (mo_sha256 sc) (mo_blake8 sc) code_text in
      seq (of_res (enrich_contract sc address)) (\<lambda>metadata.
      with_store (\<lambda>st. let similar = similar_of sc address fp st in
        seq (on_store (\<lambda>st. ((), upsert_contract_profile (mo_id sc) address fp metadata (utc_now (mo_clock sc)) st))) (\<lambda>_.
        seq (count (\<lambda>n. n\<lparr> sn_profiles_refreshed := Suc (sn_profiles_refreshed n) \<rparr>)) (\<lambda>_.
          report_changes sc profile fp metadata similar))))))"

section \<open>Deployments\<close>

record creation =
  nd_address :: string
  nd_deployer :: string
  nd_tx_hash :: string
  nd_block_number :: int
  nd_block_timestamp :: string
  nd_creation_type :: string
  nd_trace_depth :: nat
  nd_transaction_sender :: string

definition deployment_score ::
  "scanner \<Rightarrow> creation \<Rightarrow> fingerprint \<Rightarrow> contract_metadata \<Rightarrow> profile_match list \<Rightarrow> deployment_row list \<Rightarrow> score_result" where
  "deployment_score sc d fp metadata similar related =
     score_deployment (mo_chain sc) metadata (int (fp_bytecode_size fp)) (int (length related))
       (deployer_label sc (nd_deployer d)) (int (length (filter ma_exact similar))) (int (length similar))"

definition deployment_event ::
  "scanner \<Rightarrow> creation \<Rightarrow> fingerprint \<Rightarrow> contract_metadata \<Rightarrow> profile_match list \<Rightarrow> deployment_row list \<Rightarrow> radar_event" where
  "deployment_event sc d fp metadata similar related =
     (let chain = mo_chain sc;
          score = deployment_score sc d fp metadata similar related;
          event_type = (if nd_trace_depth d \<noteq> 0 then ''internal_contract_deployment'' else ''contract_deployment'');
          name = cm_contract_name metadata
      in \<lparr> ev_event_id = stable_event_id (mo_digest sc) [event_type, int_str (mo_id sc), nd_tx_hash d, nd_address d],
           ev_observed_at = utc_now (mo_clock sc), ev_event_type = event_type,
           ev_title = (if nd_trace_depth d \<noteq> 0 then ''Internal contract creation ('' @ nd_creation_type d @ '')''
             else ''New contract deployment''),
           ev_summary = (if truthy_opt name then the name else ''Unlabelled contract'') @ '' deployed on ''
             @ cc_display_name chain @ '' by '' @ nd_deployer d @ ''.'',
           ev_chain = cc_name chain, ev_chain_id = cc_chain_id chain, ev_score = sr_score score,
           ev_severity = severity_for_score (sr_score score), ev_confidence = sr_confidence score,
           ev_reasons = sr_reasons score, ev_recommended_action = sr_recommended_action score,
           ev_subject_address = Some (nd_address d), ev_deployer_address = Some (nd_deployer d),
           ev_tx_hash = Some (nd_tx_hash d), ev_block_number = Some (nd_block_number d),
           ev_evidence = [(''transaction'', transaction_url sc (nd_tx_hash d)), (''contract'', contract_url sc (nd_address d)),
             (''deployer'', contract_url sc (nd_deployer d))],
           ev_metadata = [(''block_timestamp'', JStr (nd_block_timestamp d)),
             (''bytecode_size'', JInt (int (fp_bytecode_size fp))),
             (''normalized_bytecode_size'', JInt (int (fp_normalized_size fp))),
             (''solidity_metadata_size'', JInt (int (fp_metadata_size fp))),
             (''bytecode_sha256'', JStr (fp_raw_sha256 fp)),
             (''normalized_bytecode_sha256'', JStr (fp_normalized_sha256 fp)),
             (''bytecode_simhash64'', JStr (fp_simhash64 fp)), (''similar_contracts'', similar_json similar),
             (''verified'', JBool (cm_verified metadata)),
             (''verification_source'', opt_json (cm_verification_source metadata)),
             (''contract_name'', opt_json name), (''is_proxy'', JBool (cm_is_proxy metadata)),
             (''implementation'', opt_json (cm_implementation metadata)), (''admin'', opt_json (cm_admin metadata)),
             (''beacon'', opt_json (cm_beacon metadata)), (''deployer_cluster_size'', JInt (int (length related))),
             (''related_contracts'', related_json related), (''creation_type'', JStr (nd_creation_type d)),
             (''trace_depth'', JInt (int (nd_trace_depth d))), (''transaction_sender'', JStr (nd_transaction_sender d))] \<rparr>)"

text \<open>What follows the first insertion of a deployment.\<close>

definition report_deployment :: "scanner \<Rightarrow> creation \<Rightarrow> fingerprint \<Rightarrow> contract_metadata \<Rightarrow> unit monitor" where
  "report_deployment sc d fp metadata =
     with_store (\<lambda>st. let similar = similar_of sc (nd_address d) fp st in
       seq (on_store (\<lambda>st. ((), upsert_contract_profile (mo_id sc) (nd_address d) fp metadata (utc_now (mo_clock sc)) st))) (\<lambda>_.
       with_store (\<lambda>st. let related = related_deployments (mo_clock sc) st (mo_id sc) (nd_deployer d) 24 8 in
         seq (register_identity sc (nd_address d) (nd_deployer d) (nd_tx_hash d) (nd_block_number d) (utc_now (mo_clock sc))
                metadata fp similar (deployer_label sc (nd_deployer d))) (\<lambda>_.
         seq (record_and_alert sc (deployment_event sc d fp metadata similar related)) (\<lambda>_.
           count (\<lambda>n. n\<lparr> sn_deployments := Suc (sn_deployments n) \<rparr>))))))"

text \<open>\<^verbatim>\<open>_process_deployment\<close>: everything that may fail outside the store comes before the insertion.\<close>

definition process_deployment :: "scanner \<Rightarrow> creation \<Rightarrow> unit monitor" where
  "process_deployment sc d =
     seq (of_res (rpc_code (mo_rpc sc) (nd_address d) (int_to_hex (nd_block_number d)))) (\<lambda>code_text.
     let fp = fingerprint_bytecode (mo_sha256 sc) (mo_blake8 sc) code_text in
     seq (of_res (enrich_contract sc (nd_address d))) (\<lambda>metadata.
     seq (on_store (add_deployment (mo_id sc) (nd_address d) (nd_deployer d) (nd_tx_hash d) (nd_block_number d)
            (utc_now (mo_clock sc)) (cm_contract_name metadata) (cm_is_proxy metadata))) (\<lambda>inserted.
       if \<not> inserted then skip else report_deployment sc d fp metadata)))"

end
