(* ===== verification/Monitor.thy ===== *)
theory Monitor
  imports Monitor_Events Traces
begin

text \<open>
  The scanner of \<^verbatim>\<open>src/white_radar/monitor.py\<close>: proxy control events, the blocks of a range, and the
  three entry points \<^verbatim>\<open>scan\<close>, \<^verbatim>\<open>check_invariants\<close> and \<^verbatim>\<open>refresh_profiles\<close>.
\<close>

section \<open>Proxy control events\<close>

definition UPGRADE_TOPICS :: "(string \<times> string) list" where
  "UPGRADE_TOPICS =
     [(''0xbc7cd75a20ee27fd9adebab32041f755214dbc6bffa90cc0225b39da2e5c2d3b'', ''Upgraded''),
      (''0x7e644d79422f17c01e4894b5f4f588d331ebfa28653d42ae832dc59e38c9798f'', ''AdminChanged''),
      (''0x1cf3b03a6cf19fa2baba4df148e9dcabedea7f8a5c07840e207e5c089be95d3e'', ''BeaconUpgraded'')]"

text \<open>\<^verbatim>\<open>topics = entry.get("topics") or []\<close> and \<^verbatim>\<open>topics[0]\<close>, \<^verbatim>\<open>topics[1]\<close>: indexing a text gives a
  character, an object has no key 0, a number has no index.\<close>

definition first_topics :: "dict \<Rightarrow> (string \<times> string option) option res" where
  "first_topics entry =
     (case py_or (dget entry ''topics'') (JList []) of
        JList [] \<Rightarrow> Inr None
      | JList (t # ts) \<Rightarrow> Inr (Some (lower (py_str t), case ts of [] \<Rightarrow> None | u # us \<Rightarrow> Some (py_str u)))
      | JStr (c # cs) \<Rightarrow> Inr (Some (lower [c], case cs of [] \<Rightarrow> None | d # ds \<Rightarrow> Some [d]))
      | JObj d \<Rightarrow> Inl KeyError
      | _ \<Rightarrow> Inl TypeError)"

definition indexed_address :: "string option \<Rightarrow> string option" where
  "indexed_address t1 =
     (case t1 of None \<Rightarrow> None | Some t \<Rightarrow> if 42 \<le> length t then Some (''0x'' @ lower (last_n 40 t)) else None)"

definition snapshot_json :: "proxy_snapshot \<Rightarrow> json" where
  "snapshot_json s = JObj [(''address'', JStr (px_address s)), (''block_number'', JInt (px_block_number s)),
     (''block_hash'', opt_json (px_block_hash s)), (''implementation'', opt_json (px_implementation s)),
     (''admin'', opt_json (px_admin s)), (''beacon'', opt_json (px_beacon s)),
     (''beacon_implementation'', opt_json (px_beacon_implementation s)),
     (''effective_implementation'', opt_json (px_effective s)),
     (''implementation_code_sha256'', opt_json (px_code_sha256 s)),
     (''implementation_code_size'', JInt (int (px_code_size s))),
     (''uups_compatible'', case px_uups s of None \<Rightarrow> JNull | Some b \<Rightarrow> JBool b),
     (''findings'', JList (map (\<lambda>f. JObj [(''code'', JStr (xf_code f)), (''score_delta'', JInt (xf_score_delta f)),
        (''summary'', JStr (xf_summary f))]) (px_findings s))),
     (''score_delta'', JInt (proxy_delta s))]"

definition upgrade_score :: "scanner \<Rightarrow> contract_watch option \<Rightarrow> score_result" where
  "upgrade_score sc watched = score_upgrade (map_option cw_protocol watched) (cc_monitor_global_upgrades (mo_chain sc))"

definition upgrade_event ::
  "scanner \<Rightarrow> string \<Rightarrow> string \<Rightarrow> string \<Rightarrow> int \<Rightarrow> string option \<Rightarrow> proxy_snapshot option \<Rightarrow> radar_event" where
  "upgrade_event sc event_name proxy tx_hash block_number indexed snapshot =
     (let chain = mo_chain sc;
          watched = watch_contract (mo_watchlist sc) (mo_id sc) proxy;
          score = upgrade_score sc watched;
          delta = (case snapshot of None \<Rightarrow> 0 | Some s \<Rightarrow> proxy_delta s);
          final = min 100 (sr_score score + delta)
      in \<lparr> ev_event_id = stable_event_id (mo_digest sc) [''proxy_control_event'', int_str (mo_id sc), tx_hash, proxy, event_name],
           ev_observed_at = utc_now (mo_clock sc), ev_event_type = ''proxy_control_event'',
           ev_title = ''Proxy control event: '' @ event_name,
           ev_summary = event_name @ '' emitted by '' @ proxy @ '' on '' @ cc_display_name chain @ ''.'',
           ev_chain = cc_name chain, ev_chain_id = cc_chain_id chain, ev_score = final,
           ev_severity = severity_for_score final, ev_confidence = sr_confidence score,
           ev_reasons = sr_reasons score @ (case snapshot of None \<Rightarrow> [] | Some s \<Rightarrow> map xf_summary (px_findings s)),
           ev_recommended_action = sr_recommended_action score,
           ev_subject_address = Some proxy, ev_deployer_address = None, ev_tx_hash = Some tx_hash,
           ev_block_number = Some block_number,
           ev_evidence = [(''transaction'', transaction_url sc tx_hash), (''proxy'', contract_url sc proxy)],
           ev_metadata = [(''proxy_event'', JStr event_name), (''indexed_address'', opt_json indexed),
             (''protocol'', opt_json (map_option cw_protocol watched)), (''role'', opt_json (map_option cw_role watched)),
             (''bounty_url'', JStr (case watched of None \<Rightarrow> [] | Some w \<Rightarrow> cw_bounty_url w)),
             (''contact_uri'', JStr (case watched of None \<Rightarrow> [] | Some w \<Rightarrow> cw_contact_uri w)),
             (''verification_source'', JStr ''on-chain event log''),
             (''proxy_snapshot'', case snapshot of None \<Rightarrow> JNull | Some s \<Rightarrow> snapshot_json s)] \<rparr>)"

text \<open>\<^verbatim>\<open>relation_by_event\<close>\<close>

definition upgrade_relation :: "string \<Rightarrow> string \<times> string" where
  "upgrade_relation event_name =
     (if event_name = ''Upgraded'' then (''contract'', ''DELEGATES_TO'')
      else if event_name = ''BeaconUpgraded'' then (''contract'', ''USES_BEACON'')
      else (''account'', ''ADMINISTERED_BY''))"

definition link_upgrade :: "scanner \<Rightarrow> string \<Rightarrow> string \<Rightarrow> string \<Rightarrow> string option \<Rightarrow> string \<Rightarrow> unit monitor" where
  "link_upgrade sc event_name proxy tx_hash indexed observed_at =
     (let watched = watch_contract (mo_watchlist sc) (mo_id sc) proxy in
      seq (upsert_node sc ''contract'' proxy (map_option (\<lambda>w. cw_protocol w @ '' '' @ cw_role w) watched) []) (\<lambda>proxy_node.
      seq (case watched of None \<Rightarrow> skip
           | Some w \<Rightarrow> seq (upsert_node sc ''protocol'' (cw_protocol w) (Some (cw_protocol w)) []) (\<lambda>protocol_node.
               upsert_edge sc protocol_node ''CONTAINS'' proxy_node
                 [(''watchlist'', JBool True), (''bounty_url'', JStr (cw_bounty_url w))] observed_at)) (\<lambda>_.
        case indexed of None \<Rightarrow> skip
        | Some a \<Rightarrow> seq (upsert_node sc (fst (upgrade_relation event_name)) a None []) (\<lambda>target_node.
            upsert_edge sc proxy_node (snd (upgrade_relation event_name)) target_node
              [(''transaction'', JStr tx_hash), (''event'', JStr event_name)] observed_at))))"

definition scan_upgrade_log :: "scanner \<Rightarrow> dict \<Rightarrow> unit monitor" where
  "scan_upgrade_log sc entry =
     seq (of_res (first_topics entry)) (\<lambda>topics.
       case topics of None \<Rightarrow> skip
       | Some (topic, t1) \<Rightarrow>
           (case map_of UPGRADE_TOPICS topic of None \<Rightarrow> skip
            | Some event_name \<Rightarrow>
                (let proxy = lower (str_or (dget entry ''address'') []);
                     tx_hash = lower (str_or (dget entry ''transactionHash'') []);
                     indexed = indexed_address t1
                 in seq (of_res (hex_to_int (str_or (dget entry ''blockNumber'') ''0x0''))) (\<lambda>block_number.
                    let snapshot = (case inspect_proxy (mo_sha256 sc) (mo_blake8 sc) (mo_rpc sc) proxy (Some block_number) of
                          Inl e \<Rightarrow> None | Inr s \<Rightarrow> Some s);
                        e = upgrade_event sc event_name proxy tx_hash block_number indexed snapshot
                    in seq (link_upgrade sc event_name proxy tx_hash indexed (ev_observed_at e)) (\<lambda>_.
                       seq (record_and_alert sc e) (\<lambda>_.
                         count (\<lambda>n. n\<lparr> sn_upgrades := Suc (sn_upgrades n) \<rparr>)))))))"

text \<open>\<^verbatim>\<open>_scan_upgrades\<close>\<close>

definition scan_upgrades :: "scanner \<Rightarrow> int \<Rightarrow> int \<Rightarrow> unit monitor" where
  "scan_upgrades sc start finish =
     (let watched = sort (addresses_for_chain (mo_watchlist sc) (mo_id sc));
          everywhere = cc_monitor_global_upgrades (mo_chain sc)
      in if \<not> everywhere \<and> watched = [] then skip
         else seq (of_res (rpc_logs (mo_rpc sc) start finish [JList (map (\<lambda>t. JStr (fst t)) UPGRADE_TOPICS)]
                     (if everywhere then None else Some watched)))
                (each (scan_upgrade_log sc)))"

section \<open>Blocks\<close>

text \<open>Iteration over a JSON value whose items matter only when they are objects.\<close>

definition iter_objects :: "json \<Rightarrow> dict list res" where
  "iter_objects j = (case j of JList xs \<Rightarrow> Inr (only_dicts xs) | JStr s \<Rightarrow> Inr [] | JObj d \<Rightarrow> Inr [] | _ \<Rightarrow> Inl TypeError)"

definition mk_creation :: "string \<Rightarrow> string \<Rightarrow> int \<Rightarrow> string \<Rightarrow> internal_creation \<Rightarrow> creation" where
  "mk_creation tx_hash sender block_number block_timestamp c =
     \<lparr> nd_address = ic_address c, nd_deployer = ic_creator c, nd_tx_hash = tx_hash, nd_block_number = block_number,
       nd_block_timestamp = block_timestamp, nd_creation_type = ic_creation_type c, nd_trace_depth = ic_depth c,
       nd_transaction_sender = sender \<rparr>"

text \<open>\<^verbatim>\<open>_scan_internal_creations\<close>: a failing trace is logged, a malformed one raises.\<close>

definition scan_internal_creations :: "scanner \<Rightarrow> string \<Rightarrow> string \<Rightarrow> int \<Rightarrow> string \<Rightarrow> unit monitor" where
  "scan_internal_creations sc tx_hash sender block_number block_timestamp =
     (case rpc_trace_transaction (mo_rpc sc) tx_hash of
        Inl e \<Rightarrow> skip
      | Inr trace \<Rightarrow> (case trace of None \<Rightarrow> skip
          | Some d \<Rightarrow> if d = [] then skip
              else seq (of_res (internal_creations d))
                (each (\<lambda>c. process_deployment sc (mk_creation tx_hash sender block_number block_timestamp c)))))"

definition scan_creation :: "scanner \<Rightarrow> string \<Rightarrow> string \<Rightarrow> int \<Rightarrow> string \<Rightarrow> unit monitor" where
  "scan_creation sc tx_hash sender block_number block_timestamp =
     seq (of_res (rpc_receipt (mo_rpc sc) tx_hash)) (\<lambda>receipt.
       case receipt of None \<Rightarrow> skip
       | Some d \<Rightarrow> if d = [] then skip
           else seq (of_res (hex_to_int (str_or (dget d ''status'') ''0x0''))) (\<lambda>status.
             let address = lower (str_or (dget d ''contractAddress'') []) in
             if status \<noteq> 1 \<or> address = [] then skip
             else process_deployment sc
               \<lparr> nd_address = address, nd_deployer = sender, nd_tx_hash = tx_hash, nd_block_number = block_number,
                 nd_block_timestamp = block_timestamp, nd_creation_type = ''CREATE'', nd_trace_depth = 0,
                 nd_transaction_sender = sender \<rparr>))"

definition scan_transaction :: "scanner \<Rightarrow> int \<Rightarrow> string \<Rightarrow> dict \<Rightarrow> unit monitor" where
  "scan_transaction sc block_number block_timestamp transaction =
     (let tx_hash = lower (str_or (dget transaction ''hash'') []);
          sender = lower (str_or (dget transaction ''from'') []);
          destination = lower (str_or (dget transaction ''to'') [])
      in if tx_hash = [] \<or> sender = [] then skip
         else seq (if cc_trace_internal_creations (mo_chain sc) \<and> destination \<noteq> []
                      \<and> watch_contract (mo_watchlist sc) (mo_id sc) destination \<noteq> None
                   then scan_internal_creations sc tx_hash sender block_number block_timestamp else skip) (\<lambda>_.
              if destination \<noteq> [] then skip else scan_creation sc tx_hash sender block_number block_timestamp))"

text \<open>\<^verbatim>\<open>_scan_block\<close>\<close>

definition scan_block :: "scanner \<Rightarrow> int \<Rightarrow> unit monitor" where
  "scan_block sc number =
     seq (of_res (rpc_block (mo_rpc sc) number True)) (\<lambda>block.
       if block = None \<or> block = Some [] then of_res (Inl RuntimeError)
       else seq (of_res (and_then (hex_to_int (str_or (dget (the block) ''timestamp'') ''0x0'')) (mo_isoformat sc))) (\<lambda>block_timestamp.
            seq (of_res (iter_objects (py_or (dget (the block) ''transactions'') (JList []))))
              (each (scan_transaction sc number block_timestamp))))"

section \<open>The entry points\<close>

definition set_rpc_stats :: "scanner \<Rightarrow> unit monitor" where
  "set_rpc_stats sc = count (\<lambda>n. n\<lparr> sn_rpc_endpoint_count := fst (mo_endpoints sc),
     sn_rpc_active_endpoint := snd (mo_endpoints sc) \<rparr>)"

definition require_chain :: "scanner \<Rightarrow> unit res" where
  "require_chain sc =
     and_then (rpc_chain_id (mo_rpc sc)) (\<lambda>actual. if actual \<noteq> mo_id sc then Inl RuntimeError else Inr ())"

definition safe_head_of :: "scanner \<Rightarrow> int res" where
  "safe_head_of sc =
     and_then (rpc_block_number (mo_rpc sc)) (\<lambda>head. Inr (max 0 (head - cc_confirmations (mo_chain sc))))"

definition start_block_of :: "scanner \<Rightarrow> int \<Rightarrow> store \<Rightarrow> int" where
  "start_block_of sc safe_head st =
     (case get_cursor st (mo_id sc) of
        None \<Rightarrow> max 0 (safe_head - cc_initial_lookback_blocks (mo_chain sc) + 1)
      | Some c \<Rightarrow> c + 1)"

text \<open>One turn of the loop over the range.\<close>

definition advance_block :: "scanner \<Rightarrow> int \<Rightarrow> unit monitor" where
  "advance_block sc number =
     seq (scan_block sc number) (\<lambda>_.
     seq (on_store (\<lambda>st. ((), set_cursor (mo_clock sc) (mo_id sc) number st))) (\<lambda>_.
       count (\<lambda>n. n\<lparr> sn_blocks := Suc (sn_blocks n) \<rparr>)))"

definition scan_range :: "scanner \<Rightarrow> int \<Rightarrow> int \<Rightarrow> unit monitor" where
  "scan_range sc start finish =
     seq (count (\<lambda>n. n\<lparr> sn_start_block := Some start, sn_end_block := Some finish \<rparr>)) (\<lambda>_.
     seq (scan_upgrades sc start finish) (\<lambda>_.
     seq (each (advance_block sc) [start..finish]) (\<lambda>_.
     seq (flush_alerts sc) (\<lambda>_. set_rpc_stats sc))))"

text \<open>\<^verbatim>\<open>scan\<close>, whose statistics start fresh; the cursor is read before the first delivery.\<close>

definition scan :: "scanner \<Rightarrow> store \<Rightarrow> unit res \<times> state" where
  "scan sc st =
     seq (of_res (require_chain sc)) (\<lambda>_.
     seq (of_res (safe_head_of sc)) (\<lambda>safe_head.
     with_store (\<lambda>st.
       let start = start_block_of sc safe_head st;
           finish = min safe_head (start + cc_max_blocks_per_cycle (mo_chain sc) - 1)
       in seq (flush_alerts sc) (\<lambda>_.
          seq (if an_invariant_checks_enabled (mo_analysis sc) then scan_invariants sc safe_head else skip) (\<lambda>_.
            if safe_head < start then set_rpc_stats sc else scan_range sc start finish)))))
     (st, new_stats (cc_name (mo_chain sc)))"

definition check_invariants :: "scanner \<Rightarrow> store \<Rightarrow> unit res \<times> state" where
  "check_invariants sc st =
     seq (of_res (require_chain sc)) (\<lambda>_.
     seq (of_res (safe_head_of sc)) (\<lambda>safe_head.
     seq (scan_invariants sc safe_head) (\<lambda>_.
     seq (flush_alerts sc) (\<lambda>_. set_rpc_stats sc))))
     (st, new_stats (cc_name (mo_chain sc)))"

definition refresh_profiles :: "scanner \<Rightarrow> int \<Rightarrow> int \<Rightarrow> store \<Rightarrow> unit res \<times> state" where
  "refresh_profiles sc limit min_age_minutes st =
     seq (of_res (require_chain sc)) (\<lambda>_.
     with_store (\<lambda>st.
     seq (each (refresh_profile sc) (profiles_due_for_refresh (mo_clock sc) st (mo_id sc) min_age_minutes limit)) (\<lambda>_.
     seq (flush_alerts sc) (\<lambda>_. set_rpc_stats sc))))
     (st, new_stats (cc_name (mo_chain sc)))"

end
