(* ===== verification/Store_Contract.thy ===== *)
theory Store_Contract
  imports Incidents
begin

text \<open>
  The store as the two monitors of \<^verbatim>\<open>src/white_radar/monitor.py\<close> and \<^verbatim>\<open>mempool.py\<close> rely on it: a
  predicate that recording an event, opening an incident, marking a delivery and linking
  identities preserve. The invariants of the outbox, of the incidents and of the recorded scores
  are shown to be of this kind; each monitor extends the contract by the operations of its own.
\<close>

definition valid_event :: "int \<Rightarrow> radar_event \<Rightarrow> bool" where
  "valid_event chain_id e \<longleftrightarrow> 0 \<le> ev_score e \<and> ev_score e \<le> 100 \<and> ev_severity e = severity_for_score (ev_score e)
     \<and> ev_chain_id e = chain_id"

locale identity_store =
  fixes ok :: "store \<Rightarrow> bool"
  assumes keeps_node: "ok st \<Longrightarrow> upsert_identity_node d1 ck1 c k v l m' st = Inr (n, st') \<Longrightarrow> ok st'"
    and keeps_edge: "ok st \<Longrightarrow> ok (snd (upsert_identity_edge d' c' s r t ev ob st))"

locale recorded_store = identity_store ok
  for ok :: "store \<Rightarrow> bool" +
  fixes digest :: "string \<Rightarrow> string" and ck :: clock and chain_id :: int
  assumes keeps_add_event: "ok st \<Longrightarrow> valid_event chain_id e \<Longrightarrow> ok (snd (add_event e st))"
    and keeps_open_incident: "ok st \<Longrightarrow> ok (snd (open_incident digest ck e m sla p st))"
    and keeps_mark: "ok st \<Longrightarrow> ok (mark_alerted ck i st)"
begin

lemma keeps_record_event:
  assumes "ok st" "valid_event chain_id e" "add_event e st = (b, st1)" "open_incident digest ck e m sla p st1 = (i, st2)"
  shows "ok st1 \<and> ok st2"
  using keeps_add_event [OF assms(1,2)] keeps_open_incident [of st1 e m sla p] assms(3,4) by simp

lemma keeps_marks: "ok st \<Longrightarrow> ok (fold (\<lambda>e. if P e then mark_alerted ck (f e) else id) es st)"
  by (induction es arbitrary: st) (auto intro: keeps_mark)

end

text \<open>What each operation leaves alone.\<close>

lemmas store_operation_defs =
  add_event_def insert_event_row_def open_incident_def insert_incident_def mark_alerted_def upsert_identity_node_def put_node_def
  upsert_identity_edge_def put_edge_def upsert_contract_profile_def put_profile_def add_deployment_def
  insert_deployment_def record_invariant_state_def put_invariant_def

text \<open>Linking identities writes the two tables of the graph only.\<close>

definition sans_graph :: "store \<Rightarrow> store" where
  "sans_graph st = st\<lparr> st_nodes := [], st_edges := [] \<rparr>"

interpretation graph_frame: identity_store "\<lambda>st. sans_graph st = t" for t
  by unfold_locales (auto simp: sans_graph_def store_operation_defs Let_def split: if_splits)

interpretation readable_events: recorded_store wf_events digest ck c for digest ck c
proof unfold_locales
  fix st e
  assume "wf_events st"
  then show "wf_events (snd (add_event e st))" by (rule wf_events_add) (rule prod.collapse [symmetric])
next
  fix st i
  assume "wf_events st"
  then show "wf_events (mark_alerted ck i st)" by (rule wf_events_mark)
qed (auto simp: wf_events_def store_operation_defs Let_def split: if_splits prod.splits)

interpretation reached_incidents: recorded_store "incident_reach digest" digest ck c for digest ck c
proof unfold_locales
  fix st e m sla p
  assume "incident_reach digest st"
  then show "incident_reach digest (snd (open_incident digest ck e m sla p st))"
    by (rule incident_reach.step) (rule incident_step.opened, rule prod.collapse [symmetric])
qed (erule incident_reach.step, rule incident_step.frame,
     auto simp: store_operation_defs Let_def split: if_splits prod.splits)+

definition scored_events :: "store \<Rightarrow> bool" where
  "scored_events st = list_all (\<lambda>r. 0 \<le> er_score r \<and> er_score r \<le> 100) (st_events st)"

interpretation scored_rows: recorded_store scored_events digest ck c for digest ck c
  by unfold_locales
    (auto simp: scored_events_def store_operation_defs valid_event_def event_row_of_def update_row_def insert_or_ignore_def
      list_all_iff Let_def split: if_splits prod.splits)

end
