(* ===== verification/Monitor_Facts.thy ===== *)
theory Monitor_Facts
  imports Monitor Store_Contract
begin

text \<open>
  What the scanner preserves and how its cursor moves. The locale \<open>store_invariant\<close> is the contract
  between the scanner and the store: a predicate that every store operation the scanner uses
  preserves is preserved by every method, however it ends. It is interpreted on the invariants of
  the event outbox, of the incidents and of the deployments.
\<close>

section \<open>The events are valid\<close>

lemma valid_profile_event: "valid_event (mo_id sc) (profile_event sc a cs d t b m fp ms)"
  using valid_score_profile_change by (simp add: valid_event_def profile_event_def Let_def mo_id_def valid_score_def)

lemma valid_deployment_event: "valid_event (mo_id sc) (deployment_event sc d fp m ms rs)"
  using valid_score_deployment
  by (simp add: valid_event_def deployment_event_def deployment_score_def Let_def mo_id_def valid_score_def)

lemma valid_upgrade_event:
  assumes "\<And>s. snapshot = Some s \<Longrightarrow> 0 \<le> proxy_delta s"
  shows "valid_event (mo_id sc) (upgrade_event sc n p t b i snapshot)"
  using valid_score_upgrade assms
  by (cases snapshot) (auto simp: valid_event_def upgrade_event_def upgrade_score_def Let_def mo_id_def valid_score_def)

lemma check_score:
  assumes "check_policy_invariants call p b h = Inr cs" "wf_policy p" "c \<in> set cs"
  shows "0 \<le> ic_score c \<and> ic_score c \<le> 100"
proof -
  from assms(1,3) obtain iv where iv: "iv \<in> set (pp_invariants p)" and c: "check_invariant call iv b h = Inr c"
    by (auto simp: check_policy_invariants_def dest: traverse_in)
  have "ic_score c = pi_score iv"
    using c by (auto simp: check_invariant_def failed_check_def mk_check_def split: sum.splits if_splits)
  with iv assms(2) show ?thesis by (auto simp: wf_policy_def wf_invariant_def list_all_iff)
qed

lemma valid_invariant_event:
  "0 \<le> ic_score c \<Longrightarrow> ic_score c \<le> 100 \<Longrightarrow> valid_event (mo_id sc) (invariant_event sc p previous c)"
  by (simp add: valid_event_def invariant_event_def Let_def mo_id_def invariant_score_def max_def)

section \<open>The contract with the store\<close>

locale store_invariant = recorded_store ok "mo_digest sc" "mo_clock sc" "mo_id sc"
  for ok :: "store \<Rightarrow> bool" and sc :: scanner +
  assumes keeps_profile: "ok st \<Longrightarrow> ok (upsert_contract_profile c'' a fp md ob' st)"
    and keeps_deployment: "ok st \<Longrightarrow> ok (snd (add_deployment c3 a3 dp tx b ob3 nm px st))"
    and keeps_state: "ok st \<Longrightarrow> ok (snd (record_invariant_state ck4 c4 a4 n4 s4 o4 e4 b4 h4 st))"
begin

lemma keeps_record: "valid_event (mo_id sc) e \<Longrightarrow> keeps ok (record_and_alert sc e)"
  unfolding record_and_alert_def
  by (intro keeps_intro) (auto intro!: keeps_on_store keeps_add_event keeps_open_incident)

lemma keeps_flush: "keeps ok (flush_alerts sc)"
  unfolding flush_alerts_def flush_event_def mark_sent_def
  by (intro keeps_intro) (auto intro!: keeps_on_store keeps_mark)

lemma keeps_upsert_node: "keeps ok (upsert_node sc k v l m)"
  unfolding upsert_node_def by (rule keeps_on_store_res) (rule keeps_node)

lemma keeps_upsert_edge: "keeps ok (upsert_edge sc s r t ev ob)"
  unfolding upsert_edge_def by (intro keeps_intro) (auto intro!: keeps_on_store keeps_edge)

lemma keeps_link_control: "keeps ok (link_control sc n ev ob entry)"
  unfolding link_control_def by (cases entry) (auto intro!: keeps_intro keeps_upsert_node keeps_upsert_edge)

lemma keeps_link_similar: "keeps ok (link_similar sc n fp ob m)"
  unfolding link_similar_def Let_def by (intro keeps_intro keeps_upsert_node keeps_upsert_edge)

lemma keeps_register: "keeps ok (register_identity sc a d t b ob md fp ms l)"
  unfolding register_identity_def Let_def
  by (intro keeps_intro keeps_upsert_node keeps_upsert_edge keeps_link_control keeps_link_similar)

lemma keeps_put_profile:
  "keeps ok (on_store (\<lambda>st. ((), upsert_contract_profile c a fp md ob st)))"
  by (rule keeps_on_store) (simp add: keeps_profile)

lemma keeps_refresh: "keeps ok (refresh_profile sc profile)"
  unfolding refresh_profile_def report_changes_def Let_def split_def
  by (intro keeps_intro keeps_put_profile keeps_register keeps_record valid_profile_event)

lemma keeps_process: "keeps ok (process_deployment sc d)"
  unfolding process_deployment_def report_deployment_def Let_def
  by (intro keeps_intro keeps_put_profile keeps_register keeps_record valid_deployment_event keeps_on_store keeps_deployment)

lemma keeps_transition:
  "0 \<le> ic_score c \<Longrightarrow> ic_score c \<le> 100 \<Longrightarrow> keeps ok (record_invariant_transition sc p c)"
  unfolding record_invariant_transition_def
  by (intro keeps_intro keeps_record valid_invariant_event keeps_on_store keeps_state)

lemma keeps_scan_invariants:
  assumes "wf_book (mo_policies sc)"
  shows "keeps ok (scan_invariants sc n)"
proof -
  have policy: "keeps ok (seq (of_res (check_policy_invariants (mo_rpc sc) p n h)) (each (check_step sc p)))"
    if "p \<in> set (book_for_chain (mo_policies sc) (mo_id sc))" for p h
  proof (cases "check_policy_invariants (mo_rpc sc) p n h")
    case (Inl e)
    then show ?thesis by (auto simp: keeps_def seq_def of_res_def)
  next
    case (Inr cs)
    have "wf_policy p" using that assms by (auto simp: book_for_chain_def wf_book_def list_all_iff)
    then have "keeps ok (each (check_step sc p) cs)"
      unfolding check_step_def by (intro keeps_intro keeps_transition) (auto dest: check_score [OF Inr])
    then show ?thesis by (auto simp: keeps_def seq_def of_res_def Inr)
  qed
  show ?thesis
    unfolding scan_invariants_def Let_def
    by (rule keeps_if, rule keeps_skip, rule keeps_seq, rule keeps_of_res, rule keeps_each, erule policy)
qed

text \<open>When recording any event keeps the predicate, nothing is asked of the policies.\<close>

lemma keeps_scan_invariants_any:
  assumes "\<And>e st. ok st \<Longrightarrow> ok (snd (add_event e st))"
  shows "keeps ok (scan_invariants sc n)"
  unfolding scan_invariants_def check_step_def record_invariant_transition_def record_and_alert_def Let_def
  by (intro keeps_intro keeps_on_store keeps_state assms keeps_open_incident)

lemma keeps_link_upgrade: "keeps ok (link_upgrade sc n p t i ob)"
  unfolding link_upgrade_def Let_def by (intro keeps_intro keeps_upsert_node keeps_upsert_edge)

lemma keeps_upgrade_log: "keeps ok (scan_upgrade_log sc entry)"
  unfolding scan_upgrade_log_def Let_def split_def
  by (intro keeps_intro keeps_link_upgrade keeps_record valid_upgrade_event)
    (auto split: sum.splits dest: inspect_delta_range)

lemma keeps_upgrades: "keeps ok (scan_upgrades sc a b)"
  unfolding scan_upgrades_def Let_def by (intro keeps_intro keeps_upgrade_log)

lemma keeps_block: "keeps ok (scan_block sc n)"
  unfolding scan_block_def scan_transaction_def scan_internal_creations_def scan_creation_def Let_def
  by (intro keeps_intro keeps_process)

end

text \<open>With the cursor, the contract covers the three entry points.\<close>

locale scan_invariant = store_invariant +
  assumes keeps_set_cursor: "ok st \<Longrightarrow> ok (set_cursor ck c n st)"
begin

lemma keeps_advance: "keeps ok (advance_block sc n)"
  unfolding advance_block_def by (intro keeps_intro keeps_block keeps_on_store) (simp add: keeps_set_cursor)

lemma keeps_rpc_stats: "keeps ok (set_rpc_stats sc)"
  unfolding set_rpc_stats_def by (rule keeps_count)

lemma keeps_scan_range: "keeps ok (scan_range sc a b)"
  unfolding scan_range_def by (intro keeps_intro keeps_upgrades keeps_advance keeps_flush keeps_rpc_stats)

lemma scan_ok:
  assumes "wf_book (mo_policies sc)" "ok st" "scan sc st = (r, (st', n))"
  shows "ok st'"
proof -
  have "keeps ok (seq (of_res (require_chain sc)) (\<lambda>_.
     seq (of_res (safe_head_of sc)) (\<lambda>safe_head.
     with_store (\<lambda>st.
       let start = start_block_of sc safe_head st;
           finish = min safe_head (start + cc_max_blocks_per_cycle (mo_chain sc) - 1)
       in seq (flush_alerts sc) (\<lambda>_.
          seq (if an_invariant_checks_enabled (mo_analysis sc) then scan_invariants sc safe_head else skip) (\<lambda>_.
            if safe_head < start then set_rpc_stats sc else scan_range sc start finish))))))"
    unfolding Let_def
    by (intro keeps_intro keeps_flush keeps_scan_invariants [OF assms(1)] keeps_rpc_stats keeps_scan_range)
  from keepsD [OF this _ assms(3) [unfolded scan_def]] assms(2) show ?thesis by simp
qed

lemma check_ok:
  assumes "wf_book (mo_policies sc)" "ok st" "check_invariants sc st = (r, (st', n))"
  shows "ok st'"
proof -
  have "keeps ok (seq (of_res (require_chain sc)) (\<lambda>_.
     seq (of_res (safe_head_of sc)) (\<lambda>safe_head.
     seq (scan_invariants sc safe_head) (\<lambda>_.
     seq (flush_alerts sc) (\<lambda>_. set_rpc_stats sc)))))"
    by (intro keeps_intro keeps_flush keeps_scan_invariants [OF assms(1)] keeps_rpc_stats)
  from keepsD [OF this _ assms(3) [unfolded check_invariants_def]] assms(2) show ?thesis by simp
qed

lemma refresh_ok:
  assumes "ok st" "refresh_profiles sc limit age st = (r, (st', n))"
  shows "ok st'"
proof -
  have "keeps ok (seq (of_res (require_chain sc)) (\<lambda>_.
     with_store (\<lambda>st.
     seq (each (refresh_profile sc) (profiles_due_for_refresh (mo_clock sc) st (mo_id sc) age limit)) (\<lambda>_.
     seq (flush_alerts sc) (\<lambda>_. set_rpc_stats sc)))))"
    by (intro keeps_intro keeps_refresh keeps_flush keeps_rpc_stats)
  from keepsD [OF this _ assms(2) [unfolded refresh_profiles_def]] assms(1) show ?thesis by simp
qed

end

interpretation cursors: store_invariant "\<lambda>st. st_cursors st = cs" sc for cs sc
  by unfold_locales (auto simp: store_operation_defs Let_def split: if_splits prod.splits)

interpretation outbox: scan_invariant wf_events sc for sc
  by unfold_locales (auto simp: wf_events_def set_cursor_def store_operation_defs Let_def split: if_splits prod.splits)

interpretation incident_store: scan_invariant "incident_reach (mo_digest sc)" sc for sc
  by unfold_locales (erule incident_reach.step, rule incident_step.frame,
     auto simp: store_operation_defs set_cursor_def Let_def split: if_splits prod.splits)+

interpretation deployed: store_invariant "\<lambda>st. ks \<subseteq> deployment_key ` set (st_deployments st)" sc for ks sc
  by unfold_locales
    (auto simp: store_operation_defs insert_or_ignore_def Let_def split: if_splits prod.splits)

lemma insert_or_ignore_rows:
  "keys_distinct key rows \<Longrightarrow> insert_or_ignore key r rows = (rows', b) \<Longrightarrow> keys_distinct key rows'"
  using insert_or_ignore_keys [of key rows r] by simp

interpretation deployments_once: scan_invariant "\<lambda>st. keys_distinct deployment_key (st_deployments st)" sc for sc
  by unfold_locales
    (auto simp: store_operation_defs set_cursor_def Let_def split: if_splits prod.splits dest: insert_or_ignore_rows)

interpretation scored: scan_invariant scored_events sc for sc
  by unfold_locales (auto simp: scored_events_def store_operation_defs set_cursor_def Let_def split: if_splits prod.splits)

section \<open>The cursor\<close>

lemma cursor_kept: "keeps (\<lambda>st. st_cursors st = cs) m \<Longrightarrow> st_cursors (fst s) = cs \<Longrightarrow> m s = (r, s') \<Longrightarrow> st_cursors (fst s') = cs"
  by (rule keepsD)

lemma get_cursor_cong: "st_cursors st' = st_cursors st \<Longrightarrow> get_cursor st' c = get_cursor st c"
  by (simp add: get_cursor_def)

text \<open>One turn of the loop either fails in the block and leaves every cursor, or sets that of the chain.\<close>

lemma advance_block_cases:
  assumes "advance_block sc k s = (r, s')"
  obtains e where "r = Inl e" "scan_block sc k s = (Inl e, s')" "\<And>c. get_cursor (fst s') c = get_cursor (fst s) c"
  | t where "r = Inr ()" "scan_block sc k s = (Inr (), t)"
      "\<And>c. get_cursor (fst s') c = (if c = mo_id sc then Some k else get_cursor (fst s) c)"
proof -
  obtain q t where q: "scan_block sc k s = (q, t)" by (cases "scan_block sc k s")
  have same: "get_cursor (fst t) c = get_cursor (fst s) c" for c
    using keepsD [OF cursors.keeps_block [of _ sc k], OF refl q] by (rule get_cursor_cong)
  show thesis
  proof (cases q)
    case (Inl e)
    with assms q have "r = Inl e" "s' = t" by (simp_all add: advance_block_def seq_def)
    with that(1) q Inl same show thesis by blast
  next
    case (Inr u)
    with assms q have "r = Inr ()" "fst s' = set_cursor (mo_clock sc) (mo_id sc) k (fst t)"
      by (auto simp: advance_block_def seq_def on_store_def count_def)
    moreover have "scan_block sc k s = (Inr (), t)" using q Inr by simp
    moreover have "get_cursor (fst s') c = (if c = mo_id sc then Some k else get_cursor (fst s) c)" for c
      by (simp add: calculation get_set_cursor same)
    ultimately show thesis using that(2) by blast
  qed
qed

text \<open>The loop: the blocks up to some \<open>m\<close> were scanned to their end, and that is where the cursor is.\<close>

definition scanned :: "scanner \<Rightarrow> int \<Rightarrow> bool" where
  "scanned sc k \<longleftrightarrow> (\<exists>s s'. scan_block sc k s = (Inr (), s'))"

lemma each_advance:
  assumes "each (advance_block sc) [a..b] s = (r, s')"
  shows "\<exists>m. a - 1 \<le> m \<and> m \<le> max (a - 1) b \<and> (\<forall>k. a \<le> k \<longrightarrow> k \<le> m \<longrightarrow> scanned sc k)
     \<and> (\<forall>c. get_cursor (fst s') c = (if c = mo_id sc \<and> a \<le> m then Some m else get_cursor (fst s) c))
     \<and> (r = Inr () \<longrightarrow> m = max (a - 1) b)
     \<and> (\<forall>e. r = Inl e \<longrightarrow> m < b \<and> (\<exists>t t'. scan_block sc (m + 1) t = (Inl e, t')))"
  using assms
proof (induction a b arbitrary: s rule: upto.induct)
  case (1 a b)
  show ?case
  proof (cases "a \<le> b")
    case False
    with 1(2) show ?thesis by (auto simp: skip_def done_with_def intro!: exI [of _ "a - 1"])
  next
    case True
    obtain q t where q: "advance_block sc a s = (q, t)" by (cases "advance_block sc a s")
    have run: "seq (advance_block sc a) (\<lambda>_. each (advance_block sc) [a + 1..b]) s = (r, s')"
      using 1(2) True by (simp add: upto.simps)
    from q show ?thesis
    proof (cases rule: advance_block_cases)
      case (1 e)
      with run q have "r = Inl e" "s' = t" by (simp_all add: seq_def)
      moreover have "\<exists>t t'. scan_block sc (a - 1 + 1) t = (Inl e, t')"
        using 1(2) by (intro exI [of _ s] exI [of _ t]) simp
      ultimately show ?thesis using 1 True by (intro exI [of _ "a - 1"]) simp
    next
      case (2 u)
      with run q have rest: "each (advance_block sc) [a + 1..b] t = (r, s')" by (simp add: seq_def)
      from "1.IH" [OF True rest] obtain m where m: "a \<le> m" "m \<le> max a b"
        "\<forall>k. a + 1 \<le> k \<longrightarrow> k \<le> m \<longrightarrow> scanned sc k"
        "\<forall>c. get_cursor (fst s') c = (if c = mo_id sc \<and> a + 1 \<le> m then Some m else get_cursor (fst t) c)"
        "r = Inr () \<longrightarrow> m = max a b" "\<forall>e. r = Inl e \<longrightarrow> m < b \<and> (\<exists>t t'. scan_block sc (m + 1) t = (Inl e, t'))"
        by auto
      have "scanned sc a" using 2 unfolding scanned_def by blast
      then have "\<forall>k. a \<le> k \<longrightarrow> k \<le> m \<longrightarrow> scanned sc k"
        using m(3) by (metis add_le_cancel_left linorder_not_le zless_imp_add1_zle order_antisym)
      moreover have "get_cursor (fst s') c = (if c = mo_id sc \<and> a \<le> m then Some m else get_cursor (fst s) c)" for c
        using m(1,4) 2(3) by auto
      ultimately show ?thesis using m True by (intro exI [of _ m]) auto
    qed
  qed
qed

section \<open>Scanning a block again\<close>

text \<open>A method settles when, once it has succeeded, running it again in a store that has at least the
  deployments it left changes nothing.\<close>

definition deployment_keys :: "state \<Rightarrow> (int \<times> string) set" where
  "deployment_keys s = deployment_key ` set (st_deployments (fst s))"

definition settles :: "unit monitor \<Rightarrow> bool" where
  "settles m \<longleftrightarrow> (\<forall>s s'. m s = (Inr (), s') \<longrightarrow> deployment_keys s \<subseteq> deployment_keys s'
     \<and> (\<forall>u. deployment_keys s' \<subseteq> deployment_keys u \<longrightarrow> m u = (Inr (), u)))"

lemma settles_skip: "settles skip"
  by (simp add: settles_def skip_def done_with_def)

lemma settles_raise: "settles (of_res (Inl e))"
  by (simp add: settles_def of_res_def)

lemma seq_of_res: "seq (of_res (Inl e)) f = of_res (Inl e)" "seq (of_res (Inr x)) f = f x"
  by (rule ext, simp add: seq_def of_res_def)+

lemma settles_of_res: "(\<And>x. settles (f x)) \<Longrightarrow> settles (seq (of_res r) f)"
  by (cases r) (simp_all add: seq_of_res settles_raise)

lemma settles_seq:
  assumes "settles m" "settles m'"
  shows "settles (seq m (\<lambda>_. m'))"
  unfolding settles_def
proof (intro allI impI)
  fix s s'
  assume "seq m (\<lambda>_. m') s = (Inr (), s')"
  then obtain t where t: "m s = (Inr (), t)" "m' t = (Inr (), s')" by (auto simp: seq_Inr)
  with assms have sub: "deployment_keys s \<subseteq> deployment_keys t" "deployment_keys t \<subseteq> deployment_keys s'"
    and again: "deployment_keys t \<subseteq> deployment_keys u \<Longrightarrow> m u = (Inr (), u)"
      "deployment_keys s' \<subseteq> deployment_keys u \<Longrightarrow> m' u = (Inr (), u)" for u
    unfolding settles_def by blast+
  show "deployment_keys s \<subseteq> deployment_keys s'
      \<and> (\<forall>u. deployment_keys s' \<subseteq> deployment_keys u \<longrightarrow> seq m (\<lambda>_. m') u = (Inr (), u))"
  proof (intro conjI allI impI)
    show "deployment_keys s \<subseteq> deployment_keys s'" using sub by (rule subset_trans)
  next
    fix u
    assume u: "deployment_keys s' \<subseteq> deployment_keys u"
    with sub(2) have "deployment_keys t \<subseteq> deployment_keys u" by (rule subset_trans)
    with again u show "seq m (\<lambda>_. m') u = (Inr (), u)" by (simp add: seq_def)
  qed
qed

lemma settles_each: "(\<And>x. settles (f x)) \<Longrightarrow> settles (each f xs)"
  by (induction xs) (simp_all add: settles_skip settles_seq)

lemma settles_if: "settles m \<Longrightarrow> settles m' \<Longrightarrow> settles (if b then m else m')"
  by simp

lemma settles_option:
  "settles m \<Longrightarrow> (\<And>x. settles (f x)) \<Longrightarrow> settles (case v of None \<Rightarrow> m | Some x \<Rightarrow> f x)"
  by (simp split: option.split)

lemma settles_sum:
  "(\<And>e. settles (f e)) \<Longrightarrow> (\<And>x. settles (g x)) \<Longrightarrow> settles (case v of Inl e \<Rightarrow> f e | Inr x \<Rightarrow> g x)"
  by (simp split: sum.split)

lemmas settles_intro = settles_skip settles_raise settles_of_res settles_seq settles_each settles_if settles_option settles_sum

lemma add_deployment_cases:
  assumes "add_deployment c a d t b ob nm px st = (inserted, st')"
  shows "(inserted \<longleftrightarrow> (c, lower a) \<notin> deployment_key ` set (st_deployments st)) \<and> (\<not> inserted \<longrightarrow> st' = st)
     \<and> deployment_key ` set (st_deployments st') = insert (c, lower a) (deployment_key ` set (st_deployments st))"
  using assms
  by (auto simp: add_deployment_def insert_deployment_def insert_or_ignore_def deployment_key_def mk_deployment_def
      split: if_splits)

lemma settles_process: "settles (process_deployment sc d)"
  unfolding process_deployment_def Let_def
proof (intro settles_of_res)
  fix code_text and metadata :: contract_metadata
  let ?fp = "fingerprint_bytecode (mo_sha256 sc) (mo_blake8 sc) code_text"
  let ?add = "add_deployment (mo_id sc) (nd_address d) (nd_deployer d) (nd_tx_hash d) (nd_block_number d)
      (utc_now (mo_clock sc)) (cm_contract_name metadata) (cm_is_proxy metadata)"
  let ?rest = "\<lambda>inserted. if \<not> inserted then skip else report_deployment sc d ?fp metadata"
  have kept: "keeps (\<lambda>st. ks \<subseteq> deployment_key ` set (st_deployments st)) (?rest b)" for ks b
    unfolding report_deployment_def Let_def
    by (intro keeps_intro deployed.keeps_put_profile deployed.keeps_register deployed.keeps_record valid_deployment_event)
  have "deployment_keys s \<subseteq> deployment_keys s' \<and> (mo_id sc, lower (nd_address d)) \<in> deployment_keys s'"
    if "seq (on_store ?add) ?rest s = (Inr (), s')" for s s'
  proof -
    obtain b st where b: "?add (fst s) = (b, st)" by (cases "?add (fst s)")
    with that have run: "?rest b (st, snd s) = (Inr (), s')" by (simp add: seq_def on_store_def)
    note add = add_deployment_cases [OF b]
    from keepsD [OF kept [of "deployment_key ` set (st_deployments st)"] _ run]
    have "deployment_key ` set (st_deployments st) \<subseteq> deployment_keys s'" by (simp add: deployment_keys_def)
    with add show ?thesis by (auto simp: deployment_keys_def)
  qed
  moreover have "seq (on_store ?add) ?rest u = (Inr (), u)"
    if "(mo_id sc, lower (nd_address d)) \<in> deployment_keys u" for u
  proof -
    obtain b st where b: "?add (fst u) = (b, st)" by (cases "?add (fst u)")
    from add_deployment_cases [OF b] that have "\<not> b" "st = fst u" by (auto simp: deployment_keys_def)
    with b show ?thesis by (simp add: seq_def on_store_def skip_def done_with_def)
  qed
  ultimately show "settles (seq (on_store ?add) ?rest)" unfolding settles_def by blast
qed

lemma settles_block: "settles (scan_block sc n)"
  unfolding scan_block_def scan_transaction_def scan_internal_creations_def scan_creation_def Let_def
  by (intro settles_intro settles_process)

section \<open>The window of pending alerts\<close>

text \<open>A row that sorts last does not enter a full window.\<close>

lemma full_window:
  assumes "length (take n (sort_key f xs)) = n" "\<forall>y \<in> set (take n (sort_key f xs)). f y \<le> f r"
  shows "take n (sort_key f (xs @ [r])) = take n (sort_key f xs)"
proof -
  let ?s = "sort_key f xs"
  have "filter (\<lambda>y. f y \<le> f r) ?s = filter (\<lambda>y. f y \<le> f r) (take n ?s @ drop n ?s)" by simp
  also have "\<dots> = take n ?s @ filter (\<lambda>y. f y \<le> f r) (drop n ?s)"
    unfolding filter_append using filter_True [OF assms(2)] by simp
  finally show ?thesis using assms(1) by (simp add: sort_key_append_last)
qed

lemma pending_rows_full:
  assumes "length (pending_rows st c 100) = 100" "\<forall>r \<in> set (pending_rows st c 100). er_observed_at r \<le> ev_observed_at e"
  shows "pending_rows (snd (add_event e st)) c 100 = pending_rows st c 100"
proof (cases "ev_event_id e \<notin> er_event_id ` set (st_events st) \<and> ev_chain_id e = c")
  case True
  then have rows: "st_events (snd (add_event e st)) = st_events st @ [event_row_of e]"
    by (auto simp: add_event_def insert_event_row_def insert_or_ignore_def event_row_of_def)
  have "er_chain_id (event_row_of e) = c \<and> er_alerted_at (event_row_of e) = None" using True by (simp add: event_row_of_def)
  moreover have "er_observed_at (event_row_of e) = ev_observed_at e" by (simp add: event_row_of_def)
  ultimately show ?thesis
    using full_window [of 100 er_observed_at "filter (\<lambda>r. er_chain_id r = c \<and> er_alerted_at r = None) (st_events st)" "event_row_of e"]
      assms by (simp add: pending_rows_def sql_limit_def rows)
next
  case False
  then show ?thesis
    by (auto simp: pending_rows_def add_event_def insert_event_row_def insert_or_ignore_def event_row_of_def)
qed

lemma flush_unsendable:
  assumes "wf_events st" "\<forall>r \<in> set (pending_rows st (mo_id sc) 100). er_score r < tg_minimum_score (tn_config (mo_notifier sc))"
  shows "flush_alerts sc (st, n) = (Inr (), (st, n))"
proof -
  have "set (pending_rows st (mo_id sc) 100) \<subseteq> set (st_events st)" using set_pending_rows by fast
  from read_events_wf [OF assms(1) this] obtain es where es: "pending_alerts st (mo_id sc) 100 = Inr es"
    and scores: "map ev_score es = map er_score (pending_rows st (mo_id sc) 100)"
    by (auto simp: pending_alerts_def)
  have "\<not> should_send (mo_notifier sc) e (mo_chain sc)" if "e \<in> set es" for e
  proof -
    from that scores have "ev_score e \<in> set (map er_score (pending_rows st (mo_id sc) 100))" by (metis image_eqI set_map)
    with assms(2) show ?thesis by (auto simp: should_send_def)
  qed
  then have "each (flush_event sc) es (st, n) = (Inr (), (st, n))"
    by (induction es) (simp_all add: flush_event_def seq_def skip_def done_with_def)
  with es show ?thesis by (simp add: flush_alerts_def with_store_def seq_of_res)
qed

section \<open>One recorded event\<close>

lemma record_and_alert_facts:
  assumes "record_and_alert sc e (st, n) = (r, (st', n'))"
  shows "r = Inr ()" "st_invariants st' = st_invariants st" "ev_event_id e \<in> er_event_id ` set (st_events st')"
    "sn_invariant_transitions n' = sn_invariant_transitions n"
    "sn_events n' = (if ev_event_id e \<in> er_event_id ` set (st_events st) then sn_events n else Suc (sn_events n))"
  using assms
  by (auto simp: record_and_alert_def seq_def on_store_def skip_def done_with_def count_def add_event_def insert_event_row_def
      insert_or_ignore_def event_row_of_def open_incident_def insert_incident_def Let_def split: if_splits prod.splits)

lemma fetch_put_invariant: "fetch_invariant (put_invariant r st) (invariant_key r) = Some r"
  by (simp add: fetch_invariant_def put_invariant_def lookup_upsert_row split: option.split)

end
