(* ===== verification/Monitor_Properties.thy ===== *)
theory Monitor_Properties
  imports Monitor_Facts
begin

text \<open>
  What the scanner of \<^verbatim>\<open>src/white_radar/monitor.py\<close> promises: the cursor never skips a block, a block
  is reported once, the store keeps its invariants, and alerts and invariant transitions are
  exactly those the settings select.
\<close>

section \<open>Runs of a scan\<close>

lemma cursor_same:
  "keeps (\<lambda>st. st_cursors st = st_cursors (fst s)) m \<Longrightarrow> m s = (r, s') \<Longrightarrow> get_cursor (fst s') c = get_cursor (fst s) c"
  by (rule get_cursor_cong) (erule keepsD, simp_all)

lemma scan_range_cursor:
  assumes "scan_range sc a b s = (r, s')"
  shows "\<exists>m. a - 1 \<le> m \<and> m \<le> max (a - 1) b \<and> (\<forall>k. a \<le> k \<longrightarrow> k \<le> m \<longrightarrow> scanned sc k)
     \<and> (\<forall>c. get_cursor (fst s') c = (if c = mo_id sc \<and> a \<le> m then Some m else get_cursor (fst s) c))
     \<and> (r = Inr () \<longrightarrow> m = max (a - 1) b)"
proof -
  let ?s0 = "(fst s, (snd s)\<lparr> sn_start_block := Some a, sn_end_block := Some b \<rparr>)"
  let ?tail = "seq (flush_alerts sc) (\<lambda>_. set_rpc_stats sc)"
  have run: "seq (scan_upgrades sc a b) (\<lambda>_. seq (each (advance_block sc) [a..b]) (\<lambda>_. ?tail)) ?s0 = (r, s')"
    using assms by (simp add: scan_range_def count_def seq_def)
  obtain q t where q: "scan_upgrades sc a b ?s0 = (q, t)" by (cases "scan_upgrades sc a b ?s0")
  have same: "get_cursor (fst t) c = get_cursor (fst s) c" for c
    using cursor_same [OF cursors.keeps_upgrades q] by simp
  show ?thesis
  proof (cases q)
    case (Inl e)
    with run q have "r = Inl e" "s' = t" by (simp_all add: seq_eq)
    with same show ?thesis by (intro exI [of _ "a - 1"]) simp
  next
    case (Inr u)
    obtain p w where p: "each (advance_block sc) [a..b] t = (p, w)" by (cases "each (advance_block sc) [a..b] t")
    from each_advance [OF p] obtain m where m: "a - 1 \<le> m" "m \<le> max (a - 1) b"
      "\<forall>k. a \<le> k \<longrightarrow> k \<le> m \<longrightarrow> scanned sc k"
      "\<forall>c. get_cursor (fst w) c = (if c = mo_id sc \<and> a \<le> m then Some m else get_cursor (fst t) c)"
      "p = Inr () \<longrightarrow> m = max (a - 1) b"
      by blast
    have "get_cursor (fst s') c = get_cursor (fst w) c \<and> (r = Inr () \<longrightarrow> p = Inr ())" for c
    proof (cases p)
      case (Inl e)
      with run q p \<open>q = Inr u\<close> show ?thesis by (simp add: seq_eq)
    next
      case (Inr v)
      with run q p \<open>q = Inr u\<close> have fin: "?tail w = (r, s')" by (simp add: seq_eq)
      have "keeps (\<lambda>st. st_cursors st = st_cursors (fst w)) ?tail"
        unfolding set_rpc_stats_def by (intro keeps_intro cursors.keeps_flush)
      from cursor_same [OF this fin] Inr show ?thesis by simp
    qed
    with m same show ?thesis by (intro exI [of _ m]) simp
  qed
qed

section \<open>Properties\<close>

text \<open>C6. The cursor never skips a block and never passes the confirmed head. However a scan ends,
  the cursors of other chains stay; that of the scanned chain either stays or stands at a block
  \<open>m\<close> between the first block due and the confirmed head, within the blocks allowed per cycle,
  such that every block from the first one due to \<open>m\<close> was scanned to its end. A scan that
  returns normally has advanced it to the end of its range.\<close>

theorem cursor_never_skips:
  assumes "scan sc st = (r, (st', n))"
  shows "(c \<noteq> mo_id sc \<longrightarrow> get_cursor st' c = get_cursor st c)
     \<and> (get_cursor st' (mo_id sc) = get_cursor st (mo_id sc) \<or>
        (\<exists>safe_head m. safe_head_of sc = Inr safe_head \<and> get_cursor st' (mo_id sc) = Some m
           \<and> start_block_of sc safe_head st \<le> m \<and> m \<le> safe_head
           \<and> m < start_block_of sc safe_head st + cc_max_blocks_per_cycle (mo_chain sc)
           \<and> (\<forall>k. start_block_of sc safe_head st \<le> k \<longrightarrow> k \<le> m \<longrightarrow> scanned sc k)))
     \<and> (r = Inr () \<longrightarrow> (\<exists>safe_head. safe_head_of sc = Inr safe_head
           \<and> (start_block_of sc safe_head st \<le> safe_head \<longrightarrow> 1 \<le> cc_max_blocks_per_cycle (mo_chain sc) \<longrightarrow>
              get_cursor st' (mo_id sc)
                = Some (min safe_head (start_block_of sc safe_head st + cc_max_blocks_per_cycle (mo_chain sc) - 1)))))"
proof (cases "and_then (require_chain sc) (\<lambda>_. safe_head_of sc)")
  case (Inl e)
  then have "st' = st \<and> r = Inl e"
    using assms by (auto simp: scan_def seq_def of_res_def and_then_def split: sum.splits)
  then show ?thesis by simp
next
  case (Inr safe_head)
  let ?a = "start_block_of sc safe_head st"
  let ?b = "min safe_head (?a + cc_max_blocks_per_cycle (mo_chain sc) - 1)"
  let ?s = "(st, new_stats (cc_name (mo_chain sc)))"
  let ?before = "seq (flush_alerts sc) (\<lambda>_. if an_invariant_checks_enabled (mo_analysis sc) then scan_invariants sc safe_head else skip)"
  from Inr have head: "require_chain sc = Inr ()" "safe_head_of sc = Inr safe_head" by (auto simp: and_then_eq_Inr)
  have run: "seq ?before (\<lambda>_. if safe_head < ?a then set_rpc_stats sc else scan_range sc ?a ?b) ?s = (r, (st', n))"
    using assms by (simp only: scan_def head seq_of_res with_store_def Let_def seq_assoc fst_conv)
  obtain q t where q: "?before ?s = (q, t)" by (cases "?before ?s")
  have "keeps (\<lambda>x. st_cursors x = st_cursors (fst ?s)) ?before"
    by (intro keeps_intro cursors.keeps_flush cursors.keeps_scan_invariants_any) (simp add: store_operation_defs split: prod.split)
  from cursor_same [OF this q] have same: "get_cursor (fst t) c = get_cursor st c" for c by simp
  show ?thesis
  proof (cases "q = Inr () \<and> ?a \<le> safe_head")
    case False
    have "fst t = st' \<and> (r = Inr () \<longrightarrow> q = Inr ())"
      using run q False by (cases q) (auto simp: seq_eq set_rpc_stats_def count_def)
    with same False head show ?thesis by auto
  next
    case True
    with run q have "scan_range sc ?a ?b t = (r, (st', n))" by (simp add: seq_eq)
    from scan_range_cursor [OF this] obtain m where m: "?a - 1 \<le> m" "m \<le> max (?a - 1) ?b"
      "\<forall>k. ?a \<le> k \<longrightarrow> k \<le> m \<longrightarrow> scanned sc k"
      "\<forall>c. get_cursor st' c = (if c = mo_id sc \<and> ?a \<le> m then Some m else get_cursor (fst t) c)"
      "r = Inr () \<longrightarrow> m = max (?a - 1) ?b"
      by auto
    have other: "c \<noteq> mo_id sc \<longrightarrow> get_cursor st' c = get_cursor st c" using m(4) same by simp
    have "?a \<le> m \<longrightarrow> m \<le> safe_head \<and> m < ?a + cc_max_blocks_per_cycle (mo_chain sc)" using m(2) by auto
    then have moved: "get_cursor st' (mo_id sc) = get_cursor st (mo_id sc) \<or>
        (get_cursor st' (mo_id sc) = Some m \<and> ?a \<le> m \<and> m \<le> safe_head
           \<and> m < ?a + cc_max_blocks_per_cycle (mo_chain sc))" using m(4) same by auto
    have "r = Inr () \<longrightarrow> 1 \<le> cc_max_blocks_per_cycle (mo_chain sc) \<longrightarrow> get_cursor st' (mo_id sc) = Some ?b"
      using m(4,5) True by auto
    with other moved m(3) head show ?thesis by blast
  qed
qed

definition demo_scanner :: scanner where
  "demo_scanner = \<lparr> mo_chain = \<lparr> cc_name = ''ethereum'', cc_display_name = ''Ethereum'', cc_chain_id = 1, cc_enabled = True,
       cc_is_testnet = False, cc_rpc_http_env = ''R'', cc_rpc_ws_env = ''W'', cc_explorer_url = ''e'', cc_confirmations = 3,
       cc_initial_lookback_blocks = 1, cc_max_blocks_per_cycle = 25, cc_monitor_global_upgrades = False,
       cc_pending_subscription = ''none'', cc_trace_internal_creations = False,
       cc_rpc_http_fallback_envs = [], cc_rpc_ws_fallback_envs = [] \<rparr>,
     mo_watchlist = \<lparr> wl_contracts = [], wl_deployers = [] \<rparr>,
     mo_policies = \<lparr> pb_policies = [], pb_source_sha256 = None \<rparr>,
     mo_app = \<lparr> ap_poll_interval_seconds = 20, ap_request_timeout_seconds = 20, ap_request_retries = 3,
       ap_incident_minimum_score = 70, ap_incident_sla_minutes = 30, ap_heartbeat_stale_after_seconds = 300,
       ap_log_level = ''INFO'', ap_dry_run = False \<rparr>,
     mo_analysis = \<lparr> an_pending_simulation_enabled = False, an_pending_simulation_minimum_score = 0,
       an_trace_call_enabled = False, an_invariant_checks_enabled = True, an_abi_resolution_enabled = False \<rparr>,
     mo_notifier = \<lparr> tn_config = \<lparr> tg_enabled = True, tg_minimum_score = 15, tg_send_testnet_alerts = False \<rparr>,
       tn_dry_run = False, tn_token = ''t'', tn_chat_id = ''c'', tn_post = (\<lambda>m. Inr (JObj [(''ok'', JBool True)])) \<rparr>,
     mo_rpc = (\<lambda>m ps.
       if m = ''eth_chainId'' then Inr (JStr ''0x1'')
       else if m = ''eth_blockNumber'' then Inr (JStr ''0x5'')
       else if m = ''eth_getBlockByNumber'' then Inr (JObj [(''timestamp'', JStr ''0x10''), (''transactions'', JList [])])
       else Inl RpcError),
     mo_endpoints = (1, 0), mo_sourcify_enabled = False, mo_etherscan_enabled = False,
     mo_sourcify = (\<lambda>a. Inl HttpError), mo_etherscan = (\<lambda>a. None), mo_sha256 = (\<lambda>b. ''h''), mo_digest = (\<lambda>s. s),
     mo_blake8 = (\<lambda>b. 0), mo_isoformat = (\<lambda>n. Inr ''iso''), mo_clock = demo_clock \<rparr>"

definition demo_creation_rpc :: rpc where
  "demo_creation_rpc m ps =
     (if m = ''eth_getBlockByNumber'' then Inr (JObj [(''timestamp'', JStr ''0x10''), (''transactions'', JList
         [JObj [(''hash'', JStr ''0xA1''), (''from'', JStr ''0xB2''), (''to'', JNull)]])])
      else if m = ''eth_getTransactionReceipt'' then Inr (JObj [(''status'', JStr ''0x1''), (''contractAddress'', JStr ''0xC3'')])
      else if m = ''eth_getCode'' then Inr (JStr ''0x'') else Inl RpcError)"

abbreviation demo_block_scan :: "state \<Rightarrow> unit res \<times> state" where
  "demo_block_scan \<equiv> scan_block (demo_scanner\<lparr> mo_rpc := demo_creation_rpc \<rparr>) 2"

lemma demo_scan_runs:
  "case scan demo_scanner empty_store of (r, (st, n)) \<Rightarrow> r = Inr () \<and> get_cursor st 1 = Some 2 \<and> sn_blocks n = 1"
  by code_simp

lemma demo_block_runs:
  "case demo_block_scan (empty_store, new_stats ''c'') of (r, (st, n)) \<Rightarrow>
     r = Inr () \<and> sn_deployments n = 1 \<and> map er_score (st_events st) = [20]"
  by code_simp

theorem cursor_never_skips_witness:
  "get_cursor (fst (snd (scan demo_scanner empty_store))) 1 = Some 2 \<and> scanned demo_scanner 2"
proof -
  obtain r st n where run: "scan demo_scanner empty_store = (r, (st, n))" by (metis prod.exhaust)
  with demo_scan_runs have c: "get_cursor st 1 = Some 2" by simp
  have i: "mo_id demo_scanner = 1" by code_simp
  have e: "get_cursor empty_store 1 = None" by code_simp
  have h: "safe_head_of demo_scanner = Inr 2" by code_simp
  have b: "start_block_of demo_scanner 2 empty_store = 2" by code_simp
  from cursor_never_skips [OF run, of 1] show ?thesis unfolding i h using c e b by (auto simp: run)
qed

text \<open>C10. A block is reported once. When a block was scanned to its end, scanning it again, in any later
  store that still has the deployments found in it, succeeds and changes nothing: no event, no
  incident, no row and no statistic. A crash between the block and its cursor is harmless.\<close>

theorem block_scanned_once:
  assumes "scan_block sc k s = (Inr (), s')"
    and "deployment_key ` set (st_deployments (fst s')) \<subseteq> deployment_key ` set (st_deployments (fst u))"
  shows "scan_block sc k u = (Inr (), u)"
  using settles_block [of sc k] assms unfolding settles_def deployment_keys_def by blast

theorem block_scanned_once_witness:
  "\<exists>s'. demo_block_scan (empty_store, new_stats ''c'') = (Inr (), s') \<and> map er_score (st_events (fst s')) = [20]
     \<and> demo_block_scan s' = (Inr (), s')"
proof -
  obtain r s' where run: "demo_block_scan (empty_store, new_stats ''c'') = (r, s')" by (metis prod.exhaust)
  with demo_block_runs have r: "r = Inr ()" and e: "map er_score (st_events (fst s')) = [20]"
    by (auto split: prod.splits)
  note ran = run [unfolded r]
  show ?thesis by (intro exI [of _ s'] conjI, rule ran, rule e, rule block_scanned_once [OF ran subset_refl])
qed

text \<open>The scanner keeps the store well formed, whatever the node answers and however the scan ends:
  events stay distinct and readable, the incidents stay a reachable state of the incident
  machine, a deployment is stored once per chain and address, and every score recorded lies
  between 0 and 100.\<close>

theorem scanner_keeps_store:
  assumes "wf_book (mo_policies sc)" and "wf_events st" and "incident_reach (mo_digest sc) st"
    and "keys_distinct deployment_key (st_deployments st)"
    and "scored_events st"
    and "(r, (st', n)) \<in> {scan sc st, check_invariants sc st, refresh_profiles sc limit age st}"
  shows "wf_events st' \<and> incident_reach (mo_digest sc) st' \<and> keys_distinct deployment_key (st_deployments st')
     \<and> scored_events st'"
proof -
  consider "scan sc st = (r, (st', n))" | "check_invariants sc st = (r, (st', n))"
    | "refresh_profiles sc limit age st = (r, (st', n))" using assms(6) by auto
  then show ?thesis
  proof cases
    case 1
    show ?thesis
      using outbox.scan_ok [OF assms(1,2) 1] incident_store.scan_ok [OF assms(1,3) 1] deployments_once.scan_ok [OF assms(1,4) 1]
        scored.scan_ok [OF assms(1,5) 1] by (intro conjI)
  next
    case 2
    show ?thesis
      using outbox.check_ok [OF assms(1,2) 2] incident_store.check_ok [OF assms(1,3) 2] deployments_once.check_ok [OF assms(1,4) 2]
        scored.check_ok [OF assms(1,5) 2] by (intro conjI)
  next
    case 3
    show ?thesis
      using outbox.refresh_ok [OF assms(2) 3] incident_store.refresh_ok [OF assms(3) 3] deployments_once.refresh_ok [OF assms(4) 3]
        scored.refresh_ok [OF assms(5) 3] by (intro conjI)
  qed
qed

theorem scanner_keeps_store_witness: "incident_reach (\<lambda>s. s) (fst (snd (scan demo_scanner empty_store)))"
proof -
  obtain r st n where run: "scan demo_scanner empty_store = (r, (st, n))" by (metis prod.exhaust)
  have "wf_book (mo_policies demo_scanner)" by (simp add: demo_scanner_def wf_book_def)
  moreover have d: "mo_digest demo_scanner = (\<lambda>s. s)" by (simp add: demo_scanner_def)
  moreover have "keys_distinct deployment_key (st_deployments empty_store)" "st_events empty_store = []"
    by (simp_all add: empty_store_def keys_distinct_def)
  moreover have "scored_events empty_store" by (simp add: scored_events_def empty_store_def)
  ultimately show ?thesis
    using scanner_keeps_store [of demo_scanner empty_store r st n 1 1] wf_events_empty incident_reach.start run by simp
qed

text \<open>Delivery is exact: a flush marks, and counts, exactly those of the first 100 pending alerts whose
  delivery succeeded, all of which reach the configured score; a failed or declined delivery
  leaves its event pending, and nothing else of the store changes.\<close>

theorem flush_alerts_exact:
  assumes "pending_alerts st (mo_id sc) 100 = Inr es"
  defines "sent \<equiv> filter (\<lambda>e. send (mo_notifier sc) e (mo_chain sc) = Inr True) es"
  shows "flush_alerts sc (st, n) = (Inr (), (fold (\<lambda>e. mark_alerted (mo_clock sc) (ev_event_id e)) sent st,
           n\<lparr> sn_alerts := sn_alerts n + length sent \<rparr>))
     \<and> list_all (\<lambda>e. tg_minimum_score (tn_config (mo_notifier sc)) \<le> ev_score e) sent"
proof -
  have one: "flush_event sc e (st, n) = (Inr (), if send (mo_notifier sc) e (mo_chain sc) = Inr True
      then (mark_alerted (mo_clock sc) (ev_event_id e) st, n\<lparr> sn_alerts := Suc (sn_alerts n) \<rparr>) else (st, n))" for e st n
    using send_sendable [of "mo_notifier sc" e "mo_chain sc"]
    by (auto simp: flush_event_def mark_sent_def seq_def on_store_def count_def skip_def done_with_def split: sum.split)
  have "each (flush_event sc) es (st, n) = (Inr (), (fold (\<lambda>e. mark_alerted (mo_clock sc) (ev_event_id e))
      (filter (\<lambda>e. send (mo_notifier sc) e (mo_chain sc) = Inr True) es) st,
      n\<lparr> sn_alerts := sn_alerts n + length (filter (\<lambda>e. send (mo_notifier sc) e (mo_chain sc) = Inr True) es) \<rparr>))"
  proof (induction es arbitrary: st n)
    case Nil
    show ?case by (simp add: skip_def done_with_def)
  next
    case (Cons e es)
    then show ?case by (simp add: seq_def one)
  qed
  moreover have "list_all (\<lambda>e. tg_minimum_score (tn_config (mo_notifier sc)) \<le> ev_score e) sent"
    using send_sendable by (force simp: sent_def list_all_iff should_send_def)
  ultimately show ?thesis
    by (simp add: flush_alerts_def with_store_def assms(1) seq_of_res sent_def)
qed

definition demo_outbox :: store where
  "demo_outbox = empty_store\<lparr> st_events := [event_row_of demo_event] \<rparr>"

theorem flush_alerts_exact_witness:
  "was_alerted (fst (snd (flush_alerts demo_scanner (demo_outbox, new_stats ''c'')))) ''e1''"
proof -
  have p: "pending_alerts demo_outbox (mo_id demo_scanner) 100 = Inr [demo_event]" by code_simp
  have s: "send (mo_notifier demo_scanner) demo_event (mo_chain demo_scanner) = Inr True" by code_simp
  have m: "was_alerted (mark_alerted (mo_clock demo_scanner) (ev_event_id demo_event) demo_outbox) ''e1''" by code_simp
  show ?thesis using flush_alerts_exact [OF p, of "new_stats ''c''"] s m by simp
qed

text \<open>C37. Alerts below the configured score can starve all later ones. Once the 100 oldest pending events
  of a chain score below the threshold, a flush does nothing, and recording a further event,
  whatever its score, does not change that: it never enters the window of 100, because events
  that are not to be sent stay pending for ever.\<close>

theorem alert_starvation:
  assumes "wf_events st" and "length (pending_rows st (mo_id sc) 100) = 100"
    and "\<forall>r \<in> set (pending_rows st (mo_id sc) 100). er_score r < tg_minimum_score (tn_config (mo_notifier sc))
           \<and> er_observed_at r \<le> ev_observed_at e"
  shows "flush_alerts sc (snd (add_event e st), n) = (Inr (), (snd (add_event e st), n))"
proof (rule flush_unsendable)
  show "wf_events (snd (add_event e st))" using assms(1) by (rule wf_events_add) (rule prod.collapse [symmetric])
  show "\<forall>r \<in> set (pending_rows (snd (add_event e st)) (mo_id sc) 100). er_score r < tg_minimum_score (tn_config (mo_notifier sc))"
    using pending_rows_full [of st "mo_id sc" e] assms(2,3) by simp
qed

definition demo_backlog :: store where
  "demo_backlog = empty_store\<lparr> st_events := map (\<lambda>i. event_row_of (demo_event\<lparr> ev_event_id := replicate i (CHR ''x''),
     ev_score := 10 \<rparr>)) [0..<100] \<rparr>"

theorem alert_starvation_witness:
  "flush_alerts demo_scanner (snd (add_event demo_event demo_backlog), new_stats ''c'')
     = (Inr (), (snd (add_event demo_event demo_backlog), new_stats ''c''))
   \<and> ev_score demo_event = 85 \<and> tg_minimum_score (tn_config (mo_notifier demo_scanner)) = 15"
proof -
  have d: "mo_id demo_scanner = 1" "tg_minimum_score (tn_config (mo_notifier demo_scanner)) = 15"
    by (simp_all add: demo_scanner_def mo_id_def)
  have rows: "er_chain_id r = 1 \<and> er_alerted_at r = None \<and> er_score r = 10 \<and> er_observed_at r = ev_observed_at demo_event
      \<and> wf_event_row r" if "r \<in> set (st_events demo_backlog)" for r
    using that by (auto simp: demo_backlog_def event_row_of_def demo_event_def wf_event_row_def)
  have "inj (\<lambda>i. replicate i (CHR ''x''))" by (rule injI) (metis length_replicate)
  then have "wf_events demo_backlog"
    using rows by (auto simp: wf_events_def list_all_iff keys_distinct_def demo_backlog_def event_row_of_def comp_def
        distinct_map inj_on_def)
  moreover have "length (pending_rows demo_backlog 1 100) = 100"
  proof -
    have "filter (\<lambda>r. er_chain_id r = 1 \<and> er_alerted_at r = None) (st_events demo_backlog) = st_events demo_backlog"
      using rows by (simp add: filter_id_conv)
    moreover have "length (st_events demo_backlog) = 100" by (simp add: demo_backlog_def)
    ultimately show ?thesis by (simp add: pending_rows_def sql_limit_def)
  qed
  moreover have "\<forall>r \<in> set (pending_rows demo_backlog 1 100). er_score r < 15 \<and> er_observed_at r \<le> ev_observed_at demo_event"
    using rows set_pending_rows [of demo_backlog 1 100] by fastforce
  ultimately have "flush_alerts demo_scanner (snd (add_event demo_event demo_backlog), new_stats ''c'')
     = (Inr (), (snd (add_event demo_event demo_backlog), new_stats ''c''))"
    using alert_starvation [of demo_backlog demo_scanner demo_event "new_stats ''c''"] unfolding d by blast
  then show ?thesis using d by (simp add: demo_event_def)
qed

lemma invariant_transition_exact_aux:
  assumes "record_invariant_transition sc p c (st, n) = (r, (st', n'))"
  defines "previous \<equiv> fetch_invariant st (mo_id sc, lower (pp_address p), ic_name c)"
  defines "due \<equiv> invariant_changed previous c \<and> ic_status c \<noteq> ''unavailable''
     \<and> (if ic_status c = ''ok'' then previous_status previous \<in> {Some ''violated'', Some ''error''} else True)"
  shows "r = Inr () \<and> sn_invariant_transitions n' = (if due then Suc (sn_invariant_transitions n) else sn_invariant_transitions n)
     \<and> (\<exists>row. fetch_invariant st' (mo_id sc, lower (pp_address p), ic_name c) = Some row
          \<and> iv_status row = ic_status c \<and> iv_observed row = state_value (ic_observed c)
          \<and> iv_block_number row = ic_block_number c)
     \<and> (if due then ev_event_id (invariant_event sc p previous c) \<in> er_event_id ` set (st_events st')
        else st_events st' = st_events st)"
proof -
  let ?row = "\<lparr> iv_chain_id = mo_id sc, iv_policy_address = lower (pp_address p), iv_name = ic_name c, iv_status = ic_status c,
    iv_observed = state_value (ic_observed c), iv_expected = state_value (ic_expected c), iv_block_number = ic_block_number c,
    iv_block_hash = ic_block_hash c, iv_checked_at = utc_now (mo_clock sc) \<rparr>"
  let ?st = "put_invariant ?row st"
  have key: "invariant_key ?row = (mo_id sc, lower (pp_address p), ic_name c)" by (simp add: invariant_key_def)
  have row: "fetch_invariant ?st (mo_id sc, lower (pp_address p), ic_name c) = Some ?row"
    using fetch_put_invariant [of ?row st] unfolding key .
  have events: "st_events ?st = st_events st" by (simp add: put_invariant_def)
  have due: "due \<longleftrightarrow> \<not> (\<not> invariant_changed previous c \<or> ic_status c = ''unavailable'')
      \<and> \<not> (ic_status c = ''ok'' \<and> \<not> invariant_recovery previous c)"
    by (auto simp: due_def invariant_recovery_def)
  have body: "record_invariant_transition sc p c (st, n) =
      (if \<not> invariant_changed previous c \<or> ic_status c = ''unavailable'' then skip
       else if ic_status c = ''ok'' \<and> \<not> invariant_recovery previous c then skip
       else seq (record_and_alert sc (invariant_event sc p previous c))
         (\<lambda>_. count (\<lambda>n. n\<lparr> sn_invariant_transitions := Suc (sn_invariant_transitions n) \<rparr>))) (?st, n)"
    by (simp only: record_invariant_transition_def record_invariant_state_def seq_def on_store_def fst_conv snd_conv
        prod.case sum.case previous_def)
  show ?thesis
  proof (cases due)
    case False
    with assms(1) have "r = Inr () \<and> st' = ?st \<and> n' = n"
      unfolding body due by (auto simp: skip_def done_with_def split: if_splits)
    with False row events show ?thesis by simp
  next
    case True
    obtain q t m where run: "record_and_alert sc (invariant_event sc p previous c) (?st, n) = (q, (t, m))" by (metis prod.exhaust)
    note f = record_and_alert_facts [OF run]
    from assms(1) True run f(1) have "r = Inr () \<and> st' = t \<and> n' = m\<lparr> sn_invariant_transitions := Suc (sn_invariant_transitions m) \<rparr>"
      unfolding body due by (auto simp: seq_def count_def)
    with True f row show ?thesis by (simp add: fetch_invariant_def)
  qed
qed

text \<open>Invariant transitions are recorded exactly: every check is stored as the new state of its
  invariant, and it is reported, once, precisely when its status or its observed value changed,
  it was available, and it is not a first or repeated success; what is not reported leaves the
  events alone.\<close>

theorem invariant_transition_exact:
  assumes "record_invariant_transition sc p c (st, n) = (r, (st', n'))"
  defines "previous \<equiv> fetch_invariant st (mo_id sc, lower (pp_address p), ic_name c)"
  defines "due \<equiv> invariant_changed previous c \<and> ic_status c \<noteq> ''unavailable''
     \<and> (if ic_status c = ''ok'' then previous_status previous \<in> {Some ''violated'', Some ''error''} else True)"
  shows "r = Inr () \<and> sn_invariant_transitions n' = (if due then Suc (sn_invariant_transitions n) else sn_invariant_transitions n)
     \<and> (\<exists>row. fetch_invariant st' (mo_id sc, lower (pp_address p), ic_name c) = Some row
          \<and> iv_status row = ic_status c \<and> iv_observed row = state_value (ic_observed c)
          \<and> iv_block_number row = ic_block_number c)
     \<and> (if due then ev_event_id (invariant_event sc p previous c) \<in> er_event_id ` set (st_events st')
        else st_events st' = st_events st)"
  using invariant_transition_exact_aux [OF assms(1)] unfolding due_def previous_def .

definition demo_check :: invariant_check where
  "demo_check = \<lparr> ic_name = ''supply'', ic_target = ''0xaa'', ic_status = ''error'', ic_observed = JNull, ic_expected = JInt 1,
     ic_operator = ''eq'', ic_score = 80, ic_block_number = 7, ic_block_hash = None, ic_error_class = Some ''RpcError'' \<rparr>"

definition demo_guarded :: protocol_policy where
  "demo_guarded = \<lparr> pp_chain_id = 1, pp_address = ''0xaa'', pp_protocol = ''P'', pp_authorized_senders = [],
     pp_allowed_selectors = [], pp_critical_selectors = [], pp_max_native_value_wei = None, pp_incident_sla_minutes = None,
     pp_selector_labels = [], pp_invariants = [] \<rparr>"

theorem invariant_transition_exact_witness:
  "sn_invariant_transitions (snd (snd (record_invariant_transition demo_scanner demo_guarded demo_check
     (empty_store, new_stats ''c'')))) = 1"
proof -
  obtain r st n where run: "record_invariant_transition demo_scanner demo_guarded demo_check (empty_store, new_stats ''c'')
      = (r, (st, n))" by (metis prod.exhaust)
  have "fetch_invariant empty_store k = None" for k by (simp add: fetch_invariant_def empty_store_def)
  with invariant_transition_exact [OF run] have "sn_invariant_transitions n = 1"
    by (simp add: demo_check_def invariant_changed_def previous_status_def new_stats_def)
  then show ?thesis unfolding run by simp
qed

text \<open>C38. A failing check is reported again by every scan. A check that fails leaves no observed value;
  the comparison with the previous state reads that as the text \<^verbatim>\<open>None\<close>, which differs from no
  value, so an unchanged failure counts as a change: however often it was reported before, the
  next check of it is a transition again, with an event of its own block.\<close>

theorem unchanged_failure_repeats:
  assumes "record_invariant_transition sc p c (st, n) = (r, (st', n'))"
    and "record_invariant_transition sc p c' (st', n') = (r', (st'', n''))"
    and "ic_status c = ''error''" and "ic_observed c = JNull"
    and "ic_status c' = ''error''" and "ic_observed c' = JNull" and "ic_name c' = ic_name c"
  shows "sn_invariant_transitions n'' = Suc (sn_invariant_transitions n')
     \<and> (\<exists>previous. iv_status previous = ic_status c' \<and> iv_observed previous = state_value (ic_observed c')
          \<and> ev_event_id (invariant_event sc p (Some previous) c') \<in> er_event_id ` set (st_events st''))"
proof -
  from invariant_transition_exact_aux [OF assms(1)] obtain row where
    row: "fetch_invariant st' (mo_id sc, lower (pp_address p), ic_name c') = Some row"
    and s: "iv_status row = ic_status c" "iv_observed row = state_value (ic_observed c)"
    unfolding assms(7) by blast
  have "invariant_changed (Some row) c'"
    using s assms(4,6) by (simp add: invariant_changed_def previous_value_def state_value_def opt_fmt_def)
  with invariant_transition_exact_aux [OF assms(2)] row s assms(3-6) show ?thesis by auto
qed

theorem unchanged_failure_repeats_witness:
  "sn_invariant_transitions (snd (snd (record_invariant_transition demo_scanner demo_guarded (demo_check\<lparr> ic_block_number := 8 \<rparr>)
     (snd (record_invariant_transition demo_scanner demo_guarded demo_check (empty_store, new_stats ''c'')))))) = 2"
proof -
  obtain r st n where run: "record_invariant_transition demo_scanner demo_guarded demo_check (empty_store, new_stats ''c'')
      = (r, (st, n))" by (metis prod.exhaust)
  have "fetch_invariant empty_store k = None" for k by (simp add: fetch_invariant_def empty_store_def)
  with invariant_transition_exact_aux [OF run] have one: "sn_invariant_transitions n = 1"
    by (simp add: demo_check_def invariant_changed_def previous_status_def new_stats_def)
  obtain r' st' n' where again: "record_invariant_transition demo_scanner demo_guarded (demo_check\<lparr> ic_block_number := 8 \<rparr>) (st, n)
      = (r', (st', n'))" by (metis prod.exhaust)
  from unchanged_failure_repeats [OF run again] one have "sn_invariant_transitions n' = 2" by (simp add: demo_check_def)
  then show ?thesis unfolding run snd_conv again by simp
qed

end
