(* ===== verification/Mempool.thy ===== *)
theory Mempool
  imports "HOL-Library.Code_Target_Nat" Simulation Abi Scoring Incidents Notifier
begin

text \<open>
  \<^verbatim>\<open>src/white_radar/mempool.py\<close>: the subscription request, the reconnection schedule and the handling of
  one message of the stream. The state is that of the ABI resolver, whose store is the store of
  the process; a message is the parsed document, or nothing where \<^verbatim>\<open>json.loads\<close> raised. The
  websocket itself and the heartbeat task are outside.
\<close>

section \<open>The subscription\<close>

definition ALCHEMY_FILTERED_PENDING_CHAINS :: "int list" where
  "ALCHEMY_FILTERED_PENDING_CHAINS = [1, 137, 11155111]"

definition ROUTINE_TOKEN_SELECTORS :: "string list" where
  "ROUTINE_TOKEN_SELECTORS = [''0xa9059cbb'', ''0x095ea7b3'', ''0x23b872dd'']"

definition endswith :: "string \<Rightarrow> string \<Rightarrow> bool" where
  "endswith suffix s = (length suffix \<le> length s \<and> drop (length s - length suffix) s = suffix)"

text \<open>The host name of the URL is a parameter, as \<^verbatim>\<open>urlsplit\<close> gives it.\<close>

definition use_alchemy :: "chain_config \<Rightarrow> string option \<Rightarrow> bool" where
  "use_alchemy chain hostname =
     (cc_pending_subscription chain = ''alchemy'' \<or>
      (cc_pending_subscription chain = ''auto'' \<and> endswith ''alchemy.com'' (lower (case hostname of None \<Rightarrow> [] | Some h \<Rightarrow> h))
       \<and> cc_chain_id chain \<in> set ALCHEMY_FILTERED_PENDING_CHAINS))"

definition subscribe :: "json list \<Rightarrow> dict" where
  "subscribe params = [(''jsonrpc'', JStr ''2.0''), (''id'', JInt 1), (''method'', JStr ''eth_subscribe''), (''params'', JList params)]"

definition pending_subscription_request ::
  "chain_config \<Rightarrow> string option \<Rightarrow> string list \<Rightarrow> (string \<times> dict) res" where
  "pending_subscription_request chain hostname watched_addresses =
     (if use_alchemy chain hostname then
        (if cc_chain_id chain \<notin> set ALCHEMY_FILTERED_PENDING_CHAINS then Inl RuntimeError
         else if 1000 < length watched_addresses then Inl RuntimeError
         else Inr (''alchemy_pendingTransactions'',
           subscribe [JStr ''alchemy_pendingTransactions'',
             JObj [(''toAddress'', JList (map JStr (sort watched_addresses))), (''hashesOnly'', JBool False)]]))
      else Inr (''newPendingTransactions'', subscribe [JStr ''newPendingTransactions'']))"

section \<open>Reconnection\<close>

text \<open>The endpoint in use and the seconds to wait; a failure moves to the next endpoint and doubles the
  wait up to 30, an accepted subscription resets it.\<close>

record stream_state =
  sm_endpoint :: nat
  sm_backoff :: nat

definition stream_start :: stream_state where
  "stream_start = \<lparr> sm_endpoint = 0, sm_backoff = 1 \<rparr>"

definition stream_failed :: "nat \<Rightarrow> stream_state \<Rightarrow> nat \<times> stream_state" where
  "stream_failed endpoints s =
     (sm_backoff s, \<lparr> sm_endpoint = (sm_endpoint s + 1) mod endpoints, sm_backoff = min 30 (sm_backoff s * 2) \<rparr>)"

definition stream_accepted :: "stream_state \<Rightarrow> stream_state" where
  "stream_accepted s = s\<lparr> sm_backoff := 1 \<rparr>"

text \<open>A run of consecutive failures: the endpoints tried and the seconds waited.\<close>

fun failures :: "nat \<Rightarrow> nat \<Rightarrow> stream_state \<Rightarrow> (nat \<times> nat) list" where
  "failures endpoints 0 s = []"
| "failures endpoints (Suc k) s =
     (case stream_failed endpoints s of (wait, s') \<Rightarrow> (sm_endpoint s, wait) # failures endpoints k s')"

section \<open>One message\<close>

record observer =
  po_chain :: chain_config
  po_watchlist :: watchlist
  po_policies :: policy_book
  po_rpc :: rpc
  po_notifier :: notifier
  po_resolver :: "abi_env option"
  po_subscription_type :: string
  po_incident_minimum_score :: int
  po_incident_sla_minutes :: int
  po_simulation_enabled :: bool
  po_simulation_minimum_score :: int
  po_trace_call_enabled :: bool
  po_digest :: "string \<Rightarrow> string"
  po_sha256 :: "bytes \<Rightarrow> string"
  po_clock :: clock

text \<open>The transaction a message names: carried by it, or fetched by its hash.\<close>

definition message_transaction :: "rpc \<Rightarrow> json \<Rightarrow> (string \<times> dict) option res" where
  "message_transaction call message =
     (case message of
        JObj m \<Rightarrow>
          (case (if has_key m ''params'' then dget m ''params'' else JObj []) of
             JObj p \<Rightarrow>
               (case dget p ''result'' of
                  JObj t \<Rightarrow> Inr (if str_or (dget t ''hash'') [] = [] \<or> t = [] then None else Some (str_or (dget t ''hash'') [], t))
                | JStr h \<Rightarrow> and_then (rpc_transaction call h) (\<lambda>t. Inr
                    (if h = [] then None else case t of None \<Rightarrow> None | Some d \<Rightarrow> if d = [] then None else Some (h, d)))
                | _ \<Rightarrow> Inr None)
           | _ \<Rightarrow> Inl AttributeError)
      | _ \<Rightarrow> Inl AttributeError)"

text \<open>What the assessment of a watched call computes before the store is touched.\<close>

record pending_call =
  pc_tx_hash :: string
  pc_transaction :: dict
  pc_destination :: string
  pc_watched :: contract_watch
  pc_calldata :: string
  pc_selector :: string
  pc_value :: int
  pc_sender :: "string option"
  pc_policy :: "protocol_policy option"

definition pc_assessment :: "pending_call \<Rightarrow> policy_assessment option" where
  "pc_assessment p = map_option (\<lambda>y. assess_pending y (pc_sender p) (pc_selector p) (pc_value p)) (pc_policy p)"

definition pc_findings :: "pending_call \<Rightarrow> policy_finding list" where
  "pc_findings p = (case pc_assessment p of None \<Rightarrow> [] | Some a \<Rightarrow> pa_findings a)"

definition pc_policy_critical :: "pending_call \<Rightarrow> bool" where
  "pc_policy_critical p = (case pc_policy p of None \<Rightarrow> False | Some y \<Rightarrow> pc_selector p \<in> set (pp_critical_selectors y))"

definition pc_critical :: "pending_call \<Rightarrow> bool" where
  "pc_critical p = (pc_selector p \<in> set (cw_critical_selectors (pc_watched p)) \<or> pc_policy_critical p)"

definition pc_routine :: "pending_call \<Rightarrow> bool" where
  "pc_routine p = (pc_selector p \<in> set ROUTINE_TOKEN_SELECTORS)"

definition pc_base :: "pending_call \<Rightarrow> score_result" where
  "pc_base p = score_pending (cw_protocol (pc_watched p)) (pc_critical p) (pc_value p) (pc_routine p)"

definition correlation_bonus :: "nat \<Rightarrow> int" where
  "correlation_bonus n = (if 3 \<le> n then 20 else if 2 \<le> n then 10 else 0)"

definition pc_policy_delta :: "pending_call \<Rightarrow> int" where
  "pc_policy_delta p =
     (case pc_assessment p of None \<Rightarrow> 0
      | Some a \<Rightarrow> min 80 (assessment_delta a + correlation_bonus (length (pa_findings a))))"

definition pc_score :: "pending_call \<Rightarrow> int" where
  "pc_score p = min 100 (sr_score (pc_base p) + pc_policy_delta p)"

definition pc_reasons :: "pending_call \<Rightarrow> string list" where
  "pc_reasons p =
     sr_reasons (pc_base p) @ map pf_reason (pc_findings p)
     @ (if correlation_bonus (length (pc_findings p)) \<noteq> 0
        then [nat_str (length (pc_findings p)) @ '' independent policy deviations were correlated in one call.''] else [])"

text \<open>The condition under which the call is only counted.\<close>

definition pc_aggregated :: "pending_call \<Rightarrow> bool" where
  "pc_aggregated p = (pc_score p < 30 \<and> \<not> pc_policy_critical p
     \<and> pc_selector p \<notin> set (cw_critical_selectors (pc_watched p)) \<and> pc_findings p = [])"

definition pending_call_of :: "observer \<Rightarrow> string \<Rightarrow> dict \<Rightarrow> pending_call option res" where
  "pending_call_of ob tx_hash transaction =
     (let destination = lower (str_or (dget transaction ''to'') []);
          chain_id = cc_chain_id (po_chain ob);
          calldata = str_or (dget transaction ''input'') ''0x'';
          selector = (if 10 \<le> length calldata then lower (take 10 calldata) else ''0x'')
      in case watch_contract (po_watchlist ob) chain_id destination of
           None \<Rightarrow> Inr None
         | Some watched \<Rightarrow>
             and_then (hex_to_int (str_or (dget transaction ''value'') ''0x0'')) (\<lambda>v.
               Inr (Some \<lparr> pc_tx_hash = tx_hash, pc_transaction = transaction, pc_destination = destination,
                 pc_watched = watched, pc_calldata = calldata, pc_selector = selector, pc_value = v,
                 pc_sender = none_if_empty (lower (str_or (dget transaction ''from'') [])),
                 pc_policy = book_contract (po_policies ob) chain_id destination \<rparr>)))"

text \<open>Decoding and simulation, for a call that is not aggregated.\<close>

definition decode_pending :: "observer \<Rightarrow> pending_call \<Rightarrow> resolver \<Rightarrow> decoded_call option res \<times> resolver" where
  "decode_pending ob p r =
     (case po_resolver ob of
        None \<Rightarrow> (Inr None, r)
      | Some env \<Rightarrow>
          (case abi_resolve env (cc_chain_id (po_chain ob)) (pc_destination p) (pc_calldata p)
                  (case pc_policy p of None \<Rightarrow> None | Some y \<Rightarrow> selector_label y (pc_selector p)) r of
             (Inl e, r') \<Rightarrow> (Inl e, r')
           | (Inr d, r') \<Rightarrow> (Inr (Some d), r')))"

definition simulate_pending :: "observer \<Rightarrow> pending_call \<Rightarrow> simulation_result option res" where
  "simulate_pending ob p =
     (if po_simulation_enabled ob \<and> (po_simulation_minimum_score ob \<le> pc_score p \<or> pc_policy_critical p)
      then and_then (simulate_transaction (po_sha256 ob) (po_rpc ob) (pc_transaction p) None (po_trace_call_enabled ob))
             (\<lambda>s. Inr (Some s))
      else Inr None)"

definition trace_json :: "trace_summary \<Rightarrow> json" where
  "trace_json t = (let n = (\<lambda>f. JInt (int (f t))) in
     JObj [(''call_count'', n ts_call_count), (''max_depth'', n ts_max_depth),
       (''delegatecall_count'', n ts_delegatecall_count), (''staticcall_count'', n ts_staticcall_count),
       (''create_count'', n ts_create_count), (''selfdestruct_count'', n ts_selfdestruct_count),
       (''value_call_count'', n ts_value_call_count), (''reverted_call_count'', n ts_reverted_call_count),
       (''truncated'', JBool (ts_truncated t)), (''touched_addresses'', JList (map JStr (ts_touched_addresses t)))])"

definition simulation_json :: "simulation_result \<Rightarrow> json" where
  "simulation_json s =
     JObj [(''status'', JStr (si_status s)), (''block_number'', JInt (si_block_number s)),
       (''block_hash'', opt_json (si_block_hash s)), (''transaction_fingerprint'', JStr (si_fingerprint s)),
       (''return_data_size'', JInt (int (si_return_data_size s))), (''return_data_sha256'', opt_json (si_return_data_sha256 s)),
       (''error_class'', opt_json (si_error_class s)),
       (''trace'', case si_trace s of None \<Rightarrow> JNull | Some t \<Rightarrow> trace_json t),
       (''findings'', JList (map (\<lambda>f. JObj [(''code'', JStr (sf_code f)), (''category'', JStr (sf_category f)),
          (''score_delta'', JInt (sf_score_delta f)), (''summary'', JStr (sf_summary f))]) (si_findings s))),
       (''score_delta'', JInt (simulation_delta s))]"

definition final_score :: "pending_call \<Rightarrow> simulation_result option \<Rightarrow> int" where
  "final_score p simulation =
     (case simulation of None \<Rightarrow> pc_score p | Some s \<Rightarrow> min 100 (pc_score p + simulation_delta s))"

definition pending_recommendation :: "pending_call \<Rightarrow> string" where
  "pending_recommendation p =
     (if pc_findings p \<noteq> [] \<and> \<not> pc_critical p
      then ''Review the correlated policy deviations, decoded call, and state-pinned simulation ''
           @ ''before classifying or escalating the case.''
      else sr_recommended_action (pc_base p))"

definition pending_metadata ::
  "observer \<Rightarrow> pending_call \<Rightarrow> decoded_call option \<Rightarrow> simulation_result option \<Rightarrow> int \<Rightarrow> int \<Rightarrow> dict" where
  "pending_metadata ob p decoded simulation gas fee =
     (let w = pc_watched p; a = pc_assessment p in
      [(''protocol'', JStr (cw_protocol w)), (''role'', JStr (cw_role w)), (''selector'', JStr (pc_selector p)),
       (''routine_selector'', JBool (pc_routine p)),
       (''function_signature'', case decoded of None \<Rightarrow> JNull | Some d \<Rightarrow> opt_json (dc_signature d)),
       (''decoded_arguments'', JObj (case decoded of None \<Rightarrow> [] | Some d \<Rightarrow> dc_arguments d)),
       (''abi_source'', case decoded of None \<Rightarrow> JNull | Some d \<Rightarrow> opt_json (dc_source d)),
       (''abi_sha256'', case decoded of None \<Rightarrow> JNull | Some d \<Rightarrow> opt_json (dc_abi_sha256 d)),
       (''critical_selector'', JBool (pc_critical p)), (''native_value_wei'', JInt (pc_value p)),
       (''calldata_size_bytes'', JInt (int (length (removeprefix ''0x'' (pc_calldata p)) div 2))),
       (''gas'', JInt gas), (''max_fee_per_gas'', JInt fee),
       (''bounty_url'', JStr (cw_bounty_url w)), (''contact_uri'', JStr (cw_contact_uri w)),
       (''verification_source'', JStr ''provider mempool observation''),
       (''subscription_type'', JStr (po_subscription_type ob)), (''policy_configured'', JBool (pc_policy p \<noteq> None)),
       (''policy_baseline_match'', case a of None \<Rightarrow> JNull | Some x \<Rightarrow> JBool (pa_baseline_match x)),
       (''policy_correlation_bonus'', JInt (correlation_bonus (length (pc_findings p)))),
       (''policy_findings'', JList (map (\<lambda>f. JObj [(''code'', JStr (pf_code f)), (''score_delta'', JInt (pf_score_delta f)),
          (''reason'', JStr (pf_reason f))]) (pc_findings p))),
       (''policy_sha256'', if pc_policy p \<noteq> None then opt_json (pb_source_sha256 (po_policies ob)) else JNull),
       (''simulation'', case simulation of None \<Rightarrow> JNull | Some s \<Rightarrow> simulation_json s)])"

definition pending_event ::
  "observer \<Rightarrow> pending_call \<Rightarrow> decoded_call option \<Rightarrow> simulation_result option \<Rightarrow> radar_event res" where
  "pending_event ob p decoded simulation =
     (let chain = po_chain ob; t = pc_transaction p; score = final_score p simulation in
      and_then (hex_to_int (str_or (dget t ''gas'') ''0x0'')) (\<lambda>gas.
      and_then (hex_to_int (py_str (py_or (dget t ''maxFeePerGas'') (py_or (dget t ''gasPrice'') (JStr ''0x0''))))) (\<lambda>fee.
      Inr \<lparr> ev_event_id = stable_event_id (po_digest ob) [''pending_watch'', int_str (cc_chain_id chain), pc_tx_hash p],
        ev_observed_at = utc_now (po_clock ob), ev_event_type = ''pending_watch'',
        ev_title = ''Pending transaction requires protocol review'',
        ev_summary = ''Pending transaction to '' @ cw_protocol (pc_watched p) @ '' ('' @ cw_role (pc_watched p)
          @ '') was promoted by protocol-specific evidence.'',
        ev_chain = cc_name chain, ev_chain_id = cc_chain_id chain, ev_score = score, ev_severity = severity_for_score score,
        ev_confidence = min (98/100) (sr_confidence (pc_base p) + min (25/100) (of_nat (length (pc_findings p)) * (5/100))),
        ev_reasons = pc_reasons p @ (case simulation of None \<Rightarrow> [] | Some s \<Rightarrow> map sf_summary (si_findings s)),
        ev_recommended_action = pending_recommendation p,
        ev_subject_address = Some (pc_destination p), ev_deployer_address = pc_sender p,
        ev_tx_hash = Some (lower (pc_tx_hash p)), ev_block_number = None,
        ev_evidence = [(''transaction'', JStr (cc_explorer_url chain @ ''/tx/'' @ pc_tx_hash p))],
        ev_metadata = pending_metadata ob p decoded simulation gas fee \<rparr>)))"

text \<open>The identities of a recorded call; each write is on its own, so an exception keeps those before it.\<close>

definition link_account :: "observer \<Rightarrow> pending_call \<Rightarrow> radar_event \<Rightarrow> string \<Rightarrow> store \<Rightarrow> unit res \<times> store" where
  "link_account ob p e contract_node st =
     (if \<not> truthy_opt (ev_deployer_address e) then (Inr (), st)
      else case upsert_identity_node (po_digest ob) (po_clock ob) (ev_chain_id e) ''account'' (the (ev_deployer_address e)) None [] st of
        Inl x \<Rightarrow> (Inl x, st)
      | Inr (sender_node, st1) \<Rightarrow>
          (Inr (), snd (upsert_identity_edge (po_digest ob) (ev_chain_id e) sender_node ''OBSERVED_PENDING_CALL_TO'' contract_node
             [(''transaction'', JStr (pc_tx_hash p)), (''selector'', JStr (pc_selector p))] (ev_observed_at e) st1)))"

definition link_pending :: "observer \<Rightarrow> pending_call \<Rightarrow> radar_event \<Rightarrow> store \<Rightarrow> unit res \<times> store" where
  "link_pending ob p e st =
     (let w = pc_watched p; node = upsert_identity_node (po_digest ob) (po_clock ob) (ev_chain_id e) in
      case node ''protocol'' (cw_protocol w) (Some (cw_protocol w)) [] st of
        Inl x \<Rightarrow> (Inl x, st)
      | Inr (protocol_node, st1) \<Rightarrow>
          (case node ''contract'' (pc_destination p) (Some (cw_protocol w @ '' '' @ cw_role w)) [] st1 of
             Inl x \<Rightarrow> (Inl x, st1)
           | Inr (contract_node, st2) \<Rightarrow>
               link_account ob p e contract_node
                 (snd (upsert_identity_edge (po_digest ob) (ev_chain_id e) protocol_node ''CONTAINS'' contract_node
                   [(''watchlist'', JBool True), (''bounty_url'', JStr (cw_bounty_url w))] (ev_observed_at e) st2))))"

definition notify_pending :: "observer \<Rightarrow> radar_event \<Rightarrow> store \<Rightarrow> store" where
  "notify_pending ob e st =
     (if should_send (po_notifier ob) e (po_chain ob) \<and> send (po_notifier ob) e (po_chain ob) = Inr True
      then mark_alerted (po_clock ob) (ev_event_id e) st else st)"

definition pending_sla :: "observer \<Rightarrow> pending_call \<Rightarrow> int" where
  "pending_sla ob p =
     (case pc_policy p of None \<Rightarrow> po_incident_sla_minutes ob
      | Some y \<Rightarrow> (case pp_incident_sla_minutes y of None \<Rightarrow> po_incident_sla_minutes ob | Some m \<Rightarrow> m))"

definition record_pending :: "observer \<Rightarrow> pending_call \<Rightarrow> radar_event \<Rightarrow> store \<Rightarrow> unit res \<times> store" where
  "record_pending ob p e st =
     (case add_event e st of (inserted, st1) \<Rightarrow>
        if \<not> inserted then (Inr (), st1)
        else (case open_incident (po_digest ob) (po_clock ob) e (po_incident_minimum_score ob) (pending_sla ob p)
                     (Some (cw_protocol (pc_watched p))) st1 of (i, st2) \<Rightarrow>
               case link_pending ob p e st2 of
                 (Inl x, st3) \<Rightarrow> (Inl x, st3)
               | (Inr u, st3) \<Rightarrow> (Inr (), notify_pending ob e st3)))"

definition promote :: "observer \<Rightarrow> pending_call \<Rightarrow> resolver \<Rightarrow> unit res \<times> resolver" where
  "promote ob p r =
     (case decode_pending ob p r of
        (Inl e, r1) \<Rightarrow> (Inl e, r1)
      | (Inr decoded, r1) \<Rightarrow>
          (case and_then (simulate_pending ob p) (pending_event ob p decoded) of
             Inl e \<Rightarrow> (Inl e, r1)
           | Inr e \<Rightarrow> (case record_pending ob p e (rv_store r1) of (res, st) \<Rightarrow> (res, r1\<lparr> rv_store := st \<rparr>))))"

definition handle_call :: "observer \<Rightarrow> pending_call \<Rightarrow> resolver \<Rightarrow> unit res \<times> resolver" where
  "handle_call ob p r =
     (if pc_aggregated p
      then (Inr (), r\<lparr> rv_store := record_pending_telemetry (po_clock ob) (cc_chain_id (po_chain ob)) (pc_destination p)
             (pc_selector p) (cw_protocol (pc_watched p)) (pc_tx_hash p) (utc_now (po_clock ob)) (rv_store r) \<rparr>)
      else promote ob p r)"

text \<open>\<^verbatim>\<open>_handle_message\<close>\<close>

definition handle_message :: "observer \<Rightarrow> json option \<Rightarrow> resolver \<Rightarrow> unit res \<times> resolver" where
  "handle_message ob message r =
     (case message of
        None \<Rightarrow> (Inr (), r)
      | Some m \<Rightarrow>
          (case and_then (message_transaction (po_rpc ob) m)
                  (\<lambda>t. case t of None \<Rightarrow> Inr None | Some (h, d) \<Rightarrow> pending_call_of ob h d) of
             Inl e \<Rightarrow> (Inl e, r)
           | Inr None \<Rightarrow> (Inr (), r)
           | Inr (Some p) \<Rightarrow> handle_call ob p r))"

end
