(* ===== verification/Mempool_Stream.thy ===== *)
theory Mempool_Stream
  imports Mempool Store_Contract
begin

text \<open>
  \<^verbatim>\<open>watch_pending_transactions\<close> of \<^verbatim>\<open>src/white_radar/mempool.py\<close>: the checks before the first connection, one
  session of the subscription and runs of sessions, with the properties of the observer. A
  session is given by what the websocket did; cancellation and the concurrent heartbeat task are
  outside.
\<close>

section \<open>Start\<close>

definition stream_ready ::
  "string list \<Rightarrow> string list \<Rightarrow> string list \<Rightarrow> policy_book res \<Rightarrow> rpc \<Rightarrow> chain_config \<Rightarrow> policy_book res" where
  "stream_ready ws_urls http_urls watched_addresses policies call chain =
     (if ws_urls = [] \<or> list_ex (\<lambda>u. \<not> startswith ''ws://'' u \<and> \<not> startswith ''wss://'' u) ws_urls then Inl RuntimeError
      else if http_urls = [] then Inl RuntimeError
      else if watched_addresses = [] then Inl RuntimeError
      else and_then policies (\<lambda>b. and_then (rpc_chain_id call) (\<lambda>n.
        if n = cc_chain_id chain then Inr b else Inl RuntimeError)))"

section \<open>The outbox\<close>

definition flush_pending :: "observer \<Rightarrow> store \<Rightarrow> unit res \<times> store" where
  "flush_pending ob st =
     (case pending_alerts st (cc_chain_id (po_chain ob)) 100 of
        Inl e \<Rightarrow> (Inl e, st)
      | Inr es \<Rightarrow> (Inr (), fold (notify_pending ob) es st))"

section \<open>One session\<close>

text \<open>What the endpoint did: nothing up to a readable acknowledgement (the class of the exception), or
  an acknowledgement, the messages it sent and how it ended (an exception, or a normal closure).\<close>

datatype connection =
    Unreachable string
  | Acknowledged json "json option list" "string option"

text \<open>The endpoints' host names, the number of HTTP endpoints and the names of exception classes.\<close>

record stream =
  ps_observer :: observer
  ps_hosts :: "string option list"
  ps_http_endpoints :: nat
  ps_class_name :: "exn \<Rightarrow> string"

definition watched_addresses :: "observer \<Rightarrow> string list" where
  "watched_addresses ob = addresses_for_chain (po_watchlist ob) (cc_chain_id (po_chain ob))"

fun handle_messages :: "observer \<Rightarrow> json option list \<Rightarrow> resolver \<Rightarrow> unit res \<times> resolver" where
  "handle_messages ob [] r = (Inr (), r)"
| "handle_messages ob (m # ms) r =
     (case handle_message ob m r of (Inl e, r') \<Rightarrow> (Inl e, r') | (Inr u, r') \<Rightarrow> handle_messages ob ms r')"

definition stream_heartbeat :: "stream \<Rightarrow> string \<Rightarrow> dict \<Rightarrow> string option \<Rightarrow> store \<Rightarrow> store" where
  "stream_heartbeat ps status details last_error st =
     (case record_heartbeat (po_clock (ps_observer ps)) ''pending_observer'' (cc_chain_id (po_chain (ps_observer ps)))
             status details last_error st of
        Inl e \<Rightarrow> st | Inr st' \<Rightarrow> st')"

definition active_details :: "stream \<Rightarrow> string \<Rightarrow> nat \<Rightarrow> dict" where
  "active_details ps kind i =
     [(''chain'', JStr (cc_name (po_chain (ps_observer ps)))), (''subscription_type'', JStr kind),
      (''watched_contracts'', JInt (int (length (watched_addresses (ps_observer ps))))),
      (''websocket_endpoint_index'', JInt (int i)), (''websocket_endpoint_count'', JInt (int (length (ps_hosts ps)))),
      (''http_endpoint_count'', JInt (int (ps_http_endpoints ps)))]"

definition accepted :: "json \<Rightarrow> string option" where
  "accepted ack = (case ack of
       JObj a \<Rightarrow> if truthy (dget a ''error'') \<or> \<not> truthy (dget a ''result'') then Some ''RuntimeError'' else None
     | _ \<Rightarrow> Some ''AttributeError'')"

text \<open>The body of the \<^verbatim>\<open>try\<close>: the class of the exception that left it, if any.\<close>

definition stream_body ::
  "stream \<Rightarrow> string \<Rightarrow> connection \<Rightarrow> stream_state \<times> resolver \<Rightarrow> string option \<times> stream_state \<times> resolver" where
  "stream_body ps kind con sr =
     (case (con, sr) of
        (Unreachable e, s, r) \<Rightarrow> (Some e, s, r)
      | (Acknowledged ack messages ending, s, r) \<Rightarrow>
          (case accepted ack of
             Some e \<Rightarrow> (Some e, s, r)
           | None \<Rightarrow>
               (case flush_pending (ps_observer ps)
                       (stream_heartbeat ps ''ok'' (active_details ps kind (sm_endpoint s)) None (rv_store r)) of
                  (Inl e, st) \<Rightarrow> (Some (ps_class_name ps e), s, r\<lparr> rv_store := st \<rparr>)
                | (Inr u, st) \<Rightarrow>
                    (case handle_messages ((ps_observer ps)\<lparr> po_subscription_type := kind \<rparr>) messages (r\<lparr> rv_store := st \<rparr>) of
                       (Inl e, r') \<Rightarrow> (Some (ps_class_name ps e), stream_accepted s, r')
                     | (Inr v, r') \<Rightarrow> (ending, stream_accepted s, r')))))"

text \<open>A session: the result, the seconds slept after it and the state. An exception of the subscription
  request leaves the function; one of the body degrades the service and moves to the next
  endpoint; after a normal closure the same endpoint is used again at once.\<close>

definition session ::
  "stream \<Rightarrow> connection \<Rightarrow> stream_state \<times> resolver \<Rightarrow> unit res \<times> nat \<times> stream_state \<times> resolver" where
  "session ps con sr =
     (case pending_subscription_request (po_chain (ps_observer ps)) (ps_hosts ps ! sm_endpoint (fst sr))
             (watched_addresses (ps_observer ps)) of
        Inl e \<Rightarrow> (Inl e, 0, sr)
      | Inr (kind, request) \<Rightarrow>
          (case stream_body ps kind con sr of
             (None, s, r) \<Rightarrow> (Inr (), 0, s, r)
           | (Some e, s, r) \<Rightarrow>
               (case stream_failed (length (ps_hosts ps)) s of (wait, s') \<Rightarrow>
                  (Inr (), wait, s', r\<lparr> rv_store := stream_heartbeat ps ''degraded''
                     [(''chain'', JStr (cc_name (po_chain (ps_observer ps)))), (''retry_seconds'', JInt (int (sm_backoff s))),
                      (''next_websocket_endpoint_index'', JInt (int (sm_endpoint s'))),
                      (''websocket_endpoint_count'', JInt (int (length (ps_hosts ps))))] (Some e) (rv_store r) \<rparr>))))"

text \<open>A run: the endpoint and the wait of every session, and the final state.\<close>

fun sessions ::
  "stream \<Rightarrow> connection list \<Rightarrow> stream_state \<times> resolver \<Rightarrow> (nat \<times> nat) list \<times> unit res \<times> stream_state \<times> resolver" where
  "sessions ps [] sr = ([], Inr (), sr)"
| "sessions ps (con # cons) sr =
     (case session ps con sr of
        (Inl e, wait, sr') \<Rightarrow> ([(sm_endpoint (fst sr), wait)], Inl e, sr')
      | (Inr u, wait, sr') \<Rightarrow>
          (case sessions ps cons sr' of (trace, res, sr'') \<Rightarrow> ((sm_endpoint (fst sr), wait) # trace, res, sr'')))"

section \<open>The reconnection schedule\<close>

definition unaccepted :: "connection \<Rightarrow> bool" where
  "unaccepted con = (case con of Unreachable e \<Rightarrow> True | Acknowledged ack ms ending \<Rightarrow> accepted ack \<noteq> None)"

definition backoff :: "nat \<Rightarrow> nat" where "backoff i = min 30 (2 ^ i)"

lemma backoff_0 [simp]: "backoff 0 = 1"
  by (simp add: backoff_def)

lemma backoff_Suc: "min 30 (backoff i * 2) = backoff (Suc i)"
  by (simp add: backoff_def min_def)

lemma stream_heartbeat_events [simp]: "st_events (stream_heartbeat ps status details err st) = st_events st"
  by (simp add: stream_heartbeat_def record_heartbeat_def put_heartbeat_def Let_def)

lemma body_unaccepted: "unaccepted con \<Longrightarrow> \<exists>e. stream_body ps kind con sr = (Some e, sr)"
  by (cases sr) (auto simp: unaccepted_def stream_body_def split: connection.splits)

lemma sessions_unaccepted:
  assumes "\<forall>h \<in> set (ps_hosts ps). \<exists>q. pending_subscription_request (po_chain (ps_observer ps)) h (watched_addresses (ps_observer ps)) = Inr q"
    and "ps_hosts ps \<noteq> []" and "list_all unaccepted cons"
    and "s = \<lparr> sm_endpoint = i mod length (ps_hosts ps), sm_backoff = backoff i \<rparr>"
  shows "\<exists>r'. sessions ps cons (s, r) = (map (\<lambda>k. (k mod length (ps_hosts ps), backoff k)) [i..<i + length cons], Inr (),
      \<lparr> sm_endpoint = (i + length cons) mod length (ps_hosts ps), sm_backoff = backoff (i + length cons) \<rparr>, r')
    \<and> st_events (rv_store r') = st_events (rv_store r)"
  using assms(3,4)
proof (induction cons arbitrary: i s r)
  case Nil
  then show ?case by simp
next
  case (Cons con cons)
  let ?n = "length (ps_hosts ps)"
  have "ps_hosts ps ! (i mod ?n) \<in> set (ps_hosts ps)" using assms(2) by simp
  with assms(1) obtain kind req where q: "pending_subscription_request (po_chain (ps_observer ps)) (ps_hosts ps ! (i mod ?n))
      (watched_addresses (ps_observer ps)) = Inr (kind, req)" by fast
  from Cons.prems body_unaccepted [of con ps kind "(s, r)"] obtain e where e: "stream_body ps kind con (s, r) = (Some e, s, r)" by auto
  define s' where "s' = \<lparr> sm_endpoint = Suc i mod ?n, sm_backoff = backoff (Suc i) \<rparr>"
  have f: "stream_failed ?n s = (backoff i, s')"
    using Cons.prems(2) by (simp add: stream_failed_def s'_def backoff_Suc mod_Suc_eq)
  obtain r1 where one: "session ps con (s, r) = (Inr (), backoff i, s', r1)" and r1: "st_events (rv_store r1) = st_events (rv_store r)"
    using Cons.prems(2) q e f by (simp add: session_def)
  from Cons.IH [of s' "Suc i" r1] Cons.prems(1) obtain r' where rest:
    "sessions ps cons (s', r1) = (map (\<lambda>k. (k mod ?n, backoff k)) [Suc i..<Suc i + length cons], Inr (),
      \<lparr> sm_endpoint = (Suc i + length cons) mod ?n, sm_backoff = backoff (Suc i + length cons) \<rparr>, r')"
    "st_events (rv_store r') = st_events (rv_store r1)" by (auto simp: s'_def)
  have "[i..<i + length (con # cons)] = i # [Suc i..<Suc i + length cons]" by (simp add: upt_rec)
  with one rest r1 Cons.prems(2) show ?case by simp
qed

section \<open>Events are valid\<close>

definition pending_id :: "observer \<Rightarrow> pending_call \<Rightarrow> string" where
  "pending_id ob p = stable_event_id (po_digest ob) [''pending_watch'', int_str (cc_chain_id (po_chain ob)), pc_tx_hash p]"

lemma findings_delta: "0 \<le> assessment_delta (assess_pending y sender selector v)"
  by (simp add: assess_delta)

lemma policy_delta_range: "0 \<le> pc_policy_delta p"
  using findings_delta by (auto simp: pc_policy_delta_def pc_assessment_def correlation_bonus_def min_def split: option.splits)

lemma pc_score_range: "0 \<le> pc_score p \<and> pc_score p \<le> 100"
  using valid_score_pending policy_delta_range [of p] by (simp add: pc_score_def pc_base_def valid_score_def)

lemma simulated_delta: "simulate_pending ob p = Inr (Some s) \<Longrightarrow> 0 \<le> simulation_delta s"
  by (auto simp: simulate_pending_def and_then_eq_Inr split: if_splits dest: simulate_facts(5))

lemma final_score_range:
  "simulate_pending ob p = Inr s \<Longrightarrow> pc_score p \<le> final_score p s \<and> final_score p s \<le> 100"
  using pc_score_range [of p] simulated_delta [of ob p] by (auto simp: final_score_def split: option.splits)

lemma pending_event_fields:
  "pending_event ob p d s = Inr e \<Longrightarrow> ev_event_id e = pending_id ob p \<and> ev_score e = final_score p s
     \<and> ev_severity e = severity_for_score (ev_score e) \<and> ev_chain_id e = cc_chain_id (po_chain ob)
     \<and> ev_observed_at e = utc_now (po_clock ob)"
  by (auto simp: pending_event_def pending_id_def Let_def and_then_eq_Inr)

lemma valid_pending_event:
  assumes "simulate_pending ob p = Inr s" "pending_event ob p d s = Inr e"
  shows "valid_event (cc_chain_id (po_chain ob)) e"
  using pending_event_fields [OF assms(2)] final_score_range [OF assms(1)] pc_score_range [of p] by (simp add: valid_event_def)

lemma promote_cases:
  assumes "promote ob p r = (res, r')"
  obtains (undecoded) x where "decode_pending ob p r = (Inl x, r')" "res = Inl x"
  | (unassessed) d x where "decode_pending ob p r = (Inr d, r')" "res = Inl x"
  | (recorded) d s e r1 st where "decode_pending ob p r = (Inr d, r1)" "simulate_pending ob p = Inr s"
      "pending_event ob p d s = Inr e" "record_pending ob p e (rv_store r1) = (res, st)" "r' = r1\<lparr> rv_store := st \<rparr>"
proof -
  obtain q r1 where q: "decode_pending ob p r = (q, r1)" by (cases "decode_pending ob p r")
  show thesis
  proof (cases q)
    case (Inl x)
    with assms q show thesis by (simp add: promote_def undecoded)
  next
    case (Inr d)
    show thesis
    proof (cases "and_then (simulate_pending ob p) (pending_event ob p d)")
      case (Inl x)
      with assms q \<open>q = Inr d\<close> have "r1 = r'" "res = Inl x" by (simp_all add: promote_def)
      with q \<open>q = Inr d\<close> show thesis by (intro unassessed) simp_all
    next
      case (Inr e)
      then obtain s where s: "simulate_pending ob p = Inr s" "pending_event ob p d s = Inr e" by (auto simp: and_then_eq_Inr)
      obtain u st where "record_pending ob p e (rv_store r1) = (u, st)" by fastforce
      with assms q \<open>q = Inr d\<close> Inr have "record_pending ob p e (rv_store r1) = (res, st)" "r' = r1\<lparr> rv_store := st \<rparr>"
        by (simp_all add: promote_def)
      with q \<open>q = Inr d\<close> s show thesis by (intro recorded) simp_all
    qed
  qed
qed

section \<open>The contract with the store\<close>

locale abi_store =
  fixes ok :: "store \<Rightarrow> bool"
  assumes keeps_abi: "ok st \<Longrightarrow> ok (put_abi row st)"
begin

lemma load_abi_kept: "ok (rv_store r) \<Longrightarrow> load_verified_abi env c a f r = (res, r') \<Longrightarrow> ok (rv_store r')"
  by (auto simp: load_verified_abi_def Let_def upsert_abi_catalog_def remember_abi_def keeps_abi split: option.splits sum.splits if_splits)

lemma catalog_kept: "ok (rv_store r) \<Longrightarrow> abi_catalog env c a f r = (res, r') \<Longrightarrow> ok (rv_store r')"
  by (auto simp: abi_catalog_def split: option.splits sum.splits if_splits prod.splits dest: load_abi_kept)

lemma resolve_kept: "ok (rv_store r) \<Longrightarrow> abi_resolve env c a d f r = (res, r') \<Longrightarrow> ok (rv_store r')"
  by (auto simp: abi_resolve_def Let_def split: sum.splits prod.splits dest: catalog_kept)

lemma decode_kept: "ok (rv_store r) \<Longrightarrow> decode_pending ob p r = (res, r') \<Longrightarrow> ok (rv_store r')"
  by (auto simp: decode_pending_def split: option.splits sum.splits prod.splits dest: resolve_kept)

end

context identity_store
begin

lemma link_account_kept: "ok st \<Longrightarrow> link_account ob p e n st = (res, st') \<Longrightarrow> ok st'"
  by (auto simp: link_account_def keeps_edge split: sum.splits if_splits dest: keeps_node)

lemma link_kept:
  assumes "ok st" "link_pending ob p e st = (res, st')"
  shows "ok st'"
proof -
  let ?node = "upsert_identity_node (po_digest ob) (po_clock ob) (ev_chain_id e)"
  let ?w = "pc_watched p"
  show ?thesis
  proof (cases "?node ''protocol'' (cw_protocol ?w) (Some (cw_protocol ?w)) [] st")
    case (Inl x)
    with assms show ?thesis by (simp add: link_pending_def)
  next
    case (Inr q)
    obtain n1 st1 where q: "q = (n1, st1)" by (cases q)
    have k1: "ok st1" by (rule keeps_node [OF assms(1) Inr [unfolded q]])
    show ?thesis
    proof (cases "?node ''contract'' (pc_destination p) (Some (cw_protocol ?w @ '' '' @ cw_role ?w)) [] st1")
      case (Inl x)
      with assms(2) Inr q k1 show ?thesis by (simp add: link_pending_def)
    next
      case (Inr q2)
      obtain n2 st2 where q2: "q2 = (n2, st2)" by (cases q2)
      have k2: "ok st2" by (rule keeps_node [OF k1 Inr [unfolded q2]])
      show ?thesis
        using assms(2) \<open>_ st = Inr q\<close> Inr by (simp add: link_pending_def q q2) (erule link_account_kept [OF keeps_edge [OF k2]])
    qed
  qed
qed

end

locale observed_store = abi_store ok + recorded_store ok "po_digest ob" "po_clock ob" "cc_chain_id (po_chain ob)"
  for ok :: "store \<Rightarrow> bool" and ob :: observer +
  assumes keeps_telemetry: "ok st \<Longrightarrow> ok (record_pending_telemetry ck c a sel pr tx ob_at st)"
    and keeps_heartbeat: "ok st \<Longrightarrow> ok (put_heartbeat hb st)"
begin

lemma notify_kept: "ok st \<Longrightarrow> ok (notify_pending ob e st)"
  by (simp add: notify_pending_def keeps_mark)

lemma record_kept:
  assumes "ok st" "valid_event (cc_chain_id (po_chain ob)) e" "record_pending ob p e st = (res, st')"
  shows "ok st'"
proof -
  obtain b st1 where b: "add_event e st = (b, st1)" by (cases "add_event e st")
  obtain i st2 where i: "open_incident (po_digest ob) (po_clock ob) e (po_incident_minimum_score ob) (pending_sla ob p)
      (Some (cw_protocol (pc_watched p))) st1 = (i, st2)" by fastforce
  have k: "ok st1 \<and> ok st2" by (rule keeps_record_event [OF assms(1,2) b i])
  obtain q st3 where q: "link_pending ob p e st2 = (q, st3)" by fastforce
  have "ok st3" using k q link_kept by blast
  with k assms(3) b i q show ?thesis by (auto simp: record_pending_def notify_kept split: if_splits sum.splits)
qed

lemma promote_kept:
  assumes "ok (rv_store r)" "promote ob p r = (res, r')"
  shows "ok (rv_store r')"
  using assms(2)
proof (cases rule: promote_cases)
  case (recorded d s e r1 st)
  have "ok (rv_store r1)" by (rule decode_kept [OF assms(1) recorded(1)])
  with recorded show ?thesis using record_kept valid_pending_event by fastforce
qed (use decode_kept [OF assms(1)] in blast)+

lemma call_kept: "ok (rv_store r) \<Longrightarrow> handle_call ob p r = (res, r') \<Longrightarrow> ok (rv_store r')"
  by (auto simp: handle_call_def keeps_telemetry split: if_splits dest: promote_kept)

lemma message_kept: "ok (rv_store r) \<Longrightarrow> handle_message ob m r = (res, r') \<Longrightarrow> ok (rv_store r')"
  by (auto simp: handle_message_def split: option.splits sum.splits dest: call_kept)

lemma messages_kept: "ok (rv_store r) \<Longrightarrow> handle_messages ob ms r = (res, r') \<Longrightarrow> ok (rv_store r')"
  by (induction ms arbitrary: r) (auto split: prod.splits sum.splits dest: message_kept)

lemma flush_kept: "ok st \<Longrightarrow> flush_pending ob st = (res, st') \<Longrightarrow> ok st'"
proof -
  have "ok (fold (notify_pending ob) es st)" if "ok st" for es st
    using that by (induction es arbitrary: st) (auto intro: notify_kept)
  then show "ok st \<Longrightarrow> flush_pending ob st = (res, st') \<Longrightarrow> ok st'" by (auto simp: flush_pending_def split: sum.splits)
qed

lemma heartbeat_kept: "ok st \<Longrightarrow> ok (stream_heartbeat ps status details err st)"
  by (simp add: stream_heartbeat_def record_heartbeat_def keeps_heartbeat Let_def)

end

context observed_store
begin

lemma same_kind: "observed_store ok (ob\<lparr> po_subscription_type := k \<rparr>)"
  by unfold_locales (simp_all add: keeps_add_event keeps_open_incident keeps_mark keeps_telemetry keeps_heartbeat)

lemma body_kept:
  assumes "ps_observer ps = ob" "ok (rv_store r)" "stream_body ps kind con (s, r) = (out, s', r')"
  shows "ok (rv_store r')"
proof (cases con)
  case (Unreachable e)
  with assms show ?thesis by (simp add: stream_body_def)
next
  case (Acknowledged ack ms ending)
  let ?hb = "stream_heartbeat ps ''ok'' (active_details ps kind (sm_endpoint s)) None (rv_store r)"
  obtain q st where q: "flush_pending ob ?hb = (q, st)" by fastforce
  have st: "ok st" by (rule flush_kept [OF heartbeat_kept [OF assms(2)] q])
  obtain u r1 where m: "handle_messages (ob\<lparr> po_subscription_type := kind \<rparr>) ms (r\<lparr> rv_store := st \<rparr>) = (u, r1)" by fastforce
  have "ok (rv_store r1)" by (rule observed_store.messages_kept [OF same_kind _ m]) (simp add: st)
  with Acknowledged assms q st m show ?thesis
    by (auto simp: stream_body_def split: option.splits sum.splits)
qed

lemma session_kept:
  assumes "ps_observer ps = ob" "ok (rv_store r)" "session ps con (s, r) = (res, wait, s', r')"
  shows "ok (rv_store r')"
proof (cases "pending_subscription_request (po_chain ob) (ps_hosts ps ! sm_endpoint s) (watched_addresses ob)")
  case (Inl e)
  with assms show ?thesis by (simp add: session_def)
next
  case (Inr q)
  obtain kind req where q: "q = (kind, req)" by (cases q)
  obtain out s1 r1 where b: "stream_body ps kind con (s, r) = (out, s1, r1)" by (metis prod_cases3)
  have "ok (rv_store r1)" by (rule body_kept [OF assms(1,2) b])
  with assms Inr q b show ?thesis
    by (auto simp: session_def heartbeat_kept stream_failed_def split: option.splits)
qed

lemma sessions_kept:
  "ps_observer ps = ob \<Longrightarrow> ok (rv_store r) \<Longrightarrow> sessions ps cons (s, r) = (trace, res, s', r') \<Longrightarrow> ok (rv_store r')"
proof (induction cons arbitrary: s r trace)
  case (Cons con cons)
  obtain u wait s1 r1 where one: "session ps con (s, r) = (u, wait, s1, r1)" by (metis prod_cases4)
  have k: "ok (rv_store r1)" by (rule session_kept [OF Cons.prems(1,2) one])
  with one Cons.prems show ?case
    by (cases u) (auto split: prod.splits intro: Cons.IH [OF Cons.prems(1) k])
qed simp

end

text \<open>The invariants of the store, and the tables each part of the handling leaves alone.\<close>

interpretation observed_events: observed_store wf_events ob for ob
  by unfold_locales (auto simp: wf_events_def record_pending_telemetry_def put_telemetry_def put_abi_def put_heartbeat_def)

interpretation observed_incidents: observed_store "incident_reach (po_digest ob)" ob for ob
  by unfold_locales (erule incident_reach.step, rule incident_step.frame,
    simp_all add: record_pending_telemetry_def put_telemetry_def put_abi_def put_heartbeat_def)+

interpretation observed_scores: observed_store scored_events ob for ob
  by unfold_locales (auto simp: scored_events_def record_pending_telemetry_def put_telemetry_def put_abi_def put_heartbeat_def)

definition sans_abis :: "store \<Rightarrow> store" where
  "sans_abis st = st\<lparr> st_abis := [] \<rparr>"

interpretation resolver_frame: abi_store "\<lambda>st. sans_abis st = t" for t
  by unfold_locales (auto simp: sans_abis_def put_abi_def)

end
