(* ===== verification/Mempool_Properties.thy ===== *)
theory Mempool_Properties
  imports Mempool_Stream
begin

text \<open>
  What the observer of \<^verbatim>\<open>src/white_radar/mempool.py\<close> promises: reconnection visits every endpoint with a
  bounded wait, the store keeps its invariants, a call is promoted exactly under the condition of
  the source, and a call seen again changes nothing.
\<close>

section \<open>Recording a call\<close>

definition event_ids :: "store \<Rightarrow> string set" where
  "event_ids st = er_event_id ` set (st_events st)"

lemma add_event_known: "ev_event_id e \<in> event_ids st \<Longrightarrow> add_event e st = (False, st)"
  by (simp add: add_event_def insert_event_row_def insert_or_ignore_def event_ids_def event_row_of_def)

lemma add_event_new:
  "ev_event_id e \<notin> event_ids st \<Longrightarrow> add_event e st = (True, st\<lparr> st_events := st_events st @ [event_row_of e] \<rparr>)"
  by (simp add: add_event_def insert_event_row_def insert_or_ignore_def event_ids_def event_row_of_def)

lemma event_ids_notify [simp]: "event_ids (notify_pending ob e st) = event_ids st"
  by (simp add: event_ids_def notify_pending_def mark_alerted_def keys_update_row flip: set_map)

lemma incidents_notify [simp]: "st_incidents (notify_pending ob e st) = st_incidents st"
  by (simp add: notify_pending_def mark_alerted_def)

lemma events_open [simp]: "st_events (snd (open_incident d ck e m sla p st)) = st_events st"
  by (simp add: open_incident_def insert_incident_def Let_def)

lemma sans_graph_same:
  "sans_graph st = sans_graph st' \<Longrightarrow> st_events st = st_events st' \<and> st_incidents st = st_incidents st'"
  by (cases st; cases st') (simp add: sans_graph_def)

text \<open>The incident of an event, under either of the two keys the table checks.\<close>

definition has_incident :: "observer \<Rightarrow> string \<Rightarrow> store \<Rightarrow> bool" where
  "has_incident ob i st \<longleftrightarrow> (\<exists>r \<in> set (st_incidents st).
     in_event_id r = i \<or> in_incident_id r = stable_event_id (po_digest ob) [''incident'', i])"

lemma open_has_incident:
  "clamp 0 100 m \<le> ev_score e \<Longrightarrow> has_incident ob (ev_event_id e) (snd (open_incident (po_digest ob) ck e m sla p st))"
  by (auto simp: has_incident_def open_incident_def insert_incident_def new_incident_def Let_def)

lemma record_pending_known:
  "ev_event_id e \<in> event_ids st \<Longrightarrow> record_pending ob p e st = (Inr (), st)"
  by (simp add: record_pending_def add_event_known)

lemma record_pending_new:
  assumes "ev_event_id e \<notin> event_ids st" "record_pending ob p e st = (res, st')"
  shows "event_ids st' = insert (ev_event_id e) (event_ids st)
    \<and> (clamp 0 100 (po_incident_minimum_score ob) \<le> ev_score e \<longrightarrow> has_incident ob (ev_event_id e) st')"
proof -
  obtain i st2 where i: "open_incident (po_digest ob) (po_clock ob) e (po_incident_minimum_score ob) (pending_sla ob p)
      (Some (cw_protocol (pc_watched p))) (st\<lparr> st_events := st_events st @ [event_row_of e] \<rparr>) = (i, st2)" by fastforce
  obtain q st3 where q: "link_pending ob p e st2 = (q, st3)" by fastforce
  have "sans_graph st3 = sans_graph st2" by (rule graph_frame.link_kept [OF refl q])
  then have same: "event_ids st3 = event_ids st2" "has_incident ob x st3 = has_incident ob x st2" for x
    using sans_graph_same [of st3 st2] by (simp_all add: event_ids_def has_incident_def)
  have ev: "event_ids st2 = insert (ev_event_id e) (event_ids st)"
    using arg_cong [OF i [symmetric], of "\<lambda>x. st_events (snd x)"] by (simp add: event_ids_def event_row_of_def)
  have inc: "clamp 0 100 (po_incident_minimum_score ob) \<le> ev_score e \<longrightarrow> has_incident ob (ev_event_id e) st2"
    using open_has_incident [of "po_incident_minimum_score ob" e ob] arg_cong [OF i, of snd] by (metis snd_conv)
  have "st' = st3 \<or> st' = notify_pending ob e st3"
    using assms(2) by (cases q) (simp_all add: record_pending_def add_event_new [OF assms(1)] i q)
  with same ev inc show ?thesis by (auto simp: has_incident_def)
qed

lemma decode_frame:
  assumes "decode_pending ob p r = (res, r')"
  shows "sans_abis (rv_store r') = sans_abis (rv_store r)"
  by (rule resolver_frame.decode_kept [OF refl assms])

lemma sans_abis_same:
  "sans_abis st = sans_abis st' \<Longrightarrow> event_ids st = event_ids st' \<and> has_incident ob i st = has_incident ob i st'"
  by (cases st; cases st') (simp add: sans_abis_def event_ids_def has_incident_def)

lemma telemetry_events [simp]:
  "event_ids (record_pending_telemetry ck c a sel pr tx w st) = event_ids st"
  by (simp add: event_ids_def record_pending_telemetry_def put_telemetry_def)

lemma promote_settled:
  assumes "promote ob p r = (Inr (), r')"
  shows "event_ids (rv_store r') = insert (pending_id ob p) (event_ids (rv_store r))
    \<and> (pending_id ob p \<notin> event_ids (rv_store r) \<longrightarrow> clamp 0 100 (po_incident_minimum_score ob) \<le> pc_score p
        \<longrightarrow> has_incident ob (pending_id ob p) (rv_store r'))"
  using assms
proof (cases rule: promote_cases)
  case (recorded d s e r1 st)
  note f = pending_event_fields [OF recorded(3)] and g = final_score_range [OF recorded(2)]
  have same: "event_ids (rv_store r1) = event_ids (rv_store r)" using sans_abis_same decode_frame [OF recorded(1)] by blast
  show ?thesis
  proof (cases "ev_event_id e \<in> event_ids (rv_store r1)")
    case True
    with recorded(4,5) f same show ?thesis by (auto simp: record_pending_known)
  next
    case False
    from record_pending_new [OF this recorded(4)] recorded(5) f g same show ?thesis by auto
  qed
qed simp_all

lemma promote_known:
  assumes "promote ob p r = (res, r')" "pending_id ob p \<in> event_ids (rv_store r)"
  shows "sans_abis (rv_store r') = sans_abis (rv_store r)"
  using assms(1)
proof (cases rule: promote_cases)
  case (recorded d s e r1 st)
  have "ev_event_id e \<in> event_ids (rv_store r1)"
    using pending_event_fields [OF recorded(3)] sans_abis_same decode_frame [OF recorded(1)] assms(2) by metis
  with recorded decode_frame [OF recorded(1)] show ?thesis by (simp add: record_pending_known)
qed (auto dest: decode_frame)

section \<open>An example\<close>

definition demo_observed_chain :: chain_config where
  "demo_observed_chain = \<lparr> cc_name = ''ethereum'', cc_display_name = ''Ethereum'', cc_chain_id = 1, cc_enabled = True,
     cc_is_testnet = False, cc_rpc_http_env = ''R'', cc_rpc_ws_env = ''W'', cc_explorer_url = ''e'', cc_confirmations = 3,
     cc_initial_lookback_blocks = 1, cc_max_blocks_per_cycle = 25, cc_monitor_global_upgrades = False,
     cc_pending_subscription = ''auto'', cc_trace_internal_creations = False,
     cc_rpc_http_fallback_envs = [], cc_rpc_ws_fallback_envs = [] \<rparr>"

definition demo_watch :: contract_watch where
  "demo_watch = \<lparr> cw_chain_id = 1, cw_address = ''0xaa'', cw_protocol = ''p'', cw_role = ''r'', cw_bounty_url = [],
     cw_contact_uri = [], cw_critical_selectors = [''0x3659cfe6''] \<rparr>"

definition demo_observer :: observer where
  "demo_observer = \<lparr> po_chain = demo_observed_chain, po_watchlist = \<lparr> wl_contracts = [demo_watch], wl_deployers = [] \<rparr>,
     po_policies = \<lparr> pb_policies = [], pb_source_sha256 = None \<rparr>, po_rpc = (\<lambda>m ps. Inl RpcError),
     po_notifier = \<lparr> tn_config = \<lparr> tg_enabled = True, tg_minimum_score = 15, tg_send_testnet_alerts = False \<rparr>,
       tn_dry_run = False, tn_token = ''t'', tn_chat_id = ''c'', tn_post = (\<lambda>m. Inr (JObj [(''ok'', JBool True)])) \<rparr>,
     po_resolver = None, po_subscription_type = ''s'', po_incident_minimum_score = 20, po_incident_sla_minutes = 30,
     po_simulation_enabled = False, po_simulation_minimum_score = 70, po_trace_call_enabled = False,
     po_digest = (\<lambda>s. s), po_sha256 = (\<lambda>b. ''h''), po_clock = demo_clock \<rparr>"

text \<open>An upgrade call to the watched contract.\<close>

definition demo_transaction :: dict where
  "demo_transaction = [(''hash'', JStr ''0x1''), (''to'', JStr ''0xAA''), (''from'', JStr ''0xBB''), (''input'', JStr ''0x3659cfe6'')]"

definition demo_call :: pending_call where
  "demo_call = \<lparr> pc_tx_hash = ''0x1'', pc_transaction = demo_transaction, pc_destination = ''0xaa'', pc_watched = demo_watch,
     pc_calldata = ''0x3659cfe6'', pc_selector = ''0x3659cfe6'', pc_value = 0, pc_sender = Some ''0xbb'', pc_policy = None \<rparr>"

definition demo_memory :: resolver where
  "demo_memory = \<lparr> rv_memory = [], rv_unavailable = [], rv_store = empty_store \<rparr>"

definition demo_stream :: stream where
  "demo_stream = \<lparr> ps_observer = demo_observer, ps_hosts = [None, Some ''h''], ps_http_endpoints = 1, ps_class_name = (\<lambda>e. ''E'') \<rparr>"

definition demo_connection :: connection where
  "demo_connection = Acknowledged (JObj [(''result'', JStr ''0x9'')])
     [None, Some (JObj [(''params'', JObj [(''result'', JObj demo_transaction)])])] None"

lemma demo_call_read: "pending_call_of demo_observer ''0x1'' demo_transaction = Inr (Some demo_call)"
  by code_simp

lemma demo_call_runs:
  "case handle_call demo_observer demo_call demo_memory of (q, r') \<Rightarrow> q = Inr () \<and> map er_event_id (st_events (rv_store r')) = [pending_id demo_observer demo_call]
     \<and> \<not> pc_aggregated demo_call \<and> length (st_incidents (rv_store r')) = 1 \<and> length (st_edges (rv_store r')) = 2"
  by code_simp

lemma demo_session_runs:
  "case sessions demo_stream [Unreachable ''OSError'', demo_connection] (stream_start, demo_memory) of (trace, res, s, r') \<Rightarrow>
     trace = [(0, 1), (1, 0)] \<and> res = Inr () \<and> length (st_events (rv_store r')) = 1 \<and> length (st_heartbeats (rv_store r')) = 1"
  by code_simp

section \<open>Properties\<close>

text \<open>C26. Reconnection visits every endpoint with bounded waits. While connections fail before their
  subscription is accepted, the k-th attempt (from 0) uses endpoint k modulo the number of
  endpoints and is followed by a wait of min(30, 2^k) seconds, so n consecutive failures try
  each of n endpoints once; the observer never gives up and no event is recorded.\<close>

theorem reconnect_schedule:
  assumes "\<forall>h \<in> set (ps_hosts ps). \<exists>q. pending_subscription_request (po_chain (ps_observer ps)) h (watched_addresses (ps_observer ps)) = Inr q"
    and "ps_hosts ps \<noteq> []" and "list_all unaccepted cons"
  shows "\<exists>s' r'. sessions ps cons (stream_start, r) =
       (map (\<lambda>k. (k mod length (ps_hosts ps), min 30 (2 ^ k))) [0..<length cons], Inr (), s', r')
     \<and> st_events (rv_store r') = st_events (rv_store r)"
proof -
  have "stream_start = \<lparr> sm_endpoint = 0 mod length (ps_hosts ps), sm_backoff = backoff 0 \<rparr>" by (simp add: stream_start_def)
  from sessions_unaccepted [OF assms this, of r] show ?thesis by (auto simp: backoff_def)
qed

theorem reconnect_schedule_witness:
  "fst (sessions demo_stream [Unreachable ''OSError'', Acknowledged (JObj []) [] None, Unreachable ''OSError''] (stream_start, demo_memory))
     = [(0, 1), (1, 2), (0, 4)]"
proof -
  have a: "\<forall>h \<in> set (ps_hosts demo_stream). \<exists>q. pending_subscription_request (po_chain (ps_observer demo_stream)) h
      (watched_addresses (ps_observer demo_stream)) = Inr q"
    by (simp add: demo_stream_def demo_observer_def demo_observed_chain_def pending_subscription_request_def use_alchemy_def
        endswith_def lower_def)
  have b: "ps_hosts demo_stream \<noteq> []" "list_all unaccepted [Unreachable ''OSError'', Acknowledged (JObj []) [] None, Unreachable ''OSError'']"
    by (simp_all add: demo_stream_def unaccepted_def accepted_def dget_def)
  have c: "length (ps_hosts demo_stream) = 2" by (simp add: demo_stream_def)
  from reconnect_schedule [OF a b, of demo_memory] c show ?thesis by (auto simp: upt_rec)
qed

text \<open>The observer keeps the store well formed, whatever the endpoints, the node and the explorer
  answer, through any run of sessions: events stay distinct and readable, the incidents stay a
  reachable state of the incident machine, and every recorded score lies between 0 and 100.\<close>

theorem observer_keeps_store:
  assumes "sessions ps cons (s, r) = (trace, res, s', r')"
    and "wf_events (rv_store r)" and "incident_reach (po_digest (ps_observer ps)) (rv_store r)" and "scored_events (rv_store r)"
  shows "wf_events (rv_store r') \<and> incident_reach (po_digest (ps_observer ps)) (rv_store r') \<and> scored_events (rv_store r')"
  using observed_events.sessions_kept [OF refl assms(2,1)] observed_incidents.sessions_kept [OF refl assms(3,1)]
    observed_scores.sessions_kept [OF refl assms(4,1)] by (intro conjI)

theorem observer_keeps_store_witness:
  "wf_events (rv_store (snd (snd (snd (sessions demo_stream [Unreachable ''OSError'', demo_connection] (stream_start, demo_memory))))))"
proof -
  obtain trace res s r' where run: "sessions demo_stream [Unreachable ''OSError'', demo_connection] (stream_start, demo_memory)
      = (trace, res, s, r')" by (metis prod_cases4)
  have d: "rv_store demo_memory = empty_store" "scored_events empty_store"
    by (simp_all add: demo_memory_def scored_events_def empty_store_def)
  have i: "incident_reach (po_digest (ps_observer demo_stream)) empty_store" by (rule incident_reach.start)
  from observer_keeps_store [OF run] d i wf_events_empty show ?thesis by (simp add: run del: sessions.simps)
qed

text \<open>C18. A watched pending call that is handled without an exception is never lost and never
  over-reported: its event is in the store exactly if it was there or the call is not to be
  aggregated, and no other event appears. A call with a critical selector, a policy finding or a
  score of at least 30 is never aggregated, and a new one whose score reaches the threshold has
  an incident.\<close>

theorem pending_call_settled:
  assumes "handle_call ob p r = (Inr (), r')"
  shows "event_ids (rv_store r') = event_ids (rv_store r) \<union> (if pc_aggregated p then {} else {pending_id ob p})
    \<and> (pc_critical p \<or> pc_findings p \<noteq> [] \<or> 30 \<le> pc_score p \<longleftrightarrow> \<not> pc_aggregated p)
    \<and> (\<not> pc_aggregated p \<longrightarrow> pending_id ob p \<notin> event_ids (rv_store r)
        \<longrightarrow> clamp 0 100 (po_incident_minimum_score ob) \<le> pc_score p \<longrightarrow> has_incident ob (pending_id ob p) (rv_store r'))"
proof -
  have "pc_critical p \<or> pc_findings p \<noteq> [] \<or> 30 \<le> pc_score p \<longleftrightarrow> \<not> pc_aggregated p"
    by (auto simp: pc_aggregated_def pc_critical_def)
  moreover have "pc_aggregated p \<Longrightarrow> event_ids (rv_store r') = event_ids (rv_store r)"
    using assms by (auto simp: handle_call_def)
  moreover have "\<not> pc_aggregated p \<Longrightarrow> event_ids (rv_store r') = insert (pending_id ob p) (event_ids (rv_store r))
      \<and> (pending_id ob p \<notin> event_ids (rv_store r) \<longrightarrow> clamp 0 100 (po_incident_minimum_score ob) \<le> pc_score p
          \<longrightarrow> has_incident ob (pending_id ob p) (rv_store r'))"
    using assms promote_settled by (simp add: handle_call_def)
  ultimately show ?thesis by simp
qed

theorem pending_call_settled_witness:
  "has_incident demo_observer (pending_id demo_observer demo_call) (rv_store (snd (handle_call demo_observer demo_call demo_memory)))"
proof -
  obtain q r' where run: "handle_call demo_observer demo_call demo_memory = (q, r')" by (cases "handle_call demo_observer demo_call demo_memory")
  with demo_call_runs have "q = Inr ()" and a: "\<not> pc_aggregated demo_call" by auto
  note ran = run [unfolded \<open>q = Inr ()\<close>]
  have "event_ids (rv_store demo_memory) = {}" by (simp add: demo_memory_def event_ids_def empty_store_def)
  moreover have "clamp 0 100 (po_incident_minimum_score demo_observer) \<le> pc_score demo_call" by code_simp
  ultimately show ?thesis using pending_call_settled [OF ran] a run by simp
qed

text \<open>C25. Seeing a pending call again is harmless. Once a promoted call was handled, handling it again
  in any later store that still has its event changes nothing of the store but the ABI catalog:
  no event, no incident, no alert, no identity, no telemetry.\<close>

theorem pending_call_once:
  assumes "handle_call ob p r = (Inr (), r')" and "\<not> pc_aggregated p"
    and "event_ids (rv_store r') \<subseteq> event_ids (rv_store u)" and "handle_call ob p u = (res, u')"
  shows "sans_abis (rv_store u') = sans_abis (rv_store u)"
proof -
  have "pending_id ob p \<in> event_ids (rv_store u)" using promote_settled assms(1-3) by (force simp: handle_call_def)
  with assms(2,4) show ?thesis by (auto simp: handle_call_def dest: promote_known)
qed

theorem pending_call_once_witness:
  "\<exists>r'. handle_call demo_observer demo_call demo_memory = (Inr (), r')
     \<and> sans_abis (rv_store (snd (handle_call demo_observer demo_call r'))) = sans_abis (rv_store r')"
proof -
  obtain q r' where run: "handle_call demo_observer demo_call demo_memory = (q, r')" by (cases "handle_call demo_observer demo_call demo_memory")
  with demo_call_runs have "q = Inr ()" and a: "\<not> pc_aggregated demo_call" by auto
  note ran = run [unfolded \<open>q = Inr ()\<close>]
  obtain q2 r2 where again: "handle_call demo_observer demo_call r' = (q2, r2)" by (cases "handle_call demo_observer demo_call r'")
  from pending_call_once [OF ran a subset_refl again] ran again show ?thesis by auto
qed

end
