(* ===== verification/Token_Metadata.thy ===== *)
theory Token_Metadata
  imports Investigation
begin

text \<open>
  \<^verbatim>\<open>src/white_radar/token_metadata.py\<close>: display metadata of tokens at a pinned block. UTF-8 decoding
  with replacement is the parameter \<open>utf8\<close>; the resolver's caches are a record, and a method
  returns its result with the new caches.
\<close>

section \<open>Returned bytes\<close>

definition NAME_SELECTOR :: string where "NAME_SELECTOR = ''0x06fdde03''"
definition SYMBOL_SELECTOR :: string where "SYMBOL_SELECTOR = ''0x95d89b41''"
definition DECIMALS_SELECTOR :: string where "DECIMALS_SELECTOR = ''0x313ce567''"
definition MAX_TEXT_BYTES :: nat where "MAX_TEXT_BYTES = 256"

definition response_bytes :: "string \<Rightarrow> bytes" where
  "response_bytes v =
     (if \<not> startswith ''0x'' v \<or> odd (length v) then []
      else case fromhex (drop 2 v) of None \<Rightarrow> [] | Some raw \<Rightarrow> raw)"

definition rstrip_of :: "'a \<Rightarrow> 'a list \<Rightarrow> 'a list" where
  "rstrip_of x xs = rev (dropWhile (\<lambda>y. y = x) (rev xs))"

definition clean_text :: "(bytes \<Rightarrow> string) \<Rightarrow> bytes \<Rightarrow> string option" where
  "clean_text utf8 v = none_if_empty (take 128 (squeeze (strip (utf8 (rstrip_of 0 (take MAX_TEXT_BYTES v))))))"

definition decode_abi_text :: "(bytes \<Rightarrow> string) \<Rightarrow> string \<Rightarrow> string option" where
  "decode_abi_text utf8 v =
     (let raw = response_bytes v in
      if raw = [] then None
      else if length raw = 32 then clean_text utf8 raw
      else if length raw < 64 then None
      else (let offset = from_be (take 32 raw) in
            if offset mod 32 \<noteq> 0 \<or> length raw < offset + 32 then None
            else (let n = from_be (take 32 (drop offset raw)); start = offset + 32 in
                  if MAX_TEXT_BYTES < n \<or> length raw < start + n then None
                  else clean_text utf8 (take n (drop start raw)))))"

definition decode_uint :: "string \<Rightarrow> int option" where
  "decode_uint v =
     (let raw = response_bytes v in if length raw < 32 then None else Some (int (from_be (take 32 raw))))"

section \<open>Amounts\<close>

text \<open>\<^verbatim>\<open>f"{n:0{width}d}"\<close> for \<open>n\<close> not negative\<close>

definition zero_padded :: "nat \<Rightarrow> nat \<Rightarrow> string" where
  "zero_padded width n = replicate (width - length (nat_str n)) (CHR ''0'') @ nat_str n"

definition format_token_amount :: "string \<Rightarrow> int option \<Rightarrow> string option" where
  "format_token_amount raw_amount decimals =
     (case decimals of
        None \<Rightarrow> None
      | Some d \<Rightarrow>
          if d < 0 \<or> 255 < d then None
          else (case py_int10 raw_amount of
             Inl e \<Rightarrow> None
           | Inr amount \<Rightarrow>
               if d = 0 then Some (int_str amount)
               else (let scale = 10 ^ nat d; whole = amount div scale; fraction = amount mod scale in
                     if fraction = 0 then Some (int_str whole)
                     else Some (int_str whole @ ''.'' @ rstrip_of (CHR ''0'') (zero_padded (nat d) (nat fraction))))))"

section \<open>The resolver\<close>

record token_metadata =
  td_address :: string
  td_name :: "string option"
  td_symbol :: "string option"
  td_decimals :: "int option"
  td_block_number :: int

type_synonym token_key = "string \<times> int"

record token_caches =
  tc_found :: "(token_key \<times> token_metadata) list"
  tc_attempted :: "token_key list"

definition no_tokens :: token_caches where
  "no_tokens = \<lparr> tc_found = [], tc_attempted = [] \<rparr>"

definition contract_limit :: "int \<Rightarrow> nat" where
  "contract_limit max_contracts = nat (max 0 (min 512 max_contracts))"

definition token_gap :: "exn \<Rightarrow> bool" where
  "token_gap e = (is_rpc_error e \<or> e = AttributeError \<or> is_value_error e)"

text \<open>\<^verbatim>\<open>contextlib.suppress\<close> around one read\<close>

definition suppressed :: "'a option res \<Rightarrow> 'a option res" where
  "suppressed r = (case r of Inl e \<Rightarrow> if token_gap e then Inr None else Inl e | Inr x \<Rightarrow> Inr x)"

definition read_token :: "rpc \<Rightarrow> string \<Rightarrow> int \<Rightarrow> string \<Rightarrow> (string \<Rightarrow> 'a option) \<Rightarrow> 'a option res" where
  "read_token call address block_number selector decode =
     suppressed (and_then (rpc_eth_call call [(''to'', JStr address), (''data'', JStr selector)] (int_to_hex block_number))
       (\<lambda>v. Inr (decode v)))"

definition valid_decimals :: "int option \<Rightarrow> int option" where
  "valid_decimals c = (case c of None \<Rightarrow> None | Some d \<Rightarrow> if 0 \<le> d \<and> d \<le> 255 then Some d else None)"

definition fetch_token :: "(bytes \<Rightarrow> string) \<Rightarrow> rpc \<Rightarrow> string \<Rightarrow> int \<Rightarrow> token_metadata option res" where
  "fetch_token utf8 call address block_number =
     and_then (read_token call address block_number NAME_SELECTOR (decode_abi_text utf8)) (\<lambda>name.
     and_then (read_token call address block_number SYMBOL_SELECTOR (decode_abi_text utf8)) (\<lambda>symbol.
     and_then (read_token call address block_number DECIMALS_SELECTOR (\<lambda>v. valid_decimals (decode_uint v))) (\<lambda>decimals.
       Inr (if name = None \<and> symbol = None \<and> decimals = None then None
            else Some \<lparr> td_address = lower address, td_name = name, td_symbol = symbol, td_decimals = decimals,
                   td_block_number = block_number \<rparr>))))"

text \<open>When the node is asked for the metadata of a contract at a block: it is not cached, was not asked
  before, and the number of contracts asked is below the limit.\<close>

definition must_ask :: "nat \<Rightarrow> token_key \<Rightarrow> token_caches \<Rightarrow> bool" where
  "must_ask limit key tc \<longleftrightarrow> map_of (tc_found tc) key = None \<and> key \<notin> set (tc_attempted tc) \<and> length (tc_attempted tc) < limit"

definition resolve_token ::
  "(bytes \<Rightarrow> string) \<Rightarrow> rpc \<Rightarrow> nat \<Rightarrow> string \<Rightarrow> int \<Rightarrow> token_caches \<Rightarrow> token_metadata option res \<times> token_caches" where
  "resolve_token utf8 call limit address block_number tc =
     (let key = (lower address, block_number) in
      case map_of (tc_found tc) key of
        Some m \<Rightarrow> (Inr (Some m), tc)
      | None \<Rightarrow>
          if \<not> must_ask limit key tc then (Inr None, tc)
          else (let tc1 = tc\<lparr> tc_attempted := tc_attempted tc @ [key] \<rparr> in
                case fetch_token utf8 call address block_number of
                  Inl e \<Rightarrow> (Inl e, tc1)
                | Inr None \<Rightarrow> (Inr None, tc1)
                | Inr (Some m) \<Rightarrow> (Inr (Some m), tc1\<lparr> tc_found := (key, m) # tc_found tc1 \<rparr>)))"

definition enrich_transfer ::
  "(bytes \<Rightarrow> string) \<Rightarrow> rpc \<Rightarrow> nat \<Rightarrow> int \<Rightarrow> asset_transfer \<Rightarrow> token_caches \<Rightarrow> asset_transfer res \<times> token_caches" where
  "enrich_transfer utf8 call limit block_number t tc =
     (if at_asset_type t \<noteq> ''erc20'' \<or> \<not> truthy_opt (at_asset_address t) then (Inr t, tc)
      else case resolve_token utf8 call limit (the (at_asset_address t)) block_number tc of
        (Inl e, tc') \<Rightarrow> (Inl e, tc')
      | (Inr None, tc') \<Rightarrow> (Inr t, tc')
      | (Inr (Some m), tc') \<Rightarrow>
          (Inr (t\<lparr> at_asset_name := td_name m, at_asset_symbol := td_symbol m, at_asset_decimals := td_decimals m,
                  at_amount_display := format_token_amount (at_amount t) (td_decimals m) \<rparr>), tc'))"

fun enrich_transfers ::
  "(bytes \<Rightarrow> string) \<Rightarrow> rpc \<Rightarrow> nat \<Rightarrow> int \<Rightarrow> asset_transfer list \<Rightarrow> token_caches \<Rightarrow> asset_transfer list res \<times> token_caches" where
  "enrich_transfers utf8 call limit n [] tc = (Inr [], tc)"
| "enrich_transfers utf8 call limit n (t # ts) tc =
     (case enrich_transfer utf8 call limit n t tc of
        (Inl e, tc') \<Rightarrow> (Inl e, tc')
      | (Inr t', tc') \<Rightarrow>
          (case enrich_transfers utf8 call limit n ts tc' of
             (Inl e, tc'') \<Rightarrow> (Inl e, tc'')
           | (Inr ts', tc'') \<Rightarrow> (Inr (t' # ts'), tc'')))"

definition enrich_case ::
  "(bytes \<Rightarrow> string) \<Rightarrow> rpc \<Rightarrow> nat \<Rightarrow> investigation_case \<Rightarrow> token_caches \<Rightarrow> investigation_case res \<times> token_caches" where
  "enrich_case utf8 call limit k tc =
     (case enrich_transfers utf8 call limit (ik_block k) (ik_transfers k) tc of
        (Inl e, tc') \<Rightarrow> (Inl e, tc')
      | (Inr ts, tc') \<Rightarrow>
          (Inr (k\<lparr> ik_transfers := ts, ik_relationships := build_relationships (ik_calls k) ts \<rparr>), tc'))"

end
