(* ===== verification/Reconstruction.thy ===== *)
theory Reconstruction
  imports History Token_Metadata
begin

text \<open>
  \<^verbatim>\<open>src/white_radar/reconstruction.py\<close>: the bounded exploration around a seed transaction, hop by hop,
  and the aggregates of the cases it finds. A Python set is a list without repetitions, a
  dictionary an association list in insertion order. The state of the loop is the record
  \<open>exploration\<close>; it carries the states of the history source and of the token resolver. What the
  ABI resolver's caches hold after a failed investigation is a parameter.
\<close>

section \<open>Limits\<close>

record recon_limits =
  lm_backward_blocks :: int
  lm_forward_blocks :: int
  lm_max_hops :: int
  lm_max_transactions :: int
  lm_max_frontier_addresses :: int
  lm_history_records :: int
  lm_hub_min_records :: int
  lm_hub_min_counterparties :: int
  lm_max_hub_transactions :: int

definition limit_bounds :: "recon_limits \<Rightarrow> (int \<times> int \<times> int) list" where
  "limit_bounds l =
     [(lm_backward_blocks l, 0, 100000), (lm_forward_blocks l, 0, 100000), (lm_max_hops l, 0, 8),
      (lm_max_transactions l, 1, 2000), (lm_max_frontier_addresses l, 1, 2000), (lm_history_records l, 1, 5000),
      (lm_hub_min_records l, 2, 5000), (lm_hub_min_counterparties l, 2, 5000), (lm_max_hub_transactions l, 1, 500)]"

definition checked_limits :: "recon_limits \<Rightarrow> recon_limits res" where
  "checked_limits l =
     (if list_all (\<lambda>(v, low, high). low \<le> v \<and> v \<le> high) (limit_bounds l) then Inr l else Inl ValueError)"

definition default_limits :: recon_limits where
  "default_limits = \<lparr> lm_backward_blocks = 256, lm_forward_blocks = 512, lm_max_hops = 3, lm_max_transactions = 100,
     lm_max_frontier_addresses = 64, lm_history_records = 200, lm_hub_min_records = 64, lm_hub_min_counterparties = 32,
     lm_max_hub_transactions = 12 \<rparr>"

section \<open>Reading records\<close>

definition source_address :: "investigation_case \<Rightarrow> string \<Rightarrow> string option" where
  "source_address k key =
     (let v = lower (str_or (dget (ik_source_transaction k) key) []) in
      if length v = 42 \<and> startswith ''0x'' v then Some v else None)"

definition real_address :: "string option \<Rightarrow> string list" where
  "real_address a = (case a of None \<Rightarrow> [] | Some x \<Rightarrow> if x = [] \<or> x = ZERO_ADDRESS then [] else [x])"

definition transfer_ends :: "asset_transfer \<Rightarrow> string list" where
  "transfer_ends t =
     (if at_execution_effect t \<noteq> EXECUTION_COMMITTED then []
      else filter (\<lambda>a. a \<noteq> ZERO_ADDRESS) [at_sender t, at_recipient t])"

definition seed_frontier :: "investigation_case \<Rightarrow> (string \<times> nat) list" where
  "seed_frontier k =
     map (\<lambda>a. (a, 0)) (fromkeys (real_address (source_address k ''from'') @ real_address (source_address k ''to'')
       @ concat (map transfer_ends (ik_transfers k))))"

definition record_reason :: "string \<Rightarrow> history_record \<Rightarrow> string \<times> string option" where
  "record_reason address r =
     (if hr_sender r = Some address then (hr_record_type r @ '':sent_by:'' @ address, hr_recipient r)
      else if hr_recipient r = Some address then (hr_record_type r @ '':received_by:'' @ address, hr_sender r)
      else (hr_record_type r @ '':linked:'' @ address, None))"

definition record_base :: "string \<Rightarrow> int" where
  "record_base t =
     (if t = ''internal'' then 150 else if t \<in> {''erc20'', ''erc721'', ''erc1155''} then 135
      else if t = ''normal'' then 85 else 60)"

definition record_score :: "history_record \<Rightarrow> string \<Rightarrow> int \<Rightarrow> int" where
  "record_score r address seed_block =
     record_base (hr_record_type r)
     + (if hr_value r \<notin> {None, Some '''', Some ''0''} then 18 else 0)
     + (if (hr_block_number r < seed_block \<and> hr_recipient r = Some address)
           \<or> (seed_block < hr_block_number r \<and> hr_sender r = Some address) then 30 else 0)
     + max 0 (48 - min 48 \<bar>hr_block_number r - seed_block\<bar>)"

definition record_counterparties :: "string \<Rightarrow> history_record list \<Rightarrow> string list" where
  "record_counterparties address rs =
     remdups (concat (map (\<lambda>r.
       if hr_sender r = Some address \<and> real_address (hr_recipient r) \<noteq> [] then real_address (hr_recipient r)
       else if hr_recipient r = Some address then real_address (hr_sender r) else []) rs))"

text \<open>The transactions of a hub: the best score and the first block of each, ranked.\<close>

definition put_assoc :: "'k \<Rightarrow> 'v \<Rightarrow> ('k \<times> 'v) list \<Rightarrow> ('k \<times> 'v) list" where
  "put_assoc k v xs = (if k \<in> fst ` set xs then map (\<lambda>e. if fst e = k then (k, v) else e) xs else xs @ [(k, v)])"

definition hub_entry :: "string \<Rightarrow> int \<Rightarrow> history_record \<Rightarrow> (string \<times> int \<times> int) list \<Rightarrow> (string \<times> int \<times> int) list" where
  "hub_entry address seed_block r xs =
     (let (old, block) = (case map_of xs (hr_transaction_hash r) of None \<Rightarrow> (0, hr_block_number r) | Some e \<Rightarrow> e)
      in put_assoc (hr_transaction_hash r) (max old (record_score r address seed_block), block) xs)"

definition hub_rank :: "int \<Rightarrow> string \<times> int \<times> int \<Rightarrow> int \<times> int \<times> int \<times> string" where
  "hub_rank seed_block e = (case e of (h, best, block) \<Rightarrow> (- best, \<bar>block - seed_block\<bar>, block, h))"

definition hub_transactions :: "string \<Rightarrow> int \<Rightarrow> int \<Rightarrow> history_record list \<Rightarrow> string list" where
  "hub_transactions address seed_block max_transactions rs =
     map fst (take (nat max_transactions)
       (sort_key (hub_rank seed_block) (fold (hub_entry address seed_block) rs [])))"

definition bounded_hub_records ::
  "string \<Rightarrow> int \<Rightarrow> int \<Rightarrow> history_record list \<Rightarrow> history_record list \<times> nat" where
  "bounded_hub_records address seed_block max_transactions rs =
     (let chosen = hub_transactions address seed_block max_transactions rs;
          selected = filter (\<lambda>r. hr_transaction_hash r \<in> set chosen) rs
      in (selected, length rs - length selected))"

section \<open>Candidates\<close>

record candidate =
  ca_hash :: string
  ca_block :: int
  ca_hop :: nat
  ca_score :: int
  ca_reasons :: "string list"
  ca_records :: "(string \<times> history_record) list"
  ca_hub_sources :: "string list"
  ca_non_hub_sources :: "string list"

definition hub_only :: "candidate \<Rightarrow> bool" where
  "hub_only c \<longleftrightarrow> ca_hub_sources c \<noteq> [] \<and> ca_non_hub_sources c = []"

definition candidate_rank :: "candidate \<Rightarrow> int" where
  "candidate_rank c =
     max 0 (ca_score c + min 8 (int (length (ca_reasons c))) * 7 - (if hub_only c then 55 else 0))"

definition new_candidate :: "history_record \<Rightarrow> nat \<Rightarrow> candidate" where
  "new_candidate r depth = \<lparr> ca_hash = hr_transaction_hash r, ca_block = hr_block_number r, ca_hop = depth, ca_score = 0,
     ca_reasons = [], ca_records = [], ca_hub_sources = [], ca_non_hub_sources = [] \<rparr>"

definition support :: "string \<Rightarrow> bool \<Rightarrow> int \<Rightarrow> nat \<Rightarrow> history_record \<Rightarrow> candidate \<Rightarrow> candidate" where
  "support address is_hub seed_block depth r c =
     (let reasons = List.insert (fst (record_reason address r)) (ca_reasons c) in
      c\<lparr> ca_reasons := (if is_hub then List.insert (''hub_bounded:'' @ address) reasons else reasons),
         ca_hub_sources := (if is_hub then List.insert address (ca_hub_sources c) else ca_hub_sources c),
         ca_non_hub_sources := (if is_hub then ca_non_hub_sources c else List.insert address (ca_non_hub_sources c)),
         ca_records := ca_records c @ [(address, r)],
         ca_score := max (ca_score c) (record_score r address seed_block),
         ca_hop := min (ca_hop c) depth \<rparr>)"

definition add_record ::
  "string \<Rightarrow> string \<Rightarrow> bool \<Rightarrow> int \<Rightarrow> nat \<Rightarrow> history_record \<Rightarrow> (string \<times> candidate) list \<Rightarrow> (string \<times> candidate) list" where
  "add_record seed_hash address is_hub seed_block depth r cs =
     (if hr_transaction_hash r = seed_hash then cs
      else (let c = (case map_of cs (hr_transaction_hash r) of None \<Rightarrow> new_candidate r depth | Some c \<Rightarrow> c)
            in put_assoc (hr_transaction_hash r) (support address is_hub seed_block depth r c) cs))"

definition candidate_order :: "int \<Rightarrow> candidate \<Rightarrow> int \<times> int \<times> int \<times> string" where
  "candidate_order seed_block c =
     (- candidate_rank c, \<bar>ca_block c - seed_block\<bar>, ca_block c, ca_hash c)"

end
