(* ===== verification/Exploration.thy ===== *)
theory Exploration
  imports Reconstruction
begin

text \<open>
  The loop of \<^verbatim>\<open>reconstruct_attack_case\<close> (\<^verbatim>\<open>src/white_radar/reconstruction.py\<close>): query the histories of a
  frontier, rank the candidates it brings, investigate them within the budget, and extend the
  frontier by the addresses linked to them.
\<close>

section \<open>Contexts\<close>

record tx_context =
  tx_hash_of :: string
  tx_block :: int
  tx_index :: "int option"
  tx_timestamp :: "string option"
  tx_phase :: string
  tx_hop :: nat
  tx_relevance :: int
  tx_reasons :: "string list"
  tx_status :: string
  tx_sender :: "string option"
  tx_recipient :: "string option"
  tx_selector :: string
  tx_function_signature :: "string option"
  tx_function_confidence :: "string option"
  tx_function_source :: "string option"
  tx_arguments :: dict
  tx_call_count :: nat
  tx_event_count :: nat
  tx_transfer_count :: nat
  tx_account_change_count :: nat
  tx_storage_change_count :: nat
  tx_trace_available :: bool
  tx_core_candidate :: bool
  tx_core_reasons :: "string list"

definition phase :: "int \<Rightarrow> int \<Rightarrow> string \<Rightarrow> string \<Rightarrow> string" where
  "phase block_number seed_block tx_hash seed_hash =
     (if tx_hash = seed_hash then ''seed'' else if block_number < seed_block then ''pre_seed''
      else if seed_block < block_number then ''post_seed'' else ''same_block'')"

definition transaction_index :: "investigation_case \<Rightarrow> int option" where
  "transaction_index k =
     (let v = dget (ik_source_transaction k) ''transactionIndex'' in
      if v = JNull then None else case py_int16 (py_str v) of Inl e \<Rightarrow> None | Inr n \<Rightarrow> Some n)"

definition context_of :: "investigation_case \<Rightarrow> string \<Rightarrow> int \<Rightarrow> nat \<Rightarrow> int \<Rightarrow> string list \<Rightarrow> tx_context" where
  "context_of k seed_hash seed_block depth score reasons =
     (let root = ik_root_call k in
      \<lparr> tx_hash_of = ik_transaction_hash k, tx_block = ik_block k, tx_index = transaction_index k,
        tx_timestamp = ik_block_timestamp k, tx_phase = phase (ik_block k) seed_block (ik_transaction_hash k) seed_hash,
        tx_hop = depth, tx_relevance = max 0 score, tx_reasons = reasons, tx_status = ik_transaction_status k,
        tx_sender = source_address k ''from'', tx_recipient = source_address k ''to'',
        tx_selector = lower (take 10 (str_or (dget (ik_source_transaction k) ''input'') ''0x'')),
        tx_function_signature = Option.bind root dc_signature, tx_function_confidence = Option.bind root dc_confidence,
        tx_function_source = Option.bind root dc_source,
        tx_arguments = (case root of None \<Rightarrow> [] | Some d \<Rightarrow> dc_arguments d),
        tx_call_count = length (ik_calls k), tx_event_count = length (ik_events k),
        tx_transfer_count = length (ik_transfers k),
        tx_account_change_count = (case ik_state_diff k of None \<Rightarrow> 0 | Some d \<Rightarrow> length (sd_accounts d)),
        tx_storage_change_count = (case ik_state_diff k of None \<Rightarrow> 0 | Some d \<Rightarrow> sd_storage_change_count d),
        tx_trace_available = ik_trace_available k, tx_core_candidate = False, tx_core_reasons = [] \<rparr>)"

definition core_reasons :: "string \<Rightarrow> string \<Rightarrow> tx_context \<Rightarrow> string list" where
  "core_reasons seed_hash h c =
     (if h = seed_hash then [''operator_seed''] else if tx_hop c = 1 then [''direct_seed_entity_history''] else [])"

definition mark_core_contexts :: "(string \<times> tx_context) list \<Rightarrow> string \<Rightarrow> (string \<times> tx_context) list" where
  "mark_core_contexts cs seed_hash =
     map (\<lambda>(h, c). (h, c\<lparr> tx_core_candidate := (core_reasons seed_hash h c \<noteq> []),
                          tx_core_reasons := core_reasons seed_hash h c \<rparr>)) cs"

section \<open>The state and its surroundings\<close>

record 'h recon_env =
  rc_chain :: chain_config
  rc_rpc :: rpc
  rc_investigation :: investigation_env
  rc_options :: investigation_options
  rc_tokens :: "((bytes \<Rightarrow> string) \<times> nat) option"
  rc_fetch :: "query \<Rightarrow> 'h \<Rightarrow> history_record list res \<times> 'h"
  rc_history_warnings :: "'h \<Rightarrow> string list"
  rc_after_failure :: "string \<Rightarrow> resolver \<Rightarrow> resolver"
  rc_class_name :: "exn \<Rightarrow> string"
  rc_limits :: recon_limits
  rc_seed_hash :: string
  rc_seed_block :: int
  rc_start :: int
  rc_end :: int

record 'h exploration =
  ex_cases :: "(string \<times> investigation_case) list"
  ex_contexts :: "(string \<times> tx_context) list"
  ex_hops :: "(string \<times> nat) list"
  ex_queried :: "string list"
  ex_candidates :: "(string \<times> candidate) list"
  ex_considered :: nat
  ex_failures :: nat
  ex_address_limit :: bool
  ex_hubs :: "string list"
  ex_suppressed :: nat
  ex_sources :: "string list"
  ex_warnings :: "string list"
  ex_history :: 'h
  ex_resolver :: resolver
  ex_tokens :: token_caches

definition enrich_with :: "'h recon_env \<Rightarrow> investigation_case \<Rightarrow> token_caches \<Rightarrow> investigation_case res \<times> token_caches" where
  "enrich_with env k tc =
     (case rc_tokens env of None \<Rightarrow> (Inr k, tc) | Some (utf8, limit) \<Rightarrow> enrich_case utf8 (rc_rpc env) limit k tc)"

section \<open>The histories of a frontier\<close>

definition history_query :: "'h recon_env \<Rightarrow> string \<Rightarrow> query" where
  "history_query env address =
     \<lparr> qu_chain_id = cc_chain_id (rc_chain env), qu_address = address, qu_start = rc_start env, qu_end = rc_end env,
       qu_anchor = rc_seed_block env, qu_limit = lm_history_records (rc_limits env) \<rparr>"

definition history_failed :: "string \<Rightarrow> string \<Rightarrow> string" where
  "history_failed address message = ''History lookup failed for '' @ address @ '': '' @ message"

definition hub_records :: "recon_limits \<Rightarrow> string \<Rightarrow> history_record list \<Rightarrow> bool" where
  "hub_records l address rs \<longleftrightarrow> lm_hub_min_records l \<le> int (length rs)
     \<and> lm_hub_min_counterparties l \<le> int (length (record_counterparties address rs))"

definition absorb_records :: "'h recon_env \<Rightarrow> nat \<Rightarrow> string \<Rightarrow> history_record list \<Rightarrow> 'h exploration \<Rightarrow> 'h exploration" where
  "absorb_records env depth address rs ex =
     (let is_hub = hub_records (rc_limits env) address rs;
          (selected, suppressed) = (if is_hub
             then bounded_hub_records address (rc_seed_block env) (lm_max_hub_transactions (rc_limits env)) rs else (rs, 0))
      in ex\<lparr> ex_considered := ex_considered ex + length rs,
             ex_sources := ex_sources ex @ map hr_source rs,
             ex_hubs := (if is_hub then List.insert address (ex_hubs ex) else ex_hubs ex),
             ex_suppressed := ex_suppressed ex + suppressed,
             ex_candidates := fold (add_record (rc_seed_hash env) address is_hub (rc_seed_block env) (depth + 1)) selected
               (ex_candidates ex) \<rparr>)"

definition query_address :: "'h recon_env \<Rightarrow> nat \<Rightarrow> string \<Rightarrow> 'h exploration \<Rightarrow> 'h exploration res" where
  "query_address env depth address ex =
     (let ex1 = ex\<lparr> ex_queried := ex_queried ex @ [address] \<rparr> in
      case rc_fetch env (history_query env address) (ex_history ex) of
        (Inl (HistorySourceError m), h) \<Rightarrow>
          Inr (ex1\<lparr> ex_history := h, ex_warnings := ex_warnings ex @ [history_failed address m] \<rparr>)
      | (Inl e, h) \<Rightarrow> Inl e
      | (Inr rs, h) \<Rightarrow> Inr (absorb_records env depth address rs (ex1\<lparr> ex_history := h \<rparr>)))"

fun query_frontier :: "'h recon_env \<Rightarrow> nat \<Rightarrow> string list \<Rightarrow> 'h exploration \<Rightarrow> 'h exploration res" where
  "query_frontier env depth [] ex = Inr ex"
| "query_frontier env depth (address # rest) ex =
     (if lm_max_frontier_addresses (rc_limits env) \<le> int (length (ex_queried ex))
      then Inr (ex\<lparr> ex_address_limit := True \<rparr>)
      else if address \<in> set (ex_queried ex) then query_frontier env depth rest ex
      else and_then (query_address env depth address ex) (query_frontier env depth rest))"

section \<open>Investigating the candidates\<close>

definition recon_options :: "'h recon_env \<Rightarrow> investigation_options" where
  "recon_options env = (rc_options env)\<lparr> io_replay_prestate := False \<rparr>"

text \<open>\<^verbatim>\<open>except (RuntimeError, RpcError, ValueError)\<close>\<close>

definition candidate_gap :: "exn \<Rightarrow> bool" where
  "candidate_gap e = (is_runtime_error e \<or> is_value_error e)"

definition candidate_failed :: "string \<Rightarrow> string \<Rightarrow> string" where
  "candidate_failed h class_name = ''Candidate '' @ h @ '' could not be reconstructed ('' @ class_name @ '').''"

definition record_links :: "candidate \<Rightarrow> string list" where
  "record_links c =
     remdups (map fst (ca_records c) @ concat (map (\<lambda>(a, r). real_address (snd (record_reason a r))) (ca_records c)))"

definition link_transfer :: "asset_transfer \<Rightarrow> string list \<Rightarrow> string list" where
  "link_transfer t linked =
     (if at_execution_effect t \<noteq> EXECUTION_COMMITTED then linked
      else (let l1 = (if at_sender t \<in> set linked \<and> at_recipient t \<noteq> ZERO_ADDRESS
                      then List.insert (at_recipient t) linked else linked)
            in if at_recipient t \<in> set l1 \<and> at_sender t \<noteq> ZERO_ADDRESS then List.insert (at_sender t) l1 else l1))"

definition linked_addresses :: "candidate \<Rightarrow> investigation_case \<Rightarrow> string list" where
  "linked_addresses c k = sort (fold link_transfer (ik_transfers k) (record_links c))"

fun link_frontier :: "int \<Rightarrow> nat \<Rightarrow> string list \<Rightarrow> (string \<times> nat) list \<Rightarrow> (string \<times> nat) list \<times> bool" where
  "link_frontier limit depth [] hops = (hops, False)"
| "link_frontier limit depth (a # as') hops =
     (if a = ZERO_ADDRESS \<or> a \<in> fst ` set hops then link_frontier limit depth as' hops
      else if limit \<le> int (length hops) then (hops, True)
      else link_frontier limit depth as' (hops @ [(a, depth)]))"

definition expand_frontier :: "'h recon_env \<Rightarrow> candidate \<Rightarrow> investigation_case \<Rightarrow> 'h exploration \<Rightarrow> 'h exploration" where
  "expand_frontier env c k ex =
     (if lm_max_hops (rc_limits env) \<le> int (ca_hop c) \<or> hub_only c then ex
      else case link_frontier (lm_max_frontier_addresses (rc_limits env)) (ca_hop c) (linked_addresses c k) (ex_hops ex) of
        (hops, reached) \<Rightarrow> ex\<lparr> ex_hops := hops, ex_address_limit := ex_address_limit ex \<or> reached \<rparr>)"

definition keep_case :: "'h recon_env \<Rightarrow> candidate \<Rightarrow> investigation_case \<Rightarrow> 'h exploration \<Rightarrow> 'h exploration" where
  "keep_case env c k ex =
     ex\<lparr> ex_cases := put_assoc (ik_transaction_hash k) k (ex_cases ex),
         ex_contexts := put_assoc (ik_transaction_hash k)
           (context_of k (rc_seed_hash env) (rc_seed_block env) (ca_hop c) (candidate_rank c) (sort (ca_reasons c)))
           (ex_contexts ex) \<rparr>"

definition reconstruct_candidate :: "'h recon_env \<Rightarrow> candidate \<Rightarrow> 'h exploration \<Rightarrow> 'h exploration res" where
  "reconstruct_candidate env c ex =
     (case investigate_transaction (rc_investigation env) (rc_rpc env) (rc_chain env) (ca_hash c) (recon_options env) (ex_resolver ex) of
        Inl e \<Rightarrow>
          if candidate_gap e
          then Inr (ex\<lparr> ex_failures := Suc (ex_failures ex), ex_resolver := rc_after_failure env (ca_hash c) (ex_resolver ex),
                        ex_warnings := ex_warnings ex @ [candidate_failed (ca_hash c) (rc_class_name env e)] \<rparr>)
          else Inl e
      | Inr (k, r) \<Rightarrow>
          (case enrich_with env k (ex_tokens ex) of
             (Inl e, tc) \<Rightarrow> Inl e
           | (Inr k', tc) \<Rightarrow> Inr (expand_frontier env c k' (keep_case env c k' (ex\<lparr> ex_resolver := r, ex_tokens := tc \<rparr>)))))"

fun reconstruct_candidates :: "'h recon_env \<Rightarrow> candidate list \<Rightarrow> 'h exploration \<Rightarrow> 'h exploration res" where
  "reconstruct_candidates env [] ex = Inr ex"
| "reconstruct_candidates env (c # cs) ex =
     (if lm_max_transactions (rc_limits env) \<le> int (length (ex_cases ex)) then Inr ex
      else and_then (reconstruct_candidate env c ex) (reconstruct_candidates env cs))"

section \<open>The hops\<close>

definition frontier_of :: "nat \<Rightarrow> (string \<times> nat) list \<Rightarrow> string list" where
  "frontier_of depth hops = sort (map fst (filter (\<lambda>e. snd e = depth) hops))"

definition available_candidates :: "'h recon_env \<Rightarrow> nat \<Rightarrow> 'h exploration \<Rightarrow> candidate list" where
  "available_candidates env depth ex =
     sort_key (candidate_order (rc_seed_block env))
       (filter (\<lambda>c. ca_hash c \<notin> fst ` set (ex_cases ex) \<and> ca_hop c = depth + 1) (map snd (ex_candidates ex)))"

fun explore :: "'h recon_env \<Rightarrow> nat list \<Rightarrow> 'h exploration \<Rightarrow> 'h exploration res" where
  "explore env [] ex = Inr ex"
| "explore env (depth # hops) ex =
     (if frontier_of depth (ex_hops ex) = [] then Inr ex
      else and_then (query_frontier env depth (frontier_of depth (ex_hops ex)) ex) (\<lambda>ex1.
        if ex_address_limit ex1 then Inr ex1
        else and_then (reconstruct_candidates env (available_candidates env depth ex1) ex1) (\<lambda>ex2.
          if lm_max_transactions (rc_limits env) \<le> int (length (ex_cases ex2)) then Inr ex2
          else explore env hops ex2)))"

end
