(* ===== verification/Attack_Case.thy ===== *)
theory Attack_Case
  imports Exploration
begin

text \<open>
  The aggregates of \<^verbatim>\<open>src/white_radar/reconstruction.py\<close> over the cases found (entities, edges, timeline)
  and \<^verbatim>\<open>reconstruct_attack_case\<close> itself.
\<close>

section \<open>Entities\<close>

record recon_entity =
  ne_address :: string
  ne_kind :: string
  ne_label :: "string option"
  ne_roles :: "string list"
  ne_transaction_hashes :: "string list"
  ne_first_block :: int
  ne_last_block :: int
  ne_code_observed :: "bool option"
  ne_code_bytes_min :: "nat option"
  ne_code_bytes_max :: "nat option"
  ne_runtime_code_sha256s :: "string list"

definition sorted_set :: "string list \<Rightarrow> string list" where
  "sorted_set xs = sort (remdups xs)"

definition kind_priority :: "string \<Rightarrow> nat" where
  "kind_priority k = (if k = ''account'' then 1 else if k = ''system'' then 2 else if k = ''contract'' then 3 else 0)"

definition stronger_kind :: "entity \<Rightarrow> string \<Rightarrow> string" where
  "stronger_kind e current = (if kind_priority current \<le> kind_priority (en_kind e) then en_kind e else current)"

definition entity_mentions :: "investigation_case list \<Rightarrow> (investigation_case \<times> entity) list" where
  "entity_mentions ks = concat (map (\<lambda>k. map (\<lambda>e. (k, e)) (ik_entities k)) ks)"

definition some_values :: "'a option list \<Rightarrow> 'a list" where
  "some_values xs = List.map_filter (\<lambda>x. x) xs"

definition aggregate_entity :: "(investigation_case \<times> entity) list \<Rightarrow> string \<Rightarrow> recon_entity" where
  "aggregate_entity ms address =
     (let own = filter (\<lambda>(k, e). en_address e = address) ms;
          es = map snd own; blocks = map (\<lambda>(k, e). ik_block k) own;
          observed = some_values (map en_code_observed es); sizes = some_values (map en_code_bytes es)
      in \<lparr> ne_address = address, ne_kind = fold stronger_kind es ''unknown'',
           ne_label = (case filter truthy_opt (map en_label es) of [] \<Rightarrow> None | x # xs \<Rightarrow> x),
           ne_roles = sorted_set (concat (map en_roles es)),
           ne_transaction_hashes = sorted_set (map (\<lambda>(k, e). ik_transaction_hash k) own),
           ne_first_block = Min (set blocks), ne_last_block = Max (set blocks),
           ne_code_observed = (if observed = [] then None else Some (list_ex (\<lambda>b. b) observed)),
           ne_code_bytes_min = (if sizes = [] then None else Some (Min (set sizes))),
           ne_code_bytes_max = (if sizes = [] then None else Some (Max (set sizes))),
           ne_runtime_code_sha256s = sorted_set (filter (\<lambda>h. h \<noteq> []) (some_values (map en_runtime_code_sha256 es))) \<rparr>)"

definition aggregate_entities :: "investigation_case list \<Rightarrow> recon_entity list" where
  "aggregate_entities ks =
     (let ms = entity_mentions ks in map (aggregate_entity ms) (sorted_set (map (\<lambda>(k, e). en_address e) ms)))"

section \<open>Edges and timeline\<close>

record recon_edge =
  eg_edge_id :: string
  eg_transaction_hash :: string
  eg_block_number :: int
  eg_hop :: nat
  eg_source :: string
  eg_target :: string
  eg_relation :: string
  eg_asset_type :: "string option"
  eg_asset_address :: "string option"
  eg_asset_symbol :: "string option"
  eg_raw_amount :: "string option"
  eg_amount_display :: "string option"
  eg_evidence_ref :: string
  eg_execution_effect :: string

text \<open>A subscript of the dictionary of contexts; \<^verbatim>\<open>KeyError\<close> when it is missing.\<close>

definition context_at :: "(string \<times> tx_context) list \<Rightarrow> investigation_case \<Rightarrow> tx_context res" where
  "context_at cs k = (case map_of cs (ik_transaction_hash k) of None \<Rightarrow> Inl KeyError | Some c \<Rightarrow> Inr c)"

definition case_ref :: "investigation_case \<Rightarrow> string \<Rightarrow> string" where
  "case_ref k x = ik_transaction_hash k @ '':'' @ x"

definition edge_of :: "investigation_case \<Rightarrow> tx_context \<Rightarrow> relationship \<Rightarrow> recon_edge" where
  "edge_of k c r =
     \<lparr> eg_edge_id = case_ref k (re_relationship_id r), eg_transaction_hash = ik_transaction_hash k,
       eg_block_number = ik_block k, eg_hop = tx_hop c, eg_source = re_source r, eg_target = re_target r,
       eg_relation = re_relation r, eg_asset_type = re_asset_type r, eg_asset_address = re_asset_address r,
       eg_asset_symbol = re_asset_symbol r, eg_raw_amount = re_amount r, eg_amount_display = re_amount_display r,
       eg_evidence_ref = case_ref k (re_evidence_ref r), eg_execution_effect = re_execution_effect r \<rparr>"

definition edge_order :: "recon_edge \<Rightarrow> int \<times> string \<times> string" where
  "edge_order e = (eg_block_number e, eg_transaction_hash e, eg_edge_id e)"

definition aggregate_edges :: "(string \<times> tx_context) list \<Rightarrow> investigation_case list \<Rightarrow> recon_edge list res" where
  "aggregate_edges cs ks =
     and_then (traverse (\<lambda>k. and_then (context_at cs k) (\<lambda>c. Inr (map (edge_of k c) (ik_relationships k)))) ks)
       (\<lambda>ess. Inr (sort_key edge_order (concat ess)))"

record recon_entry =
  te_entry_id :: string
  te_transaction_hash :: string
  te_block_number :: int
  te_block_timestamp :: "string option"
  te_transaction_phase :: string
  te_transaction_index :: "int option"
  te_event_phase :: string
  te_event_order :: int
  te_event_type :: string
  te_summary :: string
  te_evidence_ref :: string

definition entry_of :: "investigation_case \<Rightarrow> tx_context \<Rightarrow> timeline_entry \<Rightarrow> recon_entry" where
  "entry_of k c t =
     \<lparr> te_entry_id = case_ref k (tl_entry_id t), te_transaction_hash = ik_transaction_hash k,
       te_block_number = ik_block k, te_block_timestamp = ik_block_timestamp k, te_transaction_phase = tx_phase c,
       te_transaction_index = tx_index c, te_event_phase = tl_phase t, te_event_order = tl_order t,
       te_event_type = tl_event_type t, te_summary = tl_summary t, te_evidence_ref = case_ref k (tl_evidence_ref t) \<rparr>"

definition recon_phase_order :: "string \<Rightarrow> nat" where
  "recon_phase_order p = (if p = ''pre_seed'' then 0 else if p = ''same_block'' then 1 else if p = ''seed'' then 2
     else if p = ''post_seed'' then 3 else 9)"

definition index_rank :: "int option \<Rightarrow> int" where
  "index_rank i = (case i of None \<Rightarrow> 2 ^ 31 | Some n \<Rightarrow> n)"

definition entry_order :: "recon_entry \<Rightarrow> int \<times> int \<times> nat \<times> string \<times> int \<times> string" where
  "entry_order t = (te_block_number t, index_rank (te_transaction_index t), recon_phase_order (te_transaction_phase t),
     te_event_phase t, te_event_order t, te_entry_id t)"

definition aggregate_timeline :: "(string \<times> tx_context) list \<Rightarrow> investigation_case list \<Rightarrow> recon_entry list res" where
  "aggregate_timeline cs ks =
     and_then (traverse (\<lambda>k. and_then (context_at cs k) (\<lambda>c. Inr (map (entry_of k c) (ik_timeline k)))) ks)
       (\<lambda>ess. Inr (sort_key entry_order (concat ess)))"

section \<open>The reconstruction\<close>

record coverage =
  cv_boundary_status :: string
  cv_start_block :: int
  cv_end_block :: int
  cv_chain_head :: int
  cv_addresses_queried :: nat
  cv_records_considered :: nat
  cv_candidates :: nat
  cv_reconstructed :: nat
  cv_failures :: nat
  cv_transaction_limit :: bool
  cv_address_limit :: bool
  cv_history_sources :: "string list"
  cv_frontier_addresses :: nat
  cv_not_reconstructed :: nat
  cv_first_block :: int
  cv_last_block :: int
  cv_core_transactions :: nat
  cv_hub_addresses :: "string list"
  cv_hub_suppressed :: nat

text \<open>\<^verbatim>\<open>__version__\<close> of the package\<close>

definition tool_version :: string where "tool_version = ''0.3.1''"

record attack_case =
  ar_schema_version :: nat
  ar_reconstruction_id :: string
  ar_generated_at :: string
  ar_tool_name :: string
  ar_tool_version :: string
  ar_chain :: string
  ar_chain_id :: int
  ar_explorer_url :: string
  ar_seed_hash :: string
  ar_seed_block :: int
  ar_limits :: recon_limits
  ar_coverage :: coverage
  ar_contexts :: "tx_context list"
  ar_transactions :: "investigation_case list"
  ar_entities :: "recon_entity list"
  ar_edges :: "recon_edge list"
  ar_timeline :: "recon_entry list"
  ar_warnings :: "string list"

definition head_warning :: string where
  "head_warning = ''The chain head was unavailable; the requested forward boundary was used as the cap.''"

definition transaction_cap_warning :: string where
  "transaction_cap_warning = ''The transaction cap was reached; additional related transactions may exist.''"

definition address_cap_warning :: string where
  "address_cap_warning = ''The frontier-address cap was reached; graph expansion is incomplete.''"

definition hub_warning :: "nat \<Rightarrow> string" where
  "hub_warning n = ''High-fanout expansion was bounded for '' @ nat_str n @ '' hub address(es); their retained evidence ''
     @ ''remains in the case, while low-signal fan-out candidates were not expanded.''"

definition boundary_warning :: string where
  "boundary_warning = ''The reconstructed boundary is evidence-backed but bounded; it is not proof that the ''
     @ ''earliest or final incident transaction has been identified.''"

definition observed_head :: "rpc \<Rightarrow> int \<Rightarrow> (int \<times> string list) res" where
  "observed_head call fallback =
     (case rpc_block_number call of
        Inr n \<Rightarrow> Inr (n, [])
      | Inl e \<Rightarrow> if is_rpc_error e \<or> e = AttributeError then Inr (fallback, [head_warning]) else Inl e)"

definition case_order :: "investigation_case \<Rightarrow> int \<times> int \<times> string" where
  "case_order k = (ik_block k, index_rank (transaction_index k), ik_transaction_hash k)"

definition first_exploration :: "'h recon_env \<Rightarrow> investigation_case \<Rightarrow> string list \<Rightarrow> 'h \<Rightarrow> resolver \<Rightarrow> token_caches \<Rightarrow> 'h exploration" where
  "first_exploration env seed warnings h r tc =
     \<lparr> ex_cases = [(ik_transaction_hash seed, seed)],
       ex_contexts = [(ik_transaction_hash seed,
         context_of seed (ik_transaction_hash seed) (ik_block seed) 0 10000 [''operator_seed''])],
       ex_hops = seed_frontier seed, ex_queried = [], ex_candidates = [], ex_considered = 0, ex_failures = 0,
       ex_address_limit = False, ex_hubs = [], ex_suppressed = 0, ex_sources = [], ex_warnings = warnings,
       ex_history = h, ex_resolver = r, ex_tokens = tc \<rparr>"

definition missing_candidates :: "'h exploration \<Rightarrow> candidate list" where
  "missing_candidates ex = filter (\<lambda>c. ca_hash c \<notin> fst ` set (ex_cases ex)) (map snd (ex_candidates ex))"

definition mk_coverage ::
  "'h recon_env \<Rightarrow> int \<Rightarrow> 'h exploration \<Rightarrow> investigation_case list \<Rightarrow> tx_context list \<Rightarrow> coverage" where
  "mk_coverage env head ex cases contexts =
     \<lparr> cv_boundary_status = ''bounded_candidate_chain'', cv_start_block = rc_start env, cv_end_block = rc_end env,
       cv_chain_head = head, cv_addresses_queried = length (ex_queried ex), cv_records_considered = ex_considered ex,
       cv_candidates = length (ex_candidates ex), cv_reconstructed = length cases, cv_failures = ex_failures ex,
       cv_transaction_limit = (lm_max_transactions (rc_limits env) \<le> int (length (ex_cases ex)) \<and> missing_candidates ex \<noteq> []),
       cv_address_limit = ex_address_limit ex, cv_history_sources = sorted_set (ex_sources ex),
       cv_frontier_addresses = length (ex_hops ex), cv_not_reconstructed = length (missing_candidates ex),
       cv_first_block = Min (set (map ik_block cases)), cv_last_block = Max (set (map ik_block cases)),
       cv_core_transactions = length (filter tx_core_candidate contexts),
       cv_hub_addresses = sort (ex_hubs ex), cv_hub_suppressed = ex_suppressed ex \<rparr>"

definition coverage_warnings :: "coverage \<Rightarrow> string list" where
  "coverage_warnings c =
     (if cv_transaction_limit c then [transaction_cap_warning] else [])
     @ (if cv_address_limit c then [address_cap_warning] else [])
     @ (if cv_hub_addresses c \<noteq> [] then [hub_warning (length (cv_hub_addresses c))] else [])
     @ [boundary_warning]"

definition mk_reconstruction :: "'h recon_env \<Rightarrow> int \<Rightarrow> investigation_case \<Rightarrow> 'h exploration \<Rightarrow> attack_case res" where
  "mk_reconstruction env head seed ex =
     (let contexts = mark_core_contexts (ex_contexts ex) (ik_transaction_hash seed);
          cases = sort_key case_order (map snd (ex_cases ex))
      in and_then (traverse (context_at contexts) cases) (\<lambda>ordered.
         and_then (aggregate_edges contexts cases) (\<lambda>edges.
         and_then (aggregate_timeline contexts cases) (\<lambda>timeline.
         let c = mk_coverage env head ex cases ordered in
         Inr \<lparr> ar_schema_version = 3, ar_reconstruction_id = cc_name (rc_chain env) @ ''-'' @ take 16 (drop 2 (ik_transaction_hash seed)) @ ''-reconstruction'',
               ar_generated_at = utc_now (ie_clock (rc_investigation env)), ar_tool_name = ''WhiteRadar Incident'',
               ar_tool_version = tool_version, ar_chain = cc_name (rc_chain env),
               ar_chain_id = cc_chain_id (rc_chain env), ar_explorer_url = cc_explorer_url (rc_chain env),
               ar_seed_hash = ik_transaction_hash seed, ar_seed_block = ik_block seed, ar_limits = rc_limits env,
               ar_coverage = c, ar_contexts = ordered, ar_transactions = cases, ar_entities = aggregate_entities cases,
               ar_edges = edges, ar_timeline = timeline,
               ar_warnings = fromkeys (ex_warnings ex @ rc_history_warnings env (ex_history ex) @ coverage_warnings c) \<rparr>))))"

text \<open>The window of blocks and the seed, fixed for the loop. The environment's seed and window fields are
  those computed here.\<close>

definition seeded_env :: "'h recon_env \<Rightarrow> investigation_case \<Rightarrow> int \<Rightarrow> 'h recon_env" where
  "seeded_env env seed head =
     env\<lparr> rc_seed_hash := ik_transaction_hash seed, rc_seed_block := ik_block seed,
          rc_start := max 0 (ik_block seed - lm_backward_blocks (rc_limits env)),
          rc_end := min head (ik_block seed + lm_forward_blocks (rc_limits env)) \<rparr>"

definition reconstruct_attack_case ::
  "'h recon_env \<Rightarrow> investigation_case \<Rightarrow> 'h \<Rightarrow> resolver \<Rightarrow> token_caches \<Rightarrow> attack_case res" where
  "reconstruct_attack_case env seed_case h r tc =
     and_then (observed_head (rc_rpc env) (ik_block seed_case + lm_forward_blocks (rc_limits env))) (\<lambda>(head, w).
     case enrich_with env seed_case tc of
       (Inl e, tc') \<Rightarrow> Inl e
     | (Inr seed, tc') \<Rightarrow>
         (let env' = seeded_env env seed head in
          and_then (explore env' [0..<nat (lm_max_hops (rc_limits env))] (first_exploration env' seed w h r tc'))
            (mk_reconstruction env' head seed)))"

end
