(* ===== verification/Token_Properties.thy ===== *)
theory Token_Properties
  imports Token_Metadata
begin

text \<open>
  What \<^verbatim>\<open>src/white_radar/token_metadata.py\<close> promises: a displayed amount is the exact raw amount, the
  contracts the node is asked for are bounded in number and each is asked once, the answer depends
  on no other, and enrichment changes nothing of a case but the display of its transfers.
\<close>

section \<open>Decimal text\<close>

lemma digit10: "d < 10 \<Longrightarrow> digit_of 10 (digit_char d) = Some d"
proof -
  assume "d < 10"
  then have "d \<in> set [0..<10]" by simp
  moreover have "\<forall>d \<in> set [0..<10]. digit_of 10 (digit_char d) = Some d" by code_simp
  ultimately show ?thesis by (rule bspec [rotated])
qed

definition decimal_value :: "nat \<Rightarrow> nat list \<Rightarrow> nat" where
  "decimal_value acc ds = foldl (\<lambda>a d. a * 10 + d) acc ds"

lemma decimal_value_append: "decimal_value acc (ds @ es) = decimal_value (decimal_value acc ds) es"
  by (simp add: decimal_value_def)

lemma decimal_value_shift: "decimal_value acc ds = acc * 10 ^ length ds + decimal_value 0 ds"
proof (induction ds arbitrary: acc)
  case (Cons d ds)
  have "decimal_value (acc * 10 + d) ds = (acc * 10 + d) * 10 ^ length ds + decimal_value 0 ds" by (rule Cons.IH)
  moreover have "decimal_value d ds = d * 10 ^ length ds + decimal_value 0 ds" by (rule Cons.IH)
  ultimately show ?case by (simp add: decimal_value_def algebra_simps)
qed (simp add: decimal_value_def)

lemma decimal_value_zeros: "decimal_value 0 (replicate k 0) = 0"
  by (induction k) (simp_all add: decimal_value_def)

lemma decimal_value_digits: "decimal_value 0 (nat_digits 10 n) = n"
  by (simp add: decimal_value_def nat_digits_value)

lemma parse_tail_decimal:
  "\<forall>d \<in> set ds. d < 10 \<Longrightarrow> parse_tail 10 acc (map digit_char ds) = Some (decimal_value acc ds)"
  by (induction ds arbitrary: acc) (simp_all add: digit10 digit_char_not decimal_value_def)

lemma parse_decimal:
  "ds \<noteq> [] \<Longrightarrow> \<forall>d \<in> set ds. d < 10 \<Longrightarrow> parse_digits 10 (map digit_char ds) = Some (decimal_value 0 ds)"
  by (cases ds) (simp_all add: parse_digits_def digit10 parse_tail_decimal decimal_value_def)

lemma digits10: "\<forall>d \<in> set (nat_digits 10 n). d < 10"
  using nat_digits_bound [of 10 _ n] by simp

lemma py_int10_nat_str: "py_int10 (nat_str n) = Inr (int n)"
proof -
  obtain e es where ds: "nat_digits 10 n = e # es" by (cases "nat_digits 10 n") simp_all
  have b: "\<forall>d \<in> set (e # es). d < 10" using digits10 [of n] ds by simp
  have "strip (nat_str n) = nat_str n"
    by (rule strip_id) (use b in \<open>auto simp: nat_str_def ds digit_char_not\<close>)
  moreover have "split_sign (nat_str n) = (False, nat_str n)"
    using b by (simp add: nat_str_def ds split_sign_def digit_char_not)
  moreover have "parse_digits 10 (nat_str n) = Some n"
    using parse_decimal [of "nat_digits 10 n"] digits10 by (simp add: nat_str_def decimal_value_digits)
  ultimately show ?thesis by (simp add: py_int10_def with_sign_def)
qed

lemma digit_char_zero: "digit_char 0 = CHR ''0''"
  by code_simp

lemma zero_padded_digits:
  "zero_padded w n = map digit_char (replicate (w - length (nat_digits 10 n)) 0 @ nat_digits 10 n)"
  by (simp add: zero_padded_def nat_str_def digit_char_zero)

lemma rstrip_of_restore: "rstrip_of x xs @ replicate (length xs - length (rstrip_of x xs)) x = xs"
proof -
  define t where "t = takeWhile (\<lambda>y. y = x) (rev xs)"
  have t: "t = replicate (length t) x" unfolding t_def by (rule replicate_eqI) (auto dest: set_takeWhileD)
  define u where "u = rstrip_of x xs"
  have "rev xs = t @ rev u" by (simp add: t_def u_def rstrip_of_def)
  then have xs: "xs = u @ rev t" by (simp add: rev_swap)
  have rt: "rev t = replicate (length t) x" using arg_cong [OF t, of rev] by (simp only: rev_replicate)
  have "length xs - length u = length t" using arg_cong [OF xs, of length] by simp
  then have "u @ replicate (length xs - length u) x = u @ rev t" by (simp only: rt)
  also have "\<dots> = xs" by (rule xs [symmetric])
  finally show ?thesis by (simp only: u_def)
qed

lemma rstrip_of_last:
  assumes "rstrip_of x xs \<noteq> []"
  shows "last (rstrip_of x xs) \<noteq> x"
proof -
  from assms have n: "dropWhile (\<lambda>y. y = x) (rev xs) \<noteq> []" by (simp add: rstrip_of_def)
  then have "last (rstrip_of x xs) = hd (dropWhile (\<lambda>y. y = x) (rev xs))" by (simp add: rstrip_of_def last_rev)
  with hd_dropWhile [OF n] show ?thesis by simp
qed

section \<open>Reading a displayed amount\<close>

definition read_display :: "nat \<Rightarrow> string \<Rightarrow> nat option" where
  "read_display decimals t =
     (let whole = takeWhile (\<lambda>c. c \<noteq> CHR ''.'') t; fraction = drop (Suc (length whole)) t in
      if length fraction \<le> decimals
      then parse_digits 10 (whole @ fraction @ replicate (decimals - length fraction) (CHR ''0'')) else None)"

lemma read_display_dot:
  "CHR ''.'' \<notin> set w \<Longrightarrow> length f \<le> d \<Longrightarrow>
     read_display d (w @ ''.'' @ f) = parse_digits 10 (w @ f @ replicate (d - length f) (CHR ''0''))"
  (is "_ \<Longrightarrow> _ \<Longrightarrow> ?goal")
proof -
  assume w: "CHR ''.'' \<notin> set w" and f: "length f \<le> d"
  have "takeWhile (\<lambda>c. c \<noteq> CHR ''.'') (w @ ''.'' @ f) = w" using w by (subst takeWhile_append2) auto
  with f show ?goal by (simp add: read_display_def)
qed

lemma read_display_whole:
  assumes "CHR ''.'' \<notin> set w"
  shows "read_display d w = parse_digits 10 (w @ replicate d (CHR ''0''))"
proof -
  have "takeWhile (\<lambda>c. c \<noteq> CHR ''.'') w = w" using assms by (auto simp: takeWhile_eq_all_conv)
  then show ?thesis unfolding read_display_def Let_def by (simp only: drop_all le_SucI order_refl) simp
qed

lemma parse_fixed_point:
  assumes "f < 10 ^ d" "0 < d"
  shows "parse_digits 10 (nat_str w @ zero_padded d f) = Some (w * 10 ^ d + f)" "length (zero_padded d f) = d"
proof -
  have len: "length (nat_digits 10 f) \<le> d" using assms by (intro length_nat_digits) simp_all
  let ?ds = "nat_digits 10 w @ replicate (d - length (nat_digits 10 f)) 0 @ nat_digits 10 f"
  have "parse_digits 10 (map digit_char ?ds) = Some (decimal_value 0 ?ds)"
    using digits10 by (intro parse_decimal) (auto simp: ball_Un)
  moreover have "decimal_value 0 ?ds = w * 10 ^ d + f"
  proof -
    let ?z = "replicate (d - length (nat_digits 10 f)) 0"
    have "decimal_value w ?z = w * 10 ^ length ?z"
      using decimal_value_shift [of w ?z] by (simp add: decimal_value_zeros)
    then have "decimal_value 0 ?ds = w * 10 ^ length ?z * 10 ^ length (nat_digits 10 f) + f"
      using decimal_value_shift [of "w * 10 ^ length ?z" "nat_digits 10 f"]
      by (simp add: decimal_value_append decimal_value_digits)
    also have "w * 10 ^ length ?z * 10 ^ length (nat_digits 10 f) = w * 10 ^ d"
      using len by (simp add: mult.assoc flip: power_add)
    finally show ?thesis .
  qed
  ultimately show "parse_digits 10 (nat_str w @ zero_padded d f) = Some (w * 10 ^ d + f)"
    by (simp add: nat_str_def zero_padded_digits)
  show "length (zero_padded d f) = d" using len by (simp add: zero_padded_digits)
qed

section \<open>The resolver's caches\<close>

definition token_caches_ok :: "nat \<Rightarrow> token_caches \<Rightarrow> bool" where
  "token_caches_ok limit tc \<longleftrightarrow> distinct (tc_attempted tc) \<and> length (tc_attempted tc) \<le> limit
     \<and> fst ` set (tc_found tc) \<subseteq> set (tc_attempted tc)"

lemma no_tokens_ok: "token_caches_ok limit no_tokens"
  by (simp add: token_caches_ok_def no_tokens_def)

lemma attempt_ok:
  assumes "token_caches_ok limit tc" "key \<notin> set (tc_attempted tc)" "length (tc_attempted tc) < limit"
  shows "token_caches_ok limit (tc\<lparr> tc_attempted := tc_attempted tc @ [key] \<rparr>)"
    and "token_caches_ok limit (tc\<lparr> tc_attempted := tc_attempted tc @ [key], tc_found := (key, m) # tc_found tc \<rparr>)"
  using assms unfolding token_caches_ok_def by simp_all blast+

lemma resolve_token_ok:
  "token_caches_ok limit tc \<Longrightarrow> resolve_token utf8 call limit a n tc = (res, tc') \<Longrightarrow> token_caches_ok limit tc'"
  by (auto simp: resolve_token_def must_ask_def Let_def attempt_ok split: option.splits if_splits sum.splits)

lemma enrich_transfer_ok:
  "token_caches_ok limit tc \<Longrightarrow> enrich_transfer utf8 call limit n t tc = (res, tc') \<Longrightarrow> token_caches_ok limit tc'"
  by (auto simp: enrich_transfer_def split: if_splits prod.splits sum.splits option.splits dest: resolve_token_ok)

lemma enrich_transfers_ok:
  "token_caches_ok limit tc \<Longrightarrow> enrich_transfers utf8 call limit n ts tc = (res, tc') \<Longrightarrow> token_caches_ok limit tc'"
  by (induction ts arbitrary: tc res) (auto split: prod.splits sum.splits dest: enrich_transfer_ok)

section \<open>What the node is asked\<close>

text \<open>The contracts the node is asked for, in order, while the transfers of a case are enriched: those
  that the caches, as they are when the transfer is reached, do not settle.\<close>

definition token_key_of :: "int \<Rightarrow> asset_transfer \<Rightarrow> token_key option" where
  "token_key_of n t =
     (if at_asset_type t \<noteq> ''erc20'' \<or> \<not> truthy_opt (at_asset_address t) then None
      else Some (lower (the (at_asset_address t)), n))"

definition asked_for :: "nat \<Rightarrow> int \<Rightarrow> asset_transfer \<Rightarrow> token_caches \<Rightarrow> token_key list" where
  "asked_for limit n t tc =
     (case token_key_of n t of None \<Rightarrow> [] | Some key \<Rightarrow> if must_ask limit key tc then [key] else [])"

fun asked_keys ::
  "(bytes \<Rightarrow> string) \<Rightarrow> rpc \<Rightarrow> nat \<Rightarrow> int \<Rightarrow> asset_transfer list \<Rightarrow> token_caches \<Rightarrow> token_key list" where
  "asked_keys utf8 call limit n [] tc = []"
| "asked_keys utf8 call limit n (t # ts) tc =
     asked_for limit n t tc @
     (case enrich_transfer utf8 call limit n t tc of
        (Inl e, tc') \<Rightarrow> [] | (Inr t', tc') \<Rightarrow> asked_keys utf8 call limit n ts tc')"

text \<open>Two nodes that answer the calls to one contract at one block alike.\<close>

definition same_token_answers :: "rpc \<Rightarrow> rpc \<Rightarrow> token_key \<Rightarrow> bool" where
  "same_token_answers call call' key \<longleftrightarrow>
     (\<forall>a data. lower a = fst key \<longrightarrow>
        rpc_eth_call call' [(''to'', JStr a), (''data'', JStr data)] (int_to_hex (snd key))
          = rpc_eth_call call [(''to'', JStr a), (''data'', JStr data)] (int_to_hex (snd key)))"

lemma fetch_token_same: "same_token_answers call call' (lower a, n) \<Longrightarrow> fetch_token utf8 call' a n = fetch_token utf8 call a n"
  by (simp add: same_token_answers_def fetch_token_def read_token_def)

lemma resolve_token_asks:
  "resolve_token utf8 call limit a n tc = (res, tc') \<Longrightarrow>
     tc_attempted tc' = tc_attempted tc @ (if must_ask limit (lower a, n) tc then [(lower a, n)] else [])"
  by (auto simp: resolve_token_def must_ask_def Let_def split: option.splits if_splits sum.splits)

lemma resolve_token_same:
  "must_ask limit (lower a, n) tc \<longrightarrow> same_token_answers call call' (lower a, n) \<Longrightarrow>
     resolve_token utf8 call' limit a n tc = resolve_token utf8 call limit a n tc"
  by (auto simp: resolve_token_def Let_def fetch_token_same split: option.split)

lemma enrich_transfer_asks:
  "enrich_transfer utf8 call limit n t tc = (res, tc') \<Longrightarrow> tc_attempted tc' = tc_attempted tc @ asked_for limit n t tc"
  by (auto simp: enrich_transfer_def asked_for_def token_key_of_def dest: resolve_token_asks
      split: if_splits prod.splits sum.splits option.splits)

lemma enrich_transfer_same:
  "list_all (same_token_answers call call') (asked_for limit n t tc) \<Longrightarrow>
     enrich_transfer utf8 call' limit n t tc = enrich_transfer utf8 call limit n t tc"
  using resolve_token_same [of limit "the (at_asset_address t)" n tc call call' utf8]
  by (cases "at_asset_type t = ''erc20'' \<and> truthy_opt (at_asset_address t)")
    (auto simp: enrich_transfer_def asked_for_def token_key_of_def split: if_splits)

lemma enrich_transfers_asks:
  "enrich_transfers utf8 call limit n ts tc = (res, tc') \<Longrightarrow>
     tc_attempted tc' = tc_attempted tc @ asked_keys utf8 call limit n ts tc"
  by (induction ts arbitrary: tc res)
    (auto split: prod.splits sum.splits dest!: enrich_transfer_asks)

lemma enrich_transfers_same:
  "list_all (same_token_answers call call') (asked_keys utf8 call limit n ts tc) \<Longrightarrow>
     enrich_transfers utf8 call' limit n ts tc = enrich_transfers utf8 call limit n ts tc"
proof (induction ts arbitrary: tc)
  case (Cons t ts)
  then have same: "enrich_transfer utf8 call' limit n t tc = enrich_transfer utf8 call limit n t tc"
    by (intro enrich_transfer_same) simp
  obtain res tc' where t: "enrich_transfer utf8 call limit n t tc = (res, tc')" by fastforce
  show ?case
  proof (cases res)
    case (Inl e)
    then show ?thesis by (simp add: same t)
  next
    case (Inr t')
    with Cons.prems t have "list_all (same_token_answers call call') (asked_keys utf8 call limit n ts tc')" by simp
    from Cons.IH [OF this] show ?thesis by (simp add: same t Inr)
  qed
qed simp

text \<open>No contract is left out while there is room: a contract of the case was asked, now or before, or
  the limit is reached.\<close>

lemma asked_or_full:
  assumes "token_caches_ok limit tc" "enrich_transfer utf8 call limit n t tc = (res, tc')" "token_key_of n t = Some key"
  shows "key \<in> set (tc_attempted tc') \<or> length (tc_attempted tc') = limit"
proof (cases "must_ask limit key tc")
  case True
  with assms(3) enrich_transfer_asks [OF assms(2)] show ?thesis by (simp add: asked_for_def)
next
  case False
  with assms(3) enrich_transfer_asks [OF assms(2)] have "tc_attempted tc' = tc_attempted tc" by (simp add: asked_for_def)
  moreover have "key \<in> set (tc_attempted tc)" if "map_of (tc_found tc) key \<noteq> None"
  proof -
    from that have "key \<in> fst ` set (tc_found tc)" by (simp only: map_of_eq_None_iff) simp
    moreover have "fst ` set (tc_found tc) \<subseteq> set (tc_attempted tc)" using assms(1) by (simp only: token_caches_ok_def)
    ultimately show ?thesis by (rule subsetD [rotated])
  qed
  moreover have "map_of (tc_found tc) key \<noteq> None \<or> key \<in> set (tc_attempted tc) \<or> length (tc_attempted tc) = limit"
    using False assms(1) unfolding must_ask_def token_caches_ok_def by linarith
  ultimately show ?thesis by metis
qed

lemma enrich_transfers_settle:
  "token_caches_ok limit tc \<Longrightarrow> enrich_transfers utf8 call limit n ts tc = (Inr ts', tc') \<Longrightarrow> t \<in> set ts \<Longrightarrow>
     token_key_of n t = Some key \<Longrightarrow> key \<in> set (tc_attempted tc') \<or> length (tc_attempted tc') = limit"
proof (induction ts arbitrary: tc ts')
  case (Cons u us)
  then obtain u' tc1 us' where u: "enrich_transfer utf8 call limit n u tc = (Inr u', tc1)"
    and us: "enrich_transfers utf8 call limit n us tc1 = (Inr us', tc')" by (auto split: prod.splits sum.splits)
  note ok = enrich_transfer_ok [OF Cons.prems(1) u]
  show ?case
  proof (cases "t \<in> set us")
    case True
    from Cons.IH [OF ok us True Cons.prems(4)] show ?thesis .
  next
    case False
    with Cons.prems(3) have "t = u" by simp
    with asked_or_full [OF Cons.prems(1) u] Cons.prems(4)
    have "key \<in> set (tc_attempted tc1) \<or> length (tc_attempted tc1) = limit" by simp
    with enrich_transfers_asks [OF us] enrich_transfers_ok [OF ok us] show ?thesis by (auto simp: token_caches_ok_def)
  qed
qed simp

text \<open>The evidence of a transfer and of a relationship: all but the display.\<close>

definition transfer_evidence :: "asset_transfer \<Rightarrow> asset_transfer" where
  "transfer_evidence t = t\<lparr> at_asset_name := None, at_asset_symbol := None, at_asset_decimals := None, at_amount_display := None \<rparr>"

definition relationship_evidence :: "relationship \<Rightarrow> relationship" where
  "relationship_evidence r = r\<lparr> re_asset_symbol := None, re_amount_display := None \<rparr>"

lemma enrich_transfer_evidence:
  "enrich_transfer utf8 call limit n t tc = (Inr t', tc') \<Longrightarrow> transfer_evidence t' = transfer_evidence t"
  by (auto simp: enrich_transfer_def transfer_evidence_def split: if_splits prod.splits sum.splits option.splits)

lemma enrich_transfers_evidence:
  "enrich_transfers utf8 call limit n ts tc = (Inr ts', tc') \<Longrightarrow> map transfer_evidence ts' = map transfer_evidence ts"
  by (induction ts arbitrary: tc ts') (auto split: prod.splits sum.splits dest: enrich_transfer_evidence)

lemma relationship_of_evidence:
  "relationship_evidence (transfer_relationship t) = relationship_evidence (transfer_relationship (transfer_evidence t))"
  by (simp add: relationship_evidence_def transfer_relationship_def transfer_evidence_def)

lemma relationships_evidence:
  "map transfer_evidence ts' = map transfer_evidence ts \<Longrightarrow>
     map relationship_evidence (build_relationships calls ts') = map relationship_evidence (build_relationships calls ts)"
proof -
  assume a: "map transfer_evidence ts' = map transfer_evidence ts"
  have f: "map (\<lambda>t. relationship_evidence (transfer_relationship t)) xs
      = map (\<lambda>t. relationship_evidence (transfer_relationship t)) (map transfer_evidence xs)" for xs
    by (simp flip: relationship_of_evidence)
  show ?thesis using f [of ts'] f [of ts] a by (simp add: build_relationships_def comp_def)
qed

section \<open>Properties\<close>

text \<open>C33. A displayed token amount is exact. For a raw amount n and decimals d up to 255 the display
  exists, reads back as n when its fraction is padded to d digits, and has no trailing zero
  after the point.\<close>

theorem amount_display_exact:
  assumes "d \<le> 255"
  shows "\<exists>t. format_token_amount (nat_str n) (Some (int d)) = Some t \<and> read_display d t = Some n
     \<and> (CHR ''.'' \<in> set t \<longrightarrow> last t \<noteq> CHR ''0'')"
proof -
  let ?w = "n div 10 ^ d" and ?f = "n mod 10 ^ d"
  have div: "int n div 10 ^ d = int ?w" "int n mod 10 ^ d = int ?f" by (simp_all add: zdiv_int zmod_int)
  have n: "?w * 10 ^ d + ?f = n" by (rule div_mult_mod_eq)
  have str: "int_str (int m) = nat_str m" for m by (simp add: int_str_def)
  note fmt = format_token_amount_def py_int10_nat_str div str
  show ?thesis
  proof (cases "d = 0 \<or> ?f = 0")
    case True
    then have t: "format_token_amount (nat_str n) (Some (int d)) = Some (nat_str ?w)" using assms by (auto simp: fmt Let_def)
    let ?ds = "nat_digits 10 ?w @ replicate d 0"
    have shown: "nat_str ?w @ replicate d (CHR ''0'') = map digit_char ?ds" by (simp add: nat_str_def digit_char_zero)
    have "\<forall>x \<in> set ?ds. x < 10" using digits10 [of ?w] by auto
    then have "parse_digits 10 (map digit_char ?ds) = Some (decimal_value 0 ?ds)" by (intro parse_decimal) simp_all
    then have "read_display d (nat_str ?w) = Some (decimal_value 0 ?ds)"
      by (simp only: read_display_whole [OF nat_str_no_dot] shown)
    moreover have "decimal_value 0 ?ds = n"
    proof -
      have "decimal_value 0 ?ds = ?w * 10 ^ d"
        using decimal_value_shift [of ?w "replicate d 0"] by (simp add: decimal_value_append decimal_value_digits decimal_value_zeros)
      also have "\<dots> = n" using True by auto
      finally show ?thesis .
    qed
    ultimately have "read_display d (nat_str ?w) = Some n" by (simp only:)
    with t show ?thesis using nat_str_no_dot by blast
  next
    case False
    let ?z = "zero_padded d ?f" and ?s = "rstrip_of (CHR ''0'') (zero_padded d ?f)"
    have t: "format_token_amount (nat_str n) (Some (int d)) = Some (nat_str ?w @ ''.'' @ ?s)"
      using assms False by (simp add: fmt Let_def)
    have z: "parse_digits 10 (nat_str ?w @ ?z) = Some n" "length ?z = d"
      using parse_fixed_point(1) [of ?f d ?w] parse_fixed_point(2) [of ?f d] False n by simp_all
    have r: "?s @ replicate (d - length ?s) (CHR ''0'') = ?z" using rstrip_of_restore [of "CHR ''0''" ?z] z(2) by simp
    have "length ?s \<le> d" using arg_cong [OF r, of length] z(2) by simp
    then have "read_display d (nat_str ?w @ ''.'' @ ?s) = Some n"
      using z(1) by (simp only: read_display_dot [OF nat_str_no_dot] r)
    moreover have "last (nat_str ?w @ ''.'' @ ?s) \<noteq> CHR ''0''"
      using rstrip_of_last [of "CHR ''0''" ?z] by (cases "?s = []") simp_all
    ultimately show ?thesis using t by blast
  qed
qed

theorem amount_display_exact_witness: "format_token_amount ''1050'' (Some 3) = Some ''1.05'' \<and> read_display 3 ''1.05'' = Some 1050"
proof -
  have s: "nat_str 1050 = ''1050''" and f: "format_token_amount ''1050'' (Some 3) = Some ''1.05''" by code_simp+
  from amount_display_exact [of 3 1050] show ?thesis by (simp add: s f)
qed

text \<open>C34. Token enrichment is bounded and touches the display only. The contracts the node is asked for
  while the transfers are enriched (\<open>asked_keys\<close>: the transfers that the caches, as they are when
  the transfer is reached, do not settle) are all recorded as attempted, and the attempts of the
  resolver stay distinct and at most the configured number: no contract is asked again at the
  same block, also one that returned nothing. They are the whole of what is asked: a node that
  answers alike for them gives the same result. Every ERC-20 contract of the case was asked, now
  or before, unless the number is reached. The case returned has the evidence of the case given:
  the same transfers with the same parties, amounts and effects, the same relationships but for
  their display, and everything else unchanged.\<close>

theorem enrichment_keeps_evidence:
  assumes "enrich_case utf8 call limit k tc = (Inr k', tc')" and "token_caches_ok limit tc"
    and "ik_relationships k = build_relationships (ik_calls k) (ik_transfers k)"
  shows "token_caches_ok limit tc'
     \<and> tc_attempted tc' = tc_attempted tc @ asked_keys utf8 call limit (ik_block k) (ik_transfers k) tc
     \<and> distinct (tc_attempted tc @ asked_keys utf8 call limit (ik_block k) (ik_transfers k) tc)
     \<and> length (tc_attempted tc @ asked_keys utf8 call limit (ik_block k) (ik_transfers k) tc) \<le> limit
     \<and> (\<forall>call'. (\<forall>key \<in> set (asked_keys utf8 call limit (ik_block k) (ik_transfers k) tc). same_token_answers call call' key)
          \<longrightarrow> enrich_case utf8 call' limit k tc = (Inr k', tc'))
     \<and> (\<forall>t \<in> set (ik_transfers k). at_asset_type t = ''erc20'' \<and> truthy_opt (at_asset_address t)
          \<longrightarrow> (lower (the (at_asset_address t)), ik_block k) \<in> set (tc_attempted tc') \<or> length (tc_attempted tc') = limit)
     \<and> map transfer_evidence (ik_transfers k') = map transfer_evidence (ik_transfers k)
     \<and> map relationship_evidence (ik_relationships k') = map relationship_evidence (ik_relationships k)
     \<and> k' = k\<lparr> ik_transfers := ik_transfers k', ik_relationships := ik_relationships k' \<rparr>"
proof -
  let ?asked = "asked_keys utf8 call limit (ik_block k) (ik_transfers k) tc"
  from assms(1) obtain ts where ts: "enrich_transfers utf8 call limit (ik_block k) (ik_transfers k) tc = (Inr ts, tc')"
    and k': "k' = k\<lparr> ik_transfers := ts, ik_relationships := build_relationships (ik_calls k) ts \<rparr>"
    by (auto simp: enrich_case_def split: prod.splits sum.splits)
  have e: "map transfer_evidence ts = map transfer_evidence (ik_transfers k)" by (rule enrich_transfers_evidence [OF ts])
  note ok = enrich_transfers_ok [OF assms(2) ts] and asks = enrich_transfers_asks [OF ts]
  have budget: "distinct (tc_attempted tc @ ?asked)" "length (tc_attempted tc @ ?asked) \<le> limit"
    using ok unfolding token_caches_ok_def asks by blast+
  have same: "enrich_case utf8 call' limit k tc = (Inr k', tc')" if "\<forall>key \<in> set ?asked. same_token_answers call call' key" for call'
    using enrich_transfers_same [of call call' utf8 limit "ik_block k" "ik_transfers k" tc] that assms(1)
    by (simp add: enrich_case_def list_all_iff)
  have settled: "(lower (the (at_asset_address t)), ik_block k) \<in> set (tc_attempted tc') \<or> length (tc_attempted tc') = limit"
    if "t \<in> set (ik_transfers k)" "at_asset_type t = ''erc20'' \<and> truthy_opt (at_asset_address t)" for t
    using enrich_transfers_settle [OF assms(2) ts that(1)] that(2) by (simp add: token_key_of_def)
  have rest: "map transfer_evidence (ik_transfers k') = map transfer_evidence (ik_transfers k)"
    "map relationship_evidence (ik_relationships k') = map relationship_evidence (ik_relationships k)"
    "k' = k\<lparr> ik_transfers := ik_transfers k', ik_relationships := ik_relationships k' \<rparr>"
    using relationships_evidence [OF e, of "ik_calls k"] e k' assms(3) by simp_all
  show ?thesis using ok asks budget same settled rest by blast
qed

definition demo_word :: string where "demo_word = ''0x'' @ replicate 63 (CHR ''0'') @ ''3''"

definition demo_token_rpc :: rpc where "demo_token_rpc m ps = Inr (JStr demo_word)"

definition demo_token_transfer :: asset_transfer where
  "demo_token_transfer = mk_transfer ''log:0'' ''erc20'' (Some ''0xaa'') ''0x1'' ''0x2'' ''1050'' None None ''log'' ''log:0'' EXECUTION_COMMITTED"

lemma demo_fetch:
  "fetch_token (\<lambda>b. ''T'') demo_token_rpc ''0xaa'' n =
     Inr (Some \<lparr> td_address = ''0xaa'', td_name = Some ''T'', td_symbol = Some ''T'', td_decimals = Some 3, td_block_number = n \<rparr>)"
proof -
  have w: "str_or (JStr demo_word) ''0x'' = demo_word" "decode_abi_text (\<lambda>b. ''T'') demo_word = Some ''T''"
    "decode_uint demo_word = Some 3" "lower ''0xaa'' = ''0xaa''" by code_simp+
  show ?thesis
    by (simp add: fetch_token_def read_token_def rpc_eth_call_def demo_token_rpc_def suppressed_def valid_decimals_def and_then_def w)
qed

theorem enrichment_keeps_evidence_witness:
  "\<exists>k k' tc'. enrich_case (\<lambda>b. ''T'') demo_token_rpc 4 k no_tokens = (Inr k', tc')
     \<and> map at_amount_display (ik_transfers k') = [Some ''1.05''] \<and> length (tc_attempted tc') \<le> 4
     \<and> map transfer_evidence (ik_transfers k') = map transfer_evidence (ik_transfers k)"
proof -
  obtain k0 r where "demo_case = Inr (k0, r)" by (rule demo_case_Inr)
  define k where "k = k0\<lparr> ik_transfers := [demo_token_transfer],
    ik_relationships := build_relationships (ik_calls k0) [demo_token_transfer] \<rparr>"
  have rel: "ik_relationships k = build_relationships (ik_calls k) (ik_transfers k)" by (simp add: k_def)
  have f: "format_token_amount ''1050'' (Some 3) = Some ''1.05''" by code_simp
  have l: "lower ''0xaa'' = ''0xaa''" by code_simp
  obtain k' tc' where run: "enrich_case (\<lambda>b. ''T'') demo_token_rpc 4 k no_tokens = (Inr k', tc')"
    and d: "map at_amount_display (ik_transfers k') = [Some ''1.05'']"
    by (simp add: enrich_case_def k_def enrich_transfer_def demo_token_transfer_def mk_transfer_def resolve_token_def must_ask_def no_tokens_def
        demo_fetch f l Let_def)
  from enrichment_keeps_evidence [OF run no_tokens_ok rel] have e: "length (tc_attempted tc') \<le> 4"
    "map transfer_evidence (ik_transfers k') = map transfer_evidence (ik_transfers k)" by (simp_all add: token_caches_ok_def)
  show ?thesis by (intro exI conjI, rule run, rule d, rule e(1), rule e(2))
qed

end
