(* ===== verification/Exploration_Facts.thy ===== *)
theory Exploration_Facts
  imports Attack_Case
begin

text \<open>
  What the exploration of \<^verbatim>\<open>src/white_radar/reconstruction.py\<close> preserves. The locale \<open>explored\<close> is the
  contract of the loop: a predicate kept by one history query and by one investigated candidate,
  each under the condition the loop tests before it, holds of the final state. It is interpreted
  on the budgets and on the provenance of what was found.
\<close>

section \<open>Dictionaries\<close>

lemma map_fst_put_assoc: "map fst (put_assoc k v xs) = (if k \<in> fst ` set xs then map fst xs else map fst xs @ [k])"
  by (simp add: put_assoc_def)

lemma keys_put_assoc: "fst ` set (put_assoc k v xs) = insert k (fst ` set xs)"
  using arg_cong [OF map_fst_put_assoc [of k v xs], of set] by (auto split: if_splits)

lemma in_put_assoc: "(a, b) \<in> set (put_assoc k v xs) \<Longrightarrow> (a = k \<and> b = v) \<or> (a, b) \<in> set xs"
  by (auto simp: put_assoc_def split: if_splits)

lemma put_assoc_in: "(k, v) \<in> set (put_assoc k v xs)"
proof (cases "k \<in> fst ` set xs")
  case True
  then obtain e where "e \<in> set xs" "fst e = k" by auto
  then show ?thesis by (auto simp: put_assoc_def intro!: image_eqI [of _ _ e])
qed (simp add: put_assoc_def)

lemma length_put_assoc: "length (put_assoc k v xs) \<le> Suc (length xs)"
  by (simp add: put_assoc_def)

section \<open>The contract of the loop\<close>

locale explored =
  fixes ok :: "'h exploration \<Rightarrow> bool" and env :: "'h recon_env" and hops :: nat
  assumes ok_query: "ok ex \<Longrightarrow> depth < hops \<Longrightarrow> a \<in> fst ` set (ex_hops ex) \<Longrightarrow> a \<notin> set (ex_queried ex)
      \<Longrightarrow> int (length (ex_queried ex)) < lm_max_frontier_addresses (rc_limits env)
      \<Longrightarrow> query_address env depth a ex = Inr ex' \<Longrightarrow> ok ex'"
    and ok_limit: "ok ex \<Longrightarrow> ok (ex\<lparr> ex_address_limit := True \<rparr>)"
    and ok_candidate: "ok ex \<Longrightarrow> c \<in> snd ` set (ex_candidates ex) \<Longrightarrow> ca_hop c \<le> hops
      \<Longrightarrow> int (length (ex_cases ex)) < lm_max_transactions (rc_limits env)
      \<Longrightarrow> reconstruct_candidate env c ex = Inr ex' \<Longrightarrow> ok ex'"
begin

lemma query_address_hops: "query_address env depth a ex = Inr ex' \<Longrightarrow> ex_hops ex' = ex_hops ex"
  by (auto simp: query_address_def absorb_records_def Let_def split: prod.splits sum.splits exn.splits)

lemma frontier_ok:
  "ok ex \<Longrightarrow> depth < hops \<Longrightarrow> set as' \<subseteq> fst ` set (ex_hops ex) \<Longrightarrow> query_frontier env depth as' ex = Inr ex' \<Longrightarrow> ok ex'"
proof (induction as' arbitrary: ex)
  case (Cons a as')
  show ?case
  proof (cases "lm_max_frontier_addresses (rc_limits env) \<le> int (length (ex_queried ex))")
    case True
    with Cons.prems show ?thesis by (auto intro: ok_limit)
  next
    case room: False
    show ?thesis
    proof (cases "a \<in> set (ex_queried ex)")
      case True
      with room Cons.prems show ?thesis using Cons.IH by simp
    next
      case False
      with room Cons.prems(4) obtain ex1 where q: "query_address env depth a ex = Inr ex1"
        and rest: "query_frontier env depth as' ex1 = Inr ex'" by (auto simp: and_then_eq_Inr)
      have "ok ex1" using ok_query [OF Cons.prems(1,2) _ False _ q] Cons.prems(3) room by simp
      with Cons.prems rest query_address_hops [OF q] show ?thesis using Cons.IH by simp
    qed
  qed
qed simp

lemma candidate_candidates: "reconstruct_candidate env c ex = Inr ex' \<Longrightarrow> ex_candidates ex' = ex_candidates ex"
  by (auto simp: reconstruct_candidate_def expand_frontier_def keep_case_def split: sum.splits prod.splits if_splits)

lemma candidates_ok:
  "ok ex \<Longrightarrow> set cs \<subseteq> snd ` set (ex_candidates ex) \<Longrightarrow> \<forall>c \<in> set cs. ca_hop c \<le> hops
     \<Longrightarrow> reconstruct_candidates env cs ex = Inr ex' \<Longrightarrow> ok ex'"
proof (induction cs arbitrary: ex)
  case (Cons c cs)
  show ?case
  proof (cases "lm_max_transactions (rc_limits env) \<le> int (length (ex_cases ex))")
    case True
    with Cons.prems show ?thesis by simp
  next
    case False
    with Cons.prems(4) obtain ex1 where q: "reconstruct_candidate env c ex = Inr ex1"
      and rest: "reconstruct_candidates env cs ex1 = Inr ex'" by (auto simp: and_then_eq_Inr)
    have "ok ex1" using ok_candidate [OF Cons.prems(1) _ _ _ q] Cons.prems(2,3) False by simp
    with Cons.prems rest candidate_candidates [OF q] show ?thesis using Cons.IH by simp
  qed
qed simp

lemma explore_ok: "ok ex \<Longrightarrow> \<forall>d \<in> set ds. d < hops \<Longrightarrow> explore env ds ex = Inr ex' \<Longrightarrow> ok ex'"
proof (induction ds arbitrary: ex)
  case (Cons d ds)
  show ?case
  proof (cases "frontier_of d (ex_hops ex) = []")
    case True
    with Cons.prems show ?thesis by simp
  next
    case False
    with Cons.prems(3) obtain ex1 where q: "query_frontier env d (frontier_of d (ex_hops ex)) ex = Inr ex1"
      and rest: "(if ex_address_limit ex1 then Inr ex1
        else and_then (reconstruct_candidates env (available_candidates env d ex1) ex1) (\<lambda>ex2.
          if lm_max_transactions (rc_limits env) \<le> int (length (ex_cases ex2)) then Inr ex2 else explore env ds ex2)) = Inr ex'"
      by (auto simp: and_then_eq_Inr)
    have ok1: "ok ex1" by (rule frontier_ok [OF Cons.prems(1) _ _ q]) (use Cons.prems(2) in \<open>auto simp: frontier_of_def\<close>)
    show ?thesis
    proof (cases "ex_address_limit ex1")
      case True
      with rest ok1 show ?thesis by simp
    next
      case False
      with rest obtain ex2 where c: "reconstruct_candidates env (available_candidates env d ex1) ex1 = Inr ex2"
        and last: "(if lm_max_transactions (rc_limits env) \<le> int (length (ex_cases ex2)) then Inr ex2 else explore env ds ex2) = Inr ex'"
        by (auto simp: and_then_eq_Inr)
      have "ok ex2" by (rule candidates_ok [OF ok1 _ _ c]) (use Cons.prems(2) in \<open>auto simp: available_candidates_def\<close>)
      with last Cons.prems(2) show ?thesis using Cons.IH by (auto split: if_splits)
    qed
  qed
qed simp

end

section \<open>The budgets\<close>

definition within_budget :: "'h recon_env \<Rightarrow> nat \<Rightarrow> nat \<Rightarrow> 'h exploration \<Rightarrow> bool" where
  "within_budget env hops n ex \<longleftrightarrow>
     distinct (ex_queried ex) \<and> set (ex_queried ex) \<subseteq> fst ` set (ex_hops ex)
     \<and> int (length (ex_queried ex)) \<le> lm_max_frontier_addresses (rc_limits env)
     \<and> distinct (map fst (ex_hops ex)) \<and> int (length (ex_hops ex)) \<le> max (int n) (lm_max_frontier_addresses (rc_limits env))
     \<and> distinct (map fst (ex_cases ex)) \<and> int (length (ex_cases ex)) \<le> lm_max_transactions (rc_limits env)
     \<and> map fst (ex_contexts ex) = map fst (ex_cases ex) \<and> list_all (\<lambda>(h, c). tx_hop c \<le> hops) (ex_contexts ex)"

lemma link_frontier_budget:
  "link_frontier limit depth as' hs = (hs', reached) \<Longrightarrow> distinct (map fst hs) \<Longrightarrow> int (length hs) \<le> max n limit
     \<Longrightarrow> distinct (map fst hs') \<and> int (length hs') \<le> max n limit \<and> set hs \<subseteq> set hs'"
proof (induction limit depth as' hs rule: link_frontier.induct)
  case (2 limit depth a as' hs)
  show ?case
  proof (cases "a = ZERO_ADDRESS \<or> a \<in> fst ` set hs")
    case True
    with 2 show ?thesis by simp
  next
    case new: False
    show ?thesis
    proof (cases "limit \<le> int (length hs)")
      case True
      with 2 new show ?thesis by simp
    next
      case False
      with 2(3) new have "link_frontier limit depth as' (hs @ [(a, depth)]) = (hs', reached)" by simp
      from 2(2) [OF new False this] 2(4) new False show ?thesis by simp
    qed
  qed
qed simp

lemma absorb_frame:
  "ex_hops (absorb_records env depth a rs ex) = ex_hops ex" "ex_queried (absorb_records env depth a rs ex) = ex_queried ex"
  "ex_cases (absorb_records env depth a rs ex) = ex_cases ex" "ex_contexts (absorb_records env depth a rs ex) = ex_contexts ex"
  by (simp_all add: absorb_records_def Let_def split: prod.splits)

lemma query_frame:
  assumes "query_address env depth a ex = Inr ex'"
  shows "ex_hops ex' = ex_hops ex" "ex_queried ex' = ex_queried ex @ [a]" "ex_cases ex' = ex_cases ex"
    "ex_contexts ex' = ex_contexts ex" "ex_address_limit ex' = ex_address_limit ex"
  using assms
  by (auto simp: query_address_def absorb_frame Let_def split: prod.splits sum.splits exn.splits)
    (auto simp: absorb_records_def Let_def split: prod.splits)

text \<open>What a candidate leaves: a failure, or its case with the frontier extended.\<close>

lemma reconstruct_candidate_cases:
  assumes "reconstruct_candidate env c ex = Inr ex'"
  obtains (failed) e where "ex_cases ex' = ex_cases ex" "ex_contexts ex' = ex_contexts ex" "ex_hops ex' = ex_hops ex"
      "ex_queried ex' = ex_queried ex" "ex_candidates ex' = ex_candidates ex" "ex_failures ex' = Suc (ex_failures ex)"
      "investigate_transaction (rc_investigation env) (rc_rpc env) (rc_chain env) (ca_hash c) (recon_options env) (ex_resolver ex) = Inl e"
  | (kept) k r k' tc ex1 where
      "investigate_transaction (rc_investigation env) (rc_rpc env) (rc_chain env) (ca_hash c) (recon_options env) (ex_resolver ex) = Inr (k, r)"
      "enrich_with env k (ex_tokens ex) = (Inr k', tc)"
      "ex1 = keep_case env c k' (ex\<lparr> ex_resolver := r, ex_tokens := tc \<rparr>)" "ex' = expand_frontier env c k' ex1"
  using assms unfolding reconstruct_candidate_def by (auto split: sum.splits prod.splits if_splits)

lemma expand_frame:
  "ex_history (expand_frontier env c k ex) = ex_history ex" "ex_considered (expand_frontier env c k ex) = ex_considered ex"
  "ex_sources (expand_frontier env c k ex) = ex_sources ex"
  "ex_cases (expand_frontier env c k ex) = ex_cases ex" "ex_contexts (expand_frontier env c k ex) = ex_contexts ex"
  "ex_queried (expand_frontier env c k ex) = ex_queried ex" "ex_candidates (expand_frontier env c k ex) = ex_candidates ex"
  by (simp_all add: expand_frontier_def split: prod.splits)

lemma expand_budget:
  assumes "distinct (map fst (ex_hops ex))" "int (length (ex_hops ex)) \<le> max n (lm_max_frontier_addresses (rc_limits env))"
  shows "distinct (map fst (ex_hops (expand_frontier env c k ex)))
    \<and> int (length (ex_hops (expand_frontier env c k ex))) \<le> max n (lm_max_frontier_addresses (rc_limits env))
    \<and> set (ex_hops ex) \<subseteq> set (ex_hops (expand_frontier env c k ex))"
proof -
  obtain hs b where l: "link_frontier (lm_max_frontier_addresses (rc_limits env)) (ca_hop c) (linked_addresses c k) (ex_hops ex) = (hs, b)"
    by fastforce
  show ?thesis using link_frontier_budget [OF l assms] assms by (simp add: expand_frontier_def l)
qed

interpretation budget: explored "within_budget env hops n" env hops for env :: "'h recon_env" and hops n
proof (unfold_locales, goal_cases)
  case (1 ex depth a ex')
  then show ?case by (auto simp: within_budget_def query_frame [OF 1(6)])
next
  case (2 ex)
  then show ?case by (simp add: within_budget_def)
next
  case (3 ex c ex')
  show ?case using 3(5)
  proof (cases rule: reconstruct_candidate_cases)
    case (failed e)
    with 3(1) show ?thesis by (simp add: within_budget_def)
  next
    case (kept k r k' tc ex1)
    have hops1: "ex_hops ex1 = ex_hops ex" "ex_queried ex1 = ex_queried ex" by (simp_all add: kept(3) keep_case_def)
    have keys: "map fst (ex_cases ex1) = (if ik_transaction_hash k' \<in> fst ` set (ex_cases ex) then map fst (ex_cases ex)
        else map fst (ex_cases ex) @ [ik_transaction_hash k'])" "map fst (ex_contexts ex1) = map fst (ex_cases ex1)"
      using 3(1) by (simp_all add: kept(3) keep_case_def map_fst_put_assoc within_budget_def flip: set_map)
    have len: "int (length (ex_cases ex1)) \<le> lm_max_transactions (rc_limits env)"
      using 3(4) length_put_assoc [of "ik_transaction_hash k'" k' "ex_cases ex"] by (simp add: kept(3) keep_case_def)
    have ctx: "list_all (\<lambda>(h, c). tx_hop c \<le> hops) (ex_contexts ex1)"
      using 3(1,3) by (auto simp: kept(3) keep_case_def within_budget_def list_all_iff context_of_def Let_def dest!: in_put_assoc)
    have "distinct (map fst (ex_cases ex1))" using 3(1) keys by (auto simp: within_budget_def)
    with 3(1) keys(2) len ctx expand_budget [of ex1 "int n" env c k'] hops1 show ?thesis
      unfolding kept(4) within_budget_def expand_frame by auto
  qed
qed

section \<open>Provenance\<close>

text \<open>The histories a run asked, in its order, each from the state of the source that the one before left:
  the answers, and the state after them.\<close>

fun history_run :: "'h recon_env \<Rightarrow> string list \<Rightarrow> 'h \<Rightarrow> history_record list res list \<times> 'h" where
  "history_run env [] h = ([], h)"
| "history_run env (a # as') h =
     (case rc_fetch env (history_query env a) h of (answer, h1) \<Rightarrow>
        (case history_run env as' h1 of (answers, h2) \<Rightarrow> (answer # answers, h2)))"

text \<open>The records the histories of these addresses returned, in the order they came.\<close>

definition records_of :: "history_record list res \<Rightarrow> history_record list" where
  "records_of answer = (case answer of Inl e \<Rightarrow> [] | Inr rs \<Rightarrow> rs)"

definition records_returned :: "'h recon_env \<Rightarrow> string list \<Rightarrow> 'h \<Rightarrow> history_record list" where
  "records_returned env as' h = concat (map records_of (fst (history_run env as' h)))"

lemma history_run_snoc:
  "history_run env (as' @ [a]) h =
     (case history_run env as' h of (answers, h1) \<Rightarrow>
        (case rc_fetch env (history_query env a) h1 of (answer, h2) \<Rightarrow> (answers @ [answer], h2)))"
  by (induction as' arbitrary: h) (simp_all split: prod.split)

lemma records_returned_snoc:
  "records_returned env (as' @ [a]) h =
     records_returned env as' h @ records_of (fst (rc_fetch env (history_query env a) (snd (history_run env as' h))))"
  by (simp add: records_returned_def history_run_snoc split: prod.split)

text \<open>A transaction is evidenced by a record that a queried address's history returned in the run, and a case is an
  investigation of it, with or without token display.\<close>

definition evidenced :: "'h recon_env \<Rightarrow> 'h \<Rightarrow> string list \<Rightarrow> string \<Rightarrow> bool" where
  "evidenced env h0 as' h \<longleftrightarrow> h \<in> hr_transaction_hash ` set (records_returned env as' h0)"

definition investigated :: "'h recon_env \<Rightarrow> string \<Rightarrow> investigation_case \<Rightarrow> bool" where
  "investigated env h k \<longleftrightarrow> (\<exists>r r' k0 tc tc'.
     investigate_transaction (rc_investigation env) (rc_rpc env) (rc_chain env) h (recon_options env) r = Inr (k0, r')
     \<and> enrich_with env k0 tc = (Inr k, tc'))"

text \<open>The counts of the exploration are those of the histories it asked.\<close>

definition backed :: "'h recon_env \<Rightarrow> 'h \<Rightarrow> investigation_case \<Rightarrow> 'h exploration \<Rightarrow> bool" where
  "backed env h0 seed ex \<longleftrightarrow>
     ex_history ex = snd (history_run env (ex_queried ex) h0)
     \<and> ex_considered ex = length (records_returned env (ex_queried ex) h0)
     \<and> ex_sources ex = map hr_source (records_returned env (ex_queried ex) h0)
     \<and> (\<forall>h k. (h, k) \<in> set (ex_cases ex) \<longrightarrow> h = ik_transaction_hash k
        \<and> (k = seed \<or> (\<exists>ch. evidenced env h0 (ex_queried ex) ch \<and> investigated env ch k)))
     \<and> (\<forall>h c. (h, c) \<in> set (ex_candidates ex) \<longrightarrow> ca_hash c = h \<and> evidenced env h0 (ex_queried ex) h)
     \<and> (\<forall>h c. (h, c) \<in> set (ex_contexts ex) \<longrightarrow> tx_hash_of c = h
        \<and> tx_phase c = phase (tx_block c) (rc_seed_block env) h (rc_seed_hash env))"

text \<open>The seed stays: its hash is a key of the cases, no candidate has it, and its case is replaced at most
  where a history names it in another case of letters (the investigation writes it in lower case).\<close>

definition keeps_seed :: "'h recon_env \<Rightarrow> 'h \<Rightarrow> investigation_case \<Rightarrow> 'h exploration \<Rightarrow> bool" where
  "keeps_seed env h0 seed ex \<longleftrightarrow>
     ik_transaction_hash seed \<in> fst ` set (ex_cases ex)
     \<and> rc_seed_hash env \<notin> ca_hash ` snd ` set (ex_candidates ex)
     \<and> ((\<forall>h. evidenced env h0 (ex_queried ex) h \<longrightarrow> lower h = h) \<longrightarrow> (ik_transaction_hash seed, seed) \<in> set (ex_cases ex))"

lemma evidenced_snoc:
  "evidenced env h0 (as' @ [a]) h \<longleftrightarrow> evidenced env h0 as' h
     \<or> h \<in> hr_transaction_hash ` set (records_of (fst (rc_fetch env (history_query env a) (snd (history_run env as' h0)))))"
  by (auto simp: evidenced_def records_returned_snoc)

lemma investigated_hash:
  assumes "investigate_transaction env call chain h opt r = Inr (k, r')"
  shows "ik_transaction_hash k = lower h"
proof -
  from assms obtain x where "validate_transaction_hash h = Inr x" "ik_transaction_hash k = x"
    by (rule investigate_Inr) (simp add: mk_case_def)
  then show ?thesis by (simp add: validate_hash_Inr)
qed

lemma enrich_with_hash: "enrich_with env k tc = (Inr k', tc') \<Longrightarrow> ik_transaction_hash k' = ik_transaction_hash k"
  by (auto simp: enrich_with_def enrich_case_def split: option.splits prod.splits sum.splits)

lemma add_record_hash:
  "(h, c) \<in> set (add_record seed_hash a hub seed_block depth r cs) \<Longrightarrow>
     (\<forall>h c. (h, c) \<in> set cs \<longrightarrow> ca_hash c = h) \<Longrightarrow>
     ca_hash c = h \<and> (h = hr_transaction_hash r \<and> h \<noteq> seed_hash \<or> h \<in> fst ` set cs)"
  by (force simp: add_record_def support_def new_candidate_def Let_def split: if_splits option.splits
      dest!: in_put_assoc map_of_SomeD)

lemma fold_add_record_hash:
  "(h, c) \<in> set (fold (add_record seed_hash a hub seed_block depth) rs cs) \<Longrightarrow>
     (\<forall>h c. (h, c) \<in> set cs \<longrightarrow> ca_hash c = h) \<Longrightarrow>
     ca_hash c = h \<and> (h \<in> hr_transaction_hash ` set rs \<and> h \<noteq> seed_hash \<or> h \<in> fst ` set cs)"
proof (induction rs arbitrary: cs)
  case (Cons r rs)
  let ?cs = "add_record seed_hash a hub seed_block depth r cs"
  have all: "\<forall>h c. (h, c) \<in> set ?cs \<longrightarrow> ca_hash c = h" using add_record_hash Cons.prems(2) by blast
  have "ca_hash c = h \<and> (h \<in> hr_transaction_hash ` set rs \<and> h \<noteq> seed_hash \<or> h \<in> fst ` set ?cs)"
    using Cons.prems(1) all by (intro Cons.IH) simp_all
  moreover have "h = hr_transaction_hash r \<and> h \<noteq> seed_hash \<or> h \<in> fst ` set cs" if "h \<in> fst ` set ?cs"
    using that add_record_hash [OF _ Cons.prems(2)] by fastforce
  ultimately show ?case by auto
qed force

lemma bounded_hub_subset: "set (fst (bounded_hub_records a b m rs)) \<subseteq> set rs"
  by (auto simp: bounded_hub_records_def Let_def)

lemma absorb_candidates:
  assumes "(h, c) \<in> set (ex_candidates (absorb_records env depth a rs ex))"
    and "\<forall>h c. (h, c) \<in> set (ex_candidates ex) \<longrightarrow> ca_hash c = h"
  shows "ca_hash c = h \<and> (h \<in> hr_transaction_hash ` set rs \<and> h \<noteq> rc_seed_hash env \<or> h \<in> fst ` set (ex_candidates ex))"
proof -
  let ?hub = "hub_records (rc_limits env) a rs"
  define sel where "sel = (if ?hub then fst (bounded_hub_records a (rc_seed_block env) (lm_max_hub_transactions (rc_limits env)) rs) else rs)"
  have "ex_candidates (absorb_records env depth a rs ex)
      = fold (add_record (rc_seed_hash env) a ?hub (rc_seed_block env) (depth + 1)) sel (ex_candidates ex)"
    by (simp add: absorb_records_def sel_def Let_def split: prod.split)
  moreover have "set sel \<subseteq> set rs" using bounded_hub_subset by (simp add: sel_def)
  ultimately show ?thesis using fold_add_record_hash [OF _ assms(2)] assms(1) by fastforce
qed

text \<open>What a query adds: the answer of the source, its records counted, and candidates for some of them.\<close>

lemma query_adds:
  assumes "query_address env depth a ex = Inr ex'" and "rc_fetch env (history_query env a) (ex_history ex) = (answer, hs)"
    and "\<forall>h c. (h, c) \<in> set (ex_candidates ex) \<longrightarrow> ca_hash c = h"
  shows "ex_history ex' = hs" "ex_considered ex' = ex_considered ex + length (records_of answer)"
    "ex_sources ex' = ex_sources ex @ map hr_source (records_of answer)"
    "(h, c) \<in> set (ex_candidates ex') \<Longrightarrow> ca_hash c = h
       \<and> (h \<in> hr_transaction_hash ` set (records_of answer) \<and> h \<noteq> rc_seed_hash env \<or> h \<in> fst ` set (ex_candidates ex))"
proof -
  have "ex_history ex' = hs \<and> ex_considered ex' = ex_considered ex + length (records_of answer)
      \<and> ex_sources ex' = ex_sources ex @ map hr_source (records_of answer)
      \<and> ((h, c) \<in> set (ex_candidates ex') \<longrightarrow> ca_hash c = h
           \<and> (h \<in> hr_transaction_hash ` set (records_of answer) \<and> h \<noteq> rc_seed_hash env \<or> h \<in> fst ` set (ex_candidates ex)))"
  proof (cases answer)
    case (Inl e)
    with assms show ?thesis by (auto simp: query_address_def Let_def records_of_def image_iff split: exn.splits) force+
  next
    case (Inr rs)
    with assms(1,2) have ex': "ex' = absorb_records env depth a rs (ex\<lparr> ex_queried := ex_queried ex @ [a], ex_history := hs \<rparr>)"
      by (simp add: query_address_def Let_def)
    with absorb_candidates [of h c env depth a rs "ex\<lparr> ex_queried := ex_queried ex @ [a], ex_history := hs \<rparr>"] assms(3) Inr
    show ?thesis by (simp add: records_of_def absorb_records_def Let_def split: prod.splits)
  qed
  then show "ex_history ex' = hs" "ex_considered ex' = ex_considered ex + length (records_of answer)"
    "ex_sources ex' = ex_sources ex @ map hr_source (records_of answer)"
    "(h, c) \<in> set (ex_candidates ex') \<Longrightarrow> ca_hash c = h
       \<and> (h \<in> hr_transaction_hash ` set (records_of answer) \<and> h \<noteq> rc_seed_hash env \<or> h \<in> fst ` set (ex_candidates ex))"
    by simp_all
qed

lemma query_backed:
  assumes b: "backed env h0 seed ex" and q: "query_address env depth a ex = Inr ex'"
  shows "backed env h0 seed ex'"
proof -
  obtain answer hs where f: "rc_fetch env (history_query env a) (ex_history ex) = (answer, hs)" by fastforce
  from b have hist: "ex_history ex = snd (history_run env (ex_queried ex) h0)"
    and hash: "\<forall>h c. (h, c) \<in> set (ex_candidates ex) \<longrightarrow> ca_hash c = h" by (simp_all add: backed_def)
  note adds = query_adds [OF q f hash] and frame = query_frame [OF q]
  from f hist have f': "rc_fetch env (history_query env a) (snd (history_run env (ex_queried ex) h0)) = (answer, hs)" by simp
  have run: "snd (history_run env (ex_queried ex') h0) = hs"
    "records_returned env (ex_queried ex') h0 = records_returned env (ex_queried ex) h0 @ records_of answer"
    using f' by (cases "history_run env (ex_queried ex) h0", simp add: frame history_run_snoc)
      (simp add: frame records_returned_snoc f')
  have mono: "evidenced env h0 (ex_queried ex) h \<Longrightarrow> evidenced env h0 (ex_queried ex') h" for h
    by (simp add: frame evidenced_snoc)
  have fresh: "ca_hash c = h \<and> evidenced env h0 (ex_queried ex') h" if c: "(h, c) \<in> set (ex_candidates ex')" for h c
  proof (cases "h \<in> fst ` set (ex_candidates ex)")
    case True
    then have "evidenced env h0 (ex_queried ex) h" using b by (auto simp: backed_def)
    with adds(4) [OF c] mono show ?thesis by blast
  next
    case False
    with adds(4) [OF c] show ?thesis by (simp add: frame evidenced_snoc f')
  qed
  show ?thesis using b fresh mono adds(1-3) run unfolding backed_def frame(3,4) by (simp, blast)
qed

lemma candidate_backed:
  assumes b: "backed env h0 seed ex" and c: "c \<in> snd ` set (ex_candidates ex)" and q: "reconstruct_candidate env c ex = Inr ex'"
  shows "backed env h0 seed ex'"
proof -
  from b c have ev: "evidenced env h0 (ex_queried ex) (ca_hash c)" by (auto simp: backed_def)
  show ?thesis using q
  proof (cases rule: reconstruct_candidate_cases)
    case (failed e)
    with b q show ?thesis by (auto simp: backed_def reconstruct_candidate_def split: sum.splits if_splits)
  next
    case (kept k r k' tc ex1)
    have inv: "investigated env (ca_hash c) k'" unfolding investigated_def using kept(1,2) by blast
    have same: "ex_queried ex1 = ex_queried ex" "ex_candidates ex1 = ex_candidates ex" "ex_history ex1 = ex_history ex"
      "ex_considered ex1 = ex_considered ex" "ex_sources ex1 = ex_sources ex" by (simp_all add: kept(3) keep_case_def)
    have cases: "h = ik_transaction_hash x \<and> (x = seed \<or> (\<exists>ch. evidenced env h0 (ex_queried ex) ch \<and> investigated env ch x))"
      if "(h, x) \<in> set (ex_cases ex1)" for h x
      using in_put_assoc [of h x "ik_transaction_hash k'" k' "ex_cases ex"] that b inv ev
      by (auto simp: kept(3) keep_case_def backed_def)
    have "tx_hash_of x = h \<and> tx_phase x = phase (tx_block x) (rc_seed_block env) h (rc_seed_hash env)"
      if "(h, x) \<in> set (ex_contexts ex1)" for h x
      using that b by (auto simp: kept(3) keep_case_def backed_def context_of_def Let_def dest!: in_put_assoc)
    with cases b show ?thesis unfolding kept(4) backed_def expand_frame same by blast
  qed
qed

interpretation provenance: explored "backed env h0 seed" env hops for env :: "'h recon_env" and h0 seed hops
  by (unfold_locales, erule (1) query_backed, simp add: backed_def, erule (2) candidate_backed)

text \<open>A case whose key is not the seed's does not replace the seed's.\<close>

lemma put_assoc_other: "(a, b) \<in> set xs \<Longrightarrow> a \<noteq> k \<Longrightarrow> (a, b) \<in> set (put_assoc k v xs)"
  by (auto simp: put_assoc_def image_iff intro!: bexI [of _ "(a, b)"])

interpretation seed_stays: explored "\<lambda>ex. backed env h0 seed ex \<and> rc_seed_hash env = ik_transaction_hash seed \<and> keeps_seed env h0 seed ex"
    env hops for env :: "'h recon_env" and h0 seed hops
proof (unfold_locales, goal_cases)
  case (1 ex depth a ex')
  then have b: "backed env h0 seed ex" and q: "query_address env depth a ex = Inr ex'" by blast+
  obtain answer hs where f: "rc_fetch env (history_query env a) (ex_history ex) = (answer, hs)" by fastforce
  from b have hash: "\<forall>h c. (h, c) \<in> set (ex_candidates ex) \<longrightarrow> ca_hash c = h" by (simp add: backed_def)
  have "rc_seed_hash env \<notin> ca_hash ` snd ` set (ex_candidates ex')"
  proof
    assume "rc_seed_hash env \<in> ca_hash ` snd ` set (ex_candidates ex')"
    then obtain h c where c: "(h, c) \<in> set (ex_candidates ex')" "ca_hash c = rc_seed_hash env" by auto
    with query_adds(4) [OF q f hash c(1)] obtain d where "(rc_seed_hash env, d) \<in> set (ex_candidates ex)" by auto
    with hash 1(1) show False by (force simp: keeps_seed_def)
  qed
  moreover have "\<forall>h. evidenced env h0 (ex_queried ex') h \<longrightarrow> lower h = h \<Longrightarrow> \<forall>h. evidenced env h0 (ex_queried ex) h \<longrightarrow> lower h = h"
    by (simp add: query_frame [OF q] evidenced_snoc)
  ultimately show ?case using 1(1) query_backed [OF b q] by (simp add: keeps_seed_def query_frame(3) [OF q])
next
  case (2 ex)
  have "backed env h0 seed (ex\<lparr> ex_address_limit := True \<rparr>) = backed env h0 seed ex"
    "keeps_seed env h0 seed (ex\<lparr> ex_address_limit := True \<rparr>) = keeps_seed env h0 seed ex"
    by (simp_all add: backed_def keeps_seed_def)
  with 2 show ?case by simp
next
  case (3 ex c ex')
  then have b: "backed env h0 seed ex" and s: "rc_seed_hash env = ik_transaction_hash seed"
    and k: "keeps_seed env h0 seed ex" by blast+
  have ev: "evidenced env h0 (ex_queried ex) (ca_hash c)" using b 3(2) by (auto simp: backed_def)
  have other: "ca_hash c \<noteq> ik_transaction_hash seed" using k s 3(2) unfolding keeps_seed_def by (metis imageI)
  have "keeps_seed env h0 seed ex'" using 3(5)
  proof (cases rule: reconstruct_candidate_cases)
    case (failed e)
    with k show ?thesis by (simp add: keeps_seed_def)
  next
    case (kept i r k' tc ex1)
    have h: "ik_transaction_hash k' = lower (ca_hash c)" using investigated_hash [OF kept(1)] enrich_with_hash [OF kept(2)] by simp
    have cases: "ex_cases ex' = put_assoc (lower (ca_hash c)) k' (ex_cases ex)" by (simp add: kept(3,4) expand_frame keep_case_def h)
    have same: "ex_queried ex' = ex_queried ex" "ex_candidates ex' = ex_candidates ex"
      by (simp_all add: kept(3,4) expand_frame keep_case_def)
    have "(ik_transaction_hash seed, seed) \<in> set (ex_cases ex')" if "\<forall>h. evidenced env h0 (ex_queried ex) h \<longrightarrow> lower h = h"
      using k that ev other by (simp add: keeps_seed_def cases put_assoc_other)
    with k show ?thesis by (simp add: keeps_seed_def same) (simp add: cases keys_put_assoc)
  qed
  with candidate_backed [OF b 3(2,5)] s show ?case by blast
qed

section \<open>The cap on addresses\<close>

text \<open>A frontier of new addresses that does not fit under the cap reaches it, and a query adds no case.\<close>

lemma frontier_cases: "query_frontier env depth as' ex = Inr ex' \<Longrightarrow> ex_cases ex' = ex_cases ex \<and> ex_contexts ex' = ex_contexts ex"
proof (induction as' arbitrary: ex)
  case (Cons a as')
  then show ?case by (auto simp: and_then_eq_Inr query_frame split: if_splits)
qed simp

lemma frontier_cap:
  assumes "query_frontier env depth as' ex = Inr ex'" "distinct as'" "set as' \<inter> set (ex_queried ex) = {}"
    and "lm_max_frontier_addresses (rc_limits env) < int (length (ex_queried ex) + length as')"
    and "int (length (ex_queried ex)) \<le> lm_max_frontier_addresses (rc_limits env)"
  shows "ex_address_limit ex'"
  using assms
proof (induction as' arbitrary: ex)
  case (Cons a as')
  show ?case
  proof (cases "lm_max_frontier_addresses (rc_limits env) \<le> int (length (ex_queried ex))")
    case True
    with Cons.prems show ?thesis by auto
  next
    case False
    with Cons.prems obtain ex1 where q: "query_address env depth a ex = Inr ex1"
      and rest: "query_frontier env depth as' ex1 = Inr ex'" by (auto simp: and_then_eq_Inr)
    from Cons.prems False show ?thesis by (intro Cons.IH [OF rest]) (auto simp: query_frame [OF q])
  qed
qed simp

lemma frontier_keeps_limit: "query_frontier env depth as' ex = Inr ex' \<Longrightarrow> ex_address_limit ex \<Longrightarrow> ex_address_limit ex'"
proof (induction as' arbitrary: ex)
  case (Cons a as')
  then show ?case by (auto simp: and_then_eq_Inr query_frame split: if_splits)
qed simp

text \<open>Once the cap is reached, the loop investigates no further candidate.\<close>

lemma explore_after_cap:
  assumes "explore env ds ex = Inr ex'" "ex_address_limit ex"
  shows "ex_cases ex' = ex_cases ex \<and> ex_contexts ex' = ex_contexts ex"
proof (cases ds)
  case Nil
  with assms show ?thesis by simp
next
  case (Cons d rest)
  with assms show ?thesis
    by (auto simp: and_then_eq_Inr split: if_splits dest: frontier_cases frontier_keeps_limit)
qed

end
