(* ===== verification/Attack_Properties.thy ===== *)
theory Attack_Properties
  imports "HOL-Library.Multiset" Exploration_Facts Token_Properties
begin

text \<open>
  What a reconstruction (\<^verbatim>\<open>src/white_radar/reconstruction.py\<close>) promises: it stays within its budgets,
  every transaction in it is backed by a history record and an investigation, its views agree
  with its cases; and what the cap on addresses does to it.
\<close>

section \<open>The parts of a result\<close>

lemma reconstruct_Inr:
  assumes "reconstruct_attack_case env k h r tc = Inr a"
  obtains head w seed tc' ex where
    "observed_head (rc_rpc env) (ik_block k + lm_forward_blocks (rc_limits env)) = Inr (head, w)"
    "enrich_with env k tc = (Inr seed, tc')"
    "explore (seeded_env env seed head) [0..<nat (lm_max_hops (rc_limits env))]
       (first_exploration (seeded_env env seed head) seed w h r tc') = Inr ex"
    "mk_reconstruction (seeded_env env seed head) head seed ex = Inr a"
proof -
  obtain q tc' where q: "enrich_with env k tc = (q, tc')" by fastforce
  from assms obtain head w where o: "observed_head (rc_rpc env) (ik_block k + lm_forward_blocks (rc_limits env)) = Inr (head, w)"
    and rest: "(case q of Inl e \<Rightarrow> Inl e | Inr seed \<Rightarrow> and_then (explore (seeded_env env seed head) [0..<nat (lm_max_hops (rc_limits env))]
       (first_exploration (seeded_env env seed head) seed w h r tc')) (mk_reconstruction (seeded_env env seed head) head seed)) = Inr a"
    unfolding reconstruct_attack_case_def Let_def by (auto simp: and_then_eq_Inr q)
  from rest obtain seed where "q = Inr seed" by (cases q) simp_all
  with rest q o show thesis by (auto simp: and_then_eq_Inr intro: that)
qed

lemma seeded_fields [simp]:
  "rc_limits (seeded_env env seed head) = rc_limits env" "rc_fetch (seeded_env env seed head) = rc_fetch env"
  "rc_investigation (seeded_env env seed head) = rc_investigation env" "rc_rpc (seeded_env env seed head) = rc_rpc env"
  "rc_chain (seeded_env env seed head) = rc_chain env" "recon_options (seeded_env env seed head) = recon_options env"
  "enrich_with (seeded_env env seed head) x tc = enrich_with env x tc"
  by (simp_all add: seeded_env_def recon_options_def enrich_with_def split: option.split)

lemma map_fst_mark [simp]: "map fst (mark_core_contexts cs s) = map fst cs"
  by (auto simp: mark_core_contexts_def)

lemma mark_core_in:
  "(h, c) \<in> set (mark_core_contexts cs s) \<longleftrightarrow> (\<exists>c0. (h, c0) \<in> set cs
     \<and> c = c0\<lparr> tx_core_candidate := (core_reasons s h c0 \<noteq> []), tx_core_reasons := core_reasons s h c0 \<rparr>)"
  by (auto simp: mark_core_contexts_def)

text \<open>The ordered contexts are the contexts of the ordered cases.\<close>

lemma contexts_aligned:
  assumes "traverse (context_at cs) ks = Inr ordered"
  shows "list_all2 (\<lambda>c k. (ik_transaction_hash k, c) \<in> set cs) ordered ks"
  using assms
proof (induction ks arbitrary: ordered)
  case (Cons k ks)
  then show ?case
    by (auto simp: and_then_eq_Inr context_at_def split: option.splits dest: map_of_SomeD)
qed simp

lemma list_all2_left: "list_all2 P xs ys \<Longrightarrow> x \<in> set xs \<Longrightarrow> \<exists>y \<in> set ys. P x y"
  by (induction rule: list_all2_induct) auto

lemma mk_reconstruction_Inr:
  assumes "mk_reconstruction env head seed ex = Inr a"
  defines "contexts \<equiv> mark_core_contexts (ex_contexts ex) (ik_transaction_hash seed)"
    and "cases \<equiv> sort_key case_order (map snd (ex_cases ex))"
  shows "ar_transactions a = cases" "traverse (context_at contexts) cases = Inr (ar_contexts a)"
    "aggregate_edges contexts cases = Inr (ar_edges a)" "aggregate_timeline contexts cases = Inr (ar_timeline a)"
    "ar_entities a = aggregate_entities cases" "ar_coverage a = mk_coverage env head ex cases (ar_contexts a)"
    "ar_seed_hash a = ik_transaction_hash seed" "ar_seed_block a = ik_block seed"
    "ar_warnings a = fromkeys (ex_warnings ex @ rc_history_warnings env (ex_history ex) @ coverage_warnings (ar_coverage a))"
  using assms(1) unfolding mk_reconstruction_def Let_def contexts_def cases_def
  by (auto simp: and_then_eq_Inr)

section \<open>The seed\<close>

lemma transfer_ends_evidence: "transfer_ends t = transfer_ends (transfer_evidence t)"
  by (simp add: transfer_ends_def transfer_evidence_def)

lemma enrich_with_seed:
  assumes "enrich_with env k tc = (Inr seed, tc')"
  shows "ik_transaction_hash seed = ik_transaction_hash k" "ik_block seed = ik_block k"
    "seed_frontier seed = seed_frontier k"
proof -
  have "ik_transaction_hash seed = ik_transaction_hash k \<and> ik_block seed = ik_block k \<and> seed_frontier seed = seed_frontier k"
  proof (cases "rc_tokens env")
    case None
    with assms show ?thesis by (simp add: enrich_with_def)
  next
    case (Some p)
    obtain utf8 limit where p: "p = (utf8, limit)" by (cases p)
    with Some assms obtain ts where ts: "enrich_transfers utf8 (rc_rpc env) limit (ik_block k) (ik_transfers k) tc = (Inr ts, tc')"
      and s: "seed = k\<lparr> ik_transfers := ts, ik_relationships := build_relationships (ik_calls k) ts \<rparr>"
      by (auto simp: enrich_with_def enrich_case_def split: prod.splits sum.splits)
    have "map transfer_ends ts = map transfer_ends (ik_transfers k)"
      using arg_cong [OF enrich_transfers_evidence [OF ts], of "map transfer_ends"]
      by (simp add: comp_def flip: transfer_ends_evidence)
    then show ?thesis by (simp add: s seed_frontier_def source_address_def)
  qed
  then show "ik_transaction_hash seed = ik_transaction_hash k" "ik_block seed = ik_block k"
    "seed_frontier seed = seed_frontier k" by simp_all
qed

lemma seed_frontier_keys: "distinct (map fst (seed_frontier k))" "set (map snd (seed_frontier k)) \<subseteq> {0}"
  by (auto simp: seed_frontier_def comp_def)

lemma checked_limits_Inr:
  "checked_limits l = Inr l' \<Longrightarrow> l' = l \<and> 0 \<le> lm_backward_blocks l \<and> 0 \<le> lm_forward_blocks l \<and> 0 \<le> lm_max_hops l
     \<and> 1 \<le> lm_max_transactions l \<and> lm_max_transactions l \<le> 2000 \<and> 1 \<le> lm_max_frontier_addresses l
     \<and> lm_max_frontier_addresses l \<le> 2000"
  by (auto simp: checked_limits_def limit_bounds_def split: if_splits)

lemma first_exploration_budget:
  "1 \<le> lm_max_transactions (rc_limits env) \<Longrightarrow> 0 \<le> lm_max_frontier_addresses (rc_limits env) \<Longrightarrow>
     within_budget env hops (length (seed_frontier seed)) (first_exploration env seed w h r tc)"
  using seed_frontier_keys(1) [of seed]
  by (simp add: within_budget_def first_exploration_def context_of_def Let_def)

lemma first_exploration_backed:
  "rc_seed_hash env = ik_transaction_hash seed \<Longrightarrow> rc_seed_block env = ik_block seed \<Longrightarrow>
     backed env h seed (first_exploration env seed w h r tc) \<and> keeps_seed env h seed (first_exploration env seed w h r tc)"
  by (simp add: backed_def keeps_seed_def records_returned_def first_exploration_def context_of_def Let_def)

lemma seeded_env_seed [simp]:
  "rc_seed_hash (seeded_env env seed head) = ik_transaction_hash seed" "rc_seed_block (seeded_env env seed head) = ik_block seed"
  by (simp_all add: seeded_env_def)

text \<open>Provenance at the end of the loop.\<close>

lemma explored_backed:
  assumes "explore (seeded_env env seed head) [0..<hops] (first_exploration (seeded_env env seed head) seed w h r tc) = Inr ex"
  shows "backed (seeded_env env seed head) h seed ex" "keeps_seed (seeded_env env seed head) h seed ex"
proof -
  have first: "backed (seeded_env env seed head) h seed (first_exploration (seeded_env env seed head) seed w h r tc)
      \<and> rc_seed_hash (seeded_env env seed head) = ik_transaction_hash seed
      \<and> keeps_seed (seeded_env env seed head) h seed (first_exploration (seeded_env env seed head) seed w h r tc)"
    using first_exploration_backed [of "seeded_env env seed head" seed h w r tc] by simp
  have "\<forall>d \<in> set [0..<hops]. d < hops" by simp
  from seed_stays.explore_ok [OF first this assms]
  show "backed (seeded_env env seed head) h seed ex" "keeps_seed (seeded_env env seed head) h seed ex" by blast+
qed

lemma explored_budget:
  assumes "explore (seeded_env env seed head) [0..<nat (lm_max_hops (rc_limits env))]
       (first_exploration (seeded_env env seed head) seed w h r tc) = Inr ex" "checked_limits (rc_limits env) = Inr l"
  shows "within_budget (seeded_env env seed head) (nat (lm_max_hops (rc_limits env))) (length (seed_frontier seed)) ex"
proof -
  have d: "\<forall>d \<in> set [0..<nat (lm_max_hops (rc_limits env))]. d < nat (lm_max_hops (rc_limits env))" by simp
  show ?thesis
    by (rule budget.explore_ok [OF first_exploration_budget d assms(1)]) (use checked_limits_Inr [OF assms(2)] in simp_all)
qed

text \<open>All the invariants at the end of the loop.\<close>

lemma reconstruct_facts:
  assumes "reconstruct_attack_case env k h r tc = Inr a" "checked_limits (rc_limits env) = Inr l"
  obtains head w seed tc' ex where
    "enrich_with env k tc = (Inr seed, tc')" "mk_reconstruction (seeded_env env seed head) head seed ex = Inr a"
    "explore (seeded_env env seed head) [0..<nat (lm_max_hops (rc_limits env))]
       (first_exploration (seeded_env env seed head) seed w h r tc') = Inr ex"
    "within_budget (seeded_env env seed head) (nat (lm_max_hops (rc_limits env))) (length (seed_frontier k)) ex"
    "backed (seeded_env env seed head) h seed ex"
proof -
  from assms(1) obtain head w seed tc' ex where e: "enrich_with env k tc = (Inr seed, tc')"
    and x: "explore (seeded_env env seed head) [0..<nat (lm_max_hops (rc_limits env))]
       (first_exploration (seeded_env env seed head) seed w h r tc') = Inr ex"
    and m: "mk_reconstruction (seeded_env env seed head) head seed ex = Inr a"
    by (rule reconstruct_Inr)
  show thesis
    using that [OF e m x _ explored_backed(1) [OF x]] explored_budget [OF x assms(2)] enrich_with_seed(3) [OF e] by simp
qed

lemma investigated_lower: "investigated env h t \<Longrightarrow> ik_transaction_hash t = lower h"
  by (auto simp: investigated_def dest!: investigated_hash enrich_with_hash)

text \<open>The contexts of a result are those of its transactions, in their order.\<close>

lemma reconstruct_hashes:
  assumes "reconstruct_attack_case env k h r tc = Inr a" "checked_limits (rc_limits env) = Inr l"
  shows "map tx_hash_of (ar_contexts a) = map ik_transaction_hash (ar_transactions a)"
proof -
  from assms obtain head w seed tc' ex where m: "mk_reconstruction (seeded_env env seed head) head seed ex = Inr a"
    and p: "backed (seeded_env env seed head) h seed ex" by (rule reconstruct_facts)
  note f = mk_reconstruction_Inr [OF m]
  let ?cs = "mark_core_contexts (ex_contexts ex) (ik_transaction_hash seed)"
  have al: "list_all2 (\<lambda>c t. (ik_transaction_hash t, c) \<in> set ?cs) (ar_contexts a) (ar_transactions a)"
    using contexts_aligned [OF f(2)] by (simp add: f(1))
  have "tx_hash_of c = x" if "(x, c) \<in> set ?cs" for x c
    using that p by (auto simp: mark_core_in backed_def)
  with al show ?thesis by (auto simp: list_all2_conv_all_nth intro!: nth_equalityI)
qed

lemma reconstruct_core:
  assumes "reconstruct_attack_case env k h r tc = Inr a" "checked_limits (rc_limits env) = Inr l"
  shows "\<forall>c \<in> set (ar_contexts a). tx_core_candidate c \<longleftrightarrow> tx_hash_of c = ar_seed_hash a \<or> tx_hop c = 1"
proof
  fix c
  assume c: "c \<in> set (ar_contexts a)"
  from assms obtain head w seed tc' ex where m: "mk_reconstruction (seeded_env env seed head) head seed ex = Inr a"
    and p: "backed (seeded_env env seed head) h seed ex" by (rule reconstruct_facts)
  note f = mk_reconstruction_Inr [OF m]
  from list_all2_left [OF contexts_aligned [OF f(2)] c] obtain x c0 where "(x, c0) \<in> set (ex_contexts ex)"
    and c0: "c = c0\<lparr> tx_core_candidate := (core_reasons (ik_transaction_hash seed) x c0 \<noteq> []),
        tx_core_reasons := core_reasons (ik_transaction_hash seed) x c0 \<rparr>" by (auto simp: mark_core_in)
  with p have "tx_hash_of c0 = x" by (simp add: backed_def)
  then show "tx_core_candidate c \<longleftrightarrow> tx_hash_of c = ar_seed_hash a \<or> tx_hop c = 1"
    unfolding c0 by (simp add: core_reasons_def f(7))
qed

section \<open>The views\<close>

lemma traverse_view:
  assumes "\<And>t c. map f (g t c) = v t"
    and "traverse (\<lambda>t. and_then (context_at cs t) (\<lambda>c. Inr (g t c))) ts = Inr xss"
  shows "map f (concat xss) = concat (map v ts)"
  using assms(2)
proof (induction ts arbitrary: xss)
  case (Cons t ts)
  then show ?case by (auto simp: and_then_eq_Inr assms(1))
qed simp

lemma edges_view:
  "aggregate_edges cs ts = Inr es \<Longrightarrow> sorted (map edge_order es)
     \<and> mset (map eg_edge_id es) = mset (concat (map (\<lambda>t. map (\<lambda>r. case_ref t (re_relationship_id r)) (ik_relationships t)) ts))"
proof -
  assume "aggregate_edges cs ts = Inr es"
  then obtain ess where t: "traverse (\<lambda>t. and_then (context_at cs t) (\<lambda>c. Inr (map (edge_of t c) (ik_relationships t)))) ts = Inr ess"
    and es: "es = sort_key edge_order (concat ess)" by (auto simp: aggregate_edges_def and_then_eq_Inr)
  have "map eg_edge_id (concat ess) = concat (map (\<lambda>t. map (\<lambda>r. case_ref t (re_relationship_id r)) (ik_relationships t)) ts)"
    by (rule traverse_view [OF _ t]) (simp add: edge_of_def)
  from arg_cong [OF this, of mset] show ?thesis by (simp add: es)
qed

lemma timeline_view:
  "aggregate_timeline cs ts = Inr es \<Longrightarrow> sorted (map entry_order es)
     \<and> mset (map te_entry_id es) = mset (concat (map (\<lambda>t. map (\<lambda>e. case_ref t (tl_entry_id e)) (ik_timeline t)) ts))"
proof -
  assume "aggregate_timeline cs ts = Inr es"
  then obtain ess where t: "traverse (\<lambda>t. and_then (context_at cs t) (\<lambda>c. Inr (map (entry_of t c) (ik_timeline t)))) ts = Inr ess"
    and es: "es = sort_key entry_order (concat ess)" by (auto simp: aggregate_timeline_def and_then_eq_Inr)
  have "map te_entry_id (concat ess) = concat (map (\<lambda>t. map (\<lambda>e. case_ref t (tl_entry_id e)) (ik_timeline t)) ts)"
    by (rule traverse_view [OF _ t]) (simp add: entry_of_def)
  from arg_cong [OF this, of mset] show ?thesis by (simp add: es)
qed

lemma aggregate_entity_address [simp]: "ne_address (aggregate_entity ms x) = x"
  by (simp add: aggregate_entity_def Let_def)

lemma entities_addresses:
  "set (map ne_address (aggregate_entities ts)) = (\<Union>t \<in> set ts. en_address ` set (ik_entities t))
     \<and> distinct (map ne_address (aggregate_entities ts)) \<and> sorted (map ne_address (aggregate_entities ts))"
  by (auto simp: aggregate_entities_def Let_def sorted_set_def entity_mentions_def comp_def image_image image_UN)

lemma entity_blocks:
  assumes "n \<in> set (aggregate_entities ts)" "t \<in> set ts" "ne_address n \<in> en_address ` set (ik_entities t)"
  shows "ne_first_block n \<le> ik_block t \<and> ik_block t \<le> ne_last_block n"
proof -
  let ?ms = "entity_mentions ts"
  from assms(1) obtain x where n: "n = aggregate_entity ?ms x" by (auto simp: aggregate_entities_def Let_def)
  from assms(3) obtain e where e: "e \<in> set (ik_entities t)" "en_address e = x" by (auto simp: n)
  with assms(2) have "(t, e) \<in> set (filter (\<lambda>(t, e). en_address e = x) ?ms)" by (auto simp: entity_mentions_def)
  then have "ik_block t \<in> set (map (\<lambda>(t, e). ik_block t) (filter (\<lambda>(t, e). en_address e = x) ?ms))" by force
  then show ?thesis by (simp only: n aggregate_entity_def Let_def recon_entity.simps) (simp add: Min_le Max_ge)
qed

text \<open>The views over the transactions paired with their contexts.\<close>

lemma traverse_zip:
  assumes "traverse (context_at cs) ts = Inr os"
  shows "traverse (\<lambda>t. and_then (context_at cs t) (\<lambda>c. Inr (g t c))) ts = Inr (map (\<lambda>(t, c). g t c) (zip ts os))"
    "length os = length ts"
proof -
  have "traverse (\<lambda>t. and_then (context_at cs t) (\<lambda>c. Inr (g t c))) ts = Inr (map (\<lambda>(t, c). g t c) (zip ts os))
      \<and> length os = length ts"
    using assms by (induction ts arbitrary: os) (auto simp: and_then_eq_Inr and_then_def split: sum.splits)
  then show "traverse (\<lambda>t. and_then (context_at cs t) (\<lambda>c. Inr (g t c))) ts = Inr (map (\<lambda>(t, c). g t c) (zip ts os))"
    "length os = length ts" by simp_all
qed

lemma edges_fields:
  assumes "aggregate_edges cs ts = Inr es" "traverse (context_at cs) ts = Inr os"
  shows "mset es = mset (concat (map (\<lambda>(t, c). map (edge_of t c) (ik_relationships t)) (zip ts os)))"
  using assms(1) traverse_zip(1) [OF assms(2), of "\<lambda>t c. map (edge_of t c) (ik_relationships t)"]
  by (auto simp: aggregate_edges_def and_then_def)

lemma timeline_fields:
  assumes "aggregate_timeline cs ts = Inr es" "traverse (context_at cs) ts = Inr os"
  shows "mset es = mset (concat (map (\<lambda>(t, c). map (entry_of t c) (ik_timeline t)) (zip ts os)))"
  using assms(1) traverse_zip(1) [OF assms(2), of "\<lambda>t c. map (entry_of t c) (ik_timeline t)"]
  by (auto simp: aggregate_timeline_def and_then_def)

text \<open>An entity aggregates the mentions of its address: there is one, and its block bounds are attained.\<close>

lemma entity_attained:
  assumes "n \<in> set (aggregate_entities ts)"
  shows "\<exists>t \<in> set ts. ne_address n \<in> en_address ` set (ik_entities t) \<and> ik_block t = ne_first_block n"
    "\<exists>t \<in> set ts. ne_address n \<in> en_address ` set (ik_entities t) \<and> ik_block t = ne_last_block n"
    "set (ne_transaction_hashes n) = ik_transaction_hash ` {t \<in> set ts. ne_address n \<in> en_address ` set (ik_entities t)}"
proof -
  let ?ms = "entity_mentions ts"
  have "aggregate_entities ts = map (aggregate_entity ?ms) (sorted_set (map (\<lambda>(k, e). en_address e) ?ms))"
    by (simp only: aggregate_entities_def Let_def)
  with assms have "n \<in> aggregate_entity ?ms ` (\<lambda>(k, e). en_address e) ` set ?ms" by (simp only: sorted_set_def set_map set_sort set_remdups)
  then obtain x where x: "x \<in> (\<lambda>(k, e). en_address e) ` set ?ms" and n: "n = aggregate_entity ?ms x" by (rule imageE)
  let ?own = "filter (\<lambda>(t, e). en_address e = x) ?ms"
  have own: "(t, e) \<in> set ?own \<longleftrightarrow> t \<in> set ts \<and> e \<in> set (ik_entities t) \<and> en_address e = x" for t e
    by (auto simp: entity_mentions_def)
  let ?blocks = "set (map (\<lambda>(t, e). ik_block t) ?own)"
  have ne: "finite ?blocks" "?blocks \<noteq> {}" using x by (auto simp: filter_empty_conv)
  have block: "\<exists>t \<in> set ts. x \<in> en_address ` set (ik_entities t) \<and> ik_block t = b" if "b \<in> ?blocks" for b
  proof -
    from that obtain t e where "(t, e) \<in> set ?own" "ik_block t = b" by (auto simp del: set_filter)
    with own [of t e] show ?thesis by blast
  qed
  have first: "ne_first_block n = Min ?blocks" and last: "ne_last_block n = Max ?blocks"
    and hashes: "set (ne_transaction_hashes n) = (\<lambda>(t, e). ik_transaction_hash t) ` set ?own"
    by (simp_all only: n aggregate_entity_def Let_def recon_entity.simps sorted_set_def set_sort set_remdups set_map)
  show "\<exists>t \<in> set ts. ne_address n \<in> en_address ` set (ik_entities t) \<and> ik_block t = ne_first_block n"
    using block [OF Min_in [OF ne]] by (simp add: first) (simp add: n)
  show "\<exists>t \<in> set ts. ne_address n \<in> en_address ` set (ik_entities t) \<and> ik_block t = ne_last_block n"
    using block [OF Max_in [OF ne]] by (simp add: last) (simp add: n)
  have "(\<lambda>(t, e). ik_transaction_hash t) ` set ?own
      = ik_transaction_hash ` {t \<in> set ts. x \<in> en_address ` set (ik_entities t)}" (is "?l = ?r")
  proof
    show "?l \<subseteq> ?r" using own by (fastforce simp del: set_filter)
    show "?r \<subseteq> ?l"
    proof
      fix h
      assume "h \<in> ?r"
      then obtain t e where "t \<in> set ts" "e \<in> set (ik_entities t)" "en_address e = x" "h = ik_transaction_hash t" by auto
      with own [of t e] show "h \<in> ?l" by (intro image_eqI [of _ _ "(t, e)"]) simp_all
    qed
  qed
  then show "set (ne_transaction_hashes n) = ik_transaction_hash ` {t \<in> set ts. ne_address n \<in> en_address ` set (ik_entities t)}"
    unfolding hashes by (simp add: n)
qed

text \<open>A result holds a transaction.\<close>

lemma reconstruct_nonempty:
  assumes "reconstruct_attack_case env k h r tc = Inr a"
  shows "ar_transactions a \<noteq> []"
proof -
  from assms obtain head w seed tc' ex where m: "mk_reconstruction (seeded_env env seed head) head seed ex = Inr a"
    and x: "explore (seeded_env env seed head) [0..<nat (lm_max_hops (rc_limits env))]
       (first_exploration (seeded_env env seed head) seed w h r tc') = Inr ex" by (rule reconstruct_Inr)
  have "ex_cases ex \<noteq> []" using explored_backed(2) [OF x] unfolding keeps_seed_def by auto
  then show ?thesis by (simp add: mk_reconstruction_Inr(1) [OF m] flip: length_greater_0_conv)
qed

section \<open>The loop returns\<close>

definition careful :: "'h recon_env \<Rightarrow> bool" where
  "careful env \<longleftrightarrow> (\<forall>q hs e hs'. rc_fetch env q hs = (Inl e, hs') \<longrightarrow> (\<exists>m. e = HistorySourceError m))
     \<and> (\<forall>h r e. investigate_transaction (rc_investigation env) (rc_rpc env) (rc_chain env) h (recon_options env) r = Inl e \<longrightarrow> candidate_gap e)
     \<and> (\<forall>x tc. \<exists>x' tc'. enrich_with env x tc = (Inr x', tc'))"

lemma query_returns: "careful env \<Longrightarrow> \<exists>ex'. query_address env depth a ex = Inr ex'"
proof -
  assume c: "careful env"
  obtain res hs where f: "rc_fetch env (history_query env a) (ex_history ex) = (res, hs)" by fastforce
  show ?thesis
  proof (cases res)
    case (Inl e)
    with c f obtain m where "e = HistorySourceError m" unfolding careful_def by blast
    with Inl f show ?thesis by (simp add: query_address_def Let_def)
  qed (simp add: query_address_def Let_def f)
qed

lemma frontier_returns: "careful env \<Longrightarrow> \<exists>ex'. query_frontier env depth as' ex = Inr ex'"
proof (induction as' arbitrary: ex)
  case (Cons a as')
  from query_returns [OF Cons.prems, of depth a ex] obtain ex1 where "query_address env depth a ex = Inr ex1" by blast
  with Cons.IH [OF Cons.prems] show ?case by (simp add: and_then_def)
qed simp

lemma candidate_returns: "careful env \<Longrightarrow> \<exists>ex'. reconstruct_candidate env c ex = Inr ex'"
proof -
  assume c: "careful env"
  show ?thesis
  proof (cases "investigate_transaction (rc_investigation env) (rc_rpc env) (rc_chain env) (ca_hash c) (recon_options env) (ex_resolver ex)")
    case (Inl e)
    with c have "candidate_gap e" unfolding careful_def by blast
    with Inl show ?thesis by (simp add: reconstruct_candidate_def)
  next
    case (Inr q)
    obtain x r where q: "q = (x, r)" by (cases q)
    from c obtain x' tc where "enrich_with env x (ex_tokens ex) = (Inr x', tc)" unfolding careful_def by blast
    with Inr q show ?thesis by (simp add: reconstruct_candidate_def)
  qed
qed

lemma candidates_return: "careful env \<Longrightarrow> \<exists>ex'. reconstruct_candidates env cs ex = Inr ex'"
proof (induction cs arbitrary: ex)
  case (Cons c cs)
  from candidate_returns [OF Cons.prems, of c ex] obtain ex1 where "reconstruct_candidate env c ex = Inr ex1" by blast
  with Cons.IH [OF Cons.prems] show ?case by (simp add: and_then_def)
qed simp

lemma explore_returns: "careful env \<Longrightarrow> \<exists>ex'. explore env ds ex = Inr ex'"
proof (induction ds arbitrary: ex)
  case (Cons d ds)
  from frontier_returns [OF Cons.prems] obtain ex1 where q: "query_frontier env d (frontier_of d (ex_hops ex)) ex = Inr ex1" by blast
  from candidates_return [OF Cons.prems] obtain ex2 where
    "reconstruct_candidates env (available_candidates env d ex1) ex1 = Inr ex2" by blast
  with q Cons.IH [OF Cons.prems] show ?case by (simp add: and_then_def)
qed simp

lemma traverse_returns: "\<forall>x \<in> set xs. \<exists>y. f x = Inr y \<Longrightarrow> \<exists>ys. traverse f xs = Inr ys"
  by (induction xs) (auto simp: and_then_def)

lemma mk_reconstruction_returns:
  assumes "within_budget env hops n ex" "backed env h seed ex"
  shows "\<exists>a. mk_reconstruction env head seed ex = Inr a"
proof -
  define cs where "cs = mark_core_contexts (ex_contexts ex) (ik_transaction_hash seed)"
  define ts where "ts = sort_key case_order (map snd (ex_cases ex))"
  have at: "\<exists>c. context_at cs t = Inr c" if "t \<in> set ts" for t
  proof -
    from that obtain x where x: "(x, t) \<in> set (ex_cases ex)" by (auto simp: ts_def)
    with assms(2) have "x = ik_transaction_hash t" unfolding backed_def by blast
    with x have "ik_transaction_hash t \<in> set (map fst (ex_cases ex))" by force
    then have "ik_transaction_hash t \<in> set (map fst cs)" using assms(1) by (simp add: within_budget_def cs_def del: set_map)
    then obtain c where "map_of cs (ik_transaction_hash t) = Some c" by (metis map_of_eq_None_iff not_None_eq set_map)
    then show ?thesis by (simp add: context_at_def)
  qed
  have view: "\<exists>ys. traverse (\<lambda>t. and_then (context_at cs t) (\<lambda>c. Inr (g c t))) ts = Inr ys"
    for g :: "tx_context \<Rightarrow> investigation_case \<Rightarrow> 'b"
  proof (rule traverse_returns, rule ballI)
    fix t
    assume "t \<in> set ts"
    then obtain c where "context_at cs t = Inr c" using at by blast
    then show "\<exists>y. and_then (context_at cs t) (\<lambda>c. Inr (g c t)) = Inr y" by (simp add: and_then_def)
  qed
  obtain os where o: "traverse (context_at cs) ts = Inr os" using traverse_returns [of ts "context_at cs"] at by blast
  obtain ess where es: "aggregate_edges cs ts = Inr ess" using view [of "\<lambda>c t. map (edge_of t c) (ik_relationships t)"]
    by (auto simp: aggregate_edges_def)
  obtain tls where tl: "aggregate_timeline cs ts = Inr tls" using view [of "\<lambda>c t. map (entry_of t c) (ik_timeline t)"]
    by (auto simp: aggregate_timeline_def)
  from o es tl show ?thesis unfolding mk_reconstruction_def Let_def cs_def ts_def by simp
qed

section \<open>An example\<close>

text \<open>A seed with one committed transfer, whose parties' histories name the transaction of \<open>demo_case\<close>.\<close>

definition demo_seed :: investigation_case where
  "demo_seed = \<lparr> ik_id = ''s'', ik_generated_at = ''t'', ik_chain = ''ethereum'', ik_chain_id = 1, ik_explorer_url = ''e'',
     ik_transaction_hash = ''0xseed'', ik_block = 9, ik_block_hash = None, ik_block_timestamp = None,
     ik_transaction_status = ''succeeded'', ik_transaction_fee_wei = None, ik_trace_available = False,
     ik_trace_truncated = False, ik_source_transaction = [], ik_source_receipt = [], ik_root_call = None, ik_calls = [],
     ik_events = [], ik_transfers = [mk_transfer ''log:0'' ''erc20'' (Some ''0xaa'') ''0xb1'' ''0xb2'' ''5'' None None ''log'' ''log:0'' EXECUTION_COMMITTED],
     ik_entities = [plain_entity ''0xb1'' None None [''sender'']], ik_relationships = [], ik_timeline = [], ik_findings = [], ik_warnings = [],
     ik_proxy_snapshot = None, ik_historical_replay = None, ik_state_diff = None \<rparr>"

definition demo_answer :: "query \<Rightarrow> unit \<Rightarrow> history_record list res \<times> unit" where
  "demo_answer q h = (Inr [\<lparr> hr_transaction_hash = demo_hash, hr_block_number = 5, hr_transaction_index = None, hr_timestamp = None,
     hr_sender = Some (qu_address q), hr_recipient = None, hr_record_type = ''normal'', hr_value = None,
     hr_asset_address = None, hr_token_id = None, hr_source = ''rpc'' \<rparr>], h)"

definition demo_recon :: "int \<Rightarrow> rpc \<Rightarrow> unit recon_env" where
  "demo_recon cap call = \<lparr> rc_chain = demo_chain, rc_rpc = call, rc_investigation = demo_investigation, rc_options = demo_trace_only,
     rc_tokens = None, rc_fetch = demo_answer, rc_history_warnings = (\<lambda>h. []), rc_after_failure = (\<lambda>h r. r),
     rc_class_name = (\<lambda>e. ''E''), rc_limits = default_limits\<lparr> lm_max_hops := 1, lm_max_frontier_addresses := cap \<rparr>, rc_seed_hash = [], rc_seed_block = 0,
     rc_start = 0, rc_end = 0 \<rparr>"

abbreviation demo_attack :: "int \<Rightarrow> rpc \<Rightarrow> attack_case res" where
  "demo_attack cap call \<equiv> reconstruct_attack_case (demo_recon cap call) demo_seed () demo_resolver no_tokens"

text \<open>The exploration of the example, evaluated; its aggregates follow.\<close>

abbreviation demo_env :: "int \<Rightarrow> unit recon_env" where
  "demo_env cap \<equiv> seeded_env (demo_recon cap demo_chain_rpc) demo_seed 521"

abbreviation demo_start :: "int \<Rightarrow> unit exploration" where
  "demo_start cap \<equiv> first_exploration (demo_env cap) demo_seed [head_warning] () demo_resolver no_tokens"

lemma demo_explore_runs:
  "case explore (demo_env 64) [0..<nat (lm_max_hops (rc_limits (demo_recon 64 demo_chain_rpc)))] (demo_start 64) of
     Inl e \<Rightarrow> False | Inr ex \<Rightarrow> map fst (ex_cases ex) = [''0xseed'', demo_hash]"
  by code_simp

lemma demo_head:
  "observed_head (rc_rpc (demo_recon cap demo_chain_rpc)) (ik_block demo_seed + lm_forward_blocks (rc_limits (demo_recon cap demo_chain_rpc)))
     = Inr (521, [head_warning])"
  by (simp add: observed_head_def rpc_block_number_def demo_recon_def demo_chain_rpc_def demo_seed_def default_limits_def and_then_def)

lemma demo_enrich: "enrich_with (demo_recon cap call) demo_seed no_tokens = (Inr demo_seed, no_tokens)"
  by (simp add: enrich_with_def demo_recon_def)

lemma demo_limits:
  "1 \<le> cap \<Longrightarrow> cap \<le> 2000 \<Longrightarrow> checked_limits (rc_limits (demo_recon cap call)) = Inr (default_limits\<lparr> lm_max_hops := 1, lm_max_frontier_addresses := cap \<rparr>)"
  by (simp add: demo_recon_def checked_limits_def limit_bounds_def default_limits_def)

lemma demo_careful:
  assumes "\<And>h r e. investigate_transaction demo_investigation call demo_chain h (demo_trace_only\<lparr> io_replay_prestate := False \<rparr>) r = Inl e
      \<Longrightarrow> candidate_gap e"
  shows "careful (demo_recon cap call)"
  using assms by (auto simp: careful_def demo_recon_def demo_answer_def enrich_with_def recon_options_def)

lemma demo_attack_Inr:
  obtains a where "demo_attack 64 demo_chain_rpc = Inr a" "length (ar_transactions a) = 2"
proof -
  let ?env = "demo_recon 64 demo_chain_rpc" and ?hops = "nat (lm_max_hops (rc_limits (demo_recon 64 demo_chain_rpc)))"
  obtain ex where x: "explore (demo_env 64) [0..<?hops] (demo_start 64) = Inr ex" and c: "map fst (ex_cases ex) = [''0xseed'', demo_hash]"
    using demo_explore_runs by (auto split: sum.splits)
  have l: "1 \<le> lm_max_transactions (rc_limits (demo_env 64))" "0 \<le> lm_max_frontier_addresses (rc_limits (demo_env 64))"
    by (simp_all add: demo_recon_def default_limits_def)
  have d: "\<forall>d \<in> set [0..<?hops]. d < ?hops" by simp
  have b: "within_budget (demo_env 64) ?hops (length (seed_frontier demo_seed)) ex"
    by (rule budget.explore_ok [OF first_exploration_budget [OF l] d x])
  note p = explored_backed(1) [OF x]
  from mk_reconstruction_returns [OF b p] obtain a where m: "mk_reconstruction (demo_env 64) 521 demo_seed ex = Inr a" by blast
  have "demo_attack 64 demo_chain_rpc = Inr a"
    unfolding reconstruct_attack_case_def demo_head demo_enrich using x m by (simp add: and_then_def Let_def)
  moreover have "length (ar_transactions a) = 2"
    using mk_reconstruction_Inr(1) [OF m] arg_cong [OF c, of length] by simp
  ultimately show thesis by (rule that)
qed

lemma silent_node:
  "investigate_transaction env (\<lambda>m ps. Inl RpcError) chain h opt r = Inl e \<Longrightarrow> candidate_gap e"
  by (auto simp: investigate_transaction_def and_then_def validate_transaction_hash_def confirm_transaction_def rpc_transaction_def
      require_dict_def Let_def candidate_gap_def split: if_splits sum.splits)

text \<open>With a node that answers nothing, the exploration still returns.\<close>

lemma demo_silent_returns:
  assumes "1 \<le> cap" "cap \<le> 2000"
  shows "\<exists>a. demo_attack cap (\<lambda>m ps. Inl RpcError) = Inr a"
proof -
  let ?env = "demo_recon cap (\<lambda>m ps. Inl RpcError)"
  let ?seeded = "seeded_env ?env demo_seed 521" and ?hops = "nat (lm_max_hops (rc_limits ?env))"
  let ?first = "first_exploration ?seeded demo_seed [head_warning] () demo_resolver no_tokens"
  have h: "observed_head (rc_rpc ?env) (ik_block demo_seed + lm_forward_blocks (rc_limits ?env)) = Inr (521, [head_warning])"
    by (simp add: observed_head_def rpc_block_number_def demo_recon_def demo_seed_def default_limits_def and_then_def)
  have "careful ?env" by (rule demo_careful) (rule silent_node)
  then have "careful ?seeded" by (simp add: careful_def)
  then obtain ex where x: "explore ?seeded [0..<?hops] ?first = Inr ex" using explore_returns by blast
  have d: "\<forall>d \<in> set [0..<?hops]. d < ?hops" by simp
  have l: "1 \<le> lm_max_transactions (rc_limits ?seeded)" "0 \<le> lm_max_frontier_addresses (rc_limits ?seeded)"
    using assms by (simp_all add: demo_recon_def default_limits_def)
  have b: "within_budget ?seeded ?hops (length (seed_frontier demo_seed)) ex"
    by (rule budget.explore_ok [OF first_exploration_budget [OF l] d x])
  note p = explored_backed(1) [OF x]
  from mk_reconstruction_returns [OF b p] x show ?thesis
    unfolding reconstruct_attack_case_def h demo_enrich by (auto simp: and_then_def Let_def)
qed

section \<open>Properties\<close>

text \<open>C8. A reconstruction stays within its budgets. It holds at most the configured number of
  transactions, each once; it queries at most the configured number of addresses, and no more
  than were discovered; the discovered addresses exceed that number only if the seed itself involves more;
  and no transaction is further than the configured number of hops from the seed.\<close>

theorem reconstruction_bounded:
  assumes "reconstruct_attack_case env k h r tc = Inr a" and "checked_limits (rc_limits env) = Inr l"
  shows "int (length (ar_transactions a)) \<le> lm_max_transactions l \<and> distinct (map ik_transaction_hash (ar_transactions a))
     \<and> int (cv_addresses_queried (ar_coverage a)) \<le> lm_max_frontier_addresses l
     \<and> cv_addresses_queried (ar_coverage a) \<le> cv_frontier_addresses (ar_coverage a)
     \<and> int (cv_frontier_addresses (ar_coverage a)) \<le> max (int (length (seed_frontier k))) (lm_max_frontier_addresses l)
     \<and> (\<forall>c \<in> set (ar_contexts a). int (tx_hop c) \<le> lm_max_hops l)"
proof -
  from assms obtain head w seed tc' ex where m: "mk_reconstruction (seeded_env env seed head) head seed ex = Inr a"
    and b: "within_budget (seeded_env env seed head) (nat (lm_max_hops (rc_limits env))) (length (seed_frontier k)) ex"
    and p: "backed (seeded_env env seed head) h seed ex"
    by (rule reconstruct_facts)
  note l = checked_limits_Inr [OF assms(2)] and f = mk_reconstruction_Inr [OF m]
  have "map ik_transaction_hash (map snd (ex_cases ex)) = map fst (ex_cases ex)"
    using p by (auto simp: backed_def)
  then have "distinct (map ik_transaction_hash (map snd (ex_cases ex)))" using b by (simp only: within_budget_def)
  then have "distinct (map ik_transaction_hash (ar_transactions a))"
    unfolding f(1) distinct_map by (auto simp: distinct_map)
  moreover have "int (length (ar_transactions a)) \<le> lm_max_transactions l" using b l by (simp add: f(1) within_budget_def)
  moreover have "cv_addresses_queried (ar_coverage a) \<le> cv_frontier_addresses (ar_coverage a)"
  proof -
    have "length (ex_queried ex) = card (set (ex_queried ex))" using b by (simp add: within_budget_def distinct_card)
    also have "\<dots> \<le> card (fst ` set (ex_hops ex))" using b by (intro card_mono) (simp_all add: within_budget_def)
    also have "\<dots> \<le> length (ex_hops ex)" by (metis card_length length_map set_map)
    finally show ?thesis by (simp add: f(6) mk_coverage_def)
  qed
  moreover have "\<forall>c \<in> set (ar_contexts a). int (tx_hop c) \<le> lm_max_hops l"
  proof
    fix c
    assume "c \<in> set (ar_contexts a)"
    from list_all2_left [OF contexts_aligned [OF f(2)] this] obtain h0 where
      "(h0, c) \<in> set (mark_core_contexts (ex_contexts ex) (ik_transaction_hash seed))" by blast
    then have "tx_hop c \<le> nat (lm_max_hops (rc_limits env))" using b by (auto simp: mark_core_in within_budget_def list_all_iff)
    then show "int (tx_hop c) \<le> lm_max_hops l" using l le_nat_iff by blast
  qed
  ultimately show ?thesis using b l by (simp add: f(6) mk_coverage_def within_budget_def)
qed

theorem reconstruction_bounded_witness:
  "\<exists>a. demo_attack 64 demo_chain_rpc = Inr a \<and> length (ar_transactions a) = 2 \<and> cv_addresses_queried (ar_coverage a) \<le> 64"
proof -
  obtain a where run: "demo_attack 64 demo_chain_rpc = Inr a" and t: "length (ar_transactions a) = 2" by (rule demo_attack_Inr)
  from reconstruction_bounded [OF run demo_limits] t run show ?thesis by simp
qed

text \<open>C7. A reconstruction is backed by evidence. It is that of a run of the exploration from the seed
  (the case given, with its display). Every transaction in it is the seed or the investigation, on
  the same chain, of a transaction that a record names which the histories of the addresses
  queried in this run returned, each asked once, in this order, with the window and the limits of
  the run. The seed's transaction is in it, and the seed's own case is, where the histories write
  hashes in lower case (\<^verbatim>\<open>_hash\<close> of \<^verbatim>\<open>history.py\<close> lowers them). The coverage counts these queries and these records
  and names their sources. The context of a transaction is its own, marked as core exactly for
  the seed and the transactions one hop from it.\<close>

theorem reconstruction_backed:
  assumes "reconstruct_attack_case env k h r tc = Inr a" and "checked_limits (rc_limits env) = Inr l"
  shows "\<exists>head w seed tc' ex.
       observed_head (rc_rpc env) (ik_block k + lm_forward_blocks l) = Inr (head, w)
     \<and> enrich_with env k tc = (Inr seed, tc')
     \<and> explore (seeded_env env seed head) [0..<nat (lm_max_hops l)]
         (first_exploration (seeded_env env seed head) seed w h r tc') = Inr ex
     \<and> mk_reconstruction (seeded_env env seed head) head seed ex = Inr a
     \<and> (\<forall>t \<in> set (ar_transactions a). t = seed \<or> (\<exists>e \<in> set (records_returned (seeded_env env seed head) (ex_queried ex) h).
          ik_transaction_hash t = lower (hr_transaction_hash e)
          \<and> investigated (seeded_env env seed head) (hr_transaction_hash e) t))
     \<and> ik_transaction_hash k \<in> ik_transaction_hash ` set (ar_transactions a)
     \<and> ((\<forall>e \<in> set (records_returned (seeded_env env seed head) (ex_queried ex) h).
           lower (hr_transaction_hash e) = hr_transaction_hash e) \<longrightarrow> seed \<in> set (ar_transactions a))
     \<and> distinct (ex_queried ex) \<and> cv_addresses_queried (ar_coverage a) = length (ex_queried ex)
     \<and> cv_records_considered (ar_coverage a) = length (records_returned (seeded_env env seed head) (ex_queried ex) h)
     \<and> set (cv_history_sources (ar_coverage a)) = hr_source ` set (records_returned (seeded_env env seed head) (ex_queried ex) h)
     \<and> map tx_hash_of (ar_contexts a) = map ik_transaction_hash (ar_transactions a)
     \<and> (\<forall>c \<in> set (ar_contexts a). tx_core_candidate c \<longleftrightarrow> tx_hash_of c = ar_seed_hash a \<or> tx_hop c = 1)"
proof -
  note l = checked_limits_Inr [OF assms(2)]
  from assms(1) obtain head w seed tc' ex where o: "observed_head (rc_rpc env) (ik_block k + lm_forward_blocks (rc_limits env)) = Inr (head, w)"
    and e: "enrich_with env k tc = (Inr seed, tc')"
    and x: "explore (seeded_env env seed head) [0..<nat (lm_max_hops (rc_limits env))]
       (first_exploration (seeded_env env seed head) seed w h r tc') = Inr ex"
    and m: "mk_reconstruction (seeded_env env seed head) head seed ex = Inr a"
    by (rule reconstruct_Inr)
  let ?env = "seeded_env env seed head"
  let ?records = "set (records_returned ?env (ex_queried ex) h)"
  note f = mk_reconstruction_Inr [OF m] and p = explored_backed [OF x] and s = enrich_with_seed [OF e]
  have txs: "t = seed \<or> (\<exists>e \<in> ?records. ik_transaction_hash t = lower (hr_transaction_hash e) \<and> investigated ?env (hr_transaction_hash e) t)"
    if "t \<in> set (ar_transactions a)" for t
  proof -
    from that obtain x where "(x, t) \<in> set (ex_cases ex)" by (auto simp: f(1))
    with p(1) have "t = seed \<or> (\<exists>ch. evidenced ?env h (ex_queried ex) ch \<and> investigated ?env ch t)" by (simp add: backed_def)
    with investigated_lower [of ?env _ t] show ?thesis unfolding evidenced_def by blast
  qed
  have kept: "ik_transaction_hash k \<in> ik_transaction_hash ` set (ar_transactions a)"
  proof -
    from p(2) have "ik_transaction_hash seed \<in> fst ` set (ex_cases ex)" by (simp only: keeps_seed_def)
    then obtain q where q: "(ik_transaction_hash seed, q) \<in> set (ex_cases ex)" by auto
    with p(1) have "ik_transaction_hash q = ik_transaction_hash seed" unfolding backed_def by metis
    moreover from q have "q \<in> set (ar_transactions a)" by (force simp: f(1))
    ultimately show ?thesis using s(1) by (metis imageI)
  qed
  have own: "seed \<in> set (ar_transactions a)" if "\<forall>e \<in> ?records. lower (hr_transaction_hash e) = hr_transaction_hash e"
    using p(2) that by (force simp: f(1) keeps_seed_def evidenced_def)
  have counts: "cv_addresses_queried (ar_coverage a) = length (ex_queried ex)"
    "cv_records_considered (ar_coverage a) = length (records_returned ?env (ex_queried ex) h)"
    "set (cv_history_sources (ar_coverage a)) = hr_source ` ?records"
    using p(1) by (simp_all add: f(6) mk_coverage_def backed_def sorted_set_def)
  have once: "distinct (ex_queried ex)" using explored_budget [OF x assms(2)] by (simp add: within_budget_def)
  show ?thesis
    using o e x m txs kept own counts once reconstruct_hashes [OF assms] reconstruct_core [OF assms] l by blast
qed

theorem reconstruction_backed_witness:
  "\<exists>a. demo_attack 64 demo_chain_rpc = Inr a \<and> length (ar_transactions a) = 2
     \<and> map tx_hash_of (ar_contexts a) = map ik_transaction_hash (ar_transactions a)
     \<and> ik_transaction_hash demo_seed \<in> ik_transaction_hash ` set (ar_transactions a)"
proof -
  obtain a where run: "demo_attack 64 demo_chain_rpc = Inr a" and t: "length (ar_transactions a) = 2" by (rule demo_attack_Inr)
  have "map tx_hash_of (ar_contexts a) = map ik_transaction_hash (ar_transactions a)"
    "ik_transaction_hash demo_seed \<in> ik_transaction_hash ` set (ar_transactions a)"
    using reconstruction_backed [OF run demo_limits] by auto
  with t run show ?thesis by simp
qed

text \<open>C29. A seed with more addresses than the cap reconstructs nothing but itself. If the frontier of the
  seed (its parties and those of its committed transfers) is larger than the cap on addresses,
  the result holds the seed alone, whatever the histories return, and reports the cap as reached.\<close>

theorem frontier_cap_blocks_reconstruction:
  assumes "reconstruct_attack_case env k h r tc = Inr a" and "checked_limits (rc_limits env) = Inr l"
    and "0 < lm_max_hops l" and "lm_max_frontier_addresses l < int (length (seed_frontier k))"
  shows "map ik_transaction_hash (ar_transactions a) = [ik_transaction_hash k] \<and> cv_address_limit (ar_coverage a)"
proof -
  from assms(1) obtain head w seed tc' ex where e: "enrich_with env k tc = (Inr seed, tc')"
    and x: "explore (seeded_env env seed head) [0..<nat (lm_max_hops (rc_limits env))]
       (first_exploration (seeded_env env seed head) seed w h r tc') = Inr ex"
    and m: "mk_reconstruction (seeded_env env seed head) head seed ex = Inr a"
    by (rule reconstruct_Inr)
  note f = mk_reconstruction_Inr [OF m] and s = enrich_with_seed [OF e] and l = checked_limits_Inr [OF assms(2)]
  let ?env = "seeded_env env seed head"
  let ?first = "first_exploration ?env seed w h r tc'"
  have hops: "ex_hops ?first = seed_frontier k" "ex_queried ?first = []" by (simp_all add: first_exploration_def s)
  have all: "filter (\<lambda>e. snd e = 0) (seed_frontier k) = seed_frontier k"
    using seed_frontier_keys(2) [of k] by (auto simp: filter_id_conv)
  let ?front = "frontier_of 0 (seed_frontier k)"
  have front: "distinct ?front" "length ?front = length (seed_frontier k)"
    using seed_frontier_keys(1) [of k] by (simp_all add: frontier_of_def all)
  have "[0..<nat (lm_max_hops (rc_limits env))] = 0 # [1..<nat (lm_max_hops (rc_limits env))]"
    using assms(3) l by (simp add: upt_rec)
  with x front assms(4) l obtain ex1 where q: "query_frontier ?env 0 ?front ?first = Inr ex1"
    and rest: "ex_address_limit ex1 \<longrightarrow> ex = ex1"
    by (auto simp: hops and_then_eq_Inr split: if_splits)
  have "ex_address_limit ex1"
    by (rule frontier_cap [OF q]) (use front hops assms(4) l in auto)
  with rest frontier_cases [OF q] have "ex_cases ex = [(ik_transaction_hash seed, seed)]" "ex_address_limit ex"
    by (simp_all add: first_exploration_def)
  then show ?thesis by (simp add: f(1) f(6) mk_coverage_def s)
qed

theorem frontier_cap_blocks_reconstruction_witness:
  "\<exists>a. demo_attack 1 (\<lambda>m ps. Inl RpcError) = Inr a \<and> map ik_transaction_hash (ar_transactions a) = [''0xseed'']"
proof -
  obtain a where run: "demo_attack 1 (\<lambda>m ps. Inl RpcError) = Inr a" using demo_silent_returns [of 1] by auto
  have f: "length (seed_frontier demo_seed) = 2" by code_simp
  have "lm_max_frontier_addresses (default_limits\<lparr> lm_max_hops := 1, lm_max_frontier_addresses := 1 \<rparr>) = 1" "0 < lm_max_hops (default_limits\<lparr> lm_max_hops := 1, lm_max_frontier_addresses := 1 \<rparr>)"
    by (simp_all add: default_limits_def)
  with frontier_cap_blocks_reconstruction [OF run demo_limits] f run show ?thesis by (simp add: demo_seed_def)
qed

text \<open>C9. The views of a reconstruction agree with its transactions. The transactions are in order of
  block and index, each with its context at its place. The edges and the timeline are, field by
  field, the relationships and the timeline entries of the transactions and no others, with the
  hash and block of their transaction and the hop, phase and index of its context, sorted. There
  is one entity per address mentioned; it names the transactions that mention it, and its first
  and last block are the least and the greatest of theirs. The coverage counts the transactions
  and the core ones among them, and its first and last block are the least and the greatest of
  the blocks of the transactions.\<close>

theorem reconstruction_views:
  assumes "reconstruct_attack_case env k h r tc = Inr a"
  shows "sorted (map case_order (ar_transactions a)) \<and> length (ar_contexts a) = length (ar_transactions a)
     \<and> sorted (map edge_order (ar_edges a)) \<and> sorted (map entry_order (ar_timeline a))
     \<and> mset (map eg_edge_id (ar_edges a))
         = mset (concat (map (\<lambda>t. map (\<lambda>r. case_ref t (re_relationship_id r)) (ik_relationships t)) (ar_transactions a)))
     \<and> mset (map te_entry_id (ar_timeline a))
         = mset (concat (map (\<lambda>t. map (\<lambda>e. case_ref t (tl_entry_id e)) (ik_timeline t)) (ar_transactions a)))
     \<and> mset (ar_edges a) = mset (concat (map (\<lambda>(t, c). map (\<lambda>r.
         \<lparr> eg_edge_id = ik_transaction_hash t @ '':'' @ re_relationship_id r, eg_transaction_hash = ik_transaction_hash t,
           eg_block_number = ik_block t, eg_hop = tx_hop c, eg_source = re_source r, eg_target = re_target r,
           eg_relation = re_relation r, eg_asset_type = re_asset_type r, eg_asset_address = re_asset_address r,
           eg_asset_symbol = re_asset_symbol r, eg_raw_amount = re_amount r, eg_amount_display = re_amount_display r,
           eg_evidence_ref = ik_transaction_hash t @ '':'' @ re_evidence_ref r,
           eg_execution_effect = re_execution_effect r \<rparr>) (ik_relationships t)) (zip (ar_transactions a) (ar_contexts a))))
     \<and> mset (ar_timeline a) = mset (concat (map (\<lambda>(t, c). map (\<lambda>e.
         \<lparr> te_entry_id = ik_transaction_hash t @ '':'' @ tl_entry_id e, te_transaction_hash = ik_transaction_hash t,
           te_block_number = ik_block t, te_block_timestamp = ik_block_timestamp t, te_transaction_phase = tx_phase c,
           te_transaction_index = tx_index c, te_event_phase = tl_phase e, te_event_order = tl_order e,
           te_event_type = tl_event_type e, te_summary = tl_summary e,
           te_evidence_ref = ik_transaction_hash t @ '':'' @ tl_evidence_ref e \<rparr>) (ik_timeline t)) (zip (ar_transactions a) (ar_contexts a))))
     \<and> set (map ne_address (ar_entities a)) = (\<Union>t \<in> set (ar_transactions a). en_address ` set (ik_entities t))
     \<and> distinct (map ne_address (ar_entities a)) \<and> sorted (map ne_address (ar_entities a))
     \<and> (\<forall>n \<in> set (ar_entities a). \<forall>t \<in> set (ar_transactions a). ne_address n \<in> en_address ` set (ik_entities t)
          \<longrightarrow> ne_first_block n \<le> ik_block t \<and> ik_block t \<le> ne_last_block n)
     \<and> (\<forall>n \<in> set (ar_entities a).
          (\<exists>t \<in> set (ar_transactions a). ne_address n \<in> en_address ` set (ik_entities t) \<and> ik_block t = ne_first_block n)
        \<and> (\<exists>t \<in> set (ar_transactions a). ne_address n \<in> en_address ` set (ik_entities t) \<and> ik_block t = ne_last_block n)
        \<and> set (ne_transaction_hashes n)
            = ik_transaction_hash ` {t \<in> set (ar_transactions a). ne_address n \<in> en_address ` set (ik_entities t)})
     \<and> cv_reconstructed (ar_coverage a) = length (ar_transactions a)
     \<and> cv_core_transactions (ar_coverage a) = length (filter tx_core_candidate (ar_contexts a))
     \<and> ar_transactions a \<noteq> [] \<and> cv_first_block (ar_coverage a) = Min (ik_block ` set (ar_transactions a))
     \<and> cv_last_block (ar_coverage a) = Max (ik_block ` set (ar_transactions a))"
proof -
  from assms obtain head w seed tc' ex where m: "mk_reconstruction (seeded_env env seed head) head seed ex = Inr a"
    by (rule reconstruct_Inr)
  note f = mk_reconstruction_Inr [OF m]
  let ?cs = "mark_core_contexts (ex_contexts ex) (ik_transaction_hash seed)"
  have os: "traverse (context_at ?cs) (ar_transactions a) = Inr (ar_contexts a)" using f(2) by (simp add: f(1))
  have es: "aggregate_edges ?cs (ar_transactions a) = Inr (ar_edges a)" using f(3) by (simp add: f(1))
  have ts: "aggregate_timeline ?cs (ar_transactions a) = Inr (ar_timeline a)" using f(4) by (simp add: f(1))
  have n: "ar_entities a = aggregate_entities (ar_transactions a)" by (simp add: f(1,5))
  have order: "sorted (map case_order (ar_transactions a))" by (simp add: f(1))
  have coverage: "cv_reconstructed (ar_coverage a) = length (ar_transactions a)"
    "cv_core_transactions (ar_coverage a) = length (filter tx_core_candidate (ar_contexts a))"
    "cv_first_block (ar_coverage a) = Min (ik_block ` set (ar_transactions a))"
    "cv_last_block (ar_coverage a) = Max (ik_block ` set (ar_transactions a))"
    by (simp_all only: f(6) mk_coverage_def coverage.simps f(1) set_map)
  note edges = edges_fields [OF es os, unfolded edge_of_def case_ref_def]
    and entries = timeline_fields [OF ts os, unfolded entry_of_def case_ref_def]
  have bounds: "\<forall>n \<in> set (ar_entities a). \<forall>t \<in> set (ar_transactions a). ne_address n \<in> en_address ` set (ik_entities t)
      \<longrightarrow> ne_first_block n \<le> ik_block t \<and> ik_block t \<le> ne_last_block n"
    unfolding n using entity_blocks [of _ "ar_transactions a"] by blast
  have attained: "\<forall>n \<in> set (ar_entities a).
      (\<exists>t \<in> set (ar_transactions a). ne_address n \<in> en_address ` set (ik_entities t) \<and> ik_block t = ne_first_block n)
    \<and> (\<exists>t \<in> set (ar_transactions a). ne_address n \<in> en_address ` set (ik_entities t) \<and> ik_block t = ne_last_block n)
    \<and> set (ne_transaction_hashes n) = ik_transaction_hash ` {t \<in> set (ar_transactions a). ne_address n \<in> en_address ` set (ik_entities t)}"
    unfolding n by (intro ballI conjI entity_attained)
  note addresses = entities_addresses [of "ar_transactions a", folded n]
  note ids = edges_view [OF es] timeline_view [OF ts]
  show ?thesis
    by (intro conjI) (rule order traverse_zip(2) [OF os] ids(1) [THEN conjunct1] ids(2) [THEN conjunct1]
      ids(1) [THEN conjunct2] ids(2) [THEN conjunct2] edges entries addresses [THEN conjunct1]
      addresses [THEN conjunct2, THEN conjunct1] addresses [THEN conjunct2, THEN conjunct2] bounds attained
      coverage reconstruct_nonempty [OF assms])+
qed

theorem reconstruction_views_witness:
  "\<exists>a. demo_attack 64 demo_chain_rpc = Inr a \<and> length (ar_transactions a) = 2 \<and> distinct (map ne_address (ar_entities a))"
proof -
  obtain a where run: "demo_attack 64 demo_chain_rpc = Inr a" and t: "length (ar_transactions a) = 2" by (rule demo_attack_Inr)
  from reconstruction_views [OF run] t run show ?thesis by simp
qed

text \<open>C28. A reconstruction always returns. If the head of the chain is known or the node says why not,
  histories fail only with their own exception, candidates only with the exceptions the loop
  catches, and token display does not fail, then a result is produced: the exploration ends and
  every case has its context, so no lookup fails.\<close>

theorem reconstruction_returns:
  assumes "checked_limits (rc_limits env) = Inr l"
    and "observed_head (rc_rpc env) (ik_block k + lm_forward_blocks (rc_limits env)) = Inr (head, w)"
    and "\<forall>q hs e hs'. rc_fetch env q hs = (Inl e, hs') \<longrightarrow> (\<exists>m. e = HistorySourceError m)"
    and "\<forall>h r e. investigate_transaction (rc_investigation env) (rc_rpc env) (rc_chain env) h (recon_options env) r = Inl e \<longrightarrow> candidate_gap e"
    and "\<forall>x tc. \<exists>x' tc'. enrich_with env x tc = (Inr x', tc')"
  shows "\<exists>a. reconstruct_attack_case env k h r tc = Inr a"
proof -
  from assms(5) obtain seed tc' where e: "enrich_with env k tc = (Inr seed, tc')" by blast
  let ?env = "seeded_env env seed head" and ?hops = "nat (lm_max_hops (rc_limits env))"
  let ?first = "first_exploration ?env seed w h r tc'"
  have "careful ?env" using assms(3-5) by (simp add: careful_def)
  then obtain ex where x: "explore ?env [0..<?hops] ?first = Inr ex" using explore_returns by blast
  note l = checked_limits_Inr [OF assms(1)]
  have d: "\<forall>d \<in> set [0..<?hops]. d < ?hops" by simp
  have b: "within_budget ?env ?hops (length (seed_frontier seed)) ex"
    by (rule budget.explore_ok [OF first_exploration_budget d x]) (use l in simp_all)
  note p = explored_backed(1) [OF x]
  from mk_reconstruction_returns [OF b p] e x assms(2) show ?thesis
    by (auto simp: reconstruct_attack_case_def Let_def)
qed

theorem reconstruction_returns_witness: "\<exists>a. demo_attack 64 (\<lambda>m ps. Inl RpcError) = Inr a"
proof -
  let ?env = "demo_recon 64 (\<lambda>m ps. Inl RpcError)"
  have f: "rc_rpc ?env = (\<lambda>m ps. Inl RpcError)" "rc_fetch ?env = demo_answer" "rc_tokens ?env = None" by (simp_all add: demo_recon_def)
  have l: "checked_limits (rc_limits ?env) = Inr (default_limits\<lparr> lm_max_hops := 1, lm_max_frontier_addresses := 64 \<rparr>)" by (rule demo_limits) simp_all
  have h: "observed_head (rc_rpc ?env) n = Inr (n, [head_warning])" for n
    by (simp add: f observed_head_def rpc_block_number_def and_then_def)
  show ?thesis
    by (rule reconstruction_returns [OF l h]) (auto simp: f demo_answer_def enrich_with_def dest: silent_node)
qed

end
