(* ===== verification/Documents.thy ===== *)
theory Documents
  imports Simulation
begin

text \<open>
  What the writers of documents share (\<^verbatim>\<open>src/white_radar/case_bundle.py\<close>, \<^verbatim>\<open>reconstruction_bundle.py\<close>,
  \<^verbatim>\<open>reporting.py\<close> and \<^verbatim>\<open>telegram.py\<close>): texts with characters beyond Latin-1, \<^verbatim>\<open>_plain\<close>, \<^verbatim>\<open>html.escape\<close>,
  the \<^verbatim>\<open>excel\<close> dialect of \<^verbatim>\<open>csv.DictWriter\<close>, \<^verbatim>\<open>json.dumps(..., indent=2)\<close> and UTF-8. The texts read
  from chains are \<^typ>\<open>string\<close>s; a finished document is a list of code points, since the
  program's own words hold dashes, bullets and arrows.
\<close>

section \<open>Texts as code points\<close>

type_synonym unicode = "nat list"

definition uni :: "string \<Rightarrow> unicode" where
  "uni s = map code_pt s"

definition em_dash :: unicode where "em_dash = [8212]"
definition bullet :: unicode where "bullet = [8226]"
definition ellipsis :: unicode where "ellipsis = [8230]"
definition right_arrow :: unicode where "right_arrow = [8594]"
definition middle_dot :: unicode where "middle_dot = [32, 183, 32]"

text \<open>\<^verbatim>\<open>"\n".join(lines)\<close>\<close>

fun join_lines :: "unicode list \<Rightarrow> unicode" where
  "join_lines [] = []"
| "join_lines [l] = l"
| "join_lines (l # m # ls) = l @ [10] @ join_lines (m # ls)"

definition utf8_char :: "nat \<Rightarrow> bytes" where
  "utf8_char n =
     (if n < 128 then [n]
      else if n < 2048 then [192 + n div 64, 128 + n mod 64]
      else if n < 65536 then [224 + n div 4096, 128 + n div 64 mod 64, 128 + n mod 64]
      else [240 + n div 262144, 128 + n div 4096 mod 64, 128 + n div 64 mod 64, 128 + n mod 64])"

definition utf8 :: "unicode \<Rightarrow> bytes" where
  "utf8 t = concat (map utf8_char t)"

section \<open>\<open>_plain\<close> and \<open>html.escape\<close>\<close>

definition back_tick :: char where "back_tick = CHR 0x60"
definition single_quote :: char where "single_quote = CHR 0x27"
definition double_quote :: char where "double_quote = CHR 0x22"

definition plain :: "nat \<Rightarrow> string \<Rightarrow> string" where
  "plain limit s = take limit (map (\<lambda>c. if c = back_tick then single_quote else c) (squeeze s))"

definition escape_char :: "char \<Rightarrow> string" where
  "escape_char c =
     (if c = CHR ''&'' then ''&amp;''
      else if c = CHR ''<'' then ''&lt;''
      else if c = CHR ''>'' then ''&gt;''
      else if c = double_quote then ''&quot;''
      else if c = single_quote then ''&#x27;''
      else [c])"

definition html_escape :: "string \<Rightarrow> string" where
  "html_escape s = concat (map escape_char s)"

text \<open>What a reader of HTML or XML makes of the five entities.\<close>

fun html_unescape :: "string \<Rightarrow> string" where
  "html_unescape [] = []"
| "html_unescape (c # cs) =
     (if startswith ''&amp;'' (c # cs) then CHR ''&'' # html_unescape (drop 4 cs)
      else if startswith ''&lt;'' (c # cs) then CHR ''<'' # html_unescape (drop 3 cs)
      else if startswith ''&gt;'' (c # cs) then CHR ''>'' # html_unescape (drop 3 cs)
      else if startswith ''&quot;'' (c # cs) then double_quote # html_unescape (drop 5 cs)
      else if startswith ''&#x27;'' (c # cs) then single_quote # html_unescape (drop 5 cs)
      else c # html_unescape cs)"

section \<open>\<open>csv.DictWriter\<close>\<close>

definition csv_special :: "char \<Rightarrow> bool" where
  "csv_special c \<longleftrightarrow> c = CHR '','' \<or> c = double_quote \<or> c = CHR 0x0D \<or> c = CHR 0x0A"

definition csv_quote :: "string \<Rightarrow> string" where
  "csv_quote s = double_quote # concat (map (\<lambda>c. if c = double_quote then [c, c] else [c]) s) @ [double_quote]"

definition csv_field :: "string \<Rightarrow> string" where
  "csv_field s = (if list_ex csv_special s then csv_quote s else s)"

text \<open>A row of one empty field is written as a quoted empty field.\<close>

definition csv_row :: "string list \<Rightarrow> string" where
  "csv_row fs = (if fs = [[]] then csv_quote [] else join '','' (map csv_field fs)) @ [CHR 0x0D, CHR 0x0A]"

definition csv_cell :: "dict \<Rightarrow> string \<Rightarrow> string" where
  "csv_cell r n = (if dget r n = JNull then [] else py_str (dget r n))"

definition csv_text :: "string list \<Rightarrow> dict list \<Rightarrow> string" where
  "csv_text names rows = concat (map csv_row (names # map (\<lambda>r. map (csv_cell r) names) rows))"

section \<open>\<open>json.dumps\<close> with an indent\<close>

definition new_line :: "nat \<Rightarrow> string" where
  "new_line n = CHR 0x0A # replicate n (CHR '' '')"

fun json_pretty :: "nat \<Rightarrow> json \<Rightarrow> string" where
  "json_pretty n (JList []) = ''[]''"
| "json_pretty n (JList (x # xs)) =
     ''['' @ new_line (n + 2) @ join ('','' @ new_line (n + 2)) (map (json_pretty (n + 2)) (x # xs)) @ new_line n @ '']''"
| "json_pretty n (JObj []) = ''{}''"
| "json_pretty n (JObj (kv # d)) =
     ''{'' @ new_line (n + 2) @ join ('','' @ new_line (n + 2)) (map (\<lambda>kt. json_string (fst kt) @ '': '' @ snd kt)
        (sort_key fst (map (\<lambda>kv. (fst kv, json_pretty (n + 2) (snd kv))) (kv # d)))) @ new_line n @ ''}''"
| "json_pretty n j = json_dumps j"

text \<open>JSON inside a script element: \<^verbatim>\<open>.replace("<", "\u003c")\<close>\<close>

definition script_json :: "json \<Rightarrow> string" where
  "script_json j = concat (map (\<lambda>c. if c = CHR ''<'' then CHR 0x5C # ''u003c'' else [c]) (json_dumps j))"

section \<open>Lemmas\<close>

lemma uni_simps [simp]: "uni [] = []" "uni (c # s) = code_pt c # uni s" "uni (s @ t) = uni s @ uni t"
  by (simp_all add: uni_def)

lemma code_pt_inject: "code_pt c = code_pt d \<longleftrightarrow> c = d"
  by (simp add: code_pt_def)

lemma in_set_uni: "code_pt c \<in> set (uni s) \<longleftrightarrow> c \<in> set s"
  unfolding uni_def set_map image_iff code_pt_inject by blast

lemma utf8_append [simp]: "utf8 [] = []" "utf8 (s @ t) = utf8 s @ utf8 t"
  by (simp_all add: utf8_def)

lemma html_escape_simps [simp]:
  "html_escape [] = []" "html_escape (c # s) = escape_char c @ html_escape s"
  by (simp_all add: html_escape_def)

lemma escape_char_inert: "set (escape_char c) \<inter> {CHR ''<'', CHR ''>'', double_quote, single_quote} = {}"
  by (auto simp: escape_char_def double_quote_def single_quote_def)

lemma html_escape_inert: "set (html_escape s) \<inter> {CHR ''<'', CHR ''>'', double_quote, single_quote} = {}"
  using escape_char_inert by (induction s) fastforce+

lemma unescape_char: "html_unescape (escape_char c @ s) = c # html_unescape s"
  by (auto simp: escape_char_def startswith_def double_quote_def single_quote_def)

lemma unescape_escape: "html_unescape (html_escape s) = s"
  by (induction s) (simp_all add: unescape_char del: html_unescape.simps(2))

text \<open>\<open>plain\<close> leaves no white space but blanks, and no back tick.\<close>

lemma words_acc_no_space: "list_all (\<lambda>c. \<not> is_space c) w \<Longrightarrow> u \<in> set (words_acc w s) \<Longrightarrow> c \<in> set u \<Longrightarrow> \<not> is_space c"
proof (induction w s arbitrary: u rule: words_acc.induct)
  case (1 w)
  then show ?case by (auto simp: list_all_iff split: if_splits)
next
  case (2 w d cs)
  then show ?case by (auto simp: list_all_iff split: if_splits)
qed

lemma set_join: "set (join sep ss) \<subseteq> set sep \<union> \<Union> (set ` set ss)"
  by (induction sep ss rule: join.induct) auto

lemma plain_inert:
  assumes "c \<in> set (plain limit s)"
  shows "c \<noteq> back_tick \<and> (is_space c \<longrightarrow> c = CHR '' '')"
proof -
  obtain d where d: "d \<in> set (squeeze s)" "c = (if d = back_tick then single_quote else d)"
    using in_set_takeD[OF assms[unfolded plain_def]] unfolding set_map by (rule imageE) (simp add: that)
  from d(1) have "d = CHR '' '' \<or> (\<exists>u \<in> set (split_words s). d \<in> set u)"
    unfolding squeeze_def using set_join by fastforce
  moreover have "\<not> is_space d" if "u \<in> set (split_words s)" "d \<in> set u" for u
    using words_acc_no_space[of "[]" u s d] that by (simp add: split_words_def)
  ultimately have "is_space d \<longrightarrow> d = CHR '' ''" by blast
  then show ?thesis using d(2)
    by (auto simp: back_tick_def single_quote_def is_space_def code_pt_def split: if_splits)
qed

lemma length_plain: "length (plain limit s) \<le> limit"
  by (simp add: plain_def)

lemma script_json_inert: "CHR ''<'' \<notin> set (script_json j)"
  by (auto simp: script_json_def split: if_splits)

end
