(* ===== verification/Case_Json.thy ===== *)
theory Case_Json
  imports Attack_Case Monitor Mempool Documents
begin

text \<open>
  The \<^verbatim>\<open>to_dict\<close> forms of the evidence records (\<^verbatim>\<open>dataclasses.asdict\<close>), in the order of their fields:
  those of \<^verbatim>\<open>src/white_radar/investigation.py\<close>, \<^verbatim>\<open>state_diff.py\<close> and \<^verbatim>\<open>reconstruction.py\<close>. A tuple becomes a
  list, a nested record a dictionary.
\<close>

section \<open>Values\<close>

definition jstrs :: "string list \<Rightarrow> json" where
  "jstrs xs = JList (map JStr xs)"

definition jnat :: "nat \<Rightarrow> json" where
  "jnat n = JInt (int n)"

definition jopt :: "('a \<Rightarrow> json) \<Rightarrow> 'a option \<Rightarrow> json" where
  "jopt f x = (case x of None \<Rightarrow> JNull | Some y \<Rightarrow> f y)"

text \<open>\<^verbatim>\<open>asdict\<close> of a record whose \<^verbatim>\<open>to_dict\<close> adds the property \<^verbatim>\<open>score_delta\<close>.\<close>

definition without_score :: "json \<Rightarrow> json" where
  "without_score j = (case j of JObj d \<Rightarrow> JObj (filter (\<lambda>kv. fst kv \<noteq> ''score_delta'') d) | _ \<Rightarrow> j)"

section \<open>The records of one case\<close>

definition call_dict :: "call_frame \<Rightarrow> dict" where
  "call_dict f =
     [(''path'', JStr (cf_path f)), (''depth'', jnat (cf_depth f)), (''call_type'', JStr (cf_call_type f)),
      (''sender'', opt_json (cf_sender f)), (''recipient'', opt_json (cf_recipient f)),
      (''value_wei'', JInt (cf_value_wei f)), (''gas'', JInt (cf_gas f)), (''gas_used'', JInt (cf_gas_used f)),
      (''selector'', JStr (cf_selector f)), (''function_signature'', opt_json (cf_function_signature f)),
      (''abi_source'', opt_json (cf_abi_source f)), (''error'', opt_json (cf_error f)),
      (''revert_reason'', opt_json (cf_revert_reason f)), (''execution_effect'', JStr (cf_execution_effect f)),
      (''decode_confidence'', opt_json (cf_decode_confidence f)), (''decoded_arguments'', JObj (cf_decoded_arguments f)),
      (''calldata'', JStr (cf_calldata f)), (''calldata_bytes'', jnat (cf_calldata_bytes f)),
      (''calldata_sha256'', opt_json (cf_calldata_sha256 f)), (''calldata_truncated'', JBool (cf_calldata_truncated f))]"

definition event_record_dict :: "event_record \<Rightarrow> dict" where
  "event_record_dict e =
     [(''log_index'', JInt (xe_log_index e)), (''address'', opt_json (xe_address e)), (''topic0'', opt_json (xe_topic0 e)),
      (''event_signature'', opt_json (xe_event_signature e)), (''event_name'', opt_json (xe_event_name e)),
      (''arguments'', JObj (xe_arguments e)), (''abi_source'', opt_json (xe_abi_source e)),
      (''abi_sha256'', opt_json (xe_abi_sha256 e)), (''decode_confidence'', opt_json (xe_decode_confidence e)),
      (''topics'', jstrs (xe_topics e)), (''data'', JStr (xe_data e)), (''data_bytes'', jnat (xe_data_bytes e)),
      (''data_sha256'', opt_json (xe_data_sha256 e)), (''data_truncated'', JBool (xe_data_truncated e)),
      (''evidence_ref'', JStr (xe_evidence_ref e))]"

definition transfer_dict :: "asset_transfer \<Rightarrow> dict" where
  "transfer_dict t =
     [(''transfer_id'', JStr (at_transfer_id t)), (''asset_type'', JStr (at_asset_type t)),
      (''asset_address'', opt_json (at_asset_address t)), (''sender'', JStr (at_sender t)),
      (''recipient'', JStr (at_recipient t)), (''amount'', JStr (at_amount t)), (''token_id'', opt_json (at_token_id t)),
      (''operator'', opt_json (at_operator t)), (''source'', JStr (at_source t)),
      (''evidence_ref'', JStr (at_evidence_ref t)), (''execution_effect'', JStr (at_execution_effect t)),
      (''asset_name'', opt_json (at_asset_name t)), (''asset_symbol'', opt_json (at_asset_symbol t)),
      (''asset_decimals'', opt_int_json (at_asset_decimals t)), (''amount_display'', opt_json (at_amount_display t))]"

definition entity_dict :: "entity \<Rightarrow> dict" where
  "entity_dict n =
     [(''address'', JStr (en_address n)), (''kind'', JStr (en_kind n)), (''label'', opt_json (en_label n)),
      (''roles'', jstrs (en_roles n)), (''code_observed'', jopt JBool (en_code_observed n)),
      (''code_bytes'', jopt jnat (en_code_bytes n)), (''runtime_code_sha256'', opt_json (en_runtime_code_sha256 n))]"

definition relationship_dict :: "relationship \<Rightarrow> dict" where
  "relationship_dict r =
     [(''relationship_id'', JStr (re_relationship_id r)), (''source'', JStr (re_source r)), (''target'', JStr (re_target r)),
      (''relation'', JStr (re_relation r)), (''evidence_ref'', JStr (re_evidence_ref r)),
      (''asset_address'', opt_json (re_asset_address r)), (''amount'', opt_json (re_amount r)),
      (''asset_type'', opt_json (re_asset_type r)), (''asset_symbol'', opt_json (re_asset_symbol r)),
      (''amount_display'', opt_json (re_amount_display r)), (''execution_effect'', JStr (re_execution_effect r))]"

definition timeline_dict :: "timeline_entry \<Rightarrow> dict" where
  "timeline_dict t =
     [(''entry_id'', JStr (tl_entry_id t)), (''phase'', JStr (tl_phase t)), (''order'', JInt (tl_order t)),
      (''event_type'', JStr (tl_event_type t)), (''summary'', JStr (tl_summary t)),
      (''evidence_ref'', JStr (tl_evidence_ref t))]"

definition finding_dict :: "case_finding \<Rightarrow> dict" where
  "finding_dict f =
     [(''code'', JStr (fi_code f)), (''category'', JStr (fi_category f)), (''summary'', JStr (fi_summary f)),
      (''evidence_refs'', jstrs (fi_evidence_refs f))]"

definition decoded_dict :: "decoded_call \<Rightarrow> dict" where
  "decoded_dict d =
     [(''selector'', JStr (dc_selector d)), (''signature'', opt_json (dc_signature d)), (''arguments'', JObj (dc_arguments d)),
      (''source'', opt_json (dc_source d)), (''abi_sha256'', opt_json (dc_abi_sha256 d)),
      (''confidence'', opt_json (dc_confidence d))]"

definition storage_dict :: "storage_change \<Rightarrow> dict" where
  "storage_dict s =
     [(''slot'', JStr (sc_slot s)), (''before'', opt_json (sc_before s)), (''after'', opt_json (sc_after s))]"

definition account_dict :: "account_change \<Rightarrow> dict" where
  "account_dict a =
     [(''address'', JStr (ac_address a)), (''change_type'', JStr (ac_change_type a)),
      (''balance_before_wei'', opt_json (ac_balance_before_wei a)), (''balance_after_wei'', opt_json (ac_balance_after_wei a)),
      (''nonce_before'', opt_int_json (ac_nonce_before a)), (''nonce_after'', opt_int_json (ac_nonce_after a)),
      (''code_before_bytes'', jopt (jnat o fst) (ac_code_before a)), (''code_after_bytes'', jopt (jnat o fst) (ac_code_after a)),
      (''code_before_sha256'', jopt (JStr o snd) (ac_code_before a)), (''code_after_sha256'', jopt (JStr o snd) (ac_code_after a)),
      (''storage_changes'', JList (map (JObj o storage_dict) (ac_storage_changes a)))]"

definition state_diff_dict :: "state_diff \<Rightarrow> dict" where
  "state_diff_dict d =
     [(''source'', JStr (sd_source d)), (''accounts'', JList (map (JObj o account_dict) (sd_accounts d))),
      (''storage_change_count'', jnat (sd_storage_change_count d)), (''truncated'', JBool (sd_truncated d)),
      (''warnings'', jstrs (sd_warnings d))]"

definition case_dict :: "investigation_case \<Rightarrow> dict" where
  "case_dict k =
     [(''schema_version'', JInt 3), (''case_id'', JStr (ik_id k)), (''generated_at'', JStr (ik_generated_at k)),
      (''chain'', JStr (ik_chain k)), (''chain_id'', JInt (ik_chain_id k)), (''explorer_url'', JStr (ik_explorer_url k)),
      (''transaction_hash'', JStr (ik_transaction_hash k)), (''block_number'', JInt (ik_block k)),
      (''block_hash'', opt_json (ik_block_hash k)), (''block_timestamp'', opt_json (ik_block_timestamp k)),
      (''transaction_status'', JStr (ik_transaction_status k)), (''transaction_fee_wei'', opt_json (ik_transaction_fee_wei k)),
      (''trace_available'', JBool (ik_trace_available k)), (''trace_truncated'', JBool (ik_trace_truncated k)),
      (''source_transaction'', JObj (ik_source_transaction k)), (''source_receipt'', JObj (ik_source_receipt k)),
      (''root_call'', jopt (JObj o decoded_dict) (ik_root_call k)), (''calls'', JList (map (JObj o call_dict) (ik_calls k))),
      (''events'', JList (map (JObj o event_record_dict) (ik_events k))),
      (''transfers'', JList (map (JObj o transfer_dict) (ik_transfers k))),
      (''entities'', JList (map (JObj o entity_dict) (ik_entities k))),
      (''relationships'', JList (map (JObj o relationship_dict) (ik_relationships k))),
      (''timeline'', JList (map (JObj o timeline_dict) (ik_timeline k))),
      (''findings'', JList (map (JObj o finding_dict) (ik_findings k))), (''warnings'', jstrs (ik_warnings k)),
      (''proxy_snapshot'', jopt (without_score o snapshot_json) (ik_proxy_snapshot k)),
      (''historical_replay'', jopt (without_score o simulation_json) (ik_historical_replay k)),
      (''state_diff'', jopt (JObj o state_diff_dict) (ik_state_diff k))]"

section \<open>The records of a reconstruction\<close>

definition limits_dict :: "recon_limits \<Rightarrow> dict" where
  "limits_dict l =
     [(''backward_blocks'', JInt (lm_backward_blocks l)), (''forward_blocks'', JInt (lm_forward_blocks l)),
      (''max_hops'', JInt (lm_max_hops l)), (''max_transactions'', JInt (lm_max_transactions l)),
      (''max_frontier_addresses'', JInt (lm_max_frontier_addresses l)),
      (''history_records_per_address'', JInt (lm_history_records l)), (''hub_min_records'', JInt (lm_hub_min_records l)),
      (''hub_min_counterparties'', JInt (lm_hub_min_counterparties l)),
      (''max_hub_candidate_transactions'', JInt (lm_max_hub_transactions l))]"

definition context_dict :: "tx_context \<Rightarrow> dict" where
  "context_dict c =
     [(''transaction_hash'', JStr (tx_hash_of c)), (''block_number'', JInt (tx_block c)),
      (''transaction_index'', opt_int_json (tx_index c)), (''block_timestamp'', opt_json (tx_timestamp c)),
      (''phase'', JStr (tx_phase c)), (''hop'', jnat (tx_hop c)), (''relevance_score'', JInt (tx_relevance c)),
      (''discovery_reasons'', jstrs (tx_reasons c)), (''status'', JStr (tx_status c)), (''sender'', opt_json (tx_sender c)),
      (''recipient'', opt_json (tx_recipient c)), (''selector'', JStr (tx_selector c)),
      (''function_signature'', opt_json (tx_function_signature c)), (''function_confidence'', opt_json (tx_function_confidence c)),
      (''function_source'', opt_json (tx_function_source c)), (''decoded_arguments'', JObj (tx_arguments c)),
      (''call_count'', jnat (tx_call_count c)), (''event_count'', jnat (tx_event_count c)),
      (''transfer_count'', jnat (tx_transfer_count c)), (''state_account_change_count'', jnat (tx_account_change_count c)),
      (''storage_change_count'', jnat (tx_storage_change_count c)), (''trace_available'', JBool (tx_trace_available c)),
      (''core_candidate'', JBool (tx_core_candidate c)), (''core_reasons'', jstrs (tx_core_reasons c))]"

definition recon_entity_dict :: "recon_entity \<Rightarrow> dict" where
  "recon_entity_dict n =
     [(''address'', JStr (ne_address n)), (''kind'', JStr (ne_kind n)), (''label'', opt_json (ne_label n)),
      (''roles'', jstrs (ne_roles n)), (''transaction_hashes'', jstrs (ne_transaction_hashes n)),
      (''first_block'', JInt (ne_first_block n)), (''last_block'', JInt (ne_last_block n)),
      (''code_observed'', jopt JBool (ne_code_observed n)), (''code_bytes_min'', jopt jnat (ne_code_bytes_min n)),
      (''code_bytes_max'', jopt jnat (ne_code_bytes_max n)), (''runtime_code_sha256s'', jstrs (ne_runtime_code_sha256s n))]"

definition recon_edge_dict :: "recon_edge \<Rightarrow> dict" where
  "recon_edge_dict e =
     [(''edge_id'', JStr (eg_edge_id e)), (''transaction_hash'', JStr (eg_transaction_hash e)),
      (''block_number'', JInt (eg_block_number e)), (''hop'', jnat (eg_hop e)), (''source'', JStr (eg_source e)),
      (''target'', JStr (eg_target e)), (''relation'', JStr (eg_relation e)), (''asset_type'', opt_json (eg_asset_type e)),
      (''asset_address'', opt_json (eg_asset_address e)), (''asset_symbol'', opt_json (eg_asset_symbol e)),
      (''raw_amount'', opt_json (eg_raw_amount e)), (''amount_display'', opt_json (eg_amount_display e)),
      (''evidence_ref'', JStr (eg_evidence_ref e)), (''execution_effect'', JStr (eg_execution_effect e))]"

definition recon_entry_dict :: "recon_entry \<Rightarrow> dict" where
  "recon_entry_dict t =
     [(''entry_id'', JStr (te_entry_id t)), (''transaction_hash'', JStr (te_transaction_hash t)),
      (''block_number'', JInt (te_block_number t)), (''block_timestamp'', opt_json (te_block_timestamp t)),
      (''transaction_phase'', JStr (te_transaction_phase t)), (''transaction_index'', opt_int_json (te_transaction_index t)),
      (''event_phase'', JStr (te_event_phase t)), (''event_order'', JInt (te_event_order t)),
      (''event_type'', JStr (te_event_type t)), (''summary'', JStr (te_summary t)), (''evidence_ref'', JStr (te_evidence_ref t))]"

definition coverage_dict :: "coverage \<Rightarrow> dict" where
  "coverage_dict c =
     [(''boundary_status'', JStr (cv_boundary_status c)), (''requested_start_block'', JInt (cv_start_block c)),
      (''requested_end_block'', JInt (cv_end_block c)), (''observed_chain_head'', JInt (cv_chain_head c)),
      (''addresses_queried'', jnat (cv_addresses_queried c)), (''history_records_considered'', jnat (cv_records_considered c)),
      (''transaction_candidates'', jnat (cv_candidates c)), (''transactions_reconstructed'', jnat (cv_reconstructed c)),
      (''transaction_failures'', jnat (cv_failures c)), (''transaction_limit_reached'', JBool (cv_transaction_limit c)),
      (''address_limit_reached'', JBool (cv_address_limit c)), (''history_sources'', jstrs (cv_history_sources c)),
      (''frontier_addresses_discovered'', jnat (cv_frontier_addresses c)),
      (''candidate_transactions_not_reconstructed'', jnat (cv_not_reconstructed c)),
      (''reconstructed_start_block'', JInt (cv_first_block c)), (''reconstructed_end_block'', JInt (cv_last_block c)),
      (''core_transactions'', jnat (cv_core_transactions c)), (''hub_addresses_detected'', jstrs (cv_hub_addresses c)),
      (''hub_history_records_suppressed'', jnat (cv_hub_suppressed c))]"

definition reconstruction_dict :: "attack_case \<Rightarrow> dict" where
  "reconstruction_dict a =
     [(''schema_version'', jnat (ar_schema_version a)), (''reconstruction_id'', JStr (ar_reconstruction_id a)),
      (''generated_at'', JStr (ar_generated_at a)), (''tool_name'', JStr (ar_tool_name a)),
      (''tool_version'', JStr (ar_tool_version a)), (''chain'', JStr (ar_chain a)), (''chain_id'', JInt (ar_chain_id a)),
      (''explorer_url'', JStr (ar_explorer_url a)), (''seed_transaction_hash'', JStr (ar_seed_hash a)),
      (''seed_block_number'', JInt (ar_seed_block a)), (''limits'', JObj (limits_dict (ar_limits a))),
      (''coverage'', JObj (coverage_dict (ar_coverage a))), (''contexts'', JList (map (JObj o context_dict) (ar_contexts a))),
      (''transactions'', JList (map (JObj o case_dict) (ar_transactions a))),
      (''entities'', JList (map (JObj o recon_entity_dict) (ar_entities a))),
      (''edges'', JList (map (JObj o recon_edge_dict) (ar_edges a))),
      (''timeline'', JList (map (JObj o recon_entry_dict) (ar_timeline a))), (''warnings'', jstrs (ar_warnings a))]"

end
