(* ===== verification/Case_Report.thy ===== *)
theory Case_Report
  imports Case_Json
begin

text \<open>
  \<^verbatim>\<open>render_investigation_report\<close> of \<^verbatim>\<open>src/white_radar/case_bundle.py\<close>: the Markdown report of one case,
  section by section as the function appends them. A line is a list of code points; the lines
  are joined at the end.
\<close>

section \<open>Optional texts\<close>

text \<open>\<^verbatim>\<open>x or default\<close> and \<^verbatim>\<open>x or y\<close> of optional strings\<close>

definition text_or :: "string option \<Rightarrow> string \<Rightarrow> string" where
  "text_or x dflt = (if truthy_opt x then the x else dflt)"

definition first_of :: "string option \<Rightarrow> string option \<Rightarrow> string option" where
  "first_of x y = (if truthy_opt x then x else y)"

definition yes_no :: "bool \<Rightarrow> string" where
  "yes_no b = (if b then ''yes'' else ''no'')"

definition ticked :: "string \<Rightarrow> string" where
  "ticked s = back_tick # s @ [back_tick]"

abbreviation plain_text :: "string \<Rightarrow> string" where
  "plain_text \<equiv> plain 2000"

text \<open>A dictionary of counts, in the order of \<^verbatim>\<open>sorted(counts.items())\<close>\<close>

definition tally :: "string list \<Rightarrow> (string \<times> nat) list" where
  "tally xs = map (\<lambda>x. (x, length (filter (\<lambda>y. y = x) xs))) (sort (remdups xs))"

definition with_effect :: "string \<Rightarrow> asset_transfer list \<Rightarrow> nat" where
  "with_effect e ts = length (filter (\<lambda>t. at_execution_effect t = e) ts)"

section \<open>The sections\<close>

definition root_signature :: "investigation_case \<Rightarrow> string" where
  "root_signature k =
     (case ik_root_call k of None \<Rightarrow> ''unresolved'' | Some d \<Rightarrow> text_or (dc_signature d) (dc_selector d))"

definition transaction_fee :: "investigation_case \<Rightarrow> string" where
  "transaction_fee k = (case ik_transaction_fee_wei k of None \<Rightarrow> ''unavailable'' | Some w \<Rightarrow> w @ '' wei'')"

definition report_heading :: "investigation_case \<Rightarrow> unicode list" where
  "report_heading k = map uni
     [''# WhiteRadar Incident investigation '' @ ik_id k, [],
      ''## Executive summary'', [],
      ''Transaction '' @ ticked (ik_transaction_hash k) @ '' executed on **'' @ ik_chain k @ ''** at block ''
        @ ticked (int_str (ik_block k)) @ '' with status **'' @ upper (ik_transaction_status k) @ ''**. ''
        @ ''The reconstruction contains '' @ nat_str (length (ik_calls k)) @ '' call frames, ''
        @ nat_str (length (ik_events k)) @ '' emitted events, '' @ nat_str (with_effect ''committed'' (ik_transfers k))
        @ '' committed asset '' @ ''transfers, '' @ nat_str (with_effect ''attempted_reverted'' (ik_transfers k))
        @ '' reverted transfer attempts, '' @ ''and '' @ nat_str (length (ik_entities k)) @ '' entities.'',
      [],
      ''This report describes observed execution and asset-flow evidence. Findings are factual ''
        @ ''investigation leads and do not by themselves classify intent or exploitability.'',
      [],
      ''## Transaction'', [],
      ''- Network: **'' @ plain_text (ik_chain k) @ ''** ('' @ ticked (int_str (ik_chain_id k)) @ '')'',
      ''- Block: '' @ ticked (int_str (ik_block k)),
      ''- Block hash: '' @ ticked (plain_text (text_or (ik_block_hash k) ''unavailable'')),
      ''- Block timestamp: '' @ ticked (plain_text (text_or (ik_block_timestamp k) ''unavailable'')),
      ''- Status: **'' @ upper (ik_transaction_status k) @ ''**'',
      ''- Transaction fee: '' @ ticked (transaction_fee k),
      ''- Root function: '' @ ticked (plain_text (root_signature k)),
      ''- Exact call trace available: **'' @ yes_no (ik_trace_available k) @ ''**'',
      ''- Explorer: ['' @ ik_transaction_hash k @ '']('' @ ik_explorer_url k @ ''/tx/'' @ ik_transaction_hash k @ '')'']"

definition report_proxy :: "investigation_case \<Rightarrow> unicode list" where
  "report_proxy k =
     (case ik_proxy_snapshot k of None \<Rightarrow> []
      | Some p \<Rightarrow> map uni
          [[], ''## Proxy execution context'', [],
           ''- Proxy: '' @ ticked (px_address p),
           ''- Effective implementation: '' @ ticked (plain_text (text_or (px_effective p) ''unresolved'')),
           ''- Admin: '' @ ticked (plain_text (text_or (px_admin p) ''not observed'')),
           ''- Beacon: '' @ ticked (plain_text (text_or (px_beacon p) ''not observed'')),
           ''- Implementation runtime SHA-256: '' @ ticked (plain_text (text_or (px_code_sha256 p) ''unavailable''))])"

definition finding_line :: "case_finding \<Rightarrow> unicode" where
  "finding_line f =
     uni (''- **'' @ plain_text (fi_code f) @ ''** '') @ em_dash
     @ uni ('' '' @ plain_text (fi_summary f) @ '' Evidence: '' @ join '', '' (map (ticked o plain_text) (fi_evidence_refs f)))"

definition report_findings :: "investigation_case \<Rightarrow> unicode list" where
  "report_findings k =
     [[], uni ''## Evidence findings'', []]
     @ (if ik_findings k = []
        then [uni ''- No derived findings were produced beyond the source transaction and receipt.'']
        else map finding_line (ik_findings k))
     @ (if ik_warnings k = [] then []
        else map uni ([[], ''## Source limitations'', []] @ map (\<lambda>w. ''- '' @ plain_text w) (ik_warnings k)))"

definition event_row :: "event_record \<Rightarrow> string" where
  "event_row e =
     ''| '' @ int_str (xe_log_index e) @ '' | '' @ ticked (plain_text (text_or (xe_address e) ''unknown'')) @ '' | ''
     @ ticked (plain_text (text_or (first_of (xe_event_signature e) (xe_topic0 e)) ''anonymous/unresolved'')) @ '' | ''
     @ ticked (plain_text (text_or (xe_decode_confidence e) ''unresolved'')) @ '' | '' @ ticked (xe_evidence_ref e) @ '' |''"

definition row_cap :: "string \<Rightarrow> nat \<Rightarrow> nat \<Rightarrow> string list" where
  "row_cap file cap n =
     (if cap < n
      then [CHR 0x0A # ''The table is capped at '' @ nat_str cap @ '' rows; '' @ ticked file @ '' contains all '' @ nat_str n @ '' rows.'']
      else [])"

definition report_events :: "investigation_case \<Rightarrow> unicode list" where
  "report_events k = map uni
     ([[], ''## Emitted-event evidence'', []]
      @ (if ik_events k = [] then [''- The transaction receipt contains no retained event logs.'']
         else [''- Receipt logs retained: '' @ nat_str (length (ik_events k)),
               ''- Events decoded from verified ABIs: ''
                 @ nat_str (length (filter (\<lambda>e. xe_decode_confidence e = Some ''verified'') (ik_events k))),
               ''- Full topic, payload-hash, ABI-source, and argument inventory: `events.csv`'', [],
               ''| Log | Emitter | Event | Confidence | Evidence |'',
               ''|---:|---|---|---|---|'']
              @ map event_row (take 100 (ik_events k)) @ row_cap ''events.csv'' 100 (length (ik_events k))))"

definition report_state :: "investigation_case \<Rightarrow> unicode list" where
  "report_state k = map uni
     ([[], ''## Pre/post state-change evidence'', []]
      @ (case ik_state_diff k of None \<Rightarrow> [''- The configured RPC endpoint did not provide state-diff evidence.'']
         | Some d \<Rightarrow>
             [''- Changed accounts: '' @ nat_str (length (sd_accounts d)),
              ''- Changed storage slots: '' @ nat_str (sd_storage_change_count d),
              ''- Evidence source: '' @ ticked (plain_text (sd_source d)),
              ''- Bounded/truncated: **'' @ yes_no (sd_truncated d) @ ''**'',
              ''- Account changes: `state_changes.csv`'',
              ''- Storage-slot changes: `storage_changes.csv`'']))"

definition transfer_row :: "asset_transfer \<Rightarrow> string" where
  "transfer_row t =
     ''| '' @ at_execution_effect t @ '' | '' @ at_asset_type t @ '' | ''
     @ ticked (plain_text (text_or (first_of (at_asset_symbol t) (at_asset_address t)) ''native'')) @ '' | ''
     @ ticked (at_sender t) @ '' | '' @ ticked (at_recipient t) @ '' | '' @ ticked (text_or (at_amount_display t) (at_amount t)) @ '' | ''
     @ ticked (plain_text (text_or (at_token_id t) [])) @ '' | '' @ ticked (at_evidence_ref t) @ '' |''"

definition tally_lines :: "string list \<Rightarrow> string list" where
  "tally_lines xs = map (\<lambda>(name, n). ''- '' @ ticked name @ '': '' @ nat_str n) (tally xs)"

definition report_transfers :: "investigation_case \<Rightarrow> unicode list" where
  "report_transfers k = map uni
     ([[], ''## Asset-flow summary'', []]
      @ (if ik_transfers k = []
         then [''- No native or standard ERC-20/ERC-721/ERC-1155 transfers were reconstructed.'']
         else tally_lines (map at_asset_type (ik_transfers k))
              @ [[], ''| Effect | Type | Asset | From | To | Amount | Token ID | Evidence |'',
                 ''|---|---|---|---|---|---:|---|---|'']
              @ map transfer_row (take 100 (ik_transfers k)) @ row_cap ''transfers.csv'' 100 (length (ik_transfers k))))"

definition report_execution :: "investigation_case \<Rightarrow> unicode list" where
  "report_execution k = map uni
     ([[], ''## Execution summary'', []]
      @ (if ik_calls k = []
         then [''- Call tracing was not available; root transaction and receipt evidence remain '' @ ''in `case.json`.'']
         else tally_lines (map cf_call_type (ik_calls k))
              @ [''- Maximum observed depth: '' @ nat_str (Max (set (map cf_depth (ik_calls k)))),
                 ''- Reverted frames: ''
                   @ nat_str (length (filter (\<lambda>f. truthy_opt (cf_error f) \<or> truthy_opt (cf_revert_reason f)) (ik_calls k))),
                 ''- Full frame inventory: `calls.csv`'']))"

definition report_closing :: "investigation_case \<Rightarrow> unicode list" where
  "report_closing k = map uni
     [[], ''## Entity and relationship graph'', [],
      ''- Entities: '' @ nat_str (length (ik_entities k)),
      ''- Relationships: '' @ nat_str (length (ik_relationships k)),
      ''- Interactive graph: `graph.html`'',
      ''- HTML rendering limit: 250 nodes and 1,000 relationships'',
      ''- Portable graph: `graph.graphml`'',
      ''- Tabular exports: `entities.csv` and `relationships.csv`'', [],
      ''## Evidence integrity'', [],
      ''`manifest.json` records the SHA-256 and byte size of every bundle artifact. ''
        @ ''`case.json` is the canonical machine-readable case record.'', [],
      ''Generated by WhiteRadar Incident.'']"

definition report_lines :: "investigation_case \<Rightarrow> unicode list" where
  "report_lines k = report_heading k @ report_proxy k @ report_findings k @ report_events k @ report_state k
     @ report_transfers k @ report_execution k @ report_closing k"

definition render_investigation_report :: "investigation_case \<Rightarrow> unicode" where
  "render_investigation_report k = join_lines (report_lines k) @ [10]"

end
