(* ===== verification/Bundle_Files.thy ===== *)
theory Bundle_Files
  imports Case_Json
begin

text \<open>
  Writing a bundle of evidence into a directory, the part that \<^verbatim>\<open>src/white_radar/case_bundle.py\<close> and
  \<^verbatim>\<open>reconstruction_bundle.py\<close> share: the refusals, the files, the manifest. A destination is missing,
  occupied by something that is no directory, or a directory given by its entries; of a symbolic
  link it is known whether its target exists. Input and output errors other than writing to a
  name that is a directory are outside the model.
\<close>

datatype entry = Regular bytes | Subfolder | Link bool

type_synonym folder = "string \<rightharpoonup> entry"

datatype destination = Missing | Occupied | Directory folder

datatype bundle_error = NotADirectory | SymbolicLinks | FilesExist | IsADirectory

record bundle_result =
  br_files :: "string list"
  br_manifest :: string

definition MANIFEST :: string where
  "MANIFEST = ''manifest.json''"

text \<open>\<^verbatim>\<open>path.exists()\<close> follows links, \<^verbatim>\<open>path.is_symlink()\<close> does not.\<close>

fun entry_exists :: "entry option \<Rightarrow> bool" where
  "entry_exists None = False"
| "entry_exists (Some (Link target)) = target"
| "entry_exists (Some _) = True"

fun entry_link :: "entry option \<Rightarrow> bool" where
  "entry_link (Some (Link target)) = True"
| "entry_link _ = False"

fun entries :: "destination \<Rightarrow> folder" where
  "entries (Directory fs) = fs"
| "entries _ = Map.empty"

definition refusal :: "string list \<Rightarrow> bool \<Rightarrow> destination \<Rightarrow> bundle_error option" where
  "refusal names overwrite d =
     (if d = Occupied then Some NotADirectory
      else if \<exists>n \<in> set (names @ [MANIFEST]). entry_link (entries d n) then Some SymbolicLinks
      else if (\<exists>n \<in> set (names @ [MANIFEST]). entry_exists (entries d n)) \<and> \<not> overwrite then Some FilesExist
      else None)"

text \<open>\<^verbatim>\<open>write_text\<close>, file after file; what was written before a failure stays.\<close>

fun put_files :: "(string \<times> bytes) list \<Rightarrow> folder \<Rightarrow> bundle_error option \<times> folder" where
  "put_files [] fs = (None, fs)"
| "put_files ((n, b) # files) fs =
     (if fs n = Some Subfolder then (Some IsADirectory, fs) else put_files files (fs(n \<mapsto> Regular b)))"

fun file_bytes :: "entry option \<Rightarrow> bytes" where
  "file_bytes (Some (Regular b)) = b"
| "file_bytes _ = []"

definition listed_file :: "(bytes \<Rightarrow> string) \<Rightarrow> folder \<Rightarrow> string \<Rightarrow> json" where
  "listed_file sha256 fs n =
     JObj [(''path'', JStr n), (''bytes'', jnat (length (file_bytes (fs n)))), (''sha256'', JStr (sha256 (file_bytes (fs n))))]"

definition manifest_text :: "dict \<Rightarrow> unicode" where
  "manifest_text payload = uni (json_pretty 0 (JObj payload) @ [CHR 0x0A])"

definition place_bundle ::
  "(bytes \<Rightarrow> string) \<Rightarrow> string list \<Rightarrow> (string \<Rightarrow> unicode) \<Rightarrow> (json \<Rightarrow> dict) \<Rightarrow> folder
     \<Rightarrow> (bundle_error + bundle_result) \<times> destination" where
  "place_bundle sha256 names content payload fs =
     (case put_files (map (\<lambda>n. (n, utf8 (content n))) names) fs of
        (Some e, fs1) \<Rightarrow> (Inl e, Directory fs1)
      | (None, fs1) \<Rightarrow>
          (case put_files [(MANIFEST, utf8 (manifest_text (payload (JList (map (listed_file sha256 fs1) names)))))] fs1 of
             (Some e, fs2) \<Rightarrow> (Inl e, Directory fs2)
           | (None, fs2) \<Rightarrow> (Inr \<lparr> br_files = names, br_manifest = MANIFEST \<rparr>, Directory fs2)))"

section \<open>Lemmas\<close>

lemma put_files_result:
  assumes "put_files files fs = (r, fs')" and "distinct (map fst files)"
  shows "(r = None \<longleftrightarrow> (\<forall>n \<in> fst ` set files. fs n \<noteq> Some Subfolder))
     \<and> (r = None \<longrightarrow> (\<forall>(n, b) \<in> set files. fs' n = Some (Regular b)))
     \<and> (\<forall>n. n \<notin> fst ` set files \<longrightarrow> fs' n = fs n) \<and> (r = None \<or> r = Some IsADirectory)"
  using assms
proof (induction files fs rule: put_files.induct)
  case (2 n b files fs)
  show ?case
  proof (cases "fs n = Some Subfolder")
    case False
    then have ih: "(r = None \<longleftrightarrow> (\<forall>m \<in> fst ` set files. (fs(n \<mapsto> Regular b)) m \<noteq> Some Subfolder))
       \<and> (r = None \<longrightarrow> (\<forall>(m, c) \<in> set files. fs' m = Some (Regular c)))
       \<and> (\<forall>m. m \<notin> fst ` set files \<longrightarrow> fs' m = (fs(n \<mapsto> Regular b)) m) \<and> (r = None \<or> r = Some IsADirectory)"
      by (rule "2.IH") (use False "2.prems" in \<open>auto simp: fun_upd_def\<close>)
    have new: "n \<notin> fst ` set files" using "2.prems"(2) by simp
    have same: "(\<forall>m \<in> fst ` set files. (fs(n \<mapsto> Regular b)) m \<noteq> Some Subfolder)
        \<longleftrightarrow> (\<forall>m \<in> fst ` set files. fs m \<noteq> Some Subfolder)"
      using new by (intro ball_cong) auto
    show ?thesis using ih[unfolded same] new False by auto
  qed (use 2 in auto)
qed auto

text \<open>What a client asks of a list of files: no name twice, none that of the manifest.\<close>

locale bundle_names =
  fixes names :: "string list"
  assumes names_distinct: "distinct (names @ [MANIFEST])"
begin

lemma placed:
  assumes "place_bundle sha256 names content payload fs = (Inr res, d)"
  shows "\<exists>fs'. d = Directory fs' \<and> (\<forall>n \<in> set names. fs' n = Some (Regular (utf8 (content n))))
     \<and> fs' MANIFEST = Some (Regular (utf8 (manifest_text (payload (JList (map (\<lambda>n.
           JObj [(''path'', JStr n), (''bytes'', jnat (length (utf8 (content n)))), (''sha256'', JStr (sha256 (utf8 (content n))))]) names))))))
     \<and> (\<forall>n. n \<notin> set (names @ [MANIFEST]) \<longrightarrow> fs' n = fs n) \<and> res = \<lparr> br_files = names, br_manifest = MANIFEST \<rparr>"
proof -
  let ?files = "map (\<lambda>n. (n, utf8 (content n))) names"
  obtain r fs1 where p: "put_files ?files fs = (r, fs1)" by fastforce
  with assms have r: "r = None" by (auto simp: place_bundle_def split: option.splits)
  have d: "distinct (map fst ?files)" using names_distinct by (simp add: o_def)
  have w: "\<forall>n \<in> set names. fs1 n = Some (Regular (utf8 (content n)))" and o: "\<forall>n. n \<notin> set names \<longrightarrow> fs1 n = fs n"
    using put_files_result[OF p d] r by (auto simp: image_image)
  have l: "map (listed_file sha256 fs1) names = map (\<lambda>n. JObj [(''path'', JStr n), (''bytes'', jnat (length (utf8 (content n)))),
      (''sha256'', JStr (sha256 (utf8 (content n))))]) names"
    using w by (simp add: listed_file_def)
  have m: "MANIFEST \<notin> set names" using names_distinct by simp
  from assms show ?thesis
    unfolding place_bundle_def p r by (auto simp: w o m l split: if_splits)
qed

lemma placed_failure:
  assumes "place_bundle sha256 names content payload fs = (Inl e, d)"
  shows "e = IsADirectory \<and> (\<exists>n \<in> set (names @ [MANIFEST]). fs n = Some Subfolder)
     \<and> (\<forall>n. n \<notin> set (names @ [MANIFEST]) \<longrightarrow> entries d n = fs n)"
proof -
  let ?files = "map (\<lambda>n. (n, utf8 (content n))) names"
  obtain r fs1 where p: "put_files ?files fs = (r, fs1)" by fastforce
  have d: "distinct (map fst ?files)" using names_distinct by (simp add: o_def)
  note f = put_files_result[OF p d]
  have m: "fs1 MANIFEST = fs MANIFEST" using f names_distinct by (simp add: image_image)
  show ?thesis
  proof (cases r)
    case None
    then show ?thesis using assms f m by (auto simp: place_bundle_def p image_image split: if_splits)
  next
    case (Some x)
    then have "x = IsADirectory" "\<exists>n \<in> set names. fs n = Some Subfolder" using f by (auto simp: image_image)
    then show ?thesis using assms f Some by (auto simp: place_bundle_def p image_image)
  qed
qed

end

end
