(* ===== verification/Case_Bundle.thy ===== *)
theory Case_Bundle
  imports Case_Report Bundle_Files
begin

text \<open>
  The rest of \<^verbatim>\<open>src/white_radar/case_bundle.py\<close>: the two graphs, the tables, and \<^verbatim>\<open>write_case_bundle\<close>
  over a directory. The page around the data of \<^verbatim>\<open>graph.html\<close> (\<^verbatim>\<open>GRAPH_TEMPLATE\<close>, split at its
  \<^verbatim>\<open>__DATA__\<close>) is a parameter that \<open>Graph_Pages\<close> gives, and SHA-256 is one, too.
\<close>

section \<open>The portable graph\<close>

definition graph_node :: "entity \<Rightarrow> string" where
  "graph_node n =
     ''<node id=\"'' @ html_escape (en_address n) @ ''\"><data key=\"label\">'' @ html_escape (text_or (en_label n) (en_address n))
     @ ''</data><data key=\"kind\">'' @ html_escape (en_kind n) @ ''</data><data key=\"roles\">''
     @ html_escape (join '','' (en_roles n)) @ ''</data></node>''"

definition graph_edge :: "relationship \<Rightarrow> string" where
  "graph_edge r =
     ''<edge id=\"'' @ html_escape (re_relationship_id r) @ ''\" source=\"'' @ html_escape (re_source r)
     @ ''\" target=\"'' @ html_escape (re_target r) @ ''\"><data key=\"relation\">'' @ html_escape (re_relation r)
     @ ''</data><data key=\"evidence\">'' @ html_escape (re_evidence_ref r)
     @ ''</data><data key=\"execution_effect\">'' @ html_escape (re_execution_effect r) @ ''</data></edge>''"

definition graph_key :: "string \<Rightarrow> string \<Rightarrow> string" where
  "graph_key name what =
     ''<key id=\"'' @ name @ ''\" for=\"'' @ what @ ''\" attr.name=\"'' @ name @ ''\" attr.type=\"string\"/>'' @ [CHR 0x0A]"

definition graph_document :: "(string \<times> string) list \<Rightarrow> string \<Rightarrow> string list \<Rightarrow> string" where
  "graph_document keys name elements =
     ''<?xml version=\"1.0\" encoding=\"UTF-8\"?>'' @ [CHR 0x0A]
     @ ''<graphml xmlns=\"http://graphml.graphdrawing.org/xmlns\">'' @ [CHR 0x0A]
     @ concat (map (\<lambda>(n, w). graph_key n w) keys)
     @ ''<graph id=\"'' @ name @ ''\" edgedefault=\"directed\">'' @ [CHR 0x0A]
     @ join [CHR 0x0A] elements @ [CHR 0x0A] @ ''</graph>'' @ [CHR 0x0A] @ ''</graphml>'' @ [CHR 0x0A]"

definition graphml :: "investigation_case \<Rightarrow> string" where
  "graphml k = graph_document
     [(''label'', ''node''), (''kind'', ''node''), (''roles'', ''node''), (''relation'', ''edge''), (''evidence'', ''edge''),
      (''execution_effect'', ''edge'')]
     ''white-radar-case'' (map graph_node (ik_entities k) @ map graph_edge (ik_relationships k))"

section \<open>The interactive graph\<close>

definition drawn_nodes :: "investigation_case \<Rightarrow> entity list" where
  "drawn_nodes k = take 250 (ik_entities k)"

definition drawn_edges :: "investigation_case \<Rightarrow> relationship list" where
  "drawn_edges k =
     (let addresses = set (map en_address (drawn_nodes k)) in
      take 1000 (filter (\<lambda>r. re_source r \<in> addresses \<and> re_target r \<in> addresses) (ik_relationships k)))"

definition graph_data :: "investigation_case \<Rightarrow> json" where
  "graph_data k =
     JObj [(''case_id'', JStr (ik_id k)), (''nodes'', JList (map (JObj o entity_dict) (drawn_nodes k))),
           (''edges'', JList (map (JObj o relationship_dict) (drawn_edges k)))]"

definition graph_html :: "unicode \<times> unicode \<Rightarrow> investigation_case \<Rightarrow> unicode" where
  "graph_html page k = fst page @ uni (script_json (graph_data k)) @ snd page"

section \<open>The tables\<close>

definition replaced :: "(string \<times> json) list \<Rightarrow> dict \<Rightarrow> dict" where
  "replaced new d = map (\<lambda>(n, v). case map_of new n of None \<Rightarrow> (n, v) | Some w \<Rightarrow> (n, w)) d"

definition call_row :: "call_frame \<Rightarrow> dict" where
  "call_row f = replaced [(''decoded_arguments'', JStr (json_dumps (JObj (cf_decoded_arguments f))))] (call_dict f)"

definition event_table_row :: "event_record \<Rightarrow> dict" where
  "event_table_row e =
     replaced [(''arguments'', JStr (json_dumps (JObj (xe_arguments e)))), (''topics'', JStr (json_dumps (jstrs (xe_topics e))))]
       (event_record_dict e)"

definition entity_row :: "entity \<Rightarrow> dict" where
  "entity_row n = replaced [(''roles'', JStr (join '','' (en_roles n)))] (entity_dict n)"

definition state_row :: "account_change \<Rightarrow> dict" where
  "state_row a = filter (\<lambda>kv. fst kv \<noteq> ''storage_changes'') (account_dict a)"

definition storage_rows :: "account_change \<Rightarrow> dict list" where
  "storage_rows a = map (\<lambda>s. (''address'', JStr (ac_address a)) # storage_dict s) (ac_storage_changes a)"

definition changed_accounts :: "investigation_case \<Rightarrow> account_change list" where
  "changed_accounts k = (case ik_state_diff k of None \<Rightarrow> [] | Some d \<Rightarrow> sd_accounts d)"

definition call_names :: "string list" where
  "call_names =
     [''path'', ''depth'', ''call_type'', ''sender'', ''recipient'', ''value_wei'', ''gas'', ''gas_used'', ''selector'',
      ''function_signature'', ''abi_source'', ''decode_confidence'', ''decoded_arguments'', ''calldata'', ''calldata_bytes'',
      ''calldata_sha256'', ''calldata_truncated'', ''error'', ''revert_reason'', ''execution_effect'']"

definition event_names :: "string list" where
  "event_names =
     [''log_index'', ''address'', ''topic0'', ''event_signature'', ''event_name'', ''arguments'', ''abi_source'', ''abi_sha256'',
      ''decode_confidence'', ''topics'', ''data'', ''data_bytes'', ''data_sha256'', ''data_truncated'', ''evidence_ref'']"

definition transfer_names :: "string list" where
  "transfer_names =
     [''transfer_id'', ''asset_type'', ''asset_address'', ''asset_name'', ''asset_symbol'', ''asset_decimals'', ''sender'',
      ''recipient'', ''amount'', ''amount_display'', ''token_id'', ''operator'', ''source'', ''evidence_ref'',
      ''execution_effect'']"

definition state_names :: "string list" where
  "state_names =
     [''address'', ''change_type'', ''balance_before_wei'', ''balance_after_wei'', ''nonce_before'', ''nonce_after'',
      ''code_before_bytes'', ''code_after_bytes'', ''code_before_sha256'', ''code_after_sha256'']"

definition storage_names :: "string list" where
  "storage_names = [''address'', ''slot'', ''before'', ''after'']"

definition entity_names :: "string list" where
  "entity_names = [''address'', ''kind'', ''label'', ''roles'', ''code_observed'', ''code_bytes'', ''runtime_code_sha256'']"

definition relationship_names :: "string list" where
  "relationship_names =
     [''relationship_id'', ''source'', ''target'', ''relation'', ''evidence_ref'', ''asset_address'', ''amount'', ''asset_type'',
      ''asset_symbol'', ''amount_display'', ''execution_effect'']"

definition timeline_names :: "string list" where
  "timeline_names = [''entry_id'', ''phase'', ''order'', ''event_type'', ''summary'', ''evidence_ref'']"

section \<open>The bundle\<close>

definition BUNDLE_FILES :: "string list" where
  "BUNDLE_FILES =
     [''case.json'', ''report.md'', ''calls.csv'', ''events.csv'', ''transfers.csv'', ''state_changes.csv'',
      ''storage_changes.csv'', ''entities.csv'', ''relationships.csv'', ''timeline.csv'', ''graph.graphml'', ''graph.html'']"

definition artifacts :: "unicode \<times> unicode \<Rightarrow> investigation_case \<Rightarrow> (string \<times> unicode) list" where
  "artifacts page k =
     [(''case.json'', uni (json_pretty 0 (JObj (case_dict k)) @ [CHR 0x0A])),
      (''report.md'', render_investigation_report k),
      (''calls.csv'', uni (csv_text call_names (map call_row (ik_calls k)))),
      (''events.csv'', uni (csv_text event_names (map event_table_row (ik_events k)))),
      (''transfers.csv'', uni (csv_text transfer_names (map transfer_dict (ik_transfers k)))),
      (''state_changes.csv'', uni (csv_text state_names (map state_row (changed_accounts k)))),
      (''storage_changes.csv'', uni (csv_text storage_names (concat (map storage_rows (changed_accounts k))))),
      (''entities.csv'', uni (csv_text entity_names (map entity_row (ik_entities k)))),
      (''relationships.csv'', uni (csv_text relationship_names (map relationship_dict (ik_relationships k)))),
      (''timeline.csv'', uni (csv_text timeline_names (map timeline_dict (ik_timeline k)))),
      (''graph.graphml'', uni (graphml k)),
      (''graph.html'', graph_html page k)]"

definition artifact_at :: "(string \<times> unicode) list \<Rightarrow> string \<Rightarrow> unicode" where
  "artifact_at files n = (case map_of files n of None \<Rightarrow> [] | Some t \<Rightarrow> t)"

definition case_manifest :: "investigation_case \<Rightarrow> json \<Rightarrow> dict" where
  "case_manifest k files =
     [(''schema_version'', JInt 3), (''case_id'', JStr (ik_id k)), (''transaction_hash'', JStr (ik_transaction_hash k)),
      (''chain_id'', JInt (ik_chain_id k)), (''generated_at'', JStr (ik_generated_at k)), (''files'', files)]"

definition write_case_bundle ::
  "(bytes \<Rightarrow> string) \<Rightarrow> unicode \<times> unicode \<Rightarrow> investigation_case \<Rightarrow> bool \<Rightarrow> destination
     \<Rightarrow> (bundle_error + bundle_result) \<times> destination" where
  "write_case_bundle sha256 page k overwrite d =
     (case refusal BUNDLE_FILES overwrite d of
        Some e \<Rightarrow> (Inl e, d)
      | None \<Rightarrow> place_bundle sha256 BUNDLE_FILES (artifact_at (artifacts page k)) (case_manifest k) (entries d))"

section \<open>Lemmas\<close>

interpretation case_files: bundle_names BUNDLE_FILES
  by unfold_locales (simp add: BUNDLE_FILES_def MANIFEST_def)

lemma artifact_names: "map fst (artifacts page k) = BUNDLE_FILES"
  by (simp add: artifacts_def BUNDLE_FILES_def)

lemma artifact_of: "(n, t) \<in> set (artifacts page k) \<Longrightarrow> artifact_at (artifacts page k) n = t"
  using artifact_names[of page k] case_files.names_distinct by (simp add: artifact_at_def)

lemma take_filter_subset: "set (take n (filter P xs)) \<subseteq> {x \<in> set xs. P x}"
  using set_take_subset[of n "filter P xs"] by auto

lemma drawn_edges_closed:
  assumes "r \<in> set (drawn_edges k)"
  shows "r \<in> set (ik_relationships k) \<and> re_source r \<in> en_address ` set (drawn_nodes k)
     \<and> re_target r \<in> en_address ` set (drawn_nodes k)"
  using assms take_filter_subset unfolding drawn_edges_def Let_def by fastforce

lemma drawn_bounds: "length (drawn_nodes k) \<le> 250 \<and> length (drawn_edges k) \<le> 1000"
  by (simp add: drawn_nodes_def drawn_edges_def Let_def)

end
