(* ===== verification/Attack_Report.thy ===== *)
theory Attack_Report
  imports Case_Report
begin

text \<open>
  \<^verbatim>\<open>render_reconstruction_report\<close> of \<^verbatim>\<open>src/white_radar/reconstruction_bundle.py\<close> and the labels it shares
  with the graphs: the Markdown report of a reconstruction, section by section.
\<close>

section \<open>Labels\<close>

definition short :: "nat \<Rightarrow> string \<Rightarrow> unicode" where
  "short n s = (if length s \<le> n + 3 then uni s else uni (take n s) @ ellipsis)"

definition asset_label :: "recon_edge \<Rightarrow> string" where
  "asset_label e =
     (if eg_asset_type e = Some ''native'' then ''native''
      else text_or (first_of (eg_asset_symbol e) (first_of (eg_asset_address e) (eg_asset_type e))) ''unresolved'')"

definition amount_label :: "recon_edge \<Rightarrow> string" where
  "amount_label e =
     strip (text_or (first_of (eg_amount_display e) (eg_raw_amount e)) ''unavailable'' @ '' '' @ text_or (eg_asset_symbol e) [])"

definition table_row :: "unicode list \<Rightarrow> unicode" where
  "table_row cells = uni ''|'' @ concat (map (\<lambda>c. uni '' '' @ c @ uni '' |'') cells)"

definition ticks :: "unicode \<Rightarrow> unicode" where
  "ticks t = [96] @ t @ [96]"

definition transaction_link :: "attack_case \<Rightarrow> string \<Rightarrow> unicode" where
  "transaction_link a h = uni ''['' @ short 14 h @ uni (''](''@ ar_explorer_url a @ ''/tx/'' @ h @ '')'')"

section \<open>What the report counts\<close>

definition all_transfers :: "attack_case \<Rightarrow> asset_transfer list" where
  "all_transfers a = concat (map ik_transfers (ar_transactions a))"

definition phase_count :: "attack_case \<Rightarrow> string \<Rightarrow> nat" where
  "phase_count a p = length (filter (\<lambda>c. tx_phase c = p) (ar_contexts a))"

definition account_count :: "attack_case \<Rightarrow> nat" where
  "account_count a =
     sum_list (map (\<lambda>k. case ik_state_diff k of None \<Rightarrow> 0 | Some d \<Rightarrow> length (sd_accounts d)) (ar_transactions a))"

definition storage_count :: "attack_case \<Rightarrow> nat" where
  "storage_count a =
     sum_list (map (\<lambda>k. case ik_state_diff k of None \<Rightarrow> 0 | Some d \<Rightarrow> sd_storage_change_count d) (ar_transactions a))"

definition flow_edges :: "string \<Rightarrow> attack_case \<Rightarrow> recon_edge list" where
  "flow_edges e a = filter (\<lambda>x. eg_asset_type x \<noteq> None \<and> eg_execution_effect x = e) (ar_edges a)"

definition core_contexts :: "attack_case \<Rightarrow> tx_context list" where
  "core_contexts a = filter tx_core_candidate (ar_contexts a)"

definition committed_count :: "attack_case \<Rightarrow> nat" where
  "committed_count a = with_effect ''committed'' (all_transfers a)"

definition reverted_count :: "attack_case \<Rightarrow> nat" where
  "reverted_count a = with_effect ''attempted_reverted'' (all_transfers a)"

section \<open>Summary and scope\<close>

definition attack_summary :: "attack_case \<Rightarrow> unicode list" where
  "attack_summary a = map uni
     [''# WhiteRadar Incident reconstruction '' @ ar_reconstruction_id a, [],
      ''Generated by **'' @ plain_text (ar_tool_name a) @ '' '' @ plain_text (ar_tool_version a) @ ''** at ''
        @ ticked (ar_generated_at a) @ ''.'', [],
      ''## Executive summary'', [],
      ''Seed transaction '' @ ticked (ar_seed_hash a) @ '' was expanded into **'' @ nat_str (length (ar_contexts a))
        @ '' reconstructed transactions**, **'' @ nat_str (length (ar_entities a)) @ '' entities**, **''
        @ nat_str (sum_list (map (length o ik_calls) (ar_transactions a))) @ '' call frames**, **''
        @ nat_str (sum_list (map (length o ik_events) (ar_transactions a))) @ '' emitted events**, **''
        @ nat_str (committed_count a) @ '' committed asset transfers**, and **'' @ nat_str (reverted_count a)
        @ '' reverted transfer attempts** on **'' @ ar_chain a @ ''**.'', [],
      ''The result is an evidence-backed, bounded candidate incident chain. It reconstructs ''
        @ ''relationships found inside the configured block, hop, address, and transaction limits; ''
        @ ''it does not claim that the earliest or final incident transaction has been proven.'', []]"

definition attack_scope :: "attack_case \<Rightarrow> unicode list" where
  "attack_scope a = (let c = ar_coverage a; n = ticked o nat_str; i = ticked o int_str; contexts = length (ar_contexts a) in map uni
     [''## Investigation scope and coverage'', [],
      ''- Chain: **'' @ plain_text (ar_chain a) @ ''** ('' @ i (ar_chain_id a) @ '')'',
      ''- Seed block: '' @ i (ar_seed_block a),
      ''- Requested block window: '' @ i (cv_start_block c) @ '' through '' @ i (cv_end_block c),
      ''- Observed chain head: '' @ i (cv_chain_head c),
      ''- Boundary classification: **'' @ plain_text (cv_boundary_status c) @ ''**'',
      ''- Addresses queried: '' @ n (cv_addresses_queried c),
      ''- Frontier addresses discovered: '' @ n (cv_frontier_addresses c),
      ''- History records considered: '' @ n (cv_records_considered c),
      ''- Candidate transactions: '' @ n (cv_candidates c),
      ''- Transactions reconstructed: '' @ n (cv_reconstructed c),
      ''- Candidate transactions not reconstructed: '' @ n (cv_not_reconstructed c),
      ''- Transaction reconstruction failures: '' @ n (cv_failures c),
      ''- Reconstructed block span: '' @ i (cv_first_block c) @ '' through '' @ i (cv_last_block c),
      ''- Core candidate transactions: '' @ n (cv_core_transactions c),
      ''- High-fanout hub addresses detected: '' @ n (length (cv_hub_addresses c)),
      ''- Hub history records suppressed from expansion: '' @ n (cv_hub_suppressed c),
      ''- Trace coverage: ''
        @ ticked (nat_str (length (filter tx_trace_available (ar_contexts a))) @ ''/'' @ nat_str contexts) @ '' transactions'',
      ''- Committed asset transfers: '' @ n (committed_count a),
      ''- Reverted transfer attempts: '' @ n (reverted_count a),
      ''- Asset-transfer effects with unknown finality: ''
        @ i (int (length (all_transfers a)) - int (committed_count a) - int (reverted_count a)),
      ''- Changed accounts recorded: '' @ n (account_count a),
      ''- Changed storage slots recorded: '' @ n (storage_count a),
      ''- History sources: ''
        @ (if cv_history_sources c = [] then ''unavailable'' else join '', '' (map (ticked o plain_text) (cv_history_sources c))),
      []])"

definition attack_limits :: "attack_case \<Rightarrow> unicode list" where
  "attack_limits a = (let l = ar_limits a; i = ticked o int_str in map uni
     [''### Boundary controls'', [],
      ''- Backward blocks: '' @ i (lm_backward_blocks l),
      ''- Forward blocks: '' @ i (lm_forward_blocks l),
      ''- Maximum relationship hops: '' @ i (lm_max_hops l),
      ''- Maximum transactions: '' @ i (lm_max_transactions l),
      ''- Maximum frontier addresses: '' @ i (lm_max_frontier_addresses l),
      ''- Maximum history records per address: '' @ i (lm_history_records l),
      ''- Hub detection minimum records: '' @ i (lm_hub_min_records l),
      ''- Hub detection minimum counterparties: '' @ i (lm_hub_min_counterparties l),
      ''- Maximum retained candidate transactions per hub: '' @ i (lm_max_hub_transactions l), [],
      ''## Candidate incident phases'', [],
      ''- Pre-seed transactions: '' @ ticked (nat_str (phase_count a ''pre_seed'')),
      ''- Same-block related transactions: '' @ ticked (nat_str (phase_count a ''same_block'')),
      ''- Seed transactions: '' @ ticked (nat_str (phase_count a ''seed'')),
      ''- Post-seed transactions: '' @ ticked (nat_str (phase_count a ''post_seed'')), []])"

section \<open>The tables of transactions\<close>

definition core_row :: "attack_case \<Rightarrow> tx_context \<Rightarrow> unicode" where
  "core_row a c = table_row
     [uni (tx_phase c), uni (int_str (tx_block c)), transaction_link a (tx_hash_of c),
      ticks (short 14 (text_or (tx_sender c) ''creation'')), ticks (short 14 (text_or (tx_recipient c) ''creation'')),
      uni (ticked (plain_text (text_or (tx_function_signature c) (tx_selector c)))), uni (tx_status c),
      uni (int_str (tx_relevance c)), uni (join ''; '' (map plain_text (tx_core_reasons c)))]"

definition attack_core :: "attack_case \<Rightarrow> unicode list" where
  "attack_core a =
     map uni
       [''## High-signal core candidate path'', [],
        ''This compact path contains the operator-selected seed and transactions discovered ''
          @ ''within one direct evidence hop. It is intended for analyst triage; it is not an ''
          @ ''automatic attribution or a claim that every row is malicious.'', [],
        ''| Phase | Block | Transaction | From | To | Function / selector | Status | Score | Core basis |'',
        ''|---|---:|---|---|---|---|---|---:|---|'']
     @ map (core_row a) (core_contexts a)
     @ (if core_contexts a = [] then [uni ''|  |  |  |  |  |  |  |  | No core candidate path reconstructed |''] else [])"

definition context_function :: "tx_context \<Rightarrow> string" where
  "context_function c =
     text_or (tx_function_signature c) (tx_selector c)
     @ (if truthy_opt (tx_function_confidence c) then '' ['' @ the (tx_function_confidence c) @ '']'' else [])"

definition context_row :: "attack_case \<Rightarrow> tx_context \<Rightarrow> unicode" where
  "context_row a c = table_row
     [uni (tx_phase c), uni (int_str (tx_block c)), uni (case tx_index c of None \<Rightarrow> [] | Some i \<Rightarrow> int_str i),
      transaction_link a (tx_hash_of c),
      ticks (short 14 (text_or (tx_sender c) ''creation'')), ticks (short 14 (text_or (tx_recipient c) ''creation'')),
      uni (ticked (plain_text (context_function c))), uni (tx_status c), uni (nat_str (tx_hop c)),
      uni (int_str (tx_relevance c)), uni (join ''; '' (map (plain 180) (tx_reasons c)))]"

definition attack_inventory :: "attack_case \<Rightarrow> unicode list" where
  "attack_inventory a =
     map uni
       [[], ''The complete compact export is available in `core_path.csv`.'', [],
        ''## Complete chronological candidate inventory'', [],
        ''| Phase | Block | Tx index | Transaction | From | To | Function / selector | Status | Hop | Score | Why included |'',
        ''|---|---:|---:|---|---|---|---|---|---:|---:|---|'']
     @ map (context_row a) (take 250 (ar_contexts a))
     @ map uni (row_cap ''transactions.csv'' 250 (length (ar_contexts a)))"

section \<open>The ledger\<close>

definition flow_row :: "attack_case \<Rightarrow> recon_edge \<Rightarrow> unicode" where
  "flow_row a e = table_row
     [uni (int_str (eg_block_number e)), transaction_link a (eg_transaction_hash e), uni (text_or (eg_asset_type e) []),
      uni (ticked (plain_text (asset_label e))), uni (ticked (eg_source e)), uni (ticked (eg_target e)),
      uni (ticked (plain_text (amount_label e))), uni (ticked (eg_evidence_ref e))]"

definition attack_flows :: "attack_case \<Rightarrow> unicode list" where
  "attack_flows a = (let flows = flow_edges ''committed'' a in
     map uni
       [[], ''## Committed asset-flow ledger'', [],
        ''| Block | Transaction | Type | Asset | From | To | Amount | Evidence |'',
        ''|---:|---|---|---|---|---|---:|---|'']
     @ (if flows = [] then [uni ''|  |  |  |  |  |  |  | No committed standard asset flow reconstructed |'']
        else map (flow_row a) (take 300 flows) @ map uni (row_cap ''transfers.csv'' 300 (length flows))))"

definition attack_attempts :: "attack_case \<Rightarrow> unicode list" where
  "attack_attempts a = (let flows = flow_edges ''attempted_reverted'' a in
     map uni
       [[], ''## Reverted transfer attempts'', [],
        ''These trace frames are execution evidence but did not change final chain state. ''
          @ ''They are excluded from the committed asset ledger and follow-funds frontier.'', [],
        ''| Block | Transaction | Type | Asset | From | To | Amount | Evidence |'',
        ''|---:|---|---|---|---|---|---:|---|'']
     @ (if flows = [] then [uni ''|  |  |  |  |  |  |  | No reverted transfer attempts reconstructed |'']
        else map (flow_row a) (take 200 flows)))"

section \<open>Functions and events\<close>

definition labelled_calls :: "attack_case \<Rightarrow> (string \<times> string \<times> call_frame) list" where
  "labelled_calls a = concat (map (\<lambda>k. map (\<lambda>f. (text_or (cf_function_signature f) (cf_selector f), ik_transaction_hash k, f))
     (ik_calls k)) (ar_transactions a))"

definition truthy_values :: "string option list \<Rightarrow> string list" where
  "truthy_values xs = filter (\<lambda>s. s \<noteq> []) (some_values xs)"

text \<open>The hashes, ABI sources and confidences gathered for one label.\<close>

definition label_hashes :: "(string \<times> string \<times> 'f) list \<Rightarrow> string \<Rightarrow> string list" where
  "label_hashes ms l = sorted_set (map (\<lambda>(n, h, f). h) (filter (\<lambda>(n, h, f). n = l) ms))"

definition label_values :: "('f \<Rightarrow> string option) \<Rightarrow> (string \<times> string \<times> 'f) list \<Rightarrow> string \<Rightarrow> string list" where
  "label_values field ms l = sorted_set (truthy_values (map (\<lambda>(n, h, f). field f) (filter (\<lambda>(n, h, f). n = l) ms)))"

definition or_unresolved :: "string \<Rightarrow> string" where
  "or_unresolved s = (if s = [] then ''unresolved'' else s)"

definition selector_row :: "(string \<times> string \<times> call_frame) list \<Rightarrow> string \<Rightarrow> string" where
  "selector_row ms l =
     ''| '' @ ticked (plain_text l) @ '' | '' @ nat_str (length (label_hashes ms l)) @ '' | ''
     @ plain_text (or_unresolved (join ''; '' (label_values cf_decode_confidence ms l))) @ '' | ''
     @ plain 300 (or_unresolved (join ''; '' (label_values cf_abi_source ms l))) @ '' |''"

definition attack_selectors :: "attack_case \<Rightarrow> unicode list" where
  "attack_selectors a = (let ms = labelled_calls a in map uni
     ([[], ''## Function and selector inventory'', [],
       ''| Function / selector | Transactions | Confidence | ABI sources |'', ''|---|---:|---|---|'']
      @ (if ms = [] then [''| `unavailable` | 0 | unavailable | Call tracing unavailable |'']
         else map (selector_row ms)
           (sort_key (\<lambda>l. (- int (length (label_hashes ms l)), l)) (remdups (map fst ms))))))"

definition labelled_events :: "attack_case \<Rightarrow> (string \<times> string \<times> event_record) list" where
  "labelled_events a = concat (map (\<lambda>k. map (\<lambda>e.
     (text_or (first_of (xe_event_signature e) (xe_topic0 e)) ''anonymous/unresolved'', ik_transaction_hash k, e))
     (ik_events k)) (ar_transactions a))"

definition occurrences :: "(string \<times> 'a) list \<Rightarrow> string \<Rightarrow> nat" where
  "occurrences ms l = length (filter (\<lambda>m. fst m = l) ms)"

definition event_line :: "(string \<times> string \<times> event_record) list \<Rightarrow> string \<Rightarrow> string" where
  "event_line ms l =
     ''| '' @ ticked (plain_text l) @ '' | '' @ nat_str (occurrences ms l) @ '' | '' @ nat_str (length (label_hashes ms l))
     @ '' | '' @ plain_text (join ''; '' (label_values (\<lambda>e. Some (text_or (xe_decode_confidence e) ''unresolved'')) ms l))
     @ '' | '' @ plain_text (or_unresolved (join ''; '' (label_values xe_abi_source ms l))) @ '' |''"

definition attack_events :: "attack_case \<Rightarrow> unicode list" where
  "attack_events a = (let ms = labelled_events a in map uni
     ([[], ''## Emitted-event inventory'', [],
       ''| Event signature / topic | Occurrences | Transactions | Confidence | ABI sources |'', ''|---|---:|---:|---|---|'']
      @ (if ms = [] then [''| `unavailable` | 0 | 0 | unavailable | No receipt events retained |'']
         else map (event_line ms) (sort_key (\<lambda>l. (- int (occurrences ms l), l)) (remdups (map fst ms))))))"

section \<open>State, proxies, entities and limits\<close>

definition attack_state :: "attack_case \<Rightarrow> unicode list" where
  "attack_state a = map uni
     ([[], ''## Pre/post state-change evidence'', []]
      @ (if account_count a \<noteq> 0 \<or> storage_count a \<noteq> 0
         then [''- Changed account records: '' @ ticked (nat_str (account_count a)),
               ''- Changed storage-slot records: '' @ ticked (nat_str (storage_count a)),
               ''- Account-level export: `state_changes.csv`'',
               ''- Slot-level export: `storage_changes.csv`'']
         else [''- State-diff coverage is unavailable: no configured RPC provider returned ''
               @ ''compatible `prestateTracer` diff-mode evidence. Empty state CSV files therefore ''
               @ ''mean 'not observed from this provider', not 'no state changed'.'']))"

definition proxy_row :: "string \<Rightarrow> proxy_snapshot \<Rightarrow> unicode" where
  "proxy_row h p = table_row
     [ticks (short 14 h), uni (ticked (px_address p)), uni (ticked (text_or (px_effective p) ''unresolved'')),
      uni (ticked (text_or (px_admin p) ''not observed'')), uni (ticked (text_or (px_beacon p) ''not observed''))]"

definition proxy_rows :: "attack_case \<Rightarrow> unicode list" where
  "proxy_rows a = concat (map (\<lambda>k. case ik_proxy_snapshot k of None \<Rightarrow> [] | Some p \<Rightarrow> [proxy_row (ik_transaction_hash k) p])
     (ar_transactions a))"

definition attack_proxies :: "attack_case \<Rightarrow> unicode list" where
  "attack_proxies a =
     map uni [[], ''## Proxy and contract execution context'', []]
     @ (if proxy_rows a = []
        then [uni ''- No proxy implementation was resolved from the configured sources at the relevant blocks.'']
        else map uni [''| Transaction | Proxy | Implementation | Admin | Beacon |'', ''|---|---|---|---|---|''] @ proxy_rows a)"

definition code_size_range :: "recon_entity \<Rightarrow> string" where
  "code_size_range n =
     (case ne_code_bytes_min n of None \<Rightarrow> []
      | Some low \<Rightarrow> if ne_code_bytes_min n = ne_code_bytes_max n then nat_str low
          else nat_str low @ ''-'' @ (case ne_code_bytes_max n of None \<Rightarrow> ''None'' | Some high \<Rightarrow> nat_str high))"

definition inventory_row :: "recon_entity \<Rightarrow> unicode" where
  "inventory_row n = table_row (map uni
     [ticked (ne_address n), ne_kind n, plain_text (text_or (ne_label n) []), plain 300 (join '', '' (ne_roles n)),
      nat_str (length (ne_transaction_hashes n)), int_str (ne_first_block n) @ ''-'' @ int_str (ne_last_block n),
      code_size_range n, plain_text (join '', '' (map (take 16) (ne_runtime_code_sha256s n)))])"

definition attack_entities :: "attack_case \<Rightarrow> unicode list" where
  "attack_entities a =
     map uni [[], ''## Entity inventory'', [],
       ''| Entity | Kind | Label | Roles | Transactions | Blocks | Code bytes | Runtime hashes |'',
       ''|---|---|---|---|---:|---|---|---|'']
     @ map inventory_row (take 300 (ar_entities a)) @ map uni (row_cap ''entities.csv'' 300 (length (ar_entities a)))"

definition attack_closing :: "attack_case \<Rightarrow> unicode list" where
  "attack_closing a = map uni
     ([[], ''## Evidence gaps and limitations'', []]
      @ map (\<lambda>w. ''- '' @ plain_text w) (ar_warnings a)
      @ [[], ''## Evidence artifacts'', [],
         ''- `case.json`: canonical machine-readable reconstruction, including every bounded transaction case.'',
         ''- `core_path.csv`: compact seed plus direct one-hop candidate path for analyst triage.'',
         ''- `transactions.csv`: chronological candidate transaction inventory and discovery reasons.'',
         ''- `calls.csv`: cross-transaction call-frame inventory with selectors and verified ABI labels.'',
         ''- `events.csv`: receipt-event topics, bounded payloads, hashes, and verified ABI decoding.'',
         ''- `transfers.csv`: raw and normalized native/token transfer evidence with committed/reverted/unknown effect classification.'',
         ''- `state_changes.csv`: account balances, nonces, and code evidence before and after execution.'',
         ''- `storage_changes.csv`: changed contract storage slots with pre/post values.'',
         ''- `entities.csv`: address roles and observed participation range.'',
         ''- `relationships.csv`: evidence-backed graph edges.'',
         ''- `timeline.csv`: ordered execution and asset-flow events across transactions.'',
         ''- `graph.html`: interactive investigation graph with search, filtering, zoom, and details.'',
         ''- `graph.graphml`: portable graph for external analysis tools.'',
         ''- `manifest.json`: byte sizes and SHA-256 digests for every artifact.'', [],
         ''## Interpretation model'', [],
         ''Observed transaction, receipt, trace, log, block, ABI, and proxy data are evidence. ''
           @ ''Discovery reasons and candidate boundaries are derived links. Attribution, intent, ''
           @ ''authorization, and final incident conclusions require analyst validation and are not ''
           @ ''silently inferred from address proximity.'', [],
         ''Generated by '' @ ar_tool_name a @ '' '' @ ar_tool_version a @ ''.''])"

definition attack_lines :: "attack_case \<Rightarrow> unicode list" where
  "attack_lines a = attack_summary a @ attack_scope a @ attack_limits a @ attack_core a @ attack_inventory a
     @ attack_flows a @ attack_attempts a @ attack_selectors a @ attack_events a @ attack_state a @ attack_proxies a
     @ attack_entities a @ attack_closing a"

definition render_reconstruction_report :: "attack_case \<Rightarrow> unicode" where
  "render_reconstruction_report a = join_lines (attack_lines a) @ [10]"

end
