(* ===== verification/Attack_Bundle.thy ===== *)
theory Attack_Bundle
  imports Attack_Report Case_Bundle
begin

text \<open>
  The rest of \<^verbatim>\<open>src/white_radar/reconstruction_bundle.py\<close>: the graph of a reconstruction, whose nodes
  are the entities and the transactions, its two forms, the tables, and
  \<^verbatim>\<open>write_reconstruction_bundle\<close>. The page around the data of \<^verbatim>\<open>graph.html\<close> is a parameter that
  \<open>Graph_Pages\<close> gives.
\<close>

section \<open>Nodes and edges\<close>

text \<open>A node is its label, which may hold an ellipsis, and its other fields.\<close>

type_synonym node = "unicode \<times> dict"

definition entity_node :: "recon_entity \<Rightarrow> node" where
  "entity_node n =
     (if truthy_opt (ne_label n) then uni (the (ne_label n)) else short 14 (ne_address n),
      [(''id'', JStr (ne_address n)), (''full_label'', JStr (text_or (ne_label n) (ne_address n))), (''kind'', JStr (ne_kind n)),
       (''roles'', jstrs (ne_roles n)), (''transactions'', jstrs (ne_transaction_hashes n)),
       (''first_block'', JInt (ne_first_block n)), (''last_block'', JInt (ne_last_block n)),
       (''code_observed'', jopt JBool (ne_code_observed n)), (''code_bytes_min'', jopt jnat (ne_code_bytes_min n)),
       (''code_bytes_max'', jopt jnat (ne_code_bytes_max n)),
       (''runtime_code_sha256s'', jstrs (ne_runtime_code_sha256s n))])"

definition transaction_node_id :: "string \<Rightarrow> string" where
  "transaction_node_id h = ''tx:'' @ h"

definition transaction_node :: "tx_context \<Rightarrow> node" where
  "transaction_node c =
     (uni ''tx '' @ short 10 (tx_hash_of c),
      [(''id'', JStr (transaction_node_id (tx_hash_of c))), (''full_label'', JStr (tx_hash_of c)), (''kind'', JStr ''transaction''),
       (''roles'', jstrs [tx_phase c, ''hop:'' @ nat_str (tx_hop c), tx_status c]), (''transactions'', jstrs [tx_hash_of c]),
       (''first_block'', JInt (tx_block c)), (''last_block'', JInt (tx_block c)),
       (''function'', JStr (text_or (tx_function_signature c) (tx_selector c))),
       (''function_source'', opt_json (tx_function_source c)), (''function_confidence'', opt_json (tx_function_confidence c)),
       (''decoded_arguments'', JObj (tx_arguments c)), (''score'', JInt (tx_relevance c)),
       (''core_candidate'', JBool (tx_core_candidate c)), (''core_reasons'', jstrs (tx_core_reasons c))])"

definition graph_nodes :: "attack_case \<Rightarrow> node list" where
  "graph_nodes a = map entity_node (ar_entities a) @ map transaction_node (ar_contexts a)"

definition transaction_effect :: "string \<Rightarrow> string" where
  "transaction_effect status =
     (if status = ''succeeded'' then ''committed'' else if status = ''reverted'' then ''attempted_reverted'' else ''unknown'')"

definition link_edge :: "tx_context \<Rightarrow> string \<Rightarrow> string \<Rightarrow> string \<Rightarrow> string \<Rightarrow> dict" where
  "link_edge c tag relation source target =
     [(''id'', JStr (tag @ tx_hash_of c)), (''source'', JStr source), (''target'', JStr target), (''relation'', JStr relation),
      (''transaction_hash'', JStr (tx_hash_of c)), (''block_number'', JInt (tx_block c)), (''amount'', JNull), (''asset'', JNull),
      (''evidence_ref'', JStr (tx_hash_of c @ '':transaction'')), (''execution_effect'', JStr (transaction_effect (tx_status c)))]"

definition context_edges :: "tx_context \<Rightarrow> dict list" where
  "context_edges c =
     (if truthy_opt (tx_sender c)
      then [link_edge c ''initiated:'' ''INITIATED'' (the (tx_sender c)) (transaction_node_id (tx_hash_of c))] else [])
     @ (if truthy_opt (tx_recipient c)
        then [link_edge c ''targeted:'' ''TARGETED'' (transaction_node_id (tx_hash_of c)) (the (tx_recipient c))] else [])"

definition relation_edge :: "recon_edge \<Rightarrow> dict" where
  "relation_edge e =
     [(''id'', JStr (eg_edge_id e)), (''source'', JStr (eg_source e)), (''target'', JStr (eg_target e)),
      (''relation'', JStr (eg_relation e)), (''transaction_hash'', JStr (eg_transaction_hash e)),
      (''block_number'', JInt (eg_block_number e)),
      (''amount'', if eg_raw_amount e = None then JNull else JStr (amount_label e)),
      (''asset'', if truthy_opt (eg_asset_type e) then JStr (asset_label e) else JNull),
      (''evidence_ref'', JStr (eg_evidence_ref e)), (''execution_effect'', JStr (eg_execution_effect e))]"

definition graph_edges :: "attack_case \<Rightarrow> dict list" where
  "graph_edges a = concat (map context_edges (ar_contexts a)) @ map relation_edge (ar_edges a)"

section \<open>The portable graph\<close>

definition shown :: "dict \<Rightarrow> string \<Rightarrow> string" where
  "shown d n = html_escape (py_str (dget d n))"

definition role_text :: "json \<Rightarrow> string" where
  "role_text j = (case j of JList xs \<Rightarrow> join '','' (map py_str xs) | _ \<Rightarrow> py_str j)"

definition attack_graph_node :: "node \<Rightarrow> string" where
  "attack_graph_node n = (let d = snd n in
     ''<node id=\"'' @ shown d ''id'' @ ''\"><data key=\"label\">'' @ shown d ''full_label'' @ ''</data><data key=\"kind\">''
     @ shown d ''kind'' @ ''</data><data key=\"roles\">'' @ html_escape (role_text (dget d ''roles''))
     @ ''</data><data key=\"block\">'' @ shown d ''first_block'' @ ''</data></node>'')"

definition attack_graph_edge :: "dict \<Rightarrow> string" where
  "attack_graph_edge d =
     ''<edge id=\"'' @ shown d ''id'' @ ''\" source=\"'' @ shown d ''source'' @ ''\" target=\"'' @ shown d ''target''
     @ ''\"><data key=\"relation\">'' @ shown d ''relation'' @ ''</data><data key=\"evidence\">'' @ shown d ''evidence_ref''
     @ ''</data><data key=\"amount\">'' @ html_escape (str_or (dget d ''amount'') [])
     @ ''</data><data key=\"transaction\">'' @ shown d ''transaction_hash''
     @ ''</data><data key=\"execution_effect\">'' @ html_escape (str_or (dget d ''execution_effect'') ''unknown'')
     @ ''</data></edge>''"

definition attack_graphml :: "attack_case \<Rightarrow> string" where
  "attack_graphml a = graph_document
     [(''label'', ''node''), (''kind'', ''node''), (''roles'', ''node''), (''block'', ''node''), (''relation'', ''edge''),
      (''evidence'', ''edge''), (''amount'', ''edge''), (''transaction'', ''edge''), (''execution_effect'', ''edge'')]
     ''white-radar-reconstruction''
     (map attack_graph_node (graph_nodes a) @ map attack_graph_edge (graph_edges a))"

section \<open>The interactive graph\<close>

definition hex4 :: "nat \<Rightarrow> string" where
  "hex4 n = hex2 (n div 256) @ hex2 (n mod 256)"

text \<open>A text of a JSON document; beyond Latin-1 there are only the ellipses of the labels.\<close>

definition json_unicode :: "unicode \<Rightarrow> string" where
  "json_unicode t = double_quote # concat (map (\<lambda>n. if n < 256 then json_char (char_of n) else CHR 0x5C # CHR ''u'' # hex4 n) t)
     @ [double_quote]"

definition json_object :: "(string \<times> string) list \<Rightarrow> string" where
  "json_object d = ''{'' @ join '','' (map (\<lambda>kt. json_string (fst kt) @ '':'' @ snd kt) (sort_key fst d)) @ ''}''"

definition node_json :: "node \<Rightarrow> string" where
  "node_json n = json_object ((''label'', json_unicode (fst n)) # map (\<lambda>kv. (fst kv, json_dumps (snd kv))) (snd n))"

definition drawn_graph_nodes :: "attack_case \<Rightarrow> node list" where
  "drawn_graph_nodes a = take 250 (graph_nodes a)"

definition node_ids :: "node list \<Rightarrow> string list" where
  "node_ids ns = map (\<lambda>n. py_str (dget (snd n) ''id'')) ns"

definition drawn_graph_edges :: "attack_case \<Rightarrow> dict list" where
  "drawn_graph_edges a =
     (let ids = set (node_ids (drawn_graph_nodes a)) in
      take 1000 (filter (\<lambda>e. py_str (dget e ''source'') \<in> ids \<and> py_str (dget e ''target'') \<in> ids) (graph_edges a)))"

definition attack_graph_data :: "attack_case \<Rightarrow> string" where
  "attack_graph_data a = json_object
     [(''id'', json_string (ar_reconstruction_id a)), (''seed'', json_string (ar_seed_hash a)),
      (''nodes'', ''['' @ join '','' (map node_json (drawn_graph_nodes a)) @ '']''),
      (''edges'', json_dumps (JList (map JObj (drawn_graph_edges a))))]"

definition attack_graph_html :: "unicode \<times> unicode \<Rightarrow> attack_case \<Rightarrow> unicode" where
  "attack_graph_html page a =
     fst page @ uni (concat (map (\<lambda>c. if c = CHR ''<'' then CHR 0x5C # ''u003c'' else [c]) (attack_graph_data a))) @ snd page"

section \<open>The tables\<close>

definition context_row_dict :: "tx_context \<Rightarrow> dict" where
  "context_row_dict c =
     replaced [(''discovery_reasons'', JStr (join '';'' (tx_reasons c))), (''core_reasons'', JStr (join '';'' (tx_core_reasons c))),
               (''decoded_arguments'', JStr (json_dumps (JObj (tx_arguments c))))] (context_dict c)"

definition row_context :: "investigation_case \<Rightarrow> tx_context \<Rightarrow> dict" where
  "row_context k c =
     [(''transaction_hash'', JStr (ik_transaction_hash k)), (''block_number'', JInt (ik_block k)),
      (''transaction_phase'', JStr (tx_phase c)), (''hop'', jnat (tx_hop c))]"

text \<open>\<^verbatim>\<open>context_by_hash[case.transaction_hash]\<close>: of two contexts with one hash the last is kept.\<close>

definition context_by_hash :: "attack_case \<Rightarrow> investigation_case \<Rightarrow> tx_context res" where
  "context_by_hash a k =
     (case map_of (rev (map (\<lambda>c. (tx_hash_of c, c)) (ar_contexts a))) (ik_transaction_hash k) of
        None \<Rightarrow> Inl KeyError | Some c \<Rightarrow> Inr c)"

definition case_rows :: "attack_case \<Rightarrow> (investigation_case \<Rightarrow> dict list) \<Rightarrow> dict list res" where
  "case_rows a rows =
     and_then (traverse (\<lambda>k. and_then (context_by_hash a k) (\<lambda>c. Inr (map (\<lambda>r. row_context k c @ r) (rows k)))) (ar_transactions a))
       (\<lambda>rss. Inr (concat rss))"

definition recon_entity_row :: "recon_entity \<Rightarrow> dict" where
  "recon_entity_row n =
     replaced [(''roles'', JStr (join '','' (ne_roles n))), (''transaction_hashes'', JStr (join '','' (ne_transaction_hashes n))),
               (''runtime_code_sha256s'', JStr (join '','' (ne_runtime_code_sha256s n)))] (recon_entity_dict n)
     @ [(''transaction_count'', jnat (length (ne_transaction_hashes n)))]"

definition context_names :: "string list" where
  "context_names = [''transaction_hash'', ''block_number'', ''transaction_phase'', ''hop'']"

definition transaction_names :: "string list" where
  "transaction_names =
     [''transaction_hash'', ''block_number'', ''transaction_index'', ''block_timestamp'', ''phase'', ''hop'', ''relevance_score'',
      ''core_candidate'', ''core_reasons'', ''discovery_reasons'', ''status'', ''sender'', ''recipient'', ''selector'',
      ''function_signature'', ''function_confidence'', ''function_source'', ''decoded_arguments'', ''call_count'', ''event_count'',
      ''transfer_count'', ''state_account_change_count'', ''storage_change_count'', ''trace_available'']"

definition recon_entity_names :: "string list" where
  "recon_entity_names =
     [''address'', ''kind'', ''label'', ''roles'', ''transaction_hashes'', ''transaction_count'', ''first_block'', ''last_block'',
      ''code_observed'', ''code_bytes_min'', ''code_bytes_max'', ''runtime_code_sha256s'']"

definition recon_edge_names :: "string list" where
  "recon_edge_names =
     [''edge_id'', ''transaction_hash'', ''block_number'', ''hop'', ''source'', ''target'', ''relation'', ''asset_type'',
      ''asset_address'', ''asset_symbol'', ''raw_amount'', ''amount_display'', ''evidence_ref'', ''execution_effect'']"

definition recon_timeline_names :: "string list" where
  "recon_timeline_names =
     [''entry_id'', ''transaction_hash'', ''block_number'', ''block_timestamp'', ''transaction_phase'', ''transaction_index'',
      ''event_phase'', ''event_order'', ''event_type'', ''summary'', ''evidence_ref'']"

section \<open>The bundle\<close>

definition RECONSTRUCTION_BUNDLE_FILES :: "string list" where
  "RECONSTRUCTION_BUNDLE_FILES =
     [''case.json'', ''report.md'', ''core_path.csv'', ''transactions.csv'', ''calls.csv'', ''events.csv'', ''transfers.csv'',
      ''state_changes.csv'', ''storage_changes.csv'', ''entities.csv'', ''relationships.csv'', ''timeline.csv'', ''graph.graphml'',
      ''graph.html'']"

text \<open>The rows taken from the cases, in the order of the tables they fill.\<close>

definition gathered_rows :: "attack_case \<Rightarrow> (string \<times> unicode) list res" where
  "gathered_rows a =
     and_then (case_rows a (\<lambda>k. map call_row (ik_calls k))) (\<lambda>calls.
     and_then (case_rows a (\<lambda>k. map event_table_row (ik_events k))) (\<lambda>events.
     and_then (case_rows a (\<lambda>k. map transfer_dict (ik_transfers k))) (\<lambda>transfers.
     and_then (case_rows a (\<lambda>k. map state_row (changed_accounts k))) (\<lambda>states.
     and_then (case_rows a (\<lambda>k. concat (map storage_rows (changed_accounts k)))) (\<lambda>slots.
       Inr [(''calls.csv'', uni (csv_text (context_names @ call_names) calls)),
            (''events.csv'', uni (csv_text (context_names @ event_names) events)),
            (''transfers.csv'', uni (csv_text (context_names @ transfer_names) transfers)),
            (''state_changes.csv'', uni (csv_text (context_names @ state_names) states)),
            (''storage_changes.csv'', uni (csv_text (context_names @ storage_names) slots))])))))"

definition recon_artifacts :: "unicode \<times> unicode \<Rightarrow> attack_case \<Rightarrow> (string \<times> unicode) list res" where
  "recon_artifacts page a =
     and_then (gathered_rows a) (\<lambda>tables. Inr
       ([(''case.json'', uni (json_pretty 0 (JObj (reconstruction_dict a)) @ [CHR 0x0A])),
         (''report.md'', render_reconstruction_report a),
         (''core_path.csv'', uni (csv_text transaction_names (map context_row_dict (core_contexts a)))),
         (''transactions.csv'', uni (csv_text transaction_names (map context_row_dict (ar_contexts a))))]
        @ tables
        @ [(''entities.csv'', uni (csv_text recon_entity_names (map recon_entity_row (ar_entities a)))),
           (''relationships.csv'', uni (csv_text recon_edge_names (map recon_edge_dict (ar_edges a)))),
           (''timeline.csv'', uni (csv_text recon_timeline_names (map recon_entry_dict (ar_timeline a)))),
           (''graph.graphml'', uni (attack_graphml a)),
           (''graph.html'', attack_graph_html page a)]))"

definition recon_manifest :: "attack_case \<Rightarrow> json \<Rightarrow> dict" where
  "recon_manifest a files =
     [(''schema_version'', JInt 4), (''tool'', JObj [(''name'', JStr (ar_tool_name a)), (''version'', JStr (ar_tool_version a))]),
      (''reconstruction_id'', JStr (ar_reconstruction_id a)), (''seed_transaction_hash'', JStr (ar_seed_hash a)),
      (''chain_id'', JInt (ar_chain_id a)), (''generated_at'', JStr (ar_generated_at a)),
      (''coverage'', JObj (coverage_dict (ar_coverage a))), (''files'', files)]"

text \<open>The directory is made before the tables are gathered.\<close>

definition write_reconstruction_bundle ::
  "(bytes \<Rightarrow> string) \<Rightarrow> unicode \<times> unicode \<Rightarrow> attack_case \<Rightarrow> bool \<Rightarrow> destination
     \<Rightarrow> (bundle_error + bundle_result) res \<times> destination" where
  "write_reconstruction_bundle sha256 page a overwrite d =
     (case refusal RECONSTRUCTION_BUNDLE_FILES overwrite d of
        Some e \<Rightarrow> (Inr (Inl e), d)
      | None \<Rightarrow>
          (case recon_artifacts page a of
             Inl e \<Rightarrow> (Inl e, Directory (entries d))
           | Inr files \<Rightarrow>
               (case place_bundle sha256 RECONSTRUCTION_BUNDLE_FILES (artifact_at files) (recon_manifest a) (entries d) of
                  (r, d') \<Rightarrow> (Inr r, d'))))"

end
