(* ===== verification/Bundle_Properties.thy ===== *)
theory Bundle_Properties
  imports Attack_Bundle
begin

text \<open>
  What the bundles of \<^verbatim>\<open>src/white_radar/case_bundle.py\<close> and \<^verbatim>\<open>reconstruction_bundle.py\<close> promise: a table
  reads back as it was written, a graph's names survive the markup around them, the manifest
  lists exactly what is in the directory, and a refused bundle leaves the directory alone.
\<close>

section \<open>Reading CSV\<close>

text \<open>The standard reader: a row ends at a line break outside quotes, two quotes inside quotes are one.\<close>

datatype csv_state = RowStart | FieldStart | Unquoted | Quoted | AfterQuote | AfterReturn

fun csv_read :: "csv_state \<Rightarrow> string \<Rightarrow> string list \<Rightarrow> string \<Rightarrow> string list list" where
  "csv_read st f r [] = (if st = RowStart \<or> st = AfterReturn then [] else [rev (rev f # r)])"
| "csv_read st f r (c # cs) =
     (if st = Quoted then
        (if c = double_quote then csv_read AfterQuote f r cs else csv_read Quoted (c # f) r cs)
      else if st = AfterReturn \<and> c = CHR 0x0A then csv_read RowStart [] [] cs
      else if c = CHR 0x0D then rev (rev f # r) # csv_read AfterReturn [] [] cs
      else if c = CHR 0x0A then rev (rev f # r) # csv_read RowStart [] [] cs
      else if c = CHR '','' then csv_read FieldStart [] (rev f # r) cs
      else if c = double_quote \<and> st = AfterQuote then csv_read Quoted (c # f) r cs
      else if c = double_quote \<and> st \<noteq> Unquoted then csv_read Quoted f r cs
      else csv_read Unquoted (c # f) r cs)"

declare csv_read.simps(2) [simp del]

lemma csv_read_plain:
  "\<not> list_ex csv_special s \<Longrightarrow> csv_read Unquoted f r (s @ rest) = csv_read Unquoted (rev s @ f) r rest"
  by (induction s arbitrary: f) (auto simp: csv_special_def csv_read.simps(2))

lemma csv_read_quoted:
  "csv_read Quoted f r (concat (map (\<lambda>c. if c = double_quote then [c, c] else [c]) s) @ double_quote # rest)
     = csv_read AfterQuote (rev s @ f) r rest"
  by (induction s arbitrary: f) (auto simp: csv_read.simps(2) double_quote_def)

text \<open>What may follow a field: a comma or the end of the row.\<close>

definition ends_field :: "string \<Rightarrow> bool" where
  "ends_field s \<longleftrightarrow> (\<exists>t. s = CHR '','' # t \<or> s = CHR 0x0D # t)"

lemma csv_read_end:
  assumes "ends_field rest" "st \<noteq> Quoted" "st \<noteq> AfterReturn" "st' \<noteq> Quoted" "st' \<noteq> AfterReturn"
  shows "csv_read st f r rest = csv_read st' f r rest"
  using assms by (auto simp: ends_field_def csv_read.simps(2) double_quote_def)

lemma csv_read_field:
  assumes "ends_field rest" "st = RowStart \<or> st = FieldStart"
  shows "csv_read st [] r (csv_field s @ rest) = csv_read Unquoted (rev s) r rest"
proof (cases "list_ex csv_special s")
  case True
  have "csv_read st [] r (csv_quote s @ rest) = csv_read AfterQuote (rev s) r rest"
    using assms(2) csv_read_quoted[of "[]" r s rest]
    by (auto simp: csv_quote_def csv_read.simps(2) double_quote_def)
  then show ?thesis using True csv_read_end[OF assms(1), of AfterQuote Unquoted] by (simp add: csv_field_def)
next
  case False
  show ?thesis
  proof (cases s)
    case Nil
    then show ?thesis using assms(2) csv_read_end[OF assms(1), of st Unquoted] by (auto simp: csv_field_def)
  next
    case (Cons c cs)
    then have "csv_read st [] r (s @ rest) = csv_read Unquoted [c] r (cs @ rest)"
      using False assms(2) by (auto simp: csv_special_def csv_read.simps(2))
    then show ?thesis using False csv_read_plain[of cs "[c]" r rest] Cons by (simp add: csv_field_def)
  qed
qed

lemma csv_read_row:
  assumes "fs \<noteq> []" "st = RowStart \<or> st = FieldStart"
  shows "csv_read st [] r (join '','' (map csv_field fs) @ CHR 0x0D # CHR 0x0A # rest)
     = (rev r @ fs) # csv_read RowStart [] [] rest"
  using assms
proof (induction fs arbitrary: r st rule: list_nonempty_induct)
  case (single x)
  then show ?case
    using csv_read_field[of "CHR 0x0D # CHR 0x0A # rest" st r x] by (auto simp: ends_field_def csv_read.simps(2) double_quote_def)
next
  case (cons x xs)
  obtain y ys where "xs = y # ys" using cons.hyps by (cases xs) auto
  then show ?case
    using csv_read_field[of "CHR '','' # join '','' (map csv_field xs) @ CHR 0x0D # CHR 0x0A # rest" st r x]
      cons.IH[of FieldStart "x # r"] cons.prems
    by (auto simp: ends_field_def csv_read.simps(2) double_quote_def)
qed

lemma csv_read_written: "fs \<noteq> [] \<Longrightarrow> csv_read RowStart [] [] (csv_row fs @ rest) = fs # csv_read RowStart [] [] rest"
proof (cases "fs = [[]]")
  case True
  then show ?thesis by (simp add: csv_row_def csv_quote_def csv_read.simps(2) double_quote_def)
next
  case False
  then show "fs \<noteq> [] \<Longrightarrow> ?thesis" using csv_read_row[of fs RowStart "[]" rest] by (simp add: csv_row_def)
qed

text \<open>C22. Every table of a bundle reads back as the header and the rows that were written, whatever
  commas, quotes and line breaks the values hold: the standard reader of CSV, applied to
  \<open>csv_text\<close>, returns the field names and then, for every row, the text of each named value
  (empty where the row has none).
\<close>

theorem csv_reads_back:
  assumes "names \<noteq> []"
  shows "csv_read RowStart [] [] (csv_text names rows) = names # map (\<lambda>r. map (csv_cell r) names) rows"
proof -
  have "csv_read RowStart [] [] (concat (map csv_row fss)) = fss" if "\<forall>fs \<in> set fss. fs \<noteq> []" for fss
    using that by (induction fss) (simp_all add: csv_read_written)
  from this[of "names # map (\<lambda>r. map (csv_cell r) names) rows"] show ?thesis using assms by (simp add: csv_text_def)
qed

theorem csv_reads_back_witness:
  "csv_read RowStart [] [] (csv_text [''a'', ''b''] [[(''a'', JStr ''x,y''), (''b'', JNull)]]) = [[''a'', ''b''], [''x,y'', []]]"
  using csv_reads_back[of "[''a'', ''b'']" "[[(''a'', JStr ''x,y''), (''b'', JNull)]]"]
  by (simp add: csv_cell_def dget_def)

section \<open>Reading the portable graph\<close>

text \<open>An element as its fixed texts, each followed by a value up to the character that stops it.\<close>

fun read_pieces :: "(char \<times> string) list \<Rightarrow> string \<Rightarrow> string list" where
  "read_pieces [] s = []"
| "read_pieces ((stop, key) # ps) s =
     (let rest = removeprefix key s in
      html_unescape (takeWhile (\<lambda>c. c \<noteq> stop) rest) # read_pieces ps (dropWhile (\<lambda>c. c \<noteq> stop) rest))"

fun written :: "(char \<times> string) list \<Rightarrow> string list \<Rightarrow> string \<Rightarrow> string" where
  "written ((stop, key) # ps) (v # vs) rest = key @ html_escape v @ written ps vs rest"
| "written _ _ rest = rest"

text \<open>The stop of a piece is inert in values and opens what follows.\<close>

fun chained :: "(char \<times> string) list \<Rightarrow> string \<Rightarrow> bool" where
  "chained [] rest = True"
| "chained ((stop, key) # ps) rest =
     (stop \<in> {CHR ''<'', double_quote} \<and> take 1 (case ps of [] \<Rightarrow> rest | (s, k) # _ \<Rightarrow> k) = [stop] \<and> chained ps rest)"

lemma take_one: "take (Suc 0) s = [c] \<Longrightarrow> \<exists>t. s = c # t"
  by (cases s) auto

lemma written_opens:
  "take 1 (case ps of [] \<Rightarrow> rest | (s, k) # _ \<Rightarrow> k) = [stop] \<Longrightarrow> length vs = length ps
     \<Longrightarrow> \<exists>t. written ps vs rest = stop # t"
  by (cases ps; cases vs) (auto dest: take_one)

lemma read_written: "chained ps rest \<Longrightarrow> length vs = length ps \<Longrightarrow> read_pieces ps (written ps vs rest) = vs"
proof (induction ps arbitrary: vs)
  case (Cons p ps)
  obtain stop key where p: "p = (stop, key)" by (cases p)
  obtain v ws where vs: "vs = v # ws" using Cons.prems(2) by (cases vs) auto
  obtain t where t: "written ps ws rest = stop # t"
    using written_opens[where ps = ps and vs = ws and rest = rest and stop = stop] Cons.prems vs p by auto
  have "\<forall>c \<in> set (html_escape v). c \<noteq> stop" using html_escape_inert[of v] Cons.prems(1) p by auto
  then have "takeWhile (\<lambda>c. c \<noteq> stop) (html_escape v @ stop # t) = html_escape v"
    "dropWhile (\<lambda>c. c \<noteq> stop) (html_escape v @ stop # t) = stop # t" by simp_all
  then show ?case using Cons.IH[of ws] Cons.prems p vs t
    by (simp add: removeprefix_def startswith_def unescape_escape)
qed simp

definition edge_pieces :: "(char \<times> string) list" where
  "edge_pieces =
     [(double_quote, ''<edge id=\"''), (double_quote, ''\" source=\"''), (double_quote, ''\" target=\"''),
      (CHR ''<'', ''\"><data key=\"relation\">''), (CHR ''<'', ''</data><data key=\"evidence\">''),
      (CHR ''<'', ''</data><data key=\"execution_effect\">'')]"

definition node_pieces :: "(char \<times> string) list" where
  "node_pieces =
     [(double_quote, ''<node id=\"''), (CHR ''<'', ''\"><data key=\"label\">''), (CHR ''<'', ''</data><data key=\"kind\">''),
      (CHR ''<'', ''</data><data key=\"roles\">'')]"

lemma graph_edge_written:
  "graph_edge r = written edge_pieces
     [re_relationship_id r, re_source r, re_target r, re_relation r, re_evidence_ref r, re_execution_effect r] ''</data></edge>''"
  by (simp add: graph_edge_def edge_pieces_def)

lemma graph_node_written:
  "graph_node n = written node_pieces [en_address n, text_or (en_label n) (en_address n), en_kind n, join '','' (en_roles n)]
     ''</data></node>''"
  by (simp add: graph_node_def node_pieces_def)

text \<open>C23. No text from a chain can change the structure of the portable graph: reading an element of
  \<^verbatim>\<open>graph.graphml\<close> by its fixed texts, up to the next quote or \<^verbatim>\<open><\<close>, and resolving the five
  entities gives back exactly the identifiers, names and references of the relationship or the
  entity it was written for.
\<close>

theorem graph_reads_back:
  "read_pieces edge_pieces (graph_edge r)
       = [re_relationship_id r, re_source r, re_target r, re_relation r, re_evidence_ref r, re_execution_effect r]
   \<and> read_pieces node_pieces (graph_node n)
       = [en_address n, text_or (en_label n) (en_address n), en_kind n, join '','' (en_roles n)]"
  unfolding graph_edge_written graph_node_written
  by (intro conjI read_written) (simp_all add: edge_pieces_def node_pieces_def double_quote_def)

section \<open>An example\<close>

definition sample_case :: investigation_case where
  "sample_case = \<lparr> ik_id = ''ethereum-1'', ik_generated_at = ''t'', ik_chain = ''ethereum'', ik_chain_id = 1, ik_explorer_url = ''https://e'',
     ik_transaction_hash = ''0x1'', ik_block = 9, ik_block_hash = None, ik_block_timestamp = None,
     ik_transaction_status = ''succeeded'', ik_transaction_fee_wei = None, ik_trace_available = False,
     ik_trace_truncated = False, ik_source_transaction = [], ik_source_receipt = [], ik_root_call = None, ik_calls = [],
     ik_events = [], ik_transfers = [mk_transfer ''log:0'' ''erc20'' (Some ''0xaa'') ''0xb1'' ''0xb2'' ''5'' None None ''log'' ''log:0'' EXECUTION_COMMITTED],
     ik_entities = [plain_entity ''0xb1'' None None [''sender'']], ik_relationships = [], ik_timeline = [],
     ik_findings = [], ik_warnings = [''a warning''], ik_proxy_snapshot = None, ik_historical_replay = None, ik_state_diff = None \<rparr>"

section \<open>The directory\<close>

lemma not_refused:
  assumes "refusal names overwrite d = None"
  shows "d \<noteq> Occupied" "\<not> overwrite \<Longrightarrow> n \<in> set (names @ [MANIFEST]) \<Longrightarrow> entries d n = None"
    "n \<in> set (names @ [MANIFEST]) \<Longrightarrow> entries d n = Some Subfolder \<Longrightarrow> overwrite"
proof -
  have n: "entries d n = None" if "\<not> overwrite" "n \<in> set (names @ [MANIFEST])" for n
  proof -
    from assms that have "\<not> entry_link (entries d n)" "\<not> entry_exists (entries d n)"
      unfolding refusal_def by (auto split: if_splits)
    then show ?thesis by (cases "entries d n" rule: entry_exists.cases) auto
  qed
  show "d \<noteq> Occupied" using assms by (auto simp: refusal_def)
  show "\<not> overwrite \<Longrightarrow> n \<in> set (names @ [MANIFEST]) \<Longrightarrow> entries d n = None" by (rule n)
  show "n \<in> set (names @ [MANIFEST]) \<Longrightarrow> entries d n = Some Subfolder \<Longrightarrow> overwrite" using n[of n] by auto
qed

definition listing :: "(bytes \<Rightarrow> string) \<Rightarrow> (string \<times> unicode) list \<Rightarrow> json" where
  "listing sha256 files = JList (map (\<lambda>(n, t). JObj [(''path'', JStr n), (''bytes'', jnat (length (utf8 t))),
     (''sha256'', JStr (sha256 (utf8 t)))]) files)"

lemma listing_by_name:
  assumes "distinct (map fst files)"
  shows "JList (map (\<lambda>n. JObj [(''path'', JStr n), (''bytes'', jnat (length (utf8 (artifact_at files n)))),
     (''sha256'', JStr (sha256 (utf8 (artifact_at files n))))]) (map fst files)) = listing sha256 files"
proof -
  have "artifact_at files n = t" if "(n, t) \<in> set files" for n t using that assms by (simp add: artifact_at_def)
  then show ?thesis by (auto simp: listing_def)
qed

text \<open>C14. A bundle that was written is complete and its manifest is true: every file of the case is in
  the directory with the text made for it, the manifest lists each of them once with the size
  and the digest of what is there, every other entry of the directory is as it was, and without
  \<^verbatim>\<open>--overwrite\<close> none of the names was taken before.
\<close>

theorem case_bundle_complete:
  assumes "write_case_bundle sha256 page k overwrite d = (Inr res, d')"
  shows "\<exists>fs'. d' = Directory fs' \<and> (\<forall>(n, t) \<in> set (artifacts page k). fs' n = Some (Regular (utf8 t)))
     \<and> fs' MANIFEST = Some (Regular (utf8 (manifest_text (case_manifest k (listing sha256 (artifacts page k))))))
     \<and> (\<forall>n. n \<notin> set (BUNDLE_FILES @ [MANIFEST]) \<longrightarrow> fs' n = entries d n)
     \<and> (\<not> overwrite \<longrightarrow> (\<forall>n \<in> set (BUNDLE_FILES @ [MANIFEST]). entries d n = None)) \<and> br_files res = BUNDLE_FILES"
proof -
  have r: "refusal BUNDLE_FILES overwrite d = None"
    and p: "place_bundle sha256 BUNDLE_FILES (artifact_at (artifacts page k)) (case_manifest k) (entries d) = (Inr res, d')"
    using assms by (auto simp: write_case_bundle_def split: option.splits)
  have d: "distinct (map fst (artifacts page k))" using artifact_names case_files.names_distinct by simp
  have w: "\<forall>(n, t) \<in> set (artifacts page k). n \<in> set BUNDLE_FILES \<and> artifact_at (artifacts page k) n = t"
    unfolding artifact_names[of page k, symmetric] using artifact_of[of _ _ page k] by force
  from case_files.placed[OF p] show ?thesis
    unfolding listing_by_name[OF d, of sha256, unfolded artifact_names] using w not_refused(2)[OF r] by fastforce
qed

theorem case_bundle_complete_witness:
  "\<exists>res fs'. write_case_bundle (\<lambda>b. ''0'') ([], []) sample_case False Missing = (Inr res, Directory fs') \<and> fs' ''other'' = None
     \<and> fs' MANIFEST = Some (Regular (utf8 (manifest_text (case_manifest sample_case (listing (\<lambda>b. ''0'') (artifacts ([], []) sample_case))))))"
proof -
  obtain r d' where w: "write_case_bundle (\<lambda>b. ''0'') ([], []) sample_case False Missing = (r, d')" by fastforce
  have "refusal BUNDLE_FILES False Missing = None" by (simp add: refusal_def)
  then obtain res where "r = Inr res"
    using w case_files.placed_failure[of "\<lambda>b. ''0''" _ _ Map.empty] by (cases r) (fastforce simp: write_case_bundle_def)+
  with w case_bundle_complete[of "\<lambda>b. ''0''" "([], [])" sample_case False Missing res d'] show ?thesis
    by (auto simp: BUNDLE_FILES_def MANIFEST_def)
qed

text \<open>A bundle that was not written: either it was refused before anything was touched, because the
  destination is no directory, one of the names is a symbolic link, or (without \<^verbatim>\<open>--overwrite\<close>)
  one of them exists; or, with \<^verbatim>\<open>--overwrite\<close>, one of the names is a directory, and nothing beside
  the bundle's own names has changed.
\<close>

theorem case_bundle_refused:
  assumes "write_case_bundle sha256 page k overwrite d = (Inl e, d')"
  shows "refusal BUNDLE_FILES overwrite d = Some e \<and> d' = d \<and> e \<noteq> IsADirectory
     \<or> e = IsADirectory \<and> overwrite \<and> (\<exists>n \<in> set (BUNDLE_FILES @ [MANIFEST]). entries d n = Some Subfolder)
       \<and> (\<forall>n. n \<notin> set (BUNDLE_FILES @ [MANIFEST]) \<longrightarrow> entries d' n = entries d n)"
proof (cases "refusal BUNDLE_FILES overwrite d")
  case None
  then have "place_bundle sha256 BUNDLE_FILES (artifact_at (artifacts page k)) (case_manifest k) (entries d) = (Inl e, d')"
    using assms by (simp add: write_case_bundle_def)
  from case_files.placed_failure[OF this] show ?thesis using not_refused(3)[OF None] by blast
next
  case (Some x)
  then show ?thesis using assms by (auto simp: write_case_bundle_def refusal_def split: if_splits)
qed

theorem case_bundle_refused_witness:
  "refusal BUNDLE_FILES False (Directory [''report.md'' \<mapsto> Subfolder]) = Some FilesExist
   \<and> write_case_bundle (\<lambda>b. ''0'') ([], []) sample_case False (Directory [''report.md'' \<mapsto> Subfolder])
       = (Inl FilesExist, Directory [''report.md'' \<mapsto> Subfolder])"
proof -
  have r: "refusal BUNDLE_FILES False (Directory [''report.md'' \<mapsto> Subfolder]) = Some FilesExist"
    by (simp add: refusal_def BUNDLE_FILES_def MANIFEST_def)
  obtain x d' where w: "write_case_bundle (\<lambda>b. ''0'') ([], []) sample_case False (Directory [''report.md'' \<mapsto> Subfolder]) = (Inl x, d')"
    using r by (simp add: write_case_bundle_def)
  from case_bundle_refused[OF w] r w show ?thesis by auto
qed

end
