(* ===== verification/Attack_Bundle_Properties.thy ===== *)
theory Attack_Bundle_Properties
  imports Bundle_Properties Attack_Properties
begin

text \<open>
  The bundle of a reconstruction (\<^verbatim>\<open>src/white_radar/reconstruction_bundle.py\<close>): every reconstruction has
  one, its manifest is true, and what its graphs show.
\<close>

interpretation recon_files: bundle_names RECONSTRUCTION_BUNDLE_FILES
  by unfold_locales (simp add: RECONSTRUCTION_BUNDLE_FILES_def MANIFEST_def)

section \<open>The tables\<close>

lemma context_by_hash_returns:
  assumes "map tx_hash_of (ar_contexts a) = map ik_transaction_hash (ar_transactions a)" "k \<in> set (ar_transactions a)"
  shows "\<exists>c. context_by_hash a k = Inr c"
proof -
  have "ik_transaction_hash k \<in> set (map tx_hash_of (ar_contexts a))" unfolding assms(1) using assms(2) by simp
  then have "ik_transaction_hash k \<in> fst ` set (rev (map (\<lambda>c. (tx_hash_of c, c)) (ar_contexts a)))"
    by (auto simp: image_image)
  then obtain c where "map_of (rev (map (\<lambda>c. (tx_hash_of c, c)) (ar_contexts a))) (ik_transaction_hash k) = Some c"
    by (metis map_of_eq_None_iff option.exhaust)
  then show ?thesis by (simp add: context_by_hash_def)
qed

lemma case_rows_return:
  assumes "map tx_hash_of (ar_contexts a) = map ik_transaction_hash (ar_transactions a)"
  shows "\<exists>rs. case_rows a rows = Inr rs"
proof -
  have "\<forall>k \<in> set (ar_transactions a). \<exists>y. and_then (context_by_hash a k) (\<lambda>c. Inr (map (\<lambda>r. row_context k c @ r) (rows k))) = Inr y"
  proof
    fix k
    assume "k \<in> set (ar_transactions a)"
    from context_by_hash_returns [OF assms this] obtain c where "context_by_hash a k = Inr c" by blast
    then show "\<exists>y. and_then (context_by_hash a k) (\<lambda>c. Inr (map (\<lambda>r. row_context k c @ r) (rows k))) = Inr y"
      by (simp add: and_then_def)
  qed
  from traverse_returns [OF this] show ?thesis by (auto simp: case_rows_def and_then_def)
qed

lemma artifacts_return:
  assumes "map tx_hash_of (ar_contexts a) = map ik_transaction_hash (ar_transactions a)"
  shows "\<exists>files. recon_artifacts page a = Inr files \<and> map fst files = RECONSTRUCTION_BUNDLE_FILES"
proof -
  note r = case_rows_return [OF assms]
  obtain calls where 1: "case_rows a (\<lambda>k. map call_row (ik_calls k)) = Inr calls" using r by blast
  obtain events where 2: "case_rows a (\<lambda>k. map event_table_row (ik_events k)) = Inr events" using r by blast
  obtain transfers where 3: "case_rows a (\<lambda>k. map transfer_dict (ik_transfers k)) = Inr transfers" using r by blast
  obtain states where 4: "case_rows a (\<lambda>k. map state_row (changed_accounts k)) = Inr states" using r by blast
  obtain slots where 5: "case_rows a (\<lambda>k. concat (map storage_rows (changed_accounts k))) = Inr slots" using r by blast
  show ?thesis
    by (simp add: recon_artifacts_def gathered_rows_def 1 2 3 4 5 and_then_def RECONSTRUCTION_BUNDLE_FILES_def)
qed

lemma artifacts_names: "recon_artifacts page a = Inr files \<Longrightarrow> map fst files = RECONSTRUCTION_BUNDLE_FILES"
  by (auto simp: recon_artifacts_def gathered_rows_def and_then_eq_Inr RECONSTRUCTION_BUNDLE_FILES_def)

text \<open>C15. Every reconstruction has a bundle. Writing it never raises (a context is found for every
  transaction), and unless the destination refuses it, the directory then holds exactly the
  fourteen artifacts and a manifest that lists each with its size and digest.
\<close>

theorem reconstruction_bundle_complete:
  assumes "reconstruct_attack_case env k h r tc = Inr a" and "checked_limits (rc_limits env) = Inr l"
  shows "\<exists>res d'. write_reconstruction_bundle sha256 page a overwrite d = (Inr res, d')
     \<and> (\<forall>b. res = Inr b \<longrightarrow> (\<exists>files fs'. recon_artifacts page a = Inr files \<and> d' = Directory fs'
          \<and> (\<forall>(n, t) \<in> set files. fs' n = Some (Regular (utf8 t))) \<and> map fst files = RECONSTRUCTION_BUNDLE_FILES
          \<and> fs' MANIFEST = Some (Regular (utf8 (manifest_text (recon_manifest a (listing sha256 files)))))))
     \<and> (\<forall>e. res = Inl e \<longrightarrow> refusal RECONSTRUCTION_BUNDLE_FILES overwrite d = Some e \<and> d' = d
          \<or> e = IsADirectory \<and> overwrite)"
proof -
  obtain files where f: "recon_artifacts page a = Inr files" and n: "map fst files = RECONSTRUCTION_BUNDLE_FILES"
    using artifacts_return [OF reconstruct_hashes [OF assms], of page] by blast
  have dist: "distinct (map fst files)" unfolding n using recon_files.names_distinct by simp
  have at: "artifact_at files x = t" if "(x, t) \<in> set files" for x t using that dist by (simp add: artifact_at_def)
  have names: "x \<in> set RECONSTRUCTION_BUNDLE_FILES" if "(x, t) \<in> set files" for x t
    unfolding n [symmetric] using that by force
  show ?thesis
  proof (cases "refusal RECONSTRUCTION_BUNDLE_FILES overwrite d")
    case (Some e)
    then show ?thesis by (simp add: write_reconstruction_bundle_def)
  next
    case None
    obtain res d' where p: "place_bundle sha256 RECONSTRUCTION_BUNDLE_FILES (artifact_at files) (recon_manifest a) (entries d) = (res, d')"
      by fastforce
    then have w: "write_reconstruction_bundle sha256 page a overwrite d = (Inr res, d')"
      using None f by (simp add: write_reconstruction_bundle_def)
    show ?thesis
    proof (cases res)
      case (Inl e)
      with recon_files.placed_failure [OF p [unfolded Inl]] not_refused(3) [OF None] w show ?thesis by fastforce
    next
      case (Inr b)
      from recon_files.placed [OF p [unfolded Inr]] obtain fs' where d': "d' = Directory fs'"
        and c: "\<forall>x \<in> set RECONSTRUCTION_BUNDLE_FILES. fs' x = Some (Regular (utf8 (artifact_at files x)))"
        and m: "fs' MANIFEST = Some (Regular (utf8 (manifest_text (recon_manifest a (listing sha256 files)))))"
        unfolding listing_by_name [OF dist, of sha256, unfolded n] by blast
      have "\<forall>(x, t) \<in> set files. fs' x = Some (Regular (utf8 t))" using c at names by fastforce
      with w Inr f n d' m show ?thesis by auto
    qed
  qed
qed

theorem reconstruction_bundle_complete_witness:
  "\<exists>a b d'. demo_attack 1 (\<lambda>m ps. Inl RpcError) = Inr a
     \<and> write_reconstruction_bundle (\<lambda>b. ''0'') ([], []) a False Missing = (Inr (Inr b), d')"
proof -
  obtain a where a: "demo_attack 1 (\<lambda>m ps. Inl RpcError) = Inr a" using demo_silent_returns [of 1] by auto
  have l: "checked_limits (rc_limits (demo_recon 1 (\<lambda>m ps. Inl RpcError)))
      = Inr (default_limits\<lparr> lm_max_hops := 1, lm_max_frontier_addresses := 1 \<rparr>)" by (rule demo_limits) simp_all
  have r: "refusal RECONSTRUCTION_BUNDLE_FILES False Missing = None" by (simp add: refusal_def)
  from reconstruction_bundle_complete [OF a l, of "\<lambda>b. ''0''" "([], [])" False Missing] obtain res d' where
    w: "write_reconstruction_bundle (\<lambda>b. ''0'') ([], []) a False Missing = (Inr res, d')"
    and e: "\<forall>e. res \<noteq> Inl e" using r by auto
  from e obtain b where "res = Inr b" by (cases res) auto
  with a w show ?thesis by blast
qed

section \<open>The graphs\<close>

lemma node_ids_simps [simp]:
  "node_ids (map entity_node ns) = map ne_address ns"
  "node_ids (map transaction_node cs) = map (\<lambda>c. transaction_node_id (tx_hash_of c)) cs"
  "node_ids (xs @ ys) = node_ids xs @ node_ids ys"
  by (simp_all add: node_ids_def entity_node_def transaction_node_def dget_def)

lemma drawn_graph_edges_in:
  assumes "e \<in> set (drawn_graph_edges a)"
  shows "e \<in> set (graph_edges a) \<and> py_str (dget e ''source'') \<in> set (node_ids (drawn_graph_nodes a))
     \<and> py_str (dget e ''target'') \<in> set (node_ids (drawn_graph_nodes a))"
  using assms take_filter_subset unfolding drawn_graph_edges_def Let_def by fastforce

text \<open>The seed alone, among 250 entities.\<close>

definition crowded :: attack_case where
  "crowded = \<lparr> ar_schema_version = 3, ar_reconstruction_id = ''r'', ar_generated_at = ''t'', ar_tool_name = ''n'', ar_tool_version = ''v'',
     ar_chain = ''ethereum'', ar_chain_id = 1, ar_explorer_url = ''e'', ar_seed_hash = ''0x1'', ar_seed_block = 9,
     ar_limits = default_limits, ar_coverage = \<lparr> cv_boundary_status = ''b'', cv_start_block = 0, cv_end_block = 9, cv_chain_head = 9,
       cv_addresses_queried = 0, cv_records_considered = 0, cv_candidates = 0, cv_reconstructed = 1, cv_failures = 0,
       cv_transaction_limit = False, cv_address_limit = False, cv_history_sources = [], cv_frontier_addresses = 0,
       cv_not_reconstructed = 0, cv_first_block = 9, cv_last_block = 9, cv_core_transactions = 1, cv_hub_addresses = [],
       cv_hub_suppressed = 0 \<rparr>,
     ar_contexts = [context_of sample_case ''0x1'' 9 0 10000 [''operator_seed'']], ar_transactions = [sample_case],
     ar_entities = replicate 250 \<lparr> ne_address = ''0xaa'', ne_kind = ''account'', ne_label = None, ne_roles = [],
       ne_transaction_hashes = [], ne_first_block = 0, ne_last_block = 0, ne_code_observed = None, ne_code_bytes_min = None,
       ne_code_bytes_max = None, ne_runtime_code_sha256s = [] \<rparr>,
     ar_edges = [], ar_timeline = [], ar_warnings = [] \<rparr>"

text \<open>C24. The interactive graphs never draw an edge to a node they left out, stay within 250 nodes and
  1000 edges, and carry their data inside the script element without a \<^verbatim>\<open><\<close>, so no text of a case
  can close the element.
\<close>

theorem drawn_graphs_closed:
  "(\<forall>r \<in> set (drawn_edges k). r \<in> set (ik_relationships k) \<and> {re_source r, re_target r} \<subseteq> en_address ` set (drawn_nodes k))
   \<and> (\<forall>e \<in> set (drawn_graph_edges a). e \<in> set (graph_edges a)
        \<and> {py_str (dget e ''source''), py_str (dget e ''target'')} \<subseteq> set (node_ids (drawn_graph_nodes a)))
   \<and> length (drawn_nodes k) \<le> 250 \<and> length (drawn_edges k) \<le> 1000
   \<and> length (drawn_graph_nodes a) \<le> 250 \<and> length (drawn_graph_edges a) \<le> 1000
   \<and> (\<exists>t. graph_html page k = fst page @ uni t @ snd page \<and> CHR ''<'' \<notin> set t)
   \<and> (\<exists>t. attack_graph_html page a = fst page @ uni t @ snd page \<and> CHR ''<'' \<notin> set t)"
proof -
  have n: "length (drawn_graph_nodes a) \<le> 250" "length (drawn_graph_edges a) \<le> 1000"
    by (simp_all add: drawn_graph_nodes_def drawn_graph_edges_def Let_def)
  have "CHR ''<'' \<notin> set (concat (map (\<lambda>c. if c = CHR ''<'' then CHR 0x5C # ''u003c'' else [c]) (attack_graph_data a)))"
    by auto
  then have t: "\<exists>t. attack_graph_html page a = fst page @ uni t @ snd page \<and> CHR ''<'' \<notin> set t"
    unfolding attack_graph_html_def by blast
  have u: "\<exists>t. graph_html page k = fst page @ uni t @ snd page \<and> CHR ''<'' \<notin> set t"
    unfolding graph_html_def using script_json_inert by blast
  show ?thesis using drawn_edges_closed [of _ k] drawn_graph_edges_in [of _ a] drawn_bounds [of k] n t u by blast
qed

theorem drawn_graphs_closed_witness:
  "length (drawn_graph_edges crowded) \<le> 1000 \<and> length (drawn_nodes sample_case) \<le> 250 \<and> length (drawn_graph_nodes crowded) \<le> 250"
  using drawn_graphs_closed [where a = crowded and k = sample_case] by blast

text \<open>The cap on nodes counts the entities first. With 250 entities or more the interactive graph
  of a reconstruction shows no transaction at all, not even the seed, and with them it drops
  every edge that says who initiated or received one.
\<close>

theorem entities_hide_transactions:
  assumes "250 \<le> length (ar_entities a)" and "\<forall>n \<in> set (ar_entities a). \<not> startswith ''tx:'' (ne_address n)"
  shows "(\<forall>c \<in> set (ar_contexts a). transaction_node_id (tx_hash_of c) \<notin> set (node_ids (drawn_graph_nodes a)))
     \<and> set (drawn_graph_edges a) \<subseteq> relation_edge ` set (ar_edges a)"
proof -
  have d: "drawn_graph_nodes a = map entity_node (take 250 (ar_entities a))"
    using assms(1) by (simp add: drawn_graph_nodes_def graph_nodes_def take_map)
  have t: "transaction_node_id h \<notin> set (node_ids (drawn_graph_nodes a))" for h
  proof
    have tag: "startswith ''tx:'' (transaction_node_id h)" by (simp add: startswith_def transaction_node_id_def)
    assume "transaction_node_id h \<in> set (node_ids (drawn_graph_nodes a))"
    then obtain n where "n \<in> set (ar_entities a)" "transaction_node_id h = ne_address n"
      unfolding d by (auto dest: in_set_takeD)
    with assms(2) tag show False by simp
  qed
  have "e \<in> relation_edge ` set (ar_edges a)" if "e \<in> set (drawn_graph_edges a)" for e
  proof (rule ccontr)
    assume "e \<notin> relation_edge ` set (ar_edges a)"
    with drawn_graph_edges_in [OF that] obtain c where "e \<in> set (context_edges c)" by (auto simp: graph_edges_def)
    then have "py_str (dget e ''source'') = transaction_node_id (tx_hash_of c)
        \<or> py_str (dget e ''target'') = transaction_node_id (tx_hash_of c)"
      by (auto simp: context_edges_def link_edge_def dget_def split: if_splits)
    with drawn_graph_edges_in [OF that] t show False by metis
  qed
  with t show ?thesis by blast
qed

theorem entities_hide_transactions_witness:
  "length (ar_contexts crowded) = 1 \<and> ''tx:0x1'' \<notin> set (node_ids (drawn_graph_nodes crowded))"
proof -
  have "250 \<le> length (ar_entities crowded)" "\<forall>n \<in> set (ar_entities crowded). \<not> startswith ''tx:'' (ne_address n)"
    by (simp_all add: crowded_def startswith_def)
  from entities_hide_transactions [OF this] show ?thesis by (simp add: crowded_def transaction_node_id_def context_of_def Let_def sample_case_def)
qed

end
