(* ===== verification/Telegram_Text.thy ===== *)
theory Telegram_Text
  imports Notifier Documents
begin

text \<open>
  The messages of \<^verbatim>\<open>src/white_radar/telegram.py\<close>: \<^verbatim>\<open>render_event\<close> and the request that carries its
  text. The metadata of an event are JSON values of any kind, so a rendering can raise what
  \<^verbatim>\<open>int\<close>, a slice or an iteration raises on a value of the wrong kind.
\<close>

section \<open>Values in a message\<close>

definition safe :: "json \<Rightarrow> unicode" where
  "safe j = uni (html_escape (py_str j))"

definition safe_text :: "string \<Rightarrow> unicode" where
  "safe_text s = uni (html_escape s)"

text \<open>\<^verbatim>\<open>d.get(k, default)\<close>\<close>

definition dget_or :: "dict \<Rightarrow> string \<Rightarrow> json \<Rightarrow> json" where
  "dget_or d k dflt = (case map_of d k of None \<Rightarrow> dflt | Some v \<Rightarrow> v)"

text \<open>\<^verbatim>\<open>short_address\<close>, escaped: the ellipsis is no special character.\<close>

definition short_address :: "string \<Rightarrow> unicode" where
  "short_address s = (if s = [] then safe_text ''unknown'' else safe_text (take 8 s) @ ellipsis @ safe_text (last_n 6 s))"

text \<open>\<^verbatim>\<open>f"{n:,}"\<close> and \<^verbatim>\<open>f"{x:.0%}"\<close> of a confidence, which is never negative\<close>

fun group3 :: "string \<Rightarrow> string" where
  "group3 (a # b # c # d # r) = a # b # c # CHR '','' # group3 (d # r)"
| "group3 s = s"

definition grouped :: "int \<Rightarrow> string" where
  "grouped i = (if i < 0 then ''-'' else []) @ rev (group3 (rev (nat_str (nat \<bar>i\<bar>))))"

definition percent :: "rat \<Rightarrow> string" where
  "percent q = (case quotient_of q of (n, d) \<Rightarrow> nat_str (round_half_even (nat (100 * n)) (nat d)) @ ''%'')"

text \<open>\<^verbatim>\<open>for item in x\<close> and \<^verbatim>\<open>x[:n]\<close> of a JSON value\<close>

fun iterate :: "json \<Rightarrow> json list res" where
  "iterate (JList xs) = Inr xs"
| "iterate (JObj d) = Inr (map (JStr o fst) d)"
| "iterate (JStr s) = Inr (map (\<lambda>c. JStr [c]) s)"
| "iterate _ = Inl TypeError"

fun slice :: "nat \<Rightarrow> json \<Rightarrow> json list res" where
  "slice n (JList xs) = Inr (take n xs)"
| "slice n (JStr s) = Inr (map (\<lambda>c. JStr [c]) (take n s))"
| "slice n _ = Inl TypeError"

text \<open>\<^verbatim>\<open>[str(item.get("code")) for item in xs if isinstance(item, dict) and item.get("code")]\<close>\<close>

definition finding_codes :: "json list \<Rightarrow> string list" where
  "finding_codes xs = map (\<lambda>d. py_str (dget d ''code'')) (filter (\<lambda>d. truthy (dget d ''code'')) (only_dicts xs))"

section \<open>The lines\<close>

definition severity_icon :: "severity \<Rightarrow> unicode" where
  "severity_icon s =
     (case s of INFORMATIONAL \<Rightarrow> [9898] | LOW \<Rightarrow> [128309] | MEDIUM \<Rightarrow> [128993] | HIGH \<Rightarrow> [128992] | CRITICAL \<Rightarrow> [128308])"

definition bold :: "string \<Rightarrow> unicode" where
  "bold s = uni ''<b>'' @ uni s @ uni ''</b>''"

definition in_code :: "unicode \<Rightarrow> unicode" where
  "in_code t = uni ''<code>'' @ t @ uni ''</code>''"

text \<open>\<^verbatim>\<open>if metadata.get(key): lines.append(...)\<close>\<close>

definition when_truthy :: "json \<Rightarrow> (json \<Rightarrow> unicode) \<Rightarrow> unicode list" where
  "when_truthy j f = (if truthy j then [f j] else [])"

definition when_text :: "string option \<Rightarrow> (string \<Rightarrow> unicode) \<Rightarrow> unicode list" where
  "when_text s f = (if truthy_opt s then [f (the s)] else [])"

definition heading_lines :: "radar_event \<Rightarrow> chain_config \<Rightarrow> unicode list" where
  "heading_lines e chain =
     [bold ''WHITE RADAR'',
      severity_icon (ev_severity e) @ uni '' <b>'' @ safe_text (ev_title e) @ uni ''</b>'',
      uni ''Priority: <b>'' @ uni (int_str (ev_score e)) @ uni ''/100</b>'' @ middle_dot
        @ safe_text (upper (severity_value (ev_severity e))),
      uni ''Confidence: '' @ uni (percent (ev_confidence e)), [],
      bold ''Network:'' @ uni '' '' @ safe_text (cc_display_name chain) @ uni '' ('' @ uni (int_str (cc_chain_id chain)) @ uni '')'']
     @ (case ev_block_number e of None \<Rightarrow> [] | Some n \<Rightarrow> [bold ''Block:'' @ uni '' '' @ uni (grouped n)])
     @ when_text (ev_subject_address e) (\<lambda>s. bold ''Contract:'' @ uni '' '' @ in_code (safe_text s))
     @ when_text (ev_deployer_address e) (\<lambda>s.
         bold (if ev_event_type e = ''pending_watch'' then ''Sender:'' else ''Deployer:'') @ uni '' '' @ in_code (safe_text s))
     @ when_text (ev_tx_hash e) (\<lambda>s. bold ''Transaction:'' @ uni '' '' @ in_code (safe_text s))"

definition identity_lines :: "dict \<Rightarrow> unicode list" where
  "identity_lines m =
     when_truthy (dget m ''protocol'') (\<lambda>j. bold ''Protocol:'' @ uni '' '' @ safe j)
     @ when_truthy (dget m ''role'') (\<lambda>j. bold ''Role:'' @ uni '' '' @ safe j)
     @ when_truthy (dget m ''contract_name'') (\<lambda>j. bold ''Name:'' @ uni '' '' @ safe j)
     @ [bold ''Verification:'' @ uni '' '' @ safe (py_or (dget m ''verification_source'') (JStr ''not verified''))]"

definition size_lines :: "dict \<Rightarrow> unicode list res" where
  "size_lines m =
     and_then (if dget m ''bytecode_size'' = JNull then Inr []
               else and_then (py_int (dget m ''bytecode_size'')) (\<lambda>n. Inr [bold ''Runtime:'' @ uni '' '' @ uni (grouped n) @ uni '' bytes'']))
       (\<lambda>size. and_then (if \<not> truthy (dget m ''deployer_cluster_size'') then Inr []
               else and_then (py_int (dget m ''deployer_cluster_size''))
                 (\<lambda>n. Inr [bold ''Deployer cluster:'' @ uni '' '' @ uni (int_str n) @ uni '' contracts / 24h'']))
       (\<lambda>cluster. Inr (size @ cluster)))"

definition proxy_lines :: "dict \<Rightarrow> unicode list" where
  "proxy_lines m =
     (if truthy (dget m ''is_proxy'')
      then [bold ''Architecture:'' @ uni '' EIP-1967 proxy'']
           @ when_truthy (dget m ''implementation'') (\<lambda>j. bold ''Implementation:'' @ uni '' '' @ in_code (safe j))
      else [])"

definition call_lines :: "dict \<Rightarrow> unicode list" where
  "call_lines m =
     when_truthy (dget m ''selector'') (\<lambda>j. bold ''Selector:'' @ uni '' '' @ in_code (safe j))
     @ when_truthy (dget m ''function_signature'') (\<lambda>j. bold ''Function:'' @ uni '' '' @ in_code (safe j))
     @ (case dget m ''decoded_arguments'' of
          JObj (kv # d) \<Rightarrow> [bold ''Arguments:'' @ uni '' '' @ in_code (safe_text (take 300 (json_dumps (JObj (kv # d)))))]
        | _ \<Rightarrow> [])
     @ when_truthy (dget m ''abi_source'') (\<lambda>j. bold ''ABI source:'' @ uni '' '' @ safe j)
     @ (if dget m ''native_value_wei'' = JNull then []
        else [bold ''Native value:'' @ uni '' '' @ safe (dget m ''native_value_wei'') @ uni '' wei''])"

definition policy_lines :: "dict \<Rightarrow> unicode list res" where
  "policy_lines m =
     (if \<not> truthy (dget m ''policy_configured'') then Inr []
      else let baseline = bold ''Policy baseline:'' @ uni '' ''
                 @ safe_text (if truthy (dget m ''policy_baseline_match'') then ''MATCH'' else ''REVIEW'');
               findings = dget m ''policy_findings''
           in if \<not> truthy findings then Inr [baseline]
              else and_then (iterate findings) (\<lambda>xs. let codes = finding_codes xs in
                Inr (baseline # (if codes = [] then [] else [bold ''Policy findings:'' @ uni '' '' @ safe_text (join '', '' (take 5 codes))]))))"

definition count_of :: "dict \<Rightarrow> string \<Rightarrow> unicode" where
  "count_of trace k = safe (dget_or trace k (JInt 0))"

definition trace_lines :: "dict \<Rightarrow> unicode list" where
  "trace_lines t =
     [bold ''Call graph:'' @ uni '' '' @ count_of t ''call_count'' @ uni '' frames'' @ middle_dot @ uni ''depth ''
        @ count_of t ''max_depth'' @ middle_dot @ uni ''delegatecall '' @ count_of t ''delegatecall_count''
        @ middle_dot @ uni ''create '' @ count_of t ''create_count'',
      bold ''Runtime flags:'' @ uni '' value '' @ count_of t ''value_call_count'' @ middle_dot @ uni ''reverted ''
        @ count_of t ''reverted_call_count'' @ middle_dot @ uni ''selfdestruct '' @ count_of t ''selfdestruct_count'']"

definition simulation_lines :: "dict \<Rightarrow> unicode list" where
  "simulation_lines m =
     (case dget m ''simulation'' of
        JObj s \<Rightarrow>
          [bold ''Simulation:'' @ uni '' '' @ safe (dget_or s ''status'' (JStr ''unknown'')) @ uni '' at block ''
             @ safe (dget_or s ''block_number'' (JStr ''?''))]
          @ (case dget s ''trace'' of JObj t \<Rightarrow> trace_lines t | _ \<Rightarrow> [])
          @ (case dget s ''findings'' of
               JList xs \<Rightarrow> (let codes = finding_codes xs in
                 if codes = [] then [] else [bold ''Simulation findings:'' @ uni '' '' @ safe_text (join '', '' (take 5 codes))])
             | _ \<Rightarrow> [])
      | _ \<Rightarrow> [])"

definition invariant_lines :: "dict \<Rightarrow> unicode list" where
  "invariant_lines m =
     (case dget m ''invariant'' of
        JObj i \<Rightarrow>
          [bold ''Invariant:'' @ uni '' '' @ safe (dget_or i ''name'' (JStr ''unknown'')) @ middle_dot
             @ uni (upper (html_escape (py_str (dget_or i ''status'' (JStr ''unknown''))))),
           bold ''Observed:'' @ uni '' '' @ in_code (safe (dget i ''observed'')),
           bold ''Expectation:'' @ uni '' '' @ safe (dget_or i ''operator'' (JStr ''?'')) @ uni '' ''
             @ in_code (safe (dget i ''expected''))]
      | _ \<Rightarrow> [])"

definition snapshot_lines :: "dict \<Rightarrow> unicode list" where
  "snapshot_lines m =
     (case dget m ''proxy_snapshot'' of
        JObj p \<Rightarrow>
          if \<not> truthy (dget p ''effective_implementation'') then []
          else [bold ''Effective implementation:'' @ uni '' '' @ in_code (safe (dget p ''effective_implementation''))]
            @ when_truthy (dget p ''admin'') (\<lambda>j. bold ''Proxy admin:'' @ uni '' '' @ in_code (safe j))
            @ when_truthy (dget p ''beacon'') (\<lambda>j. bold ''Proxy beacon:'' @ uni '' '' @ in_code (safe j))
      | _ \<Rightarrow> [])"

definition related_line :: "dict \<Rightarrow> unicode" where
  "related_line d =
     bullet @ uni '' '' @ (if truthy (dget d ''contract_name'') then safe (dget d ''contract_name'')
               else short_address (py_str (dget_or d ''address'' (JStr []))))
     @ middle_dot @ uni ''block '' @ safe (dget_or d ''block_number'' (JStr ''?''))"

definition related_lines :: "dict \<Rightarrow> unicode list res" where
  "related_lines m =
     (if \<not> truthy (dget m ''related_contracts'') then Inr []
      else and_then (slice 5 (dget m ''related_contracts'')) (\<lambda>xs.
        Inr ([[], bold ''Related contracts from the same deployer''] @ map related_line (only_dicts xs))))"

definition reason_lines :: "radar_event \<Rightarrow> unicode list" where
  "reason_lines e =
     [[], bold ''Why this surfaced''] @ map (\<lambda>r. bullet @ uni '' '' @ safe_text r) (take 5 (ev_reasons e))"

definition closing_lines :: "radar_event \<Rightarrow> unicode list" where
  "closing_lines e =
     [[], bold ''Recommended action'', safe_text (ev_recommended_action e), [],
      uni ''Case ID: '' @ in_code (safe_text (ev_event_id e))]"

definition message_lines :: "radar_event \<Rightarrow> chain_config \<Rightarrow> unicode list res" where
  "message_lines e chain =
     (let m = ev_metadata e in
      and_then (size_lines m) (\<lambda>sizes. and_then (policy_lines m) (\<lambda>policy. and_then (related_lines m) (\<lambda>related.
        Inr (heading_lines e chain @ identity_lines m @ sizes @ proxy_lines m @ call_lines m @ policy @ simulation_lines m
             @ invariant_lines m @ snapshot_lines m @ reason_lines e @ related @ closing_lines e)))))"

definition render_event :: "radar_event \<Rightarrow> chain_config \<Rightarrow> unicode res" where
  "render_event e chain = and_then (message_lines e chain) (\<lambda>ls. Inr (take 4000 (join_lines ls)))"

section \<open>The request\<close>

record telegram_message =
  tm_chat_id :: string
  tm_text :: unicode
  tm_buttons :: "json list"

definition event_message :: "string \<Rightarrow> radar_event \<Rightarrow> chain_config \<Rightarrow> telegram_message res" where
  "event_message chat_id e chain =
     and_then (render_event e chain) (\<lambda>t. Inr \<lparr> tm_chat_id = chat_id, tm_text = t, tm_buttons = event_buttons e chain \<rparr>)"

text \<open>The \<open>tn_post\<close> of a notifier, from what the service answers to a message.\<close>

definition event_post :: "(telegram_message \<Rightarrow> json res) \<Rightarrow> string \<Rightarrow> unicode + (radar_event \<times> chain_config) \<Rightarrow> json res" where
  "event_post request chat_id what =
     (case what of
        Inl digest \<Rightarrow> request \<lparr> tm_chat_id = chat_id, tm_text = digest, tm_buttons = [] \<rparr>
      | Inr (e, chain) \<Rightarrow> and_then (event_message chat_id e chain) request)"

end
