(* ===== verification/Telegram_Properties.thy ===== *)
theory Telegram_Properties
  imports Telegram_Text Call_Graph
begin

text \<open>
  The markup of the messages of \<^verbatim>\<open>src/white_radar/telegram.py\<close>: what Telegram's parser makes of a text
  in the tags \<^verbatim>\<open>b\<close> and \<^verbatim>\<open>code\<close>, that no value in an event disturbs it, and what cutting the text at
  4000 characters does to it.
\<close>

section \<open>The parser of tags\<close>

definition opens :: "string \<Rightarrow> unicode \<Rightarrow> bool" where
  "opens p t \<longleftrightarrow> take (length p) t = uni p"

text \<open>The elements still open at the end, or nothing where the service rejects the text.\<close>

fun scan_tags :: "string list \<Rightarrow> unicode \<Rightarrow> string list option" where
  "scan_tags st [] = Some st"
| "scan_tags st (c # cs) =
     (if c \<noteq> 60 then scan_tags st cs
      else if opens ''b>'' cs then scan_tags (''b'' # st) (drop 2 cs)
      else if opens ''code>'' cs then scan_tags (''code'' # st) (drop 5 cs)
      else if opens ''/b>'' cs then (if take 1 st = [''b''] then scan_tags (drop 1 st) (drop 3 cs) else None)
      else if opens ''/code>'' cs then (if take 1 st = [''code''] then scan_tags (drop 1 st) (drop 6 cs) else None)
      else None)"

text \<open>A text that leaves the open elements as they are.\<close>

definition balanced :: "unicode \<Rightarrow> bool" where
  "balanced l \<longleftrightarrow> (\<forall>st t. scan_tags st (l @ t) = scan_tags st t)"

named_theorems markup \<open>balanced pieces of a message\<close>

lemma balanced_Nil [markup]: "balanced []"
  by (simp add: balanced_def)

lemma balanced_append [markup]: "balanced x \<Longrightarrow> balanced y \<Longrightarrow> balanced (x @ y)"
  by (simp add: balanced_def)

lemma scan_plain: "60 \<notin> set l \<Longrightarrow> scan_tags st (l @ t) = scan_tags st t"
  by (induction l) auto

lemma balanced_plain: "60 \<notin> set l \<Longrightarrow> balanced l"
  by (simp add: balanced_def scan_plain)

lemma in_uni: "60 \<in> set (uni s) \<longleftrightarrow> CHR ''<'' \<in> set s"
proof -
  have "code_pt (CHR ''<'') = 60" by (simp add: code_pt_def)
  then show ?thesis using in_set_uni[of "CHR ''<''" s] by (simp only:)
qed

lemma balanced_text: "CHR ''<'' \<notin> set s \<Longrightarrow> balanced (uni s)"
  by (rule balanced_plain) (simp add: in_uni)

lemma balanced_safe [markup]: "balanced (safe_text s)" "balanced (safe j)"
  unfolding safe_text_def safe_def using html_escape_inert by (intro balanced_text; blast)+

lemma balanced_bold_element: "balanced x \<Longrightarrow> balanced (uni ''<b>'' @ x @ uni ''</b>'')"
  by (simp add: balanced_def opens_def code_pt_def)

lemma balanced_in_code [markup]: "balanced x \<Longrightarrow> balanced (in_code x)"
  by (simp add: balanced_def in_code_def opens_def code_pt_def)

lemma balanced_bold [markup]: "CHR ''<'' \<notin> set s \<Longrightarrow> balanced (bold s)"
  unfolding bold_def by (intro balanced_bold_element balanced_text)

lemma balanced_join: "list_all balanced ls \<Longrightarrow> balanced (join_lines ls)"
  by (induction ls rule: join_lines.induct) (auto intro!: markup simp: balanced_plain balanced_def)

text \<open>Numbers hold no bracket.\<close>

lemma nat_str_chars: "c \<in> set (nat_str n) \<Longrightarrow> c \<in> set ''0123456789''"
proof -
  assume "c \<in> set (nat_str n)"
  moreover obtain ds where "nat_str n = map digit_char ds" "\<forall>d \<in> set ds. d < 10" using nat_str_digits[of n] by blast
  ultimately obtain d where "d < 10" "c = digit_char d" by auto
  moreover have "\<forall>d < 10. digit_char d \<in> set ''0123456789''" by code_simp
  ultimately show ?thesis by blast
qed

lemma group3_chars: "c \<in> set (group3 s) \<Longrightarrow> c \<in> set s \<or> c = CHR '',''"
  by (induction s rule: group3.induct) auto

lemma balanced_numbers [markup]:
  "balanced (uni (nat_str n))" "balanced (uni (int_str i))" "balanced (uni (grouped i))" "balanced (uni (percent q))"
proof -
  have d: "CHR ''<'' \<notin> set (nat_str n)" for n using nat_str_chars[of "CHR ''<''" n] by auto
  show "balanced (uni (nat_str n))" by (rule balanced_text) (rule d)
  show "balanced (uni (int_str i))" by (rule balanced_text) (simp add: int_str_def d)
  show "balanced (uni (grouped i))"
    by (rule balanced_text) (use group3_chars[of "CHR ''<''" "rev (nat_str (nat \<bar>i\<bar>))"] d in \<open>auto simp: grouped_def\<close>)
  show "balanced (uni (percent q))" by (rule balanced_text) (simp add: percent_def d split: prod.splits)
qed

lemma upper_keeps:
  assumes "d \<in> set (upper s)" "code_pt d < 65"
  shows "d \<in> set s"
proof -
  have "c = d" if d: "d \<in> set (upper_char c)" for c
  proof -
    have "code_pt c < 256" unfolding code_pt_def by (metis of_char_mod_256 mod_less_divisor zero_less_numeral)
    then have "code_pt (char_of (code_pt c - 32)) = code_pt c - 32" by (simp add: code_pt_def less_imp_diff_less)
    moreover have "code_pt (CHR ''S'') = 83" by (simp add: code_pt_def)
    moreover have "d = CHR ''S'' \<or> d = char_of (code_pt c - 32) \<and> 97 \<le> code_pt c \<or> d = c"
      using d by (auto simp: upper_char_def Let_def split: if_splits)
    ultimately show ?thesis using assms(2) by (elim disjE conjE) simp_all
  qed
  with assms(1) show ?thesis by (auto simp: upper_def)
qed

lemma balanced_upper [markup]: "balanced (uni (upper (html_escape s)))"
proof (rule balanced_text)
  have "code_pt (CHR ''<'') < 65" by (simp add: code_pt_def)
  from upper_keeps[OF _ this, of "html_escape s"] html_escape_inert[of s]
  show "CHR ''<'' \<notin> set (upper (html_escape s))" by blast
qed

section \<open>The lines of a message\<close>

lemma balanced_marks [markup]:
  "balanced bullet" "balanced ellipsis" "balanced middle_dot" "balanced (severity_icon sev)"
  by (auto intro!: balanced_plain simp: bullet_def ellipsis_def middle_dot_def severity_icon_def split: severity.splits)

lemma balanced_Cons [markup]: "c \<noteq> 60 \<Longrightarrow> balanced l \<Longrightarrow> balanced (c # l)"
  by (simp add: balanced_def)

text \<open>The two bold elements that hold a value, as the simplifier leaves them.\<close>

lemma balanced_title [markup]: "balanced x \<Longrightarrow> balanced (60 # 98 # 62 # x @ [60, 47, 98, 62])"
  using balanced_bold_element[of x] by (simp add: code_pt_def)

lemma balanced_score [markup]: "balanced x \<Longrightarrow> balanced y \<Longrightarrow> balanced (60 # 98 # 62 # x @ 47 # 49 # 48 # 48 # 60 # 47 # 98 # 62 # y)"
proof -
  assume x: "balanced x" and y: "balanced y"
  have "balanced (x @ [47, 49, 48, 48])" using x by (intro markup) simp_all
  from balanced_append[OF balanced_title[OF this] y] show ?thesis by simp
qed

lemma all_when [intro]:
  "(\<And>j. balanced (f j)) \<Longrightarrow> list_all balanced (when_truthy x f)"
  "(\<And>t. balanced (g t)) \<Longrightarrow> list_all balanced (when_text y g)"
  by (simp_all add: when_truthy_def when_text_def)

lemma balanced_short: "balanced (short_address s)"
  unfolding short_address_def by (auto intro!: markup)

lemma heading_balanced: "list_all balanced (heading_lines e chain)"
proof -
  show ?thesis unfolding heading_lines_def list_all_append
    by (intro conjI all_when) (auto intro!: markup simp: code_pt_def split: option.split)
qed

lemma identity_balanced: "list_all balanced (identity_lines m)"
  unfolding identity_lines_def list_all_append by (intro conjI all_when) (auto intro!: markup simp: code_pt_def)

lemma size_balanced: "size_lines m = Inr ls \<Longrightarrow> list_all balanced ls"
  by (auto simp: size_lines_def and_then_eq_Inr code_pt_def intro!: markup split: if_splits)

lemma proxy_balanced: "list_all balanced (proxy_lines m)"
  unfolding proxy_lines_def when_truthy_def by (auto intro!: markup simp: code_pt_def)

lemma call_balanced: "list_all balanced (call_lines m)"
  unfolding call_lines_def list_all_append
  by (intro conjI all_when) (auto intro!: markup simp: code_pt_def split: json.split list.split)

lemma policy_balanced: "policy_lines m = Inr ls \<Longrightarrow> list_all balanced ls"
  by (auto simp: policy_lines_def and_then_eq_Inr Let_def code_pt_def intro!: markup split: if_splits)

lemma trace_balanced: "list_all balanced (trace_lines t)"
  unfolding trace_lines_def count_of_def by (auto intro!: markup simp: code_pt_def)

lemma simulation_balanced: "list_all balanced (simulation_lines m)"
  unfolding simulation_lines_def Let_def
  by (auto intro!: markup simp: code_pt_def trace_balanced split: json.split)

lemma invariant_balanced: "list_all balanced (invariant_lines m)"
  unfolding invariant_lines_def by (auto intro!: markup simp: code_pt_def split: json.split)

lemma snapshot_balanced: "list_all balanced (snapshot_lines m)"
  unfolding snapshot_lines_def when_truthy_def by (auto intro!: markup simp: code_pt_def split: json.split)

lemma related_balanced: "related_lines m = Inr ls \<Longrightarrow> list_all balanced ls"
  by (auto simp: related_lines_def related_line_def and_then_eq_Inr code_pt_def list_all_iff
      intro!: markup balanced_short split: if_splits)

lemma reasons_balanced: "list_all balanced (reason_lines e)"
  by (auto simp: reason_lines_def code_pt_def list_all_iff intro!: markup)

lemma closing_balanced: "list_all balanced (closing_lines e)"
  by (auto simp: closing_lines_def code_pt_def list_all_iff intro!: markup)

lemma message_balanced: "message_lines e chain = Inr ls \<Longrightarrow> list_all balanced ls"
  by (auto simp: message_lines_def and_then_eq_Inr Let_def heading_balanced identity_balanced size_balanced proxy_balanced
      call_balanced policy_balanced simulation_balanced invariant_balanced snapshot_balanced related_balanced
      reasons_balanced closing_balanced)

section \<open>Cutting the text\<close>

lemma join_lines_append: "xs \<noteq> [] \<Longrightarrow> ys \<noteq> [] \<Longrightarrow> join_lines (xs @ ys) = join_lines xs @ [10] @ join_lines ys"
proof (induction xs rule: join_lines.induct)
  case (2 l)
  then show ?case by (cases ys) auto
qed auto

lemma length_join_lines: "ls \<noteq> [] \<Longrightarrow> length (join_lines ls) + 1 = sum_list (map length ls) + length ls"
  by (induction ls rule: join_lines.induct) auto

text \<open>What is left of an element \<^verbatim>\<open>code\<close> when its end is cut off.\<close>

lemma scan_cut_element:
  assumes "60 \<notin> set x" "m < length x + 7"
  shows "scan_tags [''code''] (take m (x @ uni ''</code>'')) \<noteq> Some []"
proof (cases "m \<le> length x")
  case True
  then have "60 \<notin> set (take m x)" using assms(1) by (meson in_set_takeD)
  then show ?thesis using True scan_plain[of "take m x" "[''code'']" "[]"] by simp
next
  case False
  then obtain n where n: "m = length x + n" "n < 7" using assms(2) by (metis le_add_diff_inverse nat_le_linear nat_add_left_cancel_less)
  have "\<forall>n < 7. scan_tags [''code''] (take n (uni ''</code>'')) \<noteq> Some []"
    by (simp add: code_pt_def opens_def All_less_Suc numeral_eq_Suc)
  then show ?thesis using n scan_plain[OF assms(1), of "[''code'']" "take n (uni ''</code>'')"] by simp
qed

lemma escaped_no_bracket: "60 \<notin> set (safe_text s)"
  unfolding safe_text_def in_uni using html_escape_inert by blast

lemma message_closing:
  assumes "message_lines e chain = Inr ls"
  obtains pre where "ls = pre @ [uni ''Case ID: '' @ in_code (safe_text (ev_event_id e))]" "pre \<noteq> []" "list_all balanced pre"
proof -
  from assms obtain a where "ls = a @ closing_lines e" by (auto simp: message_lines_def and_then_eq_Inr Let_def)
  then have "ls = (a @ butlast (closing_lines e)) @ [uni ''Case ID: '' @ in_code (safe_text (ev_event_id e))]"
    "a @ butlast (closing_lines e) \<noteq> []" by (simp_all add: closing_lines_def)
  with message_balanced[OF assms] show thesis by (intro that) auto
qed

section \<open>An example\<close>

definition sample_chain :: chain_config where
  "sample_chain = \<lparr> cc_name = ''base'', cc_display_name = ''Base'', cc_chain_id = 8453, cc_enabled = True, cc_is_testnet = False,
     cc_rpc_http_env = [], cc_rpc_ws_env = [], cc_explorer_url = ''e'', cc_confirmations = 3, cc_initial_lookback_blocks = 1,
     cc_max_blocks_per_cycle = 1, cc_monitor_global_upgrades = False, cc_pending_subscription = [],
     cc_trace_internal_creations = False, cc_rpc_http_fallback_envs = [], cc_rpc_ws_fallback_envs = [] \<rparr>"

definition sample_event :: "nat \<Rightarrow> radar_event" where
  "sample_event r = \<lparr> ev_event_id = ''0123456789abcdef'', ev_observed_at = ''t'', ev_event_type = ''deployment'', ev_title = ''T'',
     ev_summary = ''s'', ev_chain = ''base'', ev_chain_id = 8453, ev_score = 90, ev_severity = CRITICAL, ev_confidence = 1,
     ev_reasons = [], ev_recommended_action = replicate r (CHR ''x''), ev_subject_address = None, ev_deployer_address = None,
     ev_tx_hash = None, ev_block_number = None, ev_evidence = [], ev_metadata = [] \<rparr>"

lemma sample_lines: "\<exists>pre. \<forall>r. message_lines (sample_event r) sample_chain = Inr (pre @ closing_lines (sample_event r))"
proof (intro exI allI)
  let ?e = "sample_event 0"
  show "message_lines (sample_event r) sample_chain = Inr ((heading_lines ?e sample_chain @ identity_lines [] @ proxy_lines []
      @ call_lines [] @ simulation_lines [] @ invariant_lines [] @ snapshot_lines [] @ reason_lines ?e) @ closing_lines (sample_event r))" for r
    by (simp add: message_lines_def size_lines_def policy_lines_def related_lines_def heading_lines_def reason_lines_def
        sample_event_def dget_def and_then_def Let_def)
qed

lemma sample_lengths:
  "map_sum id (\<lambda>ls. (sum_list (map length ls), length ls)) (message_lines (sample_event 0) sample_chain) = Inr (225, 14)"
  by code_simp

lemma sample_length:
  assumes "message_lines (sample_event r) sample_chain = Inr ls"
  shows "length (join_lines ls) = 238 + r"
proof -
  from sample_lines obtain pre where
    p: "message_lines (sample_event r) sample_chain = Inr (pre @ closing_lines (sample_event r))" for r by blast
  have x: "html_escape (replicate r (CHR ''x'')) = replicate r (CHR ''x'')" for r
    by (induction r) (simp_all add: escape_char_def double_quote_def single_quote_def)
  have c: "sum_list (map length (closing_lines (sample_event r))) = sum_list (map length (closing_lines (sample_event 0))) + r"
    "length (closing_lines (sample_event r)) = length (closing_lines (sample_event 0))"
    by (simp_all add: closing_lines_def sample_event_def safe_text_def uni_def x)
  have "ls = pre @ closing_lines (sample_event r)" using assms p[of r] by simp
  moreover from this have "ls \<noteq> []" by (simp add: closing_lines_def)
  ultimately show ?thesis using length_join_lines[of ls] sample_lengths p[of 0] c by simp
qed

section \<open>Properties\<close>

text \<open>C16. No value of an event can break the markup of its message: whatever the metadata and the texts
  hold, Telegram's parser finds every tag of the rendered lines opened and closed in order. The
  message is at most 4000 characters, and one that was not cut is accepted.
\<close>

theorem message_markup:
  assumes "message_lines e chain = Inr ls"
  shows "\<exists>t. render_event e chain = Inr t \<and> length t \<le> 4000 \<and> scan_tags [] (join_lines ls) = Some []
     \<and> (length (join_lines ls) \<le> 4000 \<longrightarrow> t = join_lines ls)"
proof -
  have "balanced (join_lines ls)" by (rule balanced_join[OF message_balanced[OF assms]])
  then have "scan_tags [] (join_lines ls @ []) = scan_tags [] []" unfolding balanced_def by blast
  then show ?thesis using assms by (simp add: render_event_def)
qed

theorem message_markup_witness: "\<exists>t. render_event (sample_event 0) sample_chain = Inr t \<and> scan_tags [] t = Some [] \<and> length t = 238"
proof -
  obtain ls where l: "message_lines (sample_event 0) sample_chain = Inr ls" using sample_lines by blast
  from message_markup[OF l] sample_length[OF l] show ?thesis by auto
qed

text \<open>C39. The cut at 4000 characters does not look where it cuts. A message whose text passes that
  length inside its last element (the case identifier) is rendered with the element left open:
  its tags are not closed. (The service rejects such a message, so \<^verbatim>\<open>send\<close> raises.)
\<close>

theorem cut_message_broken:
  assumes "message_lines e chain = Inr ls"
    and "4000 < length (join_lines ls)" and "length (join_lines ls) \<le> 4007 + length (safe_text (ev_event_id e))"
  shows "\<exists>t. render_event e chain = Inr t \<and> scan_tags [] t \<noteq> Some []"
proof -
  let ?id = "safe_text (ev_event_id e)"
  from message_closing[OF assms(1)] obtain pre where
    ls: "ls = pre @ [uni ''Case ID: '' @ in_code ?id]" and pre: "pre \<noteq> []" "list_all balanced pre" by blast
  define front where "front = join_lines pre @ [10] @ uni ''Case ID: ''"
  have b: "balanced front" unfolding front_def
    by (intro balanced_append balanced_join pre) (simp_all add: balanced_plain code_pt_def)
  have j: "join_lines ls = (front @ uni ''<code>'') @ (?id @ uni ''</code>'')"
    unfolding ls front_def using join_lines_append[OF pre(1), of "[uni ''Case ID: '' @ in_code ?id]"] by (simp add: in_code_def)
  have n: "length front + 6 \<le> 4000" "4000 - (length front + 6) < length ?id + 7" using assms(2,3) unfolding j by (simp_all add: uni_def)
  have t: "take 4000 (join_lines ls) = front @ uni ''<code>'' @ take (4000 - (length front + 6)) (?id @ uni ''</code>'')"
    unfolding j take_append using n(1) by (simp add: uni_def)
  have "scan_tags [] (take 4000 (join_lines ls)) = scan_tags [''code''] (take (4000 - (length front + 6)) (?id @ uni ''</code>''))"
    unfolding t using b by (simp add: balanced_def opens_def code_pt_def)
  also have "\<dots> \<noteq> Some []" by (rule scan_cut_element[OF escaped_no_bracket n(2)])
  finally show ?thesis using assms(1) by (simp add: render_event_def)
qed

theorem cut_message_broken_witness: "\<exists>t. render_event (sample_event 3770) sample_chain = Inr t \<and> scan_tags [] t \<noteq> Some []"
proof -
  obtain ls where l: "message_lines (sample_event 3770) sample_chain = Inr ls" using sample_lines by blast
  have "length (safe_text (ev_event_id (sample_event 3770))) = 16"
    by (simp add: sample_event_def safe_text_def uni_def escape_char_def double_quote_def single_quote_def)
  with cut_message_broken[OF l] sample_length[OF l] show ?thesis by simp
qed

end
