(* ===== verification/Reporting.thy ===== *)
theory Reporting
  imports Telegram_Text Case_Report
begin

text \<open>
  \<^verbatim>\<open>src/white_radar/reporting.py\<close>: the Markdown report of one event, with the identity neighborhood and
  the incident of the store, and the digest for Telegram. Of a similarity, a float between 0 and 1
  that the store keeps in ten-thousandths, the text with one decimal is a parameter.
\<close>

section \<open>The report of an event\<close>

abbreviation brief :: "string \<Rightarrow> string" where
  "brief \<equiv> plain 500"

definition event_heading :: "radar_event \<Rightarrow> chain_config \<Rightarrow> string list" where
  "event_heading e chain =
     [''# White Radar case '' @ brief (ev_event_id e), [],
      ''> Status: security signal awaiting evidence-based disposition.'', [],
      ''## Executive summary'', [], brief (ev_summary e), [],
      ''## Classification'', [],
      ''- Event type: '' @ ticked (brief (ev_event_type e)),
      ''- Priority: **'' @ int_str (ev_score e) @ ''/100 ('' @ upper (severity_value (ev_severity e)) @ '')**'',
      ''- Evidence confidence: **'' @ percent (ev_confidence e) @ ''**'',
      ''- Observed at: '' @ ticked (brief (ev_observed_at e)),
      ''- Network: **'' @ brief (cc_display_name chain) @ ''** ('' @ ticked (int_str (cc_chain_id chain)) @ '')'']
     @ (case ev_block_number e of None \<Rightarrow> [] | Some n \<Rightarrow> [''- Block: '' @ ticked (int_str n)])
     @ (if truthy_opt (ev_subject_address e) then [''- Subject: '' @ ticked (brief (the (ev_subject_address e)))] else [])
     @ (if truthy_opt (ev_deployer_address e)
        then [''- Deployer or sender: '' @ ticked (brief (the (ev_deployer_address e)))] else [])
     @ (if truthy_opt (ev_tx_hash e) then [''- Transaction: '' @ ticked (brief (the (ev_tx_hash e)))] else [])"

definition workflow_lines :: "incident_record option \<Rightarrow> string list" where
  "workflow_lines incident =
     (case incident of None \<Rightarrow> []
      | Some i \<Rightarrow>
          [[], ''## Incident workflow'', [],
           ''- Incident ID: '' @ ticked (brief (in_incident_id i)),
           ''- Status: **'' @ upper (status_value (in_status i)) @ ''**'',
           ''- Acknowledgement deadline: '' @ ticked (brief (in_due_at i)),
           ''- Owner: '' @ ticked (brief (text_or (in_owner i) ''unassigned''))])"

definition response_lines :: "radar_event \<Rightarrow> string list" where
  "response_lines e =
     [[], ''## Why this case surfaced'', []] @ map (\<lambda>r. ''- '' @ brief r) (ev_reasons e)
     @ [[], ''## Recommended response'', [], plain 1500 (ev_recommended_action e), [], ''## Evidence'', []]
     @ (if ev_evidence e = [] then [''- No external evidence links were recorded.'']
        else map (\<lambda>(label, url). ''- ['' @ brief label @ '']('' @ plain 1000 (py_str url) @ '')'') (sort_key fst (ev_evidence e)))"

definition context_fields :: "string list" where
  "context_fields =
     [''protocol'', ''role'', ''contract_name'', ''verification_source'', ''bytecode_size'', ''normalized_bytecode_sha256'',
      ''creation_type'', ''trace_depth'', ''is_proxy'', ''implementation'', ''admin'', ''beacon'', ''selector'',
      ''function_signature'', ''decoded_arguments'', ''abi_sha256'', ''native_value_wei'', ''calldata_size_bytes'', ''simulation'',
      ''invariant'', ''proxy_snapshot'', ''changes'']"

definition blank_value :: "json \<Rightarrow> bool" where
  "blank_value j \<longleftrightarrow> j = JNull \<or> j = JStr [] \<or> j = JList []"

definition context_lines :: "dict \<Rightarrow> string list" where
  "context_lines m =
     (let recorded = filter (\<lambda>f. \<not> blank_value (dget m f)) context_fields in
      [[], ''## Technical context'', []]
      @ (if recorded = [] then [''- No additional technical context was recorded.'']
         else map (\<lambda>f. ''- '' @ ticked f @ '': '' @ ticked (plain 1000 (py_str (dget m f)))) recorded))"

definition similarity_line :: "(json \<Rightarrow> string res) \<Rightarrow> dict \<Rightarrow> unicode res" where
  "similarity_line fmt d =
     and_then (fmt (dget_or d ''similarity'' (JInt 0))) (\<lambda>share. Inr
       (uni (''- '' @ ticked (brief (py_str (dget_or d ''address'' (JStr ''unknown'')))) @ '' '') @ em_dash
        @ uni ('' similarity '' @ share
            @ (if truthy (dget d ''exact_normalized_match'') then '' (exact normalized match)'' else []))))"

definition similarity_lines :: "(json \<Rightarrow> string res) \<Rightarrow> dict \<Rightarrow> unicode list res" where
  "similarity_lines fmt m =
     (case dget m ''similar_contracts'' of
        JList (x # xs) \<Rightarrow> and_then (traverse (similarity_line fmt) (only_dicts (take 8 (x # xs))))
          (\<lambda>ls. Inr (map uni [[], ''## Bytecode similarity'', []] @ ls))
      | _ \<Rightarrow> Inr [])"

definition node_label :: "node_row \<Rightarrow> string" where
  "node_label n = plain 200 (text_or (first_of (no_label n) (Some (no_value n))) (no_node_id n))"

text \<open>\<^verbatim>\<open>node_labels.get(id, _plain(id))\<close>\<close>

definition label_of_node :: "node_row list \<Rightarrow> string \<Rightarrow> string" where
  "label_of_node nodes i =
     (case map_of (rev (map (\<lambda>n. (no_node_id n, node_label n)) nodes)) i of None \<Rightarrow> brief i | Some l \<Rightarrow> l)"

definition neighbor_line :: "node_row list \<Rightarrow> edge_row \<Rightarrow> unicode" where
  "neighbor_line nodes e =
     uni (''- '' @ ticked (label_of_node nodes (ed_source e)) @ '' '') @ em_dash @ uni ('' **'' @ brief (ed_relation e) @ ''** '')
     @ right_arrow @ uni ('' '' @ ticked (label_of_node nodes (ed_target e)))"

definition neighborhood_lines :: "(node_row list \<times> edge_row list) option \<Rightarrow> unicode list" where
  "neighborhood_lines graph =
     (case graph of None \<Rightarrow> []
      | Some (nodes, edges) \<Rightarrow>
          if nodes = [] then []
          else map uni
                 [[], ''## Identity neighborhood'', [],
                  ''- Nodes: '' @ nat_str (length nodes),
                  ''- Evidence-backed relationships: '' @ nat_str (length edges)]
               @ map (neighbor_line nodes) (take 20 edges))"

definition checklist :: "string list" where
  "checklist =
     [[], ''## Incident response checklist'', [],
      ''- [ ] Validate the signal against an independent RPC source.'',
      ''- [ ] Correlate governance, deployment, and protocol change records.'',
      ''- [ ] Preserve the pinned block, transaction, policy digest, and relevant hashes.'',
      ''- [ ] Assign an incident owner and acknowledgement deadline.'',
      ''- [ ] Route confirmed findings through the configured response contact.'',
      ''- [ ] Record the final disposition and recovery evidence.'', [],
      ''Generated by White Radar.'']"

definition incident_report_lines ::
  "(json \<Rightarrow> string res) \<Rightarrow> radar_event \<Rightarrow> chain_config \<Rightarrow> (node_row list \<times> edge_row list) option
     \<Rightarrow> incident_record option \<Rightarrow> unicode list res" where
  "incident_report_lines fmt e chain graph incident =
     and_then (similarity_lines fmt (ev_metadata e)) (\<lambda>similar. Inr
       (map uni (event_heading e chain @ workflow_lines incident @ response_lines e @ context_lines (ev_metadata e))
        @ similar @ neighborhood_lines graph @ map uni checklist))"

definition render_incident_report ::
  "(json \<Rightarrow> string res) \<Rightarrow> radar_event \<Rightarrow> chain_config \<Rightarrow> (node_row list \<times> edge_row list) option
     \<Rightarrow> incident_record option \<Rightarrow> unicode res" where
  "render_incident_report fmt e chain graph incident =
     and_then (incident_report_lines fmt e chain graph incident) (\<lambda>ls. Inr (join_lines ls @ [10]))"

section \<open>The digest\<close>

text \<open>\<^verbatim>\<open>Counter(xs).most_common()\<close>: by count, first seen first among equals.\<close>

definition most_common :: "string list \<Rightarrow> (string \<times> nat) list" where
  "most_common xs =
     (let counted = map (\<lambda>x. (x, length (filter (\<lambda>y. y = x) xs))) (fromkeys xs) in
      rev (sort_key snd (rev counted)))"

definition counted :: "string list \<Rightarrow> string \<Rightarrow> nat" where
  "counted xs x = length (filter (\<lambda>y. y = x) xs)"

definition digest_heading :: "radar_event list \<Rightarrow> int \<Rightarrow> unicode list" where
  "digest_heading events hours =
     (let severities = map (severity_value o ev_severity) events; n = uni o nat_str o counted severities in
      [bold ''WHITE RADAR DIGEST'',
       uni ''Window: last '' @ uni (int_str (max 1 hours)) @ uni ''h'',
       uni ''Cases: <b>'' @ uni (nat_str (length events)) @ uni ''</b>'', [],
       bold ''Severity'',
       uni ''Critical '' @ n ''critical'' @ middle_dot @ uni ''High '' @ n ''high'' @ middle_dot @ uni ''Medium '' @ n ''medium''
         @ middle_dot @ uni ''Low '' @ n ''low'' @ middle_dot @ uni ''Info '' @ n ''informational''])"

definition open_incident_status :: "incident_status \<Rightarrow> bool" where
  "open_incident_status s \<longleftrightarrow> status_value s \<in> {''new'', ''acknowledged'', ''investigating'', ''monitoring''}"

definition digest_incidents :: "incident_record list option \<Rightarrow> string list \<Rightarrow> unicode list" where
  "digest_incidents incidents overdue =
     (case incidents of None \<Rightarrow> []
      | Some is' \<Rightarrow>
          [[], bold ''Incident workflow'',
           uni ''Open '' @ uni (nat_str (length (filter (\<lambda>i. open_incident_status (in_status i)) is'))) @ middle_dot
             @ uni ''Overdue '' @ uni (nat_str (length (remdups overdue)))])"

definition digest_networks :: "(string \<times> chain_config) list \<Rightarrow> radar_event list \<Rightarrow> unicode list" where
  "digest_networks known events =
     (if events = [] then []
      else [[], bold ''Networks'']
           @ map (\<lambda>(name, n). bullet @ uni '' ''
                @ safe_text (case map_of known name of None \<Rightarrow> name | Some c \<Rightarrow> cc_display_name c) @ uni '': '' @ uni (nat_str n))
             (most_common (map ev_chain events)))"

definition digest_signals :: "radar_event list \<Rightarrow> unicode list" where
  "digest_signals events =
     (if events = [] then []
      else [[], bold ''Signals'']
           @ map (\<lambda>(name, n). bullet @ uni '' '' @ safe_text name @ uni '': '' @ uni (nat_str n))
             (most_common (map ev_event_type events)))"

definition group_protocol :: "telemetry_group \<Rightarrow> string" where
  "group_protocol g = (case tg_key g of (c, a, s, p) \<Rightarrow> if p = [] then ''unlabeled'' else p)"

definition group_selector :: "telemetry_group \<Rightarrow> string" where
  "group_selector g = (case tg_key g of (c, a, s, p) \<Rightarrow> if s = [] then ''0x'' else s)"

definition digest_telemetry :: "telemetry_group list \<Rightarrow> unicode list" where
  "digest_telemetry groups =
     (if groups = [] then []
      else [[], bold ''Aggregated pending telemetry'',
            uni ''Routine observations '' @ uni (nat_str (sum_list (map tg_observation_count groups))) @ middle_dot
              @ uni ''groups '' @ uni (nat_str (length groups))]
           @ map (\<lambda>g. bullet @ uni '' '' @ safe_text (group_protocol g) @ middle_dot @ in_code (safe_text (group_selector g))
                @ uni '': '' @ uni (nat_str (tg_observation_count g))) (take 5 groups))"

text \<open>\<^verbatim>\<open>sorted(..., reverse=True)\<close> keeps the order of equals.\<close>

definition top_cases :: "radar_event list \<Rightarrow> radar_event list" where
  "top_cases events = take 8 (rev (sort_key (\<lambda>e. (ev_score e, ev_observed_at e)) (rev events)))"

definition digest_case :: "radar_event \<Rightarrow> unicode" where
  "digest_case e =
     bullet @ uni '' '' @ uni ''<b>'' @ uni (int_str (ev_score e)) @ uni ''/100</b>'' @ uni '' '' @ safe_text (ev_title e) @ middle_dot
     @ in_code (safe_text (text_or (first_of (ev_subject_address e) (ev_tx_hash e)) ''no subject'')) @ middle_dot
     @ uni ''case '' @ in_code (safe_text (ev_event_id e))"

definition digest_cases :: "radar_event list \<Rightarrow> unicode list" where
  "digest_cases events =
     (if events = [] then [[], uni ''No cases were recorded in this window.'']
      else [[], bold ''Highest priority cases''] @ map digest_case (top_cases events))"

definition digest_lines ::
  "radar_event list \<Rightarrow> (string \<times> chain_config) list \<Rightarrow> int \<Rightarrow> incident_record list option \<Rightarrow> string list
     \<Rightarrow> telemetry_group list \<Rightarrow> unicode list" where
  "digest_lines events known hours incidents overdue groups =
     digest_heading events hours @ digest_incidents incidents overdue @ digest_networks known events @ digest_signals events
     @ digest_telemetry groups @ digest_cases events
     @ [[], uni ''Priority reflects configured evidence and analysis signals.'']"

definition render_digest ::
  "radar_event list \<Rightarrow> (string \<times> chain_config) list \<Rightarrow> int \<Rightarrow> incident_record list option \<Rightarrow> string list
     \<Rightarrow> telemetry_group list \<Rightarrow> unicode" where
  "render_digest events known hours incidents overdue groups =
     take 4000 (join_lines (digest_lines events known hours incidents overdue groups))"

end
