(* ===== verification/Report_Properties.thy ===== *)
theory Report_Properties
  imports Reporting Telegram_Properties
begin

text \<open>
  What the reports of \<^verbatim>\<open>src/white_radar/reporting.py\<close> and \<^verbatim>\<open>case_bundle.py\<close> keep of a text they did not
  write: it stays on its line, so it cannot add a section.
\<close>

section \<open>The headings of a document\<close>

fun split_lines :: "unicode \<Rightarrow> unicode list" where
  "split_lines [] = [[]]"
| "split_lines (c # cs) =
     (if c = 10 then [] # split_lines cs else case split_lines cs of [] \<Rightarrow> [[c]] | l # ls \<Rightarrow> (c # l) # ls)"

definition heading :: "unicode \<Rightarrow> bool" where
  "heading l \<longleftrightarrow> take 1 l = [35]"

definition headings :: "unicode \<Rightarrow> unicode list" where
  "headings t = filter heading (split_lines t)"

lemma split_lines_some: "split_lines t \<noteq> []"
  by (cases t) (auto split: list.split)

lemma split_lines_break: "split_lines (s @ 10 # t) = split_lines s @ split_lines t"
proof (induction s)
  case (Cons c s)
  then show ?case using split_lines_some[of s] by (cases "split_lines s") auto
qed simp

lemma split_lines_single: "10 \<notin> set l \<Longrightarrow> split_lines l = [l]"
  by (induction l) auto

text \<open>A line that reads as one heading if it is one, and as none otherwise.\<close>

definition clean :: "unicode \<Rightarrow> bool" where
  "clean l \<longleftrightarrow> headings l = filter heading [l]"

lemma clean_single: "10 \<notin> set l \<Longrightarrow> clean l"
  by (simp add: clean_def headings_def split_lines_single)

lemma clean_break: "10 \<notin> set l \<Longrightarrow> \<not> heading l \<Longrightarrow> clean (10 # l)"
  by (simp add: clean_def headings_def split_lines_single heading_def)

lemma headings_join: "ls \<noteq> [] \<Longrightarrow> list_all clean ls \<Longrightarrow> headings (join_lines ls @ [10]) = filter heading ls"
proof (induction ls rule: join_lines.induct)
  case (2 l)
  then show ?case using split_lines_break[of l "[]"] by (simp add: clean_def headings_def heading_def)
next
  case (3 l m ls)
  then show ?case using split_lines_break[of l "join_lines (m # ls) @ [10]"] by (simp add: clean_def headings_def)
qed simp

section \<open>Texts without a line break\<close>

definition inline :: "string \<Rightarrow> bool" where
  "inline s \<longleftrightarrow> CHR 0x0A \<notin> set s"

named_theorems on_line \<open>texts without a line break\<close>

lemma inline_simps [on_line]: "inline []" "inline s \<Longrightarrow> inline t \<Longrightarrow> inline (s @ t)"
  "c \<noteq> CHR 0x0A \<Longrightarrow> inline s \<Longrightarrow> inline (c # s)"
  by (simp_all add: inline_def)

lemma inline_plain [on_line]: "inline (plain n s)"
  unfolding inline_def using plain_inert[of "CHR 0x0A" n s] by (auto simp: is_space_def code_pt_def)

lemma inline_ticked [on_line]: "inline s \<Longrightarrow> inline (ticked s)"
  by (simp add: inline_def ticked_def back_tick_def)

lemma inline_numbers [on_line]: "inline (nat_str n)" "inline (int_str i)" "inline (percent q)"
proof -
  show n: "inline (nat_str n)" for n using nat_str_chars[of "CHR 0x0A" n] by (auto simp: inline_def)
  show "inline (int_str i)" unfolding int_str_def by (auto intro!: on_line n)
  show "inline (percent q)" unfolding percent_def by (auto intro!: on_line n split: prod.splits)
qed

lemma inline_upper [on_line]: "inline s \<Longrightarrow> inline (upper s)"
proof -
  have "code_pt (CHR 0x0A) < 65" by (simp add: code_pt_def)
  then show "inline s \<Longrightarrow> inline (upper s)" unfolding inline_def using upper_keeps[of "CHR 0x0A" s] by blast
qed

lemma inline_values [on_line]: "inline (severity_value sev)" "inline (status_value st)" "inline (yes_no b)"
  by (cases sev; simp add: inline_def; fail | cases st; simp add: inline_def; fail | simp add: inline_def yes_no_def)+

lemma inline_join [on_line]: "inline sep \<Longrightarrow> list_all inline ss \<Longrightarrow> inline (join sep ss)"
  using set_join[of sep ss] by (fastforce simp: inline_def list_all_iff)

lemma clean_uni: "inline s \<Longrightarrow> clean (uni s)"
proof -
  have "code_pt (CHR 0x0A) = 10" by (simp add: code_pt_def)
  then have "10 \<in> set (uni s) \<longleftrightarrow> CHR 0x0A \<in> set s" using in_set_uni[of "CHR 0x0A" s] by (simp only:)
  then show "inline s \<Longrightarrow> clean (uni s)" unfolding inline_def by (intro clean_single) simp
qed

lemma all_clean: "list_all inline ss \<Longrightarrow> list_all clean (map uni ss)"
  by (auto simp: list_all_iff intro: clean_uni)

text \<open>The headings among lines given as strings.\<close>

definition titles :: "string list \<Rightarrow> string list" where
  "titles ss = filter (\<lambda>s. take 1 s = ''#'') ss"

lemma titles_simps [simp]:
  "titles [] = []" "titles (xs @ ys) = titles xs @ titles ys"
  "titles (s # ss) = (if take 1 s = ''#'' then s # titles ss else titles ss)"
  by (simp_all add: titles_def)

lemma titles_map: "(\<And>x. x \<in> set xs \<Longrightarrow> take 1 (f x) \<noteq> ''#'') \<Longrightarrow> titles (map f xs) = []"
  by (simp add: titles_def)

lemma heading_uni: "heading (uni s) \<longleftrightarrow> take 1 s = ''#''"
proof -
  have "code_pt (CHR ''#'') = 35" by (simp add: code_pt_def)
  then have "code_pt c = 35 \<longleftrightarrow> c = CHR ''#''" for c using code_pt_inject[of c "CHR ''#''"] by (simp only:)
  then show ?thesis by (cases s) (simp_all add: heading_def uni_def)
qed

lemma filter_heading_uni: "filter heading (map uni ss) = map uni (titles ss)"
  by (simp add: titles_def filter_map comp_def heading_uni)

section \<open>The report of an event\<close>

lemma flat_uni: "inline s \<Longrightarrow> 10 \<notin> set (uni s)"
proof -
  have "code_pt (CHR 0x0A) = 10" by (simp add: code_pt_def)
  then have "10 \<in> set (uni s) \<longleftrightarrow> CHR 0x0A \<in> set s" using in_set_uni[of "CHR 0x0A" s] by (simp only:)
  then show "inline s \<Longrightarrow> 10 \<notin> set (uni s)" unfolding inline_def by simp
qed

text \<open>A line of the program's own, with a dash, that begins with a bullet.\<close>

lemma dashed_line:
  assumes "inline a" "inline b" "take 1 a = ''-''"
  shows "clean (uni a @ em_dash @ uni b) \<and> \<not> heading (uni a @ em_dash @ uni b)"
proof -
  have "10 \<notin> set (uni a @ em_dash @ uni b)" using flat_uni assms by (simp add: em_dash_def)
  moreover obtain r where "a = CHR ''-'' # r" using assms(3) by (cases a) auto
  then have "\<not> heading (uni a @ em_dash @ uni b)" by (simp add: heading_def code_pt_def)
  ultimately show ?thesis using clean_single by blast
qed

text \<open>A text of an event that stands on a line of its own, when it looks like a heading.\<close>

definition forged :: "string \<Rightarrow> string list" where
  "forged s = (if take 1 s = ''#'' then [s] else [])"

lemma event_heading_lines:
  "list_all inline (event_heading e chain)
   \<and> titles (event_heading e chain) = [''# White Radar case '' @ brief (ev_event_id e), ''## Executive summary'']
       @ forged (brief (ev_summary e)) @ [''## Classification'']"
  by (auto simp: event_heading_def forged_def intro!: on_line split: option.split)

lemma workflow_heading_lines:
  "list_all inline (workflow_lines i) \<and> titles (workflow_lines i) = (if i = None then [] else [''## Incident workflow''])"
  by (auto simp: workflow_lines_def intro!: on_line split: option.split)

lemma response_heading_lines:
  "list_all inline (response_lines e)
   \<and> titles (response_lines e) = [''## Why this case surfaced'', ''## Recommended response'']
       @ forged (plain 1500 (ev_recommended_action e)) @ [''## Evidence'']"
  by (auto simp: response_lines_def forged_def list_all_iff titles_def filter_empty_conv intro!: on_line)

lemma context_heading_lines:
  "list_all inline (context_lines m) \<and> titles (context_lines m) = [''## Technical context'']"
proof -
  have "inline f" if "f \<in> set context_fields" for f using that by (auto simp: context_fields_def inline_def)
  then show ?thesis
    by (auto simp: context_lines_def Let_def list_all_iff titles_def filter_empty_conv intro!: on_line)
qed

lemma checklist_heading_lines: "list_all inline checklist \<and> titles checklist = [''## Incident response checklist'']"
  by (simp add: checklist_def inline_def)

lemma similarity_line_clean:
  assumes "\<And>j t. fmt j = Inr t \<Longrightarrow> inline t" "similarity_line fmt d = Inr l"
  shows "clean l \<and> \<not> heading l"
proof -
  from assms(2) obtain t where t: "fmt (dget_or d ''similarity'' (JInt 0)) = Inr t"
    and l: "l = uni (''- '' @ ticked (brief (py_str (dget_or d ''address'' (JStr ''unknown'')))) @ '' '') @ em_dash
        @ uni ('' similarity '' @ t @ (if truthy (dget d ''exact_normalized_match'') then '' (exact normalized match)'' else []))"
    by (auto simp: similarity_line_def and_then_eq_Inr)
  show ?thesis unfolding l by (rule dashed_line) (auto intro!: on_line assms(1)[OF t])
qed

definition has_similar :: "dict \<Rightarrow> bool" where
  "has_similar m = (case dget m ''similar_contracts'' of JList xs \<Rightarrow> xs \<noteq> [] | _ \<Rightarrow> False)"

lemma traverse_list_all: "traverse f xs = Inr ys \<Longrightarrow> (\<And>x y. f x = Inr y \<Longrightarrow> P y) \<Longrightarrow> list_all P ys"
  by (induction xs arbitrary: ys) (auto simp: and_then_eq_Inr)

lemma similar_heading_lines:
  assumes "\<And>j t. fmt j = Inr t \<Longrightarrow> inline t" "similarity_lines fmt m = Inr ls"
  shows "list_all clean ls \<and> filter heading ls = map uni (if has_similar m then [''## Bytecode similarity''] else [])"
proof (cases "\<exists>x xs. dget m ''similar_contracts'' = JList (x # xs)")
  case True
  then obtain x xs where x: "dget m ''similar_contracts'' = JList (x # xs)" by blast
  with assms(2) obtain rows where t: "traverse (similarity_line fmt) (only_dicts (take 8 (x # xs))) = Inr rows"
    and ls: "ls = map uni [[], ''## Bytecode similarity'', []] @ rows" by (auto simp: similarity_lines_def and_then_eq_Inr)
  have "list_all (\<lambda>l. clean l \<and> \<not> heading l) rows"
    by (rule traverse_list_all[OF t]) (rule similarity_line_clean[OF assms(1)])
  then have r: "list_all clean rows" "filter heading rows = []" by (auto simp: list_all_iff filter_empty_conv)
  have "list_all clean (map uni [[], ''## Bytecode similarity'', []])" by (rule all_clean) (simp add: inline_def)
  with r x show ?thesis unfolding ls by (simp only: list_all_append filter_append filter_heading_uni) (simp add: has_similar_def)
next
  case False
  then have "ls = []" "\<not> has_similar m"
    using assms(2) by (auto simp: similarity_lines_def has_similar_def split: json.splits list.splits)
  then show ?thesis by simp
qed

lemma label_of_node_inline: "inline (label_of_node nodes i)"
proof (cases "map_of (rev (map (\<lambda>n. (no_node_id n, node_label n)) nodes)) i")
  case (Some l)
  from map_of_SomeD[OF this] obtain n where "l = node_label n" by auto
  then show ?thesis unfolding label_of_node_def Some by (simp add: node_label_def inline_plain)
qed (auto simp: label_of_node_def intro: on_line)

lemma neighbor_line_clean: "clean (neighbor_line nodes x) \<and> \<not> heading (neighbor_line nodes x)"
proof -
  let ?a = "''- '' @ ticked (label_of_node nodes (ed_source x)) @ '' ''"
  have "10 \<notin> set (neighbor_line nodes x)"
    unfolding neighbor_line_def using flat_uni[of ?a] flat_uni[of "'' **'' @ brief (ed_relation x) @ ''** ''"]
      flat_uni[of "'' '' @ ticked (label_of_node nodes (ed_target x))"]
    by (auto simp: em_dash_def right_arrow_def intro!: on_line label_of_node_inline)
  moreover have "\<not> heading (neighbor_line nodes x)" by (simp add: neighbor_line_def heading_def code_pt_def)
  ultimately show ?thesis using clean_single by blast
qed

lemma neighborhood_heading_lines:
  "list_all clean (neighborhood_lines g) \<and> filter heading (neighborhood_lines g)
     = map uni (case g of Some (n # ns, es) \<Rightarrow> [''## Identity neighborhood''] | _ \<Rightarrow> [])"
proof (cases "\<exists>n ns es. g = Some (n # ns, es)")
  case True
  then obtain n ns es where g: "g = Some (n # ns, es)" by blast
  let ?head = "[[], ''## Identity neighborhood'', [], ''- Nodes: '' @ nat_str (length (n # ns)),
                  ''- Evidence-backed relationships: '' @ nat_str (length es)]"
  let ?rows = "map (neighbor_line (n # ns)) (take 20 es)"
  have all: "neighborhood_lines g = map uni ?head @ ?rows" by (simp add: neighborhood_lines_def g)
  have h: "list_all clean (map uni ?head)" by (rule all_clean) (auto intro!: on_line)
  have r: "list_all clean ?rows" "filter heading ?rows = []"
    using neighbor_line_clean by (auto simp: list_all_iff filter_empty_conv)
  have t: "titles ?head = [''## Identity neighborhood'']" by simp
  show ?thesis unfolding all list_all_append filter_append filter_heading_uni t r(2) using h r(1) by (simp only: g) simp
next
  case False
  then show ?thesis by (auto simp: neighborhood_lines_def split: option.split list.split)
qed

text \<open>C17. A report of an event has exactly the sections the program writes. Whatever the event, its
  metadata, the incident and the identity graph hold, the headings of the finished document are
  the program's own, in order, the optional ones exactly when their part is there. The two
  exceptions are the summary and the recommended action, which stand on lines of their own and
  read as headings if they begin with one.
\<close>

theorem event_report_sections:
  assumes "incident_report_lines fmt e chain graph incident = Inr ls"
    and "\<And>j t. fmt j = Inr t \<Longrightarrow> inline t"
  shows "\<exists>doc. render_incident_report fmt e chain graph incident = Inr doc \<and> headings doc = map uni
     ([''# White Radar case '' @ brief (ev_event_id e), ''## Executive summary''] @ forged (brief (ev_summary e))
      @ [''## Classification''] @ (if incident = None then [] else [''## Incident workflow''])
      @ [''## Why this case surfaced'', ''## Recommended response''] @ forged (plain 1500 (ev_recommended_action e))
      @ [''## Evidence'', ''## Technical context'']
      @ (if has_similar (ev_metadata e) then [''## Bytecode similarity''] else [])
      @ (case graph of Some (n # ns, es) \<Rightarrow> [''## Identity neighborhood''] | _ \<Rightarrow> [])
      @ [''## Incident response checklist''])"
proof -
  let ?own = "event_heading e chain @ workflow_lines incident @ response_lines e @ context_lines (ev_metadata e)"
  from assms(1) obtain similar where s: "similarity_lines fmt (ev_metadata e) = Inr similar"
    and ls: "ls = map uni ?own @ similar @ neighborhood_lines graph @ map uni checklist"
    by (auto simp: incident_report_lines_def and_then_eq_Inr)
  note h = event_heading_lines[of e chain] workflow_heading_lines[of incident] response_heading_lines[of e]
    context_heading_lines[of "ev_metadata e"] checklist_heading_lines
  note sim = similar_heading_lines[OF assms(2) s] and g = neighborhood_heading_lines[of graph]
  have "list_all clean (map uni ?own)" "list_all clean (map uni checklist)" by (rule all_clean; use h in simp)+
  then have "list_all clean ls" unfolding ls list_all_append using sim g by simp
  moreover have "ls \<noteq> []" unfolding ls by (simp add: checklist_def)
  ultimately have "headings (join_lines ls @ [10]) = filter heading ls" by (intro headings_join)
  also have "\<dots> = map uni (titles ?own) @ filter heading similar @ filter heading (neighborhood_lines graph) @ map uni (titles checklist)"
    unfolding ls by (simp only: filter_append filter_heading_uni)
  finally show ?thesis using assms(1) h sim g by (simp add: render_incident_report_def)
qed

theorem event_report_sections_witness:
  "\<exists>doc. render_incident_report (\<lambda>j. Inr ''0.0%'') (sample_event 3) sample_chain None None = Inr doc
     \<and> length (headings doc) = 8"
proof -
  obtain ls where l: "incident_report_lines (\<lambda>j. Inr ''0.0%'') (sample_event 3) sample_chain None None = Inr ls"
    by (simp add: incident_report_lines_def similarity_lines_def sample_event_def dget_def)
  have f: "forged (brief (ev_summary (sample_event 3))) = []" "forged (plain 1500 (ev_recommended_action (sample_event 3))) = []"
    "\<not> has_similar (ev_metadata (sample_event 3))"
    by code_simp+
  from event_report_sections[OF l] show ?thesis unfolding f by (auto simp: f inline_def)
qed

end
