(* ===== verification/Graph_Pages.thy ===== *)
theory Graph_Pages
  imports Documents
begin

text \<open>
  The pages around the data of \<^verbatim>\<open>graph.html\<close>: \<^verbatim>\<open>GRAPH_TEMPLATE\<close> of \<^verbatim>\<open>src/white_radar/case_bundle.py\<close> and of
  \<^verbatim>\<open>reconstruction_bundle.py\<close>, as the text before and the text after the one \<^verbatim>\<open>__DATA__\<close> that
  \<^verbatim>\<open>GRAPH_TEMPLATE.replace\<close> finds in it. What a browser makes of them is not modelled.
\<close>

section \<open>The page of one case\<close>

definition case_page_head :: "unicode list" where
  "case_page_head =
    [uni ''<!doctype html>'',
     uni ''<html lang=\"en\">'',
     uni ''<head>'',
     uni ''  <meta charset=\"utf-8\">'',
     uni ''  <meta name=\"viewport\" content=\"width=device-width,initial-scale=1\">'',
     uni ''  <title>White Radar investigation graph</title>'',
     uni ''  <style>'',
     uni ''    :root { color-scheme: dark; font-family: Inter, system-ui, sans-serif; }'',
     uni ''    body { margin: 0; background: #07111f; color: #e9f2ff; }'',
     uni ''    header { padding: 18px 22px; border-bottom: 1px solid #26364d; }'',
     uni ''    h1 { margin: 0 0 6px; font-size: 20px; }'',
     uni ''    #meta { color: #9eb1c8; }'',
     uni ''    svg { width: 100vw; height: calc(100vh - 82px); display: block; }'',
     uni ''    line { stroke: #526983; stroke-opacity: .65; }'',
     uni ''    .edge-label { fill: #94a8bf; font-size: 9px; }'',
     uni ''    circle { stroke: #d8e8ff; stroke-width: 1.2px; }'',
     uni ''    .node-label { fill: #f3f8ff; font-size: 10px; pointer-events: none; }'',
     uni ''    .contract { fill: #ffb347; } .account { fill: #5ab0ff; }'',
     uni ''    .system { fill: #e46cff; } .unknown { fill: #9aa7b6; }'',
     uni ''  </style>'',
     uni ''</head>'',
     uni ''<body>'',
     uni ''<header><h1>White Radar investigation graph</h1><div id=\"meta\"></div></header>'',
     uni ''<svg id=\"graph\" role=\"img\" aria-label=\"Transaction entity relationship graph\"></svg>'',
     uni ''<script>'',
     uni ''const data = '']"

definition case_page_edges :: "unicode list" where
  "case_page_edges =
    [uni '';'',
     uni ''const svg = document.getElementById('graph');'',
     uni ''const ns = 'http://www.w3.org/2000/svg';'',
     uni ''const width = Math.max(900, window.innerWidth);'',
     uni ''const height = Math.max(600, window.innerHeight - 82);'',
     uni ''svg.setAttribute('viewBox', `0 0 ${width} ${height}`);'',
     uni ''document.getElementById('meta').textContent ='',
     uni ''  `${data.case_id} '' @ [183] @ uni '' ${data.nodes.length} nodes '' @ [183] @ uni '' ${data.edges.length} edges`;'',
     uni ''const radius = Math.min(width, height) * .38;'',
     uni ''const cx = width / 2, cy = height / 2;'',
     uni ''const positions = new Map(data.nodes.map((node, i) => [node.address, {'',
     uni ''  x: cx + Math.cos((Math.PI * 2 * i / Math.max(1, data.nodes.length)) - Math.PI / 2) * radius,'',
     uni ''  y: cy + Math.sin((Math.PI * 2 * i / Math.max(1, data.nodes.length)) - Math.PI / 2) * radius'',
     uni ''}]));'']"

definition case_page_nodes :: "unicode list" where
  "case_page_nodes =
    [uni ''for (const edge of data.edges) {'',
     uni ''  const a = positions.get(edge.source), b = positions.get(edge.target);'',
     uni ''  if (!a || !b) continue;'',
     uni ''  const line = document.createElementNS(ns, 'line');'',
     uni ''  for (const [k,v] of Object.entries({x1:a.x,y1:a.y,x2:b.x,y2:b.y})) {'',
     uni ''    line.setAttribute(k,v);'',
     uni ''  }'',
     uni ''  const title = document.createElementNS(ns, 'title');'',
     uni ''  title.textContent = `${edge.relation} '' @ [183] @ uni '' ${edge.evidence_ref}`;'',
     uni ''  line.appendChild(title);'',
     uni ''  svg.appendChild(line);'',
     uni ''}'',
     uni ''for (const node of data.nodes) {'',
     uni ''  const p = positions.get(node.address);'',
     uni ''  const group = document.createElementNS(ns, 'g');'',
     uni ''  const circle = document.createElementNS(ns, 'circle');'',
     uni ''  circle.setAttribute('cx',p.x);'',
     uni ''  circle.setAttribute('cy',p.y);'',
     uni ''  circle.setAttribute('r', node.roles.includes('transaction_target') ? 11 : 7);'',
     uni ''  circle.setAttribute('class',node.kind);'',
     uni ''  const title = document.createElementNS(ns, 'title');'',
     uni ''  title.textContent ='',
     uni ''    `${node.label || node.address}'',
     uni ''${node.kind}'',
     uni ''${node.roles.join(', ')}`;'',
     uni ''  circle.appendChild(title);'',
     uni ''  group.appendChild(circle);'',
     uni ''  const label = document.createElementNS(ns, 'text');'',
     uni ''  label.setAttribute('x',p.x + 12);'',
     uni ''  label.setAttribute('y',p.y + 3);'',
     uni ''  label.setAttribute('class','node-label');'',
     uni ''  label.textContent = node.label || node.address.slice(0,10) + '' @ [39] @ [8230] @ [39] @ uni '';'',
     uni ''  group.appendChild(label);'',
     uni ''  svg.appendChild(group);'',
     uni ''}'',
     uni ''</script>'',
     uni ''</body>'',
     uni ''</html>'',
     []]"

definition CASE_PAGE :: "unicode \<times> unicode" where
  "CASE_PAGE = (join_lines (case_page_head), join_lines (case_page_edges @ case_page_nodes))"

section \<open>The page of a reconstruction\<close>

definition reconstruction_page_layout :: "unicode list" where
  "reconstruction_page_layout =
    [uni ''<!doctype html>'',
     uni ''<html lang=\"en\">'',
     uni ''<head>'',
     uni ''  <meta charset=\"utf-8\">'',
     uni ''  <meta name=\"viewport\" content=\"width=device-width,initial-scale=1\">'',
     uni ''  <title>WhiteRadar Incident reconstruction graph</title>'',
     uni ''  <style>'',
     uni ''    :root { color-scheme: dark; font-family: Inter, ui-sans-serif, system-ui, sans-serif; }'',
     uni ''    * { box-sizing: border-box; }'',
     uni ''    body { margin: 0; background: #06101d; color: #eaf2ff; overflow: hidden; }'',
     uni ''    header { height: 116px; padding: 15px 20px; border-bottom: 1px solid #273a54;'',
     uni ''      background: linear-gradient(115deg,#0a1b2c,#111830); }'',
     uni ''    h1 { margin: 0 0 8px; font-size: 22px; }'',
     uni ''    #meta { color: #a9bdd5; margin-bottom: 11px; }'',
     uni ''    #toolbar { display: flex; gap: 8px; flex-wrap: wrap; }'',
     uni ''    input, select, button { border: 1px solid #38506d; border-radius: 7px; background: #0b192a;'',
     uni ''      color: #eef6ff; padding: 7px 10px; }'']"

definition reconstruction_page_style :: "unicode list" where
  "reconstruction_page_style =
    [uni ''    input { width: min(420px,45vw); }'',
     uni ''    button { cursor: pointer; } button:hover { background: #17304a; }'',
     uni ''    main { display: grid; grid-template-columns: minmax(0,1fr) 350px; height: calc(100vh - 116px); }'',
     uni ''    #canvas { position: relative; min-width: 0; }'',
     uni ''    svg { width: 100%; height: 100%; display: block; background: radial-gradient(circle at 50% 50%,#0b1d30,#06101d 72%); }'',
     uni ''    #details { border-left: 1px solid #273a54; padding: 16px; overflow: auto; background: #081523; }'',
     uni ''    #details h2 { margin: 0 0 12px; font-size: 17px; }'',
     uni ''    .detail-row { margin: 0 0 12px; }'',
     uni ''    .detail-key { color: #8fa8c3; font-size: 12px; text-transform: uppercase; letter-spacing: .05em; }'',
     uni ''    .detail-value { margin-top: 3px; word-break: break-all; line-height: 1.35; }'',
     uni ''    #legend { position: absolute; left: 14px; bottom: 14px; display: grid; gap: 5px;'',
     uni ''      background: #071625e8; border: 1px solid #30465f; border-radius: 8px; padding: 9px 11px;'',
     uni ''      color: #b8c9dc; font-size: 12px; }'',
     uni ''    .legend-dot { width: 9px; height: 9px; display: inline-block; border-radius: 50%; margin-right: 6px; }'',
     uni ''    .edge { stroke: #58718e; stroke-opacity: .52; fill: none; }'',
     uni ''    .edge.asset { stroke: #4fd1a5; stroke-opacity: .82; stroke-width: 2.2; }'',
     uni ''    .edge.transaction-link { stroke: #8b9bb1; stroke-dasharray: 4 3; }'',
     uni ''    .edge.hidden, .node.hidden, .node-label.hidden { display: none; }'',
     uni ''    .edge-label { fill: #9fb4ca; font-size: 9px; paint-order: stroke; stroke: #06101d; stroke-width: 3px; }'',
     uni ''    .node { stroke: #dcecff; stroke-width: 1.2; cursor: pointer; }'',
     uni ''    .node.account { fill: #48a8ff; } .node.contract { fill: #ffb44a; }'',
     uni ''    .node.system { fill: #d879ff; } .node.transaction { fill: #55d7aa; }'',
     uni ''    .node.unknown { fill: #9aa8b8; }'',
     uni ''    .node.seed { stroke: #fff07a; stroke-width: 3; }'',
     uni ''    .node.core { stroke: #76f7c5; stroke-width: 2.5; }'',
     uni ''    .node.match { stroke: #ff6f91; stroke-width: 4; }'',
     uni ''    .node-label { fill: #f4f8ff; font-size: 10px; pointer-events: none; paint-order: stroke;'',
     uni ''      stroke: #06101d; stroke-width: 3px; }'',
     uni ''    @media (max-width: 850px) { main { grid-template-columns: 1fr; } #details { display: none; } }'',
     uni ''  </style>'']"

definition reconstruction_page_body :: "unicode list" where
  "reconstruction_page_body =
    [uni ''</head>'',
     uni ''<body>'',
     uni ''<header>'',
     uni ''  <h1>WhiteRadar Incident reconstruction graph</h1>'',
     uni ''  <div id=\"meta\"></div>'',
     uni ''  <div id=\"toolbar\">'',
     uni ''    <input id=\"search\" placeholder=\"Search address, transaction, label, selector'' @ [8230] @ uni ''\" aria-label=\"Search graph\">'',
     uni ''    <select id=\"kind\"><option value=\"all\">All node types</option><option value=\"transaction\">Transactions</option>'',
     uni ''      <option value=\"account\">Accounts</option><option value=\"contract\">Contracts</option><option value=\"system\">System</option></select>'',
     uni ''    <select id=\"relation\"><option value=\"all\">All relationships</option></select>'',
     uni ''    <button id=\"fit\">Fit graph</button>'',
     uni ''  </div>'',
     uni ''</header>'',
     uni ''<main>'',
     uni ''  <section id=\"canvas\">'',
     uni ''    <svg id=\"graph\" role=\"img\" aria-label=\"Cross-transaction incident graph\">'',
     uni ''      <defs><marker id=\"arrow\" viewBox=\"0 0 10 10\" refX=\"9\" refY=\"5\" markerWidth=\"6\" markerHeight=\"6\" orient=\"auto-start-reverse\"><path d=\"M 0 0 L 10 '' @
      uni ''5 L 0 10 z\" fill=\"#7f97b3\"/></marker></defs>'',
     uni ''      <g id=\"viewport\"><g id=\"edges\"></g><g id=\"edge-labels\"></g><g id=\"nodes\"></g><g id=\"node-labels\"></g></g>'',
     uni ''    </svg>'',
     uni ''    <div id=\"legend\"><div><span class=\"legend-dot\" style=\"background:#55d7aa\"></span>Transaction</div>'',
     uni ''      <div><span class=\"legend-dot\" style=\"background:#48a8ff\"></span>Account</div>'',
     uni ''      <div><span class=\"legend-dot\" style=\"background:#ffb44a\"></span>Contract</div>'',
     uni ''      <div><span class=\"legend-dot\" style=\"background:#d879ff\"></span>System</div>'',
     uni ''      <div><span class=\"legend-dot\" style=\"background:#4fd1a5\"></span>Asset flow</div></div>'',
     uni ''  </section>'',
     uni ''  <aside id=\"details\"><h2>Investigation details</h2><p>Select a node or relationship.</p></aside>'',
     uni ''</main>'',
     uni ''<script>'',
     uni ''const data = '']"

definition reconstruction_page_script :: "unicode list" where
  "reconstruction_page_script =
    [uni '';'',
     uni ''const svg = document.getElementById('graph'), viewport = document.getElementById('viewport');'',
     uni ''const edgeLayer = document.getElementById('edges'), edgeLabelLayer = document.getElementById('edge-labels');'',
     uni ''const nodeLayer = document.getElementById('nodes'), nodeLabelLayer = document.getElementById('node-labels');'',
     uni ''const details = document.getElementById('details'), ns = 'http://www.w3.org/2000/svg';'',
     uni ''const width = Math.max(900, svg.clientWidth), height = Math.max(620, svg.clientHeight);'',
     uni ''svg.setAttribute('viewBox', `0 0 ${width} ${height}`);'',
     uni ''document.getElementById('meta').textContent = `${data.id} '' @ [183] @ uni '' ${data.nodes.length} nodes '' @ [183] @ uni '' ${data.edges.length} relationships '' @ [183] @ uni '' bounded evidence graph`;'',
     uni ''const hash = s => [...s].reduce((a,c)=>((a*31+c.charCodeAt(0))>>>0),2166136261);'',
     uni ''const nodes = data.nodes.map((node,i)=>({...node,x:70+(hash(node.id)%Math.max(100,width-140)),y:70+((hash(node.id+'y')+i*37)%Math.max(100,height-140))'' @
      uni '',vx:0,vy:0}));'',
     uni ''const byId = new Map(nodes.map(n=>[n.id,n]));'',
     uni ''const edges = data.edges.filter(e=>byId.has(e.source)&&byId.has(e.target)).map(e=>({...e,a:byId.get(e.source),b:byId.get(e.target)}));'',
     uni ''const relationSelect = document.getElementById('relation');'',
     uni ''[...new Set(edges.map(e=>e.relation))].sort().forEach(value=>{const option=document.createElement('option');option.value=value;option.textContent=valu'' @
      uni ''e;relationSelect.appendChild(option);});'',
     uni ''const edgeElements = edges.map(edge=>{const line=document.createElementNS(ns,'line');line.setAttribute('marker-end','url(#arrow)');line.classList.add('' @
      [39] @ uni ''edge');if(edge.asset)line.classList.add('asset');if(['INITIATED','TARGETED'].includes(edge.relation))line.classList.add('transaction-link');line.addE'' @
      uni ''ventListener('click',()=>show(edge,'Relationship'));edgeLayer.appendChild(line);return line;});'',
     uni ''const labelElements = edges.map(edge=>{const text=document.createElementNS(ns,'text');text.classList.add('edge-label');text.textContent=edge.amount?`$'' @
      uni ''{edge.relation} '' @ [183] @ uni '' ${edge.amount}`:edge.relation;text.addEventListener('click',()=>show(edge,'Relationship'));edgeLabelLayer.appendChild(text);return t'' @
      uni ''ext;});'',
     uni ''const nodeElements = nodes.map(node=>{const circle=document.createElementNS(ns,'circle');circle.setAttribute('r',node.kind==='transaction'?10:node.rol'' @
      uni ''es.includes('transaction_target')?9:7);circle.classList.add('node',node.kind||'unknown');if(node.core_candidate)circle.classList.add('core');if(node.i'' @
      uni ''d===`tx:${data.seed}`)circle.classList.add('seed');circle.addEventListener('click',()=>show(node,'Node'));nodeLayer.appendChild(circle);return circle;'' @
      uni ''});'',
     uni ''const nodeLabels = nodes.map(node=>{const text=document.createElementNS(ns,'text');text.classList.add('node-label');text.textContent=node.label;text.a'' @
      uni ''ddEventListener('click',()=>show(node,'Node'));nodeLabelLayer.appendChild(text);return text;});'',
     uni ''function escapeText(value){return String(value??'' @ [39] @ [39] @ uni '').replace(/[&<>\"']/g,c=>({'&':'&amp;','<':'&lt;','>':'&gt;','\"':'&quot;',\"'\":'&#39;'}[c]));}'',
     uni ''function show(value,title){const rows=Object.entries(value).filter(([key])=>!['a','b','x','y','vx','vy'].includes(key)).map(([key,item])=>`<div class='' @
      uni ''\"detail-row\"><div class=\"detail-key\">${escapeText(key.replaceAll('_',' '))}</div><div class=\"detail-value\">${escapeText(Array.isArray(item)?item.join('' @
      [39] @ uni '', '):item)}</div></div>`).join('' @ [39] @ [39] @ uni '');details.innerHTML=`<h2>${escapeText(title)}</h2>${rows}`;}'',
     uni ''function update(){edges.forEach((edge,i)=>{const el=edgeElements[i],label=labelElements[i];el.setAttribute('x1',edge.a.x);el.setAttribute('y1',edge.a.'' @
      uni ''y);el.setAttribute('x2',edge.b.x);el.setAttribute('y2',edge.b.y);label.setAttribute('x',(edge.a.x+edge.b.x)/2);label.setAttribute('y',(edge.a.y+edge.b'' @
      uni ''.y)/2);});nodes.forEach((node,i)=>{nodeElements[i].setAttribute('cx',node.x);nodeElements[i].setAttribute('cy',node.y);nodeLabels[i].setAttribute('x','' @
      uni ''node.x+12);nodeLabels[i].setAttribute('y',node.y+4);});}'',
     uni ''let ticks=0;function simulate(){if(ticks++>220)return;for(let i=0;i<nodes.length;i++)for(let j=i+1;j<nodes.length;j++){const a=nodes[i],b=nodes[j],dx='' @
      uni ''a.x-b.x,dy=a.y-b.y,d2=Math.max(80,dx*dx+dy*dy),force=1900/d2;a.vx+=dx*force/Math.sqrt(d2);a.vy+=dy*force/Math.sqrt(d2);b.vx-=dx*force/Math.sqrt(d2);b.'' @
      uni ''vy-=dy*force/Math.sqrt(d2);}for(const edge of edges){const dx=edge.b.x-edge.a.x,dy=edge.b.y-edge.a.y,d=Math.max(1,Math.hypot(dx,dy)),force=(d-130)*.00'' @
      uni ''25;edge.a.vx+=dx/d*force;edge.a.vy+=dy/d*force;edge.b.vx-=dx/d*force;edge.b.vy-=dy/d*force;}for(const node of nodes){node.vx+=(width/2-node.x)*.0007;n'' @
      uni ''ode.vy+=(height/2-node.y)*.0007;node.vx*=.84;node.vy*=.84;node.x=Math.max(24,Math.min(width-24,node.x+node.vx));node.y=Math.max(24,Math.min(height-24,'' @
      uni ''node.y+node.vy));}update();requestAnimationFrame(simulate);}simulate();'',
     uni ''let scale=1,panX=0,panY=0;function transform(){viewport.setAttribute('transform',`translate(${panX} ${panY}) scale(${scale})`);}svg.addEventListener('' @ [39] @
      uni ''wheel',event=>{event.preventDefault();scale=Math.max(.2,Math.min(5,scale*(event.deltaY<0?1.12:.89)));transform();},{passive:false});let panning=false,'' @
      uni ''lastX=0,lastY=0;svg.addEventListener('pointerdown',event=>{panning=true;lastX=event.clientX;lastY=event.clientY;svg.setPointerCapture(event.pointerId)'' @
      uni '';});svg.addEventListener('pointermove',event=>{if(!panning)return;panX+=event.clientX-lastX;panY+=event.clientY-lastY;lastX=event.clientX;lastY=event.'' @
      uni ''clientY;transform();});svg.addEventListener('pointerup',()=>panning=false);document.getElementById('fit').addEventListener('click',()=>{scale=1;panX=0'' @
      uni '';panY=0;transform();});'',
     uni ''function applyFilters(){const query=document.getElementById('search').value.toLowerCase(),kind=document.getElementById('kind').value,relation=relation'' @
      uni ''Select.value;const visible=new Set();nodes.forEach((node,i)=>{const hay=JSON.stringify(node).toLowerCase(),ok=(!query||hay.includes(query))&&(kind==='' @ [39] @
      uni ''all'||node.kind===kind);nodeElements[i].classList.toggle('hidden',!ok);nodeLabels[i].classList.toggle('hidden',!ok);nodeElements[i].classList.toggle('' @ [39] @
      uni ''match',Boolean(query)&&ok);if(ok)visible.add(node.id);});edges.forEach((edge,i)=>{const ok=visible.has(edge.source)&&visible.has(edge.target)&&(relati'' @
      uni ''on==='all'||edge.relation===relation);edgeElements[i].classList.toggle('hidden',!ok);labelElements[i].classList.toggle('hidden',!ok||edges.length>120)'' @
      uni '';});}'',
     uni ''document.getElementById('search').addEventListener('input',applyFilters);document.getElementById('kind').addEventListener('change',applyFilters);relat'' @
      uni ''ionSelect.addEventListener('change',applyFilters);applyFilters();'',
     uni ''</script>'',
     uni ''</body>'',
     uni ''</html>'',
     []]"

definition RECONSTRUCTION_PAGE :: "unicode \<times> unicode" where
  "RECONSTRUCTION_PAGE = (join_lines (reconstruction_page_layout @ reconstruction_page_style @ reconstruction_page_body), join_lines (reconstruction_page_script))"

end
