(* ===== verification/Runtime.thy ===== *)
theory Runtime
  imports Monitor Mempool_Stream History Token_Metadata Telegram_Text Case_Json
begin

text \<open>
  What a command of \<^verbatim>\<open>src/white_radar/cli.py\<close> starts from: the settings (\<^verbatim>\<open>load_settings\<close> and
  \<^verbatim>\<open>load_dotenv\<close> of \<^verbatim>\<open>config.py\<close>, over the parsed document), the machine it runs on, and the client, the
  scanner, the observer and the notifier it builds from them.
\<close>

section \<open>Settings\<close>

record settings =
  se_chains :: "chain_config list"
  se_app :: app_config
  se_telegram :: telegram_config
  se_sourcify_enabled :: bool
  se_etherscan_enabled :: bool
  se_analysis :: analysis_config

text \<open>\<^verbatim>\<open>data.get(name, {})\<close>, of which \<^verbatim>\<open>get\<close> is asked next\<close>

definition config_table :: "dict \<Rightarrow> string \<Rightarrow> dict res" where
  "config_table doc name = (case dget_default doc name (JObj []) of JObj t \<Rightarrow> Inr t | _ \<Rightarrow> Inl AttributeError)"

definition is_table :: "json \<Rightarrow> bool" where
  "is_table j = (case j of JObj t \<Rightarrow> True | _ \<Rightarrow> False)"

text \<open>The loop over \<^verbatim>\<open>data.get("chains", [])\<close> stops at the first item that is no table.\<close>

definition config_chains :: "dict \<Rightarrow> chain_config list res" where
  "config_chains doc =
     (case dget_default doc ''chains'' (JList []) of
        JList xs \<Rightarrow>
          and_then (load_chains [] [] (only_dicts (takeWhile is_table xs))) (\<lambda>cs.
            if \<not> list_all is_table xs then Inl AttributeError
            else and_then (require (cs \<noteq> []) ConfigurationError) (\<lambda>_. Inr cs))
      | JObj t \<Rightarrow> if t = [] then Inl ConfigurationError else Inl AttributeError
      | JStr s \<Rightarrow> if s = [] then Inl ConfigurationError else Inl AttributeError
      | _ \<Rightarrow> Inl TypeError)"

definition load_settings :: "(string \<Rightarrow> string option) \<Rightarrow> dict \<Rightarrow> settings res" where
  "load_settings env doc =
     and_then (config_table doc ''app'') (\<lambda>app_data.
     and_then (load_app app_data (env ''WHITE_RADAR_DRY_RUN'')) (\<lambda>app.
     and_then (config_table doc ''telegram'') (\<lambda>telegram_data.
     and_then (load_telegram telegram_data) (\<lambda>telegram.
     and_then (config_table doc ''enrichment'') (\<lambda>enrichment_data.
     and_then (config_table doc ''analysis'') (\<lambda>analysis_data.
     and_then (load_analysis analysis_data) (\<lambda>analysis.
     and_then (config_chains doc) (\<lambda>cs.
       Inr \<lparr> se_chains = cs, se_app = app, se_telegram = telegram,
             se_sourcify_enabled = bool_setting enrichment_data ''sourcify_enabled'' True,
             se_etherscan_enabled = bool_setting enrichment_data ''etherscan_enabled'' True,
             se_analysis = analysis \<rparr>))))))))"

section \<open>The environment file\<close>

text \<open>\<^verbatim>\<open>s.strip(q)\<close> for one character\<close>

definition strip_char :: "char \<Rightarrow> string \<Rightarrow> string" where
  "strip_char q s = rev (dropWhile (\<lambda>c. c = q) (rev (dropWhile (\<lambda>c. c = q) s)))"

text \<open>The key and the value of a line that has them.\<close>

definition dotenv_entry :: "string \<Rightarrow> (string \<times> string) option" where
  "dotenv_entry raw_line =
     (let line = strip raw_line in
      if line = [] \<or> startswith ''#'' line \<or> CHR ''='' \<notin> set line then None
      else let key = strip (takeWhile (\<lambda>c. c \<noteq> CHR ''='') line);
               val = strip_char double_quote (strip_char single_quote (strip (tl (dropWhile (\<lambda>c. c \<noteq> CHR ''='') line))))
           in if key = [] then None else Some (key, val))"

text \<open>The loop over the lines of the file; an entry of the process environment is never replaced.\<close>

fun load_dotenv :: "string list \<Rightarrow> (string \<Rightarrow> string option) \<Rightarrow> (string \<Rightarrow> string option)" where
  "load_dotenv [] env = env"
| "load_dotenv (l # ls) env =
     load_dotenv ls (case dotenv_entry l of
        None \<Rightarrow> env
      | Some (k, v) \<Rightarrow> if env k = None then env(k \<mapsto> v) else env)"

section \<open>The machine\<close>

text \<open>
  Everything outside the program that a command meets: the environment, the files it reads (parsed),
  the network behind the clients, the explorers, the Telegram service, what the websocket does,
  the digests, the clock, and the names and texts of exceptions.
\<close>

record machine =
  ma_env :: "string \<Rightarrow> string option"
  ma_dotenv :: "string list"
  ma_config :: "dict res"
  ma_watchlist :: "(dict list \<times> dict list) res"
  ma_policies :: "(int \<times> dict option \<times> string) option"
  ma_database_parent :: bool
  ma_network :: network
  ma_active_endpoint :: "string list \<Rightarrow> int"
  ma_sourcify :: "int \<Rightarrow> string \<Rightarrow> json res"
  ma_etherscan :: "int \<Rightarrow> string \<Rightarrow> json res option"
  ma_explorer :: explorer
  ma_abi :: abi_env
  ma_request :: "telegram_message \<Rightarrow> json res"
  ma_host :: "string \<Rightarrow> string option"
  ma_connections :: "connection list"
  ma_after_failure :: "string \<Rightarrow> resolver \<Rightarrow> resolver"
  ma_sha256 :: "bytes \<Rightarrow> string"
  ma_digest :: "string \<Rightarrow> string"
  ma_blake8 :: "bytes \<Rightarrow> nat"
  ma_utf8 :: "bytes \<Rightarrow> string"
  ma_isoformat :: "int \<Rightarrow> string res"
  ma_percent :: "json \<Rightarrow> string res"
  ma_class_name :: "exn \<Rightarrow> string"
  ma_message :: "exn \<Rightarrow> string"
  ma_clock :: clock

definition getenv :: "machine \<Rightarrow> string \<Rightarrow> string" where
  "getenv m name = (case ma_env m name of None \<Rightarrow> [] | Some v \<Rightarrow> v)"

text \<open>\<^verbatim>\<open>_load_runtime\<close>, with the environment the commands then see\<close>

definition load_runtime :: "machine \<Rightarrow> (machine \<times> settings \<times> watchlist) res" where
  "load_runtime m0 =
     (let m = m0\<lparr> ma_env := load_dotenv (ma_dotenv m0) (ma_env m0) \<rparr> in
      and_then (ma_config m) (\<lambda>doc.
      and_then (load_settings (ma_env m) doc) (\<lambda>s.
      and_then (ma_watchlist m) (\<lambda>(contracts, deployers).
      and_then (load_watchlist contracts deployers) (\<lambda>w. Inr (m, s, w))))))"

section \<open>Clients, scanners, the notifier\<close>

definition http_endpoints :: "machine \<Rightarrow> chain_config \<Rightarrow> string list" where
  "http_endpoints m c = configured_endpoints (ma_env m) (cc_rpc_http_env c) (cc_rpc_http_fallback_envs c)"

definition open_client :: "machine \<Rightarrow> string list \<Rightarrow> rpc res" where
  "open_client m us = and_then (make_client us) (\<lambda>c. Inr (client_view (ma_network m) c))"

text \<open>\<^verbatim>\<open>_rpc_for_chain\<close>\<close>

definition rpc_for_chain :: "machine \<Rightarrow> chain_config \<Rightarrow> rpc res" where
  "rpc_for_chain m c =
     (if http_endpoints m c = [] then Inl ConfigurationError
      else and_then (open_client m (http_endpoints m c)) (\<lambda>call.
           and_then (rpc_chain_id call) (\<lambda>actual.
             if actual \<noteq> cc_chain_id c then Inl ConfigurationError else Inr call)))"

definition open_notifier :: "machine \<Rightarrow> settings \<Rightarrow> notifier" where
  "open_notifier m s =
     \<lparr> tn_config = se_telegram s, tn_dry_run = ap_dry_run (se_app s),
       tn_token = getenv m ''TELEGRAM_BOT_TOKEN'', tn_chat_id = getenv m ''TELEGRAM_CHAT_ID'',
       tn_post = event_post (ma_request m) (strip (getenv m ''TELEGRAM_CHAT_ID'')) \<rparr>"

text \<open>\<^verbatim>\<open>ChainScanner.__init__\<close>\<close>

definition open_scanner :: "machine \<Rightarrow> settings \<Rightarrow> watchlist \<Rightarrow> chain_config \<Rightarrow> scanner res" where
  "open_scanner m s w c =
     (let us = http_endpoints m c in
      if us = [] then Inl RuntimeError
      else and_then (open_client m us) (\<lambda>call.
           and_then (load_policy_book (ma_policies m)) (\<lambda>book.
             Inr \<lparr> mo_chain = c, mo_watchlist = w, mo_policies = book, mo_app = se_app s, mo_analysis = se_analysis s,
                   mo_notifier = open_notifier m s, mo_rpc = call,
                   mo_endpoints = (int (length us), ma_active_endpoint m us),
                   mo_sourcify_enabled = se_sourcify_enabled s, mo_etherscan_enabled = se_etherscan_enabled s,
                   mo_sourcify = ma_sourcify m (cc_chain_id c), mo_etherscan = ma_etherscan m (cc_chain_id c),
                   mo_sha256 = ma_sha256 m, mo_digest = ma_digest m, mo_blake8 = ma_blake8 m,
                   mo_isoformat = ma_isoformat m, mo_clock = ma_clock m \<rparr>)))"

definition open_observer :: "machine \<Rightarrow> settings \<Rightarrow> watchlist \<Rightarrow> chain_config \<Rightarrow> policy_book \<Rightarrow> rpc \<Rightarrow> observer" where
  "open_observer m s w c book call =
     \<lparr> po_chain = c, po_watchlist = w, po_policies = book, po_rpc = call, po_notifier = open_notifier m s,
       po_resolver = (if an_abi_resolution_enabled (se_analysis s) then Some (ma_abi m) else None),
       po_subscription_type = [], po_incident_minimum_score = ap_incident_minimum_score (se_app s),
       po_incident_sla_minutes = ap_incident_sla_minutes (se_app s),
       po_simulation_enabled = an_pending_simulation_enabled (se_analysis s),
       po_simulation_minimum_score = an_pending_simulation_minimum_score (se_analysis s),
       po_trace_call_enabled = an_trace_call_enabled (se_analysis s), po_digest = ma_digest m, po_sha256 = ma_sha256 m,
       po_clock = ma_clock m \<rparr>"

definition open_resolver :: "store \<Rightarrow> resolver" where
  "open_resolver st = \<lparr> rv_memory = [], rv_unavailable = [], rv_store = st \<rparr>"

section \<open>Dictionary forms\<close>

definition stats_dict :: "scan_stats \<Rightarrow> dict" where
  "stats_dict n =
     [(''chain'', JStr (sn_chain n)), (''start_block'', opt_int_json (sn_start_block n)),
      (''end_block'', opt_int_json (sn_end_block n)), (''blocks'', jnat (sn_blocks n)),
      (''deployments'', jnat (sn_deployments n)), (''upgrades'', jnat (sn_upgrades n)), (''events'', jnat (sn_events n)),
      (''alerts'', jnat (sn_alerts n)), (''profiles_refreshed'', jnat (sn_profiles_refreshed n)),
      (''profile_changes'', jnat (sn_profile_changes n)), (''invariants_checked'', jnat (sn_invariants_checked n)),
      (''invariant_transitions'', jnat (sn_invariant_transitions n)),
      (''rpc_endpoint_count'', JInt (sn_rpc_endpoint_count n)), (''rpc_active_endpoint'', JInt (sn_rpc_active_endpoint n))]"

definition incident_dict :: "incident_record \<Rightarrow> dict" where
  "incident_dict i =
     [(''incident_id'', JStr (in_incident_id i)), (''event_id'', JStr (in_event_id i)),
      (''status'', JStr (status_value (in_status i))), (''severity'', JStr (severity_value (in_severity i))),
      (''protocol'', opt_json (in_protocol i)), (''owner'', opt_json (in_owner i)),
      (''created_at'', JStr (in_created_at i)), (''updated_at'', JStr (in_updated_at i)), (''due_at'', JStr (in_due_at i)),
      (''acknowledged_at'', opt_json (in_acknowledged_at i)), (''closed_at'', opt_json (in_closed_at i)),
      (''disposition'', opt_json (in_disposition i))]"

end
