(* ===== verification/Command_Line.thy ===== *)
theory Command_Line
  imports Runtime Reporting Attack_Bundle Graph_Pages Abi
begin

text \<open>
  The commands of \<^verbatim>\<open>src/white_radar/cli.py\<close>, one function per \<^verbatim>\<open>cmd_\<close> function. A command is given the
  machine, the settings, the watchlist and the store; it ends with an exit code or the exception
  that left it, what it printed or wrote to a file of its own, and the store. The bundle that
  \<^verbatim>\<open>investigate\<close> writes goes to a destination of \<open>Bundle_Files\<close>. Logging is left out.
\<close>

section \<open>How a command ends\<close>

text \<open>An operating-system error is no exception of the program's own; \<open>Interrupted\<close> ends the observer.\<close>

datatype failure = Raised exn | OsError | Interrupted

datatype effect =
    Pretty json | Compact json | Page unicode | EventLine radar_event
  | HealthReport "bool \<times> int \<times> service_health list"
  | Neighborhood "node_row list \<times> edge_row list"
  | Counters "nat \<times> nat \<times> nat" intelligence "(string \<times> nat) list" "bool \<times> int \<times> service_health list" "cursor_row list"
  | Transitioned incident_record "history_row list"
  | WroteText unicode | WroteRows "(string \<times> field) list list"
  | NoEvent | Complaint exn

type_synonym ended = "(failure + int) \<times> effect list \<times> store"

definition stops :: "exn \<Rightarrow> store \<Rightarrow> ended" where
  "stops e st = (Inl (Raised e), [], st)"

definition exits :: "int \<Rightarrow> effect list \<Rightarrow> store \<Rightarrow> ended" where
  "exits code fx st = (Inr code, fx, st)"

text \<open>A value that is computed before anything is printed.\<close>

definition given :: "'a res \<Rightarrow> store \<Rightarrow> ('a \<Rightarrow> ended) \<Rightarrow> ended" where
  "given r st f = (case r of Inl e \<Rightarrow> stops e st | Inr x \<Rightarrow> f x)"

section \<open>Chains\<close>

definition selected_chains :: "settings \<Rightarrow> string list \<Rightarrow> chain_config list res" where
  "selected_chains s names =
     (if names = [] then Inr (enabled_chains (se_chains s))
      else and_then (traverse (chain_by_name (se_chains s)) names) (\<lambda>cs.
        if list_ex (\<lambda>c. \<not> cc_enabled c) cs then Inl ConfigurationError else Inr cs))"

definition enabled_chain :: "settings \<Rightarrow> string \<Rightarrow> chain_config res" where
  "enabled_chain s name =
     and_then (chain_by_name (se_chains s) name) (\<lambda>c. if cc_enabled c then Inr c else Inl ConfigurationError)"

definition validated_address :: "string \<Rightarrow> string res" where
  "validated_address a = (if is_hex_string 40 (lower a) then Inr (lower a) else Inl ConfigurationError)"

section \<open>Scanning\<close>

definition heartbeat :: "machine \<Rightarrow> string \<Rightarrow> chain_config \<Rightarrow> string \<Rightarrow> dict \<Rightarrow> exn option \<Rightarrow> store \<Rightarrow> store res" where
  "heartbeat m service c status details failed st =
     record_heartbeat (ma_clock m) service (cc_chain_id c) status ((''chain'', JStr (cc_name c)) # details)
       (map_option (ma_class_name m) failed) st"

text \<open>The \<^verbatim>\<open>except\<close> branch of \<^verbatim>\<open>_scan_once\<close>\<close>

definition degraded_scan :: "machine \<Rightarrow> chain_config \<Rightarrow> exn \<Rightarrow> store \<Rightarrow> dict res \<times> store" where
  "degraded_scan m c e st =
     (case heartbeat m ''confirmed_scanner'' c ''degraded'' [] (Some e) st of
        Inl e' \<Rightarrow> (Inl e', st)
      | Inr st' \<Rightarrow> (Inr [(''chain'', JStr (cc_name c)), (''error'', JStr (ma_message m e))], st'))"

definition scan_chain :: "machine \<Rightarrow> settings \<Rightarrow> watchlist \<Rightarrow> chain_config \<Rightarrow> store \<Rightarrow> dict res \<times> store" where
  "scan_chain m s w c st =
     (case open_scanner m s w c of
        Inl e \<Rightarrow> degraded_scan m c e st
      | Inr sc \<Rightarrow>
          (case scan sc st of
             (Inl e, st', n) \<Rightarrow> degraded_scan m c e st'
           | (Inr u, st', n) \<Rightarrow>
               (case heartbeat m ''confirmed_scanner'' c ''ok'' [(''cycle'', JObj (stats_dict n))] None st' of
                  Inl e \<Rightarrow> degraded_scan m c e st'
                | Inr st'' \<Rightarrow> (Inr (stats_dict n), st''))))"

fun scan_chains :: "machine \<Rightarrow> settings \<Rightarrow> watchlist \<Rightarrow> chain_config list \<Rightarrow> store \<Rightarrow> dict list res \<times> store" where
  "scan_chains m s w [] st = (Inr [], st)"
| "scan_chains m s w (c # cs) st =
     (case scan_chain m s w c st of
        (Inl e, st') \<Rightarrow> (Inl e, st')
      | (Inr r, st') \<Rightarrow>
          (case scan_chains m s w cs st' of (rs, st'') \<Rightarrow> (and_then rs (\<lambda>rs. Inr (r # rs)), st'')))"

text \<open>\<^verbatim>\<open>_scan_once\<close>\<close>

definition scan_once :: "machine \<Rightarrow> settings \<Rightarrow> watchlist \<Rightarrow> string list \<Rightarrow> store \<Rightarrow> dict list res \<times> store" where
  "scan_once m s w names st =
     (case selected_chains s names of Inl e \<Rightarrow> (Inl e, st) | Inr cs \<Rightarrow> scan_chains m s w cs st)"

definition cmd_run_once :: "machine \<Rightarrow> settings \<Rightarrow> watchlist \<Rightarrow> string list \<Rightarrow> store \<Rightarrow> ended" where
  "cmd_run_once m s w names st =
     (case scan_once m s w names st of
        (Inl e, st') \<Rightarrow> stops e st'
      | (Inr rs, st') \<Rightarrow>
          exits (if list_ex (\<lambda>r. has_key r ''error'') rs then 1 else 0) [Pretty (JList (map JObj rs))] st')"

text \<open>\<^verbatim>\<open>cmd_daemon\<close>: the machine as each cycle meets it, up to the signal that ends the loop.\<close>

fun cmd_daemon :: "machine list \<Rightarrow> settings \<Rightarrow> watchlist \<Rightarrow> string list \<Rightarrow> store \<Rightarrow> ended" where
  "cmd_daemon [] s w names st = exits 0 [] st"
| "cmd_daemon (m # ms) s w names st =
     (case scan_once m s w names st of
        (Inl e, st') \<Rightarrow> stops e st'
      | (Inr rs, st') \<Rightarrow>
          (case cmd_daemon ms s w names st' of
             (r, fx, st'') \<Rightarrow> (r, Compact (JObj [(''cycle'', JList (map JObj rs))]) # fx, st'')))"

definition cmd_refresh_profiles ::
  "machine \<Rightarrow> settings \<Rightarrow> watchlist \<Rightarrow> string \<Rightarrow> int \<Rightarrow> int \<Rightarrow> store \<Rightarrow> ended" where
  "cmd_refresh_profiles m s w name limit min_age st =
     given (enabled_chain s name) st (\<lambda>c.
     given (open_scanner m s w c) st (\<lambda>sc.
     case refresh_profiles sc (max 1 (min 500 limit)) (max 0 min_age) st of
       (Inl e, st', n) \<Rightarrow>
         (case heartbeat m ''profile_refresh'' c ''degraded'' [] (Some e) st' of
            Inl e' \<Rightarrow> stops e' st' | Inr st'' \<Rightarrow> stops e st'')
     | (Inr u, st', n) \<Rightarrow>
         (case heartbeat m ''profile_refresh'' c ''ok'' [(''cycle'', JObj (stats_dict n))] None st' of
            Inl e' \<Rightarrow> stops e' st' | Inr st'' \<Rightarrow> exits 0 [Pretty (JObj (stats_dict n))] st'')))"

definition cmd_check_invariants :: "machine \<Rightarrow> settings \<Rightarrow> watchlist \<Rightarrow> string \<Rightarrow> store \<Rightarrow> ended" where
  "cmd_check_invariants m s w name st =
     given (enabled_chain s name) st (\<lambda>c.
     given (open_scanner m s w c) st (\<lambda>sc.
     case check_invariants sc st of
       (Inl e, st', n) \<Rightarrow> stops e st'
     | (Inr u, st', n) \<Rightarrow> exits 0 [Pretty (JObj (stats_dict n))] st'))"

text \<open>\<^verbatim>\<open>watch-pending\<close> returns only by an exception; when the endpoint has done all it does, it is
  interrupted.\<close>

definition cmd_watch_pending :: "machine \<Rightarrow> settings \<Rightarrow> watchlist \<Rightarrow> string \<Rightarrow> store \<Rightarrow> ended" where
  "cmd_watch_pending m s w name st =
     given (enabled_chain s name) st (\<lambda>c.
       let ws = configured_endpoints (ma_env m) (cc_rpc_ws_env c) (cc_rpc_ws_fallback_envs c);
           us = http_endpoints m c;
           call = (case open_client m us of Inl e \<Rightarrow> (\<lambda>method params. Inl e) | Inr call \<Rightarrow> call)
       in given (stream_ready ws us (addresses_for_chain w (cc_chain_id c)) (load_policy_book (ma_policies m)) call c) st (\<lambda>book.
          case sessions \<lparr> ps_observer = open_observer m s w c book call, ps_hosts = map (ma_host m) ws,
                 ps_http_endpoints = length us, ps_class_name = ma_class_name m \<rparr>
               (ma_connections m) (stream_start, open_resolver st) of
            (trace, Inl e, s', r) \<Rightarrow> stops e (rv_store r)
          | (trace, Inr u, s', r) \<Rightarrow> (Inl Interrupted, [], rv_store r)))"

section \<open>Reading the store\<close>

text \<open>\<^verbatim>\<open>next((item for item in events if item.event_id == event_id), None)\<close> or the latest\<close>

definition pick_event :: "string \<Rightarrow> radar_event list \<Rightarrow> radar_event option" where
  "pick_event i es = (if i \<noteq> [] then find (\<lambda>e. ev_event_id e = i) es else case es of [] \<Rightarrow> None | e # r \<Rightarrow> Some e)"

definition cmd_preview :: "settings \<Rightarrow> string \<Rightarrow> store \<Rightarrow> ended" where
  "cmd_preview s i st =
     given (recent_events st (if i \<noteq> [] then 100 else 1)) st (\<lambda>es.
     case pick_event i es of
       None \<Rightarrow> exits 1 [NoEvent] st
     | Some e \<Rightarrow> given (chain_by_name (se_chains s) (ev_chain e)) st (\<lambda>c.
         given (render_event e c) st (\<lambda>t. exits 0 [Page t] st)))"

definition find_event :: "store \<Rightarrow> string \<Rightarrow> radar_event option res" where
  "find_event st i = and_then (recent_events st (if i \<noteq> [] then 500 else 1)) (\<lambda>es. Inr (pick_event i es))"

definition cmd_report :: "machine \<Rightarrow> settings \<Rightarrow> string \<Rightarrow> string option \<Rightarrow> int \<Rightarrow> store \<Rightarrow> ended" where
  "cmd_report m s i output depth st =
     given (find_event st i) st (\<lambda>found.
     case found of
       None \<Rightarrow> exits 1 [NoEvent] st
     | Some e \<Rightarrow> given (chain_by_name (se_chains s) (ev_chain e)) st (\<lambda>c.
         let graph = (if truthy_opt (ev_subject_address e)
                      then Some (identity_neighborhood st (ev_chain_id e) (the (ev_subject_address e)) depth) else None)
         in given (render_incident_report (ma_percent m) e c graph (incident_for_event st (ev_event_id e))) st (\<lambda>t.
            exits 0 (case output of
                None \<Rightarrow> [Page t]
              | Some path \<Rightarrow> [WroteText t, Compact (JObj [(''event_id'', JStr (ev_event_id e)), (''destination'', JStr path)])]) st)))"

definition digest_text :: "machine \<Rightarrow> settings \<Rightarrow> int \<Rightarrow> store \<Rightarrow> unicode res" where
  "digest_text m s hours st =
     (let h = max 1 (min (24 * 31) hours) in
      and_then (events_since (ma_clock m) st h 1000) (\<lambda>es. Inr
        (render_digest es (rev (map (\<lambda>c. (cc_name c, c)) (se_chains s))) h (Some (list_incidents st None 500))
          (map in_incident_id (overdue_incidents (ma_clock m) st 500)) (pending_telemetry_since (ma_clock m) st h 500))))"

definition cmd_digest :: "machine \<Rightarrow> settings \<Rightarrow> int \<Rightarrow> bool \<Rightarrow> store \<Rightarrow> ended" where
  "cmd_digest m s hours send_it st =
     given (digest_text m s hours st) st (\<lambda>t.
       if \<not> send_it then exits 0 [Page t] st
       else case send_digest (open_notifier m s) t of
              Inl e \<Rightarrow> (Inl (Raised e), [Page t], st)
            | Inr sent \<Rightarrow> if sent then exits 0 [Page t] st else (Inl (Raised RuntimeError), [Page t], st))"

definition cmd_incidents :: "string option \<Rightarrow> int \<Rightarrow> store \<Rightarrow> ended" where
  "cmd_incidents status limit st =
     given (case status of None \<Rightarrow> Inr None | Some t \<Rightarrow> if t = [] then Inr None else and_then (parse_status t) (\<lambda>x. Inr (Some x))) st
       (\<lambda>selected. exits 0 [Pretty (JList (map (JObj o incident_dict) (list_incidents st selected limit)))] st)"

definition cmd_incident_transition :: "machine \<Rightarrow> string \<Rightarrow> string \<Rightarrow> string \<Rightarrow> string \<Rightarrow> store \<Rightarrow> ended" where
  "cmd_incident_transition m i status actor note st =
     given (parse_status status) st (\<lambda>to.
     given (transition_incident (ma_clock m) i to actor note st) st (\<lambda>(row, st').
       exits 0 [Transitioned row (incident_history st' (in_incident_id row))] st'))"

section \<open>Health\<close>

definition expected_health_services :: "machine \<Rightarrow> settings \<Rightarrow> watchlist \<Rightarrow> (string \<times> int) list" where
  "expected_health_services m s w =
     map (\<lambda>c. (''confirmed_scanner'', cc_chain_id c)) (enabled_chains (se_chains s))
     @ map (\<lambda>c. (''pending_observer'', cc_chain_id c))
         (filter (\<lambda>c. configured_endpoints (ma_env m) (cc_rpc_ws_env c) (cc_rpc_ws_fallback_envs c) \<noteq> []
                \<and> addresses_for_chain w (cc_chain_id c) \<noteq> []) (enabled_chains (se_chains s)))"

definition health_of :: "machine \<Rightarrow> settings \<Rightarrow> watchlist \<Rightarrow> int option \<Rightarrow> store \<Rightarrow> bool \<times> int \<times> service_health list" where
  "health_of m s w stale_after st =
     health_snapshot (ma_clock m) st
       (case stale_after of None \<Rightarrow> ap_heartbeat_stale_after_seconds (se_app s) | Some n \<Rightarrow> max 30 n)
       (expected_health_services m s w)"

definition cmd_health :: "machine \<Rightarrow> settings \<Rightarrow> watchlist \<Rightarrow> int option \<Rightarrow> store \<Rightarrow> ended" where
  "cmd_health m s w stale_after st =
     (let h = health_of m s w stale_after st in exits (if fst h then 0 else 1) [HealthReport h] st)"

definition cmd_status :: "machine \<Rightarrow> settings \<Rightarrow> watchlist \<Rightarrow> store \<Rightarrow> ended" where
  "cmd_status m s w st =
     exits 0 [Counters (counts st) (intelligence_counts st) (incident_counts st) (health_of m s w None st) (cursors st)] st"

definition cmd_events :: "int \<Rightarrow> store \<Rightarrow> ended" where
  "cmd_events limit st = given (recent_events st (max 1 (min 500 limit))) st (\<lambda>es. exits 0 (map EventLine es) st)"

definition cmd_export :: "string \<Rightarrow> store \<Rightarrow> ended" where
  "cmd_export path st =
     exits 0 [WroteRows (export_rows st),
       Compact (JObj [(''events'', jnat (length (export_rows st))), (''destination'', JStr path)])] st"

definition cmd_graph :: "settings \<Rightarrow> string \<Rightarrow> string \<Rightarrow> int \<Rightarrow> store \<Rightarrow> ended" where
  "cmd_graph s name address depth st =
     given (chain_by_name (se_chains s) name) st (\<lambda>c.
       exits 0 [Neighborhood (identity_neighborhood st (cc_chain_id c) address depth)] st)"

end
