(* ===== verification/Command_Evidence.thy ===== *)
theory Command_Evidence
  imports Command_Line
begin

text \<open>
  The commands of \<^verbatim>\<open>src/white_radar/cli.py\<close> that ask a node: \<^verbatim>\<open>cmd_doctor\<close>, \<^verbatim>\<open>cmd_simulate\<close>,
  \<^verbatim>\<open>cmd_proxy_inspect\<close>, \<^verbatim>\<open>cmd_abi\<close> and \<^verbatim>\<open>cmd_investigate\<close>, then \<^verbatim>\<open>cmd_init\<close> and \<^verbatim>\<open>main\<close>. Paths are left out of
  what is printed.
\<close>

section \<open>\<open>doctor\<close>\<close>

definition doctor_check :: "string \<Rightarrow> bool \<Rightarrow> json \<Rightarrow> dict" where
  "doctor_check name ok detail = [(''check'', JStr name), (''ok'', JBool ok), (''detail'', detail)]"

definition check_ok :: "dict \<Rightarrow> bool" where
  "check_ok d = truthy (dget d ''ok'')"

definition has_value :: "machine \<Rightarrow> string \<Rightarrow> bool" where
  "has_value m name \<longleftrightarrow> strip (getenv m name) \<noteq> []"

text \<open>The client is opened on the value as it stands in the environment.\<close>

definition endpoint_check :: "machine \<Rightarrow> chain_config \<Rightarrow> string \<Rightarrow> dict" where
  "endpoint_check m c name =
     (case and_then (open_client m [getenv m name]) rpc_chain_id of
        Inl e \<Rightarrow> [(''environment_variable'', JStr name), (''ok'', JBool False), (''error_class'', JStr (ma_class_name m e))]
      | Inr actual \<Rightarrow> [(''environment_variable'', JStr name), (''ok'', JBool (actual = cc_chain_id c)),
          (''expected_chain_id'', JInt (cc_chain_id c)), (''actual_chain_id'', JInt actual)])"

definition endpoint_names :: "chain_config \<Rightarrow> string list" where
  "endpoint_names c = cc_rpc_http_env c # cc_rpc_http_fallback_envs c"

definition chain_check :: "machine \<Rightarrow> bool \<Rightarrow> chain_config \<Rightarrow> dict" where
  "chain_check m online c =
     (let present = filter (has_value m) (endpoint_names c);
          results = map (endpoint_check m c) present
      in if online \<and> has_value m (cc_rpc_http_env c)
         then doctor_check (''rpc:'' @ cc_name c) (results \<noteq> [] \<and> list_all check_ok results) (JList (map JObj results))
         else doctor_check (''rpc:'' @ cc_name c) (has_value m (cc_rpc_http_env c))
           (JObj [(''configured_endpoint_variables'', jstrs (endpoint_names c)), (''present_endpoint_variables'', jstrs present)]))"

definition doctor_checks :: "machine \<Rightarrow> settings \<Rightarrow> watchlist \<Rightarrow> bool \<Rightarrow> policy_book \<Rightarrow> dict list" where
  "doctor_checks m s w online book =
     (let enabled = enabled_chains (se_chains s) in
      [doctor_check ''enabled_chains'' (enabled \<noteq> []) (jstrs (map cc_name enabled)),
       doctor_check ''policy_pack'' True
         (JObj [(''policies'', jnat (length (pb_policies book))), (''sha256'', opt_json (pb_source_sha256 book))]),
       doctor_check ''database_parent'' (ma_database_parent m) JNull,
       doctor_check ''watchlist'' True
         (JObj [(''contracts'', jnat (length (wl_contracts w))), (''deployers'', jnat (length (wl_deployers w)))])]
      @ map (chain_check m online) enabled
      @ (if tg_enabled (se_telegram s)
         then [doctor_check ''telegram_credentials'' (has_value m ''TELEGRAM_BOT_TOKEN'' \<and> has_value m ''TELEGRAM_CHAT_ID'')
                 (JStr ''credential presence only; values were not printed'')]
         else []))"

definition cmd_doctor :: "machine \<Rightarrow> settings \<Rightarrow> watchlist \<Rightarrow> bool \<Rightarrow> store \<Rightarrow> ended" where
  "cmd_doctor m s w online st =
     given (load_policy_book (ma_policies m)) st (\<lambda>book.
       let checks = doctor_checks m s w online book; ok = list_all check_ok checks
       in exits (if ok then 0 else 1)
            [Pretty (JObj [(''ok'', JBool ok), (''dry_run'', JBool (ap_dry_run (se_app s))), (''checks'', JList (map JObj checks))])] st)"

section \<open>\<open>simulate\<close>, \<open>inspect-proxy\<close>, \<open>abi\<close>\<close>

definition cmd_simulate ::
  "machine \<Rightarrow> settings \<Rightarrow> watchlist \<Rightarrow> string \<Rightarrow> string \<Rightarrow> int option \<Rightarrow> bool \<Rightarrow> store \<Rightarrow> ended" where
  "cmd_simulate m s w name tx_hash block trace st =
     given (chain_by_name (se_chains s) name) st (\<lambda>c.
     given (rpc_for_chain m c) st (\<lambda>call.
     given (rpc_transaction call tx_hash) st (\<lambda>found.
     case found of
       None \<Rightarrow> stops RuntimeError st
     | Some transaction \<Rightarrow>
         if transaction = [] then stops RuntimeError st
         else if watch_contract w (cc_chain_id c) (lower (str_or (dget transaction ''to'') [])) = None
         then stops ConfigurationError st
         else given (simulate_transaction (ma_sha256 m) call transaction block trace) st (\<lambda>r.
           exits 0 [Pretty (simulation_json r)] st))))"

definition cmd_proxy_inspect :: "machine \<Rightarrow> settings \<Rightarrow> string \<Rightarrow> string \<Rightarrow> int option \<Rightarrow> store \<Rightarrow> ended" where
  "cmd_proxy_inspect m s name address block st =
     given (chain_by_name (se_chains s) name) st (\<lambda>c.
     given (rpc_for_chain m c) st (\<lambda>call.
     given (validated_address address) st (\<lambda>a.
     given (inspect_proxy (ma_sha256 m) (ma_blake8 m) call a block) st (\<lambda>snapshot.
       exits 0 [Pretty (snapshot_json snapshot)] st))))"

definition cmd_abi :: "machine \<Rightarrow> settings \<Rightarrow> string \<Rightarrow> string \<Rightarrow> bool \<Rightarrow> store \<Rightarrow> ended" where
  "cmd_abi m s name address refresh st =
     given (chain_by_name (se_chains s) name) st (\<lambda>c.
     given (validated_address address) st (\<lambda>a.
     case abi_catalog (ma_abi m) (cc_chain_id c) a refresh (open_resolver st) of
       (Inl e, r) \<Rightarrow> stops e (rv_store r)
     | (Inr (selectors, source, digest), r) \<Rightarrow>
         exits (if selectors \<noteq> [] then 0 else 1)
           [Pretty (JObj [(''chain'', JStr (cc_name c)), (''address'', JStr a), (''source'', opt_json source),
              (''abi_sha256'', opt_json digest), (''selectors'', JObj (map (\<lambda>(sel, t). (sel, JStr t)) selectors))])]
           (rv_store r)))"

section \<open>\<open>investigate\<close>\<close>

text \<open>What \<^verbatim>\<open>investigate\<close> ends with: the catalogs its resolver stores on the way are left out.\<close>

type_synonym evidence = "(failure + int) \<times> effect list \<times> destination"

definition aborted :: "failure \<Rightarrow> destination \<Rightarrow> evidence" where
  "aborted f d = (Inl f, [], d)"

definition obtained :: "'a res \<Rightarrow> destination \<Rightarrow> ('a \<Rightarrow> evidence) \<Rightarrow> evidence" where
  "obtained r d f = (case r of Inl e \<Rightarrow> aborted (Raised e) d | Inr x \<Rightarrow> f x)"

text \<open>\<^verbatim>\<open>FileExistsError\<close> becomes \<^verbatim>\<open>ValueError\<close>, as the other two refusals are.\<close>

fun bundle_failure :: "bundle_error \<Rightarrow> failure" where
  "bundle_failure NotADirectory = Raised ValueError"
| "bundle_failure SymbolicLinks = Raised ValueError"
| "bundle_failure FilesExist = Raised ValueError"
| "bundle_failure IsADirectory = OsError"

definition bundle_dict :: "bundle_result \<Rightarrow> json" where
  "bundle_dict b = JObj [(''files'', jstrs (br_files b)), (''manifest'', JStr (br_manifest b))]"

definition case_summary :: "investigation_case \<Rightarrow> bundle_result \<Rightarrow> json" where
  "case_summary k b = JObj
     [(''tool'', JObj [(''name'', JStr ''WhiteRadar Incident''), (''version'', JStr tool_version)]),
      (''case_id'', JStr (ik_id k)), (''mode'', JStr ''single_transaction''),
      (''transaction_hash'', JStr (ik_transaction_hash k)), (''status'', JStr (ik_transaction_status k)),
      (''calls'', jnat (length (ik_calls k))), (''events'', jnat (length (ik_events k))),
      (''transfers'', jnat (length (ik_transfers k))),
      (''committed_transfers'', jnat (with_effect EXECUTION_COMMITTED (ik_transfers k))),
      (''reverted_transfer_attempts'', jnat (with_effect EXECUTION_ATTEMPTED_REVERTED (ik_transfers k))),
      (''state_accounts'', jnat (length (changed_accounts k))), (''entities'', jnat (length (ik_entities k))),
      (''findings'', jnat (length (ik_findings k))), (''warnings'', jstrs (ik_warnings k)), (''bundle'', bundle_dict b)]"

definition attack_summary_json :: "attack_case \<Rightarrow> bundle_result \<Rightarrow> json" where
  "attack_summary_json a b = JObj
     [(''tool'', JObj [(''name'', JStr (ar_tool_name a)), (''version'', JStr (ar_tool_version a))]),
      (''case_id'', JStr (ar_reconstruction_id a)), (''mode'', JStr ''cross_transaction_reconstruction''),
      (''seed_transaction_hash'', JStr (ar_seed_hash a)), (''transactions'', jnat (length (ar_transactions a))),
      (''core_transactions'', jnat (cv_core_transactions (ar_coverage a))),
      (''committed_transfers'', jnat (with_effect EXECUTION_COMMITTED (all_transfers a))),
      (''reverted_transfer_attempts'', jnat (with_effect EXECUTION_ATTEMPTED_REVERTED (all_transfers a))),
      (''relationships'', jnat (length (ar_edges a))), (''entities'', jnat (length (ar_entities a))),
      (''coverage'', JObj (coverage_dict (ar_coverage a))), (''warnings'', jstrs (ar_warnings a)), (''bundle'', bundle_dict b)]"

datatype history_kind = AutoHistory | EtherscanHistory | RpcHistory

type_synonym cli_history = "(explorer_state, window_state) composite_state"

definition api_key :: "machine \<Rightarrow> string" where
  "api_key m = strip (getenv m ''ETHERSCAN_API_KEY'')"

definition window_of :: "recon_limits \<Rightarrow> window_config" where
  "window_of l = mk_window_config (max 1 (lm_backward_blocks l + lm_forward_blocks l + 1)) 150000 1000"

text \<open>The three sources over one state.\<close>

definition history_fetch :: "machine \<Rightarrow> rpc \<Rightarrow> recon_limits \<Rightarrow> history_kind \<Rightarrow> query \<Rightarrow> cli_history \<Rightarrow> history_record list res \<times> cli_history" where
  "history_fetch m call l kind q h =
     (let explorer = explorer_records (ma_explorer m) (api_key m); window = window_records call (window_of l) in
      case kind of
        RpcHistory \<Rightarrow> composite_records False explorer window q h
      | EtherscanHistory \<Rightarrow> (case h of (ws, p, f) \<Rightarrow> (case explorer q p of (r, p') \<Rightarrow> (r, (ws, p', f))))
      | AutoHistory \<Rightarrow> composite_records (api_key m \<noteq> []) explorer window q h)"

definition history_notes :: "machine \<Rightarrow> history_kind \<Rightarrow> cli_history \<Rightarrow> string list" where
  "history_notes m kind h =
     (case h of (ws, p, f) \<Rightarrow>
        (case kind of
           RpcHistory \<Rightarrow> window_warnings f
         | EtherscanHistory \<Rightarrow> explorer_warnings p
         | AutoHistory \<Rightarrow> composite_warnings ws (if api_key m \<noteq> [] then explorer_warnings p else []) (window_warnings f)))"

definition fresh_history :: cli_history where
  "fresh_history = ([], \<lparr> es_warnings = [], es_cache = [] \<rparr>, \<lparr> ws_warnings = [], ws_normal_cache = [], ws_address_cache = [] \<rparr>)"

definition investigation_of :: "machine \<Rightarrow> settings \<Rightarrow> watchlist \<Rightarrow> investigation_env" where
  "investigation_of m s w =
     \<lparr> ie_sha256 = ma_sha256 m, ie_blake8 = ma_blake8 m,
       ie_isoformat = (\<lambda>n. case ma_isoformat m n of Inl e \<Rightarrow> None | Inr t \<Rightarrow> Some t),
       ie_resolver = (if an_abi_resolution_enabled (se_analysis s) then Some (ma_abi m) else None),
       ie_watchlist = Some w, ie_clock = ma_clock m \<rparr>"

record investigate_args =
  iv_chain :: string
  iv_tx_hash :: string
  iv_trace :: bool
  iv_state_diff :: bool
  iv_replay :: bool
  iv_overwrite :: bool
  iv_single :: bool
  iv_limits :: recon_limits
  iv_source :: history_kind

text \<open>The defaults of \<^verbatim>\<open>build_parser\<close> for what need not be given.\<close>

definition investigate_defaults :: "string \<Rightarrow> string \<Rightarrow> investigate_args" where
  "investigate_defaults chain tx_hash =
     \<lparr> iv_chain = chain, iv_tx_hash = tx_hash, iv_trace = True, iv_state_diff = True, iv_replay = True, iv_overwrite = False,
       iv_single = False,
       iv_limits = \<lparr> lm_backward_blocks = 256, lm_forward_blocks = 512, lm_max_hops = 3, lm_max_transactions = 100,
         lm_max_frontier_addresses = 64, lm_history_records = 200, lm_hub_min_records = 64, lm_hub_min_counterparties = 32,
         lm_max_hub_transactions = 12 \<rparr>,
       iv_source = AutoHistory \<rparr>"

definition options_of :: "investigate_args \<Rightarrow> investigation_options" where
  "options_of a = \<lparr> io_include_trace = iv_trace a, io_include_state_diff = iv_state_diff a, io_replay_prestate = iv_replay a \<rparr>"

definition attack_env :: "machine \<Rightarrow> settings \<Rightarrow> watchlist \<Rightarrow> investigate_args \<Rightarrow> chain_config \<Rightarrow> rpc \<Rightarrow> cli_history recon_env" where
  "attack_env m s w a c call =
     \<lparr> rc_chain = c, rc_rpc = call, rc_investigation = investigation_of m s w, rc_options = options_of a,
       rc_tokens = Some (ma_utf8 m, 64), rc_fetch = history_fetch m call (iv_limits a) (iv_source a),
       rc_history_warnings = history_notes m (iv_source a), rc_after_failure = ma_after_failure m,
       rc_class_name = ma_class_name m, rc_limits = iv_limits a, rc_seed_hash = [], rc_seed_block = 0, rc_start = 0, rc_end = 0 \<rparr>"

definition single_bundle :: "machine \<Rightarrow> bool \<Rightarrow> investigation_case \<Rightarrow> destination \<Rightarrow> evidence" where
  "single_bundle m overwrite k d =
     (case write_case_bundle (ma_sha256 m) CASE_PAGE k overwrite d of
        (Inl e, d') \<Rightarrow> aborted (bundle_failure e) d'
      | (Inr b, d') \<Rightarrow> (Inr 0, [Pretty (case_summary k b)], d'))"

definition attack_bundle :: "machine \<Rightarrow> bool \<Rightarrow> attack_case \<Rightarrow> destination \<Rightarrow> evidence" where
  "attack_bundle m overwrite r d =
     (case write_reconstruction_bundle (ma_sha256 m) RECONSTRUCTION_PAGE r overwrite d of
        (Inl e, d') \<Rightarrow> aborted (Raised e) d'
      | (Inr (Inl e), d') \<Rightarrow> aborted (bundle_failure e) d'
      | (Inr (Inr b), d') \<Rightarrow> (Inr 0, [Pretty (attack_summary_json r b)], d'))"

definition cmd_investigate ::
  "machine \<Rightarrow> settings \<Rightarrow> watchlist \<Rightarrow> investigate_args \<Rightarrow> store \<Rightarrow> destination \<Rightarrow> evidence" where
  "cmd_investigate m s w a st d =
     obtained (chain_by_name (se_chains s) (iv_chain a)) d (\<lambda>c.
     obtained (validate_transaction_hash (iv_tx_hash a)) d (\<lambda>tx_hash.
     obtained (rpc_for_chain m c) d (\<lambda>call.
     obtained (investigate_transaction (investigation_of m s w) call c tx_hash (options_of a) (open_resolver st)) d (\<lambda>(k0, r).
     case enrich_case (ma_utf8 m) call 64 k0 no_tokens of
       (Inl e, tc) \<Rightarrow> aborted (Raised e) d
     | (Inr k, tc) \<Rightarrow>
         if iv_single a then single_bundle m (iv_overwrite a) k d
         else if iv_source a = EtherscanHistory \<and> api_key m = [] then aborted (Raised ConfigurationError) d
         else obtained (reconstruct_attack_case (attack_env m s w a c call) k fresh_history r tc) d (\<lambda>attack.
           attack_bundle m (iv_overwrite a) attack d)))))"

section \<open>\<open>init\<close>\<close>

text \<open>The files copied from the package when their target does not exist, and the directory \<^verbatim>\<open>data\<close>. A
  link of that name whose target exists is taken to lead to a directory.\<close>

fun copy_missing :: "(string \<times> bytes) list \<Rightarrow> folder \<Rightarrow> string list \<times> folder" where
  "copy_missing [] fs = ([], fs)"
| "copy_missing ((n, b) # files) fs =
     (if entry_exists (fs n) then copy_missing files fs
      else case copy_missing files (fs(n \<mapsto> (if entry_link (fs n) then Link True else Regular b))) of
             (created, fs') \<Rightarrow> (n # created, fs'))"

definition cmd_init :: "string \<Rightarrow> (string \<Rightarrow> bytes) \<Rightarrow> folder \<Rightarrow> (failure + int) \<times> effect list \<times> folder" where
  "cmd_init config_name example fs =
     (case copy_missing [(config_name, example ''config.example.toml''), (''watchlist.toml'', example ''watchlist.example.toml''),
              (''policies.toml'', example ''policies.example.toml''), (''.env'', example ''.env.example'')] fs of
        (created, fs') \<Rightarrow>
          (case fs' ''data'' of
             None \<Rightarrow> (Inr 0, [Pretty (JObj [(''created'', jstrs created), (''existing_files_preserved'', JBool True)])], fs'(''data'' \<mapsto> Subfolder))
           | Some e \<Rightarrow>
               if e = Subfolder \<or> e = Link True
               then (Inr 0, [Pretty (JObj [(''created'', jstrs created), (''existing_files_preserved'', JBool True)])], fs')
               else (Inl OsError, [], fs')))"

section \<open>\<open>main\<close>\<close>

datatype store_command =
    Doctor bool | RunOnce "string list" | Daemon "machine list" "string list"
  | WatchPending string | RefreshProfiles string int int | Status | Events int | Export string | PreviewAlert string
  | Graph string string int | Report string "string option" int | Digest int bool | Incidents "string option" int
  | IncidentTransition string string string string | Health "int option" | Simulate string string "int option" bool
  | InspectProxy string string "int option" | CheckInvariants string | AbiCatalog string string bool

datatype command = Investigate investigate_args | OnStore store_command

text \<open>A cycle of the daemon meets a new machine, but has the environment and the digest of its process.\<close>

definition same_process :: "machine \<Rightarrow> machine \<Rightarrow> machine" where
  "same_process m x = x\<lparr> ma_env := ma_env m, ma_digest := ma_digest m \<rparr>"

text \<open>The branches of \<^verbatim>\<open>main\<close>\<close>

definition run_on_store :: "machine \<Rightarrow> settings \<Rightarrow> watchlist \<Rightarrow> store_command \<Rightarrow> store \<Rightarrow> ended" where
  "run_on_store m s w cmd st =
     (case cmd of
        Doctor online \<Rightarrow> cmd_doctor m s w online st
      | RunOnce names \<Rightarrow> cmd_run_once m s w names st
      | Daemon ms names \<Rightarrow> cmd_daemon (map (same_process m) ms) s w names st
      | WatchPending name \<Rightarrow> cmd_watch_pending m s w name st
      | RefreshProfiles name limit min_age \<Rightarrow> cmd_refresh_profiles m s w name limit min_age st
      | Status \<Rightarrow> cmd_status m s w st
      | Events limit \<Rightarrow> cmd_events limit st
      | Export path \<Rightarrow> cmd_export path st
      | PreviewAlert i \<Rightarrow> cmd_preview s i st
      | Graph name address depth \<Rightarrow> cmd_graph s name address depth st
      | Report i output depth \<Rightarrow> cmd_report m s i output depth st
      | Digest hours send_it \<Rightarrow> cmd_digest m s hours send_it st
      | Incidents status limit \<Rightarrow> cmd_incidents status (max 1 (min 500 limit)) st
      | IncidentTransition i status actor note \<Rightarrow> cmd_incident_transition m i status actor note st
      | Health stale_after \<Rightarrow> cmd_health m s w stale_after st
      | Simulate name tx_hash block trace \<Rightarrow> cmd_simulate m s w name tx_hash block trace st
      | InspectProxy name address block \<Rightarrow> cmd_proxy_inspect m s name address block st
      | CheckInvariants name \<Rightarrow> cmd_check_invariants m s w name st
      | AbiCatalog name address refresh \<Rightarrow> cmd_abi m s name address refresh st)"

definition run_command :: "machine \<Rightarrow> command \<Rightarrow> store \<Rightarrow> destination \<Rightarrow> (failure + int) \<times> effect list \<times> store \<times> destination" where
  "run_command m0 cmd st d =
     (case load_runtime m0 of
        Inl e \<Rightarrow> (Inl (Raised e), [], st, d)
      | Inr (m, s, w) \<Rightarrow>
          (case cmd of
             Investigate a \<Rightarrow>
               (case obtained (checked_limits (iv_limits a)) d (\<lambda>l. cmd_investigate m s w a st d) of
                  (r, fx, d') \<Rightarrow> (r, fx, st, d'))
           | OnStore sc \<Rightarrow> (case run_on_store m s w sc st of (r, fx, st') \<Rightarrow> (r, fx, st', d))))"

definition is_reported :: "failure \<Rightarrow> bool" where
  "is_reported f = (case f of Raised e \<Rightarrow> is_value_error e \<or> is_runtime_error e | _ \<Rightarrow> False)"

text \<open>\<^verbatim>\<open>except (ConfigurationError, RuntimeError, ValueError)\<close>\<close>

definition main :: "machine \<Rightarrow> command \<Rightarrow> store \<Rightarrow> destination \<Rightarrow> (failure + int) \<times> effect list \<times> store \<times> destination" where
  "main m cmd st d =
     (case run_command m cmd st d of
        (Inl f, fx, st', d') \<Rightarrow>
          (if is_reported f then (Inr 1, fx @ (case f of Raised e \<Rightarrow> [Complaint e] | _ \<Rightarrow> []), st', d') else (Inl f, fx, st', d'))
      | done_it \<Rightarrow> done_it)"

end
