(* ===== verification/Command_Facts.thy ===== *)
theory Command_Facts
  imports Command_Evidence Monitor_Facts
begin

text \<open>
  What the commands of \<^verbatim>\<open>src/white_radar/cli.py\<close> preserve of the store. The locale \<open>command_store\<close> is
  the contract between \<^verbatim>\<open>main\<close> and the store: a predicate that the scanner and the observer preserve,
  as their own contracts have it, and that a heartbeat and an incident transition preserve, is
  preserved by every command, however it ends. It is interpreted on the invariants of the store.
\<close>

section \<open>How a command ends\<close>

lemma given_cases:
  assumes "given r st f = (q, fx, st')"
  obtains "st' = st" | x where "r = Inr x" "f x = (q, fx, st')"
  using assms by (cases r) (auto simp: given_def stops_def)

lemma stops_store [simp]: "snd (snd (stops e st)) = st"
  by (simp add: stops_def)

lemma exits_store [simp]: "snd (snd (exits c fx st)) = st"
  by (simp add: exits_def)

lemma given_store: "(\<And>x. r = Inr x \<Longrightarrow> P (snd (snd (f x)))) \<Longrightarrow> P st \<Longrightarrow> P (snd (snd (given r st f)))"
  by (cases r) (simp_all add: given_def)

lemma heartbeat_Inr: "heartbeat m service c status details failed st = Inr st' \<Longrightarrow> \<exists>row. st' = put_heartbeat row st"
  by (auto simp: heartbeat_def record_heartbeat_def Let_def split: if_splits)

lemma open_scanner_fields:
  assumes "open_scanner m s w c = Inr sc"
  shows "mo_chain sc = c" "mo_digest sc = ma_digest m" "mo_clock sc = ma_clock m" "wf_book (mo_policies sc)"
  using assms by (auto simp: open_scanner_def Let_def and_then_eq_Inr split: if_splits dest: load_policy_book_wf)

lemma transition_frame:
  assumes "transition_incident ck i t actor n st = Inr (r, st')"
  shows "st_events st' = st_events st" "st_deployments st' = st_deployments st"
  using assms by (auto simp: transition_incident_def Let_def split: option.splits if_splits)

text \<open>The commands that only read it\<close>

lemma reading_kept:
  "snd (snd (cmd_doctor m s w online st)) = st" "snd (snd (cmd_status m s w st)) = st"
  "snd (snd (cmd_events limit st)) = st" "snd (snd (cmd_export path st)) = st" "snd (snd (cmd_preview s i st)) = st"
  "snd (snd (cmd_graph s name address depth st)) = st" "snd (snd (cmd_report m s i output depth st)) = st"
  "snd (snd (cmd_digest m s hours send_it st)) = st" "snd (snd (cmd_incidents status limit st)) = st"
  "snd (snd (cmd_health m s w stale_after st)) = st" "snd (snd (cmd_simulate m s w name tx block trace st)) = st"
  "snd (snd (cmd_proxy_inspect m s name address block st)) = st"
  by (auto simp: cmd_doctor_def cmd_status_def cmd_events_def cmd_export_def cmd_preview_def cmd_graph_def cmd_report_def
      cmd_digest_def cmd_incidents_def cmd_health_def cmd_simulate_def cmd_proxy_inspect_def given_def Let_def
      split: sum.split option.split)

section \<open>The contract with the store\<close>

locale command_store =
  fixes ok :: "store \<Rightarrow> bool" and dg :: "string \<Rightarrow> string"
  assumes scanner: "mo_digest sc = dg \<Longrightarrow> scan_invariant ok sc"
    and observer: "po_digest ob = dg \<Longrightarrow> observed_store ok ob"
    and keeps_beat: "ok st \<Longrightarrow> ok (put_heartbeat row st)"
    and keeps_move: "ok st \<Longrightarrow> transition_incident ck i t actor n st = Inr (r, st') \<Longrightarrow> ok st'"
begin

lemma beat_kept: "heartbeat m service c status details failed st = Inr st' \<Longrightarrow> ok st \<Longrightarrow> ok st'"
  by (auto dest!: heartbeat_Inr intro: keeps_beat)

lemma degraded_kept: "ok st \<Longrightarrow> ok (snd (degraded_scan m c e st))"
  by (auto simp: degraded_scan_def split: sum.split dest: beat_kept)

lemma scan_chain_kept:
  assumes "ma_digest m = dg" "ok st"
  shows "ok (snd (scan_chain m s w c st))"
proof (cases "open_scanner m s w c")
  case (Inl e)
  then show ?thesis by (simp add: scan_chain_def degraded_kept assms)
next
  case (Inr sc)
  note f = open_scanner_fields [OF Inr]
  obtain r st' n where run: "scan sc st = (r, st', n)" by (metis prod_cases3)
  have k: "ok st'" using f assms scan_invariant.scan_ok [OF scanner, of sc st r st' n] run by simp
  then show ?thesis
    by (auto simp: scan_chain_def Inr run degraded_kept split: sum.split dest: beat_kept)
qed

lemma scan_chains_kept: "ma_digest m = dg \<Longrightarrow> ok st \<Longrightarrow> ok (snd (scan_chains m s w cs st))"
proof (induction cs arbitrary: st)
  case (Cons c cs)
  obtain r st' where one: "scan_chain m s w c st = (r, st')" by fastforce
  have "ok st'" using scan_chain_kept [OF Cons.prems, of s w c] one by simp
  with Cons.IH [OF Cons.prems(1), of st'] one show ?case by (auto split: sum.split prod.split)
qed simp

lemma scan_once_kept: "ma_digest m = dg \<Longrightarrow> ok st \<Longrightarrow> ok (snd (scan_once m s w names st))"
  by (auto simp: scan_once_def scan_chains_kept split: sum.split)

lemma run_once_kept: "ma_digest m = dg \<Longrightarrow> ok st \<Longrightarrow> ok (snd (snd (cmd_run_once m s w names st)))"
  using scan_once_kept [of m st s w names] by (auto simp: cmd_run_once_def stops_def exits_def split: prod.split sum.split)

lemma daemon_kept: "\<forall>m \<in> set ms. ma_digest m = dg \<Longrightarrow> ok st \<Longrightarrow> ok (snd (snd (cmd_daemon ms s w names st)))"
proof (induction ms arbitrary: st)
  case (Cons m ms)
  obtain r st' where one: "scan_once m s w names st = (r, st')" by fastforce
  have "ok st'" using scan_once_kept [of m st s w names] Cons.prems one by simp
  with Cons.IH [of st'] Cons.prems one show ?case by (auto simp: stops_def split: sum.split prod.split)
qed (simp add: exits_def)

lemma refresh_kept:
  assumes "ma_digest m = dg" "ok st"
  shows "ok (snd (snd (cmd_refresh_profiles m s w name limit min_age st)))"
proof -
  have one: "ok (snd (snd (case refresh_profiles sc (max 1 (min 500 limit)) (max 0 min_age) st of
       (Inl e, st', n) \<Rightarrow>
         (case heartbeat m ''profile_refresh'' c ''degraded'' [] (Some e) st' of
            Inl e' \<Rightarrow> stops e' st' | Inr st'' \<Rightarrow> stops e st'')
     | (Inr u, st', n) \<Rightarrow>
         (case heartbeat m ''profile_refresh'' c ''ok'' [(''cycle'', JObj (stats_dict n))] None st' of
            Inl e' \<Rightarrow> stops e' st' | Inr st'' \<Rightarrow> exits 0 [Pretty (JObj (stats_dict n))] st''))))"
    if "open_scanner m s w c = Inr sc" for c sc
  proof -
    obtain r st' n where run: "refresh_profiles sc (max 1 (min 500 limit)) (max 0 min_age) st = (r, st', n)" by (metis prod_cases3)
    have "ok st'" using scan_invariant.refresh_ok [OF scanner assms(2) run] open_scanner_fields [OF that] assms(1) by simp
    then show ?thesis by (auto simp: run split: sum.split dest: beat_kept)
  qed
  show ?thesis
    unfolding cmd_refresh_profiles_def
    by (rule given_store, rule given_store, erule one) (simp_all add: assms(2))
qed

lemma check_kept:
  assumes "ma_digest m = dg" "ok st"
  shows "ok (snd (snd (cmd_check_invariants m s w name st)))"
proof -
  have one: "ok (snd (snd (case check_invariants sc st of
       (Inl e, st', n) \<Rightarrow> stops e st' | (Inr u, st', n) \<Rightarrow> exits 0 [Pretty (JObj (stats_dict n))] st')))"
    if "open_scanner m s w c = Inr sc" for c sc
  proof -
    obtain r st' n where run: "check_invariants sc st = (r, st', n)" by (metis prod_cases3)
    have "ok st'"
      using scan_invariant.check_ok [OF scanner _ assms(2) run] open_scanner_fields [OF that] assms(1) by simp
    then show ?thesis by (auto simp: run split: sum.split)
  qed
  show ?thesis
    unfolding cmd_check_invariants_def
    by (rule given_store, rule given_store, erule one) (simp_all add: assms(2))
qed

lemma watch_end:
  "ok (rv_store (snd (snd (snd x)))) \<Longrightarrow> ok (snd (snd (case x of
      (trace, Inl e, s', r) \<Rightarrow> stops e (rv_store r) | (trace, Inr u, s', r) \<Rightarrow> (Inl Interrupted, [], rv_store r))))"
  by (cases x) (auto split: sum.split)

lemma watch_kept:
  assumes "ma_digest m = dg" "ok st"
  shows "ok (snd (snd (cmd_watch_pending m s w name st)))"
proof -
  have one: "ok (rv_store (snd (snd (snd (sessions ps cons (s0, open_resolver st))))))"
    if "ps_observer ps = open_observer m s w c book call" for ps cons s0 c book call
  proof -
    obtain t r s' r' where run: "sessions ps cons (s0, open_resolver st) = (t, r, s', r')" by (metis prod_cases4)
    have "observed_store ok (ps_observer ps)" using observer that assms(1) by (simp add: open_observer_def)
    have "ok (rv_store r')"
      by (rule observed_store.sessions_kept [OF \<open>observed_store ok _\<close> refl _ run]) (simp add: open_resolver_def assms(2))
    then show ?thesis by (simp add: run)
  qed
  show ?thesis
    unfolding cmd_watch_pending_def Let_def
    by (rule given_store, rule given_store, rule watch_end, rule one) (simp_all add: assms(2))
qed

lemma abi_kept:
  assumes "ok st"
  shows "ok (snd (snd (cmd_abi m s name address refresh st)))"
proof -
  have "observed_store ok (undefined\<lparr> po_digest := dg \<rparr>)" by (rule observer) simp
  then have abi: "abi_store ok" by (rule observed_store.axioms(1))
  have one: "ok (snd (snd (case abi_catalog env c a refresh (open_resolver st) of
       (Inl e, r) \<Rightarrow> stops e (rv_store r)
     | (Inr (selectors, source, digest), r) \<Rightarrow> exits (f selectors) (g selectors source digest) (rv_store r))))" for env c a f g
  proof -
    obtain r r' where run: "abi_catalog env c a refresh (open_resolver st) = (r, r')" by fastforce
    have "ok (rv_store r')" by (rule abi_store.catalog_kept [OF abi _ run]) (simp add: open_resolver_def assms)
    then show ?thesis by (auto simp: run split: sum.split)
  qed
  show ?thesis unfolding cmd_abi_def by (rule given_store, rule given_store, rule one) (simp_all add: assms)
qed

lemma transition_kept:
  assumes "ok st"
  shows "ok (snd (snd (cmd_incident_transition m i status actor note st)))"
proof -
  have "ok (snd (snd (given (transition_incident (ma_clock m) i t actor note st) st (\<lambda>(row, st').
      exits 0 [Transitioned row (incident_history st' (in_incident_id row))] st'))))" for t
    by (cases "transition_incident (ma_clock m) i t actor note st") (auto simp: given_def assms dest: keeps_move [OF assms])
  then show ?thesis unfolding cmd_incident_transition_def by (rule given_store) (rule assms)
qed

lemma run_on_store_kept:
  assumes "ma_digest m = dg" "ok st"
  shows "ok (snd (snd (run_on_store m s w cmd st)))"
proof (cases cmd)
  case (Daemon ms names)
  have "\<forall>x \<in> set (map (same_process m) ms). ma_digest x = dg" using assms(1) by (auto simp: same_process_def)
  from daemon_kept [OF this assms(2)] Daemon show ?thesis by (simp add: run_on_store_def)
qed (use assms in \<open>simp_all add: run_on_store_def run_once_kept watch_kept refresh_kept check_kept abi_kept transition_kept
       reading_kept\<close>)

lemma main_kept:
  assumes "ma_digest m = dg" "ok st" "main m cmd st d = (r, fx, st', d')"
  shows "ok st'"
proof -
  obtain q fx1 st1 d1 where run: "run_command m cmd st d = (q, fx1, st1, d1)" by (metis prod_cases4)
  have "st' = st1" using assms(3) run by (auto simp: main_def split: sum.splits if_splits)
  moreover have "ok st1"
  proof (cases "load_runtime m")
    case (Inl e)
    with run assms(2) show ?thesis by (auto simp: run_command_def)
  next
    case (Inr x)
    obtain m1 s w where x: "x = (m1, s, w)" by (metis prod_cases3)
    with Inr have m1: "ma_digest m1 = dg" using assms(1) by (auto simp: load_runtime_def Let_def and_then_eq_Inr)
    show ?thesis
    proof (cases cmd)
      case (Investigate a)
      with run Inr x assms(2) show ?thesis by (auto simp: run_command_def split: prod.splits)
    next
      case (OnStore sc)
      with run Inr x run_on_store_kept [OF m1 assms(2), of s w sc] show ?thesis
        by (auto simp: run_command_def split: prod.splits)
    qed
  qed
  ultimately show ?thesis by simp
qed

end

text \<open>The invariants of the store.\<close>

interpretation deployments_observed: observed_store "\<lambda>st. keys_distinct deployment_key (st_deployments st)" ob for ob
  by unfold_locales
    (auto simp: store_operation_defs record_pending_telemetry_def put_telemetry_def put_abi_def put_heartbeat_def Let_def
      split: if_splits prod.splits)

interpretation events_commanded: command_store wf_events dg for dg
proof (rule command_store.intro, rule outbox.scan_invariant_axioms, rule observed_events.observed_store_axioms)
qed (simp_all add: wf_events_def put_heartbeat_def transition_frame)

interpretation incidents_commanded: command_store "incident_reach dg" dg for dg
proof (rule command_store.intro)
  fix sc :: scanner
  assume "mo_digest sc = dg"
  then show "scan_invariant (incident_reach dg) sc" using incident_store.scan_invariant_axioms [of sc] by simp
next
  fix ob :: observer
  assume "po_digest ob = dg"
  then show "observed_store (incident_reach dg) ob" using observed_incidents.observed_store_axioms [of ob] by simp
next
  fix st row
  assume "incident_reach dg st"
  then show "incident_reach dg (put_heartbeat row st)"
    by (rule incident_reach.step) (rule incident_step.frame, simp_all add: put_heartbeat_def)
next
  fix st ck i t actor n r st'
  assume "incident_reach dg st" and "transition_incident ck i t actor n st = Inr (r, st')"
  then show "incident_reach dg st'" by (blast intro: incident_reach.step incident_step.moved)
qed

interpretation deployments_commanded: command_store "\<lambda>st. keys_distinct deployment_key (st_deployments st)" dg for dg
proof (rule command_store.intro, rule deployments_once.scan_invariant_axioms, rule deployments_observed.observed_store_axioms)
qed (simp_all add: put_heartbeat_def transition_frame)

interpretation scores_commanded: command_store scored_events dg for dg
proof (rule command_store.intro, rule scored.scan_invariant_axioms, rule observed_scores.observed_store_axioms)
qed (simp_all add: scored_events_def put_heartbeat_def transition_frame)

end
