(* ===== verification/Command_Properties.thy ===== *)
theory Command_Properties
  imports Command_Facts Attack_Bundle_Properties
begin

text \<open>
  What the commands of \<^verbatim>\<open>src/white_radar/cli.py\<close> promise: a cycle reports every chain whatever fails, the
  store keeps its invariants, a bundle is complete or not there, a simulation stays with the
  watchlist, and the settings a command runs with are well formed. The last property is about the digest.
\<close>

section \<open>Settings\<close>

definition wf_settings :: "settings \<Rightarrow> bool" where
  "wf_settings s \<longleftrightarrow> se_chains s \<noteq> [] \<and> list_all wf_chain (se_chains s) \<and> distinct (map cc_chain_id (se_chains s))
     \<and> distinct (map cc_name (se_chains s)) \<and> 5 \<le> ap_poll_interval_seconds (se_app s)
     \<and> 3 \<le> ap_request_timeout_seconds (se_app s) \<and> ap_request_retries (se_app s) \<in> {1..8}
     \<and> ap_incident_minimum_score (se_app s) \<in> {0..100} \<and> 1 \<le> ap_incident_sla_minutes (se_app s)
     \<and> 30 \<le> ap_heartbeat_stale_after_seconds (se_app s) \<and> tg_minimum_score (se_telegram s) \<in> {0..100}
     \<and> an_pending_simulation_minimum_score (se_analysis s) \<in> {0..100}"

lemma load_app_wf:
  "load_app d e = Inr a \<Longrightarrow> 5 \<le> ap_poll_interval_seconds a \<and> 3 \<le> ap_request_timeout_seconds a \<and> ap_request_retries a \<in> {1..8}
     \<and> ap_incident_minimum_score a \<in> {0..100} \<and> 1 \<le> ap_incident_sla_minutes a \<and> 30 \<le> ap_heartbeat_stale_after_seconds a"
  by (auto simp: load_app_def and_then_eq_Inr)

lemma load_telegram_wf: "load_telegram d = Inr t \<Longrightarrow> tg_minimum_score t \<in> {0..100}"
  by (auto simp: load_telegram_def and_then_eq_Inr)

lemma load_analysis_wf: "load_analysis d = Inr a \<Longrightarrow> an_pending_simulation_minimum_score a \<in> {0..100}"
  by (auto simp: load_analysis_def and_then_eq_Inr)

lemma config_chains_wf:
  "config_chains doc = Inr cs \<Longrightarrow> cs \<noteq> [] \<and> list_all wf_chain cs \<and> distinct (map cc_chain_id cs) \<and> distinct (map cc_name cs)"
  by (auto simp: config_chains_def and_then_eq_Inr split: json.splits if_splits dest: load_chains_wf)

lemma load_settings_wf: "load_settings env doc = Inr s \<Longrightarrow> wf_settings s"
  by (auto simp: load_settings_def wf_settings_def and_then_eq_Inr
      dest!: load_app_wf load_telegram_wf load_analysis_wf config_chains_wf)

lemma load_runtime_wf: "load_runtime m0 = Inr (m, s, w) \<Longrightarrow> wf_settings s \<and> wf_watchlist w"
  by (auto simp: load_runtime_def Let_def and_then_eq_Inr dest: load_settings_wf load_watchlist_wf)

section \<open>One cycle\<close>

interpretation heartbeats_kept: scan_invariant "\<lambda>st. st_heartbeats st = hs" sc for hs sc
  by unfold_locales (auto simp: store_operation_defs set_cursor_def Let_def split: if_splits prod.splits)

abbreviation beat_at :: "store \<Rightarrow> string \<times> int \<Rightarrow> heartbeat_row option" where
  "beat_at st k \<equiv> lookup_row heartbeat_key (st_heartbeats st) k"

abbreviation scanner_key :: "chain_config \<Rightarrow> string \<times> int" where
  "scanner_key c \<equiv> (''confirmed_scanner'', cc_chain_id c)"

text \<open>The heartbeat that goes with the result of a chain.\<close>

definition beat_agrees :: "machine \<Rightarrow> chain_config \<Rightarrow> dict \<Rightarrow> heartbeat_row \<Rightarrow> bool" where
  "beat_agrees m c r hb \<longleftrightarrow> hb_last_seen_at hb = utc_now (ma_clock m)
     \<and> (if has_key r ''error''
        then hb_status hb = ''degraded'' \<and> hb_details hb = [(''chain'', JStr (cc_name c))]
          \<and> (\<exists>e. r = [(''chain'', JStr (cc_name c)), (''error'', JStr (ma_message m e))]
               \<and> hb_last_error hb = none_if_empty (take 200 (ma_class_name m e)))
        else hb_status hb = ''ok'' \<and> hb_details hb = [(''chain'', JStr (cc_name c)), (''cycle'', JObj r)]
          \<and> hb_last_error hb = None)"

lemma heartbeat_returns:
  assumes "(service, status) \<in> {''confirmed_scanner''} \<times> {''ok'', ''degraded''}"
  shows "heartbeat m service c status details failed st = Inr (put_heartbeat \<lparr> hb_service = service,
      hb_chain_id = cc_chain_id c, hb_status = status, hb_last_seen_at = utc_now (ma_clock m),
      hb_details = (''chain'', JStr (cc_name c)) # details,
      hb_last_error = none_if_empty (take 200 (case failed of None \<Rightarrow> [] | Some e \<Rightarrow> ma_class_name m e)) \<rparr> st)"
proof -
  have "take 100 (squeeze ''confirmed_scanner'') = ''confirmed_scanner''" "take 30 (lower (strip ''ok'')) = ''ok''"
    "take 30 (lower (strip ''degraded'')) = ''degraded''" by code_simp+
  with assms show ?thesis by (auto simp: heartbeat_def record_heartbeat_def Let_def split: option.split)
qed

lemma beat_put: "beat_at (put_heartbeat row st) k = (if k = heartbeat_key row then Some row else beat_at st k)"
  by (rule heartbeat_table.fetch_put_replace)

lemma degraded_outcome:
  "\<exists>r st' hb. degraded_scan m c e st = (Inr r, st') \<and> beat_at st' (scanner_key c) = Some hb \<and> beat_agrees m c r hb
     \<and> (\<forall>k. k \<noteq> scanner_key c \<longrightarrow> beat_at st' k = beat_at st k)"
  by (simp add: degraded_scan_def heartbeat_returns beat_put heartbeat_key_def beat_agrees_def has_key_def) blast

lemma scan_heartbeats:
  assumes "open_scanner m s w c = Inr sc" "scan sc st = (r, st', n)"
  shows "st_heartbeats st' = st_heartbeats st"
  by (rule heartbeats_kept.scan_ok [OF open_scanner_fields(4) [OF assms(1)] refl assms(2)])

lemma scan_chain_outcome:
  "\<exists>r st' hb. scan_chain m s w c st = (Inr r, st') \<and> beat_at st' (scanner_key c) = Some hb \<and> beat_agrees m c r hb
     \<and> (\<forall>k. k \<noteq> scanner_key c \<longrightarrow> beat_at st' k = beat_at st k)"
proof (cases "open_scanner m s w c")
  case (Inl e)
  then show ?thesis using degraded_outcome by (simp add: scan_chain_def)
next
  case (Inr sc)
  obtain r st' n where run: "scan sc st = (r, st', n)" by (metis prod_cases3)
  have same: "beat_at st' k = beat_at st k" for k by (simp add: scan_heartbeats [OF Inr run])
  show ?thesis
  proof (cases r)
    case (Inl e)
    have "scan_chain m s w c st = degraded_scan m c e st'" by (simp add: scan_chain_def \<open>open_scanner m s w c = _\<close> run Inl)
    then show ?thesis using degraded_outcome [of m c e st'] unfolding same by (elim ssubst)
  next
    case (Inr u)
    show ?thesis
      by (simp add: scan_chain_def \<open>open_scanner m s w c = _\<close> run Inr heartbeat_returns beat_put heartbeat_key_def
          beat_agrees_def has_key_def stats_dict_def none_if_empty_def same)
  qed
qed

lemma scan_chains_outcome:
  assumes "distinct (map cc_chain_id cs)"
  shows "\<exists>rs st'. scan_chains m s w cs st = (Inr rs, st')
     \<and> list_all2 (\<lambda>c r. \<exists>hb. beat_at st' (scanner_key c) = Some hb \<and> beat_agrees m c r hb) cs rs
     \<and> (\<forall>k. k \<notin> scanner_key ` set cs \<longrightarrow> beat_at st' k = beat_at st k)"
  using assms
proof (induction cs arbitrary: st)
  case (Cons c cs)
  obtain r st1 hb where one: "scan_chain m s w c st = (Inr r, st1)" "beat_at st1 (scanner_key c) = Some hb" "beat_agrees m c r hb"
    "\<forall>k. k \<noteq> scanner_key c \<longrightarrow> beat_at st1 k = beat_at st k" using scan_chain_outcome [of m s w c st] by blast
  have "distinct (map cc_chain_id cs)" using Cons.prems by simp
  from Cons.IH [OF this, of st1] obtain rs st' where rest: "scan_chains m s w cs st1 = (Inr rs, st')"
    "list_all2 (\<lambda>c r. \<exists>hb. beat_at st' (scanner_key c) = Some hb \<and> beat_agrees m c r hb) cs rs"
    "\<forall>k. k \<notin> scanner_key ` set cs \<longrightarrow> beat_at st' k = beat_at st1 k" by blast
  have "scanner_key c \<notin> scanner_key ` set cs" using Cons.prems by auto
  with one rest show ?case by auto
qed simp

lemma chain_by_name_in: "chain_by_name cs n = Inr c \<Longrightarrow> c \<in> set cs \<and> cc_name c = n"
  by (auto simp: chain_by_name_def find_Some_iff split: option.splits)

lemma selected_distinct:
  assumes "wf_settings s" "selected_chains s names = Inr cs" "distinct names"
  shows "distinct (map cc_chain_id cs)"
proof (cases "names = []")
  case True
  with assms show ?thesis by (auto simp: selected_chains_def enabled_chains_def wf_settings_def distinct_map intro: inj_on_subset)
next
  case False
  with assms(2) have "traverse (chain_by_name (se_chains s)) names = Inr cs"
    by (auto simp: selected_chains_def and_then_eq_Inr split: if_splits)
  then have l: "list_all2 (\<lambda>n c. c \<in> set (se_chains s) \<and> cc_name c = n) names cs"
  proof (induction names arbitrary: cs)
    case (Cons n ns)
    then show ?case by (auto simp: and_then_eq_Inr dest: chain_by_name_in)
  qed simp
  then have "map cc_name cs = names" by (induction rule: list_all2_induct) auto
  with assms(3) have "distinct cs" by (auto simp: distinct_map)
  moreover have "set cs \<subseteq> set (se_chains s)" using l by (induction rule: list_all2_induct) auto
  ultimately show ?thesis using assms(1) by (auto simp: wf_settings_def distinct_map intro: inj_on_subset)
qed

section \<open>An example\<close>

definition demo_chain_table :: "string \<Rightarrow> int \<Rightarrow> string \<Rightarrow> json" where
  "demo_chain_table name i rpc_env = JObj [(''name'', JStr name), (''chain_id'', JInt i), (''rpc_http_env'', JStr rpc_env),
     (''explorer_url'', JStr ''https://x.example/''), (''enabled'', JBool True)]"

definition demo_answer :: network where
  "demo_answer q = (if rq_method q = ''eth_chainId'' then Inr (JObj [(''result'', JStr ''0x1'')])
     else if rq_method q = ''eth_blockNumber'' then Inr (JObj [(''result'', JStr ''0x1'')]) else Inl HttpError)"

text \<open>Two chains, of which the second has no endpoint in the environment.\<close>

definition demo_machine :: machine where
  "demo_machine = \<lparr> ma_env = [''RPC_A'' \<mapsto> ''https://a.example''], ma_dotenv = [],
     ma_config = Inr [(''chains'', JList [demo_chain_table ''ethereum'' 1 ''RPC_A'', demo_chain_table ''base'' 8453 ''RPC_B''])],
     ma_watchlist = Inr ([], []), ma_policies = None, ma_database_parent = True, ma_network = demo_answer,
     ma_active_endpoint = (\<lambda>us. 0), ma_sourcify = (\<lambda>c a. Inl HttpError), ma_etherscan = (\<lambda>c a. None),
     ma_explorer = (\<lambda>c a b d e f g. Inl HttpError),
     ma_abi = \<lparr> ae_fetch = (\<lambda>c a. None), ae_loads = (\<lambda>t. None), ae_sha256 = (\<lambda>b. ''h''), ae_utf8 = (\<lambda>b. []),
       ae_clock = demo_clock \<rparr>,
     ma_request = (\<lambda>m. Inl HttpError), ma_host = (\<lambda>u. None), ma_connections = [], ma_after_failure = (\<lambda>t r. r),
     ma_sha256 = (\<lambda>b. ''h''), ma_digest = (\<lambda>t. t), ma_blake8 = (\<lambda>b. 0), ma_utf8 = (\<lambda>b. []), ma_isoformat = (\<lambda>n. Inr ''i''),
     ma_percent = (\<lambda>j. Inr ''0.0%''), ma_class_name = (\<lambda>e. ''Error''), ma_message = (\<lambda>e. ''failed''), ma_clock = demo_clock \<rparr>"

lemma demo_runtime:
  "case load_runtime demo_machine of Inl e \<Rightarrow> False
   | Inr (m, s, w) \<Rightarrow> map cc_name (se_chains s) = [''ethereum'', ''base'']
       \<and> (case selected_chains s [] of Inl e \<Rightarrow> False | Inr cs \<Rightarrow> map cc_chain_id cs = [1, 8453])"
  by code_simp

section \<open>Properties\<close>

text \<open>C11. A cycle reports every chain, whatever fails. With the settings a command loads and no chain named
  twice, \<^verbatim>\<open>run-once\<close> gives exactly one result for each selected chain, in order: an exception of one chain
  neither stops the others nor leaves the command. When it returns, each chain has a heartbeat of
  this moment that carries its result, degraded exactly when the result is an error, no other
  heartbeat has changed, and the exit code is 1 exactly when some chain failed.\<close>

theorem run_once_reports_every_chain:
  assumes "load_runtime m0 = Inr (m, s, w)" and "selected_chains s names = Inr cs" and "distinct names"
  shows "\<exists>rs st'. cmd_run_once m s w names st
       = exits (if \<exists>r \<in> set rs. has_key r ''error'' then 1 else 0) [Pretty (JList (map JObj rs))] st'
     \<and> list_all2 (\<lambda>c r. \<exists>hb. beat_at st' (scanner_key c) = Some hb \<and> beat_agrees m c r hb) cs rs
     \<and> (\<forall>k. k \<notin> scanner_key ` set cs \<longrightarrow> beat_at st' k = beat_at st k)"
proof -
  have "distinct (map cc_chain_id cs)" using load_runtime_wf [OF assms(1)] selected_distinct [OF _ assms(2,3)] by blast
  from scan_chains_outcome [OF this, of m s w st] obtain rs st' where run: "scan_chains m s w cs st = (Inr rs, st')"
    and r: "list_all2 (\<lambda>c r. \<exists>hb. beat_at st' (scanner_key c) = Some hb \<and> beat_agrees m c r hb) cs rs"
      "\<forall>k. k \<notin> scanner_key ` set cs \<longrightarrow> beat_at st' k = beat_at st k" by blast
  have "cmd_run_once m s w names st
      = exits (if \<exists>r \<in> set rs. has_key r ''error'' then 1 else 0) [Pretty (JList (map JObj rs))] st'"
    by (simp add: cmd_run_once_def scan_once_def assms(2) run list_ex_iff)
  with r show ?thesis by blast
qed

theorem run_once_reports_every_chain_witness:
  "\<exists>m s w rs st'. load_runtime demo_machine = Inr (m, s, w) \<and> length rs = 2
     \<and> cmd_run_once m s w [] empty_store
         = exits (if \<exists>r \<in> set rs. has_key r ''error'' then 1 else 0) [Pretty (JList (map JObj rs))] st'"
proof -
  obtain m s w cs where l: "load_runtime demo_machine = Inr (m, s, w)" "selected_chains s [] = Inr cs" "map cc_chain_id cs = [1, 8453]"
    using demo_runtime by (auto split: sum.splits)
  have "length cs = 2" using arg_cong [OF l(3), of length] by simp
  obtain rs st' where r: "cmd_run_once m s w [] empty_store
       = exits (if \<exists>r \<in> set rs. has_key r ''error'' then 1 else 0) [Pretty (JList (map JObj rs))] st'"
     "list_all2 (\<lambda>c r. \<exists>hb. beat_at st' (scanner_key c) = Some hb \<and> beat_agrees m c r hb) cs rs"
    using run_once_reports_every_chain [OF l(1,2) distinct.simps(1) [THEN iffD2, OF TrueI], of empty_store] by blast
  have "length rs = 2" using list_all2_lengthD [OF r(2)] \<open>length cs = 2\<close> by simp
  with l(1) r(1) show ?thesis by blast
qed

text \<open>C13. Every command on the store (all but \<^verbatim>\<open>investigate\<close>, whose writes to the ABI catalog the model
  leaves out) keeps it well formed, whatever the network, the files and the arguments are and
  however the command ends: the events stay distinct and readable, the incidents stay a reachable state
  of the incident machine, a deployment is stored once per chain and address, and every recorded
  score lies between 0 and 100.\<close>

theorem commands_keep_store:
  assumes "main m (OnStore cmd) st d = (r, fx, st', d')"
    and "wf_events st" and "incident_reach (ma_digest m) st" and "keys_distinct deployment_key (st_deployments st)"
    and "scored_events st"
  shows "wf_events st' \<and> incident_reach (ma_digest m) st' \<and> keys_distinct deployment_key (st_deployments st') \<and> scored_events st'"
  using events_commanded.main_kept [OF refl assms(2,1)] incidents_commanded.main_kept [OF refl assms(3,1)]
    deployments_commanded.main_kept [OF refl assms(4,1)] scores_commanded.main_kept [OF refl assms(5,1)]
  by (intro conjI)

theorem commands_keep_store_witness:
  "incident_reach (\<lambda>t. t) (fst (snd (snd (main demo_machine (OnStore (RunOnce [])) empty_store Missing))))"
proof -
  obtain r fx st' d' where run: "main demo_machine (OnStore (RunOnce [])) empty_store Missing = (r, fx, st', d')"
    by (metis prod_cases4)
  have i: "incident_reach (ma_digest demo_machine) empty_store" by (rule incident_reach.start)
  have k: "keys_distinct deployment_key (st_deployments empty_store)" "scored_events empty_store"
    by (simp_all add: empty_store_def keys_distinct_def scored_events_def)
  from commands_keep_store [OF run wf_events_empty i k] run show ?thesis by (simp add: demo_machine_def)
qed

text \<open>C32. A command that runs has well-formed settings, whatever the configuration file holds: at least one
  chain, no chain identifier or name twice, every chain with usable block bounds and endpoint
  variables, and every interval, retry count, score and deadline within its bounds; and a
  watchlist without duplicates. A value of the process environment is never replaced by the
  environment file.\<close>

theorem settings_well_formed:
  assumes "load_runtime m0 = Inr (m, s, w)"
  shows "wf_settings s \<and> wf_watchlist w \<and> (\<forall>k v. ma_env m0 k = Some v \<longrightarrow> ma_env m k = Some v)"
proof -
  have "env k = Some v \<Longrightarrow> load_dotenv ls env k = Some v" for ls env k v
    by (induction ls env rule: load_dotenv.induct) (auto split: option.splits)
  moreover have "ma_env m = load_dotenv (ma_dotenv m0) (ma_env m0)"
    using assms by (auto simp: load_runtime_def Let_def and_then_eq_Inr)
  ultimately show ?thesis using load_runtime_wf [OF assms] by simp
qed

theorem settings_well_formed_witness:
  "\<exists>m s w. load_runtime demo_machine = Inr (m, s, w) \<and> wf_settings s"
proof -
  obtain m s w where l: "load_runtime demo_machine = Inr (m, s, w)" using demo_runtime by (auto split: sum.splits)
  from settings_well_formed [OF l] l show ?thesis by blast
qed

text \<open>What a command that writes a bundle may leave: all of it and nothing else touched; nothing at all;
  or, when it may overwrite and one of the names is a directory, an unfinished bundle.\<close>

definition bundle_names_of :: "investigate_args \<Rightarrow> string list" where
  "bundle_names_of a = (if iv_single a then BUNDLE_FILES else RECONSTRUCTION_BUNDLE_FILES) @ [MANIFEST]"

definition whole_bundle :: "string list \<Rightarrow> bool \<Rightarrow> destination \<Rightarrow> destination \<Rightarrow> bool" where
  "whole_bundle names overwrite d d' \<longleftrightarrow> (\<exists>fs. d' = Directory fs \<and> (\<forall>n \<in> set names. \<exists>b. fs n = Some (Regular b))
     \<and> (\<forall>n. n \<notin> set names \<longrightarrow> fs n = entries d n) \<and> (\<not> overwrite \<longrightarrow> (\<forall>n \<in> set names. entries d n = None)))"

definition broken_bundle :: "string list \<Rightarrow> bool \<Rightarrow> destination \<Rightarrow> destination \<Rightarrow> bool" where
  "broken_bundle names overwrite d d' \<longleftrightarrow> overwrite \<and> (\<exists>n \<in> set names. entries d n = Some Subfolder)
     \<and> (\<forall>n. n \<notin> set names \<longrightarrow> entries d' n = entries d n)"

definition written :: "string list \<Rightarrow> bool \<Rightarrow> destination \<Rightarrow> evidence \<Rightarrow> bool" where
  "written names overwrite d x \<longleftrightarrow> (case x of (r, fx, d') \<Rightarrow>
     r = Inr 0 \<and> whole_bundle names overwrite d d' \<or> (\<exists>e. r = Inl (Raised e)) \<and> d' = d
     \<or> r = Inl OsError \<and> broken_bundle names overwrite d d')"

lemma aborted_written: "written names overwrite d (aborted (Raised e) d)"
  by (simp add: written_def aborted_def)

lemma obtained_written:
  "(\<And>x. r = Inr x \<Longrightarrow> written names overwrite d (f x)) \<Longrightarrow> written names overwrite d (obtained r d f)"
  by (cases r) (simp_all add: obtained_def aborted_written)

context bundle_names
begin

lemma whole:
  assumes "refusal names overwrite d = None" "place_bundle sha256 names content payload (entries d) = (Inr res, d')"
  shows "whole_bundle (names @ [MANIFEST]) overwrite d d'"
proof -
  from placed [OF assms(2)] obtain fs where f: "d' = Directory fs" "\<forall>n \<in> set names. fs n = Some (Regular (utf8 (content n)))"
    "\<exists>b. fs MANIFEST = Some (Regular b)" "\<forall>n. n \<notin> set (names @ [MANIFEST]) \<longrightarrow> fs n = entries d n" by blast
  have "\<forall>n \<in> set (names @ [MANIFEST]). \<exists>b. fs n = Some (Regular b)" using f(2,3) by auto
  moreover have "\<not> overwrite \<longrightarrow> (\<forall>n \<in> set (names @ [MANIFEST]). entries d n = None)" using not_refused(2) [OF assms(1)] by blast
  ultimately show ?thesis unfolding whole_bundle_def using f(1,4) by blast
qed

lemma broken:
  assumes "refusal names overwrite d = None" "place_bundle sha256 names content payload (entries d) = (Inl e, d')"
  shows "e = IsADirectory \<and> broken_bundle (names @ [MANIFEST]) overwrite d d'"
  using placed_failure [OF assms(2)] not_refused(3) [OF assms(1)] unfolding broken_bundle_def by blast

end

lemma refusal_raised: "refusal names overwrite d = Some e \<Longrightarrow> bundle_failure e = Raised ValueError"
  by (auto simp: refusal_def split: if_splits)

lemma single_written: "written (BUNDLE_FILES @ [MANIFEST]) overwrite d (single_bundle m overwrite k d)"
proof (cases "refusal BUNDLE_FILES overwrite d")
  case None
  obtain r d' where p: "place_bundle (ma_sha256 m) BUNDLE_FILES (artifact_at (artifacts CASE_PAGE k)) (case_manifest k) (entries d) = (r, d')"
    by fastforce
  then have w: "write_case_bundle (ma_sha256 m) CASE_PAGE k overwrite d = (r, d')" using None by (simp add: write_case_bundle_def)
  show ?thesis
  proof (cases r)
    case (Inl e)
    with case_files.broken [OF None p [unfolded Inl]] w show ?thesis by (auto simp: single_bundle_def written_def aborted_def)
  next
    case (Inr b)
    with case_files.whole [OF None p [unfolded Inr]] w show ?thesis by (auto simp: single_bundle_def written_def)
  qed
next
  case (Some e)
  then show ?thesis by (simp add: single_bundle_def write_case_bundle_def refusal_raised aborted_written)
qed

lemma attack_written:
  assumes "reconstruct_attack_case env k h r tc = Inr a" "checked_limits (rc_limits env) = Inr l"
  shows "written (RECONSTRUCTION_BUNDLE_FILES @ [MANIFEST]) overwrite d (attack_bundle m overwrite a d)"
proof (cases "refusal RECONSTRUCTION_BUNDLE_FILES overwrite d")
  case None
  obtain files where f: "recon_artifacts RECONSTRUCTION_PAGE a = Inr files"
    using artifacts_return [OF reconstruct_hashes [OF assms]] by blast
  obtain r d' where p: "place_bundle (ma_sha256 m) RECONSTRUCTION_BUNDLE_FILES (artifact_at files) (recon_manifest a) (entries d) = (r, d')"
    by fastforce
  then have w: "write_reconstruction_bundle (ma_sha256 m) RECONSTRUCTION_PAGE a overwrite d = (Inr r, d')"
    using None f by (simp add: write_reconstruction_bundle_def)
  show ?thesis
  proof (cases r)
    case (Inl e)
    with recon_files.broken [OF None p [unfolded Inl]] w show ?thesis by (auto simp: attack_bundle_def written_def aborted_def)
  next
    case (Inr b)
    with recon_files.whole [OF None p [unfolded Inr]] w show ?thesis by (auto simp: attack_bundle_def written_def)
  qed
next
  case (Some e)
  then show ?thesis by (simp add: attack_bundle_def write_reconstruction_bundle_def refusal_raised aborted_written)
qed

lemma investigate_written:
  assumes "checked_limits (iv_limits a) = Inr l"
  shows "written (bundle_names_of a) (iv_overwrite a) d (cmd_investigate m s w a st d)"
proof -
  have last: "written (bundle_names_of a) (iv_overwrite a) d
     (if iv_single a then single_bundle m (iv_overwrite a) k d
      else if iv_source a = EtherscanHistory \<and> api_key m = [] then aborted (Raised ConfigurationError) d
      else obtained (reconstruct_attack_case (attack_env m s w a c call) k fresh_history r tc) d (\<lambda>attack.
        attack_bundle m (iv_overwrite a) attack d))" for k c call r tc
  proof (cases "iv_single a")
    case True
    then show ?thesis by (simp add: bundle_names_of_def single_written)
  next
    case False
    have l: "checked_limits (rc_limits (attack_env m s w a c call)) = Inr l" by (simp add: attack_env_def assms)
    from False show ?thesis
      by (auto simp: bundle_names_of_def aborted_written intro!: obtained_written attack_written [OF _ l])
  qed
  show ?thesis
    unfolding cmd_investigate_def
    by (intro obtained_written) (simp only: split: prod.split sum.split, intro allI impI conjI; rule aborted_written last)
qed

text \<open>C12. \<^verbatim>\<open>investigate\<close> leaves a whole bundle or nothing. However it ends, and whatever the network answers,
  exactly one of these holds: it exits with 0, every file of the bundle and its manifest are there,
  no other entry of the directory has changed and, without \<^verbatim>\<open>--overwrite\<close>, none of the names was
  there before; or it exits with 1 or leaves by an exception of the program, and the destination is
  untouched; or, with \<^verbatim>\<open>--overwrite\<close> only, one of the names is a directory and the operating system's
  error leaves the command.\<close>

theorem investigate_all_or_nothing:
  assumes "main m (Investigate a) st d = (r, fx, st', d')"
  shows "r = Inr 0 \<and> whole_bundle (bundle_names_of a) (iv_overwrite a) d d'
     \<or> (r = Inr 1 \<or> (\<exists>e. r = Inl (Raised e) \<and> \<not> is_reported (Raised e))) \<and> d' = d
     \<or> r = Inl OsError \<and> broken_bundle (bundle_names_of a) (iv_overwrite a) d d'"
proof -
  obtain q fx1 st1 d1 where run: "run_command m (Investigate a) st d = (q, fx1, st1, d1)" by (metis prod_cases4)
  have w: "written (bundle_names_of a) (iv_overwrite a) d (q, fx1, d1)"
  proof (cases "load_runtime m")
    case (Inl e)
    with run show ?thesis by (auto simp: run_command_def written_def)
  next
    case (Inr x)
    obtain m1 s w where x: "x = (m1, s, w)" by (metis prod_cases3)
    have "written (bundle_names_of a) (iv_overwrite a) d (obtained (checked_limits (iv_limits a)) d (\<lambda>l. cmd_investigate m1 s w a st d))"
      by (rule obtained_written) (rule investigate_written)
    moreover have "obtained (checked_limits (iv_limits a)) d (\<lambda>l. cmd_investigate m1 s w a st d) = (q, fx1, d1)"
      using run by (simp add: run_command_def Inr x split: prod.splits)
    ultimately show ?thesis by simp
  qed
  show ?thesis
  proof (cases q)
    case (Inl f)
    with w assms run show ?thesis by (auto simp: main_def written_def is_reported_def split: if_splits)
  next
    case (Inr c)
    with w assms run show ?thesis by (auto simp: main_def written_def)
  qed
qed

text \<open>A file of the bundle's name is there already.\<close>

theorem investigate_all_or_nothing_witness:
  "case main demo_machine (Investigate (investigate_defaults ''ethereum'' (''0x'' @ replicate 64 (CHR ''a''))))
      empty_store (Directory [MANIFEST \<mapsto> Regular []]) of (r, fx, st', d') \<Rightarrow>
     r \<noteq> Inr 0 \<and> d' = Directory [MANIFEST \<mapsto> Regular []]"
proof -
  let ?a = "investigate_defaults ''ethereum'' (''0x'' @ replicate 64 (CHR ''a''))"
  let ?d = "Directory [MANIFEST \<mapsto> Regular []]"
  obtain r fx st' d' where run: "main demo_machine (Investigate ?a) empty_store ?d = (r, fx, st', d')" by (metis prod_cases4)
  have a: "\<not> iv_overwrite ?a" "MANIFEST \<in> set (bundle_names_of ?a)" by (simp_all add: investigate_defaults_def bundle_names_of_def)
  then have "\<not> whole_bundle (bundle_names_of ?a) (iv_overwrite ?a) ?d d'" "\<not> broken_bundle (bundle_names_of ?a) (iv_overwrite ?a) ?d d'"
    by (auto simp: whole_bundle_def broken_bundle_def)
  with investigate_all_or_nothing [OF run] have "r \<noteq> Inr 0 \<and> d' = ?d" by auto
  then show ?thesis unfolding run by simp
qed

lemma lower_lower: "lower (lower s) = lower s"
proof -
  have "lower_char (lower_char c) = lower_char c" for c
    by (cases c) (simp add: lower_char_code capital_bits_def)
  then show ?thesis by (simp add: lower_def o_def)
qed

text \<open>C30. A simulation stays with the watchlist. \<^verbatim>\<open>simulate\<close> prints a result only for a transaction that the node
  knows and whose destination is a watched contract of the chain, over a node that answered with
  that chain's identifier; what it prints is the simulation of that transaction, and the store is not
  touched.\<close>

theorem simulate_stays_with_watchlist:
  assumes "cmd_simulate m s w name tx_hash block trace st = (r, fx, st')" and "fx \<noteq> []"
  shows "r = Inr 0 \<and> st' = st \<and> (\<exists>c call t cw res. chain_by_name (se_chains s) name = Inr c \<and> rpc_for_chain m c = Inr call
     \<and> rpc_chain_id call = Inr (cc_chain_id c) \<and> rpc_transaction call tx_hash = Inr (Some t) \<and> cw \<in> set (wl_contracts w)
     \<and> cw_chain_id cw = cc_chain_id c \<and> cw_address cw = lower (str_or (dget t ''to'') [])
     \<and> simulate_transaction (ma_sha256 m) call t block trace = Inr res \<and> fx = [Pretty (simulation_json res)])"
proof -
  have stop: "fx = []" if "stops e st = (r, fx, st')" for e using that by (simp add: stops_def)
  from assms obtain c where c: "chain_by_name (se_chains s) name = Inr c"
    by (auto simp: cmd_simulate_def given_def stops_def split: sum.splits)
  with assms obtain call where call: "rpc_for_chain m c = Inr call"
    by (auto simp: cmd_simulate_def given_def stops_def split: sum.splits)
  with c assms obtain t where t: "rpc_transaction call tx_hash = Inr (Some t)"
    by (auto simp: cmd_simulate_def given_def stops_def split: sum.splits option.splits)
  with c call assms obtain cw where cw: "watch_contract w (cc_chain_id c) (lower (str_or (dget t ''to'') [])) = Some cw"
    by (auto simp: cmd_simulate_def given_def stops_def split: if_splits)
  with c call t assms obtain res where res: "simulate_transaction (ma_sha256 m) call t block trace = Inr res"
    "r = Inr 0" "fx = [Pretty (simulation_json res)]" "st' = st"
    by (auto simp: cmd_simulate_def given_def stops_def exits_def split: if_splits sum.splits)
  have "rpc_chain_id call = Inr (cc_chain_id c)"
    using call by (auto simp: rpc_for_chain_def and_then_eq_Inr split: if_splits)
  moreover have "cw \<in> set (wl_contracts w) \<and> cw_chain_id cw = cc_chain_id c \<and> cw_address cw = lower (str_or (dget t ''to'') [])"
    using cw by (auto simp: watch_contract_def find_Some_iff lower_lower split: if_splits)
  ultimately show ?thesis using c call t res by blast
qed

definition demo_watched :: network where
  "demo_watched q =
     (let answer = (\<lambda>j. Inr (JObj [(''result'', j)])) in
      if rq_method q = ''eth_chainId'' then answer (JStr ''0x1'')
      else if rq_method q = ''eth_getTransactionByHash''
      then answer (JObj [(''hash'', JStr ''0x1''), (''to'', JStr (''0x'' @ replicate 40 (CHR ''A'')))])
      else if rq_method q = ''eth_getBlockByNumber'' then answer (JObj [(''hash'', JStr ''0xb'')])
      else if rq_method q = ''eth_call'' then answer (JStr ''0x'') else Inl HttpError)"

definition demo_simulating :: machine where
  "demo_simulating = demo_machine\<lparr> ma_watchlist := Inr ([demo_watch_table], []), ma_network := demo_watched \<rparr>"

lemma demo_simulated:
  "case load_runtime demo_simulating of Inl e \<Rightarrow> False
   | Inr (m, s, w) \<Rightarrow> (case cmd_simulate m s w ''ethereum'' ''0x1'' (Some 9) False empty_store of (r, fx, st') \<Rightarrow> fx \<noteq> [])"
  by code_simp

theorem simulate_stays_with_watchlist_witness:
  "\<exists>m s w cw. load_runtime demo_simulating = Inr (m, s, w) \<and> cw \<in> set (wl_contracts w)
     \<and> fst (cmd_simulate m s w ''ethereum'' ''0x1'' (Some 9) False empty_store) = Inr 0"
proof -
  obtain m s w where l: "load_runtime demo_simulating = Inr (m, s, w)" using demo_simulated by (auto split: sum.splits)
  obtain r fx st' where run: "cmd_simulate m s w ''ethereum'' ''0x1'' (Some 9) False empty_store = (r, fx, st')" by (metis prod_cases3)
  have "fx \<noteq> []" using demo_simulated by (simp add: l run)
  from simulate_stays_with_watchlist [OF run this] l run show ?thesis by auto
qed

section \<open>The digest\<close>

lemma sorted_smaller:
  assumes "sorted (map f xs)" "k < length xs"
  shows "length (filter (\<lambda>y. f y < f (xs ! k)) xs) \<le> k"
proof -
  have "filter (\<lambda>y. f y < f (xs ! k)) (drop k xs) = []"
    using assms sorted_nth_mono [OF assms(1)] by (auto simp: filter_empty_conv in_set_conv_nth not_less)
  then have "filter (\<lambda>y. f y < f (xs ! k)) xs = filter (\<lambda>y. f y < f (xs ! k)) (take k xs)"
    by (metis append_take_drop_id filter_append append_Nil2)
  then show ?thesis using length_filter_le [of "\<lambda>y. f y < f (xs ! k)" "take k xs"] assms(2) by simp
qed

lemma filter_longer: "\<forall>y \<in> set ys. P y \<longrightarrow> Q y \<Longrightarrow> length (filter P ys) \<le> length (filter Q ys)"
  by (induction ys) auto

lemma take_sorted_least:
  assumes "x \<in> set (take n (sort_key f xs))" "n \<le> length (filter P xs)" "\<forall>y \<in> set xs. P y \<longrightarrow> f y < f x"
  shows False
proof -
  let ?s = "sort_key f xs"
  from assms(1) obtain k where k: "k < n" "k < length ?s" "x = ?s ! k" by (auto simp: in_set_conv_nth)
  have "length (filter P xs) = length (filter P ?s)" by (simp add: filter_sort)
  also have "\<dots> \<le> length (filter (\<lambda>y. f y < f (?s ! k)) ?s)"
    using assms(3) k(3) by (intro filter_longer) simp
  also have "\<dots> \<le> k" using k by (intro sorted_smaller) simp_all
  finally show False using assms(2) k(1) by simp
qed

definition still_open :: "incident_record \<Rightarrow> bool" where
  "still_open i \<longleftrightarrow> in_status i \<in> set OPEN_INCIDENT_STATUSES"

lemma open_status: "open_incident_status t \<longleftrightarrow> t \<in> set OPEN_INCIDENT_STATUSES"
  by (cases t) (simp_all add: open_incident_status_def OPEN_INCIDENT_STATUSES_def)

text \<open>C40. The digest can lose every open incident. It counts the open ones among the 500 incidents that were
  due first, closed ones included: once 500 closed incidents were due before every open one, the
  digest says \<^verbatim>\<open>Open 0\<close> whatever is open, next to the number of overdue incidents, which are open.\<close>

theorem digest_forgets_open_incidents:
  assumes "digest_text m s hours st = Inr t"
    and "500 \<le> length (filter (\<lambda>i. \<not> still_open i) (st_incidents st))"
    and "\<forall>i \<in> set (st_incidents st). \<forall>j \<in> set (st_incidents st). still_open i \<longrightarrow> \<not> still_open j \<longrightarrow> in_due_at j < in_due_at i"
  shows "\<exists>before after. t = take 4000 (join_lines (before
     @ [uni ''Open 0'' @ middle_dot @ uni ''Overdue '' @ uni (nat_str (length (remdups (map in_incident_id
          (overdue_incidents (ma_clock m) st 500)))))] @ after))"
proof -
  let ?xs = "rev (sort_key in_created_at (rev (st_incidents st)))"
  have l: "list_incidents st None 500 = take 500 (sort_key in_due_at ?xs)"
    by (simp add: list_incidents_def sql_limit_def clamp_def)
  have n: "length (filter (\<lambda>i. \<not> still_open i) ?xs) = length (filter (\<lambda>i. \<not> still_open i) (st_incidents st))"
    by (simp add: rev_filter [symmetric] filter_sort)
  have "\<not> still_open i" if i: "i \<in> set (list_incidents st None 500)" for i
  proof
    assume "still_open i"
    moreover have "i \<in> set (st_incidents st)" using i by (auto simp: l dest: in_set_takeD)
    ultimately have "\<forall>y \<in> set ?xs. \<not> still_open y \<longrightarrow> in_due_at y < in_due_at i" using assms(3) by simp
    from take_sorted_least [OF i [unfolded l] _ this] n assms(2) show False by simp
  qed
  then have z: "filter (\<lambda>i. open_incident_status (in_status i)) (list_incidents st None 500) = []"
    by (auto simp: filter_empty_conv open_status still_open_def)
  obtain es known h groups where t: "t = render_digest es known h (Some (list_incidents st None 500))
      (map in_incident_id (overdue_incidents (ma_clock m) st 500)) groups"
    using assms(1) by (auto simp: digest_text_def Let_def and_then_eq_Inr)
  have o: "uni ''Open '' @ uni (nat_str 0) = uni ''Open 0''" by code_simp
  show ?thesis
    unfolding t render_digest_def digest_lines_def digest_incidents_def option.case z list.size
    unfolding append_assoc [symmetric] o
    by (rule exI [of _ "digest_heading es h @ [[], bold ''Incident workflow'']"],
        rule exI [of _ "digest_networks known es @ digest_signals es @ digest_telemetry groups @ digest_cases es
          @ [[], uni ''Priority reflects configured evidence and analysis signals.'']"]) simp
qed

definition demo_row :: "string \<Rightarrow> incident_status \<Rightarrow> string \<Rightarrow> incident_record" where
  "demo_row i status due =
     \<lparr> in_incident_id = i, in_event_id = i, in_status = status, in_severity = HIGH, in_protocol = None, in_owner = Some ''o'',
       in_created_at = ''t'', in_updated_at = ''t'', in_due_at = due, in_acknowledged_at = Some ''t'',
       in_closed_at = (if status = RESOLVED then Some ''t'' else None), in_disposition = None \<rparr>"

definition demo_archive :: store where
  "demo_archive = empty_store\<lparr> st_incidents :=
     map (\<lambda>k. demo_row (nat_str k) RESOLVED ''2024'') [0..<500] @ [demo_row ''live'' INVESTIGATING ''2025''] \<rparr>"

theorem digest_forgets_open_incidents_witness:
  "\<exists>m s w before after. load_runtime demo_machine = Inr (m, s, w)
     \<and> digest_text m s 24 demo_archive = Inr (take 4000 (join_lines (before @ [uni ''Open 0'' @ middle_dot @ uni ''Overdue ''
         @ uni (nat_str (length (remdups (map in_incident_id (overdue_incidents (ma_clock m) demo_archive 500)))))] @ after)))"
proof -
  obtain m s w where l: "load_runtime demo_machine = Inr (m, s, w)" using demo_runtime by (auto split: sum.splits)
  have "events_since (ma_clock m) demo_archive h n = Inr []" for h n
    by (simp add: events_since_def demo_archive_def empty_store_def read_events_def sql_limit_def)
  then obtain t where t: "digest_text m s 24 demo_archive = Inr t" by (simp add: digest_text_def)
  have n: "500 \<le> length (filter (\<lambda>i. \<not> still_open i) (st_incidents demo_archive))"
    by (simp add: demo_archive_def demo_row_def still_open_def OPEN_INCIDENT_STATUSES_def filter_map o_def)
  have "''2024'' < ''2025''" by code_simp
  then have d: "\<forall>i \<in> set (st_incidents demo_archive). \<forall>j \<in> set (st_incidents demo_archive).
      still_open i \<longrightarrow> \<not> still_open j \<longrightarrow> in_due_at j < in_due_at i"
    by (auto simp: demo_archive_def demo_row_def still_open_def OPEN_INCIDENT_STATUSES_def)
  from digest_forgets_open_incidents [OF t n d] l t show ?thesis by blast
qed

end
