(* ===== verification/Redaction.thy ===== *)
theory Redaction
  imports Radar_Prelude
begin

text \<open>
  \<^verbatim>\<open>redact_url\<close> of \<^verbatim>\<open>src/white_radar/http.py\<close>, which makes the URL of a failed request fit for an error
  message. A URL is given by the five parts of \<^verbatim>\<open>urllib.parse.urlsplit\<close>.
\<close>

record split_url =
  up_scheme :: string
  up_netloc :: string
  up_path :: string
  up_query :: string
  up_fragment :: string

text \<open>\<^verbatim>\<open>path.split("/")\<close>\<close>

fun split_slash :: "string \<Rightarrow> string list" where
  "split_slash [] = [[]]"
| "split_slash (c # s) =
     (if c = CHR ''/'' then [] # split_slash s
      else case split_slash s of [] \<Rightarrow> [[c]] | p # ps \<Rightarrow> (c # p) # ps)"

definition redact_bot :: "string \<Rightarrow> string" where
  "redact_bot part = (if startswith ''bot'' part then ''<redacted-bot>'' else part)"

text \<open>Everything after the first part \<^verbatim>\<open>v2\<close>\<close>

definition redact_version :: "string list \<Rightarrow> string list" where
  "redact_version parts =
     (if ''v2'' \<in> set parts then takeWhile (\<lambda>p. p \<noteq> ''v2'') parts @ [''v2'', ''<redacted>''] else parts)"

definition redact_url :: "split_url \<Rightarrow> split_url" where
  "redact_url u = u\<lparr> up_path := join ''/'' (redact_version (map redact_bot (split_slash (up_path u)))),
     up_query := [], up_fragment := [] \<rparr>"

section \<open>The paths\<close>

lemma split_slash_cons: "\<exists>p ps. split_slash s = p # ps"
proof (induction s)
  case (Cons c s)
  then show ?case by (auto split: list.split)
qed simp

lemma split_slash_no: "CHR ''/'' \<notin> set s \<Longrightarrow> split_slash s = [s]"
  by (induction s) auto

lemma split_slash_append: "CHR ''/'' \<notin> set s \<Longrightarrow> split_slash (s @ CHR ''/'' # t) = s # split_slash t"
  by (induction s) auto

lemma split_slash_clean: "p \<in> set (split_slash s) \<Longrightarrow> CHR ''/'' \<notin> set p"
proof (induction s arbitrary: p)
  case (Cons c s)
  obtain q qs where "split_slash s = q # qs" using split_slash_cons by blast
  with Cons show ?case by (auto split: if_splits)
qed simp

lemma split_join: "ps \<noteq> [] \<Longrightarrow> \<forall>p \<in> set ps. CHR ''/'' \<notin> set p \<Longrightarrow> split_slash (join ''/'' ps) = ps"
proof (induction ps)
  case (Cons p ps)
  then show ?case by (cases ps) (simp_all add: split_slash_no split_slash_append)
qed simp

lemma redact_bot_hides: "redact_bot p = ''<redacted-bot>'' \<or> redact_bot p = p \<and> \<not> startswith ''bot'' p"
  by (simp add: redact_bot_def)

section \<open>Properties\<close>

definition telegram_url :: "string \<Rightarrow> split_url" where
  "telegram_url token = \<lparr> up_scheme = ''https'', up_netloc = ''api.telegram.org'',
     up_path = ''/bot'' @ token @ ''/sendMessage'', up_query = [], up_fragment = [] \<rparr>"

definition provider_url :: "string \<Rightarrow> string \<Rightarrow> string \<Rightarrow> split_url" where
  "provider_url host key query = \<lparr> up_scheme = ''https'', up_netloc = host, up_path = ''/v2/'' @ key, up_query = query, up_fragment = [] \<rparr>"

text \<open>C31. The URL in an error message does not depend on a credential. Whatever two tokens of the Telegram
  service are, the URLs of their requests are redacted to the same text, and so are those of a
  provider for any two keys after \<^verbatim>\<open>/v2/\<close> and any two queries; for every URL, each part of the
  redacted path is a marker or a part that stands before the first \<^verbatim>\<open>v2\<close>, or is it, and does not begin with \<^verbatim>\<open>bot\<close>,
  and no query or fragment is left.\<close>

theorem credentials_redacted:
  assumes "CHR ''/'' \<notin> set token \<union> set token'"
  shows "redact_url (telegram_url token) = redact_url (telegram_url token')
     \<and> redact_url (provider_url host key query) = redact_url (provider_url host key' query')
     \<and> up_query (redact_url u) = [] \<and> up_fragment (redact_url u) = []
     \<and> set (split_slash (up_path (redact_url u))) \<subseteq> {''<redacted-bot>'', ''<redacted>'', ''v2''}
          \<union> {p \<in> set (takeWhile (\<lambda>p. p \<noteq> ''v2'') (split_slash (up_path u))). \<not> startswith ''bot'' p}"
proof (intro conjI)
  have path: "split_slash (''/bot'' @ t @ ''/sendMessage'') = [[], ''bot'' @ t, ''sendMessage'']" if "CHR ''/'' \<notin> set t" for t
    using split_slash_append [of "''bot'' @ t" "''sendMessage''"] that by simp
  have "startswith ''bot'' (''bot'' @ t)" for t by (simp add: startswith_def)
  then show "redact_url (telegram_url token) = redact_url (telegram_url token')"
    using assms path [of token] path [of token'] by (simp add: redact_url_def telegram_url_def redact_bot_def)
next
  have "split_slash (''/v2/'' @ k) = [] # ''v2'' # split_slash k" for k by simp
  moreover have "redact_bot [] = []" "redact_bot ''v2'' = ''v2''" by (simp_all add: redact_bot_def startswith_def)
  ultimately show "redact_url (provider_url host key query) = redact_url (provider_url host key' query')"
    by (simp add: redact_url_def provider_url_def redact_version_def)
next
  let ?ps = "split_slash (up_path u)"
  let ?rs = "redact_version (map redact_bot ?ps)"
  have clean: "\<forall>p \<in> set ?rs. CHR ''/'' \<notin> set p"
    using split_slash_clean [of _ "up_path u"]
    by (auto simp: redact_version_def redact_bot_def dest!: set_takeWhileD split: if_splits)
  have "?rs \<noteq> []" using split_slash_cons [of "up_path u"] by (auto simp: redact_version_def)
  from split_join [OF this clean] have path: "split_slash (up_path (redact_url u)) = ?rs" by (simp add: redact_url_def)
  have v2: "redact_bot p = ''v2'' \<longleftrightarrow> p = ''v2''" for p by (auto simp: redact_bot_def startswith_def)
  then have before: "takeWhile (\<lambda>p. p \<noteq> ''v2'') (map redact_bot ?ps) = map redact_bot (takeWhile (\<lambda>p. p \<noteq> ''v2'') ?ps)"
    by (simp add: takeWhile_map o_def)
  have "set (split_slash (up_path (redact_url u)))
      \<subseteq> redact_bot ` set (takeWhile (\<lambda>p. p \<noteq> ''v2'') ?ps) \<union> {''<redacted>'', ''v2''}"
  proof (cases "''v2'' \<in> set (map redact_bot ?ps)")
    case True
    then show ?thesis unfolding path redact_version_def before by auto
  next
    case False
    have "redact_bot ''v2'' = ''v2''" using v2 by simp
    with False have "\<forall>p \<in> set ?ps. p \<noteq> ''v2''" by (metis image_eqI set_map)
    then have "takeWhile (\<lambda>p. p \<noteq> ''v2'') ?ps = ?ps" by (simp only: takeWhile_eq_all_conv)
    with False show ?thesis unfolding path redact_version_def by (simp only: if_False set_map) blast
  qed
  moreover have "redact_bot ` Q \<subseteq> {''<redacted-bot>''} \<union> {p \<in> Q. \<not> startswith ''bot'' p}" for Q
    by (auto simp: redact_bot_def)
  ultimately show "set (split_slash (up_path (redact_url u))) \<subseteq> {''<redacted-bot>'', ''<redacted>'', ''v2''}
      \<union> {p \<in> set (takeWhile (\<lambda>p. p \<noteq> ''v2'') ?ps). \<not> startswith ''bot'' p}"
    by blast
qed (simp_all add: redact_url_def)

theorem credentials_redacted_witness:
  "redact_url (telegram_url ''123:secret'') = redact_url (telegram_url ''456:other'')"
  using credentials_redacted [of "''123:secret''" "''456:other''"] by simp

end
