(* ===== verification/Spec2Isabelle.thy ===== *)
theory Spec2Isabelle
  imports Radar_Prelude Models Scoring Rpc_Client Config Policy Invariants Fingerprint Store Incidents
    Traces Simulation State_Diff Proxy Keccak Keccak_Spec Evidence History Abi Call_Graph Asset_Flow Investigation
    Notifier Monitor_State Monitor_Events Monitor Monitor_Facts Monitor_Properties Mempool Mempool_Stream Mempool_Properties Token_Metadata Reconstruction Exploration Attack_Case Token_Properties Exploration_Facts Attack_Properties
    Documents Case_Json Case_Report Bundle_Files Case_Bundle Attack_Report Attack_Bundle Bundle_Properties Attack_Bundle_Properties Telegram_Text Telegram_Properties Reporting Report_Properties
    Graph_Pages Runtime Command_Line Command_Evidence Command_Facts Command_Properties Redaction
begin

text \<open>
  White Radar, a read-only monitor and investigator of EVM chains, in HOL.

  The program (\<^verbatim>\<open>src/white_radar/\<close>, Python) reads chains over JSON-RPC. A monitor scans confirmed
  blocks for deployments, upgrades and protocol invariants, a mempool monitor scores pending
  transactions of watched protocols, and an investigator turns one transaction, or a sequence of
  them around a seed, into a bounded case of evidence. All of them share an SQLite store.

  The development follows the program's layers. Every theory opens with the files it models;
  definitions carry the names of the functions, records those of the classes.

  Foundations. \<open>Radar_Prelude\<close> holds what the source uses of Python: exceptions as a datatype \<open>exn\<close>
  and fallible code as \<open>exn + 'a\<close> with \<open>and_then\<close>; JSON documents as a datatype \<open>json\<close> with
  objects as association lists in insertion order; strings as char lists with the methods the
  source calls (\<^verbatim>\<open>lower\<close>, \<^verbatim>\<open>strip\<close>, \<^verbatim>\<open>split\<close>, \<^verbatim>\<open>int(s, 16)\<close>, \<^verbatim>\<open>bytes.fromhex\<close>, \<^verbatim>\<open>repr\<close>); truthiness and \<open>or\<close>;
  tables of rows with upserts. \<open>Models\<close> is \<^verbatim>\<open>models.py\<close>, \<open>Scoring\<close> is \<^verbatim>\<open>scoring.py\<close>, \<open>Config\<close> is
  \<^verbatim>\<open>config.py\<close>, \<open>Policy\<close> is \<^verbatim>\<open>policy.py\<close>.

  The node. \<open>Rpc_Client\<close> is \<^verbatim>\<open>http.py\<close> and \<^verbatim>\<open>rpc.py\<close>. A network is a function from requests to answers
  or exceptions, a client a record of its endpoints, request counter and active endpoint;
  \<open>client_call\<close> returns the answer, the new client and the requests made. The components that only
  ask questions take a function \<open>rpc\<close> from methods and parameters to results, and \<open>client_view\<close>
  makes one of a client. \<open>Redaction\<close> is the URL in the message of a failed request. \<open>Invariants\<close> is \<^verbatim>\<open>invariants.py\<close>, \<open>Proxy\<close> is \<^verbatim>\<open>proxy.py\<close> and the
  inspection part of \<^verbatim>\<open>enrichment.py\<close>, \<open>Simulation\<close> is \<^verbatim>\<open>simulation.py\<close>.

  The store. \<open>Store\<close> and \<open>Incidents\<close> are \<^verbatim>\<open>storage.py\<close>: every table is a list of rows in insertion
  order, every method the statements it runs, and the clock a parameter. The incident methods
  form a step relation; reachable stores satisfy the invariant behind the audit-trail theorem.

  Evidence. \<open>Fingerprint\<close> is \<^verbatim>\<open>fingerprint.py\<close>; \<open>Keccak\<close> the hash of \<^verbatim>\<open>abi.py\<close>, on unbounded integers
  with masks as the source has it, and \<open>Keccak_Spec\<close> the standard, a sponge over bit strings with its
  own padding, blocks and byte order, over the permutation on 64-bit words, with the proof that
  the two agree; \<open>Abi\<close> the rest of \<^verbatim>\<open>abi.py\<close>; \<open>Traces\<close> is \<^verbatim>\<open>tracing.py\<close> and the trace summary of
  \<^verbatim>\<open>simulation.py\<close>; \<open>State_Diff\<close> is \<^verbatim>\<open>state_diff.py\<close>; \<open>History\<close> is \<^verbatim>\<open>history.py\<close>.

  Cases. \<open>Evidence\<close>, \<open>Call_Graph\<close>, \<open>Asset_Flow\<close> and \<open>Investigation\<close> are \<^verbatim>\<open>investigation.py\<close>, in the order
  of the file: readers of chain data, the flattened call tree and the effect of each call,
  transfers and events, and \<open>investigate_transaction\<close> itself.

  The monitors. \<open>Notifier\<close> is the filter and the delivery of \<^verbatim>\<open>telegram.py\<close>, whose texts come below. \<open>Monitor_State\<close>,
  \<open>Monitor_Events\<close> and \<open>Monitor\<close> are \<^verbatim>\<open>monitor.py\<close>: a method is a function from the store and the scan
  statistics to a result or an exception and both again, so that what was written before an
  exception stays written; \<open>seq\<close> and \<open>each\<close> are statement order and the \<^verbatim>\<open>for\<close> loop. \<open>Mempool\<close> and
  \<open>Mempool_Stream\<close> are \<^verbatim>\<open>mempool.py\<close>: the handling of one message over the state of the ABI resolver and
  its store, and the loop of sessions, where a session is given by what the websocket did.
  \<open>Store_Contract\<close> states what both ask of the store; \<open>Monitor_Facts\<close>, \<open>Monitor_Properties\<close> and
  \<open>Mempool_Properties\<close> prove what they promise.

  Reconstruction. \<open>Token_Metadata\<close> is \<^verbatim>\<open>token_metadata.py\<close>: a case is enriched over the two caches of
  the resolver. \<open>Reconstruction\<close>, \<open>Exploration\<close> and \<open>Attack_Case\<close> are \<^verbatim>\<open>reconstruction.py\<close>, in the order of
  the file: the limits, the reading and ranking of history records; the hop loop over a record
  \<open>exploration\<close> of the variables \<^verbatim>\<open>reconstruct_attack_case\<close> updates, with the history source, the ABI
  resolver and the token caches threaded through it; the aggregates, the coverage and the result.
  \<open>Exploration_Facts\<close> states as a locale \<open>explored\<close> what an invariant of the loop has to satisfy at the
  two points where the state grows, proves it of the whole loop once, and interprets it with
  the budgets, with the provenance of the cases (the answers of the histories the run asked,
  \<open>history_run\<close>) and with the seed that stays; \<open>Attack_Properties\<close> and \<open>Token_Properties\<close> draw the
  properties from it.

  Documents. \<open>Documents\<close> holds what all writers share: \<^verbatim>\<open>_plain\<close>, \<^verbatim>\<open>html.escape\<close>, the CSV dialect, \<^verbatim>\<open>json.dumps\<close>
  with an indent, UTF-8. A finished document is a list of code points (\<open>unicode\<close>), as it holds
  characters above 255. \<open>Telegram_Text\<close> is the message text of \<^verbatim>\<open>telegram.py\<close>, \<open>Reporting\<close> is
  \<^verbatim>\<open>reporting.py\<close>; \<open>Case_Json\<close> the \<^verbatim>\<open>to_dict\<close> forms of cases and reconstructions; \<open>Case_Report\<close>,
  \<open>Case_Bundle\<close> and \<open>Graph_Pages\<close> are \<^verbatim>\<open>case_bundle.py\<close>, \<open>Attack_Report\<close> and \<open>Attack_Bundle\<close> are
  \<^verbatim>\<open>reconstruction_bundle.py\<close>. \<open>Bundle_Files\<close> is the directory both write into, with its refusals, its files
  and its manifest; the locale \<open>bundle_names\<close> is what it asks of a list of file names, and is
  interpreted on the two lists. \<open>Bundle_Properties\<close>, \<open>Attack_Bundle_Properties\<close>, \<open>Telegram_Properties\<close> and
  \<open>Report_Properties\<close> prove completeness, the reading back of tables and graphs, and that no value of an
  event can add markup or headings of its own.

  The command line. \<open>Runtime\<close> is what a command starts from: the settings, \<^verbatim>\<open>load_dotenv\<close>, and a
  record \<open>machine\<close> of everything outside the program, from which the client, the scanner, the
  observer and the notifier are built. \<open>Command_Line\<close> and \<open>Command_Evidence\<close> are \<^verbatim>\<open>cli.py\<close>, one function per
  \<^verbatim>\<open>cmd_\<close> function and \<open>main\<close> over all of them: a command ends with an exit code or the exception that
  left it, what it printed as data, and the store (for \<^verbatim>\<open>investigate\<close> the destination of the bundle).
  \<open>Command_Facts\<close> states as a locale \<open>command_store\<close> what \<open>main\<close> asks of the store, from the contracts of
  the two monitors, and \<open>Command_Properties\<close> composes the components: a cycle over all chains, every
  command on the store, \<^verbatim>\<open>investigate\<close> from the arguments to the files.

  What the lemmas show. Each theory proves the functional behaviour of its operations on every
  branch, errors included; the theorems labelled C1 and on are the properties of the
  program: safety (the client sends read-only methods only, whatever is called; an analysis
  reads one block; a reverted transaction commits no transfer; a bundle is whole or not there),
  invariants (the audit trail of incidents, the outbox and its window of 100, the block cursor, the store every
  command but \<^verbatim>\<open>investigate\<close> leaves), liveness (every chain of a cycle is reported), equivalence with a specification
  (Keccak-256, the call tree, the trace summary), completeness under bounds (state differences,
  histories, timelines, bundles), round trips and error behaviour. Interfaces are locales (the row
  tables of the store, the store as each monitor and the command line use it, the read-only node,
  the history source, the names of a bundle), each interpreted on the model's own definitions.

  Bounds and termination. The caps of the source (frames, logs, transfers, entities, storage
  changes) are the definitions of the same name. Walks over JSON documents terminate by the
  measure \<open>jsize\<close>; every other loop is structural over a list or over the number of attempts
  left; the hop loop is structural over the list of hops \<open>[0..<max_hops]\<close>. The daemon and the observer
  are given by the list of cycles and of connections up to the signal that ends them. No
  definition uses fuel beyond the source's own budgets.

  Hypotheses stand for documented behaviour of code that is not in the repository: SHA-256,
  BLAKE2b, the clock, the explorer services and the network are parameters. The characters of
  the texts a program reads are those below 256, and decoding UTF-8 is a parameter of the token
  resolver; what an investigation that raised has left in the ABI resolver is a parameter of the
  reconstruction. A text read outside that range is not modelled, nor are floats except for the
  retry delays and the similarity thresholds, which are exact rationals.

  Not modelled. \<^verbatim>\<open>logging.py\<close> is a formatter of the logging library, and nothing that is logged is
  modelled; of \<^verbatim>\<open>build_parser\<close> only the defaults of \<^verbatim>\<open>investigate\<close> are, as reading the arguments is
  \<^verbatim>\<open>argparse\<close>; the TOML parser, paths, file modes and errors of the file system other than a name
  that is a directory are outside; so is what a browser makes of the graph pages. SQLite's
  concurrency and durability are assumed. Of \<^verbatim>\<open>mempool.py\<close> cancellation and the heartbeat task that
  runs beside the stream are left out; of \<^verbatim>\<open>investigate\<close> the ABI catalogs it stores on its way.
\<close>

end
